(* ===== verification/Prelude.thy ===== *)
theory Prelude
  imports Main "HOL-Library.Word"
begin

text \<open>
  Shared vocabulary of the development: machine integer types, the small part of
  \<^verbatim>\<open>std::optional\<close> and \<^verbatim>\<open>std::string\<close> every component uses, generic list lemmas,
  and the interface locales that several components instantiate.

  \<^item> \<open>machine\<close>: an operation set with a partial step function (\<open>None\<close> is undefined
    behaviour of the C++ code), an invariant and a progress law; every run from a good
    state stays good and never becomes undefined.
  \<^item> \<open>total_machine\<close>: the same for total steps, a \<open>sublocale\<close> of \<open>machine\<close>.
  \<^item> \<open>keyed_store\<close>: a save/load pair over a key, as the in-memory checkpoint and session
    tables provide it.
\<close>

section \<open>Machine integers and optional values\<close>

type_synonym u8 = "8 word"
type_synonym u32 = "32 word"
type_synonym u64 = "64 word"

text \<open>
  Signed 64-bit values are kept as \<^typ>\<open>int\<close>; \<open>is_i64\<close> is their range. Every place of
  the code where a signed operation could leave the range is an explicit branch of the
  model.
\<close>

definition is_i64 :: "int \<Rightarrow> bool" where
  "is_i64 x \<longleftrightarrow> - (2 ^ 63) \<le> x \<and> x < 2 ^ 63"

definition value_or :: "'a option \<Rightarrow> 'a \<Rightarrow> 'a" where
  "value_or v d = (case v of Some x \<Rightarrow> x | None \<Rightarrow> d)"

lemma value_or_simps [simp]:
  "value_or None d = d"
  "value_or (Some x) d = x"
  by (simp_all add: value_or_def)

abbreviation has_value :: "'a option \<Rightarrow> bool" where
  "has_value v \<equiv> v \<noteq> None"

abbreviation empty_string :: "string \<Rightarrow> bool" where
  "empty_string s \<equiv> s = []"

text \<open>\<^verbatim>\<open>std::isspace\<close> in the C locale.\<close>

definition isspace :: "char \<Rightarrow> bool" where
  "isspace c \<longleftrightarrow> c = CHR '' '' \<or> (9 \<le> (of_char c :: nat) \<and> (of_char c :: nat) \<le> 13)"

text \<open>\<^verbatim>\<open>std::tolower\<close> in the C locale.\<close>

definition to_lower :: "char \<Rightarrow> char" where
  "to_lower c =
     (let n = (of_char c :: nat) in if 65 \<le> n \<and> n \<le> 90 then char_of (n + 32) else c)"

text \<open>\<^verbatim>\<open>std::isalnum\<close> in the C locale.\<close>

definition isalnum :: "char \<Rightarrow> bool" where
  "isalnum c \<longleftrightarrow>
     (let n = (of_char c :: nat)
      in 48 \<le> n \<and> n \<le> 57 \<or> 65 \<le> n \<and> n \<le> 90 \<or> 97 \<le> n \<and> n \<le> 122)"

section \<open>Proof collections\<close>

named_theorems outcome_simps "constructor functions of result records"
named_theorems guard_defs "contract validation functions"
named_theorems op_defs "operations of a component"
named_theorems log_defs "log attribute builders"

section \<open>Lists\<close>

text \<open>Removing the first element that satisfies a predicate, as a scan and erase does.\<close>

fun extract_first :: "('a \<Rightarrow> bool) \<Rightarrow> 'a list \<Rightarrow> ('a \<times> 'a list) option" where
  "extract_first P [] = None"
| "extract_first P (x # xs) =
     (if P x then Some (x, xs)
      else map_option (\<lambda>(y, ys). (y, x # ys)) (extract_first P xs))"

lemma extract_first_None: "extract_first P xs = None \<longleftrightarrow> (\<forall>x\<in>set xs. \<not> P x)"
  by (induction xs) auto

lemma extract_first_Some:
  assumes "extract_first P xs = Some (y, ys)"
  shows "\<exists>as bs. xs = as @ y # bs \<and> ys = as @ bs \<and> P y \<and> (\<forall>a\<in>set as. \<not> P a)"
  using assms
proof (induction xs arbitrary: ys)
  case Nil
  then show ?case by simp
next
  case (Cons x xs)
  show ?case
  proof (cases "P x")
    case True
    with Cons.prems have "x # xs = [] @ y # ys \<and> ys = [] @ ys \<and> P y" by simp
    then show ?thesis by (intro exI [of _ "[]"] exI [of _ ys]) simp
  next
    case False
    with Cons.prems obtain zs where zs: "extract_first P xs = Some (y, zs)" "ys = x # zs"
      by auto
    from Cons.IH [OF zs(1)] obtain as bs
      where "xs = as @ y # bs" "zs = as @ bs" "P y" "\<forall>a\<in>set as. \<not> P a" by blast
    with False zs(2) have "x # xs = (x # as) @ y # bs \<and> ys = (x # as) @ bs \<and> P y
        \<and> (\<forall>a\<in>set (x # as). \<not> P a)" by simp
    then show ?thesis by blast
  qed
qed

lemma extract_first_length:
  "extract_first P xs = Some (y, ys) \<Longrightarrow> length xs = Suc (length ys)"
  by (drule extract_first_Some) auto

lemma extract_first_set:
  "extract_first P xs = Some (y, ys) \<Longrightarrow> set xs = insert y (set ys)"
  by (drule extract_first_Some) auto

lemma find_Some_first:
  "List.find P xs = Some x \<Longrightarrow> x \<in> set xs \<and> P x"
  by (induction xs) (auto split: if_splits)

section \<open>Runs of a component\<close>

fun run_machine :: "('s \<Rightarrow> 'e \<Rightarrow> 's option) \<Rightarrow> 's \<Rightarrow> 'e list \<Rightarrow> 's option" where
  "run_machine step s [] = Some s"
| "run_machine step s (e # es) =
     (case step s e of None \<Rightarrow> None | Some t \<Rightarrow> run_machine step t es)"

text \<open>
  The contract of a component whose operations are the events: each operation is defined
  and keeps the invariant. \<open>ok\<close> restricts the events to the calls the contract covers.
\<close>

locale machine =
  fixes step :: "'s \<Rightarrow> 'e \<Rightarrow> 's option"
    and inv :: "'s \<Rightarrow> bool"
    and ok :: "'e \<Rightarrow> bool"
  assumes progress: "inv s \<Longrightarrow> ok e \<Longrightarrow> \<exists>t. step s e = Some t"
    and preserve: "inv s \<Longrightarrow> ok e \<Longrightarrow> step s e = Some t \<Longrightarrow> inv t"
begin

lemma run_defined:
  assumes "inv s" and "\<forall>e\<in>set es. ok e"
  shows "\<exists>t. run_machine step s es = Some t \<and> inv t"
  using assms
proof (induction es arbitrary: s)
  case Nil
  then show ?case by simp
next
  case (Cons e es)
  then obtain t where t: "step s e = Some t" using progress by fastforce
  with Cons.prems have "inv t" using preserve by auto
  with Cons obtain u where "run_machine step t es = Some u \<and> inv u" by auto
  with t show ?case by simp
qed

lemma run_invariant:
  "inv s \<Longrightarrow> \<forall>e\<in>set es. ok e \<Longrightarrow> run_machine step s es = Some t \<Longrightarrow> inv t"
  using run_defined [of s es] by auto

end

locale total_machine =
  fixes tstep :: "'s \<Rightarrow> 'e \<Rightarrow> 's"
    and tinv :: "'s \<Rightarrow> bool"
  assumes tpreserve: "tinv s \<Longrightarrow> tinv (tstep s e)"

sublocale total_machine \<subseteq> tm: machine "\<lambda>s e. Some (tstep s e)" tinv "\<lambda>_. True"
  by unfold_locales (auto intro: tpreserve)

context total_machine begin

lemma fold_invariant: "tinv s \<Longrightarrow> tinv (foldl tstep s es)"
  by (induction es arbitrary: s) (auto intro: tpreserve)

end

section \<open>Keyed stores\<close>

text \<open>
  What a client of a keyed table relies on: reading back the key just written gives the
  value written, and no other key changes.
\<close>

locale keyed_store =
  fixes put :: "'s \<Rightarrow> 'k \<Rightarrow> 'v \<Rightarrow> 's"
    and get :: "'s \<Rightarrow> 'k \<Rightarrow> 'v option"
  assumes get_put_same: "get (put s k v) k = Some v"
    and get_put_other: "k' \<noteq> k \<Longrightarrow> get (put s k v) k' = get s k'"
begin

lemma get_after_puts:
  "get (foldl (\<lambda>s (k, v). put s k v) s kvs) k =
     (case map_of (rev kvs) k of Some v \<Rightarrow> Some v | None \<Rightarrow> get s k)"
proof (induction kvs rule: rev_induct)
  case Nil
  then show ?case by simp
next
  case (snoc kv kvs)
  obtain k' v where "kv = (k', v)" by (cases kv)
  with snoc show ?case
    by (cases "k = k'") (simp_all add: get_put_same get_put_other)
qed

end

end
