(* ===== verification/Runtime_Types.thy ===== *)
theory Runtime_Types
  imports Prelude
begin

text \<open>
  Enumerations shared by the runtime components: \<^verbatim>\<open>RuntimeErrorCode\<close> with its domain
  classification (\<^verbatim>\<open>runtime/include/RuntimeErrorCode.h\<close>), the checkpoint state of the
  contracts layer, and the runtime FSM states with their names
  (\<^verbatim>\<open>runtime/include/fsm/StateTransitionTypes.h\<close>).

  A C++ enumeration with a fixed underlying type can hold a value that is no enumerator:
  the durable stores cast integers read from a file to \<^verbatim>\<open>RuntimeState\<close> and
  \<^verbatim>\<open>CheckpointState\<close>. Both types therefore carry an extra constructor for such values.
\<close>

section \<open>Runtime error codes\<close>

datatype RuntimeErrorDomain =
    ErrorDomain_Unknown
  | ConfigurationAndInitialization
  | FsmAndStateTransition
  | BudgetAndProtection
  | SessionAndCheckpoint
  | RecoveryAndSafety
  | DownstreamTimeoutAndCommunication

datatype RuntimeErrorCode =
    RT_E_000_UNSPECIFIED
  | RT_E_100_CONFIG_MISSING
  | RT_E_101_PROFILE_INVALID
  | RT_E_102_DEPENDENCY_UNAVAILABLE
  | RT_E_200_ILLEGAL_TRANSITION
  | RT_E_201_GUARD_VIOLATED
  | RT_E_202_STATE_INCONSISTENT
  | RT_E_300_BUDGET_EXHAUSTED
  | RT_E_301_TURN_OVERRUN
  | RT_E_302_TOOL_CALL_OVERRUN
  | RT_E_303_LATENCY_OVERRUN
  | RT_E_304_REPLAN_OVERRUN
  | RT_E_400_SESSION_NOT_FOUND
  | RT_E_401_SESSION_INCONSISTENT
  | RT_E_410_CHECKPOINT_CORRUPT
  | RT_E_411_CHECKPOINT_SAVE_FAILED
  | RT_E_412_RESUME_REJECTED
  | RT_E_500_RECOVERY_REJECTED
  | RT_E_501_RECOVERY_ESCALATED
  | RT_E_510_SAFE_MODE_ENTERED
  | RT_E_511_DEGRADE_ENTERED
  | RT_E_600_LLM_TIMEOUT
  | RT_E_601_TOOL_TIMEOUT
  | RT_E_602_MEMORY_TIMEOUT
  | RT_E_603_KNOWLEDGE_TIMEOUT

text \<open>The numeric value of a code, what \<^verbatim>\<open>static_cast<int>\<close> reads.\<close>

fun runtime_error_code_value :: "RuntimeErrorCode \<Rightarrow> int" where
  "runtime_error_code_value RT_E_000_UNSPECIFIED = 0"
| "runtime_error_code_value RT_E_100_CONFIG_MISSING = 100"
| "runtime_error_code_value RT_E_101_PROFILE_INVALID = 101"
| "runtime_error_code_value RT_E_102_DEPENDENCY_UNAVAILABLE = 102"
| "runtime_error_code_value RT_E_200_ILLEGAL_TRANSITION = 200"
| "runtime_error_code_value RT_E_201_GUARD_VIOLATED = 201"
| "runtime_error_code_value RT_E_202_STATE_INCONSISTENT = 202"
| "runtime_error_code_value RT_E_300_BUDGET_EXHAUSTED = 300"
| "runtime_error_code_value RT_E_301_TURN_OVERRUN = 301"
| "runtime_error_code_value RT_E_302_TOOL_CALL_OVERRUN = 302"
| "runtime_error_code_value RT_E_303_LATENCY_OVERRUN = 303"
| "runtime_error_code_value RT_E_304_REPLAN_OVERRUN = 304"
| "runtime_error_code_value RT_E_400_SESSION_NOT_FOUND = 400"
| "runtime_error_code_value RT_E_401_SESSION_INCONSISTENT = 401"
| "runtime_error_code_value RT_E_410_CHECKPOINT_CORRUPT = 410"
| "runtime_error_code_value RT_E_411_CHECKPOINT_SAVE_FAILED = 411"
| "runtime_error_code_value RT_E_412_RESUME_REJECTED = 412"
| "runtime_error_code_value RT_E_500_RECOVERY_REJECTED = 500"
| "runtime_error_code_value RT_E_501_RECOVERY_ESCALATED = 501"
| "runtime_error_code_value RT_E_510_SAFE_MODE_ENTERED = 510"
| "runtime_error_code_value RT_E_511_DEGRADE_ENTERED = 511"
| "runtime_error_code_value RT_E_600_LLM_TIMEOUT = 600"
| "runtime_error_code_value RT_E_601_TOOL_TIMEOUT = 601"
| "runtime_error_code_value RT_E_602_MEMORY_TIMEOUT = 602"
| "runtime_error_code_value RT_E_603_KNOWLEDGE_TIMEOUT = 603"

fun runtime_error_domain_name :: "RuntimeErrorDomain \<Rightarrow> string" where
  "runtime_error_domain_name ConfigurationAndInitialization = ''configuration_and_initialization''"
| "runtime_error_domain_name FsmAndStateTransition = ''fsm_and_state_transition''"
| "runtime_error_domain_name BudgetAndProtection = ''budget_and_protection''"
| "runtime_error_domain_name SessionAndCheckpoint = ''session_and_checkpoint''"
| "runtime_error_domain_name RecoveryAndSafety = ''recovery_and_safety''"
| "runtime_error_domain_name DownstreamTimeoutAndCommunication =
     ''downstream_timeout_and_communication''"
| "runtime_error_domain_name ErrorDomain_Unknown = ''unknown''"

definition classify_runtime_error_code_value :: "int \<Rightarrow> RuntimeErrorDomain" where
  "classify_runtime_error_code_value raw_code =
     (if raw_code \<ge> 100 \<and> raw_code \<le> 199 then ConfigurationAndInitialization
      else if raw_code \<ge> 200 \<and> raw_code \<le> 299 then FsmAndStateTransition
      else if raw_code \<ge> 300 \<and> raw_code \<le> 399 then BudgetAndProtection
      else if raw_code \<ge> 400 \<and> raw_code \<le> 499 then SessionAndCheckpoint
      else if raw_code \<ge> 500 \<and> raw_code \<le> 599 then RecoveryAndSafety
      else if raw_code \<ge> 600 \<and> raw_code \<le> 699 then DownstreamTimeoutAndCommunication
      else ErrorDomain_Unknown)"

definition classify_runtime_error_code :: "RuntimeErrorCode \<Rightarrow> RuntimeErrorDomain" where
  "classify_runtime_error_code code =
     classify_runtime_error_code_value (runtime_error_code_value code)"

definition is_known_runtime_error_code :: "int \<Rightarrow> bool" where
  "is_known_runtime_error_code raw_code \<longleftrightarrow>
     classify_runtime_error_code_value raw_code \<noteq> ErrorDomain_Unknown"

section \<open>Checkpoint states\<close>

datatype CheckpointState =
    CS_Unspecified | CS_Running | CS_Paused | CS_WaitingConfirm | CS_WaitingTool
  | CS_Failed | CS_Succeeded
  | CS_Raw int \<comment> \<open>a value that is no enumerator; well formed only outside 0..6\<close>

fun checkpoint_state_value :: "CheckpointState \<Rightarrow> int" where
  "checkpoint_state_value CS_Unspecified = 0"
| "checkpoint_state_value CS_Running = 1"
| "checkpoint_state_value CS_Paused = 2"
| "checkpoint_state_value CS_WaitingConfirm = 3"
| "checkpoint_state_value CS_WaitingTool = 4"
| "checkpoint_state_value CS_Failed = 5"
| "checkpoint_state_value CS_Succeeded = 6"
| "checkpoint_state_value (CS_Raw i) = i"

definition checkpoint_state_of_value :: "int \<Rightarrow> CheckpointState" where
  "checkpoint_state_of_value i =
     (if i = 0 then CS_Unspecified else if i = 1 then CS_Running
      else if i = 2 then CS_Paused else if i = 3 then CS_WaitingConfirm
      else if i = 4 then CS_WaitingTool else if i = 5 then CS_Failed
      else if i = 6 then CS_Succeeded else CS_Raw i)"

fun checkpoint_state_wf :: "CheckpointState \<Rightarrow> bool" where
  "checkpoint_state_wf (CS_Raw i) = (i < 0 \<or> 6 < i)"
| "checkpoint_state_wf _ = True"

lemma checkpoint_state_of_value_inverse [simp]:
  "checkpoint_state_wf s \<Longrightarrow> checkpoint_state_of_value (checkpoint_state_value s) = s"
  by (cases s) (auto simp: checkpoint_state_of_value_def)

section \<open>Runtime states\<close>

datatype RuntimeState =
    Idle | Receiving | Planning | Reasoning | WaitingClarify | WaitingConfirm
  | ToolCalling | WaitingExternal | Reflecting | FailedSafe | Responding | Auditing
  | Persisting | Completed | Failed | Degraded | SafeMode
  | RuntimeState_Raw u8 \<comment> \<open>a value that is no enumerator\<close>

definition runtime_state_catalog :: "RuntimeState list" where
  "runtime_state_catalog =
     [Idle, Receiving, Planning, Reasoning, WaitingClarify, WaitingConfirm, ToolCalling,
      WaitingExternal, Reflecting, FailedSafe, Responding, Auditing, Persisting,
      Completed, Failed, Degraded, SafeMode]"

fun runtime_state_name :: "RuntimeState \<Rightarrow> string" where
  "runtime_state_name Idle = ''Idle''"
| "runtime_state_name Receiving = ''Receiving''"
| "runtime_state_name Planning = ''Planning''"
| "runtime_state_name Reasoning = ''Reasoning''"
| "runtime_state_name WaitingClarify = ''WaitingClarify''"
| "runtime_state_name WaitingConfirm = ''WaitingConfirm''"
| "runtime_state_name ToolCalling = ''ToolCalling''"
| "runtime_state_name WaitingExternal = ''WaitingExternal''"
| "runtime_state_name Reflecting = ''Reflecting''"
| "runtime_state_name FailedSafe = ''FailedSafe''"
| "runtime_state_name Responding = ''Responding''"
| "runtime_state_name Auditing = ''Auditing''"
| "runtime_state_name Persisting = ''Persisting''"
| "runtime_state_name Completed = ''Completed''"
| "runtime_state_name Failed = ''Failed''"
| "runtime_state_name Degraded = ''Degraded''"
| "runtime_state_name SafeMode = ''SafeMode''"
| "runtime_state_name (RuntimeState_Raw _) = ''Unknown''"

lemma runtime_state_name_nonempty [simp]: "runtime_state_name s \<noteq> []"
  by (cases s) simp_all

lemma runtime_state_in_catalog:
  "s \<in> set runtime_state_catalog \<longleftrightarrow> (\<forall>w. s \<noteq> RuntimeState_Raw w)"
  by (cases s) (simp_all add: runtime_state_catalog_def)

text \<open>The enumerator's position, as \<^verbatim>\<open>static_cast<int>\<close> reads it.\<close>

fun runtime_state_value :: "RuntimeState \<Rightarrow> nat" where
  "runtime_state_value Idle = 0"
| "runtime_state_value Receiving = 1"
| "runtime_state_value Planning = 2"
| "runtime_state_value Reasoning = 3"
| "runtime_state_value WaitingClarify = 4"
| "runtime_state_value WaitingConfirm = 5"
| "runtime_state_value ToolCalling = 6"
| "runtime_state_value WaitingExternal = 7"
| "runtime_state_value Reflecting = 8"
| "runtime_state_value FailedSafe = 9"
| "runtime_state_value Responding = 10"
| "runtime_state_value Auditing = 11"
| "runtime_state_value Persisting = 12"
| "runtime_state_value Completed = 13"
| "runtime_state_value Failed = 14"
| "runtime_state_value Degraded = 15"
| "runtime_state_value SafeMode = 16"
| "runtime_state_value (RuntimeState_Raw w) = unat w"

fun runtime_state_wf :: "RuntimeState \<Rightarrow> bool" where
  "runtime_state_wf (RuntimeState_Raw w) = (16 < unat w)"
| "runtime_state_wf _ = True"

text \<open>\<^verbatim>\<open>static_cast<RuntimeState>\<close> of an unsigned integer: the low eight bits select.\<close>

definition runtime_state_of_value :: "nat \<Rightarrow> RuntimeState" where
  "runtime_state_of_value n =
     (let b = n mod 256
      in if b < length runtime_state_catalog then runtime_state_catalog ! b
         else RuntimeState_Raw (word_of_nat b))"

lemma runtime_state_value_byte [simp]: "runtime_state_value s < 256"
proof (cases s)
  case (RuntimeState_Raw w)
  have "unat w < 2 ^ LENGTH(8)" by (rule unsigned_less)
  with RuntimeState_Raw show ?thesis by simp
qed simp_all

lemma runtime_state_of_value_inverse [simp]:
  "runtime_state_wf s \<Longrightarrow> runtime_state_of_value (runtime_state_value s) = s"
proof (cases s)
  case (RuntimeState_Raw w)
  moreover assume "runtime_state_wf s"
  moreover have "unat w < 2 ^ LENGTH(8)" by (rule unsigned_less)
  ultimately show ?thesis
    by (simp add: runtime_state_of_value_def runtime_state_catalog_def)
qed (simp_all add: runtime_state_of_value_def runtime_state_catalog_def Let_def)

end
