(* ===== verification/Agent_Fsm.thy ===== *)
theory Agent_Fsm
  imports Runtime_Types
begin

text \<open>
  The agent state machine: the transition request and outcome types
  (\<^verbatim>\<open>runtime/include/fsm/StateTransitionTypes.h\<close>), the guard table
  (\<^verbatim>\<open>runtime/src/fsm/TransitionGuardTable.cpp\<close>) and \<^verbatim>\<open>AgentFsm\<close>
  (\<^verbatim>\<open>runtime/src/fsm/AgentFsm.cpp\<close>). The mutex of the class makes each call one atomic
  step, so the state is a record and \<open>transition\<close> returns the new one with its outcome.
  The locale \<open>transition_table\<close> states what the machine relies on in the table.
\<close>

section \<open>Types of the transition protocol\<close>

datatype TransitionGuardFact =
    AgentRequestAvailable | FacadeInitialized | RequestValidated | SessionLoaded
  | BudgetInitialized | ContextAssembled | ClarificationNeeded | ProfileAllowsClarify
  | HighRiskConfirmationRequired | UserConfirmationGranted | ToolCallPlanned
  | BudgetAllowsToolCall | ToolDispatchSubmitted | ExternalResultAvailable
  | ReflectionContinue | RecoveryRetryAllowed | RecoveryReplanAllowed | RecoveryAbortSafe
  | RecoveryDegrade | DirectResponseReady | ResponseMaterialized | AuditCommitted
  | PersistenceConfirmed | ResultReturned | RecoveryRejected | DegradeAllowed
  | SafeModeTriggerSatisfied

datatype TransitionViolationType =
    IllegalTransition | SourceStateMismatch | MissingGuardFact | GuardRejected
  | TerminalStateExit

datatype CheckpointMutationKind =
    Mutation_None | Mutation_Write | Mutation_Update | Mutation_Retain
  | Mutation_ClearActiveReference

record StateTransitionCheckpointHint =
  mutation :: CheckpointMutationKind
  checkpoint_state :: "CheckpointState option"
  pending_action_required :: bool

definition default_checkpoint_hint :: StateTransitionCheckpointHint where
  "default_checkpoint_hint =
     \<lparr>mutation = Mutation_None, checkpoint_state = None, pending_action_required = False\<rparr>"

definition writes_checkpoint :: "StateTransitionCheckpointHint \<Rightarrow> bool" where
  "writes_checkpoint h \<longleftrightarrow> mutation h = Mutation_Write \<or> mutation h = Mutation_Update"

record StateTransitionRequest =
  from_state :: RuntimeState
  requested_to :: RuntimeState
  transition_reason :: string
  guard_facts :: "TransitionGuardFact list"

fun has_guard_loop :: "TransitionGuardFact list \<Rightarrow> TransitionGuardFact \<Rightarrow> bool" where
  "has_guard_loop [] f = False"
| "has_guard_loop (candidate # cs) f =
     (if candidate = f then True else has_guard_loop cs f)"

definition has_guard :: "StateTransitionRequest \<Rightarrow> TransitionGuardFact \<Rightarrow> bool" where
  "has_guard request f = has_guard_loop (guard_facts request) f"

record TransitionRejectionReason =
  rej_from_state :: RuntimeState
  rej_requested_to :: RuntimeState
  rej_violation_type :: TransitionViolationType
  rej_violated_guard :: "TransitionGuardFact option"
  rej_detail :: string

record StateTransitionOutcome =
  accepted :: bool
  previous_state :: RuntimeState
  resolved_state :: RuntimeState
  out_transition_reason :: string
  checkpoint_hint :: StateTransitionCheckpointHint
  rejection_reason :: "TransitionRejectionReason option"

definition make_transition_outcome ::
  "StateTransitionRequest \<Rightarrow> RuntimeState \<Rightarrow> StateTransitionCheckpointHint \<Rightarrow> StateTransitionOutcome"
where [outcome_simps]:
  "make_transition_outcome request resolved hint =
     \<lparr>accepted = True, previous_state = from_state request, resolved_state = resolved,
      out_transition_reason = transition_reason request, checkpoint_hint = hint,
      rejection_reason = None\<rparr>"

definition make_rejected_outcome ::
  "StateTransitionRequest \<Rightarrow> RuntimeState \<Rightarrow> TransitionViolationType \<Rightarrow> string \<Rightarrow>
   TransitionGuardFact option \<Rightarrow> StateTransitionOutcome"
where [outcome_simps]:
  "make_rejected_outcome request current violation detail guard =
     \<lparr>accepted = False, previous_state = current, resolved_state = current,
      out_transition_reason = transition_reason request,
      checkpoint_hint = default_checkpoint_hint,
      rejection_reason = Some
        \<lparr>rej_from_state = current, rej_requested_to = requested_to request,
         rej_violation_type = violation, rej_violated_guard = guard, rej_detail = detail\<rparr>\<rparr>"

section \<open>The guard table\<close>

record TransitionGuardRule =
  all_of :: "TransitionGuardFact list"
  any_of :: "TransitionGuardFact list"

record TransitionRule =
  rule_from :: RuntimeState
  rule_to :: RuntimeState
  rule_guard :: TransitionGuardRule
  checkpoint_strategy :: StateTransitionCheckpointHint

definition require_all :: "TransitionGuardFact list \<Rightarrow> TransitionGuardRule" where
  "require_all facts = \<lparr>all_of = facts, any_of = []\<rparr>"

definition require_any :: "TransitionGuardFact list \<Rightarrow> TransitionGuardRule" where
  "require_any facts = \<lparr>all_of = [], any_of = facts\<rparr>"

definition no_guards :: TransitionGuardRule where
  "no_guards = \<lparr>all_of = [], any_of = []\<rparr>"

definition mk_hint ::
  "CheckpointMutationKind \<Rightarrow> CheckpointState option \<Rightarrow> bool \<Rightarrow> StateTransitionCheckpointHint"
where
  "mk_hint m s pending =
     \<lparr>mutation = m, checkpoint_state = s, pending_action_required = pending\<rparr>"

definition mk_rule ::
  "RuntimeState \<Rightarrow> RuntimeState \<Rightarrow> TransitionGuardRule \<Rightarrow> StateTransitionCheckpointHint \<Rightarrow>
   TransitionRule"
where
  "mk_rule f t g h = \<lparr>rule_from = f, rule_to = t, rule_guard = g, checkpoint_strategy = h\<rparr>"

text \<open>\<open>kRules\<close>, in the order of the source.\<close>

definition transition_rules :: "TransitionRule list" where
  "transition_rules =
   [mk_rule Idle Receiving (require_all [AgentRequestAvailable, FacadeInitialized])
      (mk_hint Mutation_None None False),
    mk_rule Receiving Planning
      (require_all [RequestValidated, SessionLoaded, BudgetInitialized])
      (mk_hint Mutation_Write (Some CS_Running) False),
    mk_rule Planning Reasoning (require_all [ContextAssembled])
      (mk_hint Mutation_Write (Some CS_Running) False),
    mk_rule Reasoning WaitingClarify (require_all [ClarificationNeeded, ProfileAllowsClarify])
      (mk_hint Mutation_Write (Some CS_Paused) True),
    mk_rule WaitingClarify Receiving (require_all [AgentRequestAvailable])
      (mk_hint Mutation_Update (Some CS_Running) False),
    mk_rule Reasoning WaitingConfirm (require_all [HighRiskConfirmationRequired])
      (mk_hint Mutation_Write (Some CS_WaitingConfirm) True),
    mk_rule WaitingConfirm ToolCalling (require_all [UserConfirmationGranted])
      (mk_hint Mutation_Update (Some CS_Running) False),
    mk_rule Reasoning ToolCalling (require_all [ToolCallPlanned, BudgetAllowsToolCall])
      (mk_hint Mutation_Write (Some CS_Running) False),
    mk_rule ToolCalling WaitingExternal (require_all [ToolDispatchSubmitted])
      (mk_hint Mutation_Write (Some CS_WaitingTool) True),
    mk_rule WaitingExternal Reflecting (require_all [ExternalResultAvailable])
      (mk_hint Mutation_Update (Some CS_Running) False),
    mk_rule Reflecting Reasoning
      (require_any [ReflectionContinue, RecoveryRetryAllowed, RecoveryReplanAllowed])
      (mk_hint Mutation_Write (Some CS_Running) False),
    mk_rule Reflecting FailedSafe (require_all [RecoveryAbortSafe])
      (mk_hint Mutation_Write (Some CS_Failed) False),
    mk_rule Reflecting Degraded (require_all [RecoveryDegrade])
      (mk_hint Mutation_Write (Some CS_Failed) False),
    mk_rule Reasoning Responding (require_all [DirectResponseReady])
      (mk_hint Mutation_Write (Some CS_Running) False),
    mk_rule FailedSafe Responding no_guards (mk_hint Mutation_Retain (Some CS_Failed) False),
    mk_rule Degraded Responding no_guards (mk_hint Mutation_Retain (Some CS_Failed) False),
    mk_rule SafeMode Responding no_guards (mk_hint Mutation_Retain (Some CS_Failed) False),
    mk_rule Responding Auditing (require_all [ResponseMaterialized])
      (mk_hint Mutation_None None False),
    mk_rule Auditing Persisting (require_all [AuditCommitted])
      (mk_hint Mutation_None None False),
    mk_rule Persisting Completed (require_all [PersistenceConfirmed])
      (mk_hint Mutation_Write (Some CS_Succeeded) False),
    mk_rule Completed Idle (require_all [ResultReturned])
      (mk_hint Mutation_ClearActiveReference None False),
    mk_rule Reasoning Failed (require_all [RecoveryRejected])
      (mk_hint Mutation_Write (Some CS_Failed) False),
    mk_rule WaitingExternal Failed (require_all [RecoveryRejected])
      (mk_hint Mutation_Write (Some CS_Failed) False),
    mk_rule Failed Degraded (require_all [DegradeAllowed])
      (mk_hint Mutation_Retain (Some CS_Failed) False),
    mk_rule Degraded SafeMode (require_all [SafeModeTriggerSatisfied])
      (mk_hint Mutation_Retain (Some CS_Failed) False)]"

definition find_rule :: "RuntimeState \<Rightarrow> RuntimeState \<Rightarrow> TransitionRule option" where
  "find_rule f t = List.find (\<lambda>rule. rule_from rule = f \<and> rule_to rule = t) transition_rules"

definition first_unsatisfied_guard ::
  "TransitionGuardRule \<Rightarrow> StateTransitionRequest \<Rightarrow> TransitionGuardFact option"
where
  "first_unsatisfied_guard rule request =
     (case List.find (\<lambda>f. \<not> has_guard request f) (all_of rule) of
        Some f \<Rightarrow> Some f
      | None \<Rightarrow>
          (case any_of rule of
             [] \<Rightarrow> None
           | front # _ \<Rightarrow>
               (case List.find (has_guard request) (any_of rule) of
                  Some _ \<Rightarrow> None
                | None \<Rightarrow> Some front)))"

definition satisfied_by :: "TransitionGuardRule \<Rightarrow> StateTransitionRequest \<Rightarrow> bool" where
  "satisfied_by rule request \<longleftrightarrow> \<not> has_value (first_unsatisfied_guard rule request)"

definition is_legal :: "RuntimeState \<Rightarrow> RuntimeState \<Rightarrow> bool" where
  "is_legal f t \<longleftrightarrow> find_rule f t \<noteq> None"

definition get_guard :: "RuntimeState \<Rightarrow> RuntimeState \<Rightarrow> TransitionGuardRule option" where
  "get_guard f t = (case find_rule f t of None \<Rightarrow> None | Some rule \<Rightarrow> Some (rule_guard rule))"

definition get_checkpoint_strategy ::
  "RuntimeState \<Rightarrow> RuntimeState \<Rightarrow> StateTransitionCheckpointHint option"
where
  "get_checkpoint_strategy f t =
     (case find_rule f t of None \<Rightarrow> None | Some rule \<Rightarrow> Some (checkpoint_strategy rule))"

section \<open>The machine\<close>

fun guard_fact_name :: "TransitionGuardFact \<Rightarrow> string" where
  "guard_fact_name AgentRequestAvailable = ''AgentRequestAvailable''"
| "guard_fact_name FacadeInitialized = ''FacadeInitialized''"
| "guard_fact_name RequestValidated = ''RequestValidated''"
| "guard_fact_name SessionLoaded = ''SessionLoaded''"
| "guard_fact_name BudgetInitialized = ''BudgetInitialized''"
| "guard_fact_name ContextAssembled = ''ContextAssembled''"
| "guard_fact_name ClarificationNeeded = ''ClarificationNeeded''"
| "guard_fact_name ProfileAllowsClarify = ''ProfileAllowsClarify''"
| "guard_fact_name HighRiskConfirmationRequired = ''HighRiskConfirmationRequired''"
| "guard_fact_name UserConfirmationGranted = ''UserConfirmationGranted''"
| "guard_fact_name ToolCallPlanned = ''ToolCallPlanned''"
| "guard_fact_name BudgetAllowsToolCall = ''BudgetAllowsToolCall''"
| "guard_fact_name ToolDispatchSubmitted = ''ToolDispatchSubmitted''"
| "guard_fact_name ExternalResultAvailable = ''ExternalResultAvailable''"
| "guard_fact_name ReflectionContinue = ''ReflectionContinue''"
| "guard_fact_name RecoveryRetryAllowed = ''RecoveryRetryAllowed''"
| "guard_fact_name RecoveryReplanAllowed = ''RecoveryReplanAllowed''"
| "guard_fact_name RecoveryAbortSafe = ''RecoveryAbortSafe''"
| "guard_fact_name RecoveryDegrade = ''RecoveryDegrade''"
| "guard_fact_name DirectResponseReady = ''DirectResponseReady''"
| "guard_fact_name ResponseMaterialized = ''ResponseMaterialized''"
| "guard_fact_name AuditCommitted = ''AuditCommitted''"
| "guard_fact_name PersistenceConfirmed = ''PersistenceConfirmed''"
| "guard_fact_name ResultReturned = ''ResultReturned''"
| "guard_fact_name RecoveryRejected = ''RecoveryRejected''"
| "guard_fact_name DegradeAllowed = ''DegradeAllowed''"
| "guard_fact_name SafeModeTriggerSatisfied = ''SafeModeTriggerSatisfied''"

record AgentFsm =
  current_state :: RuntimeState

record EvaluationResult =
  ev_accepted :: bool
  ev_checkpoint_hint :: "StateTransitionCheckpointHint option"
  ev_violation_type :: TransitionViolationType
  ev_violated_guard :: "TransitionGuardFact option"
  ev_detail :: string

definition is_terminal :: "RuntimeState \<Rightarrow> bool" where
  "is_terminal s \<longleftrightarrow> s = SafeMode"

definition edge_name :: "StateTransitionRequest \<Rightarrow> string" where
  "edge_name request =
     runtime_state_name (from_state request) @ '' -> '' @
     runtime_state_name (requested_to request)"

definition rejected_evaluation ::
  "TransitionViolationType \<Rightarrow> TransitionGuardFact option \<Rightarrow> string \<Rightarrow> EvaluationResult"
where
  "rejected_evaluation v g d =
     \<lparr>ev_accepted = False, ev_checkpoint_hint = None, ev_violation_type = v,
      ev_violated_guard = g, ev_detail = d\<rparr>"

definition evaluate_request_locked ::
  "AgentFsm \<Rightarrow> StateTransitionRequest \<Rightarrow> EvaluationResult"
where
  "evaluate_request_locked fsm request =
     (if from_state request \<noteq> current_state fsm then
        rejected_evaluation SourceStateMismatch None
          (''request.from_state='' @ runtime_state_name (from_state request) @
           '' does not match current_state='' @ runtime_state_name (current_state fsm))
      else if is_terminal (current_state fsm) \<and> requested_to request \<noteq> current_state fsm then
        rejected_evaluation TerminalStateExit None
          (''cannot leave terminal state '' @ runtime_state_name (current_state fsm))
      else if \<not> is_legal (from_state request) (requested_to request) then
        rejected_evaluation IllegalTransition None
          (''transition '' @ edge_name request @ '' is not legal in section 6.7.4'')
      else
        (case get_guard (from_state request) (requested_to request) of
           None \<Rightarrow>
             rejected_evaluation IllegalTransition None
               (''transition rule lookup failed for legal edge '' @ edge_name request)
         | Some guard_rule \<Rightarrow>
             (case first_unsatisfied_guard guard_rule request of
                Some g \<Rightarrow>
                  rejected_evaluation MissingGuardFact (Some g)
                    (''missing required guard fact '' @ guard_fact_name g @
                     '' for transition '' @ edge_name request)
              | None \<Rightarrow>
                  (case get_checkpoint_strategy (from_state request) (requested_to request) of
                     None \<Rightarrow>
                       rejected_evaluation IllegalTransition None
                         (''checkpoint strategy lookup failed for legal edge '' @
                          edge_name request)
                   | Some hint \<Rightarrow>
                       \<lparr>ev_accepted = True, ev_checkpoint_hint = Some hint,
                        ev_violation_type = IllegalTransition, ev_violated_guard = None,
                        ev_detail = []\<rparr>))))"

definition can_enter :: "AgentFsm \<Rightarrow> StateTransitionRequest \<Rightarrow> bool" where
  "can_enter fsm request = ev_accepted (evaluate_request_locked fsm request)"

text \<open>
  \<^verbatim>\<open>*evaluation.checkpoint_hint\<close> dereferences an engaged optional on the accepting path
  only; the model reads it with \<^const>\<open>the\<close> there, and \<open>accepted_evaluation\<close> below shows it
  is present.
\<close>

definition transition ::
  "AgentFsm \<Rightarrow> StateTransitionRequest \<Rightarrow> AgentFsm \<times> StateTransitionOutcome"
where
  "transition fsm request =
     (let evaluation = evaluate_request_locked fsm request
      in if \<not> ev_accepted evaluation then
           (fsm, make_rejected_outcome request (current_state fsm)
                   (ev_violation_type evaluation) (ev_detail evaluation)
                   (ev_violated_guard evaluation))
         else
           (fsm\<lparr>current_state := requested_to request\<rparr>,
            make_transition_outcome request (requested_to request)
              (the (ev_checkpoint_hint evaluation))))"

section \<open>Guard evaluation\<close>

lemma has_guard_iff [simp]: "has_guard request f \<longleftrightarrow> f \<in> set (guard_facts request)"
proof -
  have "has_guard_loop cs f \<longleftrightarrow> f \<in> set cs" for cs
    by (induction cs) auto
  then show ?thesis by (simp add: has_guard_def)
qed

lemma satisfied_by_iff:
  "satisfied_by rule request \<longleftrightarrow>
     set (all_of rule) \<subseteq> set (guard_facts request) \<and>
     (any_of rule \<noteq> [] \<longrightarrow> set (any_of rule) \<inter> set (guard_facts request) \<noteq> {})"
proof -
  have "first_unsatisfied_guard rule request = None \<longleftrightarrow>
      List.find (\<lambda>f. \<not> has_guard request f) (all_of rule) = None \<and>
      (any_of rule = [] \<or> List.find (has_guard request) (any_of rule) \<noteq> None)"
    by (auto simp: first_unsatisfied_guard_def split: option.splits list.splits)
  then show ?thesis by (auto simp: satisfied_by_def find_None_iff)
qed

lemma first_unsatisfied_guard_missing:
  "first_unsatisfied_guard rule request = Some g \<Longrightarrow>
     g \<notin> set (guard_facts request) \<and> (g \<in> set (all_of rule) \<or> g \<in> set (any_of rule))"
  unfolding first_unsatisfied_guard_def
  by (auto simp: find_None_iff dest: find_Some_first split: option.splits list.splits)

section \<open>The interface between machine and table\<close>

text \<open>
  \<^verbatim>\<open>AgentFsm\<close> asks the table three questions about an edge and relies on their answers
  agreeing; the two defensive branches of \<^verbatim>\<open>evaluate_request_locked\<close> are the cases where
  they would not.
\<close>

locale transition_table =
  fixes legal :: "'s \<Rightarrow> 's \<Rightarrow> bool"
    and guard :: "'s \<Rightarrow> 's \<Rightarrow> 'g option"
    and strategy :: "'s \<Rightarrow> 's \<Rightarrow> 'h option"
  assumes guard_legal: "guard f t \<noteq> None \<longleftrightarrow> legal f t"
    and strategy_legal: "strategy f t \<noteq> None \<longleftrightarrow> legal f t"
begin

lemma legal_edge:
  assumes "legal f t"
  obtains g h where "guard f t = Some g" and "strategy f t = Some h"
  using assms guard_legal strategy_legal by blast

lemma illegal_edge: "\<not> legal f t \<Longrightarrow> guard f t = None \<and> strategy f t = None"
  using guard_legal strategy_legal by blast

end

interpretation tgt: transition_table is_legal get_guard get_checkpoint_strategy
  by unfold_locales
    (auto simp: is_legal_def get_guard_def get_checkpoint_strategy_def split: option.splits)

section \<open>Behaviour of one call\<close>

lemmas evaluate_defs = evaluate_request_locked_def rejected_evaluation_def

text \<open>What the code means by an enabled request.\<close>

definition enabled :: "RuntimeState \<Rightarrow> StateTransitionRequest \<Rightarrow> bool" where
  "enabled s request \<longleftrightarrow>
     from_state request = s \<and>
     (is_terminal s \<longrightarrow> requested_to request = s) \<and>
     (\<exists>guard_rule. get_guard s (requested_to request) = Some guard_rule \<and>
        satisfied_by guard_rule request)"

lemma accepted_evaluation:
  "ev_accepted (evaluate_request_locked fsm request) \<longleftrightarrow> enabled (current_state fsm) request"
proof (cases "is_legal (from_state request) (requested_to request)")
  case True
  then obtain g h where "get_guard (from_state request) (requested_to request) = Some g"
    and "get_checkpoint_strategy (from_state request) (requested_to request) = Some h"
    by (rule tgt.legal_edge)
  with True show ?thesis
    by (auto simp: evaluate_defs enabled_def satisfied_by_def split: option.splits)
next
  case False
  with tgt.illegal_edge [OF False] show ?thesis
    by (auto simp: evaluate_defs enabled_def)
qed

lemma accepted_hint:
  assumes "ev_accepted (evaluate_request_locked fsm request)"
  shows "ev_checkpoint_hint (evaluate_request_locked fsm request) =
           get_checkpoint_strategy (from_state request) (requested_to request)"
    and "get_checkpoint_strategy (from_state request) (requested_to request) \<noteq> None"
  using assms by (auto simp: evaluate_defs split: if_splits option.splits)

lemma transition_accepted:
  assumes "enabled (current_state fsm) request"
  shows "transition fsm request =
    (fsm\<lparr>current_state := requested_to request\<rparr>,
     make_transition_outcome request (requested_to request)
       (the (get_checkpoint_strategy (from_state request) (requested_to request))))"
proof -
  from assms have acc: "ev_accepted (evaluate_request_locked fsm request)"
    by (simp add: accepted_evaluation)
  then show ?thesis by (simp add: transition_def accepted_hint(1) Let_def)
qed

lemma transition_rejected:
  assumes "\<not> enabled (current_state fsm) request"
  shows "fst (transition fsm request) = fsm"
    and "accepted (snd (transition fsm request)) = False"
    and "resolved_state (snd (transition fsm request)) = current_state fsm"
    and "rejection_reason (snd (transition fsm request)) \<noteq> None"
  using assms
  by (simp_all add: transition_def accepted_evaluation Let_def outcome_simps)

section \<open>The reachable states\<close>

definition legal_edges :: "(RuntimeState \<times> RuntimeState) list" where
  "legal_edges = map (\<lambda>rule. (rule_from rule, rule_to rule)) transition_rules"

lemma is_legal_edges: "is_legal f t \<longleftrightarrow> (f, t) \<in> set legal_edges"
  by (auto simp: is_legal_def find_rule_def legal_edges_def find_None_iff)

lemma legal_edges_eval:
  "legal_edges =
   [(Idle, Receiving), (Receiving, Planning), (Planning, Reasoning),
    (Reasoning, WaitingClarify), (WaitingClarify, Receiving), (Reasoning, WaitingConfirm),
    (WaitingConfirm, ToolCalling), (Reasoning, ToolCalling), (ToolCalling, WaitingExternal),
    (WaitingExternal, Reflecting), (Reflecting, Reasoning), (Reflecting, FailedSafe),
    (Reflecting, Degraded), (Reasoning, Responding), (FailedSafe, Responding),
    (Degraded, Responding), (SafeMode, Responding), (Responding, Auditing),
    (Auditing, Persisting), (Persisting, Completed), (Completed, Idle), (Reasoning, Failed),
    (WaitingExternal, Failed), (Failed, Degraded), (Degraded, SafeMode)]"
  by (simp add: legal_edges_def transition_rules_def mk_rule_def)

text \<open>One accepted call of \<^verbatim>\<open>transition\<close>, with the request left open.\<close>

inductive fsm_step :: "RuntimeState \<Rightarrow> RuntimeState \<Rightarrow> bool" where
  accept: "transition \<lparr>current_state = s\<rparr> request = (fsm', outcome) \<Longrightarrow> accepted outcome \<Longrightarrow>
     fsm_step s (current_state fsm')"

lemma rule_request_satisfied:
  "satisfied_by g \<lparr>from_state = s, requested_to = t, transition_reason = r,
                    guard_facts = all_of g @ any_of g\<rparr>"
  by (cases "any_of g") (auto simp: satisfied_by_iff)

lemma transition_accepted_iff:
  "accepted (snd (transition fsm request)) \<longleftrightarrow> enabled (current_state fsm) request"
  by (cases "enabled (current_state fsm) request")
    (simp_all add: transition_accepted transition_rejected outcome_simps)

lemma fsm_step_iff: "fsm_step s t \<longleftrightarrow> s \<noteq> SafeMode \<and> is_legal s t"
proof
  assume "fsm_step s t"
  then show "s \<noteq> SafeMode \<and> is_legal s t"
  proof cases
    case (accept request fsm' outcome)
    then have en: "enabled s request"
      by (metis AgentFsm.select_convs(1) snd_conv transition_accepted_iff)
    then have t: "t = requested_to request"
      using accept transition_accepted [of "\<lparr>current_state = s\<rparr>" request] by auto
    with en have legal: "is_legal s t"
      using tgt.guard_legal [of s t] by (auto simp: enabled_def)
    have "\<not> is_legal SafeMode SafeMode" by (simp add: is_legal_edges legal_edges_eval)
    with en t legal show ?thesis by (auto simp: enabled_def is_terminal_def)
  qed
next
  assume st: "s \<noteq> SafeMode \<and> is_legal s t"
  then obtain g h where g: "get_guard s t = Some g"
    using tgt.legal_edge by metis
  let ?r = "\<lparr>from_state = s, requested_to = t, transition_reason = [],
             guard_facts = all_of g @ any_of g\<rparr>"
  have "enabled (current_state \<lparr>current_state = s\<rparr>) ?r"
    using st g rule_request_satisfied by (simp add: enabled_def is_terminal_def)
  from transition_accepted [OF this]
  show "fsm_step s t"
    using fsm_step.accept [of s ?r] by (simp add: outcome_simps)
qed

definition fsm_reachable :: "RuntimeState \<Rightarrow> RuntimeState \<Rightarrow> bool" where
  "fsm_reachable = fsm_step\<^sup>*\<^sup>*"

lemma fsm_edge:
  "(s, t) \<in> set legal_edges \<Longrightarrow> s \<noteq> SafeMode \<Longrightarrow> fsm_step s t"
  by (simp add: fsm_step_iff is_legal_edges)

lemma fsm_reachable_refl [simp]: "fsm_reachable s s"
  by (simp add: fsm_reachable_def)

lemma fsm_reachable_edge:
  "fsm_reachable s t \<Longrightarrow> (t, u) \<in> set legal_edges \<Longrightarrow> t \<noteq> SafeMode \<Longrightarrow> fsm_reachable s u"
  by (auto simp: fsm_reachable_def intro: rtranclp.rtrancl_into_rtrancl fsm_edge)

lemma reachable_catalog:
  assumes "fsm_reachable Idle s"
  shows "s \<in> set runtime_state_catalog"
  using assms unfolding fsm_reachable_def
proof (induction rule: rtranclp_induct)
  case base
  then show ?case by (simp add: runtime_state_catalog_def)
next
  case (step s t)
  then show ?case
    by (auto simp: fsm_step_iff is_legal_edges legal_edges_eval runtime_state_catalog_def)
qed

lemma reachable_from_idle:
  "fsm_reachable Idle Receiving" "fsm_reachable Idle Planning" "fsm_reachable Idle Reasoning"
  "fsm_reachable Idle WaitingClarify" "fsm_reachable Idle WaitingConfirm"
  "fsm_reachable Idle ToolCalling" "fsm_reachable Idle WaitingExternal"
  "fsm_reachable Idle Reflecting" "fsm_reachable Idle FailedSafe"
  "fsm_reachable Idle Responding" "fsm_reachable Idle Auditing"
  "fsm_reachable Idle Persisting" "fsm_reachable Idle Completed"
  "fsm_reachable Idle Failed" "fsm_reachable Idle Degraded" "fsm_reachable Idle SafeMode"
proof -
  note e = legal_edges_eval fsm_reachable_edge
  show r1: "fsm_reachable Idle Receiving" by (rule e(2) [of _ Idle]) (simp_all add: e(1))
  show r2: "fsm_reachable Idle Planning" by (rule e(2) [OF r1]) (simp_all add: e(1))
  show r3: "fsm_reachable Idle Reasoning" by (rule e(2) [OF r2]) (simp_all add: e(1))
  show "fsm_reachable Idle WaitingClarify" by (rule e(2) [OF r3]) (simp_all add: e(1))
  show "fsm_reachable Idle WaitingConfirm" by (rule e(2) [OF r3]) (simp_all add: e(1))
  show r4: "fsm_reachable Idle ToolCalling" by (rule e(2) [OF r3]) (simp_all add: e(1))
  show r5: "fsm_reachable Idle WaitingExternal" by (rule e(2) [OF r4]) (simp_all add: e(1))
  show r6: "fsm_reachable Idle Reflecting" by (rule e(2) [OF r5]) (simp_all add: e(1))
  show "fsm_reachable Idle FailedSafe" by (rule e(2) [OF r6]) (simp_all add: e(1))
  show r7: "fsm_reachable Idle Responding" by (rule e(2) [OF r3]) (simp_all add: e(1))
  show r8: "fsm_reachable Idle Auditing" by (rule e(2) [OF r7]) (simp_all add: e(1))
  show r9: "fsm_reachable Idle Persisting" by (rule e(2) [OF r8]) (simp_all add: e(1))
  show "fsm_reachable Idle Completed" by (rule e(2) [OF r9]) (simp_all add: e(1))
  show "fsm_reachable Idle Failed" by (rule e(2) [OF r3]) (simp_all add: e(1))
  show r10: "fsm_reachable Idle Degraded" by (rule e(2) [OF r6]) (simp_all add: e(1))
  show "fsm_reachable Idle SafeMode" by (rule e(2) [OF r10]) (simp_all add: e(1))
qed

text \<open>Every way back to \<^const>\<open>Idle\<close> goes through the response, audit and persistence states.\<close>

lemma fsm_reachable_pre:
  "fsm_reachable u t \<Longrightarrow> (s, u) \<in> set legal_edges \<Longrightarrow> s \<noteq> SafeMode \<Longrightarrow> fsm_reachable s t"
  by (auto simp: fsm_reachable_def intro: converse_rtranclp_into_rtranclp fsm_edge)

lemma returns_to_idle:
  assumes "s \<in> set runtime_state_catalog" and "s \<noteq> SafeMode"
  shows "fsm_reachable s Idle"
proof -
  note e = legal_edges_eval fsm_reachable_pre
  have c: "fsm_reachable Completed Idle" by (rule e(2) [of Idle]) (simp_all add: e(1))
  have p: "fsm_reachable Persisting Idle" by (rule e(2) [OF c]) (simp_all add: e(1))
  have a: "fsm_reachable Auditing Idle" by (rule e(2) [OF p]) (simp_all add: e(1))
  have r: "fsm_reachable Responding Idle" by (rule e(2) [OF a]) (simp_all add: e(1))
  have d: "fsm_reachable Degraded Idle" by (rule e(2) [OF r]) (simp_all add: e(1))
  have fs: "fsm_reachable FailedSafe Idle" by (rule e(2) [OF r]) (simp_all add: e(1))
  have f: "fsm_reachable Failed Idle" by (rule e(2) [OF d]) (simp_all add: e(1))
  have rs: "fsm_reachable Reasoning Idle" by (rule e(2) [OF r]) (simp_all add: e(1))
  have pl: "fsm_reachable Planning Idle" by (rule e(2) [OF rs]) (simp_all add: e(1))
  have rc: "fsm_reachable Receiving Idle" by (rule e(2) [OF pl]) (simp_all add: e(1))
  have wc: "fsm_reachable WaitingClarify Idle" by (rule e(2) [OF rc]) (simp_all add: e(1))
  have rf: "fsm_reachable Reflecting Idle" by (rule e(2) [OF rs]) (simp_all add: e(1))
  have we: "fsm_reachable WaitingExternal Idle" by (rule e(2) [OF rf]) (simp_all add: e(1))
  have tc: "fsm_reachable ToolCalling Idle" by (rule e(2) [OF we]) (simp_all add: e(1))
  have wf: "fsm_reachable WaitingConfirm Idle" by (rule e(2) [OF tc]) (simp_all add: e(1))
  show ?thesis
    using assms c p a r d fs f rs pl rc wc rf we tc wf
    by (auto simp: runtime_state_catalog_def)
qed

lemma path_back:
  assumes "successively fsm_step path" and "path \<noteq> []" and "hd path = Idle"
    and "path = p @ t # rest" and "t \<noteq> Idle"
  obtains q s where "path = q @ s # t # rest" and "fsm_step s t"
proof -
  from assms(3-5) have "p \<noteq> []" by (cases p) auto
  then obtain q s where "p = q @ [s]" by (metis append_butlast_last_id)
  with assms(1,4) that [of q s] show ?thesis
    by (auto simp: successively_append_iff)
qed

section \<open>Properties\<close>


text \<open>
  Safe mode is absorbing: whatever sequence of requests is submitted to a machine in
  \<^const>\<open>SafeMode\<close>, it stays there, although the table lists an edge
  \<^verbatim>\<open>SafeMode -> Responding\<close>, which the terminal check makes unusable.
\<close>

theorem safe_mode_absorbing:
  "current_state (foldl (\<lambda>fsm request. fst (transition fsm request))
     \<lparr>current_state = SafeMode\<rparr> requests) = SafeMode \<and> is_legal SafeMode Responding"
proof -
  have step: "fst (transition \<lparr>current_state = SafeMode\<rparr> r) = \<lparr>current_state = SafeMode\<rparr>" for r
  proof (rule transition_rejected(1))
    have "get_guard SafeMode SafeMode = None"
      using tgt.illegal_edge [of SafeMode SafeMode] by (simp add: is_legal_edges legal_edges_eval)
    then show "\<not> enabled (current_state \<lparr>current_state = SafeMode\<rparr>) r"
      by (auto simp: enabled_def is_terminal_def)
  qed
  have "foldl (\<lambda>fsm request. fst (transition fsm request)) \<lparr>current_state = SafeMode\<rparr> requests
      = \<lparr>current_state = SafeMode\<rparr>"
    by (induction requests) (simp_all add: step)
  then show ?thesis by (simp add: is_legal_edges legal_edges_eval)
qed

text \<open>
  C40. The states a machine started in \<^const>\<open>Idle\<close> can reach by accepted calls are exactly the
  seventeen states of the catalog.
\<close>

theorem fsm_reachable_states: "{s. fsm_reachable Idle s} = set runtime_state_catalog"
proof
  show "{s. fsm_reachable Idle s} \<subseteq> set runtime_state_catalog"
    using reachable_catalog by blast
  show "set runtime_state_catalog \<subseteq> {s. fsm_reachable Idle s}"
    by (simp add: runtime_state_catalog_def reachable_from_idle)
qed

text \<open>
  C39. The machine never gets stuck in the middle of a request: from every reachable state
  other than \<^const>\<open>SafeMode\<close> some sequence of accepted calls leads back to \<^const>\<open>Idle\<close>.
\<close>

theorem fsm_returns_to_idle:
  assumes "fsm_reachable Idle s" and "s \<noteq> SafeMode"
  shows "fsm_reachable s Idle"
  using returns_to_idle [OF reachable_catalog [OF assms(1)] assms(2)] .

theorem fsm_returns_to_idle_witness: "fsm_reachable Failed Idle"
  by (rule fsm_returns_to_idle) (simp_all add: reachable_from_idle)

text \<open>
  A tool call is always authorised: an accepted transition into \<^const>\<open>ToolCalling\<close>
  either comes from \<^const>\<open>WaitingConfirm\<close> and carries the user's confirmation, or comes
  from \<^const>\<open>Reasoning\<close> and carries both the planned call and the budget's consent.
\<close>

theorem tool_calling_authorised:
  assumes "transition fsm request = (fsm', outcome)"
    and "accepted outcome" and "resolved_state outcome = ToolCalling"
  shows "current_state fsm = WaitingConfirm \<and> UserConfirmationGranted \<in> set (guard_facts request) \<or>
         current_state fsm = Reasoning \<and>
           {ToolCallPlanned, BudgetAllowsToolCall} \<subseteq> set (guard_facts request)"
proof -
  have en: "enabled (current_state fsm) request"
    using assms(1,2) transition_accepted_iff [of fsm request] by simp
  with assms have to: "requested_to request = ToolCalling"
    by (auto simp: transition_accepted [OF en] outcome_simps)
  from en to obtain g where g: "get_guard (current_state fsm) ToolCalling = Some g"
    and sat: "satisfied_by g request" by (auto simp: enabled_def)
  from g have "(current_state fsm, ToolCalling) \<in> set legal_edges"
    using tgt.guard_legal [of "current_state fsm" ToolCalling] by (auto simp: is_legal_edges)
  then have "current_state fsm = WaitingConfirm \<or> current_state fsm = Reasoning"
    by (auto simp: legal_edges_eval)
  with g sat show ?thesis
    by (auto simp: get_guard_def find_rule_def transition_rules_def mk_rule_def
        satisfied_by_iff require_all_def)
qed

theorem tool_calling_authorised_witness:
  "let r = \<lparr>from_state = WaitingConfirm, requested_to = ToolCalling, transition_reason = [],
            guard_facts = [UserConfirmationGranted]\<rparr>
   in accepted (snd (transition \<lparr>current_state = WaitingConfirm\<rparr> r)) \<and>
      UserConfirmationGranted \<in> set (guard_facts r)"
proof -
  let ?r = "\<lparr>from_state = WaitingConfirm, requested_to = ToolCalling, transition_reason = [],
             guard_facts = [UserConfirmationGranted]\<rparr>"
  have en: "enabled (current_state \<lparr>current_state = WaitingConfirm\<rparr>) ?r"
    by (simp add: enabled_def is_terminal_def get_guard_def find_rule_def transition_rules_def
        mk_rule_def satisfied_by_iff require_all_def)
  from tool_calling_authorised [OF transition_accepted [OF en]] en
  show ?thesis by (simp add: outcome_simps Let_def transition_accepted_iff)
qed

text \<open>
  C18. No request completes unaudited or unpersisted: a run of accepted transitions from
  \<^const>\<open>Idle\<close> that ends in \<^const>\<open>Completed\<close> ends with response, audit and persistence in this
  order.
\<close>

theorem completion_is_audited_and_persisted:
  assumes "successively fsm_step path" and "path \<noteq> []"
    and "hd path = Idle" and "last path = Completed"
  shows "\<exists>prefix. path = prefix @ [Responding, Auditing, Persisting, Completed]"
proof -
  note pb = path_back [OF assms(1-3)]
  have "path = butlast path @ [Completed]" using assms(2,4) append_butlast_last_id by force
  then obtain p1 where "path = p1 @ [Completed]" ..
  with pb [of p1 Completed "[]"] obtain p2 where "path = p2 @ [Persisting, Completed]"
    by (auto simp: fsm_step_iff is_legal_edges legal_edges_eval)
  with pb [of p2 Persisting "[Completed]"] obtain p3
    where "path = p3 @ [Auditing, Persisting, Completed]"
    by (auto simp: fsm_step_iff is_legal_edges legal_edges_eval)
  with pb [of p3 Auditing "[Persisting, Completed]"] show ?thesis
    by (auto simp: fsm_step_iff is_legal_edges legal_edges_eval)
qed

theorem completion_is_audited_and_persisted_witness:
  "\<exists>prefix. [Idle, Receiving, Planning, Reasoning, Responding, Auditing, Persisting, Completed] =
     prefix @ [Responding, Auditing, Persisting, Completed]"
  by (rule completion_is_audited_and_persisted)
    (simp_all add: fsm_step_iff is_legal_edges legal_edges_eval)

end
