(* ===== verification/Contract_Types.thy ===== *)
theory Contract_Types
  imports Complex_Main Runtime_Types
begin

text \<open>
  The contract objects of \<^verbatim>\<open>contracts/include\<close> that the runtime exchanges: budgets and
  budget snapshots, checkpoints, error information, observations, reflection decisions,
  recovery requests and recovery outcomes. One record per struct; the fields keep the
  source's names behind a short prefix per struct, because several structs share names.
\<close>

section \<open>Budgets\<close>

record RuntimeBudget =
  max_tokens :: "u32 option"
  max_turns :: "u32 option"
  max_tool_calls :: "u32 option"
  max_latency_ms :: "u32 option"
  max_replan_count :: "u32 option"

definition empty_runtime_budget :: RuntimeBudget where
  "empty_runtime_budget =
     \<lparr>max_tokens = None, max_turns = None, max_tool_calls = None, max_latency_ms = None,
      max_replan_count = None\<rparr>"

datatype BudgetType = Token | Turn | ToolCall | Latency | Replan

record BudgetSnapshotEntry =
  budget_type :: BudgetType
  current :: u64
  max_limit :: u64
  remaining :: int
  reject_reason :: "string option"

record BudgetSnapshot =
  snapshot_at_ms :: "u64 option"
  entries :: "BudgetSnapshotEntry list"
  overall_reject_reason :: "string option"

definition empty_budget_snapshot :: BudgetSnapshot where
  "empty_budget_snapshot =
     \<lparr>snapshot_at_ms = None, entries = [], overall_reject_reason = None\<rparr>"

section \<open>Result codes and error information\<close>

datatype ResultCodeCategory =
    Category_Validation | Category_Policy | Category_Tool | Category_Provider
  | Category_Runtime | Category_Unknown

record ErrorDetails =
  err_code :: "int option"
  err_message :: string
  err_stage :: string

record ErrorSourceRefMinimal =
  ref_type :: string
  ref_id :: string

record ErrorInfo =
  failure_type :: "ResultCodeCategory option"
  retryable :: "bool option"
  safe_to_replan :: "bool option"
  err_details :: ErrorDetails
  source_ref :: ErrorSourceRefMinimal

section \<open>Observations\<close>

datatype ObservationSource =
    Source_Unspecified | ToolExecution | WorkerAgent | Retrieval | HumanFeedback
  | Source_Raw int

fun observation_source_value :: "ObservationSource \<Rightarrow> int" where
  "observation_source_value Source_Unspecified = 0"
| "observation_source_value ToolExecution = 1"
| "observation_source_value WorkerAgent = 2"
| "observation_source_value Retrieval = 3"
| "observation_source_value HumanFeedback = 4"
| "observation_source_value (Source_Raw i) = i"

record Observation =
  observation_id :: "string option"
  obs_source :: "ObservationSource option"
  obs_success :: "bool option"
  obs_payload :: "string option"
  obs_created_at :: "int option"
  obs_error :: "ErrorInfo option"
  obs_side_effects :: "string list option"
  tool_call_id :: "string option"
  worker_task_id :: "string option"
  obs_request_id :: "string option"
  obs_goal_id :: "string option"
  obs_duration_ms :: "int option"
  obs_tags :: "string list option"

section \<open>Checkpoints\<close>

record Checkpoint =
  checkpoint_id :: "string option"
  cp_state :: "CheckpointState option"
  step_id :: "string option"
  working_memory_snapshot :: "string option"
  pending_action :: "string option"
  cp_request_id :: "string option"
  cp_goal_id :: "string option"
  belief_state_ref :: "string option"
  cp_retry_count :: "u32 option"
  cp_created_at :: "int option"
  cp_tags :: "string list option"

section \<open>Reflection and recovery\<close>

datatype ReflectionDecisionKind =
    Kind_Unspecified | Kind_Continue | RetryStep | Kind_Replan | AbortSafe
  | Kind_Raw int

fun reflection_kind_value :: "ReflectionDecisionKind \<Rightarrow> int" where
  "reflection_kind_value Kind_Unspecified = 0"
| "reflection_kind_value Kind_Continue = 1"
| "reflection_kind_value RetryStep = 2"
| "reflection_kind_value Kind_Replan = 3"
| "reflection_kind_value AbortSafe = 4"
| "reflection_kind_value (Kind_Raw i) = i"

text \<open>A \<^verbatim>\<open>float\<close>: finite values, the infinities and NaN; comparisons with NaN are false.\<close>

datatype cfloat = Finite rat | PosInf | NegInf | NaN

fun float_less :: "cfloat \<Rightarrow> rat \<Rightarrow> bool" where
  "float_less (Finite x) y = (x < y)"
| "float_less NegInf y = True"
| "float_less _ y = False"

fun float_greater :: "cfloat \<Rightarrow> rat \<Rightarrow> bool" where
  "float_greater (Finite x) y = (x > y)"
| "float_greater PosInf y = True"
| "float_greater _ y = False"

fun float_isfinite :: "cfloat \<Rightarrow> bool" where
  "float_isfinite (Finite x) = True"
| "float_isfinite _ = False"

record ReflectionDecision =
  rd_request_id :: "string option"
  decision_kind :: "ReflectionDecisionKind option"
  rationale :: "string option"
  rd_goal_id :: "string option"
  confidence :: "cfloat option"
  relevant_observation_refs :: "string list option"
  hint_ref :: "string option"
  rd_created_at :: "int option"
  rd_tags :: "string list option"

record IdempotencyAndSideEffectReport =
  replay_safe :: "bool option"
  idempotency_key :: "string option"
  side_effects_present :: "bool option"
  non_replayable_reason :: "string option"

record RecoveryRequest =
  reflection_decision :: "ReflectionDecision option"
  error_info :: "ErrorInfo option"
  latest_observation :: "Observation option"
  rq_checkpoint :: "Checkpoint option"
  idempotency_and_side_effect_report :: "IdempotencyAndSideEffectReport option"
  rq_retry_count :: "u32 option"
  runtime_budget_snapshot :: "BudgetSnapshot option"

record RecoveryOutcome =
  executed_action :: "string option"
  final_runtime_state :: "string option"
  updated_retry_count :: "u32 option"
  ro_checkpoint_ref :: "string option"
  compensation_result_ref :: "string option"
  ro_rejection_reason :: "string option"
  escalation_reason :: "string option"

end
