(* ===== verification/Contract_Guards.thy ===== *)
theory Contract_Guards
  imports Contract_Types
begin

text \<open>
  The validation functions of the contract layer: \<^verbatim>\<open>RuntimeBudgetGuards.h\<close>,
  \<^verbatim>\<open>BudgetSnapshotGuards.h\<close>, \<^verbatim>\<open>CheckpointGuards.h\<close>, \<^verbatim>\<open>ErrorInfoGuards.h\<close>,
  \<^verbatim>\<open>ObservationGuards.h\<close>, \<^verbatim>\<open>ObservationSourceGuards.h\<close>,
  \<^verbatim>\<open>ReflectionDecisionGuards.h\<close>, \<^verbatim>\<open>RecoveryRequestGuards.h\<close> and
  \<^verbatim>\<open>RecoveryOutcomeGuards.h\<close>. Every guard returns the first violated rule's reason, in
  the order of the source. The result structs all have the two fields of \<open>GuardResult\<close>.
\<close>

record GuardResult =
  ok :: bool
  reason :: string

definition fail :: "string \<Rightarrow> GuardResult" where
  "fail r = \<lparr>ok = False, reason = r\<rparr>"

definition pass :: "string \<Rightarrow> GuardResult" where
  "pass r = \<lparr>ok = True, reason = r\<rparr>"

lemma guard_result_sel [simp]:
  "ok (fail r) = False" "ok (pass r) = True"
  "reason (fail r) = r" "reason (pass r) = r"
  by (simp_all add: fail_def pass_def)

definition has_non_empty_value :: "string option \<Rightarrow> bool" where [guard_defs]:
  "has_non_empty_value v \<longleftrightarrow> (case v of Some s \<Rightarrow> \<not> empty_string s | None \<Rightarrow> False)"

text \<open>\<^verbatim>\<open>value.has_value() && value->empty()\<close>, the test the boundary rules repeat.\<close>

definition present_but_empty :: "string option \<Rightarrow> bool" where [guard_defs]:
  "present_but_empty v \<longleftrightarrow> v = Some []"

definition is_supported_error_source_ref_type :: "string \<Rightarrow> bool" where [guard_defs]:
  "is_supported_error_source_ref_type t \<longleftrightarrow>
     t = ''observation'' \<or> t = ''tool_call'' \<or> t = ''worker_task'' \<or> t = ''checkpoint''"

section \<open>Runtime budgets\<close>

definition validate_runtime_budget :: "RuntimeBudget \<Rightarrow> GuardResult" where
  "validate_runtime_budget budget =
     (if max_tokens budget = None then fail ''max_tokens is required''
      else if max_tokens budget = Some 0 then fail ''max_tokens must be greater than zero''
      else if max_turns budget = None then fail ''max_turns is required''
      else if max_turns budget = Some 0 then fail ''max_turns must be greater than zero''
      else if max_tool_calls budget = None then fail ''max_tool_calls is required''
      else if max_tool_calls budget = Some 0 then
        fail ''max_tool_calls must be greater than zero''
      else if max_latency_ms budget = None then fail ''max_latency_ms is required''
      else if max_latency_ms budget = Some 0 then
        fail ''max_latency_ms must be greater than zero''
      else if max_replan_count budget = None then fail ''max_replan_count is required''
      else if max_replan_count budget = Some 0 then
        fail ''max_replan_count must be greater than zero''
      else pass ''runtime budget is valid'')"

lemma validate_runtime_budget_ok:
  "ok (validate_runtime_budget b) \<longleftrightarrow>
     (\<exists>tk tn tc lt rp. b = \<lparr>max_tokens = Some tk, max_turns = Some tn, max_tool_calls = Some tc,
        max_latency_ms = Some lt, max_replan_count = Some rp\<rparr> \<and>
        tk \<noteq> 0 \<and> tn \<noteq> 0 \<and> tc \<noteq> 0 \<and> lt \<noteq> 0 \<and> rp \<noteq> 0)"
  by (cases b) (auto simp: validate_runtime_budget_def)

section \<open>Budget snapshots\<close>

text \<open>
  \<^verbatim>\<open>try_compute_remaining\<close> writes its result through a pointer and returns a success flag:
  an option here. Both differences are taken on unsigned values that do not wrap.
\<close>

definition try_compute_remaining :: "u64 \<Rightarrow> u64 \<Rightarrow> int option" where
  "try_compute_remaining mx cur =
     (if cur \<le> mx then
        (let diff = mx - cur in if diff > word_of_int (2 ^ 63 - 1) then None else Some (uint diff))
      else
        (let over = cur - mx in if over > word_of_int (2 ^ 63 - 1) then None else Some (- uint over)))"

definition budget_type_index :: "BudgetType \<Rightarrow> nat" where
  "budget_type_index t = (case t of Token \<Rightarrow> 0 | Turn \<Rightarrow> 1 | ToolCall \<Rightarrow> 2 | Latency \<Rightarrow> 3 | Replan \<Rightarrow> 4)"

fun validate_snapshot_entries :: "bool list \<Rightarrow> BudgetSnapshotEntry list \<Rightarrow> GuardResult" where
  "validate_snapshot_entries seen [] = pass ''budget snapshot is valid''"
| "validate_snapshot_entries seen (entry # es) =
     (let type_index = budget_type_index (budget_type entry)
      in if seen ! type_index then fail ''budget_type must be unique in snapshot''
         else
           (case try_compute_remaining (max_limit entry) (current entry) of
              None \<Rightarrow> fail ''remaining computation overflow''
            | Some computed_remaining \<Rightarrow>
                if remaining entry \<noteq> computed_remaining then
                  fail ''remaining must equal max-current''
                else
                  (let is_over_budget = remaining entry < 0;
                       has_reject_reason = has_non_empty_value (reject_reason entry)
                   in if is_over_budget \<and> \<not> has_reject_reason then
                        fail ''reject_reason is required when over budget''
                      else if \<not> is_over_budget \<and> has_reject_reason then
                        fail ''reject_reason must be empty when not over budget''
                      else validate_snapshot_entries (seen[type_index := True]) es)))"

definition validate_budget_snapshot :: "BudgetSnapshot \<Rightarrow> GuardResult" where
  "validate_budget_snapshot snapshot =
     (if snapshot_at_ms snapshot = None then fail ''snapshot_at_ms is required''
      else if entries snapshot = [] then fail ''at least one budget entry is required''
      else validate_snapshot_entries (replicate 5 False) (entries snapshot))"

text \<open>What a validated snapshot satisfies, entry by entry.\<close>

definition entry_consistent :: "BudgetSnapshotEntry \<Rightarrow> bool" where
  "entry_consistent e \<longleftrightarrow>
     remaining e = uint (max_limit e) - uint (current e) \<and> is_i64 (remaining e) \<and>
     (has_non_empty_value (reject_reason e) \<longleftrightarrow> current e > max_limit e)"

lemma budget_type_index_inj [simp]:
  "budget_type_index s = budget_type_index t \<longleftrightarrow> s = t"
  by (cases s; cases t) (simp_all add: budget_type_index_def)

lemma budget_type_index_less [simp]: "budget_type_index t < 5"
  by (cases t) (simp_all add: budget_type_index_def)

lemma try_compute_remaining_iff:
  "try_compute_remaining mx cur = Some r \<longleftrightarrow>
     r = uint mx - uint cur \<and> - (2 ^ 63) < r \<and> r < 2 ^ 63"
proof -
  have w: "a > (word_of_int (2 ^ 63 - 1) :: u64) \<longleftrightarrow> \<not> uint a < 2 ^ 63" for a :: u64
    by (auto simp: word_less_def)
  show ?thesis
  proof (cases "cur \<le> mx")
    case True
    then have le: "uint cur \<le> uint mx" by (simp add: word_le_def)
    then have "uint (mx - cur) = uint mx - uint cur" by (simp add: uint_sub_lem)
    with le True w [of "mx - cur"] show ?thesis by (auto simp: try_compute_remaining_def)
  next
    case False
    then have lt: "uint mx < uint cur" by (simp add: word_le_def)
    then have "uint mx \<le> uint cur" by simp
    then have "uint (cur - mx) = uint cur - uint mx" by (simp add: uint_sub_lem)
    with lt False w [of "cur - mx"] show ?thesis by (auto simp: try_compute_remaining_def)
  qed
qed

lemma validate_snapshot_entries_ok:
  assumes "length seen = 5" and "ok (validate_snapshot_entries seen es)"
  shows "(\<forall>e\<in>set es. entry_consistent e \<and> \<not> seen ! budget_type_index (budget_type e)) \<and>
         distinct (map budget_type es)"
  using assms
proof (induction es arbitrary: seen)
  case Nil
  then show ?case by simp
next
  case (Cons e es)
  let ?i = "budget_type_index (budget_type e)"
  from Cons.prems(2) obtain r where r: "try_compute_remaining (max_limit e) (current e) = Some r"
    and eq: "remaining e = r" and new: "\<not> seen ! ?i"
    and rej: "has_non_empty_value (reject_reason e) \<longleftrightarrow> remaining e < 0"
    and rest: "ok (validate_snapshot_entries (seen[?i := True]) es)"
    by (auto simp: Let_def split: if_splits option.splits)
  from r eq rej have "entry_consistent e"
    by (auto simp: entry_consistent_def try_compute_remaining_iff is_i64_def word_less_def)
  with Cons.IH [OF _ rest] Cons.prems(1) new show ?case
    by (auto simp: nth_list_update split: if_splits)
qed

lemma validate_budget_snapshot_ok:
  assumes "ok (validate_budget_snapshot s)"
  shows "snapshot_at_ms s \<noteq> None" and "entries s \<noteq> []"
    and "distinct (map budget_type (entries s))" and "\<forall>e\<in>set (entries s). entry_consistent e"
  using assms validate_snapshot_entries_ok [of "replicate 5 False" "entries s"]
  by (auto simp: validate_budget_snapshot_def split: if_splits)

section \<open>Checkpoints\<close>

definition is_waiting_checkpoint_state :: "CheckpointState \<Rightarrow> bool" where [guard_defs]:
  "is_waiting_checkpoint_state s \<longleftrightarrow> s = CS_Paused \<or> s = CS_WaitingConfirm \<or> s = CS_WaitingTool"

definition validate_checkpoint_required_fields :: "Checkpoint \<Rightarrow> GuardResult" where [guard_defs]:
  "validate_checkpoint_required_fields cp =
     (if \<not> has_non_empty_value (checkpoint_id cp) then
        fail ''checkpoint_id is required and must be non-empty''
      else if cp_state cp = None \<or> cp_state cp = Some CS_Unspecified then
        fail ''state is required and must not be Unspecified''
      else if \<not> has_non_empty_value (step_id cp) then
        fail ''step_id is required and must be non-empty''
      else if \<not> has_non_empty_value (working_memory_snapshot cp) then
        fail ''working_memory_snapshot is required and must be non-empty''
      else if pending_action cp = None then
        fail ''pending_action is required (use empty string for none)''
      else pass ''all required fields present'')"

definition validate_checkpoint_boundary :: "Checkpoint \<Rightarrow> GuardResult" where [guard_defs]:
  "validate_checkpoint_boundary cp =
     (let required_result = validate_checkpoint_required_fields cp
      in if \<not> ok required_result then required_result
         else if checkpoint_state_value (the (cp_state cp)) < 0 \<or>
                 checkpoint_state_value (the (cp_state cp)) > 6 then
           fail ''state value is outside the known CheckpointState range''
         else if present_but_empty (cp_request_id cp) then
           fail ''request_id must be non-empty when present''
         else if present_but_empty (cp_goal_id cp) then
           fail ''goal_id must be non-empty when present''
         else if present_but_empty (belief_state_ref cp) then
           fail ''belief_state_ref must be non-empty when present''
         else if cp_created_at cp \<noteq> None \<and> the (cp_created_at cp) \<le> 0 then
           fail ''created_at must be a positive timestamp when present''
         else pass ''checkpoint boundary validation passed'')"

text \<open>The two tag rules shared by the field-rule layers: a present list is non-empty, no tag is.\<close>

definition tags_problem :: "string list option \<Rightarrow> bool" where [guard_defs]:
  "tags_problem tags \<longleftrightarrow> tags = Some [] \<or> (\<exists>t\<in>set (value_or tags []). empty_string t)"

definition validate_checkpoint_field_rules :: "Checkpoint \<Rightarrow> GuardResult" where [guard_defs]:
  "validate_checkpoint_field_rules cp =
     (let boundary_result = validate_checkpoint_boundary cp
      in if \<not> ok boundary_result then boundary_result
         else if cp_tags cp = Some [] then
           fail ''tags must contain at least one item when present''
         else if tags_problem (cp_tags cp) then fail ''tags must not contain empty strings''
         else if is_waiting_checkpoint_state (the (cp_state cp)) \<and>
                 present_but_empty (pending_action cp) then
           fail ''pending_action must be non-empty for waiting states (Paused/WaitingConfirm/WaitingTool)''
         else pass ''checkpoint field rules validation passed'')"

section \<open>Error information and observations\<close>

definition validate_error_info_required_fields :: "ErrorInfo \<Rightarrow> GuardResult" where [guard_defs]:
  "validate_error_info_required_fields e =
     (if failure_type e = None then fail ''failure_type is required''
      else if failure_type e = Some Category_Unknown then fail ''failure_type cannot be unknown''
      else if retryable e = None then fail ''retryable is required''
      else if safe_to_replan e = None then fail ''safe_to_replan is required''
      else if err_code (err_details e) = None then fail ''details.code is required''
      else if empty_string (err_message (err_details e)) then fail ''details.message is required''
      else if empty_string (err_stage (err_details e)) then fail ''details.stage is required''
      else if empty_string (ref_type (source_ref e)) then fail ''source_ref.ref_type is required''
      else if \<not> is_supported_error_source_ref_type (ref_type (source_ref e)) then
        fail ''source_ref.ref_type is not supported''
      else if empty_string (ref_id (source_ref e)) then fail ''source_ref.ref_id is required''
      else pass ''error info is valid'')"

definition validate_observation_required_fields :: "Observation \<Rightarrow> GuardResult" where [guard_defs]:
  "validate_observation_required_fields obs =
     (if \<not> has_non_empty_value (observation_id obs) then
        fail ''observation_id is required and must be non-empty''
      else if obs_source obs = None \<or> obs_source obs = Some Source_Unspecified then
        fail ''source is required and must not be Unspecified''
      else if obs_success obs = None then fail ''success is required''
      else if \<not> has_non_empty_value (obs_payload obs) then
        fail ''payload is required and must be non-empty''
      else if obs_created_at obs = None \<or> the (obs_created_at obs) \<le> 0 then
        fail ''created_at is required and must be a positive timestamp''
      else pass ''all required fields present'')"

definition validate_observation_boundary :: "Observation \<Rightarrow> GuardResult" where [guard_defs]:
  "validate_observation_boundary obs =
     (let required_result = validate_observation_required_fields obs
      in if \<not> ok required_result then required_result
         else if observation_source_value (the (obs_source obs)) < 0 \<or>
                 observation_source_value (the (obs_source obs)) > 4 then
           fail ''source value is outside the known ObservationSource range''
         else if obs_duration_ms obs \<noteq> None \<and> the (obs_duration_ms obs) \<le> 0 then
           fail ''duration_ms must be positive when present''
         else if obs_success obs = Some False \<and> obs_error obs = None then
           fail ''error must be present when success is false''
         else if obs_success obs = Some True \<and> obs_error obs \<noteq> None then
           fail ''error must not be present when success is true''
         else pass ''observation boundary validation passed'')"

definition validate_observation_source_correlation :: "Observation \<Rightarrow> GuardResult" where [guard_defs]:
  "validate_observation_source_correlation obs =
     (if obs_source obs = None \<or> obs_source obs = Some Source_Unspecified then
        fail ''source must be present and not Unspecified before correlation validation''
      else if present_but_empty (tool_call_id obs) then
        fail ''tool_call_id must be non-empty when present''
      else if present_but_empty (worker_task_id obs) then
        fail ''worker_task_id must be non-empty when present''
      else if present_but_empty (obs_request_id obs) then
        fail ''request_id must be non-empty when present''
      else if present_but_empty (obs_goal_id obs) then
        fail ''goal_id must be non-empty when present''
      else
        (let passed = pass ''observation source correlation validation passed''
         in case the (obs_source obs) of
              ToolExecution \<Rightarrow>
                if \<not> has_non_empty_value (tool_call_id obs) then
                  fail ''tool_call_id is required when source is ToolExecution''
                else if worker_task_id obs \<noteq> None then
                  fail ''worker_task_id must not be present when source is ToolExecution''
                else passed
            | WorkerAgent \<Rightarrow>
                if \<not> has_non_empty_value (worker_task_id obs) then
                  fail ''worker_task_id is required when source is WorkerAgent''
                else if tool_call_id obs \<noteq> None then
                  fail ''tool_call_id must not be present when source is WorkerAgent''
                else passed
            | Retrieval \<Rightarrow>
                if worker_task_id obs \<noteq> None then
                  fail ''worker_task_id must not be present when source is Retrieval''
                else passed
            | HumanFeedback \<Rightarrow>
                if tool_call_id obs \<noteq> None then
                  fail ''tool_call_id must not be present when source is HumanFeedback''
                else if worker_task_id obs \<noteq> None then
                  fail ''worker_task_id must not be present when source is HumanFeedback''
                else passed
            | _ \<Rightarrow> passed))"

section \<open>Reflection decisions\<close>

definition validate_reflection_decision_required_fields :: "ReflectionDecision \<Rightarrow> GuardResult"
where [guard_defs]:
  "validate_reflection_decision_required_fields d =
     (if \<not> has_non_empty_value (rd_request_id d) then
        fail ''request_id is required and must be non-empty''
      else if decision_kind d = None \<or> decision_kind d = Some Kind_Unspecified then
        fail ''decision_kind is required and must not be Unspecified''
      else if \<not> has_non_empty_value (rationale d) then
        fail ''rationale is required and must be non-empty''
      else pass ''all required fields present'')"

definition validate_reflection_decision_boundary :: "ReflectionDecision \<Rightarrow> GuardResult"
where [guard_defs]:
  "validate_reflection_decision_boundary d =
     (let required_result = validate_reflection_decision_required_fields d
      in if \<not> ok required_result then required_result
         else if reflection_kind_value (the (decision_kind d)) < 1 \<or>
                 reflection_kind_value (the (decision_kind d)) > 4 then
           fail ''decision_kind value is outside the known ReflectionDecisionKind range''
         else if present_but_empty (rd_goal_id d) then
           fail ''goal_id must be non-empty when present''
         else if (case confidence d of None \<Rightarrow> False
                  | Some c \<Rightarrow> float_less c 0 \<or> float_greater c 1) then
           fail ''confidence must be within [0.0, 1.0] when present''
         else if present_but_empty (hint_ref d) then
           fail ''hint_ref must be non-empty when present''
         else if rd_created_at d \<noteq> None \<and> the (rd_created_at d) \<le> 0 then
           fail ''created_at must be a positive timestamp when present''
         else pass ''reflection decision boundary validation passed'')"

text \<open>The nested index loop over \<^verbatim>\<open>relevant_observation_refs\<close>: some element occurs again later.\<close>

fun has_duplicate :: "string list \<Rightarrow> bool" where
  "has_duplicate [] = False"
| "has_duplicate (x # xs) = (if x \<in> set xs then True else has_duplicate xs)"

lemma has_duplicate_distinct [simp]: "has_duplicate xs \<longleftrightarrow> \<not> distinct xs"
  by (induction xs) auto

definition validate_reflection_decision_field_rules :: "ReflectionDecision \<Rightarrow> GuardResult"
where [guard_defs]:
  "validate_reflection_decision_field_rules d =
     (let boundary_result = validate_reflection_decision_boundary d
      in if \<not> ok boundary_result then boundary_result
         else if (case confidence d of None \<Rightarrow> False | Some c \<Rightarrow> \<not> float_isfinite c) then
           fail ''confidence must be a finite value when present''
         else if relevant_observation_refs d = Some [] then
           fail ''relevant_observation_refs must contain at least one item when present''
         else if tags_problem (relevant_observation_refs d) then
           fail ''relevant_observation_refs must not contain empty-string elements''
         else if has_duplicate (value_or (relevant_observation_refs d) []) then
           fail ''relevant_observation_refs must not contain duplicate observation identifiers''
         else if rd_tags d = Some [] then
           fail ''tags must contain at least one item when present''
         else if tags_problem (rd_tags d) then
           fail ''tags must not contain empty-string elements''
         else pass ''reflection decision field rules validation passed'')"

section \<open>Recovery requests\<close>

datatype RecoveryRequestBoundaryDecision =
    AllowField | RejectReflectionTopLevelField | RejectOutcomeField
  | RejectExecutionSchedulingField

record RecoveryRequestBoundaryResult =
  field_allowed :: bool
  boundary_decision :: RecoveryRequestBoundaryDecision
  boundary_reason :: string

definition kRecoveryRequestReflectionTopLevelForbiddenFields :: "string list" where
  "kRecoveryRequestReflectionTopLevelForbiddenFields =
     [''decision_kind'', ''rationale'', ''confidence'', ''relevant_observation_refs'', ''hint_ref'']"

definition kRecoveryRequestOutcomeForbiddenFields :: "string list" where
  "kRecoveryRequestOutcomeForbiddenFields =
     [''executed_action'', ''final_runtime_state'', ''updated_retry_counters'', ''checkpoint_ref'',
      ''compensation_result_ref'', ''rejection_reason'', ''escalation_reason'']"

definition kRecoveryRequestExecutionSchedulingForbiddenFields :: "string list" where
  "kRecoveryRequestExecutionSchedulingForbiddenFields =
     [''retry_after_ms'', ''backoff_strategy'', ''circuit_breaker_transition'']"

definition evaluate_recovery_request_field_boundary ::
  "string \<Rightarrow> RecoveryRequestBoundaryResult"
where
  "evaluate_recovery_request_field_boundary field_name =
     (if field_name \<in> set kRecoveryRequestReflectionTopLevelForbiddenFields then
        \<lparr>field_allowed = False, boundary_decision = RejectReflectionTopLevelField,
         boundary_reason =
           ''recovery request must not duplicate reflection-decision top-level semantics''\<rparr>
      else if field_name \<in> set kRecoveryRequestOutcomeForbiddenFields then
        \<lparr>field_allowed = False, boundary_decision = RejectOutcomeField,
         boundary_reason =
           ''recovery request must not contain recovery-outcome result fields''\<rparr>
      else if field_name \<in> set kRecoveryRequestExecutionSchedulingForbiddenFields then
        \<lparr>field_allowed = False, boundary_decision = RejectExecutionSchedulingField,
         boundary_reason =
           ''recovery request must not contain execution scheduling outputs''\<rparr>
      else \<lparr>field_allowed = True, boundary_decision = AllowField,
            boundary_reason = ''recovery request field is allowed''\<rparr>)"

definition validate_report_required_fields :: "IdempotencyAndSideEffectReport \<Rightarrow> GuardResult"
where [guard_defs]:
  "validate_report_required_fields report =
     (if replay_safe report = None then
        fail ''idempotency_and_side_effect_report.replay_safe is required''
      else if present_but_empty (idempotency_key report) then
        fail ''idempotency_and_side_effect_report.idempotency_key must be non-empty when present''
      else if side_effects_present report = None then
        fail ''idempotency_and_side_effect_report.side_effects_present is required''
      else if \<not> the (replay_safe report) \<and>
              \<not> has_non_empty_value (non_replayable_reason report) then
        fail ''non_replayable_reason is required when replay_safe is false''
      else if the (replay_safe report) \<and> has_non_empty_value (non_replayable_reason report) then
        fail ''non_replayable_reason must be empty when replay_safe is true''
      else pass ''idempotency and side-effect report is valid'')"

definition validate_report_field_rules :: "IdempotencyAndSideEffectReport \<Rightarrow> GuardResult"
where [guard_defs]:
  "validate_report_field_rules report =
     (let required_result = validate_report_required_fields report
      in if \<not> ok required_result then required_result
         else if the (replay_safe report) \<and> the (side_effects_present report) \<and>
                 \<not> has_non_empty_value (idempotency_key report) then
           fail ''idempotency_key is required when replay_safe is true and side_effects_present is true''
         else pass ''idempotency and side-effect report field rules passed'')"

definition recovery_request_optional_string_values_match ::
  "string option \<Rightarrow> string option \<Rightarrow> bool"
where
  "recovery_request_optional_string_values_match left right \<longleftrightarrow>
     left = None \<or> right = None \<or> the left = the right"

definition recovery_request_error_info_matches :: "ErrorInfo \<Rightarrow> ErrorInfo \<Rightarrow> bool" where
  "recovery_request_error_info_matches left right \<longleftrightarrow>
     failure_type left = failure_type right \<and>
     retryable left = retryable right \<and>
     safe_to_replan left = safe_to_replan right \<and>
     err_code (err_details left) = err_code (err_details right) \<and>
     err_message (err_details left) = err_message (err_details right) \<and>
     err_stage (err_details left) = err_stage (err_details right) \<and>
     ref_type (source_ref left) = ref_type (source_ref right) \<and>
     ref_id (source_ref left) = ref_id (source_ref right)"

text \<open>
  The nested evidence is checked part by part; each part's own reason is replaced by one
  naming the part, except the report's, which is passed on.
\<close>

definition validate_recovery_request_required_fields :: "RecoveryRequest \<Rightarrow> GuardResult"
where
  "validate_recovery_request_required_fields request =
     (if reflection_decision request = None then fail ''reflection_decision is required''
      else if \<not> ok (validate_reflection_decision_field_rules (the (reflection_decision request))) then
        fail ''reflection_decision must pass nested ReflectionDecision validation''
      else if error_info request = None then fail ''error_info is required''
      else if \<not> ok (validate_error_info_required_fields (the (error_info request))) then
        fail ''error_info must pass nested ErrorInfo validation''
      else if latest_observation request = None then fail ''latest_observation is required''
      else if \<not> ok (validate_observation_boundary (the (latest_observation request))) then
        fail ''latest_observation must pass nested Observation validation''
      else if rq_checkpoint request = None then fail ''checkpoint is required''
      else if \<not> ok (validate_checkpoint_field_rules (the (rq_checkpoint request))) then
        fail ''checkpoint must pass nested Checkpoint validation''
      else if idempotency_and_side_effect_report request = None then
        fail ''idempotency_and_side_effect_report is required''
      else
        (let report_result =
               validate_report_required_fields (the (idempotency_and_side_effect_report request))
         in if \<not> ok report_result then report_result
            else pass ''all required recovery-request evidence present''))"

definition validate_recovery_request_boundary :: "RecoveryRequest \<Rightarrow> GuardResult" where
  "validate_recovery_request_boundary request =
     (let required_result = validate_recovery_request_required_fields request;
          obs = the (latest_observation request);
          cp = the (rq_checkpoint request)
      in if \<not> ok required_result then required_result
         else if the (obs_success obs) then
           fail ''latest_observation must describe a failed execution''
         else if obs_error obs = None then
           fail ''latest_observation.error must be present for recovery admission''
         else if cp_state cp = Some CS_Succeeded then
           fail ''checkpoint.state must not be Succeeded for recovery admission''
         else if rq_retry_count request \<noteq> None \<and> cp_retry_count cp \<noteq> None \<and>
                 rq_retry_count request \<noteq> cp_retry_count cp then
           fail ''retry_count must match checkpoint.retry_count when both are present''
         else if (case runtime_budget_snapshot request of None \<Rightarrow> False
                  | Some snapshot \<Rightarrow> \<not> ok (validate_budget_snapshot snapshot)) then
           fail ''runtime_budget_snapshot must pass nested BudgetSnapshot validation''
         else pass ''recovery request boundary validation passed'')"

text \<open>The correlation of the error's source reference with the observation's source.\<close>

definition error_source_correlation :: "ErrorInfo \<Rightarrow> Observation \<Rightarrow> GuardResult option" where
  "error_source_correlation err obs =
     (case the (obs_source obs) of
        ToolExecution \<Rightarrow>
          if ref_type (source_ref err) \<noteq> ''tool_call'' then
            Some (fail ''error_info.source_ref.ref_type must be tool_call when latest_observation.source is ToolExecution'')
          else if tool_call_id obs = None \<or> ref_id (source_ref err) \<noteq> the (tool_call_id obs) then
            Some (fail ''error_info.source_ref.ref_id must match latest_observation.tool_call_id for ToolExecution observations'')
          else None
      | WorkerAgent \<Rightarrow>
          if ref_type (source_ref err) \<noteq> ''worker_task'' then
            Some (fail ''error_info.source_ref.ref_type must be worker_task when latest_observation.source is WorkerAgent'')
          else if worker_task_id obs = None \<or> ref_id (source_ref err) \<noteq> the (worker_task_id obs) then
            Some (fail ''error_info.source_ref.ref_id must match latest_observation.worker_task_id for WorkerAgent observations'')
          else None
      | Retrieval \<Rightarrow>
          if ref_type (source_ref err) \<noteq> ''observation'' then
            Some (fail ''error_info.source_ref.ref_type must be observation when latest_observation.source is Retrieval or HumanFeedback'')
          else if ref_id (source_ref err) \<noteq> the (observation_id obs) then
            Some (fail ''error_info.source_ref.ref_id must match latest_observation.observation_id for Retrieval or HumanFeedback observations'')
          else None
      | HumanFeedback \<Rightarrow>
          if ref_type (source_ref err) \<noteq> ''observation'' then
            Some (fail ''error_info.source_ref.ref_type must be observation when latest_observation.source is Retrieval or HumanFeedback'')
          else if ref_id (source_ref err) \<noteq> the (observation_id obs) then
            Some (fail ''error_info.source_ref.ref_id must match latest_observation.observation_id for Retrieval or HumanFeedback observations'')
          else None
      | Source_Unspecified \<Rightarrow>
          Some (fail ''latest_observation.source must be present and not Unspecified'')
      | Source_Raw _ \<Rightarrow> None)"

definition ids_match :: "string option \<Rightarrow> string option \<Rightarrow> string option \<Rightarrow> bool" where
  "ids_match a b c \<longleftrightarrow>
     recovery_request_optional_string_values_match a b \<and>
     recovery_request_optional_string_values_match a c \<and>
     recovery_request_optional_string_values_match b c"

definition validate_recovery_request_field_rules :: "RecoveryRequest \<Rightarrow> GuardResult" where
  "validate_recovery_request_field_rules request =
     (let boundary_result = validate_recovery_request_boundary request;
          decision = the (reflection_decision request);
          err = the (error_info request);
          obs = the (latest_observation request);
          cp = the (rq_checkpoint request)
      in if \<not> ok boundary_result then boundary_result
         else if \<not> ok (validate_observation_source_correlation obs) then
           fail (reason (validate_observation_source_correlation obs))
         else if \<not> ids_match (rd_request_id decision) (obs_request_id obs) (cp_request_id cp) then
           fail ''request_id values across reflection_decision/latest_observation/checkpoint must match when present''
         else if \<not> ids_match (rd_goal_id decision) (obs_goal_id obs) (cp_goal_id cp) then
           fail ''goal_id values across reflection_decision/latest_observation/checkpoint must match when present''
         else if \<not> recovery_request_error_info_matches err (the (obs_error obs)) then
           fail ''error_info must mirror latest_observation.error when latest_observation.error is present''
         else
           (case error_source_correlation err obs of
              Some failure \<Rightarrow> failure
            | None \<Rightarrow>
                (let report_field_result =
                       validate_report_field_rules (the (idempotency_and_side_effect_report request))
                 in if \<not> ok report_field_result then report_field_result
                    else pass ''recovery request field rules validation passed'')))"

section \<open>Recovery outcomes\<close>

fun recovery_outcome_string_has_non_whitespace_content :: "string \<Rightarrow> bool" where
  "recovery_outcome_string_has_non_whitespace_content [] = False"
| "recovery_outcome_string_has_non_whitespace_content (ch # value) =
     (if \<not> isspace ch then True else recovery_outcome_string_has_non_whitespace_content value)"

definition recovery_outcome_optional_string_has_non_whitespace_content :: "string option \<Rightarrow> bool"
where
  "recovery_outcome_optional_string_has_non_whitespace_content v \<longleftrightarrow>
     v = None \<or> recovery_outcome_string_has_non_whitespace_content (the v)"

definition validate_recovery_outcome_required_fields :: "RecoveryOutcome \<Rightarrow> GuardResult" where
  "validate_recovery_outcome_required_fields outcome =
     (if \<not> has_non_empty_value (executed_action outcome) then
        fail ''executed_action is required and must be non-empty''
      else if \<not> has_non_empty_value (final_runtime_state outcome) then
        fail ''final_runtime_state is required and must be non-empty''
      else pass ''all required recovery-outcome fields present'')"

definition recovery_outcome_optional_string_is_valid :: "string option \<Rightarrow> bool" where
  "recovery_outcome_optional_string_is_valid v \<longleftrightarrow> v = None \<or> \<not> empty_string (the v)"

definition validate_recovery_outcome_boundary :: "RecoveryOutcome \<Rightarrow> GuardResult" where
  "validate_recovery_outcome_boundary outcome =
     (let required_result = validate_recovery_outcome_required_fields outcome
      in if \<not> ok required_result then required_result
         else if \<not> recovery_outcome_optional_string_is_valid (ro_checkpoint_ref outcome) then
           fail ''checkpoint_ref must be non-empty when present''
         else if \<not> recovery_outcome_optional_string_is_valid (compensation_result_ref outcome) then
           fail ''compensation_result_ref must be non-empty when present''
         else if \<not> recovery_outcome_optional_string_is_valid (ro_rejection_reason outcome) then
           fail ''rejection_reason must be non-empty when present''
         else if \<not> recovery_outcome_optional_string_is_valid (escalation_reason outcome) then
           fail ''escalation_reason must be non-empty when present''
         else if ro_rejection_reason outcome \<noteq> None \<and> escalation_reason outcome \<noteq> None then
           fail ''rejection_reason and escalation_reason must not both be present''
         else pass ''recovery outcome boundary validation passed'')"

definition validate_recovery_outcome_field_rules :: "RecoveryOutcome \<Rightarrow> GuardResult" where
  "validate_recovery_outcome_field_rules outcome =
     (let boundary_result = validate_recovery_outcome_boundary outcome
      in if \<not> ok boundary_result then boundary_result
         else if \<not> recovery_outcome_string_has_non_whitespace_content (the (executed_action outcome)) then
           fail ''executed_action must contain at least one non-whitespace character''
         else if \<not> recovery_outcome_string_has_non_whitespace_content (the (final_runtime_state outcome)) then
           fail ''final_runtime_state must contain at least one non-whitespace character''
         else if \<not> recovery_outcome_optional_string_has_non_whitespace_content (ro_checkpoint_ref outcome) then
           fail ''checkpoint_ref must contain at least one non-whitespace character when present''
         else if \<not> recovery_outcome_optional_string_has_non_whitespace_content (compensation_result_ref outcome) then
           fail ''compensation_result_ref must contain at least one non-whitespace character when present''
         else if \<not> recovery_outcome_optional_string_has_non_whitespace_content (ro_rejection_reason outcome) then
           fail ''rejection_reason must contain at least one non-whitespace character when present''
         else if \<not> recovery_outcome_optional_string_has_non_whitespace_content (escalation_reason outcome) then
           fail ''escalation_reason must contain at least one non-whitespace character when present''
         else if ro_checkpoint_ref outcome \<noteq> None \<and> compensation_result_ref outcome \<noteq> None \<and>
                 the (ro_checkpoint_ref outcome) = the (compensation_result_ref outcome) then
           fail ''checkpoint_ref and compensation_result_ref must not use the same identifier''
         else pass ''recovery outcome field rules validation passed'')"

section \<open>What an accepted recovery request guarantees\<close>

lemma recovery_request_boundary_ok:
  assumes "ok (validate_recovery_request_field_rules r)"
  shows "ok (validate_recovery_request_boundary r)"
  using assms by (auto simp: validate_recovery_request_field_rules_def Let_def split: if_splits)

lemma recovery_request_required_ok:
  assumes "ok (validate_recovery_request_field_rules r)"
  shows "ok (validate_recovery_request_required_fields r)"
  using recovery_request_boundary_ok [OF assms]
  by (auto simp: validate_recovery_request_boundary_def Let_def split: if_splits)

lemma recovery_request_evidence:
  assumes "ok (validate_recovery_request_field_rules r)"
  obtains d e obs cp rep
  where "reflection_decision r = Some d" "ok (validate_reflection_decision_field_rules d)"
    and "error_info r = Some e" "ok (validate_error_info_required_fields e)"
    and "latest_observation r = Some obs" "ok (validate_observation_boundary obs)"
    and "rq_checkpoint r = Some cp" "ok (validate_checkpoint_field_rules cp)"
    and "idempotency_and_side_effect_report r = Some rep" "ok (validate_report_required_fields rep)"
  using recovery_request_required_ok [OF assms] that
  by (auto simp: validate_recovery_request_required_fields_def Let_def split: if_splits)

lemma reflection_kind_ok:
  assumes "ok (validate_reflection_decision_field_rules d)"
  shows "\<exists>k. decision_kind d = Some k \<and>
           (k = Kind_Continue \<or> k = RetryStep \<or> k = Kind_Replan \<or> k = AbortSafe \<or> (\<exists>i. k = Kind_Raw i))"
proof -
  from assms obtain k where "decision_kind d = Some k" "k \<noteq> Kind_Unspecified"
    by (auto simp: validate_reflection_decision_field_rules_def
        validate_reflection_decision_boundary_def
        validate_reflection_decision_required_fields_def Let_def split: if_splits)
  then show ?thesis by (cases k) auto
qed

lemma recovery_request_snapshot_ok:
  assumes "ok (validate_recovery_request_field_rules r)" and "runtime_budget_snapshot r = Some s"
  shows "ok (validate_budget_snapshot s)"
  using recovery_request_boundary_ok [OF assms(1)] assms(2)
  by (auto simp: validate_recovery_request_boundary_def Let_def split: if_splits)

end
