(* ===== verification/Budget_Controller.thy ===== *)
theory Budget_Controller
  imports Contract_Guards
begin

text \<open>
  \<^verbatim>\<open>BudgetController\<close> (\<^verbatim>\<open>runtime/src/budget/BudgetController.cpp\<close>) and its decision
  types (\<^verbatim>\<open>runtime/include/budget/BudgetDecision.h\<close>): five budget dimensions, each with a
  consumed amount, a limit and a signed remainder. The remainder is a signed 64-bit
  subtraction of two casts; where it leaves the range the C++ behaviour is undefined, and
  \<open>consume\<close> returns \<^const>\<open>None\<close> there. The abstract specification is a usage and a limit
  per dimension in \<^typ>\<open>nat\<close>; \<open>consume_refines\<close> relates the two.
\<close>

section \<open>Decisions\<close>

datatype BudgetViolationClass =
    Violation_None | ConfigurationInvalid | SnapshotUnavailable | TokenExhausted
  | TurnExhausted | ToolCallExhausted | LatencyExhausted | ReplanExhausted

fun violated_budget_type :: "BudgetViolationClass \<Rightarrow> BudgetType option" where
  "violated_budget_type TokenExhausted = Some Token"
| "violated_budget_type TurnExhausted = Some Turn"
| "violated_budget_type ToolCallExhausted = Some ToolCall"
| "violated_budget_type LatencyExhausted = Some Latency"
| "violated_budget_type ReplanExhausted = Some Replan"
| "violated_budget_type _ = None"

fun budget_violation_error_code :: "BudgetViolationClass \<Rightarrow> RuntimeErrorCode option" where
  "budget_violation_error_code ConfigurationInvalid = Some RT_E_100_CONFIG_MISSING"
| "budget_violation_error_code SnapshotUnavailable = Some RT_E_202_STATE_INCONSISTENT"
| "budget_violation_error_code TokenExhausted = Some RT_E_300_BUDGET_EXHAUSTED"
| "budget_violation_error_code TurnExhausted = Some RT_E_301_TURN_OVERRUN"
| "budget_violation_error_code ToolCallExhausted = Some RT_E_302_TOOL_CALL_OVERRUN"
| "budget_violation_error_code LatencyExhausted = Some RT_E_303_LATENCY_OVERRUN"
| "budget_violation_error_code ReplanExhausted = Some RT_E_304_REPLAN_OVERRUN"
| "budget_violation_error_code Violation_None = None"

record BudgetDecision =
  bd_allowed :: bool
  bd_budget_type :: "BudgetType option"
  bd_violation :: BudgetViolationClass
  bd_error_code :: "RuntimeErrorCode option"
  bd_detail :: string

definition make_budget_allowed_decision :: "BudgetType option \<Rightarrow> string \<Rightarrow> BudgetDecision"
where [outcome_simps]:
  "make_budget_allowed_decision t detail =
     \<lparr>bd_allowed = True, bd_budget_type = t, bd_violation = Violation_None,
      bd_error_code = None, bd_detail = detail\<rparr>"

definition make_budget_rejected_decision ::
  "BudgetViolationClass \<Rightarrow> string \<Rightarrow> BudgetType option \<Rightarrow> BudgetDecision"
where [outcome_simps]:
  "make_budget_rejected_decision violation detail t =
     \<lparr>bd_allowed = False,
      bd_budget_type = (if t \<noteq> None then t else violated_budget_type violation),
      bd_violation = violation, bd_error_code = budget_violation_error_code violation,
      bd_detail = detail\<rparr>"

definition exhausted_violation_for :: "BudgetType \<Rightarrow> BudgetViolationClass" where
  "exhausted_violation_for t =
     (case t of Token \<Rightarrow> TokenExhausted | Turn \<Rightarrow> TurnExhausted | ToolCall \<Rightarrow> ToolCallExhausted
      | Latency \<Rightarrow> LatencyExhausted | Replan \<Rightarrow> ReplanExhausted)"

record BudgetInitializeRequest =
  init_runtime_budget :: RuntimeBudget
  init_started_at_ms :: u64

record BudgetConsumeRequest =
  consume_type :: BudgetType
  amount :: u64
  observed_at_ms :: u64
  consume_detail :: string

section \<open>The controller\<close>

record BudgetController =
  initialized :: bool
  started_at_ms :: u64
  runtime_budget :: RuntimeBudget
  bc_snapshot :: BudgetSnapshot

definition fresh_controller :: BudgetController where
  "fresh_controller =
     \<lparr>initialized = False, started_at_ms = 0, runtime_budget = empty_runtime_budget,
      bc_snapshot = empty_budget_snapshot\<rparr>"

definition initial_entry :: "BudgetType \<Rightarrow> u32 option \<Rightarrow> BudgetSnapshotEntry" where
  "initial_entry t mx =
     \<lparr>budget_type = t, current = 0, max_limit = ucast (the mx), remaining = uint (the mx),
      reject_reason = None\<rparr>"

definition build_initial_snapshot :: "RuntimeBudget \<Rightarrow> u64 \<Rightarrow> BudgetSnapshot" where
  "build_initial_snapshot b started =
     \<lparr>snapshot_at_ms = Some started,
      entries =
        [initial_entry Token (max_tokens b), initial_entry Turn (max_turns b),
         initial_entry ToolCall (max_tool_calls b), initial_entry Latency (max_latency_ms b),
         initial_entry Replan (max_replan_count b)],
      overall_reject_reason = None\<rparr>"

text \<open>
  Assigning a \<^verbatim>\<open>uint64_t\<close> to an \<^verbatim>\<open>optional<uint32_t>\<close> keeps the low 32 bits. The
  budget is present when every dimension was seen, which is when no field is left empty.
\<close>

fun collect_limits :: "RuntimeBudget \<Rightarrow> BudgetSnapshotEntry list \<Rightarrow> RuntimeBudget" where
  "collect_limits b [] = b"
| "collect_limits b (entry # es) =
     (let mx = Some (ucast (max_limit entry) :: u32)
      in collect_limits
           (case budget_type entry of
              Token \<Rightarrow> b\<lparr>max_tokens := mx\<rparr>
            | Turn \<Rightarrow> b\<lparr>max_turns := mx\<rparr>
            | ToolCall \<Rightarrow> b\<lparr>max_tool_calls := mx\<rparr>
            | Latency \<Rightarrow> b\<lparr>max_latency_ms := mx\<rparr>
            | Replan \<Rightarrow> b\<lparr>max_replan_count := mx\<rparr>) es)"

definition runtime_budget_from_snapshot :: "BudgetSnapshot \<Rightarrow> RuntimeBudget option" where
  "runtime_budget_from_snapshot snapshot =
     (let b = collect_limits empty_runtime_budget (entries snapshot)
      in if max_tokens b = None \<or> max_turns b = None \<or> max_tool_calls b = None \<or>
            max_latency_ms b = None \<or> max_replan_count b = None
         then None else Some b)"

fun first_reject_reason :: "BudgetSnapshotEntry list \<Rightarrow> string option" where
  "first_reject_reason [] = None"
| "first_reject_reason (entry # es) =
     (if reject_reason entry \<noteq> None then reject_reason entry else first_reject_reason es)"

definition refresh_overall_reject_reason :: "BudgetSnapshot \<Rightarrow> BudgetSnapshot" where
  "refresh_overall_reject_reason snapshot =
     snapshot\<lparr>overall_reject_reason := first_reject_reason (entries snapshot)\<rparr>"

definition budget_initialize ::
  "BudgetController \<Rightarrow> BudgetInitializeRequest \<Rightarrow> BudgetController \<times> BudgetDecision"
where
  "budget_initialize bc request =
     (let guard_result = validate_runtime_budget (init_runtime_budget request)
      in if \<not> ok guard_result then
           (fresh_controller,
            make_budget_rejected_decision ConfigurationInvalid (reason guard_result) None)
         else
           (\<lparr>initialized = True, started_at_ms = init_started_at_ms request,
             runtime_budget = init_runtime_budget request,
             bc_snapshot = build_initial_snapshot (init_runtime_budget request)
                             (init_started_at_ms request)\<rparr>,
            make_budget_allowed_decision None ''budget initialized''))"

definition restore ::
  "BudgetController \<Rightarrow> BudgetSnapshot \<Rightarrow> u64 \<Rightarrow> BudgetController \<times> BudgetDecision"
where
  "restore bc snapshot started =
     (let snapshot_guard = validate_budget_snapshot snapshot
      in if \<not> ok snapshot_guard then
           (fresh_controller,
            make_budget_rejected_decision SnapshotUnavailable (reason snapshot_guard) None)
         else
           (case runtime_budget_from_snapshot snapshot of
              None \<Rightarrow>
                (fresh_controller,
                 make_budget_rejected_decision SnapshotUnavailable
                   ''budget snapshot is missing one or more dimensions'' None)
            | Some b \<Rightarrow>
                (let guard_result = validate_runtime_budget b
                 in if \<not> ok guard_result then
                      (fresh_controller,
                       make_budget_rejected_decision ConfigurationInvalid
                         (reason guard_result) None)
                    else
                      (\<lparr>initialized = True, started_at_ms = started, runtime_budget = b,
                        bc_snapshot = refresh_overall_reject_reason
                          (if snapshot_at_ms snapshot \<noteq> None then snapshot
                           else snapshot\<lparr>snapshot_at_ms := Some started\<rparr>)\<rparr>,
                       make_budget_allowed_decision None
                         ''budget restored from checkpoint snapshot''))))"

definition find_entry :: "BudgetSnapshotEntry list \<Rightarrow> BudgetType \<Rightarrow> BudgetSnapshotEntry option" where
  "find_entry es t = List.find (\<lambda>entry. budget_type entry = t) es"

text \<open>Writing through the pointer \<^verbatim>\<open>find_entry_locked\<close> returns: the first match is replaced.\<close>

fun replace_entry :: "BudgetSnapshotEntry list \<Rightarrow> BudgetSnapshotEntry \<Rightarrow> BudgetSnapshotEntry list" where
  "replace_entry [] e' = []"
| "replace_entry (entry # es) e' =
     (if budget_type entry = budget_type e' then e' # es else entry # replace_entry es e')"

definition consume ::
  "BudgetController \<Rightarrow> BudgetConsumeRequest \<Rightarrow> (BudgetController \<times> BudgetDecision) option"
where
  "consume bc request =
     (if \<not> initialized bc then
        Some (bc, make_budget_rejected_decision SnapshotUnavailable
                    ''budget controller must be initialized before consume'' None)
      else
        (case find_entry (entries (bc_snapshot bc)) (consume_type request) of
           None \<Rightarrow>
             Some (bc, make_budget_rejected_decision SnapshotUnavailable
                         ''budget snapshot entry is missing'' (Some (consume_type request)))
         | Some entry \<Rightarrow>
             (let cur =
                    (if consume_type request = Latency then
                       (if observed_at_ms request > started_at_ms bc
                        then observed_at_ms request - started_at_ms bc else 0)
                     else current entry + amount request);
                  diff = sint (max_limit entry) - sint cur
              in if \<not> is_i64 diff then None \<comment> \<open>signed overflow\<close>
                 else
                   (let over = cur > max_limit entry;
                        why = (if over then
                                 Some (if empty_string (consume_detail request)
                                       then ''budget exhausted'' else consume_detail request)
                               else None);
                        entry' = entry\<lparr>current := cur, remaining := diff, reject_reason := why\<rparr>;
                        snapshot' = refresh_overall_reject_reason
                          ((bc_snapshot bc)\<lparr>snapshot_at_ms := Some (observed_at_ms request),
                             entries := replace_entry (entries (bc_snapshot bc)) entry'\<rparr>)
                    in Some
                         (bc\<lparr>bc_snapshot := snapshot'\<rparr>,
                          if over then
                            make_budget_rejected_decision
                              (exhausted_violation_for (consume_type request)) (the why)
                              (Some (consume_type request))
                          else
                            make_budget_allowed_decision (Some (consume_type request))
                              (if empty_string (consume_detail request) then ''budget consumed''
                               else consume_detail request))))))"

fun check_dimensions :: "BudgetSnapshotEntry list \<Rightarrow> BudgetType list \<Rightarrow> BudgetDecision option" where
  "check_dimensions es [] = None"
| "check_dimensions es (t # ts) =
     (case find_entry es t of
        None \<Rightarrow>
          Some (make_budget_rejected_decision SnapshotUnavailable
                  ''budget snapshot entry is missing'' (Some t))
      | Some entry \<Rightarrow>
          if current entry > max_limit entry then
            Some (make_budget_rejected_decision (exhausted_violation_for t)
                    (value_or (reject_reason entry) ''budget exhausted'') (Some t))
          else check_dimensions es ts)"

definition decision_for ::
  "BudgetController \<Rightarrow> BudgetType list \<Rightarrow> BudgetType option \<Rightarrow> string \<Rightarrow> BudgetDecision"
where
  "decision_for bc required_dimensions allowed_budget_type allowed_detail =
     (if \<not> initialized bc then
        make_budget_rejected_decision SnapshotUnavailable
          ''budget controller has no snapshot'' None
      else
        (case check_dimensions (entries (bc_snapshot bc)) required_dimensions of
           Some decision \<Rightarrow> decision
         | None \<Rightarrow> make_budget_allowed_decision allowed_budget_type allowed_detail))"

definition can_continue :: "BudgetController \<Rightarrow> BudgetDecision" where
  "can_continue bc =
     decision_for bc [Token, Turn, Latency] (Some Turn) ''continue budget available''"

definition can_replan :: "BudgetController \<Rightarrow> BudgetDecision" where
  "can_replan bc =
     decision_for bc [Token, Turn, Latency, Replan] (Some Replan) ''replan budget available''"

definition can_call_tool :: "BudgetController \<Rightarrow> BudgetDecision" where
  "can_call_tool bc =
     decision_for bc [Token, Turn, Latency, ToolCall] (Some ToolCall)
       ''tool-call budget available''"

section \<open>Invariant\<close>

text \<open>
  An initialised controller has one entry per dimension, each consistent and below the
  signed range, and its overall reason is the first entry's reason.
\<close>

definition small_entry :: "BudgetSnapshotEntry \<Rightarrow> bool" where
  "small_entry e \<longleftrightarrow> unat (max_limit e) < 2 ^ 63 \<and> unat (current e) < 2 ^ 63"

definition budget_inv :: "BudgetController \<Rightarrow> bool" where
  "budget_inv bc \<longleftrightarrow>
     initialized bc \<and>
     distinct (map budget_type (entries (bc_snapshot bc))) \<and>
     set (map budget_type (entries (bc_snapshot bc))) = UNIV \<and>
     (\<forall>e\<in>set (entries (bc_snapshot bc)). entry_consistent e \<and> small_entry e) \<and>
     snapshot_at_ms (bc_snapshot bc) \<noteq> None \<and>
     overall_reject_reason (bc_snapshot bc) = first_reject_reason (entries (bc_snapshot bc))"

lemma BudgetType_UNIV: "(UNIV :: BudgetType set) = {Token, Turn, ToolCall, Latency, Replan}"
proof -
  have "t \<in> {Token, Turn, ToolCall, Latency, Replan}" for t by (cases t) simp_all
  then show ?thesis by blast
qed

lemma find_entry_Some:
  "find_entry es t = Some e \<Longrightarrow> e \<in> set es \<and> budget_type e = t"
  by (auto simp: find_entry_def dest: find_Some_first)

lemma find_entry_exists:
  "t \<in> set (map budget_type es) \<Longrightarrow> \<exists>e. find_entry es t = Some e"
  by (induction es) (auto simp: find_entry_def)

lemma budget_inv_entry:
  assumes "budget_inv bc"
  obtains e where "find_entry (entries (bc_snapshot bc)) t = Some e" and "budget_type e = t"
    and "entry_consistent e" and "small_entry e"
proof -
  have "t \<in> set (map budget_type (entries (bc_snapshot bc)))"
    using assms by (simp only: budget_inv_def UNIV_I)
  from find_entry_exists [OF this] obtain e
    where e: "find_entry (entries (bc_snapshot bc)) t = Some e" ..
  from find_entry_Some [OF e] assms have "entry_consistent e \<and> small_entry e"
    by (auto simp: budget_inv_def)
  with that [OF e] find_entry_Some [OF e] show ?thesis by blast
qed

lemma replace_entry_types [simp]:
  "map budget_type (replace_entry es e') = map budget_type es"
  by (induction es) auto

lemma replace_entry_set:
  "x \<in> set (replace_entry es e') \<Longrightarrow> x \<in> set es \<or> x = e'"
  by (induction es) (auto split: if_splits)

lemma find_replace_entry:
  assumes "budget_type e' \<in> set (map budget_type es)"
  shows "find_entry (replace_entry es e') t =
           (if t = budget_type e' then Some e' else find_entry es t)"
  using assms by (induction es) (auto simp: find_entry_def)

lemma sint_small:
  assumes "unat (w :: u64) < 2 ^ 63"
  shows "sint w = int (unat w)"
proof -
  have "int (unat w) < int (2 ^ 63)" using assms by (simp only: of_nat_less_iff)
  then have u: "uint w < 2 ^ 63" by (simp only: of_nat_unat of_nat_power of_nat_numeral)
  have l: "- 9223372036854775808 \<le> uint w" using uint_ge_0 [of w] by linarith
  have s: "sint w = signed_take_bit (LENGTH(64) - Suc 0) (uint w)" by (rule sint_uint)
  show ?thesis
    unfolding s using u l by (subst signed_take_bit_int_eq_self) simp_all
qed

section \<open>The abstract budget\<close>

text \<open>
  What the controller promises: a usage and a limit per dimension, a charge that is added
  to the usage (latency is replaced by the elapsed time), and a verdict that compares the two.
\<close>

definition used :: "BudgetController \<Rightarrow> BudgetType \<Rightarrow> nat" where
  "used bc t = (case find_entry (entries (bc_snapshot bc)) t of
                  None \<Rightarrow> 0 | Some e \<Rightarrow> unat (current e))"

definition limit :: "BudgetController \<Rightarrow> BudgetType \<Rightarrow> nat" where
  "limit bc t = (case find_entry (entries (bc_snapshot bc)) t of
                   None \<Rightarrow> 0 | Some e \<Rightarrow> unat (max_limit e))"

definition charge :: "BudgetController \<Rightarrow> BudgetConsumeRequest \<Rightarrow> nat" where
  "charge bc r =
     (if consume_type r = Latency then unat (observed_at_ms r) - unat (started_at_ms bc)
      else used bc (consume_type r) + unat (amount r))"

lemma budget_inv_overall:
  "budget_inv bc \<Longrightarrow> initialized bc"
  by (simp add: budget_inv_def)

lemma small_consistent_entry:
  fixes cur :: u64
  assumes "unat (max_limit e) < 2 ^ 63" and "unat cur < 2 ^ 63"
  shows "sint (max_limit e) - sint cur = uint (max_limit e) - uint cur"
    and "is_i64 (sint (max_limit e) - sint cur)"
proof -
  have u: "uint w < 2 ^ 63" if "unat w < 2 ^ 63" for w :: u64
  proof -
    have "int (unat w) < int (2 ^ 63)" using that by (simp only: of_nat_less_iff)
    then show ?thesis by (simp only: of_nat_unat of_nat_power of_nat_numeral)
  qed
  show eq: "sint (max_limit e) - sint cur = uint (max_limit e) - uint cur"
    by (simp add: sint_small [OF assms(1)] sint_small [OF assms(2)])
  have "0 \<le> uint (max_limit e)" "0 \<le> uint cur" by simp_all
  with u [OF assms(1)] u [OF assms(2)] show "is_i64 (sint (max_limit e) - sint cur)"
    unfolding eq is_i64_def by linarith
qed

lemma charge_word:
  assumes "find_entry (entries (bc_snapshot bc)) (consume_type r) = Some e"
    and "charge bc r < 2 ^ 63"
  shows "unat (if consume_type r = Latency then
                 (if observed_at_ms r > started_at_ms bc
                  then observed_at_ms r - started_at_ms bc else 0)
               else current e + amount r) = charge bc r"
proof (cases "consume_type r = Latency")
  case True
  then show ?thesis by (auto simp: charge_def unat_sub word_less_nat_alt word_le_nat_alt)
next
  case False
  with assms have "unat (current e) + unat (amount r) < 2 ^ 63"
    by (simp add: charge_def used_def)
  then have "unat (current e) + unat (amount r) < 2 ^ LENGTH(64)" by simp
  then have "unat (current e + amount r) = unat (current e) + unat (amount r)"
    by (rule unat_add_lem [THEN iffD1])
  with False assms show ?thesis by (simp add: charge_def used_def)
qed

lemma consume_cases:
  assumes inv: "budget_inv bc" and fits: "charge bc r < 2 ^ 63"
  obtains e cur e' d where
    "find_entry (entries (bc_snapshot bc)) (consume_type r) = Some e"
    and "unat cur = charge bc r"
    and "budget_type e' = consume_type r" and "current e' = cur" and "max_limit e' = max_limit e"
    and "entry_consistent e'" and "small_entry e'"
    and "consume bc r = Some (bc\<lparr>bc_snapshot := refresh_overall_reject_reason
           ((bc_snapshot bc)\<lparr>snapshot_at_ms := Some (observed_at_ms r),
              entries := replace_entry (entries (bc_snapshot bc)) e'\<rparr>)\<rparr>, d)"
    and "d = (if cur > max_limit e then
                make_budget_rejected_decision (exhausted_violation_for (consume_type r))
                  (the (reject_reason e')) (Some (consume_type r))
              else make_budget_allowed_decision (Some (consume_type r))
                     (if empty_string (consume_detail r) then ''budget consumed''
                      else consume_detail r))"
proof -
  obtain e where e: "find_entry (entries (bc_snapshot bc)) (consume_type r) = Some e"
    and bt: "budget_type e = consume_type r" and small: "small_entry e"
    using budget_inv_entry [OF inv] by metis
  define cur where "cur =
    (if consume_type r = Latency then
       (if observed_at_ms r > started_at_ms bc then observed_at_ms r - started_at_ms bc else 0)
     else current e + amount r)"
  have cur: "unat cur = charge bc r"
    unfolding cur_def by (rule charge_word [OF e fits])
  define why where "why = (if cur > max_limit e then
      Some (if empty_string (consume_detail r) then ''budget exhausted'' else consume_detail r)
      else None)"
  define e' where "e' = e\<lparr>current := cur, remaining := sint (max_limit e) - sint cur,
                           reject_reason := why\<rparr>"
  have m: "unat (max_limit e) < 2 ^ 63" and c: "unat cur < 2 ^ 63"
    using small cur fits by (simp_all add: small_entry_def)
  note i64 = small_consistent_entry [OF m c]
  have "has_non_empty_value why \<longleftrightarrow> cur > max_limit e"
    by (simp add: why_def has_non_empty_value_def)
  with i64 have cons: "entry_consistent e'"
    by (simp add: entry_consistent_def e'_def)
  have sm: "small_entry e'" using m c by (simp add: small_entry_def e'_def)
  show ?thesis
  proof (rule that [OF e cur _ _ _ cons sm _ refl])
    show "budget_type e' = consume_type r" "current e' = cur" "max_limit e' = max_limit e"
      by (simp_all add: e'_def bt)
    show "consume bc r = Some (bc\<lparr>bc_snapshot := refresh_overall_reject_reason
           ((bc_snapshot bc)\<lparr>snapshot_at_ms := Some (observed_at_ms r),
              entries := replace_entry (entries (bc_snapshot bc)) e'\<rparr>)\<rparr>,
         if cur > max_limit e then
                make_budget_rejected_decision (exhausted_violation_for (consume_type r))
                  (the (reject_reason e')) (Some (consume_type r))
              else make_budget_allowed_decision (Some (consume_type r))
                     (if empty_string (consume_detail r) then ''budget consumed''
                      else consume_detail r))"
      using budget_inv_overall [OF inv] e i64(2)
      by (simp add: consume_def Let_def cur_def [symmetric] why_def e'_def
            del: not_None_eq)
  qed
qed

lemma budget_inv_update:
  assumes inv: "budget_inv bc" and "entry_consistent e'" "small_entry e'"
  shows "budget_inv (bc\<lparr>bc_snapshot := refresh_overall_reject_reason
           ((bc_snapshot bc)\<lparr>snapshot_at_ms := Some w,
              entries := replace_entry (entries (bc_snapshot bc)) e'\<rparr>)\<rparr>)"
proof -
  have "\<forall>x\<in>set (replace_entry (entries (bc_snapshot bc)) e'). entry_consistent x \<and> small_entry x"
    using assms by (auto simp: budget_inv_def dest: replace_entry_set)
  moreover have "set (map budget_type (replace_entry (entries (bc_snapshot bc)) e')) = UNIV"
    and "distinct (map budget_type (replace_entry (entries (bc_snapshot bc)) e'))"
    using inv by (simp_all only: replace_entry_types budget_inv_def)
  ultimately show ?thesis
    using inv by (simp add: budget_inv_def refresh_overall_reject_reason_def del: set_map)
qed

lemma consume_refines_aux:
  assumes inv: "budget_inv bc" and fits: "charge bc r < 2 ^ 63"
  shows "\<exists>bc' d. consume bc r = Some (bc', d) \<and> budget_inv bc' \<and>
     used bc' = (used bc)(consume_type r := charge bc r) \<and> limit bc' = limit bc \<and>
     started_at_ms bc' = started_at_ms bc \<and> runtime_budget bc' = runtime_budget bc \<and>
     bd_budget_type d = Some (consume_type r) \<and>
     (bd_allowed d \<longleftrightarrow> charge bc r \<le> limit bc (consume_type r))"
proof -
  from consume_cases [OF assms] obtain e cur e' d where
    e: "find_entry (entries (bc_snapshot bc)) (consume_type r) = Some e"
    and cur: "unat cur = charge bc r"
    and e': "budget_type e' = consume_type r" "current e' = cur" "max_limit e' = max_limit e"
    and ok': "entry_consistent e'" "small_entry e'"
    and c: "consume bc r = Some (bc\<lparr>bc_snapshot := refresh_overall_reject_reason
           ((bc_snapshot bc)\<lparr>snapshot_at_ms := Some (observed_at_ms r),
              entries := replace_entry (entries (bc_snapshot bc)) e'\<rparr>)\<rparr>, d)"
    and d: "d = (if cur > max_limit e then
                make_budget_rejected_decision (exhausted_violation_for (consume_type r))
                  (the (reject_reason e')) (Some (consume_type r))
              else make_budget_allowed_decision (Some (consume_type r))
                     (if empty_string (consume_detail r) then ''budget consumed''
                      else consume_detail r))" .
  let ?bc = "bc\<lparr>bc_snapshot := refresh_overall_reject_reason
           ((bc_snapshot bc)\<lparr>snapshot_at_ms := Some (observed_at_ms r),
              entries := replace_entry (entries (bc_snapshot bc)) e'\<rparr>)\<rparr>"
  have mem: "budget_type e' \<in> set (map budget_type (entries (bc_snapshot bc)))"
    using inv by (simp only: budget_inv_def UNIV_I)
  have u: "used ?bc = (used bc)(consume_type r := charge bc r)"
    by (rule ext) (simp add: used_def refresh_overall_reject_reason_def
        find_replace_entry [OF mem] e' cur del: set_map)
  have l: "limit ?bc = limit bc"
    by (rule ext) (simp add: limit_def refresh_overall_reject_reason_def
        find_replace_entry [OF mem] e' e del: set_map)
  have "bd_allowed d \<longleftrightarrow> charge bc r \<le> limit bc (consume_type r)"
    and "bd_budget_type d = Some (consume_type r)"
    by (auto simp: d outcome_simps limit_def e word_less_nat_alt cur)
  with c u l budget_inv_update [OF inv ok'] show ?thesis by auto
qed

section \<open>Verdicts of the gates\<close>

lemma check_dimensions_None:
  assumes inv: "budget_inv bc"
  shows "check_dimensions (entries (bc_snapshot bc)) ts = None \<longleftrightarrow>
           (\<forall>t\<in>set ts. used bc t \<le> limit bc t)"
proof (induction ts)
  case Nil
  then show ?case by simp
next
  case (Cons t ts)
  obtain e where e: "find_entry (entries (bc_snapshot bc)) t = Some e"
    using budget_inv_entry [OF inv] by metis
  have "current e > max_limit e \<longleftrightarrow> \<not> used bc t \<le> limit bc t"
    by (auto simp: used_def limit_def e word_less_nat_alt)
  with Cons e show ?case by simp
qed

lemma check_dimensions_rejects:
  "check_dimensions es ts = Some d \<Longrightarrow> \<not> bd_allowed d"
  by (induction ts) (auto simp: outcome_simps split: option.splits if_splits)

lemma decision_for_allowed:
  assumes inv: "budget_inv bc"
  shows "bd_allowed (decision_for bc ts t detail) \<longleftrightarrow> (\<forall>u\<in>set ts. used bc u \<le> limit bc u)"
  using check_dimensions_None [OF inv, of ts] budget_inv_overall [OF inv]
  by (auto simp: decision_for_def outcome_simps split: option.splits
      dest: check_dimensions_rejects)

section \<open>Initialisation and restoring\<close>

text \<open>
  The link between a snapshot and the runtime budget it was built from, kept by every
  charge: the limit of each dimension is the configured field.
\<close>

definition limit_field :: "RuntimeBudget \<Rightarrow> BudgetType \<Rightarrow> u32 option" where
  "limit_field b t =
     (case t of Token \<Rightarrow> max_tokens b | Turn \<Rightarrow> max_turns b | ToolCall \<Rightarrow> max_tool_calls b
      | Latency \<Rightarrow> max_latency_ms b | Replan \<Rightarrow> max_replan_count b)"

definition budget_linked :: "BudgetController \<Rightarrow> bool" where
  "budget_linked bc \<longleftrightarrow>
     ok (validate_runtime_budget (runtime_budget bc)) \<and>
     (\<forall>t. limit bc t = unat (the (limit_field (runtime_budget bc) t)))"

lemma valid_limit_field:
  "ok (validate_runtime_budget b) \<Longrightarrow> \<exists>w. limit_field b t = Some w"
  by (cases t) (auto simp: limit_field_def validate_runtime_budget_ok)

lemma unat_u32_bound: "unat (w :: u32) < 2 ^ 63"
proof -
  have "unat w < 2 ^ 32" using unsigned_less [of w] by simp
  then show ?thesis by simp
qed

lemma uint_ucast_u32 [simp]: "uint (ucast (w :: u32) :: u64) = uint w"
  by (simp add: uint_up_ucast is_up)

lemma unat_ucast_u32 [simp]: "unat (ucast (w :: u32) :: u64) = unat w"
  unfolding unat_eq_nat_uint by (simp only: uint_ucast_u32)

lemma initial_entry_good:
  "entry_consistent (initial_entry t mx) \<and> small_entry (initial_entry t mx)"
proof -
  have "is_i64 (uint w)" for w :: u32
  proof -
    have "uint w < 2 ^ 32" "0 \<le> uint w" "(2 :: int) ^ 32 \<le> 2 ^ 63" using uint_lt2p [of w] by simp_all
    then show ?thesis unfolding is_i64_def by (intro conjI) linarith+
  qed
  moreover have "unat w < 2 ^ 63" for w :: u32 by (rule unat_u32_bound)
  ultimately show ?thesis
    by (simp add: entry_consistent_def small_entry_def initial_entry_def
        has_non_empty_value_def)
qed

lemma budget_initialize_good:
  assumes "ok (validate_runtime_budget (init_runtime_budget rq))"
    and eq: "bc' = fst (budget_initialize bc rq)"
  shows "budget_inv bc'" and "budget_linked bc'" and "used bc' = (\<lambda>_. 0)"
    and "started_at_ms bc' = init_started_at_ms rq"
    and "runtime_budget bc' = init_runtime_budget rq"
proof -
  have bc': "bc' = \<lparr>initialized = True, started_at_ms = init_started_at_ms rq,
      runtime_budget = init_runtime_budget rq,
      bc_snapshot = build_initial_snapshot (init_runtime_budget rq) (init_started_at_ms rq)\<rparr>"
    using assms(1) by (simp add: eq budget_initialize_def Let_def)
  show "budget_inv bc'"
    using initial_entry_good
    by (simp add: bc' budget_inv_def build_initial_snapshot_def BudgetType_UNIV)
       (auto simp: initial_entry_def)
  have "limit bc' t = unat (the (limit_field (init_runtime_budget rq) t))" for t
    by (cases t) (simp_all add: bc' limit_def build_initial_snapshot_def find_entry_def
        initial_entry_def limit_field_def)
  then show "budget_linked bc'"
    using assms(1) by (simp add: bc' budget_linked_def)
  show "used bc' = (\<lambda>_. 0)"
    by (rule ext) (simp add: bc' used_def build_initial_snapshot_def find_entry_def
        initial_entry_def)
  show "started_at_ms bc' = init_started_at_ms rq"
    and "runtime_budget bc' = init_runtime_budget rq"
    by (simp_all add: bc')
qed

lemma limit_field_collect:
  "limit_field (case d of Token \<Rightarrow> b\<lparr>max_tokens := mx\<rparr> | Turn \<Rightarrow> b\<lparr>max_turns := mx\<rparr>
       | ToolCall \<Rightarrow> b\<lparr>max_tool_calls := mx\<rparr> | Latency \<Rightarrow> b\<lparr>max_latency_ms := mx\<rparr>
       | Replan \<Rightarrow> b\<lparr>max_replan_count := mx\<rparr>) t = (if t = d then mx else limit_field b t)"
  by (cases d; cases t) (simp_all add: limit_field_def)

lemma collect_limits_field:
  assumes "distinct (map budget_type es)"
  shows "limit_field (collect_limits b es) t =
           (case find_entry es t of Some e \<Rightarrow> Some (ucast (max_limit e)) | None \<Rightarrow> limit_field b t)"
  using assms
proof (induction es arbitrary: b)
  case Nil
  then show ?case by (simp add: find_entry_def)
next
  case (Cons e es)
  have absent: "budget_type e \<notin> set (map budget_type es)" using Cons.prems by simp
  then have "find_entry es (budget_type e) = None"
    by (metis find_entry_Some image_eqI option.exhaust set_map)
  with Cons.IH Cons.prems show ?case
    by (auto simp: Let_def limit_field_collect find_entry_def split: option.split)
qed

lemma limit_field_ext: "(\<And>t. limit_field b t = limit_field b' t) \<Longrightarrow> b = b'"
proof -
  assume eq: "\<And>t. limit_field b t = limit_field b' t"
  show ?thesis
    using eq [of Token] eq [of Turn] eq [of ToolCall] eq [of Latency] eq [of Replan]
    by (cases b; cases b') (simp add: limit_field_def)
qed

lemma ucast_u32_of_unat:
  "unat (m :: u64) = unat (w :: u32) \<Longrightarrow> (ucast m :: u32) = w"
proof -
  assume "unat m = unat w"
  then have "unat m = unat (ucast w :: u64)" by (simp only: unat_ucast_u32)
  then have "m = ucast w" by (simp only: word_unat_eq_iff)
  then show ?thesis by (simp add: ucast_up_ucast_id is_up)
qed

lemma linked_limits:
  assumes inv: "budget_inv bc" and link: "budget_linked bc"
  shows "runtime_budget_from_snapshot (bc_snapshot bc) = Some (runtime_budget bc)"
proof -
  let ?b = "collect_limits empty_runtime_budget (entries (bc_snapshot bc))"
  have d: "distinct (map budget_type (entries (bc_snapshot bc)))"
    using inv by (simp add: budget_inv_def)
  have same: "limit_field ?b t = limit_field (runtime_budget bc) t" for t
  proof -
    obtain e where e: "find_entry (entries (bc_snapshot bc)) t = Some e"
      using budget_inv_entry [OF inv] by metis
    have "ok (validate_runtime_budget (runtime_budget bc))"
      using link by (simp add: budget_linked_def)
    then obtain w where w: "limit_field (runtime_budget bc) t = Some w"
      using valid_limit_field by blast
    have "limit bc t = unat w" using link w by (simp add: budget_linked_def)
    then have "unat (max_limit e) = unat w" by (simp add: limit_def e)
    then show ?thesis
      using e w by (simp add: collect_limits_field [OF d] ucast_u32_of_unat)
  qed
  then have "?b = runtime_budget bc" by (rule limit_field_ext)
  moreover have "ok (validate_runtime_budget (runtime_budget bc))"
    using link by (simp add: budget_linked_def)
  ultimately show ?thesis
    by (auto simp: runtime_budget_from_snapshot_def Let_def validate_runtime_budget_ok)
qed

lemma small_entry_remaining:
  assumes "entry_consistent e" and "small_entry e"
  shows "try_compute_remaining (max_limit e) (current e) = Some (remaining e)"
proof -
  have "int (unat (max_limit e)) < int (2 ^ 63)" "int (unat (current e)) < int (2 ^ 63)"
    using assms(2) unfolding small_entry_def by (simp_all only: of_nat_less_iff)
  then have "uint (max_limit e) < 2 ^ 63" "uint (current e) < 2 ^ 63"
    by (simp_all only: of_nat_unat of_nat_power of_nat_numeral)
  moreover have "0 \<le> uint (max_limit e)" "0 \<le> uint (current e)" by simp_all
  ultimately have "- (2 ^ 63) < uint (max_limit e) - uint (current e)"
    and "uint (max_limit e) - uint (current e) < 2 ^ 63" by linarith+
  with assms(1) show ?thesis by (simp add: try_compute_remaining_iff entry_consistent_def)
qed

lemma validate_snapshot_entries_complete:
  assumes "length seen = 5" and "distinct (map budget_type es)"
    and "\<forall>e\<in>set es. entry_consistent e \<and> small_entry e \<and> \<not> seen ! budget_type_index (budget_type e)"
  shows "ok (validate_snapshot_entries seen es)"
  using assms
proof (induction es arbitrary: seen)
  case Nil
  then show ?case by simp
next
  case (Cons e es)
  then have e: "entry_consistent e" "small_entry e" "\<not> seen ! budget_type_index (budget_type e)"
    by simp_all
  have over: "remaining e < 0 \<longleftrightarrow> has_non_empty_value (reject_reason e)"
    using e(1) by (simp add: entry_consistent_def word_less_def)
  have "ok (validate_snapshot_entries (seen[budget_type_index (budget_type e) := True]) es)"
    using Cons.prems by (intro Cons.IH) (auto simp: nth_list_update)
  with e over show ?case by (simp add: small_entry_remaining)
qed

lemma budget_inv_snapshot_valid:
  "budget_inv bc \<Longrightarrow> ok (validate_budget_snapshot (bc_snapshot bc))"
proof -
  assume inv: "budget_inv bc"
  have "entries (bc_snapshot bc) \<noteq> []"
  proof
    assume "entries (bc_snapshot bc) = []"
    with inv have "(UNIV :: BudgetType set) = {}" by (simp add: budget_inv_def)
    then show False by simp
  qed
  moreover have "ok (validate_snapshot_entries (replicate 5 False) (entries (bc_snapshot bc)))"
    using inv by (intro validate_snapshot_entries_complete) (auto simp: budget_inv_def)
  ultimately show ?thesis
    using inv by (auto simp: validate_budget_snapshot_def budget_inv_def)
qed

lemma restore_own_snapshot:
  assumes inv: "budget_inv bc" and link: "budget_linked bc"
  shows "restore c (bc_snapshot bc) (started_at_ms bc) =
           (bc, make_budget_allowed_decision None ''budget restored from checkpoint snapshot'')"
proof -
  have "refresh_overall_reject_reason (bc_snapshot bc) = bc_snapshot bc"
    using inv by (simp add: refresh_overall_reject_reason_def budget_inv_def)
  then show ?thesis
    using budget_inv_snapshot_valid [OF inv] linked_limits [OF assms] link inv
    by (auto simp: restore_def budget_linked_def budget_inv_def)
qed

section \<open>Runs of charges\<close>

definition consume_step :: "BudgetController \<Rightarrow> BudgetConsumeRequest \<Rightarrow> BudgetController option" where
  "consume_step bc r = map_option fst (consume bc r)"

fun charged :: "BudgetConsumeRequest list \<Rightarrow> BudgetType \<Rightarrow> nat" where
  "charged [] t = 0"
| "charged (r # rs) t = (if consume_type r = t then unat (amount r) else 0) + charged rs t"

text \<open>
  The charges fit: no additive dimension reaches the signed range, and no clock reading is
  further than the signed range from the start.
\<close>

definition charges_fit :: "BudgetController \<Rightarrow> BudgetConsumeRequest list \<Rightarrow> bool" where
  "charges_fit bc rs \<longleftrightarrow>
     (\<forall>t. t \<noteq> Latency \<longrightarrow> used bc t + charged rs t < 2 ^ 63) \<and>
     (\<forall>r\<in>set rs. unat (observed_at_ms r) - unat (started_at_ms bc) < 2 ^ 63)"

lemma budget_run:
  assumes "budget_inv bc" and "budget_linked bc" and "charges_fit bc rs"
  shows "\<exists>bc'. run_machine consume_step bc rs = Some bc' \<and> budget_inv bc' \<and> budget_linked bc' \<and>
     started_at_ms bc' = started_at_ms bc \<and> limit bc' = limit bc \<and>
     (\<forall>t. t \<noteq> Latency \<longrightarrow> used bc' t = used bc t + charged rs t)"
  using assms
proof (induction rs arbitrary: bc)
  case Nil
  then show ?case by simp
next
  case (Cons r rs)
  have fits: "charge bc r < 2 ^ 63"
  proof (cases "consume_type r = Latency")
    case True
    with Cons.prems(3) show ?thesis by (simp add: charges_fit_def charge_def)
  next
    case False
    with Cons.prems(3) have "used bc (consume_type r) + charged (r # rs) (consume_type r) < 2 ^ 63"
      unfolding charges_fit_def by blast
    with False show ?thesis by (simp add: charge_def)
  qed
  from consume_refines_aux [OF Cons.prems(1) fits] obtain bc1 d where
    c: "consume bc r = Some (bc1, d)" and inv: "budget_inv bc1"
    and u: "used bc1 = (used bc)(consume_type r := charge bc r)" and l: "limit bc1 = limit bc"
    and st: "started_at_ms bc1 = started_at_ms bc" and rb: "runtime_budget bc1 = runtime_budget bc"
    by blast
  have link: "budget_linked bc1" using Cons.prems(2) by (simp add: budget_linked_def l rb)
  have eq: "t \<noteq> Latency \<Longrightarrow> used bc1 t + charged rs t = used bc t + charged (r # rs) t" for t
    by (simp add: u charge_def)
  have "charges_fit bc1 rs"
    using Cons.prems(3) eq by (simp add: charges_fit_def st del: charged.simps)
  from Cons.IH [OF inv link this] st l eq c show ?case
    by (auto simp: consume_step_def simp del: charged.simps)
qed


definition sample_budget :: RuntimeBudget where
  "sample_budget = \<lparr>max_tokens = Some 100, max_turns = Some 4, max_tool_calls = Some 2,
     max_latency_ms = Some 1000, max_replan_count = Some 1\<rparr>"

definition sample_controller :: BudgetController where
  "sample_controller = fst (budget_initialize fresh_controller
     \<lparr>init_runtime_budget = sample_budget, init_started_at_ms = 50\<rparr>)"

definition sample_charge :: "BudgetType \<Rightarrow> u64 \<Rightarrow> BudgetConsumeRequest" where
  "sample_charge t n = \<lparr>consume_type = t, amount = n, observed_at_ms = 60, consume_detail = []\<rparr>"

lemma sample_controller_good:
  "budget_inv sample_controller" "budget_linked sample_controller"
  "used sample_controller = (\<lambda>_. 0)" "started_at_ms sample_controller = 50"
proof -
  have "ok (validate_runtime_budget sample_budget)"
    by (simp add: validate_runtime_budget_ok sample_budget_def)
  then show "budget_inv sample_controller" "budget_linked sample_controller"
    "used sample_controller = (\<lambda>_. 0)" "started_at_ms sample_controller = 50"
    using budget_initialize_good [of
        "\<lparr>init_runtime_budget = sample_budget, init_started_at_ms = 50\<rparr>" _ fresh_controller]
    by (simp_all add: sample_controller_def)
qed


text \<open>
  The three gates read the whole abstract budget: continuing needs tokens, turns and
  latency within their limits, replanning also the replan count, and calling a tool also
  the tool-call count.
\<close>

theorem budget_gates_correct:
  assumes "budget_inv bc"
  shows "bd_allowed (can_continue bc) = (\<forall>t\<in>{Token, Turn, Latency}. used bc t \<le> limit bc t) \<and>
         bd_allowed (can_replan bc) =
           (\<forall>t\<in>{Token, Turn, Latency, Replan}. used bc t \<le> limit bc t) \<and>
         bd_allowed (can_call_tool bc) =
           (\<forall>t\<in>{Token, Turn, Latency, ToolCall}. used bc t \<le> limit bc t)"
  by (simp add: can_continue_def can_replan_def can_call_tool_def decision_for_allowed [OF assms])

theorem budget_gates_correct_witness: "bd_allowed (can_replan sample_controller)"
  using budget_gates_correct [OF sample_controller_good(1)]
  by (simp add: sample_controller_good)

text \<open>
  C17. After an accepted initialisation, any sequence of charges that fits in the signed
  range runs without undefined behaviour, the usage of every additive dimension is the sum
  of its charges and its limit the configured one, and restoring from the snapshot taken
  at that point gives back the very same controller.
\<close>

theorem budget_run_exact_and_restorable:
  assumes "ok (validate_runtime_budget (init_runtime_budget rq))"
    and "charges_fit (fst (budget_initialize bc0 rq)) rs"
  shows "case run_machine consume_step (fst (budget_initialize bc0 rq)) rs of
           None \<Rightarrow> False
         | Some bc \<Rightarrow>
             (\<forall>t. t \<noteq> Latency \<longrightarrow> used bc t = charged rs t) \<and>
             (\<forall>t. limit bc t = unat (the (limit_field (init_runtime_budget rq) t))) \<and>
             fst (restore any (bc_snapshot bc) (init_started_at_ms rq)) = bc \<and>
             bd_allowed (snd (restore any (bc_snapshot bc) (init_started_at_ms rq)))"
proof -
  let ?bc = "fst (budget_initialize bc0 rq)"
  note good = budget_initialize_good [OF assms(1) refl, of bc0]
  from budget_run [OF good(1,2) assms(2)] obtain bc where
    run: "run_machine consume_step ?bc rs = Some bc" and inv: "budget_inv bc"
    and link: "budget_linked bc" and st: "started_at_ms bc = init_started_at_ms rq"
    and lim: "limit bc = limit ?bc" and u: "\<forall>t. t \<noteq> Latency \<longrightarrow> used bc t = charged rs t"
    using good(3,4) by auto
  have "\<forall>t. limit bc t = unat (the (limit_field (init_runtime_budget rq) t))"
    using good(2,5) by (simp add: lim budget_linked_def)
  with run u restore_own_snapshot [OF inv link, of any] st show ?thesis
    by (simp add: outcome_simps del: charged.simps)
qed

theorem budget_run_exact_and_restorable_witness:
  "map_option (\<lambda>bc. used bc Token)
     (run_machine consume_step sample_controller [sample_charge Token 30, sample_charge Token 90]) =
   Some 120"
proof -
  let ?rq = "\<lparr>init_runtime_budget = sample_budget, init_started_at_ms = 50\<rparr>"
  have valid: "ok (validate_runtime_budget (init_runtime_budget ?rq))"
    by (simp add: validate_runtime_budget_ok sample_budget_def)
  have "charges_fit (fst (budget_initialize fresh_controller ?rq))
          [sample_charge Token 30, sample_charge Token 90]"
    using sample_controller_good
    by (simp add: charges_fit_def sample_controller_def sample_charge_def)
  from budget_run_exact_and_restorable [OF valid this, of fresh_controller]
  obtain bc where "run_machine consume_step sample_controller
      [sample_charge Token 30, sample_charge Token 90] = Some bc"
    and "\<forall>t. t \<noteq> Latency \<longrightarrow>
           used bc t = charged [sample_charge Token 30, sample_charge Token 90] t"
    unfolding sample_controller_def [symmetric] by (auto split: option.splits)
  then show ?thesis by (simp add: sample_charge_def)
qed

text \<open>
  The addition of an amount wraps at 64 bits: a charge of \<open>2 ^ 64 - 200\<close> tokens takes an
  exhausted token budget back to zero, and the controller accepts it.
\<close>

lemma budget_wraparound_resets_usage:
  "(case run_machine consume_step sample_controller [sample_charge Token 200] of
      Some bc \<Rightarrow>
        \<not> bd_allowed (can_continue bc) \<and>
        (case consume bc (sample_charge Token (- 200)) of
           Some (bc', d) \<Rightarrow> bd_allowed d \<and> bd_allowed (can_continue bc')
         | None \<Rightarrow> False)
    | None \<Rightarrow> False)"
  by (simp add: sample_controller_def budget_initialize_def validate_runtime_budget_def
      sample_budget_def build_initial_snapshot_def initial_entry_def consume_step_def consume_def
      sample_charge_def find_entry_def refresh_overall_reject_reason_def is_i64_def Let_def
      can_continue_def decision_for_def outcome_simps)

end
