(* ===== verification/Decimal.thy ===== *)
theory Decimal
  imports Prelude
begin

text \<open>
  Decimal text: \<^verbatim>\<open>std::to_string\<close> on unsigned and signed integers, and the value of a
  digit string, which the \<^verbatim>\<open>std::stoul\<close> family computes. The printed digits of a number
  denote that number and are digits only; both facts serve the log attributes and the durable
  record formats.
\<close>

definition digit_char :: "nat \<Rightarrow> char" where
  "digit_char d = ''0123456789'' ! d"

definition digit_value :: "char \<Rightarrow> nat option" where
  "digit_value c = (let n = of_char c :: nat in if 48 \<le> n \<and> n \<le> 57 then Some (n - 48) else None)"

fun to_string_nat :: "nat \<Rightarrow> string" where
  "to_string_nat n =
     (if n < 10 then [digit_char n] else to_string_nat (n div 10) @ [digit_char (n mod 10)])"

declare to_string_nat.simps [simp del]

definition to_string_int :: "int \<Rightarrow> string" where
  "to_string_int i = (if i < 0 then CHR ''-'' # to_string_nat (nat (- i)) else to_string_nat (nat i))"

fun digits_value :: "nat \<Rightarrow> string \<Rightarrow> nat option" where
  "digits_value acc [] = Some acc"
| "digits_value acc (c # cs) =
     (case digit_value c of None \<Rightarrow> None | Some d \<Rightarrow> digits_value (10 * acc + d) cs)"

lemma less_10_cases:
  "n < (10 :: nat) \<Longrightarrow> n \<in> {0, 1, 2, 3, 4, 5, 6, 7, 8, 9}"
  by auto

lemma digit_char_value [simp]: "n < 10 \<Longrightarrow> digit_value (digit_char n) = Some n"
  by (drule less_10_cases) (auto simp: digit_value_def digit_char_def)

lemma digits_value_append:
  "digits_value acc (xs @ ys) =
     (case digits_value acc xs of None \<Rightarrow> None | Some n \<Rightarrow> digits_value n ys)"
  by (induction xs arbitrary: acc) (auto split: option.split)

lemma digits_value_to_string [simp]: "digits_value 0 (to_string_nat n) = Some n"
proof (induction n rule: to_string_nat.induct)
  case (1 n)
  show ?case
  proof (cases "n < 10")
    case True
    then show ?thesis by (subst to_string_nat.simps) simp
  next
    case False
    with 1 show ?thesis by (subst to_string_nat.simps) (simp add: digits_value_append)
  qed
qed

lemma to_string_nat_nonempty [simp]: "to_string_nat n \<noteq> []"
  by (subst to_string_nat.simps) simp

lemma to_string_nat_digits: "c \<in> set (to_string_nat n) \<Longrightarrow> digit_value c \<noteq> None"
proof (induction n rule: to_string_nat.induct)
  case (1 n)
  have "c \<in> set (if n < 10 then [digit_char n]
                  else to_string_nat (n div 10) @ [digit_char (n mod 10)])"
    using 1(2) by (simp only: to_string_nat.simps [of n])
  with 1(1) show ?case by (auto split: if_splits)
qed

lemma to_string_nat_inj [simp]: "to_string_nat m = to_string_nat n \<longleftrightarrow> m = n"
  by (metis digits_value_to_string option.inject)

lemma length_to_string_nat: "n < 10 ^ Suc k \<Longrightarrow> length (to_string_nat n) \<le> Suc k"
proof (induction k arbitrary: n)
  case 0
  then show ?case by (subst to_string_nat.simps) simp
next
  case (Suc k)
  show ?case
  proof (cases "n < 10")
    case True
    then show ?thesis by (subst to_string_nat.simps) simp
  next
    case False
    have "n div 10 < 10 ^ Suc k" using Suc.prems by (simp add: less_mult_imp_div_less)
    from Suc.IH [OF this] False show ?thesis by (subst to_string_nat.simps) simp
  qed
qed

end
