(* ===== verification/Structured_Log.thy ===== *)
theory Structured_Log
  imports Decimal Runtime_Types
begin

text \<open>
  The structured log of the runtime (\<^verbatim>\<open>runtime/src/logging/RuntimeStructuredLogUtils.h\<close>)
  and the event it produces (\<^verbatim>\<open>infra/include/LogEvent.h\<close>). The attribute map is a
  partial function, and \<^verbatim>\<open>emplace\<close> keeps the first value of a key. A logger is either
  absent or the list of events it has received; its own result is ignored by the code. The
  time stamp is a parameter of every operation that logs.
\<close>

datatype LogLevel =
    Level_Unspecified | Level_Trace | Level_Debug | Level_Info | Level_Warn | Level_Error | Level_Fatal

type_synonym attribute_map = "string \<rightharpoonup> string"

record LogEvent =
  log_level :: LogLevel
  log_module :: string
  log_message :: string
  log_attrs :: attribute_map
  log_ts :: "int option"

type_synonym logger = "LogEvent list option"

definition compact_log_value :: "string \<Rightarrow> nat \<Rightarrow> string" where
  "compact_log_value v max_length =
     (if length v \<le> max_length then v
      else if max_length \<le> 3 then take max_length v
      else take (max_length - 3) v @ ''...'')"

definition emplace :: "attribute_map \<Rightarrow> string \<Rightarrow> string \<Rightarrow> attribute_map" where
  "emplace m k v = (if m k \<noteq> None then m else m(k \<mapsto> v))"

text \<open>The builders take the map last, so that a sequence of calls is a composition.\<close>

definition add_string_attr :: "string \<Rightarrow> string \<Rightarrow> attribute_map \<Rightarrow> attribute_map" where
  "add_string_attr k v m = (if empty_string v then m else emplace m k (compact_log_value v 160))"

definition add_optional_string_attr ::
  "string \<Rightarrow> string option \<Rightarrow> attribute_map \<Rightarrow> attribute_map"
where
  "add_optional_string_attr k v m =
     (if v = None \<or> v = Some [] then m else add_string_attr k (the v) m)"

definition add_bool_attr :: "string \<Rightarrow> bool \<Rightarrow> attribute_map \<Rightarrow> attribute_map" where
  "add_bool_attr k b m = emplace m k (if b then ''true'' else ''false'')"

text \<open>\<^verbatim>\<open>static_cast<long long>\<close> of a 64-bit value reads it as signed.\<close>

definition add_integer_attr :: "string \<Rightarrow> u64 \<Rightarrow> attribute_map \<Rightarrow> attribute_map" where
  "add_integer_attr k n m = emplace m k (to_string_int (sint n))"

abbreviation add_u32_attr :: "string \<Rightarrow> u32 \<Rightarrow> attribute_map \<Rightarrow> attribute_map" where
  "add_u32_attr k n \<equiv> add_integer_attr k (ucast n)"

text \<open>An error code is logged as its integer value.\<close>

definition add_error_code_attr :: "string \<Rightarrow> RuntimeErrorCode \<Rightarrow> attribute_map \<Rightarrow> attribute_map" where
  "add_error_code_attr k code = add_integer_attr k (word_of_int (runtime_error_code_value code))"

definition error_code_attrs :: "RuntimeErrorCode option \<Rightarrow> (attribute_map \<Rightarrow> attribute_map) list" where
  "error_code_attrs code =
     (case code of None \<Rightarrow> [] | Some e \<Rightarrow> [add_error_code_attr ''error_code'' e])"

fun build_attrs :: "(attribute_map \<Rightarrow> attribute_map) list \<Rightarrow> attribute_map \<Rightarrow> attribute_map" where
  "build_attrs [] m = m"
| "build_attrs (f # fs) m = build_attrs fs (f m)"

definition emit_runtime_log ::
  "logger \<Rightarrow> LogLevel \<Rightarrow> string \<Rightarrow> string \<Rightarrow> string option \<Rightarrow> attribute_map \<Rightarrow> int \<Rightarrow> logger"
where
  "emit_runtime_log lg lvl event_name component instance_id m now_ms =
     (case lg of
        None \<Rightarrow> None
      | Some events \<Rightarrow>
          Some (events @
            [\<lparr>log_level = lvl, log_module = component, log_message = event_name,
              log_attrs = add_optional_string_attr ''runtime_instance_id'' instance_id
                        (emplace (emplace m ''event_name'' event_name) ''component'' component),
              log_ts = Some now_ms\<rparr>]))"

section \<open>Redaction at the sink\<close>

fun contains_substring :: "string \<Rightarrow> string \<Rightarrow> bool" where
  "contains_substring [] p \<longleftrightarrow> p = []"
| "contains_substring (c # cs) p \<longleftrightarrow> take (length p) (c # cs) = p \<or> contains_substring cs p"

definition sensitive_key_fragments :: "string list" where
  "sensitive_key_fragments =
     [''token'', ''secret'', ''password'', ''authorization'', ''api_key'', ''apikey'']"

definition is_sensitive_attr_key :: "string \<Rightarrow> bool" where
  "is_sensitive_attr_key k \<longleftrightarrow> (\<exists>f\<in>set sensitive_key_fragments. contains_substring k f)"

definition redacted_attrs :: "LogEvent \<Rightarrow> attribute_map" where
  "redacted_attrs e = (\<lambda>k. case log_attrs e k of
       None \<Rightarrow> None
     | Some v \<Rightarrow> Some (if is_sensitive_attr_key k then ''<redacted>'' else v))"

section \<open>Sizes\<close>

text \<open>
  Every attribute value built by these functions is at most 160 characters; the bound covers
  the decimal attributes, whose text has at most 20 characters.
\<close>

definition bounded_attrs :: "attribute_map \<Rightarrow> bool" where
  "bounded_attrs m \<longleftrightarrow> (\<forall>k v. m k = Some v \<longrightarrow> length v \<le> 160)"

definition keeps_bound :: "(attribute_map \<Rightarrow> attribute_map) \<Rightarrow> bool" where
  "keeps_bound f \<longleftrightarrow> (\<forall>m. bounded_attrs m \<longrightarrow> bounded_attrs (f m))"

lemma bounded_empty [simp]: "bounded_attrs (\<lambda>_. None)"
  by (simp add: bounded_attrs_def)

lemma compact_log_value_length [simp]: "length (compact_log_value v n) \<le> n"
  by (auto simp: compact_log_value_def)

lemma emplace_bounded:
  "bounded_attrs m \<Longrightarrow> length v \<le> 160 \<Longrightarrow> bounded_attrs (emplace m k v)"
  by (auto simp: bounded_attrs_def emplace_def)

lemma add_string_attr_bounded [simp]: "keeps_bound (add_string_attr k v)"
  by (simp add: keeps_bound_def add_string_attr_def emplace_bounded)

lemma add_optional_string_attr_bounded [simp]: "keeps_bound (add_optional_string_attr k v)"
  using add_string_attr_bounded by (auto simp: keeps_bound_def add_optional_string_attr_def)

lemma add_bool_attr_bounded [simp]: "keeps_bound (add_bool_attr k b)"
  by (simp add: keeps_bound_def add_bool_attr_def emplace_bounded)

lemma length_to_string_int:
  assumes "- (10 ^ 19) < i" and "i < 10 ^ 19"
  shows "length (to_string_int i) \<le> 20"
proof -
  have "nat (abs i) < 10 ^ Suc 18" using assms by simp
  then have "length (to_string_nat (nat (abs i))) \<le> Suc 18" by (rule length_to_string_nat)
  then show ?thesis by (auto simp: to_string_int_def)
qed

lemma sint_u64_bound: "- (10 ^ 19) < sint (n :: u64) \<and> sint n < 10 ^ 19"
proof -
  have "- (2 ^ (64 - 1)) \<le> sint n \<and> sint n < 2 ^ (64 - 1)"
    using sint_range_size [of n] by (simp add: word_size)
  then show ?thesis by simp
qed

lemma add_integer_attr_bounded [simp]: "keeps_bound (add_integer_attr k n)"
proof -
  have "length (to_string_int (sint n)) \<le> 20"
    using sint_u64_bound [of n] by (intro length_to_string_int) simp_all
  then show ?thesis by (auto simp: keeps_bound_def add_integer_attr_def intro!: emplace_bounded)
qed

lemma build_attrs_bounded:
  "\<forall>f\<in>set fs. keeps_bound f \<Longrightarrow> bounded_attrs m \<Longrightarrow> bounded_attrs (build_attrs fs m)"
  by (induction fs arbitrary: m) (auto simp: keeps_bound_def)

definition log_bounded :: "logger \<Rightarrow> bool" where
  "log_bounded lg \<longleftrightarrow> (\<forall>events. lg = Some events \<longrightarrow> (\<forall>e\<in>set events. bounded_attrs (log_attrs e)))"

lemma emit_runtime_log_bounded:
  assumes "log_bounded lg" and "bounded_attrs m" and "length event_name \<le> 160"
    and "length component \<le> 160"
  shows "log_bounded (emit_runtime_log lg lvl event_name component i m now)"
  using assms add_optional_string_attr_bounded [of "''runtime_instance_id''" i]
  by (auto simp: log_bounded_def emit_runtime_log_def keeps_bound_def emplace_bounded
      split: option.split)

lemma redacted_attrs_no_leak:
  "is_sensitive_attr_key k \<Longrightarrow> redacted_attrs e k \<in> {None, Some ''<redacted>''}"
  by (auto simp: redacted_attrs_def split: option.split)

end
