(* ===== verification/Scheduler.thy ===== *)
theory Scheduler
  imports Structured_Log
begin

text \<open>
  The scheduler (\<^verbatim>\<open>runtime/src/scheduling/Scheduler.cpp\<close>) with its ticket and result types
  (\<^verbatim>\<open>runtime/include/scheduling/\<close>) and the cancellation token a ticket carries
  (\<^verbatim>\<open>runtime/include/CancellationToken.h\<close>). Each operation is the part under the lock
  (\<open>enqueue_locked\<close> and so on) followed by one log event. \<open>enqueue_locked\<close> is partial:
  dropping the oldest ticket of an empty maintenance queue, which a limit of zero asks for,
  is undefined behaviour of \<^verbatim>\<open>std::deque\<close>.

  The abstract specification is one list of pending tickets, foreground before recovery
  before maintenance, from which acquisition picks (\<open>pick\<close>).
\<close>

section \<open>Cancellation tokens\<close>

text \<open>
  Copies of a token share their state, so a token is the name of a shared state; this record
  is that state. The deadline \<open>-1\<close> means none. Reading the token latches an expired deadline.
\<close>

record TokenState =
  cancelled :: bool
  deadline_epoch_ms :: int

definition fresh_token :: TokenState where
  "fresh_token = \<lparr>cancelled = False, deadline_epoch_ms = - 1\<rparr>"

definition cancel :: "TokenState \<Rightarrow> TokenState" where
  "cancel t = t\<lparr>cancelled := True\<rparr>"

text \<open>The clock counts nanoseconds; \<^verbatim>\<open>duration_cast\<close> truncates towards zero.\<close>

definition to_epoch_ms :: "int \<Rightarrow> int" where
  "to_epoch_ms ns = (if ns < 0 then - ((- ns) div 1000000) else ns div 1000000)"

definition bind_deadline :: "TokenState \<Rightarrow> int \<Rightarrow> TokenState" where
  "bind_deadline t ns = t\<lparr>deadline_epoch_ms := to_epoch_ms ns\<rparr>"

definition has_deadline :: "TokenState \<Rightarrow> bool" where
  "has_deadline t \<longleftrightarrow> deadline_epoch_ms t \<ge> 0"

definition deadline :: "TokenState \<Rightarrow> int option" where
  "deadline t = (if deadline_epoch_ms t < 0 then None else Some (deadline_epoch_ms t * 1000000))"

definition is_cancelled :: "TokenState \<Rightarrow> int \<Rightarrow> TokenState \<times> bool" where
  "is_cancelled t now_ms =
     (if cancelled t then (t, True)
      else if deadline_epoch_ms t \<ge> 0 \<and> now_ms \<ge> deadline_epoch_ms t then
        (t\<lparr>cancelled := True\<rparr>, True)
      else (t, False))"

datatype token_op = Cancel | Bind int | Poll int

fun token_step :: "TokenState \<Rightarrow> token_op \<Rightarrow> TokenState" where
  "token_step t Cancel = cancel t"
| "token_step t (Bind ns) = bind_deadline t ns"
| "token_step t (Poll now_ms) = fst (is_cancelled t now_ms)"

interpretation token_latch: total_machine token_step cancelled
proof unfold_locales
  fix t :: TokenState and e
  assume "cancelled t"
  then show "cancelled (token_step t e)"
    by (cases e) (simp_all add: cancel_def bind_deadline_def is_cancelled_def)
qed

section \<open>Tickets and results\<close>

datatype SchedulerPriorityClass = ForegroundInteractive | Recovery | Maintenance

fun scheduler_priority_class_name :: "SchedulerPriorityClass \<Rightarrow> string" where
  "scheduler_priority_class_name ForegroundInteractive = ''ForegroundInteractive''"
| "scheduler_priority_class_name Recovery = ''Recovery''"
| "scheduler_priority_class_name Maintenance = ''Maintenance''"

datatype SchedulerOverflowDisposition = RejectNew | EnterFailedSafe | DropOldest

fun scheduler_overflow_disposition_name :: "SchedulerOverflowDisposition \<Rightarrow> string" where
  "scheduler_overflow_disposition_name RejectNew = ''RejectNew''"
| "scheduler_overflow_disposition_name EnterFailedSafe = ''EnterFailedSafe''"
| "scheduler_overflow_disposition_name DropOldest = ''DropOldest''"

fun scheduler_overflow_disposition :: "SchedulerPriorityClass \<Rightarrow> SchedulerOverflowDisposition" where
  "scheduler_overflow_disposition ForegroundInteractive = RejectNew"
| "scheduler_overflow_disposition Recovery = EnterFailedSafe"
| "scheduler_overflow_disposition Maintenance = DropOldest"

datatype SchedulerTicketState = Queued | WorkerAssigned | Released | Ticket_Rejected

fun scheduler_ticket_state_name :: "SchedulerTicketState \<Rightarrow> string" where
  "scheduler_ticket_state_name Queued = ''Queued''"
| "scheduler_ticket_state_name WorkerAssigned = ''WorkerAssigned''"
| "scheduler_ticket_state_name Released = ''Released''"
| "scheduler_ticket_state_name Ticket_Rejected = ''Rejected''"

datatype SchedulerBackpressureSignal =
    Signal_None | ForegroundBusy | RecoveryFailedSafe | MaintenanceDropOldest | WorkerPoolSaturated

fun scheduler_backpressure_signal_name :: "SchedulerBackpressureSignal \<Rightarrow> string" where
  "scheduler_backpressure_signal_name Signal_None = ''None''"
| "scheduler_backpressure_signal_name ForegroundBusy = ''ForegroundBusy''"
| "scheduler_backpressure_signal_name RecoveryFailedSafe = ''RecoveryFailedSafe''"
| "scheduler_backpressure_signal_name MaintenanceDropOldest = ''MaintenanceDropOldest''"
| "scheduler_backpressure_signal_name WorkerPoolSaturated = ''WorkerPoolSaturated''"

record WorkerLeaseBudget =
  max_workers :: u32
  busy_workers :: u32

definition has_capacity :: "WorkerLeaseBudget \<Rightarrow> bool" where
  "has_capacity b \<longleftrightarrow> busy_workers b < max_workers b"

record SchedulerTicketRequest =
  tr_ticket_id :: string
  tr_request_id :: string
  tr_session_id :: "string option"
  tr_priority_class :: SchedulerPriorityClass
  tr_cancellation_token :: nat
  tr_checkpoint_ref :: "string option"
  tr_queue_key :: "string option"

definition ticket_has_minimum_requirements :: "SchedulerTicketRequest \<Rightarrow> bool" where
  "ticket_has_minimum_requirements r \<longleftrightarrow>
     \<not> empty_string (tr_ticket_id r) \<and> \<not> empty_string (tr_request_id r)"

record SchedulerTicket =
  tk_ticket_id :: string
  tk_request_id :: string
  tk_session_id :: "string option"
  tk_priority_class :: SchedulerPriorityClass
  tk_cancellation_token :: nat
  tk_checkpoint_ref :: "string option"
  tk_queue_key :: "string option"
  tk_assigned_worker_id :: "string option"
  tk_enqueue_sequence :: u64
  tk_state :: SchedulerTicketState

definition has_worker_assignment :: "SchedulerTicket \<Rightarrow> bool" where
  "has_worker_assignment t \<longleftrightarrow>
     tk_assigned_worker_id t \<noteq> None \<and> \<not> empty_string (the (tk_assigned_worker_id t))"

record SchedulerBackpressureState =
  bp_foreground_queue_depth :: u32
  bp_foreground_queue_limit :: u32
  bp_recovery_queue_depth :: u32
  bp_recovery_queue_limit :: u32
  bp_maintenance_queue_depth :: u32
  bp_maintenance_queue_limit :: u32
  bp_worker_budget :: WorkerLeaseBudget
  bp_dominant_signal :: SchedulerBackpressureSignal
  bp_rejecting_foreground :: bool
  bp_failed_safe_recommended :: bool
  bp_dropping_oldest_maintenance :: bool

definition workers_saturated :: "SchedulerBackpressureState \<Rightarrow> bool" where
  "workers_saturated b \<longleftrightarrow> \<not> has_capacity (bp_worker_budget b)"

definition bp_overloaded :: "SchedulerBackpressureState \<Rightarrow> bool" where
  "bp_overloaded b \<longleftrightarrow>
     bp_dominant_signal b \<noteq> Signal_None \<or> bp_rejecting_foreground b \<or>
     bp_failed_safe_recommended b \<or> bp_dropping_oldest_maintenance b \<or> workers_saturated b"

definition make_scheduler_ticket :: "SchedulerTicketRequest \<Rightarrow> u64 \<Rightarrow> SchedulerTicket" where
  "make_scheduler_ticket r sequence =
     \<lparr>tk_ticket_id = tr_ticket_id r, tk_request_id = tr_request_id r,
      tk_session_id = tr_session_id r, tk_priority_class = tr_priority_class r,
      tk_cancellation_token = tr_cancellation_token r, tk_checkpoint_ref = tr_checkpoint_ref r,
      tk_queue_key = tr_queue_key r, tk_assigned_worker_id = None,
      tk_enqueue_sequence = sequence, tk_state = Queued\<rparr>"

record AcquireWorkerRequest =
  aq_worker_budget :: WorkerLeaseBudget
  aq_preferred_priority_class :: "SchedulerPriorityClass option"
  aq_preferred_ticket_id :: "string option"

record SchedulerEnqueueResult =
  enq_accepted :: bool
  enq_ticket :: "SchedulerTicket option"
  enq_disposition :: "SchedulerOverflowDisposition option"
  enq_backpressure :: SchedulerBackpressureState
  enq_detail :: string

record AcquireWorkerResult =
  acq_acquired :: bool
  acq_ticket :: "SchedulerTicket option"
  acq_backpressure :: SchedulerBackpressureState
  acq_detail :: string

record ReleaseWorkerRequest =
  rel_ticket :: SchedulerTicket
  rel_worker_completed :: bool

record ReleaseWorkerResult =
  rel_released :: bool
  rel_backpressure :: SchedulerBackpressureState
  rel_detail :: string

definition make_scheduler_enqueue_result ::
  "SchedulerTicket \<Rightarrow> SchedulerBackpressureState \<Rightarrow> string \<Rightarrow>
   SchedulerOverflowDisposition option \<Rightarrow> SchedulerEnqueueResult"
where [outcome_simps]:
  "make_scheduler_enqueue_result t b detail d =
     \<lparr>enq_accepted = True, enq_ticket = Some t, enq_disposition = d, enq_backpressure = b,
      enq_detail = detail\<rparr>"

definition reject_enqueue ::
  "SchedulerOverflowDisposition option \<Rightarrow> SchedulerBackpressureState \<Rightarrow> string \<Rightarrow>
   SchedulerEnqueueResult"
where [outcome_simps]:
  "reject_enqueue d b detail =
     \<lparr>enq_accepted = False, enq_ticket = None, enq_disposition = d, enq_backpressure = b,
      enq_detail = detail\<rparr>"

definition make_acquire_worker_result ::
  "SchedulerTicket \<Rightarrow> SchedulerBackpressureState \<Rightarrow> string \<Rightarrow> AcquireWorkerResult"
where [outcome_simps]:
  "make_acquire_worker_result t b detail =
     \<lparr>acq_acquired = True, acq_ticket = Some t, acq_backpressure = b, acq_detail = detail\<rparr>"

definition make_release_worker_result ::
  "SchedulerBackpressureState \<Rightarrow> string \<Rightarrow> ReleaseWorkerResult"
where [outcome_simps]:
  "make_release_worker_result b detail =
     \<lparr>rel_released = True, rel_backpressure = b, rel_detail = detail\<rparr>"

section \<open>The scheduler\<close>

record Scheduler =
  foreground_queue :: "SchedulerTicket list"
  recovery_queue :: "SchedulerTicket list"
  maintenance_queue :: "SchedulerTicket list"
  worker_budget :: WorkerLeaseBudget
  next_sequence :: u64
  recovery_queue_limit :: u32
  maintenance_queue_limit :: u32
  sc_logger :: logger
  sc_runtime_instance_id :: "string option"

definition new_scheduler :: "u32 \<Rightarrow> u32 \<Rightarrow> Scheduler" where
  "new_scheduler rl ml =
     \<lparr>foreground_queue = [], recovery_queue = [], maintenance_queue = [],
      worker_budget = \<lparr>max_workers = 1, busy_workers = 0\<rparr>, next_sequence = 1,
      recovery_queue_limit = rl, maintenance_queue_limit = ml, sc_logger = None,
      sc_runtime_instance_id = None\<rparr>"

definition set_logger :: "Scheduler \<Rightarrow> logger \<Rightarrow> string option \<Rightarrow> Scheduler" where
  "set_logger s lg i = s\<lparr>sc_logger := lg, sc_runtime_instance_id := i\<rparr>"

definition compute_backpressure_state ::
  "Scheduler \<Rightarrow> SchedulerBackpressureSignal \<Rightarrow> SchedulerBackpressureState"
where
  "compute_backpressure_state s signal =
     \<lparr>bp_foreground_queue_depth = of_nat (length (foreground_queue s)),
      bp_foreground_queue_limit = 1,
      bp_recovery_queue_depth = of_nat (length (recovery_queue s)),
      bp_recovery_queue_limit = recovery_queue_limit s,
      bp_maintenance_queue_depth = of_nat (length (maintenance_queue s)),
      bp_maintenance_queue_limit = maintenance_queue_limit s,
      bp_worker_budget = worker_budget s,
      bp_dominant_signal = signal,
      bp_rejecting_foreground = (signal = ForegroundBusy),
      bp_failed_safe_recommended = (signal = RecoveryFailedSafe),
      bp_dropping_oldest_maintenance = (signal = MaintenanceDropOldest)\<rparr>"

definition enqueue_locked ::
  "Scheduler \<Rightarrow> SchedulerTicketRequest \<Rightarrow> (Scheduler \<times> SchedulerEnqueueResult) option"
where
  "enqueue_locked s request =
     (if \<not> ticket_has_minimum_requirements request then
        Some (s, reject_enqueue None (compute_backpressure_state s Signal_None)
                   ''ticket_id and request_id are required'')
      else
        (let next_ticket = make_scheduler_ticket request (next_sequence s);
             s = s\<lparr>next_sequence := next_sequence s + 1\<rparr>
         in case tr_priority_class request of
              ForegroundInteractive \<Rightarrow>
                (if foreground_queue s \<noteq> [] then
                   Some (s, reject_enqueue (Some RejectNew)
                              ((compute_backpressure_state s ForegroundBusy)
                                 \<lparr>bp_rejecting_foreground := True\<rparr>)
                              ''foreground queue already has an active request'')
                 else
                   (let s' = s\<lparr>foreground_queue := foreground_queue s @ [next_ticket]\<rparr>
                    in Some (s', make_scheduler_enqueue_result next_ticket
                                   (compute_backpressure_state s' Signal_None)
                                   ''ticket accepted into scheduler queue'' None)))
            | Recovery \<Rightarrow>
                (if length (recovery_queue s) \<ge> unat (recovery_queue_limit s) then
                   Some (s, reject_enqueue (Some EnterFailedSafe)
                              ((compute_backpressure_state s RecoveryFailedSafe)
                                 \<lparr>bp_failed_safe_recommended := True\<rparr>)
                              ''recovery queue saturated; escalate to FailedSafe'')
                 else
                   (let s' = s\<lparr>recovery_queue := recovery_queue s @ [next_ticket]\<rparr>
                    in Some (s', make_scheduler_enqueue_result next_ticket
                                   (compute_backpressure_state s' Signal_None)
                                   ''ticket accepted into scheduler queue'' None)))
            | Maintenance \<Rightarrow>
                (if length (maintenance_queue s) \<ge> unat (maintenance_queue_limit s) then
                   (case maintenance_queue s of
                      [] \<Rightarrow> None \<comment> \<open>\<^verbatim>\<open>pop_front\<close> on an empty deque\<close>
                    | _ # rest \<Rightarrow>
                        (let s' = s\<lparr>maintenance_queue := rest @ [next_ticket]\<rparr>
                         in Some (s', make_scheduler_enqueue_result next_ticket
                                        ((compute_backpressure_state s' MaintenanceDropOldest)
                                           \<lparr>bp_dropping_oldest_maintenance := True\<rparr>)
                                        ''maintenance queue dropped oldest ticket before accepting new work''
                                        (Some DropOldest))))
                 else
                   (let s' = s\<lparr>maintenance_queue := maintenance_queue s @ [next_ticket]\<rparr>
                    in Some (s', make_scheduler_enqueue_result next_ticket
                                   (compute_backpressure_state s' Signal_None)
                                   ''ticket accepted into scheduler queue'' None)))))"

definition pop_front_ticket ::
  "SchedulerTicket list \<Rightarrow> (SchedulerTicket \<times> SchedulerTicket list) option"
where
  "pop_front_ticket q = (case q of [] \<Rightarrow> None | t # rest \<Rightarrow> Some (t, rest))"

definition pop_ticket_by_id ::
  "SchedulerTicket list \<Rightarrow> string \<Rightarrow> (SchedulerTicket \<times> SchedulerTicket list) option"
where
  "pop_ticket_by_id q i = extract_first (\<lambda>t. tk_ticket_id t = i) q"

text \<open>Popping from one of the three queues and writing the rest back.\<close>

definition from_foreground ::
  "Scheduler \<Rightarrow> (SchedulerTicket \<times> SchedulerTicket list) option \<Rightarrow> (Scheduler \<times> SchedulerTicket) option"
where "from_foreground s r = map_option (\<lambda>(t, q). (s\<lparr>foreground_queue := q\<rparr>, t)) r"

definition from_recovery ::
  "Scheduler \<Rightarrow> (SchedulerTicket \<times> SchedulerTicket list) option \<Rightarrow> (Scheduler \<times> SchedulerTicket) option"
where "from_recovery s r = map_option (\<lambda>(t, q). (s\<lparr>recovery_queue := q\<rparr>, t)) r"

definition from_maintenance ::
  "Scheduler \<Rightarrow> (SchedulerTicket \<times> SchedulerTicket list) option \<Rightarrow> (Scheduler \<times> SchedulerTicket) option"
where "from_maintenance s r = map_option (\<lambda>(t, q). (s\<lparr>maintenance_queue := q\<rparr>, t)) r"

definition or_else :: "'a option \<Rightarrow> 'a option \<Rightarrow> 'a option" where
  "or_else x y = (case x of None \<Rightarrow> y | Some _ \<Rightarrow> x)"

definition pop_preferred_id :: "Scheduler \<Rightarrow> string option \<Rightarrow> (Scheduler \<times> SchedulerTicket) option" where
  "pop_preferred_id s pid =
     (case pid of
        None \<Rightarrow> None
      | Some i \<Rightarrow>
          or_else (from_foreground s (pop_ticket_by_id (foreground_queue s) i))
            (or_else (from_recovery s (pop_ticket_by_id (recovery_queue s) i))
              (from_maintenance s (pop_ticket_by_id (maintenance_queue s) i))))"

definition pop_next_ticket ::
  "Scheduler \<Rightarrow> SchedulerPriorityClass option \<Rightarrow> string option \<Rightarrow>
   (Scheduler \<times> SchedulerTicket) option"
where
  "pop_next_ticket s cls pid =
     or_else (pop_preferred_id s pid)
       (case cls of
          Some ForegroundInteractive \<Rightarrow> from_foreground s (pop_front_ticket (foreground_queue s))
        | Some Recovery \<Rightarrow> from_recovery s (pop_front_ticket (recovery_queue s))
        | Some Maintenance \<Rightarrow> from_maintenance s (pop_front_ticket (maintenance_queue s))
        | None \<Rightarrow>
            or_else (from_foreground s (pop_front_ticket (foreground_queue s)))
              (or_else (from_recovery s (pop_front_ticket (recovery_queue s)))
                (from_maintenance s (pop_front_ticket (maintenance_queue s)))))"

definition acquire_worker_locked ::
  "Scheduler \<Rightarrow> AcquireWorkerRequest \<Rightarrow> Scheduler \<times> AcquireWorkerResult"
where
  "acquire_worker_locked s request =
     (let s = s\<lparr>worker_budget := aq_worker_budget request\<rparr>
      in if \<not> has_capacity (worker_budget s) then
           (s, \<lparr>acq_acquired = False, acq_ticket = None,
                acq_backpressure = compute_backpressure_state s WorkerPoolSaturated,
                acq_detail = ''worker pool saturated''\<rparr>)
         else
           (case pop_next_ticket s (aq_preferred_priority_class request)
                   (aq_preferred_ticket_id request) of
              None \<Rightarrow>
                (s, \<lparr>acq_acquired = False, acq_ticket = None,
                     acq_backpressure = compute_backpressure_state s Signal_None,
                     acq_detail = ''no ticket available for acquisition''\<rparr>)
            | Some (s1, t) \<Rightarrow>
                (let busy = busy_workers (worker_budget s1);
                     t' = t\<lparr>tk_assigned_worker_id :=
                               Some (''worker-'' @ to_string_nat (unat (busy + 1))),
                             tk_state := WorkerAssigned\<rparr>;
                     s2 = s1\<lparr>worker_budget := (worker_budget s1)\<lparr>busy_workers := busy + 1\<rparr>\<rparr>
                 in (s2, make_acquire_worker_result t' (compute_backpressure_state s2 Signal_None)
                           ''worker acquired from scheduler queue''))))"

definition release_worker_locked ::
  "Scheduler \<Rightarrow> ReleaseWorkerRequest \<Rightarrow> Scheduler \<times> ReleaseWorkerResult"
where
  "release_worker_locked s request =
     (if \<not> has_worker_assignment (rel_ticket request) then
        (s, \<lparr>rel_released = False, rel_backpressure = compute_backpressure_state s Signal_None,
             rel_detail = ''release_worker requires an assigned worker ticket''\<rparr>)
      else
        (let busy = busy_workers (worker_budget s);
             s' = (if busy > 0 then
                     s\<lparr>worker_budget := (worker_budget s)\<lparr>busy_workers := busy - 1\<rparr>\<rparr>
                   else s)
         in (s', make_release_worker_result (compute_backpressure_state s' Signal_None)
                   (if rel_worker_completed request then ''worker released after completion''
                    else ''worker released without completion''))))"

section \<open>Log events\<close>

definition queue_depth_attrs :: "SchedulerBackpressureState \<Rightarrow> (attribute_map \<Rightarrow> attribute_map) list" where
  "queue_depth_attrs b =
     [add_string_attr ''dominant_signal'' (scheduler_backpressure_signal_name (bp_dominant_signal b)),
      add_u32_attr ''foreground_queue_depth'' (bp_foreground_queue_depth b),
      add_u32_attr ''recovery_queue_depth'' (bp_recovery_queue_depth b),
      add_u32_attr ''maintenance_queue_depth'' (bp_maintenance_queue_depth b)]"

definition worker_attrs :: "SchedulerBackpressureState \<Rightarrow> (attribute_map \<Rightarrow> attribute_map) list" where
  "worker_attrs b =
     [add_u32_attr ''busy_workers'' (busy_workers (bp_worker_budget b)),
      add_u32_attr ''max_workers'' (max_workers (bp_worker_budget b))]"

definition enqueue_attrs ::
  "SchedulerTicketRequest \<Rightarrow> SchedulerEnqueueResult \<Rightarrow> (attribute_map \<Rightarrow> attribute_map) list"
where
  "enqueue_attrs request result =
     [add_string_attr ''operation'' ''enqueue'',
      add_string_attr ''ticket_id'' (tr_ticket_id request),
      add_string_attr ''request_id'' (tr_request_id request),
      add_optional_string_attr ''session_id'' (tr_session_id request),
      add_optional_string_attr ''checkpoint_ref'' (tr_checkpoint_ref request),
      add_optional_string_attr ''queue_key'' (tr_queue_key request),
      add_string_attr ''priority_class'' (scheduler_priority_class_name (tr_priority_class request)),
      add_bool_attr ''accepted'' (enq_accepted result)] @
     (case enq_ticket result of None \<Rightarrow> []
      | Some t \<Rightarrow> [add_string_attr ''ticket_state'' (scheduler_ticket_state_name (tk_state t))]) @
     (case enq_disposition result of None \<Rightarrow> []
      | Some d \<Rightarrow> [add_string_attr ''applied_overflow_disposition''
                     (scheduler_overflow_disposition_name d)]) @
     queue_depth_attrs (enq_backpressure result) @ worker_attrs (enq_backpressure result) @
     [add_string_attr ''detail'' (enq_detail result)]"

definition acquire_worker_attrs ::
  "AcquireWorkerRequest \<Rightarrow> AcquireWorkerResult \<Rightarrow> (attribute_map \<Rightarrow> attribute_map) list"
where
  "acquire_worker_attrs request result =
     [add_string_attr ''operation'' ''acquire_worker'',
      add_u32_attr ''requested_max_workers'' (max_workers (aq_worker_budget request)),
      add_u32_attr ''requested_busy_workers'' (busy_workers (aq_worker_budget request))] @
     (case aq_preferred_priority_class request of None \<Rightarrow> []
      | Some c \<Rightarrow> [add_string_attr ''preferred_priority_class'' (scheduler_priority_class_name c)]) @
     [add_optional_string_attr ''preferred_ticket_id'' (aq_preferred_ticket_id request),
      add_bool_attr ''acquired'' (acq_acquired result)] @
     (case acq_ticket result of None \<Rightarrow> []
      | Some t \<Rightarrow>
          [add_string_attr ''ticket_id'' (tk_ticket_id t),
           add_string_attr ''ticket_priority_class''
             (scheduler_priority_class_name (tk_priority_class t)),
           add_optional_string_attr ''assigned_worker_id'' (tk_assigned_worker_id t)]) @
     queue_depth_attrs (acq_backpressure result) @ worker_attrs (acq_backpressure result) @
     [add_string_attr ''detail'' (acq_detail result)]"

definition release_worker_attrs ::
  "ReleaseWorkerRequest \<Rightarrow> ReleaseWorkerResult \<Rightarrow> (attribute_map \<Rightarrow> attribute_map) list"
where
  "release_worker_attrs request result =
     [add_string_attr ''operation'' ''release_worker'',
      add_string_attr ''ticket_id'' (tk_ticket_id (rel_ticket request)),
      add_string_attr ''request_id'' (tk_request_id (rel_ticket request)),
      add_string_attr ''priority_class''
        (scheduler_priority_class_name (tk_priority_class (rel_ticket request))),
      add_optional_string_attr ''assigned_worker_id'' (tk_assigned_worker_id (rel_ticket request)),
      add_bool_attr ''worker_completed'' (rel_worker_completed request),
      add_bool_attr ''released'' (rel_released result),
      add_string_attr ''dominant_signal''
        (scheduler_backpressure_signal_name (bp_dominant_signal (rel_backpressure result)))] @
     worker_attrs (rel_backpressure result) @
     [add_string_attr ''detail'' (rel_detail result)]"

definition backpressure_attrs ::
  "SchedulerBackpressureState \<Rightarrow> (attribute_map \<Rightarrow> attribute_map) list"
where
  "backpressure_attrs b =
     [add_string_attr ''operation'' ''backpressure_state'',
      add_string_attr ''dominant_signal'' (scheduler_backpressure_signal_name (bp_dominant_signal b)),
      add_u32_attr ''foreground_queue_depth'' (bp_foreground_queue_depth b),
      add_u32_attr ''foreground_queue_limit'' (bp_foreground_queue_limit b),
      add_u32_attr ''recovery_queue_depth'' (bp_recovery_queue_depth b),
      add_u32_attr ''recovery_queue_limit'' (bp_recovery_queue_limit b),
      add_u32_attr ''maintenance_queue_depth'' (bp_maintenance_queue_depth b),
      add_u32_attr ''maintenance_queue_limit'' (bp_maintenance_queue_limit b)] @
     worker_attrs b @
     [add_bool_attr ''overloaded'' (bp_overloaded b)]"

definition scheduler_log ::
  "Scheduler \<Rightarrow> LogLevel \<Rightarrow> string \<Rightarrow> (attribute_map \<Rightarrow> attribute_map) list \<Rightarrow> int \<Rightarrow> Scheduler"
where
  "scheduler_log s lvl event_name fs now_ms =
     s\<lparr>sc_logger := emit_runtime_log (sc_logger s) lvl event_name ''scheduler''
                      (sc_runtime_instance_id s) (build_attrs fs Map.empty) now_ms\<rparr>"

section \<open>Operations\<close>

definition enqueue ::
  "Scheduler \<Rightarrow> SchedulerTicketRequest \<Rightarrow> int \<Rightarrow> (Scheduler \<times> SchedulerEnqueueResult) option"
where
  "enqueue s request now_ms =
     (case enqueue_locked s request of
        None \<Rightarrow> None
      | Some (s', result) \<Rightarrow>
          Some (scheduler_log s'
                  (if \<not> enq_accepted result \<or> enq_disposition result \<noteq> None
                   then Level_Warn else Level_Info)
                  ''runtime.scheduler.enqueue'' (enqueue_attrs request result) now_ms,
                result))"

definition acquire_worker ::
  "Scheduler \<Rightarrow> AcquireWorkerRequest \<Rightarrow> int \<Rightarrow> Scheduler \<times> AcquireWorkerResult"
where
  "acquire_worker s request now_ms =
     (let (s', result) = acquire_worker_locked s request
      in (scheduler_log s'
            (if \<not> acq_acquired result \<and> bp_overloaded (acq_backpressure result)
             then Level_Warn else Level_Info)
            ''runtime.scheduler.acquire_worker'' (acquire_worker_attrs request result) now_ms,
          result))"

definition release_worker ::
  "Scheduler \<Rightarrow> ReleaseWorkerRequest \<Rightarrow> int \<Rightarrow> Scheduler \<times> ReleaseWorkerResult"
where
  "release_worker s request now_ms =
     (let (s', result) = release_worker_locked s request
      in (scheduler_log s' (if rel_released result then Level_Info else Level_Warn)
            ''runtime.scheduler.release_worker'' (release_worker_attrs request result) now_ms,
          result))"

definition backpressure_state ::
  "Scheduler \<Rightarrow> int \<Rightarrow> Scheduler \<times> SchedulerBackpressureState"
where
  "backpressure_state s now_ms =
     (let state = compute_backpressure_state s Signal_None
      in (scheduler_log s (if bp_overloaded state then Level_Warn else Level_Info)
            ''runtime.scheduler.backpressure_state'' (backpressure_attrs state) now_ms,
          state))"

section \<open>Invariant\<close>

definition queued :: "SchedulerPriorityClass \<Rightarrow> SchedulerTicket \<Rightarrow> bool" where
  "queued c t \<longleftrightarrow> tk_priority_class t = c \<and> tk_state t = Queued \<and> tk_assigned_worker_id t = None \<and>
     tk_ticket_id t \<noteq> [] \<and> tk_request_id t \<noteq> []"

definition scheduler_inv :: "Scheduler \<Rightarrow> bool" where
  "scheduler_inv s \<longleftrightarrow>
     length (foreground_queue s) \<le> 1 \<and>
     length (recovery_queue s) \<le> unat (recovery_queue_limit s) \<and>
     length (maintenance_queue s) \<le> unat (maintenance_queue_limit s) \<and>
     0 < unat (maintenance_queue_limit s) \<and>
     (\<forall>t\<in>set (foreground_queue s). queued ForegroundInteractive t) \<and>
     (\<forall>t\<in>set (recovery_queue s). queued Recovery t) \<and>
     (\<forall>t\<in>set (maintenance_queue s). queued Maintenance t) \<and>
     log_bounded (sc_logger s)"

lemma queued_make_ticket:
  "ticket_has_minimum_requirements r \<Longrightarrow> queued (tr_priority_class r) (make_scheduler_ticket r n)"
  by (simp add: queued_def make_scheduler_ticket_def ticket_has_minimum_requirements_def)

lemma enqueue_locked_inv:
  assumes "scheduler_inv s"
  shows "\<exists>s' r. enqueue_locked s q = Some (s', r) \<and> scheduler_inv s'"
proof (cases "ticket_has_minimum_requirements q")
  case False
  with assms show ?thesis by (simp add: enqueue_locked_def)
next
  case True
  have t: "queued (tr_priority_class q) (make_scheduler_ticket q (next_sequence s))"
    by (rule queued_make_ticket [OF True])
  show ?thesis
  proof (cases "tr_priority_class q")
    case ForegroundInteractive
    with True t assms show ?thesis
      by (auto simp: enqueue_locked_def Let_def scheduler_inv_def)
  next
    case Recovery
    with True t assms show ?thesis
      by (auto simp: enqueue_locked_def Let_def scheduler_inv_def)
  next
    case Maintenance
    with True t assms show ?thesis
      by (cases "maintenance_queue s")
         (auto simp: enqueue_locked_def Let_def scheduler_inv_def)
  qed
qed

lemma scheduler_log_inv:
  assumes "scheduler_inv s" and "\<forall>f\<in>set fs. keeps_bound f" and "length event_name \<le> 160"
  shows "scheduler_inv (scheduler_log s lvl event_name fs now_ms)"
proof -
  have "bounded_attrs (build_attrs fs Map.empty)"
    using assms(2) by (rule build_attrs_bounded) simp
  with assms show ?thesis
    by (auto simp: scheduler_inv_def scheduler_log_def intro: emit_runtime_log_bounded)
qed

lemma scheduler_attrs_bounded [simp]:
  "f \<in> set (queue_depth_attrs b) \<Longrightarrow> keeps_bound f"
  "f \<in> set (worker_attrs b) \<Longrightarrow> keeps_bound f"
  "f \<in> set (enqueue_attrs q e) \<Longrightarrow> keeps_bound f"
  "f \<in> set (acquire_worker_attrs aq ar) \<Longrightarrow> keeps_bound f"
  "f \<in> set (release_worker_attrs rq rr) \<Longrightarrow> keeps_bound f"
  "f \<in> set (backpressure_attrs b) \<Longrightarrow> keeps_bound f"
  by (auto simp: queue_depth_attrs_def worker_attrs_def enqueue_attrs_def acquire_worker_attrs_def
      release_worker_attrs_def backpressure_attrs_def split: option.splits)

section \<open>The abstract queue\<close>

definition pending :: "Scheduler \<Rightarrow> SchedulerTicket list" where
  "pending s = foreground_queue s @ recovery_queue s @ maintenance_queue s"

text \<open>
  Acquisition takes the first pending ticket with the preferred id; without one, the first
  pending ticket of the preferred class, or the first of all.
\<close>

definition pick ::
  "SchedulerPriorityClass option \<Rightarrow> string option \<Rightarrow> SchedulerTicket list \<Rightarrow>
   (SchedulerTicket \<times> SchedulerTicket list) option"
where
  "pick cls pid ts =
     or_else (extract_first (\<lambda>t. Some (tk_ticket_id t) = pid) ts)
             (extract_first (\<lambda>t. cls = None \<or> cls = Some (tk_priority_class t)) ts)"

lemma extract_first_append:
  "extract_first P (xs @ ys) =
     (case extract_first P xs of
        Some (y, zs) \<Rightarrow> Some (y, zs @ ys)
      | None \<Rightarrow> map_option (\<lambda>(y, zs). (y, xs @ zs)) (extract_first P ys))"
  by (cases "extract_first P ys"; induction xs) (auto split: option.splits)

lemma extract_first_none: "(\<And>x. x \<in> set xs \<Longrightarrow> \<not> P x) \<Longrightarrow> extract_first P xs = None"
  by (simp add: extract_first_None)

lemma extract_first_head: "(\<And>x. x \<in> set xs \<Longrightarrow> P x) \<Longrightarrow> extract_first P xs = pop_front_ticket xs"
  by (cases xs) (auto simp: pop_front_ticket_def)

definition view :: "(Scheduler \<times> SchedulerTicket) option \<Rightarrow> (SchedulerTicket \<times> SchedulerTicket list) option"
where "view r = map_option (\<lambda>(s, t). (t, pending s)) r"

lemma view_or_else: "view (or_else x y) = or_else (view x) (view y)"
  by (simp add: view_def or_else_def split: option.split)

lemma view_from [simp]:
  "view (from_foreground s r) =
     map_option (\<lambda>(t, q). (t, q @ recovery_queue s @ maintenance_queue s)) r"
  "view (from_recovery s r) =
     map_option (\<lambda>(t, q). (t, foreground_queue s @ q @ maintenance_queue s)) r"
  "view (from_maintenance s r) =
     map_option (\<lambda>(t, q). (t, foreground_queue s @ recovery_queue s @ q)) r"
  by (cases r; auto simp: view_def from_foreground_def from_recovery_def from_maintenance_def
      pending_def)+

lemma extract_first_pending:
  "extract_first P (pending s) =
     or_else (view (from_foreground s (extract_first P (foreground_queue s))))
       (or_else (view (from_recovery s (extract_first P (recovery_queue s))))
          (view (from_maintenance s (extract_first P (maintenance_queue s)))))"
  by (cases "extract_first P (maintenance_queue s)")
     (auto simp: pending_def extract_first_append or_else_def split: option.splits)

lemma pop_next_ticket_pick:
  assumes "scheduler_inv s"
  shows "view (pop_next_ticket s cls pid) = pick cls pid (pending s)"
proof -
  have cl: "t \<in> set (foreground_queue s) \<Longrightarrow> tk_priority_class t = ForegroundInteractive"
    "t \<in> set (recovery_queue s) \<Longrightarrow> tk_priority_class t = Recovery"
    "t \<in> set (maintenance_queue s) \<Longrightarrow> tk_priority_class t = Maintenance" for t
    using assms by (auto simp: scheduler_inv_def queued_def)
  have "view (pop_preferred_id s pid) =
          extract_first (\<lambda>t. Some (tk_ticket_id t) = pid) (pending s)"
  proof (cases pid)
    case None
    then show ?thesis by (simp add: pop_preferred_id_def view_def extract_first_none)
  next
    case (Some i)
    then show ?thesis
      by (simp add: pop_preferred_id_def view_or_else pop_ticket_by_id_def extract_first_pending
          del: view_from)
  qed
  moreover have "extract_first (\<lambda>t. cls = None \<or> cls = Some (tk_priority_class t)) (pending s) =
    view (case cls of
          Some ForegroundInteractive \<Rightarrow> from_foreground s (pop_front_ticket (foreground_queue s))
        | Some Recovery \<Rightarrow> from_recovery s (pop_front_ticket (recovery_queue s))
        | Some Maintenance \<Rightarrow> from_maintenance s (pop_front_ticket (maintenance_queue s))
        | None \<Rightarrow>
            or_else (from_foreground s (pop_front_ticket (foreground_queue s)))
              (or_else (from_recovery s (pop_front_ticket (recovery_queue s)))
                (from_maintenance s (pop_front_ticket (maintenance_queue s)))))"
  proof (cases cls)
    case None
    then show ?thesis
      by (simp add: view_or_else extract_first_pending extract_first_head del: view_from)
  next
    case (Some c)
    then show ?thesis
      by (cases c) (simp_all add: extract_first_pending extract_first_none extract_first_head cl
          or_else_def view_def from_foreground_def from_recovery_def from_maintenance_def
          split: option.split)
  qed
  ultimately show ?thesis by (simp add: pop_next_ticket_def pick_def view_or_else)
qed

lemma pop_next_ticket_frame:
  "pop_next_ticket s cls pid = Some (s', t) \<Longrightarrow>
     worker_budget s' = worker_budget s \<and> next_sequence s' = next_sequence s \<and>
     recovery_queue_limit s' = recovery_queue_limit s \<and>
     maintenance_queue_limit s' = maintenance_queue_limit s \<and> sc_logger s' = sc_logger s"
  by (auto simp: pop_next_ticket_def pop_preferred_id_def or_else_def from_foreground_def
      from_recovery_def from_maintenance_def split: option.splits SchedulerPriorityClass.splits)

lemma pop_front_ticket_inv:
  "pop_front_ticket q = Some (t, q') \<Longrightarrow> length q' \<le> length q \<and> set q' \<subseteq> set q"
  by (auto simp: pop_front_ticket_def split: list.splits)

lemma pop_ticket_by_id_inv:
  "pop_ticket_by_id q i = Some (t, q') \<Longrightarrow> length q' \<le> length q \<and> set q' \<subseteq> set q"
  unfolding pop_ticket_by_id_def
  by (auto dest: extract_first_length extract_first_set)

lemma from_queue_inv:
  assumes "scheduler_inv s"
  shows "from_foreground s (Some (t, q)) = Some (s', t') \<Longrightarrow>
           length q \<le> length (foreground_queue s) \<and> set q \<subseteq> set (foreground_queue s) \<Longrightarrow> scheduler_inv s'"
    and "from_recovery s (Some (t, q)) = Some (s', t') \<Longrightarrow>
           length q \<le> length (recovery_queue s) \<and> set q \<subseteq> set (recovery_queue s) \<Longrightarrow> scheduler_inv s'"
    and "from_maintenance s (Some (t, q)) = Some (s', t') \<Longrightarrow>
           length q \<le> length (maintenance_queue s) \<and> set q \<subseteq> set (maintenance_queue s) \<Longrightarrow> scheduler_inv s'"
  using assms by (auto simp: scheduler_inv_def from_foreground_def from_recovery_def from_maintenance_def)

lemma from_queue_cases:
  "from_foreground s r = Some x \<Longrightarrow> \<exists>t q. r = Some (t, q)"
  "from_recovery s r = Some x \<Longrightarrow> \<exists>t q. r = Some (t, q)"
  "from_maintenance s r = Some x \<Longrightarrow> \<exists>t q. r = Some (t, q)"
  by (auto simp: from_foreground_def from_recovery_def from_maintenance_def)

lemma from_pop_inv:
  assumes inv: "scheduler_inv s"
    and src: "f \<in> {pop_front_ticket} \<union> range (\<lambda>i q. pop_ticket_by_id q i)"
  shows "from_foreground s (f (foreground_queue s)) = Some (s', t') \<Longrightarrow> scheduler_inv s'"
    and "from_recovery s (f (recovery_queue s)) = Some (s', t') \<Longrightarrow> scheduler_inv s'"
    and "from_maintenance s (f (maintenance_queue s)) = Some (s', t') \<Longrightarrow> scheduler_inv s'"
proof -
  have shrink: "f q = Some (t, q') \<Longrightarrow> length q' \<le> length q \<and> set q' \<subseteq> set q" for q t q'
    using src by (auto dest: pop_front_ticket_inv pop_ticket_by_id_inv)
  show "from_foreground s (f (foreground_queue s)) = Some (s', t') \<Longrightarrow> scheduler_inv s'"
    by (metis from_queue_cases(1) from_queue_inv(1) inv shrink)
  show "from_recovery s (f (recovery_queue s)) = Some (s', t') \<Longrightarrow> scheduler_inv s'"
    by (metis from_queue_cases(2) from_queue_inv(2) inv shrink)
  show "from_maintenance s (f (maintenance_queue s)) = Some (s', t') \<Longrightarrow> scheduler_inv s'"
    by (metis from_queue_cases(3) from_queue_inv(3) inv shrink)
qed

lemma pop_next_ticket_inv:
  assumes "scheduler_inv s" and "pop_next_ticket s cls pid = Some (s', t)"
  shows "scheduler_inv s'"
  using assms(2) from_pop_inv [OF assms(1), of pop_front_ticket]
    from_pop_inv [OF assms(1), of "\<lambda>q. pop_ticket_by_id q i" for i]
  by (auto simp: pop_next_ticket_def pop_preferred_id_def or_else_def
      split: option.splits SchedulerPriorityClass.splits)

lemma scheduler_inv_frame [simp]:
  "scheduler_inv (s\<lparr>worker_budget := b\<rparr>) = scheduler_inv s"
  "scheduler_inv (s\<lparr>next_sequence := n\<rparr>) = scheduler_inv s"
  by (simp_all add: scheduler_inv_def)

lemma acquire_worker_locked_inv:
  assumes "scheduler_inv s"
  shows "scheduler_inv (fst (acquire_worker_locked s q))"
proof -
  let ?s = "s\<lparr>worker_budget := aq_worker_budget q\<rparr>"
  have "scheduler_inv ?s" using assms by simp
  with pop_next_ticket_inv [OF this] assms show ?thesis
    by (auto simp: acquire_worker_locked_def Let_def split: option.split)
qed

lemma release_worker_locked_inv:
  "scheduler_inv s \<Longrightarrow> scheduler_inv (fst (release_worker_locked s q))"
  by (simp add: release_worker_locked_def Let_def)

section \<open>Runs of calls\<close>

datatype scheduler_call =
    Enqueue SchedulerTicketRequest int | Acquire AcquireWorkerRequest int
  | Release ReleaseWorkerRequest int | Backpressure int

fun scheduler_step :: "Scheduler \<Rightarrow> scheduler_call \<Rightarrow> Scheduler option" where
  "scheduler_step s (Enqueue q now_ms) = map_option fst (enqueue s q now_ms)"
| "scheduler_step s (Acquire q now_ms) = Some (fst (acquire_worker s q now_ms))"
| "scheduler_step s (Release q now_ms) = Some (fst (release_worker s q now_ms))"
| "scheduler_step s (Backpressure now_ms) = Some (fst (backpressure_state s now_ms))"

definition scheduler_at :: "u32 \<Rightarrow> u32 \<Rightarrow> Scheduler \<Rightarrow> bool" where
  "scheduler_at rl ml s \<longleftrightarrow>
     scheduler_inv s \<and> recovery_queue_limit s = rl \<and> maintenance_queue_limit s = ml"

lemma enqueue_locked_limits:
  "enqueue_locked s q = Some (s', r) \<Longrightarrow>
     recovery_queue_limit s' = recovery_queue_limit s \<and>
     maintenance_queue_limit s' = maintenance_queue_limit s"
  by (auto simp: enqueue_locked_def Let_def
      split: if_splits SchedulerPriorityClass.splits list.splits)

lemma acquire_locked_limits [simp]:
  "recovery_queue_limit (fst (acquire_worker_locked s q)) = recovery_queue_limit s"
  "maintenance_queue_limit (fst (acquire_worker_locked s q)) = maintenance_queue_limit s"
  by (auto simp: acquire_worker_locked_def Let_def split: option.split dest: pop_next_ticket_frame)

lemma release_locked_limits [simp]:
  "recovery_queue_limit (fst (release_worker_locked s q)) = recovery_queue_limit s"
  "maintenance_queue_limit (fst (release_worker_locked s q)) = maintenance_queue_limit s"
  by (auto simp: release_worker_locked_def Let_def)

lemma scheduler_log_limits [simp]:
  "recovery_queue_limit (scheduler_log s lvl ev fs now_ms) = recovery_queue_limit s"
  "maintenance_queue_limit (scheduler_log s lvl ev fs now_ms) = maintenance_queue_limit s"
  "foreground_queue (scheduler_log s lvl ev fs now_ms) = foreground_queue s"
  "recovery_queue (scheduler_log s lvl ev fs now_ms) = recovery_queue s"
  "maintenance_queue (scheduler_log s lvl ev fs now_ms) = maintenance_queue s"
  "worker_budget (scheduler_log s lvl ev fs now_ms) = worker_budget s"
  "next_sequence (scheduler_log s lvl ev fs now_ms) = next_sequence s"
  by (simp_all add: scheduler_log_def)

lemma scheduler_step_at:
  assumes "scheduler_at rl ml s"
  shows "\<exists>t. scheduler_step s e = Some t \<and> scheduler_at rl ml t"
proof -
  have inv: "scheduler_inv s" and lim: "recovery_queue_limit s = rl" "maintenance_queue_limit s = ml"
    using assms by (simp_all add: scheduler_at_def)
  show ?thesis
  proof (cases e)
    case (Enqueue q now_ms)
    from enqueue_locked_inv [OF inv, of q] obtain s' r where
      "enqueue_locked s q = Some (s', r)" "scheduler_inv s'" by blast
    with Enqueue lim enqueue_locked_limits [of s q s' r] show ?thesis
      by (auto simp: enqueue_def scheduler_at_def intro!: scheduler_log_inv)
  next
    case (Acquire q now_ms)
    with acquire_worker_locked_inv [OF inv, of q] lim show ?thesis
      by (auto simp: acquire_worker_def scheduler_at_def case_prod_unfold Let_def intro!: scheduler_log_inv)
  next
    case (Release q now_ms)
    with release_worker_locked_inv [OF inv, of q] lim show ?thesis
      by (auto simp: release_worker_def scheduler_at_def case_prod_unfold Let_def intro!: scheduler_log_inv)
  next
    case (Backpressure now_ms)
    with inv lim show ?thesis
      by (auto simp: backpressure_state_def scheduler_at_def Let_def intro!: scheduler_log_inv)
  qed
qed

interpretation sch: machine scheduler_step "scheduler_at rl ml" "\<lambda>_. True" for rl ml
proof unfold_locales
  fix s e
  assume "scheduler_at rl ml s"
  then show "\<exists>t. scheduler_step s e = Some t" using scheduler_step_at by blast
next
  fix s e t
  assume "scheduler_at rl ml s" and "scheduler_step s e = Some t"
  then show "scheduler_at rl ml t" using scheduler_step_at [of rl ml s e] by auto
qed

text \<open>
  C6. A scheduler with a positive maintenance limit survives every sequence of calls: no
  call is undefined, at most one foreground ticket is queued, the recovery and maintenance
  queues stay within their limits, each queue holds only queued tickets of its own class
  with no worker assigned, and no log event carries a value over 160 characters.
\<close>

theorem scheduler_runs_bounded:
  assumes "0 < unat ml"
  shows "case run_machine scheduler_step (set_logger (new_scheduler rl ml) (Some []) i) calls of
           None \<Rightarrow> False
         | Some s \<Rightarrow>
             length (foreground_queue s) \<le> 1 \<and> length (recovery_queue s) \<le> unat rl \<and>
             length (maintenance_queue s) \<le> unat ml \<and>
             list_all (queued ForegroundInteractive) (foreground_queue s) \<and>
             list_all (queued Recovery) (recovery_queue s) \<and>
             list_all (queued Maintenance) (maintenance_queue s) \<and> log_bounded (sc_logger s)"
proof -
  have "scheduler_at rl ml (set_logger (new_scheduler rl ml) (Some []) i)"
    using assms by (simp add: scheduler_at_def scheduler_inv_def set_logger_def new_scheduler_def
        log_bounded_def)
  from sch.run_defined [OF this, of calls] show ?thesis
    by (auto simp: scheduler_at_def scheduler_inv_def list_all_iff split: option.split)
qed

definition sample_ticket :: "SchedulerPriorityClass \<Rightarrow> string \<Rightarrow> SchedulerTicketRequest" where
  "sample_ticket c i = \<lparr>tr_ticket_id = i, tr_request_id = ''r'', tr_session_id = None,
     tr_priority_class = c, tr_cancellation_token = 0, tr_checkpoint_ref = None,
     tr_queue_key = None\<rparr>"

theorem scheduler_runs_bounded_witness:
  "\<exists>s. run_machine scheduler_step (set_logger (new_scheduler 2 1) (Some []) None)
         [Enqueue (sample_ticket Maintenance ''a'') 1, Enqueue (sample_ticket Maintenance ''b'') 2] =
       Some s \<and> length (maintenance_queue s) \<le> 1"
  using scheduler_runs_bounded [of 1 2 None
      "[Enqueue (sample_ticket Maintenance ''a'') 1, Enqueue (sample_ticket Maintenance ''b'') 2]"]
  by (auto split: option.splits)

text \<open>
  C8. Acquiring a worker implements the abstract queue: with a saturated pool nothing is
  taken; otherwise the ticket is the one \<open>pick\<close> selects (the preferred id anywhere, else the
  head of the preferred class, else the head of foreground, recovery and maintenance in that
  order), exactly that ticket leaves the queue, and one more worker is busy, within the pool.
\<close>

theorem acquire_worker_refines_pick:
  assumes "scheduler_inv s"
  shows "(let (s', r) = acquire_worker s q now_ms;
              b = aq_worker_budget q;
              choice = (if has_capacity b
                        then pick (aq_preferred_priority_class q) (aq_preferred_ticket_id q) (pending s)
                        else None)
          in case choice of
               None \<Rightarrow> \<not> acq_acquired r \<and> acq_ticket r = None \<and> pending s' = pending s \<and>
                       worker_budget s' = b
             | Some (t, rest) \<Rightarrow>
                 acq_acquired r \<and> pending s' = rest \<and>
                 unat (busy_workers (worker_budget s')) = Suc (unat (busy_workers b)) \<and>
                 busy_workers (worker_budget s') \<le> max_workers b \<and>
                 acq_ticket r =
                   Some (t\<lparr>tk_assigned_worker_id :=
                             Some (''worker-'' @ to_string_nat (Suc (unat (busy_workers b)))),
                           tk_state := WorkerAssigned\<rparr>))"
proof -
  let ?b = "aq_worker_budget q"
  let ?s = "s\<lparr>worker_budget := ?b\<rparr>"
  have pend: "pending (s1\<lparr>worker_budget := b\<rparr>) = pending s1" for s1 b
    by (simp add: pending_def)
  have plog: "pending (scheduler_log s1 l e fs now_ms) = pending s1" for s1 l e fs
    by (simp add: pending_def)
  have v: "view (pop_next_ticket ?s (aq_preferred_priority_class q) (aq_preferred_ticket_id q)) =
           pick (aq_preferred_priority_class q) (aq_preferred_ticket_id q) (pending s)"
    using pop_next_ticket_pick [of ?s] assms by (simp add: pend)
  show ?thesis
  proof (cases "has_capacity ?b")
    case False
    then show ?thesis
      by (simp add: acquire_worker_def acquire_worker_locked_def Let_def pend plog)
  next
    case True
    then have lt: "busy_workers ?b < max_workers ?b" by (simp add: has_capacity_def)
    then have "1 + busy_workers ?b \<noteq> 0" by uint_arith
    then have suc: "unat (busy_workers ?b + 1) = Suc (unat (busy_workers ?b))"
      by (simp add: add.commute unatSuc)
    have le: "busy_workers ?b + 1 \<le> max_workers ?b"
      using lt suc by (simp add: word_le_nat_alt word_less_nat_alt)
    show ?thesis
    proof (cases "pop_next_ticket ?s (aq_preferred_priority_class q) (aq_preferred_ticket_id q)")
      case None
      with v have "pick (aq_preferred_priority_class q) (aq_preferred_ticket_id q) (pending s) = None"
        by (simp add: view_def)
      with True None show ?thesis
        by (simp add: acquire_worker_def acquire_worker_locked_def Let_def pend plog)
    next
      case (Some x)
      obtain s1 t where x: "x = (s1, t)" by (cases x)
      with v Some have p: "pick (aq_preferred_priority_class q) (aq_preferred_ticket_id q)
          (pending s) = Some (t, pending s1)" by (simp add: view_def)
      from Some x have wb: "worker_budget s1 = ?b"
        using pop_next_ticket_frame [of ?s] by fastforce
      from True Some x p suc le show ?thesis
        by (simp add: acquire_worker_def acquire_worker_locked_def Let_def outcome_simps pend plog wb)
    qed
  qed
qed

definition two_waiting :: Scheduler where
  "two_waiting = (new_scheduler 2 4)
     \<lparr>recovery_queue := [make_scheduler_ticket (sample_ticket Recovery ''r'') 1],
      maintenance_queue := [make_scheduler_ticket (sample_ticket Maintenance ''m'') 2]\<rparr>"

theorem acquire_worker_refines_pick_witness:
  "map_option tk_ticket_id
     (acq_ticket (snd (acquire_worker two_waiting
        \<lparr>aq_worker_budget = \<lparr>max_workers = 2, busy_workers = 1\<rparr>,
         aq_preferred_priority_class = None, aq_preferred_ticket_id = Some ''m''\<rparr> 7))) = Some ''m''"
proof -
  let ?q = "\<lparr>aq_worker_budget = \<lparr>max_workers = 2, busy_workers = 1\<rparr>,
             aq_preferred_priority_class = None, aq_preferred_ticket_id = Some ''m''\<rparr>"
  have "scheduler_inv two_waiting"
    by (simp add: scheduler_inv_def two_waiting_def new_scheduler_def queued_def
        make_scheduler_ticket_def sample_ticket_def log_bounded_def)
  moreover have "pick None (Some ''m'') (pending two_waiting) =
      Some (make_scheduler_ticket (sample_ticket Maintenance ''m'') 2,
            [make_scheduler_ticket (sample_ticket Recovery ''r'') 1])"
    by (simp add: pick_def or_else_def pending_def two_waiting_def new_scheduler_def
        make_scheduler_ticket_def sample_ticket_def)
  ultimately show ?thesis
    using acquire_worker_refines_pick [of two_waiting ?q 7]
    by (auto simp: has_capacity_def make_scheduler_ticket_def sample_ticket_def Let_def
        split: prod.splits)
qed

text \<open>The queue of a class, and how many tickets an enqueue drops from its front.\<close>

fun queue_of :: "Scheduler \<Rightarrow> SchedulerPriorityClass \<Rightarrow> SchedulerTicket list" where
  "queue_of s ForegroundInteractive = foreground_queue s"
| "queue_of s Recovery = recovery_queue s"
| "queue_of s Maintenance = maintenance_queue s"

fun has_room :: "Scheduler \<Rightarrow> SchedulerPriorityClass \<Rightarrow> bool" where
  "has_room s ForegroundInteractive \<longleftrightarrow> foreground_queue s = []"
| "has_room s Recovery \<longleftrightarrow> length (recovery_queue s) < unat (recovery_queue_limit s)"
| "has_room s Maintenance \<longleftrightarrow> length (maintenance_queue s) < unat (maintenance_queue_limit s)"

text \<open>
  Enqueueing a well-formed request appends its ticket, with the next sequence number, at
  the end of the queue of its class if there is room. A full foreground or recovery queue
  rejects it and stays as it was; a full maintenance queue drops its oldest ticket and
  accepts. The disposition reported on overflow is the one of the class, and the two other
  queues never change.
\<close>

theorem enqueue_correct:
  assumes "scheduler_inv s" and "ticket_has_minimum_requirements q"
  shows "case enqueue s q now_ms of
           None \<Rightarrow> False
         | Some (s', r) \<Rightarrow>
             (let c = tr_priority_class q; t = make_scheduler_ticket q (next_sequence s)
              in queue_of s' =
                   (queue_of s)(c := (if has_room s c then queue_of s c @ [t]
                                      else if c = Maintenance then tl (queue_of s c) @ [t]
                                      else queue_of s c)) \<and>
                 enq_accepted r = (has_room s c \<or> c = Maintenance) \<and>
                 enq_ticket r = (if enq_accepted r then Some t else None) \<and>
                 enq_disposition r =
                   (if has_room s c then None else Some (scheduler_overflow_disposition c)) \<and>
                 next_sequence s' = next_sequence s + 1)"
proof -
  have fun_upd: "f = g(c := x) \<longleftrightarrow> (\<forall>d. f d = (if d = c then x else g d))"
    for f g :: "SchedulerPriorityClass \<Rightarrow> SchedulerTicket list" and c x by (auto simp: fun_eq_iff)
  have all: "(\<forall>d. P d) \<longleftrightarrow> P ForegroundInteractive \<and> P Recovery \<and> P Maintenance" for P
    by (metis SchedulerPriorityClass.exhaust)
  show ?thesis
  proof (cases "tr_priority_class q")
    case ForegroundInteractive
    with assms show ?thesis
      by (auto simp: enqueue_def enqueue_locked_def Let_def outcome_simps fun_upd all)
  next
    case Recovery
    with assms show ?thesis
      by (auto simp: enqueue_def enqueue_locked_def Let_def outcome_simps fun_upd all)
  next
    case Maintenance
    with assms show ?thesis
      by (cases "maintenance_queue s")
         (auto simp: enqueue_def enqueue_locked_def Let_def outcome_simps fun_upd all scheduler_inv_def)
  qed
qed

theorem enqueue_correct_witness:
  "map_option (\<lambda>(s', r). map tk_ticket_id (maintenance_queue s'))
     (enqueue (two_waiting\<lparr>maintenance_queue_limit := 1\<rparr>) (sample_ticket Maintenance ''n'') 5) =
   Some [''n'']"
proof -
  let ?s = "two_waiting\<lparr>maintenance_queue_limit := 1\<rparr>"
  have inv: "scheduler_inv ?s"
    by (simp add: scheduler_inv_def two_waiting_def new_scheduler_def queued_def
        make_scheduler_ticket_def sample_ticket_def log_bounded_def)
  have req: "ticket_has_minimum_requirements (sample_ticket Maintenance ''n'')"
    by (simp add: ticket_has_minimum_requirements_def sample_ticket_def)
  have "queue_of s' Maintenance = [make_scheduler_ticket (sample_ticket Maintenance ''n'') 1]"
    if "enqueue ?s (sample_ticket Maintenance ''n'') 5 = Some (s', r)" for s' r
    using enqueue_correct [OF inv req, of 5] that
    by (simp add: sample_ticket_def two_waiting_def new_scheduler_def Let_def)
  then show ?thesis
    using enqueue_correct [OF inv req, of 5]
    by (auto simp: make_scheduler_ticket_def sample_ticket_def split: option.splits)
qed

text \<open>
  A cancelled token stays cancelled: once a poll has answered yes, whether by an explicit
  cancel or by the deadline, every later poll answers yes, whatever deadlines are bound and
  whatever the clock shows in between.
\<close>

theorem cancellation_is_permanent:
  "if snd (is_cancelled t now_ms)
   then snd (is_cancelled (foldl token_step (fst (is_cancelled t now_ms)) ops) later_ms)
   else \<not> cancelled t \<and> (deadline_epoch_ms t < 0 \<or> now_ms < deadline_epoch_ms t)"
proof (cases "snd (is_cancelled t now_ms)")
  case True
  then have "cancelled (fst (is_cancelled t now_ms))"
    by (auto simp: is_cancelled_def split: if_splits)
  then have "cancelled (foldl token_step (fst (is_cancelled t now_ms)) ops)"
    by (rule token_latch.fold_invariant)
  with True show ?thesis by (simp add: is_cancelled_def)
next
  case False
  then show ?thesis by (auto simp: is_cancelled_def split: if_splits)
qed

end
