(* ===== verification/Safe_Mode.thy ===== *)
theory Safe_Mode
  imports Structured_Log Budget_Controller
begin

text \<open>
  The safe-mode controller (\<^verbatim>\<open>runtime/src/safety/SafeModeController.{h,cpp}\<close>) and the
  degrade policy it consults (\<^verbatim>\<open>profiles/include/RuntimePolicySnapshot.h\<close>). Every call is
  one atomic step under the mode mutex, followed by a log event. \<open>entry_target\<close> states, in one
  table, the mode each trigger leads to; \<open>evaluate_entry\<close> is proved to follow it.
\<close>

section \<open>Types\<close>

record DegradePolicy =
  fallback_chain :: "string list"
  allow_model_failover :: bool
  allow_budget_degrade :: bool

datatype SafeModeTriggerKind =
    PolicyForbidden | Trigger_BudgetExhausted | RecoveryExhausted | DependencyUnavailable
  | WatchdogTimeout

fun safe_mode_trigger_name :: "SafeModeTriggerKind \<Rightarrow> string" where
  "safe_mode_trigger_name PolicyForbidden = ''PolicyForbidden''"
| "safe_mode_trigger_name Trigger_BudgetExhausted = ''BudgetExhausted''"
| "safe_mode_trigger_name RecoveryExhausted = ''RecoveryExhausted''"
| "safe_mode_trigger_name DependencyUnavailable = ''DependencyUnavailable''"
| "safe_mode_trigger_name WatchdogTimeout = ''WatchdogTimeout''"

datatype SafeModeState = Mode_Normal | Mode_FailedSafe | Mode_Degraded | Mode_SafeMode

fun safe_mode_state_name :: "SafeModeState \<Rightarrow> string" where
  "safe_mode_state_name Mode_Normal = ''Normal''"
| "safe_mode_state_name Mode_FailedSafe = ''FailedSafe''"
| "safe_mode_state_name Mode_Degraded = ''Degraded''"
| "safe_mode_state_name Mode_SafeMode = ''SafeMode''"

datatype SafeModeAction =
    Action_None | Action_EnterFailedSafe | Action_EnterDegraded | Action_EnterSafeMode
  | Action_ExitToNormal

fun safe_mode_action_name :: "SafeModeAction \<Rightarrow> string" where
  "safe_mode_action_name Action_None = ''None''"
| "safe_mode_action_name Action_EnterFailedSafe = ''EnterFailedSafe''"
| "safe_mode_action_name Action_EnterDegraded = ''EnterDegraded''"
| "safe_mode_action_name Action_EnterSafeMode = ''EnterSafeMode''"
| "safe_mode_action_name Action_ExitToNormal = ''ExitToNormal''"

record HealthSignal =
  hs_dependency_available :: bool
  hs_watchdog_healthy :: bool
  hs_dependency_name :: string
  hs_detail :: string

record SafeModeTrigger =
  trigger_kind :: SafeModeTriggerKind
  tg_budget_decision :: "BudgetDecision option"
  tg_recovery_outcome :: "RecoveryOutcome option"
  tg_error_code :: "RuntimeErrorCode option"
  tg_health_signal :: "HealthSignal option"
  tg_detail :: string

record SafeModeDecision =
  sd_transition_required :: bool
  sd_previous_mode :: SafeModeState
  sd_target_mode :: SafeModeState
  sd_action :: SafeModeAction
  sd_target_runtime_state :: "RuntimeState option"
  sd_error_code :: "RuntimeErrorCode option"
  sd_selected_fallback :: "string option"
  sd_detail :: string

record SafeModeExitRequest =
  ex_dependencies_healthy :: bool
  ex_watchdog_healthy :: bool
  ex_operator_cleared :: bool
  ex_budget_restored :: bool
  ex_detail :: string

definition mode_changed :: "SafeModeDecision \<Rightarrow> bool" where
  "mode_changed d \<longleftrightarrow> sd_transition_required d \<and> sd_previous_mode d \<noteq> sd_target_mode d"

record SafeModeController =
  policy_snapshot :: "DegradePolicy option"
  current_mode :: SafeModeState
  sm_logger :: logger
  sm_runtime_instance_id :: "string option"

section \<open>Fallback selection\<close>

definition fallback_step_enabled :: "DegradePolicy \<Rightarrow> string \<Rightarrow> bool" where
  "fallback_step_enabled p step =
     (if step = ''allow_model_failover'' then allow_model_failover p
      else if step = ''allow_budget_degrade'' then allow_budget_degrade p
      else if step = ''allow_tool_skip'' then True
      else if step = ''abort_safe'' then True
      else False)"

text \<open>
  \<^verbatim>\<open>select_fallback\<close>. The last loop only ever returns for an unavailable dependency; for
  the other triggers it runs to the end without a result.
\<close>

definition select_fallback :: "DegradePolicy option \<Rightarrow> SafeModeTriggerKind \<Rightarrow> string option" where
  "select_fallback policy kind =
     (case policy of
        None \<Rightarrow> None
      | Some p \<Rightarrow>
          if kind = Trigger_BudgetExhausted then
            (if allow_budget_degrade p then Some ''allow_budget_degrade''
             else List.find (\<lambda>step. step = ''abort_safe'') (fallback_chain p))
          else
            (case (if kind = DependencyUnavailable \<and> allow_model_failover p
                   then List.find (\<lambda>step. step \<noteq> [] \<and> step \<noteq> ''abort_safe'') (fallback_chain p)
                   else None) of
               Some step \<Rightarrow> Some step
             | None \<Rightarrow>
                 List.find (\<lambda>step. fallback_step_enabled p step \<and> kind = DependencyUnavailable)
                   (fallback_chain p)))"

section \<open>Decisions\<close>

fun runtime_state_for_mode :: "SafeModeState \<Rightarrow> RuntimeState option" where
  "runtime_state_for_mode Mode_FailedSafe = Some FailedSafe"
| "runtime_state_for_mode Mode_Degraded = Some Degraded"
| "runtime_state_for_mode Mode_SafeMode = Some SafeMode"
| "runtime_state_for_mode Mode_Normal = None"

fun error_code_for_mode :: "SafeModeState \<Rightarrow> RuntimeErrorCode option" where
  "error_code_for_mode Mode_FailedSafe = Some RT_E_501_RECOVERY_ESCALATED"
| "error_code_for_mode Mode_Degraded = Some RT_E_511_DEGRADE_ENTERED"
| "error_code_for_mode Mode_SafeMode = Some RT_E_510_SAFE_MODE_ENTERED"
| "error_code_for_mode Mode_Normal = None"

definition no_transition :: "string \<Rightarrow> SafeModeState \<Rightarrow> SafeModeDecision" where
  "no_transition detail m =
     \<lparr>sd_transition_required = False, sd_previous_mode = m, sd_target_mode = m,
      sd_action = Action_None, sd_target_runtime_state = runtime_state_for_mode m,
      sd_error_code = error_code_for_mode m, sd_selected_fallback = None, sd_detail = detail\<rparr>"

definition transition_locked ::
  "SafeModeController \<Rightarrow> SafeModeState \<Rightarrow> SafeModeAction \<Rightarrow> string option \<Rightarrow> string \<Rightarrow>
   SafeModeController \<times> SafeModeDecision"
where
  "transition_locked c target action fallback detail =
     (c\<lparr>current_mode := target\<rparr>,
      \<lparr>sd_transition_required = (current_mode c \<noteq> target), sd_previous_mode = current_mode c,
       sd_target_mode = target, sd_action = action,
       sd_target_runtime_state = runtime_state_for_mode target,
       sd_error_code = error_code_for_mode target, sd_selected_fallback = fallback,
       sd_detail = (if empty_string detail
                    then ''safe mode transition -> '' @ safe_mode_state_name target else detail)\<rparr>)"

definition evaluate_entry_locked ::
  "SafeModeController \<Rightarrow> SafeModeTrigger \<Rightarrow> SafeModeController \<times> SafeModeDecision"
where
  "evaluate_entry_locked c trigger =
     (let detail = tg_detail trigger
      in case trigger_kind trigger of
           PolicyForbidden \<Rightarrow>
             transition_locked c Mode_SafeMode Action_EnterSafeMode None
               (if empty_string detail then ''policy forbids continuing execution'' else detail)
         | WatchdogTimeout \<Rightarrow>
             transition_locked c Mode_SafeMode Action_EnterSafeMode None
               (if empty_string detail then ''watchdog timeout forces safe mode'' else detail)
         | Trigger_BudgetExhausted \<Rightarrow>
             (let selected = select_fallback (policy_snapshot c) Trigger_BudgetExhausted;
                  why = (if empty_string detail \<and> tg_budget_decision trigger \<noteq> None
                         then bd_detail (the (tg_budget_decision trigger)) else detail)
              in if selected = Some ''allow_budget_degrade'' then
                   transition_locked c Mode_Degraded Action_EnterDegraded selected why
                 else transition_locked c Mode_FailedSafe Action_EnterFailedSafe selected why)
         | DependencyUnavailable \<Rightarrow>
             (let selected = select_fallback (policy_snapshot c) DependencyUnavailable;
                  why = (if empty_string detail \<and> tg_health_signal trigger \<noteq> None
                         then hs_detail (the (tg_health_signal trigger)) else detail)
              in if selected \<noteq> None \<and> selected \<noteq> Some ''abort_safe'' then
                   transition_locked c Mode_Degraded Action_EnterDegraded selected why
                 else transition_locked c Mode_FailedSafe Action_EnterFailedSafe selected why)
         | RecoveryExhausted \<Rightarrow>
             (let failed_safe =
                    transition_locked c Mode_FailedSafe Action_EnterFailedSafe
                      (case tg_recovery_outcome trigger of
                         Some outcome \<Rightarrow> executed_action outcome | None \<Rightarrow> None)
                      (if empty_string detail
                       then ''recovery exhausted without a viable continuation path'' else detail)
              in case tg_recovery_outcome trigger of
                   None \<Rightarrow> failed_safe
                 | Some outcome \<Rightarrow>
                     if executed_action outcome = Some ''degrade'' \<or>
                        final_runtime_state outcome = Some ''Degraded'' then
                       transition_locked c Mode_Degraded Action_EnterDegraded
                         (executed_action outcome)
                         (if empty_string detail
                          then value_or (escalation_reason outcome)
                                 ''recovery exhausted into degraded mode''
                          else detail)
                     else if final_runtime_state outcome = Some ''SafeMode'' then
                       transition_locked c Mode_SafeMode Action_EnterSafeMode
                         (executed_action outcome)
                         (if empty_string detail
                          then value_or (escalation_reason outcome)
                                 ''recovery exhausted into safe mode''
                          else detail)
                     else failed_safe))"

definition evaluate_exit_locked ::
  "SafeModeController \<Rightarrow> SafeModeExitRequest \<Rightarrow> SafeModeController \<times> SafeModeDecision"
where
  "evaluate_exit_locked c request =
     (if current_mode c = Mode_Normal then
        (c, no_transition ''runtime already in normal mode'' (current_mode c))
      else if \<not> ex_dependencies_healthy request \<or> \<not> ex_watchdog_healthy request \<or>
              \<not> ex_operator_cleared request \<or> \<not> ex_budget_restored request then
        (c, no_transition
              (if empty_string (ex_detail request)
               then ''exit rejected because recovery conditions are incomplete''
               else ex_detail request)
              (current_mode c))
      else
        transition_locked c Mode_Normal Action_ExitToNormal None
          (if empty_string (ex_detail request) then ''safe mode exit accepted''
           else ex_detail request))"

section \<open>Log events\<close>

definition safe_mode_log_level :: "SafeModeDecision \<Rightarrow> LogLevel" where
  "safe_mode_log_level d =
     (if sd_action d = Action_ExitToNormal then Level_Info
      else if sd_transition_required d \<or> sd_target_mode d \<noteq> Mode_Normal then Level_Warn
      else Level_Info)"

definition safe_mode_entry_attrs ::
  "SafeModeTrigger \<Rightarrow> SafeModeDecision \<Rightarrow> (attribute_map \<Rightarrow> attribute_map) list"
where
  "safe_mode_entry_attrs trigger d =
     [add_string_attr ''trigger_kind'' (safe_mode_trigger_name (trigger_kind trigger)),
      add_string_attr ''previous_mode'' (safe_mode_state_name (sd_previous_mode d)),
      add_string_attr ''target_mode'' (safe_mode_state_name (sd_target_mode d)),
      add_string_attr ''action'' (safe_mode_action_name (sd_action d)),
      add_bool_attr ''transition_required'' (sd_transition_required d),
      add_optional_string_attr ''selected_fallback'' (sd_selected_fallback d)] @
     (case sd_error_code d of None \<Rightarrow> [] | Some e \<Rightarrow> [add_error_code_attr ''error_code'' e]) @
     (case sd_target_runtime_state d of None \<Rightarrow> []
      | Some s \<Rightarrow> [add_string_attr ''target_runtime_state'' (runtime_state_name s)]) @
     (case tg_error_code trigger of None \<Rightarrow> []
      | Some e \<Rightarrow> [add_error_code_attr ''trigger_error_code'' e]) @
     (case tg_health_signal trigger of None \<Rightarrow> []
      | Some h \<Rightarrow>
          [add_bool_attr ''dependency_available'' (hs_dependency_available h),
           add_bool_attr ''watchdog_healthy'' (hs_watchdog_healthy h),
           add_string_attr ''dependency_name'' (hs_dependency_name h)]) @
     (case tg_recovery_outcome trigger of None \<Rightarrow> []
      | Some outcome \<Rightarrow>
          [add_optional_string_attr ''recovery_action'' (executed_action outcome),
           add_optional_string_attr ''recovery_final_runtime_state''
             (final_runtime_state outcome)]) @
     [add_string_attr ''detail'' (sd_detail d)]"

definition safe_mode_exit_attrs ::
  "SafeModeExitRequest \<Rightarrow> SafeModeDecision \<Rightarrow> (attribute_map \<Rightarrow> attribute_map) list"
where
  "safe_mode_exit_attrs request d =
     [add_string_attr ''previous_mode'' (safe_mode_state_name (sd_previous_mode d)),
      add_string_attr ''target_mode'' (safe_mode_state_name (sd_target_mode d)),
      add_string_attr ''action'' (safe_mode_action_name (sd_action d)),
      add_bool_attr ''transition_required'' (sd_transition_required d),
      add_bool_attr ''dependencies_healthy'' (ex_dependencies_healthy request),
      add_bool_attr ''watchdog_healthy'' (ex_watchdog_healthy request),
      add_bool_attr ''operator_cleared'' (ex_operator_cleared request),
      add_bool_attr ''budget_restored'' (ex_budget_restored request)] @
     (case sd_error_code d of None \<Rightarrow> [] | Some e \<Rightarrow> [add_error_code_attr ''error_code'' e]) @
     (case sd_target_runtime_state d of None \<Rightarrow> []
      | Some s \<Rightarrow> [add_string_attr ''target_runtime_state'' (runtime_state_name s)]) @
     [add_string_attr ''detail'' (sd_detail d)]"

definition safe_mode_log ::
  "SafeModeController \<Rightarrow> SafeModeDecision \<Rightarrow> string \<Rightarrow> (attribute_map \<Rightarrow> attribute_map) list \<Rightarrow>
   int \<Rightarrow> SafeModeController"
where
  "safe_mode_log c d event_name fs now_ms =
     c\<lparr>sm_logger := emit_runtime_log (sm_logger c) (safe_mode_log_level d) event_name
                      ''safe_mode_controller'' (sm_runtime_instance_id c)
                      (build_attrs fs Map.empty) now_ms\<rparr>"

section \<open>Operations\<close>

definition new_safe_mode_controller :: "DegradePolicy option \<Rightarrow> SafeModeController" where
  "new_safe_mode_controller policy =
     \<lparr>policy_snapshot = policy, current_mode = Mode_Normal, sm_logger = None,
      sm_runtime_instance_id = None\<rparr>"

definition safe_mode_set_logger ::
  "SafeModeController \<Rightarrow> logger \<Rightarrow> string option \<Rightarrow> SafeModeController"
where
  "safe_mode_set_logger c lg i = c\<lparr>sm_logger := lg, sm_runtime_instance_id := i\<rparr>"

definition evaluate_entry ::
  "SafeModeController \<Rightarrow> SafeModeTrigger \<Rightarrow> int \<Rightarrow> SafeModeController \<times> SafeModeDecision"
where
  "evaluate_entry c trigger now_ms =
     (let (c', d) = evaluate_entry_locked c trigger;
          d' = (if empty_string (sd_detail d)
                then no_transition ''unknown safe mode trigger'' (current_mode c') else d)
      in (safe_mode_log c' d' ''runtime.safe_mode.evaluate_entry''
            (safe_mode_entry_attrs trigger d') now_ms, d'))"

definition evaluate_exit ::
  "SafeModeController \<Rightarrow> SafeModeExitRequest \<Rightarrow> int \<Rightarrow> SafeModeController \<times> SafeModeDecision"
where
  "evaluate_exit c request now_ms =
     (let (c', d) = evaluate_exit_locked c request
      in (safe_mode_log c' d ''runtime.safe_mode.evaluate_exit''
            (safe_mode_exit_attrs request d) now_ms, d))"

section \<open>The mode each trigger leads to\<close>

definition entry_target :: "DegradePolicy option \<Rightarrow> SafeModeTrigger \<Rightarrow> SafeModeState" where
  "entry_target policy trigger =
     (case trigger_kind trigger of
        PolicyForbidden \<Rightarrow> Mode_SafeMode
      | WatchdogTimeout \<Rightarrow> Mode_SafeMode
      | Trigger_BudgetExhausted \<Rightarrow>
          (case policy of
             Some p \<Rightarrow> if allow_budget_degrade p then Mode_Degraded else Mode_FailedSafe
           | None \<Rightarrow> Mode_FailedSafe)
      | DependencyUnavailable \<Rightarrow>
          (case policy of
             None \<Rightarrow> Mode_FailedSafe
           | Some p \<Rightarrow>
               if allow_model_failover p \<and> (\<exists>s\<in>set (fallback_chain p). s \<noteq> [] \<and> s \<noteq> ''abort_safe'')
               then Mode_Degraded
               else (case List.find (fallback_step_enabled p) (fallback_chain p) of
                       None \<Rightarrow> Mode_FailedSafe
                     | Some s \<Rightarrow> if s = ''abort_safe'' then Mode_FailedSafe else Mode_Degraded))
      | RecoveryExhausted \<Rightarrow>
          (case tg_recovery_outcome trigger of
             None \<Rightarrow> Mode_FailedSafe
           | Some outcome \<Rightarrow>
               if executed_action outcome = Some ''degrade'' \<or>
                  final_runtime_state outcome = Some ''Degraded'' then Mode_Degraded
               else if final_runtime_state outcome = Some ''SafeMode'' then Mode_SafeMode
               else Mode_FailedSafe))"

lemma find_none_iff: "List.find P xs = None \<longleftrightarrow> (\<forall>x\<in>set xs. \<not> P x)"
  by (induction xs) auto

lemma transition_locked_sel [simp]:
  "fst (transition_locked c m a f d) = c\<lparr>current_mode := m\<rparr>"
  "sd_target_mode (snd (transition_locked c m a f d)) = m"
  "sd_previous_mode (snd (transition_locked c m a f d)) = current_mode c"
  "sd_transition_required (snd (transition_locked c m a f d)) = (current_mode c \<noteq> m)"
  "sd_target_runtime_state (snd (transition_locked c m a f d)) = runtime_state_for_mode m"
  "sd_error_code (snd (transition_locked c m a f d)) = error_code_for_mode m"
  "sd_detail (snd (transition_locked c m a f d)) \<noteq> []"
  by (auto simp: transition_locked_def)

text \<open>Every entry is some transition to the table's mode.\<close>

lemma entry_is_transition:
  "\<exists>a f d. evaluate_entry_locked c trigger =
     transition_locked c (entry_target (policy_snapshot c) trigger) a f d"
proof (cases "trigger_kind trigger")
  case DependencyUnavailable
  show ?thesis
  proof (cases "policy_snapshot c")
    case None
    with DependencyUnavailable show ?thesis
      by (auto simp: evaluate_entry_locked_def entry_target_def select_fallback_def Let_def)
  next
    case (Some p)
    show ?thesis
    proof (cases "allow_model_failover p \<and>
        (\<exists>s\<in>set (fallback_chain p). s \<noteq> [] \<and> s \<noteq> ''abort_safe'')")
      case True
      then have "List.find (\<lambda>step. step \<noteq> [] \<and> step \<noteq> ''abort_safe'') (fallback_chain p) \<noteq> None"
        unfolding find_none_iff by blast
      then obtain s where f: "List.find (\<lambda>step. step \<noteq> [] \<and> step \<noteq> ''abort_safe'')
          (fallback_chain p) = Some s" by blast
      have "s \<noteq> ''abort_safe''" using find_Some_first [OF f] by blast
      with f True Some DependencyUnavailable show ?thesis
        by (auto simp: evaluate_entry_locked_def entry_target_def select_fallback_def Let_def)
    next
      case False
      then have "(if allow_model_failover p
          then List.find (\<lambda>step. step \<noteq> [] \<and> step \<noteq> ''abort_safe'') (fallback_chain p)
          else None) = None"
        by (auto simp: find_none_iff)
      with False Some DependencyUnavailable show ?thesis
        by (auto simp: evaluate_entry_locked_def entry_target_def select_fallback_def Let_def
            split: option.splits)
    qed
  qed
next
  case Trigger_BudgetExhausted
  have "List.find (\<lambda>step. step = ''abort_safe'') xs \<noteq> Some ''allow_budget_degrade''" for xs
    using find_Some_first [of "\<lambda>step. step = ''abort_safe''" xs] by fastforce
  with Trigger_BudgetExhausted show ?thesis
    by (auto simp: evaluate_entry_locked_def entry_target_def select_fallback_def Let_def
        split: option.splits)
qed (auto simp: evaluate_entry_locked_def entry_target_def Let_def split: option.splits)

lemma evaluate_entry_mode:
  "current_mode (fst (evaluate_entry c trigger now_ms)) = entry_target (policy_snapshot c) trigger"
  "policy_snapshot (fst (evaluate_entry c trigger now_ms)) = policy_snapshot c"
proof -
  obtain a f d where e: "evaluate_entry_locked c trigger =
      transition_locked c (entry_target (policy_snapshot c) trigger) a f d"
    using entry_is_transition by blast
  show "current_mode (fst (evaluate_entry c trigger now_ms)) = entry_target (policy_snapshot c) trigger"
    "policy_snapshot (fst (evaluate_entry c trigger now_ms)) = policy_snapshot c"
    by (simp_all add: evaluate_entry_def e case_prod_unfold Let_def safe_mode_log_def)
qed

lemma entry_target_abnormal: "entry_target p t \<noteq> Mode_Normal"
  by (auto simp: entry_target_def split: SafeModeTriggerKind.splits option.splits)

text \<open>
  An entry evaluation follows the table: whatever the mode was, the controller moves to
  the mode the trigger and the policy determine, never to normal; the decision names the old
  and the new mode, whether they differ, and the runtime state and error code of the new
  mode. The fallback for unknown triggers is never used: the detail is never empty.
\<close>

theorem safe_mode_entry_follows_table:
  "case evaluate_entry c trigger now_ms of (c', d) \<Rightarrow>
     (let m = entry_target (policy_snapshot c) trigger
      in m \<noteq> Mode_Normal \<and> current_mode c' = m \<and> policy_snapshot c' = policy_snapshot c \<and>
         sd_previous_mode d = current_mode c \<and> sd_target_mode d = m \<and>
         sd_transition_required d = (current_mode c \<noteq> m) \<and>
         sd_target_runtime_state d = runtime_state_for_mode m \<and>
         sd_error_code d = error_code_for_mode m \<and> sd_detail d \<noteq> [])"
proof -
  obtain a f d where e: "evaluate_entry_locked c trigger =
      transition_locked c (entry_target (policy_snapshot c) trigger) a f d"
    using entry_is_transition by blast
  show ?thesis
    by (simp add: evaluate_entry_def e case_prod_unfold Let_def safe_mode_log_def
        entry_target_abnormal)
qed

section \<open>Runs\<close>

datatype safe_mode_call = Entry SafeModeTrigger int | Exit SafeModeExitRequest int

fun safe_mode_step :: "SafeModeController \<Rightarrow> safe_mode_call \<Rightarrow> SafeModeController" where
  "safe_mode_step c (Entry trigger now_ms) = fst (evaluate_entry c trigger now_ms)"
| "safe_mode_step c (Exit request now_ms) = fst (evaluate_exit c request now_ms)"

definition all_clear :: "SafeModeExitRequest \<Rightarrow> bool" where
  "all_clear r \<longleftrightarrow> ex_dependencies_healthy r \<and> ex_watchdog_healthy r \<and> ex_operator_cleared r \<and>
     ex_budget_restored r"

fun leaves_mode :: "safe_mode_call \<Rightarrow> bool" where
  "leaves_mode (Entry trigger now_ms) = False"
| "leaves_mode (Exit request now_ms) = all_clear request"

lemma evaluate_exit_mode:
  "current_mode (fst (evaluate_exit c request now_ms)) =
     (if all_clear request then Mode_Normal else current_mode c)"
  by (auto simp: evaluate_exit_def evaluate_exit_locked_def all_clear_def case_prod_unfold Let_def
      safe_mode_log_def)

interpretation abnormal: machine "\<lambda>c e. Some (safe_mode_step c e)"
  "\<lambda>c. current_mode c \<noteq> Mode_Normal" "\<lambda>e. \<not> leaves_mode e"
proof unfold_locales
  fix s :: SafeModeController and e t
  assume "current_mode s \<noteq> Mode_Normal" and "\<not> leaves_mode e" and "Some (safe_mode_step s e) = Some t"
  then show "current_mode t \<noteq> Mode_Normal"
    by (cases e) (auto simp: evaluate_entry_mode entry_target_abnormal evaluate_exit_mode)
qed simp

lemma run_machine_total: "run_machine (\<lambda>s e. Some (f s e)) s es = Some (foldl f s es)"
  by (induction es arbitrary: s) simp_all

text \<open>
  C38. Leaving a degraded or safe mode needs one exit request that reports healthy
  dependencies, a healthy watchdog, operator clearance and a restored budget all at once: a
  run of calls without such a request never ends in normal mode once the controller has left it.
\<close>

theorem safe_mode_exit_is_gated:
  assumes "current_mode c \<noteq> Mode_Normal" and "\<forall>e\<in>set calls. \<not> leaves_mode e"
  shows "current_mode (foldl safe_mode_step c calls) \<noteq> Mode_Normal"
  using abnormal.run_defined [OF assms] by (simp add: run_machine_total)

theorem safe_mode_exit_is_gated_witness:
  "current_mode (foldl safe_mode_step
     ((new_safe_mode_controller None)\<lparr>current_mode := Mode_SafeMode\<rparr>)
     [Exit \<lparr>ex_dependencies_healthy = True, ex_watchdog_healthy = True,
            ex_operator_cleared = False, ex_budget_restored = True, ex_detail = []\<rparr> 3]) \<noteq> Mode_Normal"
  by (rule safe_mode_exit_is_gated) (simp_all add: all_clear_def)

end
