(* ===== verification/Event_Bus.thy ===== *)
theory Event_Bus
  imports Runtime_Types
begin

text \<open>
  The runtime event bus (\<^verbatim>\<open>runtime/src/telemetry/RuntimeEventBus.{h,cpp}\<close>): a bounded
  queue for ordinary events, unbounded for audit events, with subscriptions. A subscriber's
  handler is client code that runs outside the lock and may call the bus again, so the model
  is parametric in \<open>react\<close>, which gives the calls a handler makes on an event. A handler is
  named by a number. The \<^verbatim>\<open>size_t\<close> counts are naturals (the queue never outgrows memory);
  the 64-bit sequence, subscription and drop counters wrap.

  The depth counter is redundant; \<open>bus_inv\<close> says it is the number of ordinary events pending.
\<close>

section \<open>Types\<close>

datatype RuntimeEventCategory =
    Category_Transition | Category_BudgetReject | Category_RecoveryReject | Category_SafeMode
  | Category_Health | Category_Maintenance | Category_Audit

datatype RuntimeEventSeverity = Severity_Debug | Severity_Info | Severity_Warning | Severity_Error

record RuntimeEventContext =
  ec_request_id :: "string option"
  ec_session_id :: "string option"
  ec_trace_id :: "string option"
  ec_turn_id :: "string option"
  ec_checkpoint_id :: "string option"

record RuntimeEventAttribute =
  attribute_key :: string
  attribute_value :: string

definition attribute_has_required_fields :: "RuntimeEventAttribute \<Rightarrow> bool" where
  "attribute_has_required_fields a \<longleftrightarrow> \<not> empty_string (attribute_key a)"

record RuntimeEventEnvelope =
  event_sequence :: u64
  event_category :: RuntimeEventCategory
  event_severity :: RuntimeEventSeverity
  event_name :: string
  event_detail :: string
  event_context :: RuntimeEventContext
  event_error_code :: "RuntimeErrorCode option"
  event_attributes :: "RuntimeEventAttribute list"
  event_audit :: bool
  timestamp_ms :: int

definition event_has_minimum_fields :: "RuntimeEventEnvelope \<Rightarrow> bool" where
  "event_has_minimum_fields e \<longleftrightarrow> \<not> empty_string (event_name e)"

record RuntimeEventSubscription =
  subscription_id :: u64
  event_name_filter :: string
  audit_only :: bool

definition subscription_is_valid :: "RuntimeEventSubscription \<Rightarrow> bool" where
  "subscription_is_valid s \<longleftrightarrow> subscription_id s \<noteq> 0"

record RuntimeEventPublishResult =
  pub_accepted :: bool
  dropped_oldest :: bool
  pub_dropped_count :: u64
  pub_queue_depth :: nat

record SubscriptionEntry =
  entry_subscription :: RuntimeEventSubscription
  handler :: nat

record RuntimeEventBus =
  max_non_audit_queue_depth :: nat
  pending_events :: "RuntimeEventEnvelope list"
  subscriptions :: "SubscriptionEntry list"
  next_event_sequence :: u64
  next_subscription_id :: u64
  dropped_count :: u64
  non_audit_queue_depth :: nat

definition new_event_bus :: "nat \<Rightarrow> RuntimeEventBus" where
  "new_event_bus depth =
     \<lparr>max_non_audit_queue_depth = depth, pending_events = [], subscriptions = [],
      next_event_sequence = 1, next_subscription_id = 1, dropped_count = 0,
      non_audit_queue_depth = 0\<rparr>"

section \<open>Operations\<close>

definition subscribe ::
  "RuntimeEventBus \<Rightarrow> string \<Rightarrow> nat \<Rightarrow> bool \<Rightarrow> RuntimeEventBus \<times> RuntimeEventSubscription"
where
  "subscribe bus name_filter h only_audit =
     (let subscription = \<lparr>subscription_id = next_subscription_id bus,
                          event_name_filter = name_filter, audit_only = only_audit\<rparr>
      in (bus\<lparr>next_subscription_id := next_subscription_id bus + 1,
              subscriptions := subscriptions bus @
                [\<lparr>entry_subscription = subscription, handler = h\<rparr>]\<rparr>,
          subscription))"

definition unsubscribe :: "RuntimeEventBus \<Rightarrow> u64 \<Rightarrow> RuntimeEventBus \<times> bool" where
  "unsubscribe bus i =
     (let rest = filter (\<lambda>entry. subscription_id (entry_subscription entry) \<noteq> i) (subscriptions bus)
      in (bus\<lparr>subscriptions := rest\<rparr>, length rest \<noteq> length (subscriptions bus)))"

definition evict_oldest_non_audit :: "RuntimeEventBus \<Rightarrow> RuntimeEventBus \<times> bool" where
  "evict_oldest_non_audit bus =
     (case extract_first (\<lambda>e. \<not> event_audit e) (pending_events bus) of
        None \<Rightarrow> (bus, False)
      | Some (_, rest) \<Rightarrow>
          (bus\<lparr>pending_events := rest, non_audit_queue_depth := non_audit_queue_depth bus - 1\<rparr>, True))"

definition publish ::
  "RuntimeEventBus \<Rightarrow> RuntimeEventEnvelope \<Rightarrow> int \<Rightarrow> RuntimeEventBus \<times> RuntimeEventPublishResult"
where
  "publish bus event now_ms =
     (if \<not> event_has_minimum_fields event then
        (bus, \<lparr>pub_accepted = False, dropped_oldest = False, pub_dropped_count = dropped_count bus,
               pub_queue_depth = length (pending_events bus)\<rparr>)
      else
        (let event = (if timestamp_ms event \<le> 0 then event\<lparr>timestamp_ms := now_ms\<rparr> else event)
         in if \<not> event_audit event \<and> max_non_audit_queue_depth bus = 0 then
              (bus, \<lparr>pub_accepted = False, dropped_oldest = False,
                     pub_dropped_count = dropped_count bus,
                     pub_queue_depth = length (pending_events bus)\<rparr>)
            else
              (let (bus1, dropped) =
                     (if \<not> event_audit event \<and>
                         non_audit_queue_depth bus \<ge> max_non_audit_queue_depth bus
                      then evict_oldest_non_audit bus else (bus, False));
                   bus2 = (if dropped then bus1\<lparr>dropped_count := dropped_count bus1 + 1\<rparr> else bus1);
                   event2 = event\<lparr>event_sequence := next_event_sequence bus2\<rparr>;
                   bus3 = bus2\<lparr>next_event_sequence := next_event_sequence bus2 + 1,
                               pending_events := pending_events bus2 @ [event2],
                               non_audit_queue_depth :=
                                 (if event_audit event2 then non_audit_queue_depth bus2
                                  else non_audit_queue_depth bus2 + 1)\<rparr>
               in (bus3, \<lparr>pub_accepted = True, dropped_oldest = dropped,
                          pub_dropped_count = dropped_count bus3,
                          pub_queue_depth = length (pending_events bus3)\<rparr>))))"

definition matches :: "SubscriptionEntry \<Rightarrow> RuntimeEventEnvelope \<Rightarrow> bool" where
  "matches entry event =
     (if audit_only (entry_subscription entry) \<and> \<not> event_audit event then False
      else if \<not> empty_string (event_name_filter (entry_subscription entry)) \<and>
              event_name_filter (entry_subscription entry) \<noteq> event_name event then False
      else True)"

definition drop_count :: "RuntimeEventBus \<Rightarrow> u64" where
  "drop_count bus = dropped_count bus"

definition queue_depth :: "RuntimeEventBus \<Rightarrow> nat" where
  "queue_depth bus = length (pending_events bus)"

definition pending_snapshot :: "RuntimeEventBus \<Rightarrow> RuntimeEventEnvelope list" where
  "pending_snapshot bus = pending_events bus"

text \<open>The calls a handler may make on the bus while it runs.\<close>

datatype bus_call =
    Publish RuntimeEventEnvelope int | Subscribe string nat bool | Unsubscribe u64

fun bus_step :: "RuntimeEventBus \<Rightarrow> bus_call \<Rightarrow> RuntimeEventBus" where
  "bus_step bus (Publish event now_ms) = fst (publish bus event now_ms)"
| "bus_step bus (Subscribe name_filter h only_audit) = fst (subscribe bus name_filter h only_audit)"
| "bus_step bus (Unsubscribe i) = fst (unsubscribe bus i)"

text \<open>
  One event is taken under the lock together with a copy of the subscriptions; the matching
  handlers then run in order, each seeing the bus the previous ones left.
\<close>

fun deliver ::
  "(nat \<Rightarrow> RuntimeEventEnvelope \<Rightarrow> bus_call list) \<Rightarrow> SubscriptionEntry list \<Rightarrow> RuntimeEventEnvelope \<Rightarrow>
   RuntimeEventBus \<Rightarrow> RuntimeEventBus \<times> (nat \<times> RuntimeEventEnvelope) list"
where
  "deliver react [] event bus = (bus, [])"
| "deliver react (subscriber # subscribers) event bus =
     (if matches subscriber event then
        (let bus1 = foldl bus_step bus (react (handler subscriber) event);
             (bus2, calls) = deliver react subscribers event bus1
         in (bus2, (handler subscriber, event) # calls))
      else deliver react subscribers event bus)"

text \<open>The result is the new bus, the number of events dispatched and the handler invocations.\<close>

fun dispatch_pending ::
  "(nat \<Rightarrow> RuntimeEventEnvelope \<Rightarrow> bus_call list) \<Rightarrow> nat \<Rightarrow> RuntimeEventBus \<Rightarrow>
   RuntimeEventBus \<times> nat \<times> (nat \<times> RuntimeEventEnvelope) list"
where
  "dispatch_pending react 0 bus = (bus, 0, [])"
| "dispatch_pending react (Suc max_events) bus =
     (case pending_events bus of
        [] \<Rightarrow> (bus, 0, [])
      | event # rest \<Rightarrow>
          (let bus1 = bus\<lparr>pending_events := rest,
                          non_audit_queue_depth :=
                            (if \<not> event_audit event \<and> non_audit_queue_depth bus > 0
                             then non_audit_queue_depth bus - 1 else non_audit_queue_depth bus)\<rparr>;
               (bus2, calls) = deliver react (subscriptions bus1) event bus1;
               (bus3, n, more) = dispatch_pending react max_events bus2
           in (bus3, Suc n, calls @ more)))"

section \<open>Invariant\<close>

definition audits :: "RuntimeEventBus \<Rightarrow> RuntimeEventEnvelope list" where
  "audits bus = filter event_audit (pending_events bus)"

definition ordinary :: "RuntimeEventBus \<Rightarrow> RuntimeEventEnvelope list" where
  "ordinary bus = filter (\<lambda>e. \<not> event_audit e) (pending_events bus)"

definition bus_inv :: "RuntimeEventBus \<Rightarrow> bool" where
  "bus_inv bus \<longleftrightarrow>
     non_audit_queue_depth bus = length (ordinary bus) \<and>
     length (ordinary bus) \<le> max_non_audit_queue_depth bus"

lemma filter_extract_first:
  assumes "extract_first P xs = Some (y, ys)"
  shows "filter P ys = tl (filter P xs) \<and> filter (\<lambda>x. \<not> P x) ys = filter (\<lambda>x. \<not> P x) xs \<and>
         filter P xs \<noteq> []"
proof -
  from extract_first_Some [OF assms] obtain as bs where
    "xs = as @ y # bs" "ys = as @ bs" "P y" "\<forall>a\<in>set as. \<not> P a" by blast
  then show ?thesis by (simp add: filter_empty_conv)
qed

lemma evict_oldest_effect:
  assumes "evict_oldest_non_audit bus = (bus', dropped)"
  shows "audits bus' = audits bus" and "ordinary bus' = tl (ordinary bus)"
    and "dropped \<longleftrightarrow> ordinary bus \<noteq> []"
    and "max_non_audit_queue_depth bus' = max_non_audit_queue_depth bus"
    and "next_event_sequence bus' = next_event_sequence bus"
    and "dropped_count bus' = dropped_count bus"
    and "bus_inv bus \<Longrightarrow> non_audit_queue_depth bus' = length (ordinary bus')"
proof -
  have "audits bus' = audits bus \<and> ordinary bus' = tl (ordinary bus) \<and>
        (dropped \<longleftrightarrow> ordinary bus \<noteq> []) \<and>
        (bus_inv bus \<longrightarrow> non_audit_queue_depth bus' = length (ordinary bus'))"
  proof (cases "extract_first (\<lambda>e. \<not> event_audit e) (pending_events bus)")
    case None
    then have "ordinary bus = []" by (simp add: extract_first_None ordinary_def filter_empty_conv)
    with None assms show ?thesis by (auto simp: evict_oldest_non_audit_def bus_inv_def)
  next
    case (Some x)
    obtain y rest where "x = (y, rest)" by (cases x)
    with Some filter_extract_first [of "\<lambda>e. \<not> event_audit e" "pending_events bus" y rest] assms
    show ?thesis
      by (auto simp: evict_oldest_non_audit_def audits_def ordinary_def bus_inv_def)
  qed
  then show "audits bus' = audits bus" "ordinary bus' = tl (ordinary bus)"
    "dropped \<longleftrightarrow> ordinary bus \<noteq> []"
    "bus_inv bus \<Longrightarrow> non_audit_queue_depth bus' = length (ordinary bus')" by blast+
  show "max_non_audit_queue_depth bus' = max_non_audit_queue_depth bus"
    "next_event_sequence bus' = next_event_sequence bus"
    "dropped_count bus' = dropped_count bus"
    using assms by (auto simp: evict_oldest_non_audit_def split: option.splits)
qed

definition stamped :: "RuntimeEventBus \<Rightarrow> RuntimeEventEnvelope \<Rightarrow> int \<Rightarrow> RuntimeEventEnvelope" where
  "stamped bus e now_ms =
     (if timestamp_ms e \<le> 0 then e\<lparr>timestamp_ms := now_ms\<rparr> else e)
       \<lparr>event_sequence := next_event_sequence bus\<rparr>"

definition refuses :: "RuntimeEventBus \<Rightarrow> RuntimeEventEnvelope \<Rightarrow> bool" where
  "refuses bus e \<longleftrightarrow>
     event_name e = [] \<or> \<not> event_audit e \<and> max_non_audit_queue_depth bus = 0"

definition full :: "RuntimeEventBus \<Rightarrow> bool" where
  "full bus \<longleftrightarrow> length (ordinary bus) \<ge> max_non_audit_queue_depth bus"

lemma stamped_audit [simp]: "event_audit (stamped bus e now_ms) = event_audit e"
  by (simp add: stamped_def)

lemma publish_refused: "refuses bus e \<Longrightarrow> fst (publish bus e now_ms) = bus \<and>
    \<not> pub_accepted (snd (publish bus e now_ms))"
  by (auto simp: refuses_def publish_def event_has_minimum_fields_def Let_def)

lemma publish_audit:
  assumes "\<not> refuses bus e" and "event_audit e"
  shows "publish bus e now_ms =
    (let bus' = bus\<lparr>next_event_sequence := next_event_sequence bus + 1,
                   pending_events := pending_events bus @ [stamped bus e now_ms]\<rparr>
     in (bus', \<lparr>pub_accepted = True, dropped_oldest = False, pub_dropped_count = dropped_count bus',
                pub_queue_depth = length (pending_events bus')\<rparr>))"
  using assms
  by (auto simp: refuses_def publish_def event_has_minimum_fields_def Let_def stamped_def)

lemma publish_ordinary:
  assumes "bus_inv bus" and "\<not> refuses bus e" and "\<not> event_audit e"
  shows "publish bus e now_ms =
    (let bus1 = (if full bus then fst (evict_oldest_non_audit bus)\<lparr>dropped_count := dropped_count bus + 1\<rparr>
                 else bus);
         bus' = bus1\<lparr>next_event_sequence := next_event_sequence bus + 1,
                     pending_events := pending_events bus1 @ [stamped bus e now_ms],
                     non_audit_queue_depth := non_audit_queue_depth bus1 + 1\<rparr>
     in (bus', \<lparr>pub_accepted = True, dropped_oldest = full bus, pub_dropped_count = dropped_count bus',
                pub_queue_depth = length (pending_events bus')\<rparr>))"
proof (cases "full bus")
  case True
  obtain bus1 dropped where ev: "evict_oldest_non_audit bus = (bus1, dropped)" by fastforce
  have "ordinary bus \<noteq> []" using True assms(2,3) by (auto simp: full_def refuses_def)
  then have "dropped" using evict_oldest_effect(3) [OF ev] by simp
  with True ev evict_oldest_effect(5,6) [OF ev] assms show ?thesis
    by (auto simp: refuses_def publish_def event_has_minimum_fields_def Let_def stamped_def
        full_def bus_inv_def)
next
  case False
  with assms show ?thesis
    by (auto simp: refuses_def publish_def event_has_minimum_fields_def Let_def stamped_def
        full_def bus_inv_def)
qed

lemma publish_effect:
  assumes inv: "bus_inv bus" and acc: "\<not> refuses bus e" and p: "publish bus e now_ms = (bus', r)"
  shows "bus_inv bus'" and "pub_accepted r"
    and "audits bus' = audits bus @ (if event_audit e then [stamped bus e now_ms] else [])"
    and "ordinary bus' =
           (if event_audit e then ordinary bus
            else (if full bus then tl (ordinary bus) else ordinary bus) @ [stamped bus e now_ms])"
    and "dropped_oldest r \<longleftrightarrow> \<not> event_audit e \<and> full bus"
    and "dropped_count bus' = dropped_count bus + (if dropped_oldest r then 1 else 0)"
    and "last (pending_events bus') = stamped bus e now_ms"
    and "next_event_sequence bus' = next_event_sequence bus + 1"
    and "max_non_audit_queue_depth bus' = max_non_audit_queue_depth bus"
proof -
  obtain bus1 dropped where ev: "evict_oldest_non_audit bus = (bus1, dropped)" by fastforce
  note eff = evict_oldest_effect [OF ev]
  have "bus_inv bus' \<and> pub_accepted r \<and>
    audits bus' = audits bus @ (if event_audit e then [stamped bus e now_ms] else []) \<and>
    ordinary bus' =
           (if event_audit e then ordinary bus
            else (if full bus then tl (ordinary bus) else ordinary bus) @ [stamped bus e now_ms]) \<and>
    (dropped_oldest r \<longleftrightarrow> \<not> event_audit e \<and> full bus) \<and>
    dropped_count bus' = dropped_count bus + (if dropped_oldest r then 1 else 0) \<and>
    last (pending_events bus') = stamped bus e now_ms \<and>
    next_event_sequence bus' = next_event_sequence bus + 1 \<and>
    max_non_audit_queue_depth bus' = max_non_audit_queue_depth bus"
  proof (cases "event_audit e")
    case True
    with p publish_audit [OF acc True, of now_ms] inv show ?thesis
      by (auto simp: Let_def audits_def ordinary_def bus_inv_def)
  next
    case False
    have pos: "0 < max_non_audit_queue_depth bus" using acc False by (simp add: refuses_def)
    show ?thesis
    proof (cases "full bus")
      case True
      then have len: "length (ordinary bus) = max_non_audit_queue_depth bus"
        using inv by (simp add: full_def bus_inv_def)
      have a: "audits (bus1\<lparr>dropped_count := d, next_event_sequence := n,
          pending_events := pending_events bus1 @ [x], non_audit_queue_depth := k\<rparr>)
            = audits bus1 @ (if event_audit x then [x] else [])" for d n x k
        by (simp add: audits_def)
      have o: "ordinary (bus1\<lparr>dropped_count := d, next_event_sequence := n,
          pending_events := pending_events bus1 @ [x], non_audit_queue_depth := k\<rparr>)
            = ordinary bus1 @ (if event_audit x then [] else [x])" for d n x k
        by (simp add: ordinary_def)
      from p publish_ordinary [OF inv acc False, of now_ms] True ev
      have b: "bus' = bus1\<lparr>dropped_count := dropped_count bus + 1,
            next_event_sequence := next_event_sequence bus + 1,
            pending_events := pending_events bus1 @ [stamped bus e now_ms],
            non_audit_queue_depth := non_audit_queue_depth bus1 + 1\<rparr>"
        and r: "pub_accepted r" "dropped_oldest r"
        by (auto simp: Let_def)
      show ?thesis
        using b r True False eff inv len pos
        by (simp add: a o bus_inv_def)
    next
      case nf: False
      with p publish_ordinary [OF inv acc False, of now_ms] inv False show ?thesis
        by (auto simp: Let_def audits_def ordinary_def bus_inv_def full_def)
    qed
  qed
  then show "bus_inv bus'" "pub_accepted r"
    "audits bus' = audits bus @ (if event_audit e then [stamped bus e now_ms] else [])"
    "ordinary bus' =
           (if event_audit e then ordinary bus
            else (if full bus then tl (ordinary bus) else ordinary bus) @ [stamped bus e now_ms])"
    "dropped_oldest r \<longleftrightarrow> \<not> event_audit e \<and> full bus"
    "dropped_count bus' = dropped_count bus + (if dropped_oldest r then 1 else 0)"
    "last (pending_events bus') = stamped bus e now_ms"
    "next_event_sequence bus' = next_event_sequence bus + 1"
    "max_non_audit_queue_depth bus' = max_non_audit_queue_depth bus" by blast+
qed


definition sample_event :: "string \<Rightarrow> bool \<Rightarrow> RuntimeEventEnvelope" where
  "sample_event n a = \<lparr>event_sequence = 0, event_category = Category_Health,
     event_severity = Severity_Info, event_name = n, event_detail = [],
     event_context = \<lparr>ec_request_id = None, ec_session_id = None, ec_trace_id = None,
                      ec_turn_id = None, ec_checkpoint_id = None\<rparr>,
     event_error_code = None, event_attributes = [], event_audit = a, timestamp_ms = 5\<rparr>"


section \<open>Order of publication\<close>

text \<open>
  The sequence numbers of the pending events are those of a strictly increasing list of
  publication positions, read modulo the width of the counter.
\<close>

definition bus_ordered :: "RuntimeEventBus \<Rightarrow> bool" where
  "bus_ordered bus \<longleftrightarrow>
     (\<exists>ns n. sorted_wrt (<) ns \<and> (\<forall>k\<in>set ns. k < n) \<and>
        map event_sequence (pending_events bus) = map of_nat ns \<and>
        next_event_sequence bus = of_nat n)"

lemma bus_ordered_remove:
  assumes "bus_ordered bus" and "pending_events bus = as @ y # bs"
  shows "bus_ordered (bus\<lparr>pending_events := as @ bs, non_audit_queue_depth := k\<rparr>)"
proof -
  from assms obtain ns n where ns: "sorted_wrt (<) ns" "\<forall>k\<in>set ns. k < n"
    "map event_sequence (as @ y # bs) = map of_nat ns" "next_event_sequence bus = of_nat n"
    by (auto simp: bus_ordered_def simp del: map_append)
  then obtain ms m ks where split: "ns = ms @ m # ks" "map event_sequence as = map of_nat ms"
    "map event_sequence bs = map of_nat ks"
    using ns(3) [symmetric] by (auto simp: map_eq_append_conv map_eq_Cons_conv)
  from ns have "sorted_wrt (<) (ms @ ks) \<and> (\<forall>k\<in>set (ms @ ks). k < n) \<and>
      map event_sequence (as @ bs) = map of_nat (ms @ ks) \<and> next_event_sequence bus = of_nat n"
    by (auto simp: split sorted_wrt_append)
  then show ?thesis
    unfolding bus_ordered_def by (intro exI [of _ "ms @ ks"] exI [of _ n]) simp
qed

lemma bus_ordered_append:
  assumes "bus_ordered bus" and "event_sequence e = next_event_sequence bus"
  shows "bus_ordered (bus\<lparr>next_event_sequence := next_event_sequence bus + 1,
           pending_events := pending_events bus @ [e], non_audit_queue_depth := k\<rparr>)"
proof -
  from assms(1) obtain ns n where "sorted_wrt (<) ns" "\<forall>k\<in>set ns. k < n"
    "map event_sequence (pending_events bus) = map of_nat ns" "next_event_sequence bus = of_nat n"
    by (auto simp: bus_ordered_def)
  with assms(2) have "sorted_wrt (<) (ns @ [n]) \<and> (\<forall>k\<in>set (ns @ [n]). k < Suc n) \<and>
      map event_sequence (pending_events bus @ [e]) = map of_nat (ns @ [n]) \<and>
      next_event_sequence bus + 1 = of_nat (Suc n)"
    by (auto simp: sorted_wrt_append less_SucI)
  then show ?thesis
    unfolding bus_ordered_def by (intro exI [of _ "ns @ [n]"] exI [of _ "Suc n"]) simp
qed

lemma evict_ordered:
  "bus_ordered bus \<Longrightarrow> bus_ordered (fst (evict_oldest_non_audit bus))"
  by (auto simp: evict_oldest_non_audit_def split: option.split dest!: extract_first_Some
      intro: bus_ordered_remove)

lemma bus_ordered_frame [simp]:
  "bus_ordered (bus\<lparr>dropped_count := d\<rparr>) = bus_ordered bus"
  "bus_ordered (bus\<lparr>subscriptions := ss\<rparr>) = bus_ordered bus"
  "bus_ordered (bus\<lparr>next_subscription_id := i\<rparr>) = bus_ordered bus"
  by (simp_all add: bus_ordered_def)

lemma publish_ordered:
  assumes "bus_inv bus" and "bus_ordered bus"
  shows "bus_ordered (fst (publish bus e now_ms))"
proof (cases "refuses bus e")
  case True
  with publish_refused [OF True] assms show ?thesis by simp
next
  case acc: False
  have seq: "event_sequence (stamped bus e now_ms) = next_event_sequence bus"
    by (simp add: stamped_def)
  show ?thesis
  proof (cases "event_audit e")
    case True
    have "non_audit_queue_depth bus = non_audit_queue_depth bus" ..
    with publish_audit [OF acc True, of now_ms]
      bus_ordered_append [OF assms(2) seq, of "non_audit_queue_depth bus"] show ?thesis
      by (simp add: Let_def)
  next
    case False
    let ?bus1 = "if full bus then fst (evict_oldest_non_audit bus)\<lparr>dropped_count := dropped_count bus + 1\<rparr>
                 else bus"
    have o: "bus_ordered ?bus1" using assms(2) evict_ordered by auto
    obtain b d where ev: "evict_oldest_non_audit bus = (b, d)" by fastforce
    have "next_event_sequence ?bus1 = next_event_sequence bus"
      using evict_oldest_effect(5) [OF ev] by (simp add: ev)
    with bus_ordered_append [OF o, of "stamped bus e now_ms" "non_audit_queue_depth ?bus1 + 1"] seq
    show ?thesis
      by (simp only: publish_ordinary [OF assms(1) acc False] Let_def fst_conv)
  qed
qed

section \<open>Runs of calls and dispatches\<close>

definition bus_at :: "nat \<Rightarrow> RuntimeEventBus \<Rightarrow> bool" where
  "bus_at d bus \<longleftrightarrow> bus_inv bus \<and> bus_ordered bus \<and> max_non_audit_queue_depth bus = d"

lemma bus_step_at: "bus_at d bus \<Longrightarrow> bus_at d (bus_step bus call)"
proof (cases call)
  case (Publish e now_ms)
  assume at: "bus_at d bus"
  obtain bus' r where p: "publish bus e now_ms = (bus', r)" by fastforce
  show ?thesis
  proof (cases "refuses bus e")
    case True
    with publish_refused [OF True, of now_ms] at Publish show ?thesis by simp
  next
    case False
    with publish_effect(1,9) [OF _ False p] publish_ordered [of bus e now_ms] at Publish p
    show ?thesis by (simp add: bus_at_def)
  qed
next
  case (Subscribe f h a)
  assume "bus_at d bus"
  with Subscribe show ?thesis
    by (simp add: bus_at_def bus_inv_def ordinary_def subscribe_def Let_def)
next
  case (Unsubscribe i)
  assume "bus_at d bus"
  with Unsubscribe show ?thesis
    by (simp add: bus_at_def bus_inv_def ordinary_def unsubscribe_def Let_def)
qed

interpretation calls: total_machine bus_step "bus_at d" for d
  by unfold_locales (rule bus_step_at)

lemma deliver_at: "bus_at d bus \<Longrightarrow> bus_at d (fst (deliver react subscribers event bus))"
proof (induction subscribers arbitrary: bus)
  case Nil
  then show ?case by simp
next
  case (Cons s subscribers)
  show ?case
  proof (cases "matches s event")
    case True
    with Cons calls.fold_invariant [OF Cons.prems, of "react (handler s) event"] show ?thesis
      by (simp add: Let_def case_prod_unfold)
  next
    case False
    with Cons show ?thesis by simp
  qed
qed

lemma take_event_at:
  assumes "bus_at d bus" and "pending_events bus = event # rest"
  shows "bus_at d (bus\<lparr>pending_events := rest, non_audit_queue_depth :=
           (if \<not> event_audit event \<and> non_audit_queue_depth bus > 0
            then non_audit_queue_depth bus - 1 else non_audit_queue_depth bus)\<rparr>)"
proof -
  have "bus_ordered (bus\<lparr>pending_events := [] @ rest, non_audit_queue_depth := k\<rparr>)" for k
    using assms by (intro bus_ordered_remove) (auto simp: bus_at_def)
  then show ?thesis
    using assms by (auto simp: bus_at_def bus_inv_def ordinary_def)
qed

lemma dispatch_at: "bus_at d bus \<Longrightarrow> bus_at d (fst (dispatch_pending react n bus))"
proof (induction n arbitrary: bus)
  case 0
  then show ?case by simp
next
  case (Suc n)
  show ?case
  proof (cases "pending_events bus")
    case Nil
    with Suc.prems show ?thesis by simp
  next
    case (Cons event rest)
    note at = deliver_at [OF take_event_at [OF Suc.prems Cons]]
    show ?thesis
      using Suc.IH [OF at] Cons by (simp add: Let_def case_prod_unfold)
  qed
qed

datatype bus_op = Call bus_call | Dispatch nat

fun bus_op_step ::
  "(nat \<Rightarrow> RuntimeEventEnvelope \<Rightarrow> bus_call list) \<Rightarrow> RuntimeEventBus \<Rightarrow> bus_op \<Rightarrow> RuntimeEventBus"
where
  "bus_op_step react bus (Call call) = bus_step bus call"
| "bus_op_step react bus (Dispatch n) = fst (dispatch_pending react n bus)"

interpretation bus_ops: total_machine "bus_op_step react" "bus_at d" for react d
proof unfold_locales
  fix s e
  assume "bus_at d s"
  then show "bus_at d (bus_op_step react s e)"
    by (cases e) (simp_all add: bus_step_at dispatch_at)
qed


lemma deliver_quiet:
  "deliver (\<lambda>_ _. []) subscribers event bus =
     (bus, map (\<lambda>s. (handler s, event)) (filter (\<lambda>s. matches s event) subscribers))"
  by (induction subscribers) simp_all

text \<open>
  With handlers that do not call back, dispatching at most \<open>n\<close> events takes the first
  \<open>n\<close> pending events in order and hands each, once, to every matching subscriber in order of
  subscription; the others stay pending.
\<close>

theorem dispatch_in_order:
  "case dispatch_pending (\<lambda>_ _. []) n bus of (bus', count, calls) \<Rightarrow>
     count = min n (length (pending_events bus)) \<and>
     pending_events bus' = drop n (pending_events bus) \<and>
     calls = concat (map (\<lambda>e. map (\<lambda>s. (handler s, e))
                              (filter (\<lambda>s. matches s e) (subscriptions bus)))
                       (take n (pending_events bus))) \<and>
     subscriptions bus' = subscriptions bus"
proof (induction n arbitrary: bus)
  case 0
  then show ?case by simp
next
  case (Suc n)
  show ?case
  proof (cases "pending_events bus")
    case Nil
    then show ?thesis by simp
  next
    case (Cons event rest)
    let ?bus1 = "bus\<lparr>pending_events := rest, non_audit_queue_depth :=
            (if \<not> event_audit event \<and> non_audit_queue_depth bus > 0
             then non_audit_queue_depth bus - 1 else non_audit_queue_depth bus)\<rparr>"
    show ?thesis
      using Suc.IH [of ?bus1] Cons
      by (simp add: Let_def case_prod_unfold deliver_quiet)
  qed
qed

end
