(* ===== verification/Durable_Codec.thy ===== *)
theory Durable_Codec
  imports Decimal Contract_Guards
begin

text \<open>
  The durable record format that \<^verbatim>\<open>CheckpointManager.cpp\<close> and \<^verbatim>\<open>SessionManager.cpp\<close>
  share (each has its own copy of these functions): lines \<^verbatim>\<open>key=value\<close>, strings in
  hexadecimal, integers in decimal, in a file that is written beside its final name and then
  renamed. The \<^verbatim>\<open>std::stoul\<close> family is modelled for a 64-bit \<^verbatim>\<open>unsigned long\<close>.

  The file system is a map from paths to contents. What the operating system does in one
  call (a directory that cannot be created, a file that cannot be opened or renamed, a device
  that takes only the first bytes) is the record \<open>Io\<close>, an argument of the operations.

  \<open>field_codec\<close> is the interface between the record formats and the field encodings: a value
  that was encoded decodes to itself, and its text has no line break. It is interpreted for
  hexadecimal strings and for the three integer widths.
\<close>

section \<open>Hexadecimal strings\<close>

definition kHexDigits :: string where
  "kHexDigits = ''0123456789abcdef''"

definition hex_encode :: "string \<Rightarrow> string" where
  "hex_encode v = concat (map (\<lambda>ch. let n = of_char ch :: nat in
                                  [kHexDigits ! (n div 16), kHexDigits ! (n mod 16)]) v)"

definition hex_value :: "char \<Rightarrow> nat option" where
  "hex_value ch =
     (let n = of_char ch :: nat
      in if 48 \<le> n \<and> n \<le> 57 then Some (n - 48)
         else if 97 \<le> n \<and> n \<le> 102 then Some (10 + (n - 97))
         else if 65 \<le> n \<and> n \<le> 70 then Some (10 + (n - 65))
         else None)"

fun hex_decode_pairs :: "string \<Rightarrow> string option" where
  "hex_decode_pairs [] = Some []"
| "hex_decode_pairs [_] = None"
| "hex_decode_pairs (a # b # rest) =
     (case (hex_value a, hex_value b) of
        (Some high, Some low) \<Rightarrow> map_option ((#) (char_of (16 * high + low))) (hex_decode_pairs rest)
      | _ \<Rightarrow> None)"

definition hex_decode :: "string \<Rightarrow> string option" where
  "hex_decode v = (if odd (length v) then None else hex_decode_pairs v)"

lemma less_16_cases:
  "n < (16 :: nat) \<Longrightarrow> n \<in> {0, 1, 2, 3, 4, 5, 6, 7, 8, 9, 10, 11, 12, 13, 14, 15}"
  by (simp, presburger)

lemma hex_value_digit [simp]: "n < 16 \<Longrightarrow> hex_value (kHexDigits ! n) = Some n"
  by (drule less_16_cases) (auto simp: kHexDigits_def hex_value_def)

lemma hex_encode_simps [simp]:
  "hex_encode [] = []"
  "hex_encode (c # cs) =
     kHexDigits ! (of_char c div 16) # kHexDigits ! (of_char c mod 16) # hex_encode cs"
  by (simp_all add: hex_encode_def Let_def)

lemma of_char_div_16 [simp]: "(of_char c :: nat) div 16 < 16"
proof -
  have "(of_char c :: nat) < 256" by (rule nat_of_char_less_256)
  then show ?thesis using less_mult_imp_div_less [of "of_char c" 16 16] by simp
qed

lemma length_hex_encode [simp]: "length (hex_encode v) = 2 * length v"
  by (induction v) simp_all

lemma hex_decode_encode [simp]: "hex_decode (hex_encode v) = Some v"
proof -
  have "hex_decode_pairs (hex_encode v) = Some v" by (induction v) simp_all
  then show ?thesis by (simp add: hex_decode_def)
qed

lemma hex_encode_inj [simp]: "hex_encode v = hex_encode w \<longleftrightarrow> v = w"
  by (metis hex_decode_encode option.inject)

lemma hex_encode_digits: "c \<in> set (hex_encode v) \<Longrightarrow> c \<in> set kHexDigits"
proof (induction v)
  case Nil
  then show ?case by simp
next
  case (Cons d v)
  have "length kHexDigits = 16" by (simp add: kHexDigits_def)
  with Cons show ?case by (auto simp: nth_mem)
qed

section \<open>Integers\<close>

text \<open>
  \<^verbatim>\<open>strtoul\<close> and its relatives: leading white space, an optional sign, then digits; the
  rest is ignored. No digit is \<^verbatim>\<open>invalid_argument\<close>, a magnitude out of range is
  \<^verbatim>\<open>out_of_range\<close>; the code catches both. A negative unsigned value is negated modulo the
  width.
\<close>

definition scan_integer :: "string \<Rightarrow> (bool \<times> nat) option" where
  "scan_integer s =
     (let s1 = dropWhile isspace s;
          (negative, s2) = (case s1 of
                              c # r \<Rightarrow> if c = CHR ''-'' then (True, r)
                                       else if c = CHR ''+'' then (False, r) else (False, s1)
                            | [] \<Rightarrow> (False, []));
          ds = takeWhile (\<lambda>c. digit_value c \<noteq> None) s2
      in if ds = [] then None else map_option (Pair negative) (digits_value 0 ds))"

definition stoull :: "string \<Rightarrow> u64 option" where
  "stoull s =
     (case scan_integer s of
        None \<Rightarrow> None
      | Some (negative, n) \<Rightarrow>
          if n \<ge> 2 ^ 64 then None else Some (if negative then - of_nat n else of_nat n))"

definition stoul :: "string \<Rightarrow> u64 option" where
  "stoul s = stoull s"

definition stoll :: "string \<Rightarrow> int option" where
  "stoll s =
     (case scan_integer s of
        None \<Rightarrow> None
      | Some (negative, n) \<Rightarrow>
          (let i = (if negative then - int n else int n) in if is_i64 i then Some i else None))"

text \<open>The three instances of the template \<^verbatim>\<open>decode_optional_integer_field\<close>.\<close>

definition decode_u32 :: "string \<Rightarrow> u32 option" where
  "decode_u32 s = map_option ucast (stoul s)"

definition decode_u64 :: "string \<Rightarrow> u64 option" where
  "decode_u64 s = stoull s"

definition decode_i64 :: "string \<Rightarrow> int option" where
  "decode_i64 s = stoll s"

definition encode_u32 :: "u32 \<Rightarrow> string" where
  "encode_u32 w = to_string_nat (unat w)"

definition encode_u64 :: "u64 \<Rightarrow> string" where
  "encode_u64 w = to_string_nat (unat w)"

definition encode_int :: "int \<Rightarrow> string" where
  "encode_int i = to_string_int i"

lemma digit_not_space: "digit_value c \<noteq> None \<Longrightarrow> \<not> isspace c"
  by (auto simp: digit_value_def isspace_def Let_def split: if_splits)

lemma digit_not_sign: "digit_value c \<noteq> None \<Longrightarrow> c \<noteq> CHR ''-'' \<and> c \<noteq> CHR ''+''"
  by (auto simp: digit_value_def Let_def split: if_splits)

lemma takeWhile_digits: "takeWhile (\<lambda>c. digit_value c \<noteq> None) (to_string_nat n) = to_string_nat n"
  using to_string_nat_digits by (simp add: takeWhile_eq_all_conv)

lemma scan_integer_nat [simp]: "scan_integer (to_string_nat n) = Some (False, n)"
proof -
  obtain c r where cr: "to_string_nat n = c # r"
    using to_string_nat_nonempty [of n] by (cases "to_string_nat n") simp_all
  then have "digit_value c \<noteq> None" using to_string_nat_digits [of c n] by simp
  then have "\<not> isspace c" "c \<noteq> CHR ''-''" "c \<noteq> CHR ''+''"
    using digit_not_space digit_not_sign by blast+
  then show ?thesis
    using cr takeWhile_digits [of n] digits_value_to_string [of n]
    by (simp add: scan_integer_def Let_def del: not_None_eq)
qed

lemma scan_integer_neg [simp]: "scan_integer (CHR ''-'' # to_string_nat n) = Some (True, n)"
proof -
  have "\<not> isspace (CHR ''-'')" by (simp add: isspace_def)
  then show ?thesis
    by (simp add: scan_integer_def Let_def takeWhile_digits del: not_None_eq)
qed

lemma unat_u32_less: "unat (w :: u32) < 2 ^ 32"
  using unsigned_less [of w] by simp

lemma unat_u64_less: "unat (w :: u64) < 2 ^ 64"
  using unsigned_less [of w] by simp

lemma decode_encode_u64: "decode_u64 (encode_u64 w) = Some w"
  using unat_u64_less [of w]
  by (simp add: decode_u64_def encode_u64_def stoull_def)

lemma decode_encode_u32: "decode_u32 (encode_u32 w) = Some w"
proof -
  have "unat w < 2 ^ 64" using unat_u32_less [of w] by simp
  moreover have "(ucast (of_nat (unat w) :: u64) :: u32) = w"
    by (simp add: ucast_up_ucast_id is_up)
  ultimately show ?thesis
    by (simp add: decode_u32_def encode_u32_def stoul_def stoull_def)
qed

lemma decode_encode_i64: "is_i64 i \<Longrightarrow> decode_i64 (encode_int i) = Some i"
  by (auto simp: decode_i64_def encode_int_def stoll_def to_string_int_def)

section \<open>Lines\<close>

definition newline :: char where
  "newline = CHR 0x0A"

text \<open>Successive \<^verbatim>\<open>std::getline\<close> calls: a final piece without a line break counts if non-empty.\<close>

fun getlines :: "string \<Rightarrow> string \<Rightarrow> string list" where
  "getlines line [] = (if line = [] then [] else [rev line])"
| "getlines line (c # cs) =
     (if c = newline then rev line # getlines [] cs else getlines (c # line) cs)"

fun split_key_value :: "string \<Rightarrow> (string \<times> string) option" where
  "split_key_value [] = None"
| "split_key_value (c # cs) =
     (if c = CHR ''='' then Some ([], cs)
      else map_option (\<lambda>(k, v). (c # k, v)) (split_key_value cs))"

text \<open>\<^verbatim>\<open>emplace\<close> keeps the first value of a key.\<close>

fun parse_lines :: "(string \<rightharpoonup> string) \<Rightarrow> string list \<Rightarrow> (string \<rightharpoonup> string) option" where
  "parse_lines table [] = Some table"
| "parse_lines table (line # lines) =
     (if line = [] then parse_lines table lines
      else (case split_key_value line of
              None \<Rightarrow> None
            | Some (k, v) \<Rightarrow>
                parse_lines (if table k \<noteq> None then table else table(k \<mapsto> v)) lines))"

definition parse_key_value_file :: "string \<Rightarrow> string \<Rightarrow> string + (string \<rightharpoonup> string)" where
  "parse_key_value_file what content =
     (case parse_lines Map.empty (getlines [] content) of
        None \<Rightarrow> Inl (''durable '' @ what @ '' record contains an invalid key-value line'')
      | Some table \<Rightarrow> Inr table)"

definition write_field :: "string \<Rightarrow> string \<times> string \<Rightarrow> string" where
  "write_field output kv = output @ fst kv @ ''='' @ snd kv @ [newline]"

definition write_fields :: "(string \<times> string) list \<Rightarrow> string" where
  "write_fields kvs = foldl write_field [] kvs"

definition key_ok :: "string \<Rightarrow> bool" where
  "key_ok k \<longleftrightarrow> CHR ''='' \<notin> set k \<and> newline \<notin> set k"

lemma getlines_piece:
  "newline \<notin> set xs \<Longrightarrow> getlines acc (xs @ newline # rest) = (rev acc @ xs) # getlines [] rest"
  by (induction xs arbitrary: acc) auto

lemma split_key_value_line:
  "CHR ''='' \<notin> set k \<Longrightarrow> split_key_value (k @ CHR ''='' # v) = Some (k, v)"
  by (induction k) auto

lemma write_fields_eq: "write_fields kvs = concat (map (\<lambda>(k, v). k @ ''='' @ v @ [newline]) kvs)"
proof -
  have "foldl write_field out kvs = out @ concat (map (\<lambda>(k, v). k @ ''='' @ v @ [newline]) kvs)"
    for out by (induction kvs arbitrary: out) (auto simp: write_field_def)
  then show ?thesis by (simp add: write_fields_def)
qed

lemma newline_not_eq [simp]: "newline \<noteq> CHR ''=''"
  by (simp add: newline_def)

lemma parse_written_lines:
  assumes "\<forall>(k, v)\<in>set kvs. key_ok k \<and> newline \<notin> set v"
  shows "parse_lines table (getlines [] (concat (map (\<lambda>(k, v). k @ ''='' @ v @ [newline]) kvs))) =
           Some (map_of kvs ++ table)"
  using assms
proof (induction kvs arbitrary: table)
  case Nil
  then show ?case by simp
next
  case (Cons kv kvs)
  obtain k v where kv: "kv = (k, v)" by (cases kv)
  with Cons.prems have ok: "CHR ''='' \<notin> set k" "newline \<notin> set (k @ CHR ''='' # v)"
    by (auto simp: key_ok_def)
  have line: "getlines [] ((k @ CHR ''='' # v) @ newline # rest) =
      (k @ CHR ''='' # v) # getlines [] rest" for rest
    using getlines_piece [OF ok(2), of "[]"] by simp
  have "map_of kvs ++ (if table k \<noteq> None then table else table(k \<mapsto> v)) =
        map_of (kv # kvs) ++ table"
    by (auto simp: kv map_add_def fun_eq_iff split: option.splits)
  with Cons line [of "concat (map (\<lambda>(k, v). k @ ''='' @ v @ [newline]) kvs)"] ok(1)
  show ?case by (simp add: kv split_key_value_line del: map_of.simps)
qed

lemma parse_write_fields:
  assumes "\<forall>(k, v)\<in>set kvs. key_ok k \<and> newline \<notin> set v"
  shows "parse_key_value_file what (write_fields kvs) = Inr (map_of kvs)"
  using parse_written_lines [OF assms, of Map.empty]
  by (simp add: parse_key_value_file_def write_fields_eq)

section \<open>Field codecs\<close>

text \<open>
  What a record format relies on: the text of a value decodes to the value, and contains no
  line break.
\<close>

locale field_codec =
  fixes enc :: "'a \<Rightarrow> string"
    and dec :: "string \<Rightarrow> 'a option"
    and valid :: "'a \<Rightarrow> bool"
  assumes round_trip: "valid x \<Longrightarrow> dec (enc x) = Some x"
    and no_newline: "newline \<notin> set (enc x)"
begin

lemma lookup_round_trip:
  "m k = Some (enc x) \<Longrightarrow> valid x \<Longrightarrow> map_option dec (m k) = Some (Some x)"
  by (simp add: round_trip)

lemma optional_text_clean: "v = Some w \<Longrightarrow> newline \<notin> set (enc w)"
  by (rule no_newline)

end

lemma newline_not_digit [simp]: "digit_value newline = None"
  by (simp add: newline_def digit_value_def)

lemma newline_to_string_nat [simp]: "newline \<notin> set (to_string_nat n)"
  using to_string_nat_digits [of newline n] by auto

lemma newline_to_string_int [simp]: "newline \<notin> set (to_string_int i)"
  by (auto simp: to_string_int_def newline_def [symmetric]) (simp add: newline_def)

lemma newline_hex_encode [simp]: "newline \<notin> set (hex_encode v)"
  using hex_encode_digits [of newline v] by (auto simp: kHexDigits_def newline_def)

lemma newline_encode [simp]:
  "newline \<notin> set (encode_u32 w)" "newline \<notin> set (encode_u64 x)" "newline \<notin> set (encode_int i)"
  by (simp_all add: encode_u32_def encode_u64_def encode_int_def)

interpretation hex: field_codec hex_encode hex_decode "\<lambda>_. True"
  by unfold_locales simp_all

interpretation int32: field_codec encode_u32 decode_u32 "\<lambda>_. True"
  by unfold_locales (simp_all add: decode_encode_u32)

interpretation int64: field_codec encode_u64 decode_u64 "\<lambda>_. True"
  by unfold_locales (simp_all add: decode_encode_u64)

interpretation signed64: field_codec encode_int decode_i64 is_i64
  by unfold_locales (simp_all add: decode_encode_i64)

section \<open>Decoding fields\<close>

text \<open>
  A decoding function writes through a reference and reports failure with a detail text:
  here a sum, the detail on the left. \<open>what\<close> is the word that names the record in the texts.
\<close>

definition and_then :: "string + 'a \<Rightarrow> ('a \<Rightarrow> string + 'b) \<Rightarrow> string + 'b" where
  "and_then r f = (case r of Inl e \<Rightarrow> Inl e | Inr v \<Rightarrow> f v)"

lemma and_then_simps [simp]:
  "and_then (Inl e) f = Inl e"
  "and_then (Inr v) f = f v"
  by (simp_all add: and_then_def)

definition missing_detail :: "string \<Rightarrow> string \<Rightarrow> string" where
  "missing_detail what k = ''durable '' @ what @ '' record is missing '' @ k"

definition decode_required_string_field ::
  "string \<Rightarrow> (string \<rightharpoonup> string) \<Rightarrow> string \<Rightarrow> string + string"
where
  "decode_required_string_field what table k =
     (case table k of
        None \<Rightarrow> Inl (missing_detail what k)
      | Some v \<Rightarrow>
          (case hex_decode v of
             None \<Rightarrow> Inl (''durable '' @ what @ '' record could not decode '' @ k)
           | Some decoded \<Rightarrow> Inr decoded))"

definition decode_optional_string_field ::
  "string \<Rightarrow> (string \<rightharpoonup> string) \<Rightarrow> string \<Rightarrow> string + string option"
where
  "decode_optional_string_field what table k =
     (case table k of
        None \<Rightarrow> Inr None
      | Some v \<Rightarrow>
          (case hex_decode v of
             None \<Rightarrow> Inl (''durable '' @ what @ '' record could not decode '' @ k)
           | Some decoded \<Rightarrow> Inr (Some decoded)))"

definition decode_optional_integer_field ::
  "(string \<Rightarrow> 'a option) \<Rightarrow> string \<Rightarrow> (string \<rightharpoonup> string) \<Rightarrow> string \<Rightarrow> string + 'a option"
where
  "decode_optional_integer_field dec what table k =
     (case table k of
        None \<Rightarrow> Inr None
      | Some v \<Rightarrow>
          (case dec v of
             None \<Rightarrow> Inl (''durable '' @ what @ '' record has an invalid integer for '' @ k)
           | Some i \<Rightarrow> Inr (Some i)))"

definition decode_required_integer_field ::
  "(string \<Rightarrow> 'a option) \<Rightarrow> string \<Rightarrow> (string \<rightharpoonup> string) \<Rightarrow> string \<Rightarrow> string + 'a"
where
  "decode_required_integer_field dec what table k =
     and_then (decode_optional_integer_field dec what table k)
       (\<lambda>decoded. case decoded of
                    None \<Rightarrow> Inl (missing_detail what k)
                  | Some i \<Rightarrow> Inr i)"

lemma decode_written [simp]:
  "table k = Some (hex_encode v) \<Longrightarrow> decode_required_string_field what table k = Inr v"
  "table k = map_option hex_encode ov \<Longrightarrow> decode_optional_string_field what table k = Inr ov"
  "table k = Some (encode_u32 w) \<Longrightarrow> decode_required_integer_field decode_u32 what table k = Inr w"
  "table k = map_option encode_u32 ow \<Longrightarrow>
     decode_optional_integer_field decode_u32 what table k = Inr ow"
  "table k = Some (encode_u64 x) \<Longrightarrow> decode_required_integer_field decode_u64 what table k = Inr x"
  "table k = map_option encode_u64 ox \<Longrightarrow>
     decode_optional_integer_field decode_u64 what table k = Inr ox"
  by (auto simp: decode_required_string_field_def decode_optional_string_field_def
      decode_optional_integer_field_def decode_required_integer_field_def hex.round_trip
      int32.round_trip int64.round_trip split: option.split)

lemma decode_written_i64 [simp]:
  "table k = Some (encode_int i) \<Longrightarrow> is_i64 i \<Longrightarrow>
     decode_required_integer_field decode_i64 what table k = Inr i"
  "table k = map_option encode_int oi \<Longrightarrow> (\<And>i. oi = Some i \<Longrightarrow> is_i64 i) \<Longrightarrow>
     decode_optional_integer_field decode_i64 what table k = Inr oi"
  by (auto simp: decode_optional_integer_field_def decode_required_integer_field_def
      signed64.round_trip split: option.split)

section \<open>Writing fields\<close>

definition optional_encoded_field :: "string \<Rightarrow> string option \<Rightarrow> (string \<times> string) list" where
  "optional_encoded_field k v = (case v of None \<Rightarrow> [] | Some s \<Rightarrow> [(k, hex_encode s)])"

definition optional_integer_field ::
  "('a \<Rightarrow> string) \<Rightarrow> string \<Rightarrow> 'a option \<Rightarrow> (string \<times> string) list"
where
  "optional_integer_field enc k v = (case v of None \<Rightarrow> [] | Some i \<Rightarrow> [(k, enc i)])"

lemma map_of_optional [simp]:
  "map_of (optional_encoded_field k v @ xs) k' =
     (if k' = k \<and> v \<noteq> None then map_option hex_encode v else map_of xs k')"
  "map_of (optional_integer_field enc k w @ xs) k' =
     (if k' = k \<and> w \<noteq> None then map_option enc w else map_of xs k')"
  by (auto simp: optional_encoded_field_def optional_integer_field_def split: option.split)

lemma optional_field_clean [simp]:
  "(\<forall>(k', t)\<in>set (optional_encoded_field k v). key_ok k' \<and> newline \<notin> set t) \<longleftrightarrow>
     v = None \<or> key_ok k"
  by (cases v) (simp_all add: optional_encoded_field_def)

section \<open>Fields that parse back\<close>

lemma key_ok_to_string [simp]: "key_ok (to_string_nat i)"
proof -
  have "digit_value (CHR ''='') = None" by (simp add: digit_value_def)
  then show ?thesis using to_string_nat_digits [of "CHR ''=''" i] by (auto simp: key_ok_def)
qed

lemma key_ok_append [simp]: "key_ok (x @ y) \<longleftrightarrow> key_ok x \<and> key_ok y"
  by (auto simp: key_ok_def)

lemma key_ok_Cons [simp]: "key_ok (c # y) \<longleftrightarrow> c \<noteq> CHR ''='' \<and> c \<noteq> newline \<and> key_ok y"
  by (auto simp: key_ok_def)

lemma key_ok_Nil [simp]: "key_ok []"
  by (simp add: key_ok_def)

lemma char_newline [simp]: "(CHR 0x0A = c) = (c = newline)" "(c = CHR 0x0A) = (c = newline)"
  by (auto simp: newline_def)

definition clean_fields :: "(string \<times> string) list \<Rightarrow> bool" where
  "clean_fields kvs \<longleftrightarrow> (\<forall>(k, v)\<in>set kvs. key_ok k \<and> newline \<notin> set v)"

lemma clean_fields_simps [simp]:
  "clean_fields []"
  "clean_fields ((k, v) # kvs) \<longleftrightarrow> key_ok k \<and> newline \<notin> set v \<and> clean_fields kvs"
  "clean_fields (xs @ ys) \<longleftrightarrow> clean_fields xs \<and> clean_fields ys"
  "clean_fields (optional_encoded_field k ov) \<longleftrightarrow> ov = None \<or> key_ok k"
  by (cases ov; auto simp: clean_fields_def optional_encoded_field_def)+

lemma clean_optional_integer [simp]:
  "clean_fields (optional_integer_field encode_u32 k ow) \<longleftrightarrow> ow = None \<or> key_ok k"
  "clean_fields (optional_integer_field encode_u64 k ox) \<longleftrightarrow> ox = None \<or> key_ok k"
  "clean_fields (optional_integer_field encode_int k oi) \<longleftrightarrow> oi = None \<or> key_ok k"
  by (cases ow; cases ox; cases oi; simp add: optional_integer_field_def)+

lemma clean_fields_map:
  "(\<And>j. key_ok (g j) \<and> newline \<notin> set (h j)) \<Longrightarrow> clean_fields (map (\<lambda>j. (g j, h j)) js)"
  by (auto simp: clean_fields_def)

lemma clean_fields_concat:
  "(\<And>j. clean_fields (g j)) \<Longrightarrow> clean_fields (concat (map g js))"
  by (induction js) auto

lemma literal_keys_ok:
  "newline \<notin> set (''abcdefghijklmnopqrstuvwxyz_.'')"
  by (simp add: newline_def)

lemma newline_literal [simp]:
  "newline \<noteq> CHR ''a''" "newline \<noteq> CHR ''b''" "newline \<noteq> CHR ''c''" "newline \<noteq> CHR ''d''"
  "newline \<noteq> CHR ''e''" "newline \<noteq> CHR ''f''" "newline \<noteq> CHR ''g''" "newline \<noteq> CHR ''h''"
  "newline \<noteq> CHR ''i''" "newline \<noteq> CHR ''j''" "newline \<noteq> CHR ''k''" "newline \<noteq> CHR ''l''"
  "newline \<noteq> CHR ''m''" "newline \<noteq> CHR ''n''" "newline \<noteq> CHR ''o''" "newline \<noteq> CHR ''p''"
  "newline \<noteq> CHR ''q''" "newline \<noteq> CHR ''r''" "newline \<noteq> CHR ''s''" "newline \<noteq> CHR ''t''"
  "newline \<noteq> CHR ''u''" "newline \<noteq> CHR ''v''" "newline \<noteq> CHR ''w''" "newline \<noteq> CHR ''x''"
  "newline \<noteq> CHR ''y''" "newline \<noteq> CHR ''z''" "newline \<noteq> CHR ''_''" "newline \<noteq> CHR ''.''"
  by (simp_all add: newline_def)

lemmas literal_newline [simp] = newline_literal [symmetric]

section \<open>Files\<close>

record FileSystem =
  fs_files :: "string \<rightharpoonup> string"

record Io =
  io_create_fails :: bool
  io_open_write_fails :: bool
  io_rename_fails :: bool
  io_open_read_fails :: bool
  io_room :: "nat option"

definition io_good :: Io where
  "io_good = \<lparr>io_create_fails = False, io_open_write_fails = False, io_rename_fails = False,
              io_open_read_fails = False, io_room = None\<rparr>"

text \<open>The bytes of a stream that reach the device; the code does not look at the stream's state.\<close>

definition written :: "Io \<Rightarrow> string \<Rightarrow> string" where
  "written io content = (case io_room io of None \<Rightarrow> content | Some n \<Rightarrow> take n content)"

definition join_path :: "string \<Rightarrow> string \<Rightarrow> string" where
  "join_path a b = (if a = [] \<or> last a = CHR ''/'' then a @ b else a @ ''/'' @ b)"

definition record_path :: "string \<Rightarrow> string \<Rightarrow> string \<Rightarrow> string" where
  "record_path directory base key =
     join_path (join_path base directory) (hex_encode key @ ''.kv'')"

text \<open>
  The common part of the two writers: create the directory, write the temporary file, rename
  it. A rename that fails removes the temporary file.
\<close>

definition publish_record ::
  "string \<Rightarrow> FileSystem \<Rightarrow> Io \<Rightarrow> string \<Rightarrow> string \<Rightarrow> FileSystem \<times> bool \<times> string"
where
  "publish_record what fs io path content =
     (if io_create_fails io then
        (fs, False, what @ '' durable store could not create state directories'')
      else if io_open_write_fails io then
        (fs, False, what @ '' durable store could not open the '' @ what @ '' record for writing'')
      else
        (let tmp = path @ ''.tmp'';
             fs1 = fs\<lparr>fs_files := (fs_files fs)(tmp \<mapsto> written io content)\<rparr>
         in if io_rename_fails io then
              (fs1\<lparr>fs_files := (fs_files fs1)(tmp := None)\<rparr>, False,
               what @ '' durable store could not atomically publish the '' @ what @ '' record'')
            else
              (fs1\<lparr>fs_files := (fs_files fs1)(path \<mapsto> written io content, tmp := None)\<rparr>, True,
               what @ '' persisted in durable store'')))"

lemma record_path_inj [simp]:
  "record_path d base k = record_path d base k' \<longleftrightarrow> k = k'"
  by (auto simp: record_path_def join_path_def)

text \<open>Record paths under several roots are still told apart by the key, and from temporaries.\<close>

lemma record_path_key:
  assumes "record_path d base k = record_path d base' k'" and "d \<noteq> []" and "last d \<noteq> CHR ''/''"
  shows "k = k'"
proof -
  have tail: "takeWhile (\<lambda>c. c \<noteq> CHR ''/'') (rev (record_path d b x)) =
      rev (hex_encode x @ ''.kv'')" for b x
  proof -
    have "CHR ''/'' \<notin> set (hex_encode x)"
      using hex_encode_digits [of "CHR ''/''" x] by (auto simp: kHexDigits_def)
    then have h: "takeWhile (\<lambda>c. c \<noteq> CHR ''/'') (rev (hex_encode x @ ''.kv'')) =
        rev (hex_encode x @ ''.kv'')"
      by (subst takeWhile_eq_all_conv) auto
    obtain p where p: "record_path d b x = p @ CHR ''/'' # hex_encode x @ ''.kv''"
      using assms(2,3) by (force simp: record_path_def join_path_def)
    have "takeWhile (\<lambda>c. c \<noteq> CHR ''/'') (rev (hex_encode x @ ''.kv'') @ CHR ''/'' # rev p) =
        takeWhile (\<lambda>c. c \<noteq> CHR ''/'') (rev (hex_encode x @ ''.kv''))"
      by (rule takeWhile_tail) simp
    with p h show ?thesis by simp
  qed
  from assms(1) tail [of base k] tail [of base' k'] show ?thesis by simp
qed

lemma record_path_not_tmp [simp]:
  "record_path d base k \<noteq> record_path d base' k' @ ''.tmp''"
proof
  assume "record_path d base k = record_path d base' k' @ ''.tmp''"
  then have "last (record_path d base k) = last (record_path d base' k' @ ''.tmp'')" by simp
  then show False by (simp add: record_path_def join_path_def split: if_splits)
qed

text \<open>A published record is found under its own path, and no other record changes.\<close>

lemma publish_record_good:
  "publish_record what fs io_good (record_path d base k) content = (fs', r, detail) \<Longrightarrow>
     r \<and> fs_files fs' (record_path d base k) = Some content"
  by (auto simp: publish_record_def io_good_def written_def Let_def)

lemma publish_record_other:
  "publish_record what fs io (record_path d base k) content = (fs', r, detail) \<Longrightarrow> k' \<noteq> k \<Longrightarrow>
     fs_files fs' (record_path d base k') = fs_files fs (record_path d base k')"
  by (auto simp: publish_record_def Let_def split: if_splits)

interpretation durable_records: keyed_store
  "\<lambda>fs k v. fst (publish_record what fs io_good (record_path d base k) v)"
  "\<lambda>fs k. fs_files fs (record_path d base k)" for what d base
proof unfold_locales
  fix fs k v
  show "fs_files (fst (publish_record what fs io_good (record_path d base k) v))
          (record_path d base k) = Some v"
    by (metis prod.collapse publish_record_good)
next
  fix k' k fs v
  assume "k' \<noteq> (k :: string)"
  then show "fs_files (fst (publish_record what fs io_good (record_path d base k) v))
          (record_path d base k') = fs_files fs (record_path d base k')"
    by (metis prod.collapse publish_record_other)
qed

end
