(* ===== verification/Session_Types.thy ===== *)
theory Session_Types
  imports Runtime_Types
begin

text \<open>
  The session objects of \<^verbatim>\<open>runtime/include/session/SessionTypes.h\<close>: pending interactions,
  session snapshots, resume seeds, and the requests and results of the session manager. The
  interaction kind is read back from a file by a cast, so it has a constructor for other
  values of its 8-bit type.
\<close>

datatype PendingInteractionKind =
    Interaction_None | Interaction_Clarify | Interaction_Confirm | Interaction_WaitExternal
  | Interaction_Raw u8

fun pending_interaction_kind_name :: "PendingInteractionKind \<Rightarrow> string" where
  "pending_interaction_kind_name Interaction_None = ''None''"
| "pending_interaction_kind_name Interaction_Clarify = ''Clarify''"
| "pending_interaction_kind_name Interaction_Confirm = ''Confirm''"
| "pending_interaction_kind_name Interaction_WaitExternal = ''WaitExternal''"
| "pending_interaction_kind_name (Interaction_Raw w) = ''Unknown''"

fun pending_interaction_kind_value :: "PendingInteractionKind \<Rightarrow> u8" where
  "pending_interaction_kind_value Interaction_None = 0"
| "pending_interaction_kind_value Interaction_Clarify = 1"
| "pending_interaction_kind_value Interaction_Confirm = 2"
| "pending_interaction_kind_value Interaction_WaitExternal = 3"
| "pending_interaction_kind_value (Interaction_Raw w) = w"

definition pending_interaction_kind_of_value :: "u8 \<Rightarrow> PendingInteractionKind" where
  "pending_interaction_kind_of_value w =
     (if w = 0 then Interaction_None else if w = 1 then Interaction_Clarify
      else if w = 2 then Interaction_Confirm else if w = 3 then Interaction_WaitExternal
      else Interaction_Raw w)"

fun pending_interaction_kind_wf :: "PendingInteractionKind \<Rightarrow> bool" where
  "pending_interaction_kind_wf (Interaction_Raw w) = (3 < w)"
| "pending_interaction_kind_wf _ = True"

lemma pending_interaction_kind_of_value_inverse [simp]:
  "pending_interaction_kind_wf k \<Longrightarrow>
     pending_interaction_kind_of_value (pending_interaction_kind_value k) = k"
  by (cases k) (auto simp: pending_interaction_kind_of_value_def)

record PendingInteractionState =
  interaction_kind :: PendingInteractionKind
  prompt_token :: string
  deadline_ms :: "int option"
  blocking_reason :: string
  resume_channel :: string
  input_schema_hint :: string

definition interaction_active :: "PendingInteractionState \<Rightarrow> bool" where
  "interaction_active i \<longleftrightarrow> interaction_kind i \<noteq> Interaction_None"

record SessionSnapshot =
  ss_session_id :: string
  ss_request_id :: string
  turn_index :: u32
  active_checkpoint_ref :: "string option"
  ss_fsm_state :: RuntimeState
  budget_snapshot_ref :: "string option"
  pending_interaction :: "PendingInteractionState option"
  last_result_summary :: "string option"

definition has_active_checkpoint :: "SessionSnapshot \<Rightarrow> bool" where
  "has_active_checkpoint s \<longleftrightarrow>
     active_checkpoint_ref s \<noteq> None \<and> \<not> empty_string (the (active_checkpoint_ref s))"

record ResumeSeed =
  seed_session_id :: string
  seed_request_id :: string
  seed_checkpoint_ref :: string
  seed_resume_token :: string
  seed_fsm_state :: RuntimeState
  seed_pending_interaction :: "PendingInteractionState option"
  seed_policy_snapshot_ref :: "string option"
  seed_resume_reason :: string

definition seed_has_minimum_requirements :: "ResumeSeed \<Rightarrow> bool" where
  "seed_has_minimum_requirements s \<longleftrightarrow>
     \<not> empty_string (seed_session_id s) \<and> \<not> empty_string (seed_request_id s) \<and>
     \<not> empty_string (seed_checkpoint_ref s) \<and> \<not> empty_string (seed_resume_token s) \<and>
     \<not> empty_string (seed_resume_reason s)"

record SessionLoadRequest =
  slr_session_id :: string
  slr_request_id :: string
  slr_checkpoint_ref :: "string option"
  slr_allow_session_create :: bool

definition load_has_minimum_requirements :: "SessionLoadRequest \<Rightarrow> bool" where
  "load_has_minimum_requirements r \<longleftrightarrow>
     \<not> empty_string (slr_session_id r) \<and> \<not> empty_string (slr_request_id r)"

record SessionLoadResult =
  sl_accepted :: bool
  sl_created_new_session :: bool
  sl_snapshot :: "SessionSnapshot option"
  sl_error_code :: "RuntimeErrorCode option"
  sl_detail :: string

record PrepareTurnRequest =
  pt_session_snapshot :: SessionSnapshot
  pt_resume_turn :: bool
  pt_expected_checkpoint_ref :: "string option"

record PrepareTurnResult =
  ptr_accepted :: bool
  ptr_effective_session :: "SessionSnapshot option"
  ptr_error_code :: "RuntimeErrorCode option"
  ptr_detail :: string

record SessionPersistRequest =
  pr_session_snapshot :: SessionSnapshot
  pr_terminal_state :: RuntimeState
  pr_checkpoint_ref :: "string option"
  pr_audit_summary :: "string option"
  pr_next_resume_seed_ref :: "string option"

definition persist_has_minimum_requirements :: "SessionPersistRequest \<Rightarrow> bool" where
  "persist_has_minimum_requirements r \<longleftrightarrow>
     \<not> empty_string (ss_session_id (pr_session_snapshot r)) \<and>
     \<not> empty_string (ss_request_id (pr_session_snapshot r))"

record SessionPersistResult =
  sp_persisted :: bool
  sp_active_checkpoint_ref :: "string option"
  sp_error_code :: "RuntimeErrorCode option"
  sp_detail :: string

record BindCheckpointRefRequest =
  bc_session_id :: string
  bc_request_id :: string
  bc_checkpoint_ref :: string
  bc_fsm_state :: RuntimeState
  bc_pending_interaction :: "PendingInteractionState option"

definition bind_has_minimum_requirements :: "BindCheckpointRefRequest \<Rightarrow> bool" where
  "bind_has_minimum_requirements r \<longleftrightarrow>
     \<not> empty_string (bc_session_id r) \<and> \<not> empty_string (bc_request_id r) \<and>
     \<not> empty_string (bc_checkpoint_ref r)"

record BuildResumeSeedRequest =
  br_session_snapshot :: SessionSnapshot
  br_checkpoint_ref :: string
  br_resume_token :: string
  br_resume_reason :: string
  br_policy_snapshot_ref :: "string option"

definition build_seed_has_minimum_requirements :: "BuildResumeSeedRequest \<Rightarrow> bool" where
  "build_seed_has_minimum_requirements r \<longleftrightarrow>
     \<not> empty_string (ss_session_id (br_session_snapshot r)) \<and>
     \<not> empty_string (ss_request_id (br_session_snapshot r)) \<and>
     \<not> empty_string (br_checkpoint_ref r) \<and> \<not> empty_string (br_resume_token r) \<and>
     \<not> empty_string (br_resume_reason r)"

record ResumeSeedResult =
  rs_resume_seed :: "ResumeSeed option"
  rs_error_code :: "RuntimeErrorCode option"
  rs_detail :: string

definition make_session_load_result :: "SessionSnapshot \<Rightarrow> bool \<Rightarrow> string \<Rightarrow> SessionLoadResult"
where [outcome_simps]:
  "make_session_load_result s created detail =
     \<lparr>sl_accepted = True, sl_created_new_session = created, sl_snapshot = Some s,
      sl_error_code = None, sl_detail = detail\<rparr>"

definition make_prepare_turn_result :: "SessionSnapshot \<Rightarrow> string \<Rightarrow> PrepareTurnResult"
where [outcome_simps]:
  "make_prepare_turn_result s detail =
     \<lparr>ptr_accepted = True, ptr_effective_session = Some s, ptr_error_code = None,
      ptr_detail = detail\<rparr>"

definition make_session_persist_result :: "string option \<Rightarrow> string \<Rightarrow> SessionPersistResult"
where [outcome_simps]:
  "make_session_persist_result cp_ref detail =
     \<lparr>sp_persisted = True, sp_active_checkpoint_ref = cp_ref, sp_error_code = None,
      sp_detail = detail\<rparr>"

definition make_resume_seed_result :: "ResumeSeed \<Rightarrow> string \<Rightarrow> ResumeSeedResult"
where [outcome_simps]:
  "make_resume_seed_result seed detail =
     \<lparr>rs_resume_seed = Some seed, rs_error_code = None, rs_detail = detail\<rparr>"

end
