(* ===== verification/Session_Record.thy ===== *)
theory Session_Record
  imports Durable_Codec Session_Types
begin

text \<open>
  The durable session record of \<^verbatim>\<open>runtime/src/session/SessionManager.cpp\<close>. The file has
  its own copies of the codec functions of \<^verbatim>\<open>CheckpointManager.cpp\<close>; they differ in the
  word \<^verbatim>\<open>session\<close> of the texts only, which the codec of this library takes as an argument.
\<close>

definition session_record_path :: "string \<Rightarrow> string \<Rightarrow> string" where
  "session_record_path base session_id = record_path ''sessions'' base session_id"

section \<open>Writing\<close>

definition pending_interaction_fields :: "PendingInteractionState \<Rightarrow> (string \<times> string) list" where
  "pending_interaction_fields i =
     [(''pending_interaction.kind'',
       encode_int (uint (pending_interaction_kind_value (interaction_kind i)))),
      (''pending_interaction.prompt_token'', hex_encode (prompt_token i))] @
     optional_integer_field encode_int ''pending_interaction.deadline_ms'' (deadline_ms i) @
     [(''pending_interaction.blocking_reason'', hex_encode (blocking_reason i)),
      (''pending_interaction.resume_channel'', hex_encode (resume_channel i)),
      (''pending_interaction.input_schema_hint'', hex_encode (input_schema_hint i))]"

definition session_fields :: "SessionSnapshot \<Rightarrow> (string \<times> string) list" where
  "session_fields s =
     [(''session_id'', hex_encode (ss_session_id s)), (''request_id'', hex_encode (ss_request_id s)),
      (''turn_index'', encode_u32 (turn_index s))] @
     optional_encoded_field ''active_checkpoint_ref'' (active_checkpoint_ref s) @
     [(''fsm_state'', encode_int (int (runtime_state_value (ss_fsm_state s))))] @
     optional_encoded_field ''budget_snapshot_ref'' (budget_snapshot_ref s) @
     optional_encoded_field ''last_result_summary'' (last_result_summary s) @
     [(''pending_interaction_present'', encode_int (if pending_interaction s \<noteq> None then 1 else 0))] @
     (case pending_interaction s of None \<Rightarrow> [] | Some i \<Rightarrow> pending_interaction_fields i)"

definition write_durable_session_record ::
  "FileSystem \<Rightarrow> Io \<Rightarrow> string \<Rightarrow> SessionSnapshot \<Rightarrow> FileSystem \<times> bool \<times> string"
where
  "write_durable_session_record fs io base s =
     publish_record ''session'' fs io (session_record_path base (ss_session_id s))
       (write_fields (session_fields s))"

section \<open>Reading\<close>

definition decode_pending_interaction ::
  "(string \<rightharpoonup> string) \<Rightarrow> string + PendingInteractionState"
where
  "decode_pending_interaction table =
     and_then (decode_required_integer_field decode_u32 ''session'' table ''pending_interaction.kind'')
       (\<lambda>raw_kind.
     and_then (decode_required_string_field ''session'' table ''pending_interaction.prompt_token'')
       (\<lambda>p.
     and_then (decode_optional_integer_field decode_i64 ''session'' table
                 ''pending_interaction.deadline_ms'') (\<lambda>d.
     and_then (decode_required_string_field ''session'' table ''pending_interaction.blocking_reason'')
       (\<lambda>b.
     and_then (decode_required_string_field ''session'' table ''pending_interaction.resume_channel'')
       (\<lambda>c.
     and_then (decode_required_string_field ''session'' table
                 ''pending_interaction.input_schema_hint'') (\<lambda>h.
       Inr \<lparr>interaction_kind = pending_interaction_kind_of_value (ucast raw_kind),
            prompt_token = p, deadline_ms = d, blocking_reason = b, resume_channel = c,
            input_schema_hint = h\<rparr>))))))"

definition decode_session_record :: "(string \<rightharpoonup> string) \<Rightarrow> string + SessionSnapshot" where
  "decode_session_record table =
     and_then (decode_required_string_field ''session'' table ''session_id'') (\<lambda>i.
     and_then (decode_required_string_field ''session'' table ''request_id'') (\<lambda>r.
     and_then (decode_required_integer_field decode_u32 ''session'' table ''turn_index'') (\<lambda>n.
     and_then (decode_optional_string_field ''session'' table ''active_checkpoint_ref'') (\<lambda>c.
     and_then (decode_optional_string_field ''session'' table ''budget_snapshot_ref'') (\<lambda>b.
     and_then (decode_optional_string_field ''session'' table ''last_result_summary'') (\<lambda>l.
     and_then (decode_required_integer_field decode_u32 ''session'' table ''fsm_state'')
       (\<lambda>raw_fsm_state.
     and_then (decode_required_integer_field decode_u32 ''session'' table
                 ''pending_interaction_present'') (\<lambda>present.
     and_then (if present = 1 then and_then (decode_pending_interaction table) (\<lambda>p. Inr (Some p))
               else Inr None) (\<lambda>interaction.
       Inr \<lparr>ss_session_id = i, ss_request_id = r, turn_index = n, active_checkpoint_ref = c,
            ss_fsm_state = runtime_state_of_value (unat raw_fsm_state), budget_snapshot_ref = b,
            pending_interaction = interaction, last_result_summary = l\<rparr>)))))))))"

text \<open>The detail of a success is the same for every record and is left out.\<close>

definition read_durable_session_record ::
  "FileSystem \<Rightarrow> Io \<Rightarrow> string \<Rightarrow> string \<Rightarrow> string + SessionSnapshot"
where
  "read_durable_session_record fs io base session_id =
     (case fs_files fs (session_record_path base session_id) of
        None \<Rightarrow> Inl ''session not found in durable store''
      | Some content \<Rightarrow>
          if io_open_read_fails io then
            Inl ''session durable store could not open the session record''
          else
            and_then (and_then (parse_key_value_file ''session'' content) decode_session_record) (\<lambda>s.
              if ss_session_id s \<noteq> session_id then
                Inl ''durable session record session_id does not match file anchor''
              else Inr s))"

section \<open>Round trip\<close>

text \<open>Values in the ranges of their C++ types.\<close>

definition session_fits :: "SessionSnapshot \<Rightarrow> bool" where
  "session_fits s \<longleftrightarrow>
     runtime_state_wf (ss_fsm_state s) \<and>
     (\<forall>i. pending_interaction s = Some i \<longrightarrow>
        pending_interaction_kind_wf (interaction_kind i) \<and>
        (\<forall>d. deadline_ms i = Some d \<longrightarrow> is_i64 d))"

lemma clean_session_fields: "clean_fields (session_fields s)"
  by (simp add: session_fields_def pending_interaction_fields_def split: option.split)

lemma session_lookup:
  fixes s
  defines "t \<equiv> map_of (session_fields s)"
  shows "t ''session_id'' = Some (hex_encode (ss_session_id s))"
    "t ''request_id'' = Some (hex_encode (ss_request_id s))"
    "t ''turn_index'' = Some (encode_u32 (turn_index s))"
    "t ''active_checkpoint_ref'' = map_option hex_encode (active_checkpoint_ref s)"
    "t ''fsm_state'' = Some (encode_int (int (runtime_state_value (ss_fsm_state s))))"
    "t ''budget_snapshot_ref'' = map_option hex_encode (budget_snapshot_ref s)"
    "t ''last_result_summary'' = map_option hex_encode (last_result_summary s)"
    "t ''pending_interaction_present'' =
       Some (encode_int (if pending_interaction s \<noteq> None then 1 else 0))"
  subgoal by (simp add: t_def session_fields_def)
  subgoal by (simp add: t_def session_fields_def)
  subgoal by (simp add: t_def session_fields_def)
  subgoal by (cases "active_checkpoint_ref s"; cases "pending_interaction s")
    (simp_all add: t_def session_fields_def pending_interaction_fields_def del: map_of_append)
  subgoal by (simp add: t_def session_fields_def del: map_of_append)
  subgoal by (cases "budget_snapshot_ref s"; cases "pending_interaction s")
    (simp_all add: t_def session_fields_def pending_interaction_fields_def del: map_of_append)
  subgoal by (cases "last_result_summary s"; cases "pending_interaction s")
    (simp_all add: t_def session_fields_def pending_interaction_fields_def del: map_of_append)
  subgoal by (simp add: t_def session_fields_def del: map_of_append)
  done

lemma interaction_lookup:
  fixes s
  defines "t \<equiv> map_of (session_fields s)"
  assumes "pending_interaction s = Some i"
  shows "t ''pending_interaction.kind'' =
           Some (encode_int (uint (pending_interaction_kind_value (interaction_kind i))))"
    "t ''pending_interaction.prompt_token'' = Some (hex_encode (prompt_token i))"
    "t ''pending_interaction.deadline_ms'' = map_option encode_int (deadline_ms i)"
    "t ''pending_interaction.blocking_reason'' = Some (hex_encode (blocking_reason i))"
    "t ''pending_interaction.resume_channel'' = Some (hex_encode (resume_channel i))"
    "t ''pending_interaction.input_schema_hint'' = Some (hex_encode (input_schema_hint i))"
  using assms(2)
  by (cases "deadline_ms i"; simp add: t_def session_fields_def pending_interaction_fields_def
      del: map_of_append)+

lemma unat_byte: "n < 256 \<Longrightarrow> unat (word_of_nat n :: u32) = n"
  by (simp add: unat_of_nat take_bit_nat_eq_self)

lemma decode_u32_small:
  assumes "0 \<le> i" and "i < 256"
  shows "decode_u32 (encode_int i) = Some (word_of_nat (nat i))"
proof -
  from assms have n: "nat i < 256" by simp
  have "encode_int i = encode_u32 (word_of_nat (nat i))"
    unfolding encode_int_def encode_u32_def to_string_int_def unat_byte [OF n] using assms(1) by simp
  then show ?thesis by (simp only: decode_encode_u32)
qed

lemma session_written:
  assumes "session_fits s"
  shows "decode_session_record (map_of (session_fields s)) = Inr s"
proof -
  let ?t = "map_of (session_fields s)"
  note look = session_lookup [of s]
  have fsm: "decode_required_integer_field decode_u32 ''session'' ?t ''fsm_state'' =
      Inr (word_of_nat (runtime_state_value (ss_fsm_state s)))"
    using runtime_state_value_byte [of "ss_fsm_state s"]
    by (simp add: decode_required_integer_field_def decode_optional_integer_field_def look(5)
        decode_u32_small)
  have u: "unat (word_of_nat (runtime_state_value (ss_fsm_state s)) :: u32) =
      runtime_state_value (ss_fsm_state s)"
    by (rule unat_byte) simp
  have present: "decode_required_integer_field decode_u32 ''session'' ?t ''pending_interaction_present'' =
      Inr (if pending_interaction s \<noteq> None then 1 else 0)"
    by (simp add: decode_required_integer_field_def decode_optional_integer_field_def look(8)
        decode_u32_small)
  have interaction: "(if (if pending_interaction s \<noteq> None then 1 else 0) = (1 :: u32)
        then and_then (decode_pending_interaction ?t) (\<lambda>p. Inr (Some p)) else Inr None) =
      Inr (pending_interaction s)"
  proof (cases "pending_interaction s")
    case None
    then show ?thesis by simp
  next
    case (Some i)
    let ?w = "pending_interaction_kind_value (interaction_kind i)"
    have k: "decode_required_integer_field decode_u32 ''session'' ?t ''pending_interaction.kind'' =
        Inr (word_of_nat (nat (uint ?w)))"
    proof -
      have "uint ?w < 2 ^ LENGTH(8)" by (rule uint_lt2p)
      then show ?thesis
        by (simp add: decode_required_integer_field_def decode_optional_integer_field_def
            interaction_lookup(1) [OF Some] decode_u32_small)
    qed
    have "ucast (word_of_nat (nat (uint ?w)) :: u32) = ?w"
      by (simp add: ucast_up_ucast_id is_up)
    moreover have "\<And>d. deadline_ms i = Some d \<Longrightarrow> is_i64 d"
      using assms Some by (simp add: session_fits_def)
    moreover have "pending_interaction_kind_wf (interaction_kind i)"
      using assms Some by (simp add: session_fits_def)
    ultimately show ?thesis
      using Some k interaction_lookup(2-) [OF Some] by (simp add: decode_pending_interaction_def)
  qed
  have "runtime_state_wf (ss_fsm_state s)" using assms by (simp add: session_fits_def)
  then show ?thesis
    unfolding decode_session_record_def fsm present and_then_simps interaction
    by (simp add: look u)
qed

lemma parse_session_fields:
  "parse_key_value_file what (write_fields (session_fields s)) = Inr (map_of (session_fields s))"
  using clean_session_fields [of s] by (intro parse_write_fields) (simp add: clean_fields_def)

lemma session_of_content:
  assumes "fs_files fs (session_record_path base i) = Some (write_fields (session_fields s))"
    and "session_fits s" and "ss_session_id s = i" and "\<not> io_open_read_fails io"
  shows "read_durable_session_record fs io base i = Inr s"
  using assms session_written [OF assms(2)]
  by (simp add: read_durable_session_record_def parse_session_fields)

text \<open>
  C22. A session written to the durable store is read back exactly as it was, whatever its
  texts contain, and no other session's record changes.
\<close>

theorem session_record_round_trip:
  assumes "session_fits s"
  shows "case write_durable_session_record fs io_good base s of (fs', stored, detail) \<Rightarrow>
           stored \<and>
           read_durable_session_record fs' io_good base (ss_session_id s) = Inr s \<and>
           (\<forall>j. j \<noteq> ss_session_id s \<longrightarrow> read_durable_session_record fs' io_good base j =
                                     read_durable_session_record fs io_good base j)"
proof -
  obtain fs' r detail where p: "publish_record ''session'' fs io_good
      (record_path ''sessions'' base (ss_session_id s)) (write_fields (session_fields s)) =
      (fs', r, detail)" by (metis prod_cases3)
  from publish_record_good [OF p] have r: r
    and f: "fs_files fs' (session_record_path base (ss_session_id s)) =
      Some (write_fields (session_fields s))"
    by (simp_all add: session_record_path_def)
  have "\<And>j. j \<noteq> ss_session_id s \<Longrightarrow>
      fs_files fs' (session_record_path base j) = fs_files fs (session_record_path base j)"
    using publish_record_other [OF p] by (simp add: session_record_path_def)
  with r session_of_content [OF f assms refl, of io_good] p show ?thesis
    by (simp add: write_durable_session_record_def session_record_path_def
        read_durable_session_record_def io_good_def)
qed

definition sample_session :: SessionSnapshot where
  "sample_session =
     \<lparr>ss_session_id = ''s=1'', ss_request_id = ''r'', turn_index = 7,
      active_checkpoint_ref = Some ''cp'', ss_fsm_state = WaitingConfirm,
      budget_snapshot_ref = None,
      pending_interaction = Some
        \<lparr>interaction_kind = Interaction_Confirm, prompt_token = ''t'', deadline_ms = Some 99,
         blocking_reason = ''ask'', resume_channel = [], input_schema_hint = []\<rparr>,
      last_result_summary = Some ''done''\<rparr>"

theorem session_record_round_trip_witness:
  "read_durable_session_record
     (fst (write_durable_session_record \<lparr>fs_files = Map.empty\<rparr> io_good ''/var'' sample_session))
     io_good ''/var'' ''s=1'' = Inr sample_session"
proof -
  have "session_fits sample_session"
    by (simp add: session_fits_def sample_session_def is_i64_def)
  from session_record_round_trip [OF this, where fs = "\<lparr>fs_files = Map.empty\<rparr>"
      and base = "''/var''"] show ?thesis
    by (auto simp: sample_session_def split: prod.splits)
qed

end
