(* ===== verification/Session_Manager.thy ===== *)
theory Session_Manager
  imports Session_Record Structured_Log
begin

text \<open>
  The session manager (\<^verbatim>\<open>runtime/src/session/SessionManager.cpp\<close>): a table of session
  snapshots in memory over an optional durable store, with the five operations of
  \<^verbatim>\<open>ISessionManager\<close>. A call holds the mutex for its change of state, so a call is one
  step. The file system and the outcome of its operations are arguments, as is the time of
  the log event.
\<close>

record SessionManager =
  stored_snapshots :: "string \<rightharpoonup> SessionSnapshot"
  ses_durable_state_root :: "string option"
  ses_logger :: logger
  ses_runtime_instance_id :: "string option"

definition new_session_manager :: SessionManager where
  "new_session_manager =
     \<lparr>stored_snapshots = Map.empty, ses_durable_state_root = None, ses_logger = None,
      ses_runtime_instance_id = None\<rparr>"

definition session_set_logger :: "SessionManager \<Rightarrow> logger \<Rightarrow> string option \<Rightarrow> SessionManager" where
  "session_set_logger m lg i = m\<lparr>ses_logger := lg, ses_runtime_instance_id := i\<rparr>"

definition session_set_durable_state_root :: "SessionManager \<Rightarrow> string option \<Rightarrow> SessionManager" where
  "session_set_durable_state_root m state_root =
     m\<lparr>ses_durable_state_root :=
         (if state_root \<noteq> None \<and> state_root \<noteq> Some [] then state_root else None)\<rparr>"

definition session_log_level :: "bool \<Rightarrow> LogLevel" where
  "session_log_level success = (if success then Level_Info else Level_Warn)"

definition session_log ::
  "SessionManager \<Rightarrow> bool \<Rightarrow> string \<Rightarrow> (attribute_map \<Rightarrow> attribute_map) list \<Rightarrow> int \<Rightarrow> SessionManager"
where
  "session_log m success event_name fs now_ms =
     m\<lparr>ses_logger := emit_runtime_log (ses_logger m) (session_log_level success) event_name
                       ''session_manager'' (ses_runtime_instance_id m)
                       (build_attrs fs Map.empty) now_ms\<rparr>"

definition pending_active :: "PendingInteractionState option \<Rightarrow> bool" where
  "pending_active p \<longleftrightarrow> (case p of None \<Rightarrow> False | Some i \<Rightarrow> interaction_active i)"

definition pending_kind_attrs ::
  "PendingInteractionState option \<Rightarrow> (attribute_map \<Rightarrow> attribute_map) list"
where
  "pending_kind_attrs p =
     (case p of None \<Rightarrow> []
      | Some i \<Rightarrow> [add_string_attr ''pending_interaction_kind''
                     (pending_interaction_kind_name (interaction_kind i))])"

text \<open>The write that follows a change of a session in memory.\<close>

definition persist_snapshot ::
  "SessionManager \<Rightarrow> FileSystem \<Rightarrow> Io \<Rightarrow> SessionSnapshot \<Rightarrow> string \<Rightarrow>
   FileSystem \<times> SessionPersistResult"
where
  "persist_snapshot m fs io s memory_detail =
     (case ses_durable_state_root m of
        None \<Rightarrow> (fs, make_session_persist_result (active_checkpoint_ref s) memory_detail)
      | Some state_root \<Rightarrow>
          (case write_durable_session_record fs io state_root s of
             (fs', stored, detail) \<Rightarrow>
               (fs', if \<not> stored then
                       \<lparr>sp_persisted = False, sp_active_checkpoint_ref = None,
                        sp_error_code = Some RT_E_401_SESSION_INCONSISTENT, sp_detail = detail\<rparr>
                     else make_session_persist_result (active_checkpoint_ref s) detail)))"

definition seed_session_for_test ::
  "SessionManager \<Rightarrow> FileSystem \<Rightarrow> Io \<Rightarrow> SessionSnapshot \<Rightarrow> SessionManager \<times> FileSystem"
where
  "seed_session_for_test m fs io s =
     (m\<lparr>stored_snapshots := (stored_snapshots m)(ss_session_id s \<mapsto> s)\<rparr>,
      (case ses_durable_state_root m of
         None \<Rightarrow> fs
       | Some state_root \<Rightarrow> fst (write_durable_session_record fs io state_root s)))"

section \<open>Loading a session\<close>

definition rejected_session_load :: "RuntimeErrorCode \<Rightarrow> string \<Rightarrow> SessionLoadResult" where
  "rejected_session_load code detail =
     \<lparr>sl_accepted = False, sl_created_new_session = False, sl_snapshot = None,
      sl_error_code = Some code, sl_detail = detail\<rparr>"

definition fill_from_durable ::
  "SessionManager \<Rightarrow> FileSystem \<Rightarrow> Io \<Rightarrow> string \<Rightarrow> SessionManager"
where
  "fill_from_durable m fs io session_id =
     (case ses_durable_state_root m of
        None \<Rightarrow> m
      | Some state_root \<Rightarrow>
          if stored_snapshots m session_id = None then
            (case read_durable_session_record fs io state_root session_id of
               Inl detail \<Rightarrow> m
             | Inr s \<Rightarrow> m\<lparr>stored_snapshots := (stored_snapshots m)(session_id \<mapsto> s)\<rparr>)
          else m)"

definition load_session_core ::
  "SessionManager \<Rightarrow> FileSystem \<Rightarrow> Io \<Rightarrow> SessionLoadRequest \<Rightarrow> SessionManager \<times> SessionLoadResult"
where
  "load_session_core m fs io request =
     (if \<not> load_has_minimum_requirements request then
        (m, rejected_session_load RT_E_400_SESSION_NOT_FOUND ''session_id and request_id are required'')
      else
        (let m' = fill_from_durable m fs io (slr_session_id request)
         in (m', (case stored_snapshots m' (slr_session_id request) of
                    Some s \<Rightarrow>
                      if slr_checkpoint_ref request \<noteq> None \<and>
                         active_checkpoint_ref s \<noteq> slr_checkpoint_ref request then
                        rejected_session_load RT_E_401_SESSION_INCONSISTENT
                          ''requested checkpoint_ref does not match active session anchor''
                      else
                        make_session_load_result s False
                          (if ses_durable_state_root m' \<noteq> None
                           then ''existing session loaded from durable store cache''
                           else ''existing session loaded from in-memory store'')
                  | None \<Rightarrow>
                      if \<not> slr_allow_session_create request then
                        rejected_session_load RT_E_400_SESSION_NOT_FOUND
                          ''session does not exist and creation is disabled''
                      else
                        make_session_load_result
                          \<lparr>ss_session_id = slr_session_id request,
                           ss_request_id = slr_request_id request, turn_index = 0,
                           active_checkpoint_ref = slr_checkpoint_ref request,
                           ss_fsm_state = Idle, budget_snapshot_ref = None,
                           pending_interaction = None, last_result_summary = None\<rparr>
                          True ''new session snapshot created for runtime-local store''))))"

definition load_session_attrs ::
  "SessionLoadRequest \<Rightarrow> SessionLoadResult \<Rightarrow> (attribute_map \<Rightarrow> attribute_map) list"
where
  "load_session_attrs request r =
     [add_string_attr ''operation'' ''load_session'',
      add_string_attr ''session_id'' (slr_session_id request),
      add_string_attr ''request_id'' (slr_request_id request),
      add_optional_string_attr ''requested_checkpoint_ref'' (slr_checkpoint_ref request),
      add_bool_attr ''allow_session_create'' (slr_allow_session_create request),
      add_bool_attr ''accepted'' (sl_accepted r),
      add_bool_attr ''created_new_session'' (sl_created_new_session r),
      add_bool_attr ''has_snapshot'' (sl_snapshot r \<noteq> None)] @
     (case sl_snapshot r of None \<Rightarrow> []
      | Some s \<Rightarrow>
          [add_string_attr ''fsm_state'' (runtime_state_name (ss_fsm_state s)),
           add_optional_string_attr ''active_checkpoint_ref'' (active_checkpoint_ref s),
           add_bool_attr ''pending_interaction_active'' (pending_active (pending_interaction s))] @
          pending_kind_attrs (pending_interaction s)) @
     error_code_attrs (sl_error_code r) @ [add_string_attr ''detail'' (sl_detail r)]"

definition load_session ::
  "SessionManager \<Rightarrow> FileSystem \<Rightarrow> Io \<Rightarrow> SessionLoadRequest \<Rightarrow> int \<Rightarrow>
   SessionManager \<times> SessionLoadResult"
where
  "load_session m fs io request now_ms =
     (let (m', r) = load_session_core m fs io request
      in (session_log m' (sl_accepted r) ''runtime.session.load'' (load_session_attrs request r) now_ms,
          r))"

section \<open>Preparing a turn\<close>

definition is_waiting_runtime_state :: "RuntimeState \<Rightarrow> bool" where
  "is_waiting_runtime_state s \<longleftrightarrow>
     s = WaitingClarify \<or> s = WaitingConfirm \<or> s = WaitingExternal"

definition prepare_turn_core :: "PrepareTurnRequest \<Rightarrow> PrepareTurnResult" where
  "prepare_turn_core request =
     (let s = pt_session_snapshot request
      in if pt_expected_checkpoint_ref request \<noteq> None \<and>
            active_checkpoint_ref s \<noteq> pt_expected_checkpoint_ref request then
           \<lparr>ptr_accepted = False, ptr_effective_session = None,
            ptr_error_code = Some RT_E_401_SESSION_INCONSISTENT,
            ptr_detail = ''prepare_turn expected checkpoint_ref does not match session snapshot''\<rparr>
         else if pending_active (pending_interaction s) \<and>
                 \<not> is_waiting_runtime_state (ss_fsm_state s) then
           \<lparr>ptr_accepted = False, ptr_effective_session = None,
            ptr_error_code = Some RT_E_401_SESSION_INCONSISTENT,
            ptr_detail = ''pending interaction requires a waiting-state session snapshot''\<rparr>
         else
           make_prepare_turn_result s
             (if pt_resume_turn request then ''resume turn prepared'' else ''fresh turn prepared''))"

definition prepare_turn_attrs ::
  "PrepareTurnRequest \<Rightarrow> PrepareTurnResult \<Rightarrow> (attribute_map \<Rightarrow> attribute_map) list"
where
  "prepare_turn_attrs request r =
     (let s = pt_session_snapshot request
      in [add_string_attr ''operation'' ''prepare_turn'',
          add_string_attr ''session_id'' (ss_session_id s),
          add_string_attr ''request_id'' (ss_request_id s),
          add_optional_string_attr ''expected_checkpoint_ref'' (pt_expected_checkpoint_ref request),
          add_optional_string_attr ''active_checkpoint_ref'' (active_checkpoint_ref s),
          add_string_attr ''fsm_state'' (runtime_state_name (ss_fsm_state s)),
          add_bool_attr ''resume_turn'' (pt_resume_turn request),
          add_bool_attr ''accepted'' (ptr_accepted r),
          add_bool_attr ''pending_interaction_active'' (pending_active (pending_interaction s))] @
         pending_kind_attrs (pending_interaction s) @
         error_code_attrs (ptr_error_code r) @ [add_string_attr ''detail'' (ptr_detail r)])"

definition prepare_turn ::
  "SessionManager \<Rightarrow> PrepareTurnRequest \<Rightarrow> int \<Rightarrow> SessionManager \<times> PrepareTurnResult"
where
  "prepare_turn m request now_ms =
     (let r = prepare_turn_core request
      in (session_log m (ptr_accepted r) ''runtime.session.prepare_turn''
            (prepare_turn_attrs request r) now_ms, r))"

section \<open>Persisting a turn\<close>

definition turn_snapshot :: "SessionPersistRequest \<Rightarrow> SessionSnapshot" where
  "turn_snapshot request =
     (let s = (pr_session_snapshot request)\<lparr>ss_fsm_state := pr_terminal_state request\<rparr>
      in if pr_checkpoint_ref request \<noteq> None
         then s\<lparr>active_checkpoint_ref := pr_checkpoint_ref request\<rparr> else s)"

definition persist_turn_core ::
  "SessionManager \<Rightarrow> FileSystem \<Rightarrow> Io \<Rightarrow> SessionPersistRequest \<Rightarrow>
   SessionManager \<times> FileSystem \<times> SessionPersistResult"
where
  "persist_turn_core m fs io request =
     (if \<not> persist_has_minimum_requirements request \<or> pr_terminal_state request = Idle then
        (m, fs, \<lparr>sp_persisted = False, sp_active_checkpoint_ref = None,
                 sp_error_code = Some RT_E_401_SESSION_INCONSISTENT,
                 sp_detail = ''persist_turn requires session identity and a non-idle terminal state''\<rparr>)
      else
        (let s = turn_snapshot request;
             m' = m\<lparr>stored_snapshots :=
                      (stored_snapshots m)(ss_session_id (pr_session_snapshot request) \<mapsto> s)\<rparr>;
             (fs', r) = persist_snapshot m' fs io s ''turn persisted in in-memory session store''
         in (m', fs', r)))"

definition persist_turn_attrs ::
  "SessionPersistRequest \<Rightarrow> SessionPersistResult \<Rightarrow> (attribute_map \<Rightarrow> attribute_map) list"
where
  "persist_turn_attrs request r =
     [add_string_attr ''operation'' ''persist_turn'',
      add_string_attr ''session_id'' (ss_session_id (pr_session_snapshot request)),
      add_string_attr ''request_id'' (ss_request_id (pr_session_snapshot request)),
      add_string_attr ''terminal_state'' (runtime_state_name (pr_terminal_state request)),
      add_optional_string_attr ''checkpoint_ref'' (pr_checkpoint_ref request),
      add_bool_attr ''persisted'' (sp_persisted r),
      add_optional_string_attr ''active_checkpoint_ref'' (sp_active_checkpoint_ref r),
      add_bool_attr ''pending_interaction_active''
        (pending_active (pending_interaction (pr_session_snapshot request)))] @
     error_code_attrs (sp_error_code r) @ [add_string_attr ''detail'' (sp_detail r)]"

definition persist_turn ::
  "SessionManager \<Rightarrow> FileSystem \<Rightarrow> Io \<Rightarrow> SessionPersistRequest \<Rightarrow> int \<Rightarrow>
   SessionManager \<times> FileSystem \<times> SessionPersistResult"
where
  "persist_turn m fs io request now_ms =
     (let (m', fs', r) = persist_turn_core m fs io request
      in (session_log m' (sp_persisted r) ''runtime.session.persist_turn''
            (persist_turn_attrs request r) now_ms, fs', r))"

section \<open>Binding a checkpoint\<close>

definition bound_snapshot :: "SessionSnapshot option \<Rightarrow> BindCheckpointRefRequest \<Rightarrow> SessionSnapshot" where
  "bound_snapshot existing request =
     (case existing of
        None \<Rightarrow>
          \<lparr>ss_session_id = bc_session_id request, ss_request_id = bc_request_id request,
           turn_index = 0, active_checkpoint_ref = Some (bc_checkpoint_ref request),
           ss_fsm_state = bc_fsm_state request, budget_snapshot_ref = None,
           pending_interaction = bc_pending_interaction request, last_result_summary = None\<rparr>
      | Some s \<Rightarrow>
          s\<lparr>ss_session_id := bc_session_id request, ss_request_id := bc_request_id request,
            active_checkpoint_ref := Some (bc_checkpoint_ref request),
            ss_fsm_state := bc_fsm_state request,
            pending_interaction := bc_pending_interaction request\<rparr>)"

definition bind_checkpoint_ref_core ::
  "SessionManager \<Rightarrow> FileSystem \<Rightarrow> Io \<Rightarrow> BindCheckpointRefRequest \<Rightarrow>
   SessionManager \<times> FileSystem \<times> SessionPersistResult"
where
  "bind_checkpoint_ref_core m fs io request =
     (if \<not> bind_has_minimum_requirements request then
        (m, fs, \<lparr>sp_persisted = False, sp_active_checkpoint_ref = None,
                 sp_error_code = Some RT_E_401_SESSION_INCONSISTENT,
                 sp_detail = ''bind_checkpoint_ref requires session_id, request_id and checkpoint_ref''\<rparr>)
      else
        (let s = bound_snapshot (stored_snapshots m (bc_session_id request)) request;
             m' = m\<lparr>stored_snapshots := (stored_snapshots m)(bc_session_id request \<mapsto> s)\<rparr>;
             (fs', r) = persist_snapshot m' fs io s ''checkpoint reference bound to in-memory session''
         in (m', fs', r)))"

definition bind_checkpoint_ref_attrs ::
  "BindCheckpointRefRequest \<Rightarrow> SessionPersistResult \<Rightarrow> (attribute_map \<Rightarrow> attribute_map) list"
where
  "bind_checkpoint_ref_attrs request r =
     [add_string_attr ''operation'' ''bind_checkpoint_ref'',
      add_string_attr ''session_id'' (bc_session_id request),
      add_string_attr ''request_id'' (bc_request_id request),
      add_string_attr ''checkpoint_ref'' (bc_checkpoint_ref request),
      add_string_attr ''fsm_state'' (runtime_state_name (bc_fsm_state request)),
      add_bool_attr ''persisted'' (sp_persisted r),
      add_bool_attr ''pending_interaction_active'' (pending_active (bc_pending_interaction request))] @
     pending_kind_attrs (bc_pending_interaction request) @
     error_code_attrs (sp_error_code r) @ [add_string_attr ''detail'' (sp_detail r)]"

definition bind_checkpoint_ref ::
  "SessionManager \<Rightarrow> FileSystem \<Rightarrow> Io \<Rightarrow> BindCheckpointRefRequest \<Rightarrow> int \<Rightarrow>
   SessionManager \<times> FileSystem \<times> SessionPersistResult"
where
  "bind_checkpoint_ref m fs io request now_ms =
     (let (m', fs', r) = bind_checkpoint_ref_core m fs io request
      in (session_log m' (sp_persisted r) ''runtime.session.bind_checkpoint_ref''
            (bind_checkpoint_ref_attrs request r) now_ms, fs', r))"

section \<open>Resume seeds\<close>

definition build_resume_seed_core :: "BuildResumeSeedRequest \<Rightarrow> ResumeSeedResult" where
  "build_resume_seed_core request =
     (let s = br_session_snapshot request
      in if \<not> build_seed_has_minimum_requirements request then
           \<lparr>rs_resume_seed = None, rs_error_code = Some RT_E_401_SESSION_INCONSISTENT,
            rs_detail = ''build_resume_seed requires session identity, checkpoint_ref and resume_reason''\<rparr>
         else if active_checkpoint_ref s \<noteq> None \<and>
                 active_checkpoint_ref s \<noteq> Some (br_checkpoint_ref request) then
           \<lparr>rs_resume_seed = None, rs_error_code = Some RT_E_401_SESSION_INCONSISTENT,
            rs_detail = ''resume seed checkpoint_ref must match active session anchor''\<rparr>
         else
           make_resume_seed_result
             \<lparr>seed_session_id = ss_session_id s, seed_request_id = ss_request_id s,
              seed_checkpoint_ref = br_checkpoint_ref request,
              seed_resume_token = br_resume_token request, seed_fsm_state = ss_fsm_state s,
              seed_pending_interaction = pending_interaction s,
              seed_policy_snapshot_ref = br_policy_snapshot_ref request,
              seed_resume_reason = br_resume_reason request\<rparr>
             ''resume seed built from in-memory session snapshot'')"

definition build_resume_seed_attrs ::
  "BuildResumeSeedRequest \<Rightarrow> ResumeSeedResult \<Rightarrow> (attribute_map \<Rightarrow> attribute_map) list"
where
  "build_resume_seed_attrs request r =
     (let s = br_session_snapshot request
      in [add_string_attr ''operation'' ''build_resume_seed'',
          add_string_attr ''session_id'' (ss_session_id s),
          add_string_attr ''request_id'' (ss_request_id s),
          add_string_attr ''checkpoint_ref'' (br_checkpoint_ref request),
          add_string_attr ''fsm_state'' (runtime_state_name (ss_fsm_state s)),
          add_bool_attr ''built'' (rs_resume_seed r \<noteq> None),
          add_bool_attr ''pending_interaction_active'' (pending_active (pending_interaction s)),
          add_bool_attr ''policy_snapshot_ref_present'' (br_policy_snapshot_ref request \<noteq> None)] @
         pending_kind_attrs (pending_interaction s) @
         error_code_attrs (rs_error_code r) @ [add_string_attr ''detail'' (rs_detail r)])"

definition build_resume_seed ::
  "SessionManager \<Rightarrow> BuildResumeSeedRequest \<Rightarrow> int \<Rightarrow> SessionManager \<times> ResumeSeedResult"
where
  "build_resume_seed m request now_ms =
     (let r = build_resume_seed_core request
      in (session_log m (rs_resume_seed r \<noteq> None) ''runtime.session.build_resume_seed''
            (build_resume_seed_attrs request r) now_ms, r))"

section \<open>The table of sessions\<close>

text \<open>
  What a manager over a durable store knows of a session: the snapshot in memory, or else the
  record on disk. A manager is in step with its store when every snapshot in memory is also
  the record on disk.
\<close>

definition session_view ::
  "string \<Rightarrow> SessionManager \<times> FileSystem \<Rightarrow> string \<rightharpoonup> SessionSnapshot"
where
  "session_view base st i =
     (case stored_snapshots (fst st) i of
        Some s \<Rightarrow> Some s
      | None \<Rightarrow> (case read_durable_session_record (snd st) io_good base i of
                   Inr s \<Rightarrow> Some s | Inl _ \<Rightarrow> None))"

definition in_step :: "string \<Rightarrow> SessionManager \<times> FileSystem \<Rightarrow> bool" where
  "in_step base st \<longleftrightarrow>
     base \<noteq> [] \<and> ses_durable_state_root (fst st) = Some base \<and>
     (\<forall>i s. stored_snapshots (fst st) i = Some s \<longrightarrow>
        read_durable_session_record (snd st) io_good base i = Inr s)"

definition restarted :: "string \<Rightarrow> SessionManager" where
  "restarted base = session_set_durable_state_root new_session_manager (Some base)"

datatype SessionCall =
    Sc_Load SessionLoadRequest int
  | Sc_Prepare PrepareTurnRequest int
  | Sc_Persist SessionPersistRequest int
  | Sc_Bind BindCheckpointRefRequest int
  | Sc_Seed BuildResumeSeedRequest int
  | Sc_Restart

fun session_step ::
  "string \<Rightarrow> SessionManager \<times> FileSystem \<Rightarrow> SessionCall \<Rightarrow> (SessionManager \<times> FileSystem) option"
where
  "session_step base (m, fs) (Sc_Load request t) = Some (fst (load_session m fs io_good request t), fs)"
| "session_step base (m, fs) (Sc_Prepare request t) = Some (fst (prepare_turn m request t), fs)"
| "session_step base (m, fs) (Sc_Persist request t) =
     (case persist_turn m fs io_good request t of (m', fs', r) \<Rightarrow> Some (m', fs'))"
| "session_step base (m, fs) (Sc_Bind request t) =
     (case bind_checkpoint_ref m fs io_good request t of (m', fs', r) \<Rightarrow> Some (m', fs'))"
| "session_step base (m, fs) (Sc_Seed request t) = Some (fst (build_resume_seed m request t), fs)"
| "session_step base (m, fs) Sc_Restart = Some (restarted base, fs)"

text \<open>Values in the ranges of their C++ types.\<close>

fun session_call_ok :: "SessionCall \<Rightarrow> bool" where
  "session_call_ok (Sc_Persist request t) = session_fits (turn_snapshot request)"
| "session_call_ok (Sc_Bind request t) = session_fits (bound_snapshot None request)"
| "session_call_ok _ = True"

text \<open>
  The abstract table: only a persisted turn and a bound checkpoint change a session. A turn is
  stored as it was given, in the terminal state of the request, with the new anchor if the
  request names one; a bound checkpoint takes turn, budget reference and summary from the
  entry there was.
\<close>

definition turn_entry :: "SessionPersistRequest \<Rightarrow> SessionSnapshot" where
  "turn_entry request =
     (pr_session_snapshot request)
       \<lparr>ss_fsm_state := pr_terminal_state request,
        active_checkpoint_ref :=
          (case pr_checkpoint_ref request of
             Some r \<Rightarrow> Some r | None \<Rightarrow> active_checkpoint_ref (pr_session_snapshot request))\<rparr>"

definition bound_entry :: "SessionSnapshot option \<Rightarrow> BindCheckpointRefRequest \<Rightarrow> SessionSnapshot" where
  "bound_entry known request =
     \<lparr>ss_session_id = bc_session_id request, ss_request_id = bc_request_id request,
      turn_index = (case known of None \<Rightarrow> 0 | Some s \<Rightarrow> turn_index s),
      active_checkpoint_ref = Some (bc_checkpoint_ref request),
      ss_fsm_state = bc_fsm_state request,
      budget_snapshot_ref = Option.bind known budget_snapshot_ref,
      pending_interaction = bc_pending_interaction request,
      last_result_summary = Option.bind known last_result_summary\<rparr>"

lemma turn_snapshot_entry: "turn_snapshot request = turn_entry request"
  by (auto simp: turn_snapshot_def turn_entry_def Let_def split: option.split)

lemma bound_snapshot_entry: "bound_snapshot known request = bound_entry known request"
  by (simp add: bound_snapshot_def bound_entry_def split: option.split)

fun session_spec ::
  "(string \<rightharpoonup> SessionSnapshot) \<Rightarrow> SessionCall \<Rightarrow> (string \<rightharpoonup> SessionSnapshot)"
where
  "session_spec v (Sc_Persist request t) =
     (if persist_has_minimum_requirements request \<and> pr_terminal_state request \<noteq> Idle
      then v(ss_session_id (pr_session_snapshot request) \<mapsto> turn_entry request) else v)"
| "session_spec v (Sc_Bind request t) =
     (if bind_has_minimum_requirements request
      then v(bc_session_id request \<mapsto> bound_entry (v (bc_session_id request)) request) else v)"
| "session_spec v _ = v"

text \<open>A checkpoint is bound to a session this process has loaded, or that nobody knows.\<close>

fun bind_ready :: "string \<Rightarrow> SessionManager \<times> FileSystem \<Rightarrow> SessionCall \<Rightarrow> bool" where
  "bind_ready base st (Sc_Bind request t) =
     (stored_snapshots (fst st) (bc_session_id request) \<noteq> None \<or>
      session_view base st (bc_session_id request) = None)"
| "bind_ready base st _ = True"

lemma session_view_pair:
  "session_view base (m, fs) i =
     (case stored_snapshots m i of
        Some s \<Rightarrow> Some s
      | None \<Rightarrow> (case read_durable_session_record fs io_good base i of
                   Inr s \<Rightarrow> Some s | Inl _ \<Rightarrow> None))"
  unfolding session_view_def fst_conv snd_conv ..

lemma session_log_frame [simp]:
  "stored_snapshots (session_log m b e fs t) = stored_snapshots m"
  "ses_durable_state_root (session_log m b e fs t) = ses_durable_state_root m"
  by (simp_all add: session_log_def)

lemma in_step_log [simp]:
  "in_step base (session_log m b e f t, fs) = in_step base (m, fs)"
  "session_view base (session_log m b e f t, fs) = session_view base (m, fs)"
  by (simp_all add: in_step_def session_view_pair fun_eq_iff)

lemma in_step_view:
  "in_step base (m, fs) \<Longrightarrow>
     session_view base (m, fs) i =
       (case read_durable_session_record fs io_good base i of Inr s \<Rightarrow> Some s | Inl _ \<Rightarrow> None)"
  by (auto simp: in_step_def session_view_pair split: option.split)

lemma in_step_restarted:
  "in_step base (m, fs) \<Longrightarrow> in_step base (restarted base, fs)"
  by (simp add: in_step_def restarted_def session_set_durable_state_root_def new_session_manager_def)

lemma restart_keeps_view:
  "in_step base (m, fs) \<Longrightarrow> session_view base (restarted base, fs) = session_view base (m, fs)"
  using in_step_view [OF in_step_restarted [of base m fs]] in_step_view [of base m fs]
  by (simp add: fun_eq_iff)

text \<open>Filling the cache changes nothing that can be seen.\<close>

lemma fill_view:
  assumes "in_step base (m, fs)"
  shows "stored_snapshots (fill_from_durable m fs io_good i) i = session_view base (m, fs) i"
    and "in_step base (fill_from_durable m fs io_good i, fs)"
    and "session_view base (fill_from_durable m fs io_good i, fs) = session_view base (m, fs)"
  using assms
  by (auto simp: fill_from_durable_def in_step_def session_view_pair fun_eq_iff
      split: sum.split option.split)

text \<open>Writing a snapshot in memory and on disk.\<close>

lemma persist_snapshot_in_step:
  assumes "in_step base (m, fs)" and "session_fits s" and "ss_session_id s = i"
    and "persist_snapshot (m\<lparr>stored_snapshots := (stored_snapshots m)(i \<mapsto> s)\<rparr>) fs io_good s d =
           (fs', r)"
  shows "in_step base (m\<lparr>stored_snapshots := (stored_snapshots m)(i \<mapsto> s)\<rparr>, fs')"
    and "session_view base (m\<lparr>stored_snapshots := (stored_snapshots m)(i \<mapsto> s)\<rparr>, fs') =
           (session_view base (m, fs))(i \<mapsto> s)"
    and "sp_persisted r" and "read_durable_session_record fs' io_good base i = Inr s"
proof -
  let ?m = "m\<lparr>stored_snapshots := (stored_snapshots m)(i \<mapsto> s)\<rparr>"
  from assms(1) have b: "base \<noteq> []" "ses_durable_state_root m = Some base"
    by (simp_all add: in_step_def)
  obtain fs1 st det where p: "publish_record ''session'' fs io_good
      (record_path ''sessions'' base i) (write_fields (session_fields s)) = (fs1, st, det)"
    by (metis prod_cases3)
  from publish_record_good [OF p] have st: st
    and f: "fs_files fs1 (session_record_path base i) = Some (write_fields (session_fields s))"
    by (simp_all add: session_record_path_def)
  have fs: "fs' = fs1" and r: "sp_persisted r"
    using assms(3,4) b p st
    by (auto simp: persist_snapshot_def write_durable_session_record_def session_record_path_def
        outcome_simps)
  have here: "read_durable_session_record fs' io_good base i = Inr s"
    using session_of_content [OF f assms(2,3)] fs by (simp add: io_good_def)
  have other: "read_durable_session_record fs' io_good base j = read_durable_session_record fs io_good base j"
    if "j \<noteq> i" for j
    using publish_record_other [OF p that] fs
    by (simp add: read_durable_session_record_def session_record_path_def)
  show step: "in_step base (?m, fs')"
    using assms(1) here other by (auto simp: in_step_def)
  show "session_view base (?m, fs') = (session_view base (m, fs))(i \<mapsto> s)"
    using here other by (auto simp: session_view_pair fun_eq_iff split: option.split)
  show "sp_persisted r" using r .
  show "read_durable_session_record fs' io_good base i = Inr s" using here .
qed

lemma turn_snapshot_id [simp]:
  "ss_session_id (turn_snapshot request) = ss_session_id (pr_session_snapshot request)"
  by (simp add: turn_snapshot_def Let_def)

lemma bound_snapshot_id [simp]: "ss_session_id (bound_snapshot v request) = bc_session_id request"
  by (simp add: bound_snapshot_def split: option.split)

lemma bound_snapshot_fits [simp]:
  "session_fits (bound_snapshot (Some s) request) = session_fits (bound_snapshot None request)"
  by (simp add: bound_snapshot_def session_fits_def)

lemma persist_turn_step:
  assumes "in_step base (m, fs)" and "session_fits (turn_snapshot request)"
    and "persist_turn m fs io_good request t = (m', fs', r)"
  shows "in_step base (m', fs') \<and>
         session_view base (m', fs') = session_spec (session_view base (m, fs)) (Sc_Persist request t)"
proof (cases "persist_has_minimum_requirements request \<and> pr_terminal_state request \<noteq> Idle")
  case False
  with assms show ?thesis by (auto simp: persist_turn_def persist_turn_core_def)
next
  case True
  let ?i = "ss_session_id (pr_session_snapshot request)" and ?s = "turn_snapshot request"
  obtain fs1 r1 where p: "persist_snapshot (m\<lparr>stored_snapshots := (stored_snapshots m)(?i \<mapsto> ?s)\<rparr>)
      fs io_good ?s ''turn persisted in in-memory session store'' = (fs1, r1)" by fastforce
  have "m' = session_log (m\<lparr>stored_snapshots := (stored_snapshots m)(?i \<mapsto> ?s)\<rparr>) (sp_persisted r1)
      ''runtime.session.persist_turn'' (persist_turn_attrs request r1) t \<and> fs' = fs1"
    using assms(3) p True by (auto simp: persist_turn_def persist_turn_core_def Let_def)
  with persist_snapshot_in_step(1,2) [OF assms(1,2) turn_snapshot_id p] True show ?thesis
    by (simp add: turn_snapshot_entry)
qed

lemma bind_checkpoint_step:
  assumes "in_step base (m, fs)" and "session_fits (bound_snapshot None request)"
    and "bind_checkpoint_ref m fs io_good request t = (m', fs', r)"
  shows "in_step base (m', fs') \<and>
         (bind_ready base (m, fs) (Sc_Bind request t) \<longrightarrow>
            session_view base (m', fs') = session_spec (session_view base (m, fs)) (Sc_Bind request t))"
proof (cases "bind_has_minimum_requirements request")
  case False
  with assms show ?thesis by (auto simp: bind_checkpoint_ref_def bind_checkpoint_ref_core_def)
next
  case True
  let ?i = "bc_session_id request"
  let ?s = "bound_snapshot (stored_snapshots m ?i) request"
  have fits: "session_fits ?s" using assms(2) by (cases "stored_snapshots m ?i") simp_all
  obtain fs1 r1 where p: "persist_snapshot (m\<lparr>stored_snapshots := (stored_snapshots m)(?i \<mapsto> ?s)\<rparr>)
      fs io_good ?s ''checkpoint reference bound to in-memory session'' = (fs1, r1)" by fastforce
  have m': "m' = session_log (m\<lparr>stored_snapshots := (stored_snapshots m)(?i \<mapsto> ?s)\<rparr>) (sp_persisted r1)
      ''runtime.session.bind_checkpoint_ref'' (bind_checkpoint_ref_attrs request r1) t \<and> fs' = fs1"
    using assms(3) p True by (auto simp: bind_checkpoint_ref_def bind_checkpoint_ref_core_def Let_def)
  have "stored_snapshots m ?i = session_view base (m, fs) ?i"
    if "bind_ready base (m, fs) (Sc_Bind request t)"
    using that by (auto simp: session_view_pair split: option.splits)
  with m' persist_snapshot_in_step(1,2) [OF assms(1) fits bound_snapshot_id p] True show ?thesis
    by (auto simp: bound_snapshot_entry)
qed

lemma load_session_step:
  assumes "in_step base (m, fs)"
  shows "in_step base (fst (load_session m fs io_good request t), fs) \<and>
         session_view base (fst (load_session m fs io_good request t), fs) = session_view base (m, fs)"
  using assms fill_view(2,3) [OF assms, of "slr_session_id request"]
  by (auto simp: load_session_def load_session_core_def Let_def)


lemma session_step_in_step:
  assumes "in_step base st" and "session_call_ok c"
  shows "\<exists>st'. session_step base st c = Some st' \<and> in_step base st'"
proof -
  obtain m fs where st: "st = (m, fs)" by (cases st)
  note ok = assms(1) [unfolded st]
  show ?thesis
    using assms(2) ok load_session_step [OF ok] in_step_restarted [OF ok]
      persist_turn_step [OF ok] bind_checkpoint_step [OF ok]
    by (cases c) (auto simp: st prepare_turn_def build_resume_seed_def Let_def split: prod.split)
qed

interpretation sessions: machine "session_step base" "in_step base" session_call_ok for base
proof unfold_locales
  fix s c
  assume "in_step base s" and "session_call_ok c"
  then show "\<exists>t. session_step base s c = Some t" using session_step_in_step by blast
next
  fix s c t
  assume "in_step base s" and "session_call_ok c" and "session_step base s c = Some t"
  then show "in_step base t" using session_step_in_step [of base s c] by auto
qed

section \<open>Loading\<close>

definition load_table ::
  "(string \<rightharpoonup> SessionSnapshot) \<Rightarrow> SessionLoadRequest \<Rightarrow> SessionLoadResult"
where
  "load_table v request =
     (if slr_session_id request = [] \<or> slr_request_id request = [] then
        rejected_session_load RT_E_400_SESSION_NOT_FOUND ''session_id and request_id are required''
      else
        (case v (slr_session_id request) of
           Some s \<Rightarrow>
             if slr_checkpoint_ref request \<in> {None, active_checkpoint_ref s}
             then make_session_load_result s False ''existing session loaded from durable store cache''
             else rejected_session_load RT_E_401_SESSION_INCONSISTENT
                    ''requested checkpoint_ref does not match active session anchor''
         | None \<Rightarrow>
             if slr_allow_session_create request
             then make_session_load_result
                    \<lparr>ss_session_id = slr_session_id request, ss_request_id = slr_request_id request,
                     turn_index = 0, active_checkpoint_ref = slr_checkpoint_ref request,
                     ss_fsm_state = Idle, budget_snapshot_ref = None, pending_interaction = None,
                     last_result_summary = None\<rparr>
                    True ''new session snapshot created for runtime-local store''
             else rejected_session_load RT_E_400_SESSION_NOT_FOUND
                    ''session does not exist and creation is disabled''))"

lemma fill_root [simp]:
  "ses_durable_state_root (fill_from_durable m fs io i) = ses_durable_state_root m"
  by (auto simp: fill_from_durable_def split: option.split sum.split)

lemma load_session_table:
  assumes "in_step base (m, fs)"
  shows "snd (load_session m fs io_good request t) = load_table (session_view base (m, fs)) request"
  using fill_view(1) [OF assms, of "slr_session_id request"] assms
  by (auto simp: load_session_def load_session_core_def load_table_def load_has_minimum_requirements_def
      case_prod_unfold Let_def in_step_def split: option.split)

text \<open>
  After any sequence of session calls a load answers from the abstract table: it returns
  the known snapshot, refuses a checkpoint that is not the session's own, and creates a session
  only when none is known and creation is allowed; and a restart of the process cannot be
  noticed by any load.
\<close>

theorem session_load_correct:
  assumes "base \<noteq> []" and "\<forall>c\<in>set calls. session_call_ok c"
  shows "\<exists>m fs. run_machine (session_step base) (restarted base, \<lparr>fs_files = Map.empty\<rparr>) calls =
             Some (m, fs) \<and>
           snd (load_session m fs io_good request t) = load_table (session_view base (m, fs)) request \<and>
           snd (load_session (restarted base) fs io_good request t') =
             snd (load_session m fs io_good request t)"
proof -
  have "in_step base (restarted base, \<lparr>fs_files = Map.empty\<rparr>)"
    using assms(1)
    by (simp add: in_step_def restarted_def session_set_durable_state_root_def new_session_manager_def)
  from sessions.run_defined [OF this assms(2)] obtain m fs
    where r: "run_machine (session_step base) (restarted base, \<lparr>fs_files = Map.empty\<rparr>) calls =
      Some (m, fs)" "in_step base (m, fs)" by auto
  with load_session_table [OF r(2)] load_session_table [OF in_step_restarted [OF r(2)]]
    restart_keeps_view [OF r(2)] show ?thesis by auto
qed

section \<open>Samples\<close>

definition sample_turn :: SessionPersistRequest where
  "sample_turn =
     \<lparr>pr_session_snapshot = sample_session, pr_terminal_state = WaitingConfirm,
      pr_checkpoint_ref = Some ''cp2'', pr_audit_summary = None, pr_next_resume_seed_ref = None\<rparr>"

definition sample_bind :: BindCheckpointRefRequest where
  "sample_bind =
     \<lparr>bc_session_id = ''s=1'', bc_request_id = ''r'', bc_checkpoint_ref = ''cp'',
      bc_fsm_state = WaitingConfirm, bc_pending_interaction = None\<rparr>"

definition sample_load :: SessionLoadRequest where
  "sample_load =
     \<lparr>slr_session_id = ''s=1'', slr_request_id = ''r'', slr_checkpoint_ref = None,
      slr_allow_session_create = True\<rparr>"

lemma sample_turn_ok: "session_call_ok (Sc_Persist sample_turn t)"
  by (simp add: sample_turn_def turn_snapshot_def session_fits_def sample_session_def is_i64_def Let_def)

lemma fresh_in_step: "in_step ''/var'' (restarted ''/var'', \<lparr>fs_files = Map.empty\<rparr>)"
  by (simp add: in_step_def restarted_def session_set_durable_state_root_def new_session_manager_def)


theorem session_load_correct_witness:
  "\<exists>m fs. run_machine (session_step ''/var'') (restarted ''/var'', \<lparr>fs_files = Map.empty\<rparr>)
            [Sc_Persist sample_turn 1, Sc_Restart, Sc_Bind sample_bind 2] = Some (m, fs) \<and>
          snd (load_session (restarted ''/var'') fs io_good sample_load 4) =
            snd (load_session m fs io_good sample_load 3)"
proof -
  have "\<forall>c\<in>set [Sc_Persist sample_turn 1, Sc_Restart, Sc_Bind sample_bind 2]. session_call_ok c"
    using sample_turn_ok
    by (simp add: sample_bind_def bound_snapshot_def session_fits_def)
  from session_load_correct [OF _ this, of "''/var''" sample_load 3 4] show ?thesis by blast
qed

section \<open>Sessions that are lost\<close>

text \<open>
  \<^verbatim>\<open>bind_checkpoint_ref\<close> looks in memory only. For a session that is on disk and not yet
  loaded, as after a restart, it writes a new snapshot over the record: the turn count, the
  budget reference and the last summary are gone.
\<close>

lemma bind_after_restart_loses_session:
  assumes "in_step base (m, fs)" and "stored_snapshots m (bc_session_id request) = None"
    and "bind_has_minimum_requirements request" and "session_fits (bound_snapshot None request)"
  shows "case bind_checkpoint_ref m fs io_good request t of (m', fs', r) \<Rightarrow>
           sp_persisted r \<and>
           read_durable_session_record fs' io_good base (bc_session_id request) =
             Inr \<lparr>ss_session_id = bc_session_id request, ss_request_id = bc_request_id request,
                  turn_index = 0, active_checkpoint_ref = Some (bc_checkpoint_ref request),
                  ss_fsm_state = bc_fsm_state request, budget_snapshot_ref = None,
                  pending_interaction = bc_pending_interaction request, last_result_summary = None\<rparr>"
proof -
  let ?i = "bc_session_id request" and ?s = "bound_snapshot None request"
  obtain fs1 r1 where p: "persist_snapshot (m\<lparr>stored_snapshots := (stored_snapshots m)(?i \<mapsto> ?s)\<rparr>)
      fs io_good ?s ''checkpoint reference bound to in-memory session'' = (fs1, r1)" by fastforce
  from persist_snapshot_in_step(3,4) [OF assms(1,4) bound_snapshot_id p] p assms(2,3)
  show ?thesis
    by (simp add: bind_checkpoint_ref_def bind_checkpoint_ref_core_def bound_snapshot_def Let_def)
qed

text \<open>
  The detail of a failed durable read is dropped: a record that cannot be parsed is treated as
  a session that does not exist, and a new one is created in its place.
\<close>

lemma unreadable_session_is_replaced:
  assumes "ses_durable_state_root m = Some base" and "stored_snapshots m (slr_session_id request) = None"
    and "fs_files fs (session_record_path base (slr_session_id request)) = Some ''damaged''"
    and "load_has_minimum_requirements request" and "slr_allow_session_create request"
  shows "case snd (load_session m fs io request t) of r \<Rightarrow>
           sl_accepted r \<and> sl_created_new_session r \<and> sl_error_code r = None"
proof -
  have "parse_key_value_file ''session'' ''damaged'' =
      Inl ''durable session record contains an invalid key-value line''"
    by (simp add: parse_key_value_file_def)
  then have "\<exists>d. read_durable_session_record fs io base (slr_session_id request) = Inl d"
    using assms(3) by (simp add: read_durable_session_record_def)
  then obtain d where "read_durable_session_record fs io base (slr_session_id request) = Inl d" ..
  with assms show ?thesis
    by (simp add: load_session_def load_session_core_def fill_from_durable_def Let_def outcome_simps)
qed

text \<open>A persist that fails on the device has already changed the session in memory.\<close>

lemma failed_persist_changes_memory:
  assumes "persist_has_minimum_requirements request" and "pr_terminal_state request \<noteq> Idle"
    and "ses_durable_state_root m = Some base" and "io_create_fails io"
  shows "case persist_turn m fs io request t of (m', fs', r) \<Rightarrow>
           \<not> sp_persisted r \<and> fs' = fs \<and>
           stored_snapshots m' (ss_session_id (pr_session_snapshot request)) = Some (turn_snapshot request)"
  using assms
  by (simp add: persist_turn_def persist_turn_core_def persist_snapshot_def
      write_durable_session_record_def publish_record_def Let_def)

end
