(* ===== verification/Checkpoint_Record.thy ===== *)
theory Checkpoint_Record
  imports Durable_Codec
begin

text \<open>
  The durable checkpoint record of \<^verbatim>\<open>runtime/src/checkpoint/CheckpointManager.cpp\<close>: the
  fields \<^verbatim>\<open>write_durable_checkpoint_record\<close> writes and \<^verbatim>\<open>read_durable_checkpoint_record\<close>
  reads, with the failures of each, and the proof that a written record reads back as itself.
  The vectors reserved from a count in the file are not modelled (an exhausted memory is).
\<close>

record ParsedCheckpointRecord =
  rec_checkpoint :: Checkpoint
  rec_runtime_budget_snapshot :: "BudgetSnapshot option"

datatype DurableCheckpointReadResult =
    Read_NotFound string | Read_Loaded ParsedCheckpointRecord string | Read_Corrupt string

definition checkpoint_record_path :: "string \<Rightarrow> string \<Rightarrow> string" where
  "checkpoint_record_path base checkpoint_ref = record_path ''checkpoints'' base checkpoint_ref"

section \<open>Writing\<close>

definition budget_entry_prefix :: "nat \<Rightarrow> string" where
  "budget_entry_prefix index = ''budget_entry.'' @ to_string_nat index @ ''.''"

definition budget_type_value :: "BudgetType \<Rightarrow> int" where
  "budget_type_value t = int (budget_type_index t)"

definition budget_entry_fields :: "nat \<Rightarrow> BudgetSnapshotEntry \<Rightarrow> (string \<times> string) list" where
  "budget_entry_fields index entry =
     [(budget_entry_prefix index @ ''type'', encode_int (budget_type_value (budget_type entry))),
      (budget_entry_prefix index @ ''current'', encode_u64 (current entry)),
      (budget_entry_prefix index @ ''max'', encode_u64 (max_limit entry)),
      (budget_entry_prefix index @ ''remaining'', encode_int (remaining entry))] @
     optional_encoded_field (budget_entry_prefix index @ ''reject_reason'') (reject_reason entry)"

definition budget_snapshot_fields :: "BudgetSnapshot \<Rightarrow> (string \<times> string) list" where
  "budget_snapshot_fields snapshot =
     optional_integer_field encode_u64 ''budget_snapshot.snapshot_at_ms'' (snapshot_at_ms snapshot) @
     optional_encoded_field ''budget_snapshot.overall_reject_reason''
       (overall_reject_reason snapshot) @
     [(''budget_snapshot.entry_count'', to_string_nat (length (entries snapshot)))] @
     concat (map (\<lambda>index. budget_entry_fields index (entries snapshot ! index))
               [0..<length (entries snapshot)])"

definition tag_key :: "nat \<Rightarrow> string" where
  "tag_key index = ''tag.'' @ to_string_nat index"

definition checkpoint_fields ::
  "Checkpoint \<Rightarrow> BudgetSnapshot option \<Rightarrow> (string \<times> string) list"
where
  "checkpoint_fields cp snapshot =
     (let tags = value_or (cp_tags cp) []
      in [(''checkpoint_id'', hex_encode (the (checkpoint_id cp))),
          (''state'', encode_int (checkpoint_state_value (value_or (cp_state cp) CS_Unspecified))),
          (''step_id'', hex_encode (value_or (step_id cp) [])),
          (''working_memory_snapshot'', hex_encode (value_or (working_memory_snapshot cp) [])),
          (''pending_action'', hex_encode (value_or (pending_action cp) []))] @
         optional_encoded_field ''request_id'' (cp_request_id cp) @
         optional_encoded_field ''goal_id'' (cp_goal_id cp) @
         optional_encoded_field ''belief_state_ref'' (belief_state_ref cp) @
         optional_integer_field encode_u32 ''retry_count'' (cp_retry_count cp) @
         optional_integer_field encode_int ''created_at'' (cp_created_at cp) @
         [(''tag_count'', to_string_nat (length tags))] @
         map (\<lambda>index. (tag_key index, hex_encode (tags ! index))) [0..<length tags] @
         [(''budget_snapshot_present'', encode_int (if snapshot \<noteq> None then 1 else 0))] @
         (case snapshot of None \<Rightarrow> [] | Some s \<Rightarrow> budget_snapshot_fields s))"

definition write_durable_checkpoint_record ::
  "FileSystem \<Rightarrow> Io \<Rightarrow> string \<Rightarrow> Checkpoint \<Rightarrow> BudgetSnapshot option \<Rightarrow>
   FileSystem \<times> bool \<times> string"
where
  "write_durable_checkpoint_record fs io base cp snapshot =
     (if checkpoint_id cp = None \<or> checkpoint_id cp = Some [] then
        (fs, False, ''checkpoint durable store requires checkpoint_id'')
      else
        publish_record ''checkpoint'' fs io (checkpoint_record_path base (the (checkpoint_id cp)))
          (write_fields (checkpoint_fields cp snapshot)))"

section \<open>Reading\<close>

definition parse_budget_type :: "u32 \<Rightarrow> BudgetType option" where
  "parse_budget_type raw =
     (if raw = 0 then Some Token else if raw = 1 then Some Turn else if raw = 2 then Some ToolCall
      else if raw = 3 then Some Latency else if raw = 4 then Some Replan else None)"

abbreviation required_text :: "(string \<rightharpoonup> string) \<Rightarrow> string \<Rightarrow> string + string" where
  "required_text \<equiv> decode_required_string_field ''checkpoint''"

abbreviation optional_text :: "(string \<rightharpoonup> string) \<Rightarrow> string \<Rightarrow> string + string option" where
  "optional_text \<equiv> decode_optional_string_field ''checkpoint''"

abbreviation required_u32 :: "(string \<rightharpoonup> string) \<Rightarrow> string \<Rightarrow> string + u32" where
  "required_u32 \<equiv> decode_required_integer_field decode_u32 ''checkpoint''"

definition decode_checkpoint_head :: "(string \<rightharpoonup> string) \<Rightarrow> string + Checkpoint" where
  "decode_checkpoint_head table =
     and_then (required_text table ''checkpoint_id'') (\<lambda>i.
     and_then (required_text table ''step_id'') (\<lambda>s.
     and_then (required_text table ''working_memory_snapshot'') (\<lambda>w.
     and_then (required_text table ''pending_action'') (\<lambda>p.
     and_then (optional_text table ''request_id'') (\<lambda>r.
     and_then (optional_text table ''goal_id'') (\<lambda>g.
     and_then (optional_text table ''belief_state_ref'') (\<lambda>b.
     and_then (decode_optional_integer_field decode_u32 ''checkpoint'' table ''retry_count'') (\<lambda>n.
     and_then (decode_optional_integer_field decode_i64 ''checkpoint'' table ''created_at'') (\<lambda>c.
     and_then (required_u32 table ''state'') (\<lambda>raw_state.
       Inr \<lparr>checkpoint_id = Some i, cp_state = Some (checkpoint_state_of_value (sint raw_state)),
            step_id = Some s, working_memory_snapshot = Some w, pending_action = Some p,
            cp_request_id = r, cp_goal_id = g, belief_state_ref = b, cp_retry_count = n,
            cp_created_at = c, cp_tags = None\<rparr>))))))))))"

fun decode_tags :: "(string \<rightharpoonup> string) \<Rightarrow> nat \<Rightarrow> nat \<Rightarrow> string + string list" where
  "decode_tags table index 0 = Inr []"
| "decode_tags table index (Suc count) =
     and_then (required_text table (tag_key index)) (\<lambda>t.
     and_then (decode_tags table (Suc index) count) (\<lambda>ts. Inr (t # ts)))"

fun decode_budget_entries ::
  "(string \<rightharpoonup> string) \<Rightarrow> nat \<Rightarrow> nat \<Rightarrow> string + BudgetSnapshotEntry list"
where
  "decode_budget_entries table index 0 = Inr []"
| "decode_budget_entries table index (Suc count) =
     (let prefix = budget_entry_prefix index
      in and_then (required_u32 table (prefix @ ''type'')) (\<lambda>raw.
         and_then (decode_required_integer_field decode_u64 ''checkpoint'' table (prefix @ ''current'')) (\<lambda>c.
         and_then (decode_required_integer_field decode_u64 ''checkpoint'' table (prefix @ ''max'')) (\<lambda>m.
         and_then (decode_required_integer_field decode_i64 ''checkpoint'' table (prefix @ ''remaining'')) (\<lambda>r.
         and_then (optional_text table (prefix @ ''reject_reason'')) (\<lambda>why.
         case parse_budget_type raw of
           None \<Rightarrow> Inl ''durable checkpoint record has an invalid budget type''
         | Some t \<Rightarrow>
             and_then (decode_budget_entries table (Suc index) count) (\<lambda>es.
               Inr (\<lparr>budget_type = t, current = c, max_limit = m, remaining = r,
                     reject_reason = why\<rparr> # es))))))))"

definition decode_budget_snapshot :: "(string \<rightharpoonup> string) \<Rightarrow> string + BudgetSnapshot" where
  "decode_budget_snapshot table =
     and_then (decode_optional_integer_field decode_u64 ''checkpoint'' table
                 ''budget_snapshot.snapshot_at_ms'') (\<lambda>taken.
     and_then (optional_text table ''budget_snapshot.overall_reject_reason'') (\<lambda>why.
     and_then (required_u32 table ''budget_snapshot.entry_count'') (\<lambda>count.
     and_then (decode_budget_entries table 0 (unat count)) (\<lambda>es.
       Inr \<lparr>snapshot_at_ms = taken, entries = es, overall_reject_reason = why\<rparr>))))"

definition decode_checkpoint_record :: "(string \<rightharpoonup> string) \<Rightarrow> string + ParsedCheckpointRecord" where
  "decode_checkpoint_record table =
     and_then (decode_checkpoint_head table) (\<lambda>cp.
     and_then (required_u32 table ''tag_count'') (\<lambda>tag_count.
     and_then (decode_tags table 0 (unat tag_count)) (\<lambda>tags.
     and_then (required_u32 table ''budget_snapshot_present'') (\<lambda>present.
     and_then (if present = 1 then and_then (decode_budget_snapshot table) (\<lambda>s. Inr (Some s))
               else Inr None) (\<lambda>snapshot.
       Inr \<lparr>rec_checkpoint = cp\<lparr>cp_tags := (if tag_count > 0 then Some tags else None)\<rparr>,
            rec_runtime_budget_snapshot = snapshot\<rparr>)))))"

definition read_durable_checkpoint_record ::
  "FileSystem \<Rightarrow> Io \<Rightarrow> string \<Rightarrow> string \<Rightarrow> DurableCheckpointReadResult"
where
  "read_durable_checkpoint_record fs io base checkpoint_ref =
     (case fs_files fs (checkpoint_record_path base checkpoint_ref) of
        None \<Rightarrow> Read_NotFound ''checkpoint not found in durable store''
      | Some content \<Rightarrow>
          if io_open_read_fails io then
            Read_Corrupt ''checkpoint durable store could not open the checkpoint record''
          else
            (case and_then (parse_key_value_file ''checkpoint'' content) decode_checkpoint_record of
               Inl detail \<Rightarrow> Read_Corrupt detail
             | Inr r \<Rightarrow>
                 if checkpoint_id (rec_checkpoint r) \<noteq> Some checkpoint_ref then
                   Read_Corrupt ''durable checkpoint record checkpoint_id does not match file anchor''
                 else Read_Loaded r ''checkpoint loaded from durable store''))"

section \<open>Looking up written fields\<close>

lemma digits_then_dot:
  "to_string_nat i @ CHR ''.'' # x = to_string_nat j @ CHR ''.'' # y \<longleftrightarrow> i = j \<and> x = y"
proof
  assume eq: "to_string_nat i @ CHR ''.'' # x = to_string_nat j @ CHR ''.'' # y"
  have d: "takeWhile (\<lambda>c. digit_value c \<noteq> None) (to_string_nat n @ CHR ''.'' # z) = to_string_nat n"
    for n z
  proof -
    have dot: "digit_value (CHR ''.'') = None" by (simp add: digit_value_def)
    have "\<forall>c\<in>set (to_string_nat n). digit_value c \<noteq> None" using to_string_nat_digits by blast
    then show ?thesis
      by (subst takeWhile_append2) (simp_all add: dot)
  qed
  from eq have "to_string_nat i = to_string_nat j" using d by metis
  with eq show "i = j \<and> x = y" by simp
qed simp

lemma budget_entry_prefix_eq [simp]:
  "budget_entry_prefix i @ x = budget_entry_prefix j @ y \<longleftrightarrow> i = j \<and> x = y"
  using digits_then_dot [of i x j y] by (simp add: budget_entry_prefix_def)

lemma tag_key_eq [simp]: "tag_key i = tag_key j \<longleftrightarrow> i = j"
  by (simp add: tag_key_def)

lemma map_of_indexed:
  assumes "inj_on key {..<n}" and "i < n"
  shows "map_of (map (\<lambda>j. (key j, val j)) [0..<n] @ xs) (key i) = Some (val i)"
proof -
  have "distinct (map key [0..<n])"
    using assms(1) by (simp add: distinct_map atLeast0LessThan)
  moreover have "(key i, val i) \<in> set (map (\<lambda>j. (key j, val j)) [0..<n])" using assms(2) by auto
  ultimately have "map_of (map (\<lambda>j. (key j, val j)) [0..<n]) (key i) = Some (val i)"
    by (intro map_of_is_SomeI) (simp_all add: comp_def)
  then show ?thesis by (simp add: map_add_def)
qed

lemma map_of_indexed_other:
  "(\<And>j. k \<noteq> key j) \<Longrightarrow> map_of (map (\<lambda>j. (key j, val j)) js @ xs) k = map_of xs k"
  by (induction js) auto

lemma map_of_tags [simp]:
  "i < n \<Longrightarrow> map_of (map (\<lambda>j. (tag_key j, val j)) [0..<n] @ xs) (tag_key i) = Some (val i)"
  "take 4 k \<noteq> ''tag.'' \<Longrightarrow> map_of (map (\<lambda>j. (tag_key j, val j)) js @ xs) k = map_of xs k"
proof -
  assume "i < n"
  then show "map_of (map (\<lambda>j. (tag_key j, val j)) [0..<n] @ xs) (tag_key i) = Some (val i)"
    by (intro map_of_indexed) (auto simp: inj_on_def)
next
  assume "take 4 k \<noteq> ''tag.''"
  then show "map_of (map (\<lambda>j. (tag_key j, val j)) js @ xs) k = map_of xs k"
    by (intro map_of_indexed_other) (auto simp: tag_key_def)
qed

lemma map_of_concat_skip:
  "(\<And>j. j \<in> set js \<Longrightarrow> k \<notin> fst ` set (g j)) \<Longrightarrow>
     map_of (concat (map g js)) k = None"
  by (induction js) (auto simp: map_add_def map_of_eq_None_iff split: option.split)

lemma map_of_concat_hit:
  assumes "i \<in> set js" and "distinct js" and "\<And>j. j \<in> set js \<Longrightarrow> j \<noteq> i \<Longrightarrow> k \<notin> fst ` set (g j)"
  shows "map_of (concat (map g js)) k = map_of (g i) k"
  using assms
proof (induction js)
  case Nil
  then show ?case by simp
next
  case (Cons j js)
  show ?case
  proof (cases "j = i")
    case True
    then have "map_of (concat (map g js)) k = None"
      using Cons.prems(2,3) by (intro map_of_concat_skip) auto
    with True show ?thesis by (simp add: map_add_def split: option.split)
  next
    case False
    then have "map_of (g j) k = None" using Cons.prems(3) [of j] by (simp add: map_of_eq_None_iff)
    with False Cons show ?thesis by (simp add: map_add_def split: option.split)
  qed
qed

lemma entry_field_keys:
  "k \<in> fst ` set (budget_entry_fields i e) \<Longrightarrow> \<exists>f. k = budget_entry_prefix i @ f"
  by (auto simp: budget_entry_fields_def optional_encoded_field_def split: option.splits)

lemma entry_fields_lookup:
  assumes "i < length es"
  shows "map_of (concat (map (\<lambda>j. budget_entry_fields j (es ! j)) [0..<length es]))
           (budget_entry_prefix i @ f) =
         map_of (budget_entry_fields i (es ! i)) (budget_entry_prefix i @ f)"
  using assms by (intro map_of_concat_hit) (auto dest!: entry_field_keys)

section \<open>Round trip\<close>

lemma decode_u32_nat [simp]: "n < 2 ^ 32 \<Longrightarrow> decode_u32 (to_string_nat n) = Some (of_nat n)"
proof -
  assume "n < 2 ^ 32"
  then have "unat (of_nat n :: u32) = n" by (simp add: unat_of_nat take_bit_nat_eq_self)
  then show ?thesis using decode_encode_u32 [of "of_nat n"] by (simp add: encode_u32_def)
qed

lemma decode_u32_int:
  assumes "- (2 ^ 31) \<le> i" and "i < 2 ^ 31"
  shows "decode_u32 (encode_int i) = Some (word_of_int i)"
proof (cases "i < 0")
  case True
  then have i: "i = - int (nat (- i))" by simp
  have small: "nat (- i) < 2 ^ 64" using assms True by simp
  have "decode_u32 (encode_int i) = Some (ucast (- (of_nat (nat (- i)) :: u64)))"
    using True small by (simp add: decode_u32_def stoul_def stoull_def encode_int_def to_string_int_def)
  also have "- (of_nat (nat (- i)) :: u64) = word_of_int i"
    using True by simp
  also have "(ucast (word_of_int i :: u64) :: u32) = word_of_int i"
    by (simp add: ucast_down_wi is_down)
  finally show ?thesis .
next
  case False
  then have "nat i < 2 ^ 32" using assms by simp
  with False show ?thesis by (simp add: encode_int_def to_string_int_def)
qed

lemma sint_word_of_int_32:
  assumes "- (2 ^ 31) \<le> i" and "i < 2 ^ 31"
  shows "sint (word_of_int i :: u32) = i"
proof -
  have "sint (word_of_int i :: u32) = signed_take_bit (LENGTH(32) - Suc 0) i" by (simp add: sint_sbintrunc')
  then show ?thesis using assms by (simp add: signed_take_bit_int_eq_self)
qed

text \<open>Sizes the format can hold: 32-bit counts and the range of each signed field.\<close>

definition snapshot_fits :: "BudgetSnapshot \<Rightarrow> bool" where
  "snapshot_fits s \<longleftrightarrow>
     length (entries s) < 2 ^ 32 \<and> (\<forall>e\<in>set (entries s). is_i64 (remaining e))"

definition checkpoint_fits :: "Checkpoint \<Rightarrow> bool" where
  "checkpoint_fits cp \<longleftrightarrow>
     length (value_or (cp_tags cp) []) < 2 ^ 32 \<and>
     (\<forall>i. cp_created_at cp = Some i \<longrightarrow> is_i64 i) \<and>
     (\<forall>s. cp_state cp = Some s \<longrightarrow>
        checkpoint_state_wf s \<and> - (2 ^ 31) \<le> checkpoint_state_value s \<and>
        checkpoint_state_value s < 2 ^ 31)"

text \<open>The fields the format does not keep apart: a missing text is written as the empty one.\<close>

definition checkpoint_complete :: "Checkpoint \<Rightarrow> bool" where
  "checkpoint_complete cp \<longleftrightarrow>
     has_value (checkpoint_id cp) \<and> has_value (cp_state cp) \<and> has_value (step_id cp) \<and>
     has_value (working_memory_snapshot cp) \<and> has_value (pending_action cp) \<and>
     cp_tags cp \<noteq> Some []"

lemma budget_type_decodes:
  "decode_u32 (encode_int (budget_type_value t)) = Some (of_nat (budget_type_index t))"
  "parse_budget_type (of_nat (budget_type_index t)) = Some t"
  by (cases t; simp add: budget_type_value_def encode_int_def to_string_int_def budget_type_index_def
      parse_budget_type_def)+

lemma decode_entries_written:
  assumes "\<And>i f. i < length es \<Longrightarrow>
      table (budget_entry_prefix i @ f) = map_of (budget_entry_fields i (es ! i)) (budget_entry_prefix i @ f)"
    and "\<forall>e\<in>set es. is_i64 (remaining e)"
    and "i + n \<le> length es"
  shows "decode_budget_entries table i n = Inr (map (\<lambda>j. es ! j) [i..<i + n])"
  using assms(3)
proof (induction n arbitrary: i)
  case 0
  then show ?case by simp
next
  case (Suc n)
  then have i: "i < length es" by simp
  have r: "is_i64 (remaining (es ! i))" using assms(2) i by simp
  note look = assms(1) [OF i]
  have look': "table (budget_entry_prefix i @ ''type'') =
        Some (encode_int (budget_type_value (budget_type (es ! i))))"
    "table (budget_entry_prefix i @ ''current'') = Some (encode_u64 (current (es ! i)))"
    "table (budget_entry_prefix i @ ''max'') = Some (encode_u64 (max_limit (es ! i)))"
    "table (budget_entry_prefix i @ ''remaining'') = Some (encode_int (remaining (es ! i)))"
    "table (budget_entry_prefix i @ ''reject_reason'') =
        map_option hex_encode (reject_reason (es ! i))"
    by (simp_all add: look budget_entry_fields_def optional_encoded_field_def split: option.split)
  have "required_u32 table (budget_entry_prefix i @ ''type'') =
        Inr (of_nat (budget_type_index (budget_type (es ! i))))"
    by (simp add: decode_required_integer_field_def decode_optional_integer_field_def look'(1)
        budget_type_decodes(1))
  moreover have "[i..<i + Suc n] = i # [Suc i..<Suc i + n]" by (simp add: upt_rec)
  moreover have "decode_budget_entries table (Suc i) n = Inr (map (\<lambda>j. es ! j) [Suc i..<Suc i + n])"
    using Suc.prems by (intro Suc.IH) simp
  ultimately show ?case
    using look' r by (simp add: Let_def budget_type_decodes(2))
qed

lemma decode_tags_written:
  assumes "\<And>i. i < length ts \<Longrightarrow> table (tag_key i) = Some (hex_encode (ts ! i))"
    and "i + n \<le> length ts"
  shows "decode_tags table i n = Inr (map (\<lambda>j. ts ! j) [i..<i + n])"
  using assms(2)
proof (induction n arbitrary: i)
  case 0
  then show ?case by simp
next
  case (Suc n)
  then have "table (tag_key i) = Some (hex_encode (ts ! i))" using assms(1) by simp
  moreover have "[i..<i + Suc n] = i # [Suc i..<Suc i + n]" by (simp add: upt_rec)
  moreover have "decode_tags table (Suc i) n = Inr (map (\<lambda>j. ts ! j) [Suc i..<Suc i + n])"
    using Suc.prems by (intro Suc.IH) simp
  ultimately show ?case by simp
qed

lemma clean_budget_entry: "clean_fields (budget_entry_fields i e)"
  by (simp add: budget_entry_fields_def budget_entry_prefix_def)

lemma clean_checkpoint_fields: "clean_fields (checkpoint_fields cp snapshot)"
proof -
  have "clean_fields (map (\<lambda>j. (tag_key j, hex_encode (ts ! j))) js)" for ts js
    by (rule clean_fields_map) (simp add: tag_key_def)
  moreover have "clean_fields (concat (map (\<lambda>j. budget_entry_fields j (es ! j)) js))" for es js
    by (rule clean_fields_concat) (rule clean_budget_entry)
  ultimately show ?thesis
    by (simp add: checkpoint_fields_def budget_snapshot_fields_def Let_def split: option.split)
qed

lemma parse_checkpoint_fields:
  "parse_key_value_file what (write_fields (checkpoint_fields cp snapshot)) =
     Inr (map_of (checkpoint_fields cp snapshot))"
  using clean_checkpoint_fields [of cp snapshot]
  by (intro parse_write_fields) (simp add: clean_fields_def)

lemma budget_lookup_none:
  assumes "take 7 k \<noteq> ''budget_''"
  shows "map_of (case snapshot of None \<Rightarrow> [] | Some s \<Rightarrow> budget_snapshot_fields s) k = None"
proof (cases snapshot)
  case None
  then show ?thesis by simp
next
  case (Some s)
  have "map_of (concat (map (\<lambda>j. budget_entry_fields j (entries s ! j)) [0..<length (entries s)])) k
      = None"
    using assms by (intro map_of_concat_skip) (auto simp: budget_entry_prefix_def dest!: entry_field_keys)
  moreover have "k \<noteq> ''budget_snapshot.snapshot_at_ms''"
    "k \<noteq> ''budget_snapshot.overall_reject_reason''" "k \<noteq> ''budget_snapshot.entry_count''"
    using assms by auto
  ultimately show ?thesis using Some
    by (cases "snapshot_at_ms s"; cases "overall_reject_reason s")
       (simp_all add: budget_snapshot_fields_def optional_encoded_field_def optional_integer_field_def)
qed

lemma head_lookup:
  fixes cp snapshot
  defines "t \<equiv> map_of (checkpoint_fields cp snapshot)"
  shows "t ''checkpoint_id'' = Some (hex_encode (the (checkpoint_id cp)))"
    and "t ''step_id'' = Some (hex_encode (value_or (step_id cp) []))"
    and "t ''working_memory_snapshot'' = Some (hex_encode (value_or (working_memory_snapshot cp) []))"
    and "t ''pending_action'' = Some (hex_encode (value_or (pending_action cp) []))"
    and "t ''state'' =
           Some (encode_int (checkpoint_state_value (value_or (cp_state cp) CS_Unspecified)))"
  by (simp_all add: t_def checkpoint_fields_def Let_def)

lemma optional_lookup:
  fixes cp snapshot
  defines "t \<equiv> map_of (checkpoint_fields cp snapshot)"
  shows "t ''request_id'' = map_option hex_encode (cp_request_id cp)"
    and "t ''goal_id'' = map_option hex_encode (cp_goal_id cp)"
    and "t ''belief_state_ref'' = map_option hex_encode (belief_state_ref cp)"
    and "t ''retry_count'' = map_option encode_u32 (cp_retry_count cp)"
    and "t ''created_at'' = map_option encode_int (cp_created_at cp)"
  subgoal by (cases "cp_request_id cp")
    (simp_all add: t_def checkpoint_fields_def Let_def budget_lookup_none del: map_of_append)
  subgoal by (cases "cp_goal_id cp")
    (simp_all add: t_def checkpoint_fields_def Let_def budget_lookup_none del: map_of_append)
  subgoal by (cases "belief_state_ref cp")
    (simp_all add: t_def checkpoint_fields_def Let_def budget_lookup_none del: map_of_append)
  subgoal by (cases "cp_retry_count cp")
    (simp_all add: t_def checkpoint_fields_def Let_def budget_lookup_none del: map_of_append)
  subgoal by (cases "cp_created_at cp")
    (simp_all add: t_def checkpoint_fields_def Let_def budget_lookup_none del: map_of_append)
  done

lemma head_written:
  assumes "checkpoint_complete cp" and "checkpoint_fits cp"
  shows "decode_checkpoint_head (map_of (checkpoint_fields cp snapshot)) =
           Inr (cp\<lparr>cp_tags := None\<rparr>)"
proof -
  obtain i st s w p where cp: "checkpoint_id cp = Some i" "cp_state cp = Some st" "step_id cp = Some s"
    "working_memory_snapshot cp = Some w" "pending_action cp = Some p"
    using assms(1) by (auto simp: checkpoint_complete_def)
  let ?t = "map_of (checkpoint_fields cp snapshot)"
  have look: "?t ''checkpoint_id'' = Some (hex_encode i)"
    "?t ''step_id'' = Some (hex_encode s)"
    "?t ''working_memory_snapshot'' = Some (hex_encode w)"
    "?t ''pending_action'' = Some (hex_encode p)"
    "?t ''request_id'' = map_option hex_encode (cp_request_id cp)"
    "?t ''goal_id'' = map_option hex_encode (cp_goal_id cp)"
    "?t ''belief_state_ref'' = map_option hex_encode (belief_state_ref cp)"
    "?t ''retry_count'' = map_option encode_u32 (cp_retry_count cp)"
    "?t ''created_at'' = map_option encode_int (cp_created_at cp)"
    "?t ''state'' = Some (encode_int (checkpoint_state_value st))"
    by (simp_all add: head_lookup optional_lookup cp)
  have st: "checkpoint_state_wf st" "- (2 ^ 31) \<le> checkpoint_state_value st"
    "checkpoint_state_value st < 2 ^ 31"
    using assms(2) cp by (simp_all add: checkpoint_fits_def)
  have state: "required_u32 ?t ''state'' = Inr (word_of_int (checkpoint_state_value st))"
    by (simp add: decode_required_integer_field_def decode_optional_integer_field_def look
        decode_u32_int [OF st(2,3)])
  have "\<And>j. cp_created_at cp = Some j \<Longrightarrow> is_i64 j"
    using assms(2) by (simp add: checkpoint_fits_def)
  with look state sint_word_of_int_32 [OF st(2,3)] st(1) cp show ?thesis
    by (simp add: decode_checkpoint_head_def)
qed

lemma tag_lookup:
  fixes cp snapshot
  defines "t \<equiv> map_of (checkpoint_fields cp snapshot)"
    and "tags \<equiv> value_or (cp_tags cp) []"
  shows "t ''tag_count'' = Some (to_string_nat (length tags))"
    and "i < length tags \<Longrightarrow> t (tag_key i) = Some (hex_encode (tags ! i))"
    and "t ''budget_snapshot_present'' = Some (encode_int (if snapshot \<noteq> None then 1 else 0))"
proof -
  show "t ''tag_count'' = Some (to_string_nat (length tags))"
    by (simp add: t_def tags_def checkpoint_fields_def Let_def del: map_of_append)
  have k: "tag_key i \<noteq> ''checkpoint_id''" "tag_key i \<noteq> ''state''" "tag_key i \<noteq> ''step_id''"
    "tag_key i \<noteq> ''working_memory_snapshot''" "tag_key i \<noteq> ''pending_action''"
    "tag_key i \<noteq> ''request_id''" "tag_key i \<noteq> ''goal_id''" "tag_key i \<noteq> ''belief_state_ref''"
    "tag_key i \<noteq> ''retry_count''" "tag_key i \<noteq> ''created_at''" "tag_key i \<noteq> ''tag_count''" for i
    by (simp_all add: tag_key_def)
  show "i < length tags \<Longrightarrow> t (tag_key i) = Some (hex_encode (tags ! i))"
    by (simp add: t_def tags_def checkpoint_fields_def Let_def k del: map_of_append)
  show "t ''budget_snapshot_present'' = Some (encode_int (if snapshot \<noteq> None then 1 else 0))"
    by (simp add: t_def tags_def checkpoint_fields_def Let_def del: map_of_append)
qed

lemma snapshot_lookup_key:
  assumes "take 7 k = ''budget_''" and "k \<noteq> ''budget_snapshot_present''"
  shows "map_of (checkpoint_fields cp (Some s)) k = map_of (budget_snapshot_fields s) k"
proof -
  have "k \<noteq> ''checkpoint_id''" "k \<noteq> ''state''" "k \<noteq> ''step_id''" "k \<noteq> ''working_memory_snapshot''"
    "k \<noteq> ''pending_action''" "k \<noteq> ''request_id''" "k \<noteq> ''goal_id''" "k \<noteq> ''belief_state_ref''"
    "k \<noteq> ''retry_count''" "k \<noteq> ''created_at''" "k \<noteq> ''tag_count''"
    using assms(1) by auto
  moreover have "take 4 k \<noteq> ''tag.''"
  proof
    assume "take 4 k = ''tag.''"
    then have "take 1 (take 4 k) = ''t''" by simp
    moreover have "take 1 (take 7 k) = ''b''" using assms(1) by simp
    ultimately show False by simp
  qed
  ultimately show ?thesis
    using assms(2) by (simp add: checkpoint_fields_def Let_def del: map_of_append)
qed

lemma snapshot_lookup:
  fixes cp s
  defines "t \<equiv> map_of (checkpoint_fields cp (Some s))"
  shows "t ''budget_snapshot.snapshot_at_ms'' = map_option encode_u64 (snapshot_at_ms s)"
    and "t ''budget_snapshot.overall_reject_reason'' = map_option hex_encode (overall_reject_reason s)"
    and "t ''budget_snapshot.entry_count'' = Some (to_string_nat (length (entries s)))"
    and "i < length (entries s) \<Longrightarrow>
           t (budget_entry_prefix i @ f) =
             map_of (budget_entry_fields i (entries s ! i)) (budget_entry_prefix i @ f)"
proof -
  have none: "map_of (concat (map (\<lambda>j. budget_entry_fields j (entries s ! j)) [0..<length (entries s)])) k
      = None" if "take 13 k \<noteq> ''budget_entry.''" for k
    using that by (intro map_of_concat_skip) (auto simp: budget_entry_prefix_def dest!: entry_field_keys)
  show "t ''budget_snapshot.snapshot_at_ms'' = map_option encode_u64 (snapshot_at_ms s)"
    unfolding t_def
    by (subst snapshot_lookup_key; cases "snapshot_at_ms s")
       (simp_all add: budget_snapshot_fields_def none del: map_of_append)
  show "t ''budget_snapshot.overall_reject_reason'' = map_option hex_encode (overall_reject_reason s)"
    unfolding t_def
    by (subst snapshot_lookup_key; cases "overall_reject_reason s")
       (simp_all add: budget_snapshot_fields_def none del: map_of_append)
  show "t ''budget_snapshot.entry_count'' = Some (to_string_nat (length (entries s)))"
    unfolding t_def
    by (subst snapshot_lookup_key) (simp_all add: budget_snapshot_fields_def del: map_of_append)
  assume i: "i < length (entries s)"
  let ?k = "budget_entry_prefix i @ f"
  have "?k \<noteq> ''budget_snapshot.snapshot_at_ms''" "?k \<noteq> ''budget_snapshot.overall_reject_reason''"
    "?k \<noteq> ''budget_snapshot.entry_count''" "take 7 ?k = ''budget_''" "?k \<noteq> ''budget_snapshot_present''"
    by (simp_all add: budget_entry_prefix_def)
  then have "t ?k = map_of (concat (map (\<lambda>j. budget_entry_fields j (entries s ! j))
      [0..<length (entries s)])) ?k"
    unfolding t_def
    by (subst snapshot_lookup_key) (simp_all add: budget_snapshot_fields_def del: map_of_append)
  with entry_fields_lookup [OF i, of f] show "t ?k =
      map_of (budget_entry_fields i (entries s ! i)) ?k" by simp
qed

lemma snapshot_written:
  assumes "snapshot_fits s"
  shows "decode_budget_snapshot (map_of (checkpoint_fields cp (Some s))) = Inr s"
proof -
  let ?t = "map_of (checkpoint_fields cp (Some s))"
  have len: "length (entries s) < 2 ^ 32" and r: "\<forall>e\<in>set (entries s). is_i64 (remaining e)"
    using assms by (simp_all add: snapshot_fits_def)
  have count: "required_u32 ?t ''budget_snapshot.entry_count'' = Inr (of_nat (length (entries s)))"
    using len by (simp add: decode_required_integer_field_def decode_optional_integer_field_def
        snapshot_lookup)
  have u: "unat (of_nat (length (entries s)) :: u32) = length (entries s)"
    using len by (simp add: unat_of_nat take_bit_nat_eq_self)
  have "decode_budget_entries ?t 0 (length (entries s)) =
      Inr (map (\<lambda>j. entries s ! j) [0..<0 + length (entries s)])"
    by (rule decode_entries_written [OF snapshot_lookup(4) r]) simp_all
  then have es: "decode_budget_entries ?t 0 (length (entries s)) = Inr (entries s)"
    by (simp add: map_nth)
  show ?thesis
    by (simp add: decode_budget_snapshot_def snapshot_lookup count u es)
qed

lemma record_written:
  assumes "checkpoint_complete cp" and "checkpoint_fits cp"
    and "\<forall>s. snapshot = Some s \<longrightarrow> snapshot_fits s"
  shows "decode_checkpoint_record (map_of (checkpoint_fields cp snapshot)) =
           Inr \<lparr>rec_checkpoint = cp, rec_runtime_budget_snapshot = snapshot\<rparr>"
proof -
  let ?t = "map_of (checkpoint_fields cp snapshot)"
  let ?tags = "value_or (cp_tags cp) []"
  have len: "length ?tags < 2 ^ 32" using assms(2) by (simp add: checkpoint_fits_def)
  have count: "required_u32 ?t ''tag_count'' = Inr (of_nat (length ?tags))"
    using len by (simp add: decode_required_integer_field_def decode_optional_integer_field_def tag_lookup)
  have u: "unat (of_nat (length ?tags) :: u32) = length ?tags"
    using len by (simp add: unat_of_nat take_bit_nat_eq_self)
  have "decode_tags ?t 0 (length ?tags) = Inr (map (\<lambda>j. ?tags ! j) [0..<0 + length ?tags])"
    by (rule decode_tags_written) (simp_all add: tag_lookup)
  then have tags: "decode_tags ?t 0 (length ?tags) = Inr ?tags" by (simp add: map_nth)
  have "decode_u32 (encode_int (if snapshot \<noteq> None then 1 else 0)) = Some (if snapshot \<noteq> None then 1 else 0)"
    by (cases snapshot) (simp_all add: decode_u32_int)
  then have present: "required_u32 ?t ''budget_snapshot_present'' =
      Inr (if snapshot \<noteq> None then 1 else 0)"
    by (simp only: decode_required_integer_field_def decode_optional_integer_field_def tag_lookup(3)
        option.case and_then_simps)
  have pos: "(of_nat (length ?tags) :: u32) > 0 \<longleftrightarrow> ?tags \<noteq> []"
    using u by (metis length_0_conv unat_gt_0 word_neq_0_conv neq0_conv)
  have "(if ?tags \<noteq> [] then Some ?tags else None) = cp_tags cp"
    using assms(1) by (cases "cp_tags cp") (auto simp: checkpoint_complete_def)
  with pos have eq: "cp\<lparr>cp_tags := if (of_nat (length ?tags) :: u32) > 0 then Some ?tags else None\<rparr> = cp"
    by simp
  have dec: "(if (if snapshot \<noteq> None then 1 else 0) = (1 :: u32)
              then and_then (decode_budget_snapshot ?t) (\<lambda>s. Inr (Some s)) else Inr None) = Inr snapshot"
    using assms(3) snapshot_written by (cases snapshot) simp_all
  show ?thesis
    unfolding decode_checkpoint_record_def head_written [OF assms(1,2)] and_then_simps count u tags
      present dec
    using eq by simp
qed

text \<open>
  C19. A checkpoint and its budget snapshot that are written to the durable store, on a
  device that takes the whole file, are read back from it exactly as they were, and no other
  checkpoint's record changes.
\<close>

theorem checkpoint_record_round_trip:
  assumes "checkpoint_complete cp" and "checkpoint_id cp = Some i" and "i \<noteq> []"
    and "checkpoint_fits cp" and "\<forall>s. snapshot = Some s \<longrightarrow> snapshot_fits s"
  shows "case write_durable_checkpoint_record fs io_good base cp snapshot of (fs', stored, detail) \<Rightarrow>
           stored \<and>
           read_durable_checkpoint_record fs' io_good base i =
             Read_Loaded \<lparr>rec_checkpoint = cp, rec_runtime_budget_snapshot = snapshot\<rparr>
               ''checkpoint loaded from durable store'' \<and>
           (\<forall>j. j \<noteq> i \<longrightarrow> read_durable_checkpoint_record fs' io_good base j =
                        read_durable_checkpoint_record fs io_good base j)"
proof -
  let ?content = "write_fields (checkpoint_fields cp snapshot)"
  obtain fs' r detail where p: "publish_record ''checkpoint'' fs io_good
      (record_path ''checkpoints'' base i) ?content = (fs', r, detail)" by (metis prod_cases3)
  from publish_record_good [OF p] publish_record_other [OF p]
  have r: r "fs_files fs' (record_path ''checkpoints'' base i) = Some ?content"
    and other: "\<And>j. j \<noteq> i \<Longrightarrow> fs_files fs' (record_path ''checkpoints'' base j) =
                       fs_files fs (record_path ''checkpoints'' base j)" by blast+
  have "write_durable_checkpoint_record fs io_good base cp snapshot = (fs', r, detail)"
    using assms(2,3) p by (simp add: write_durable_checkpoint_record_def checkpoint_record_path_def)
  moreover have "read_durable_checkpoint_record fs' io_good base i =
             Read_Loaded \<lparr>rec_checkpoint = cp, rec_runtime_budget_snapshot = snapshot\<rparr>
               ''checkpoint loaded from durable store''"
    using assms(2) r record_written [OF assms(1,4,5)]
    by (simp add: read_durable_checkpoint_record_def checkpoint_record_path_def
        parse_checkpoint_fields io_good_def)
  ultimately show ?thesis
    using r(1) other by (simp add: read_durable_checkpoint_record_def checkpoint_record_path_def)
qed

definition sample_checkpoint :: Checkpoint where
  "sample_checkpoint =
     \<lparr>checkpoint_id = Some ''cp'', cp_state = Some CS_WaitingTool, step_id = Some ''s'',
      working_memory_snapshot = Some ''w'', pending_action = Some ''a=b'', cp_request_id = None,
      cp_goal_id = Some ''g'', belief_state_ref = None, cp_retry_count = Some 2,
      cp_created_at = Some 7, cp_tags = Some [''rt.schema_version=1'']\<rparr>"

definition sample_snapshot :: BudgetSnapshot where
  "sample_snapshot =
     \<lparr>snapshot_at_ms = Some 9,
      entries = [\<lparr>budget_type = Token, current = 3, max_limit = 2, remaining = - 1,
                  reject_reason = Some ''over''\<rparr>],
      overall_reject_reason = Some ''over''\<rparr>"

theorem checkpoint_record_round_trip_witness:
  "read_durable_checkpoint_record
     (fst (write_durable_checkpoint_record \<lparr>fs_files = Map.empty\<rparr> io_good ''/var'' sample_checkpoint
             (Some sample_snapshot))) io_good ''/var'' ''cp'' =
   Read_Loaded \<lparr>rec_checkpoint = sample_checkpoint, rec_runtime_budget_snapshot = Some sample_snapshot\<rparr>
     ''checkpoint loaded from durable store''"
proof -
  have "checkpoint_complete sample_checkpoint" "checkpoint_fits sample_checkpoint"
    "\<forall>s. Some sample_snapshot = Some s \<longrightarrow> snapshot_fits s"
    by (simp_all add: checkpoint_complete_def checkpoint_fits_def snapshot_fits_def
        sample_checkpoint_def sample_snapshot_def is_i64_def)
  from checkpoint_record_round_trip [OF this(1) _ _ this(2,3), where i = "''cp''" and
      fs = "\<lparr>fs_files = Map.empty\<rparr>" and base = "''/var''"]
  have "checkpoint_id sample_checkpoint = Some ''cp'' \<Longrightarrow> ?thesis" by (simp split: prod.splits)
  then show ?thesis by (simp add: sample_checkpoint_def)
qed

text \<open>
  A count above 32 bits is accepted and truncated: \<^verbatim>\<open>stoul\<close> reads 64 bits and the cast
  keeps the low half.
\<close>

lemma decode_u32_truncates: "decode_u32 ''4294967297'' = Some 1"
proof -
  have "to_string_nat 4294967297 = ''4294967297''" by (simp add: to_string_nat.simps digit_char_def)
  then have "scan_integer ''4294967297'' = Some (False, 4294967297)"
    using scan_integer_nat [of 4294967297] by simp
  then show ?thesis by (simp add: decode_u32_def stoul_def stoull_def)
qed

end
