(* ===== verification/Checkpoint_Manager.thy ===== *)
theory Checkpoint_Manager
  imports Checkpoint_Record Session_Types Agent_Fsm Structured_Log
begin

text \<open>
  Checkpoints: the build and resume types (\<^verbatim>\<open>runtime/include/checkpoint/CheckpointBuildTypes.h\<close>,
  \<^verbatim>\<open>runtime/include/recovery/ResumePlan.h\<close>), the state mapper
  (\<^verbatim>\<open>runtime/src/checkpoint/CheckpointStateMapper.cpp\<close>) and the checkpoint manager
  (\<^verbatim>\<open>runtime/src/checkpoint/CheckpointManager.cpp\<close>). The manager keeps two tables, the
  stored checkpoints and the budget snapshots built but not yet saved; both are partial
  functions. The durable store is the file system argument.
\<close>

section \<open>Consistency issues and reports\<close>

datatype CheckpointConsistencyIssue =
    Issue_None | MissingCheckpointId | MissingStepId | MissingWorkingMemorySnapshot
  | TransitionRejected | InvalidCheckpointState | MissingPendingAction | MissingVersionTag
  | UnsupportedSchemaVersion | UnsupportedFsmStateVersion | UnsupportedBudgetSchemaVersion

fun checkpoint_consistency_issue_name :: "CheckpointConsistencyIssue \<Rightarrow> string" where
  "checkpoint_consistency_issue_name Issue_None = ''None''"
| "checkpoint_consistency_issue_name MissingCheckpointId = ''MissingCheckpointId''"
| "checkpoint_consistency_issue_name MissingStepId = ''MissingStepId''"
| "checkpoint_consistency_issue_name MissingWorkingMemorySnapshot = ''MissingWorkingMemorySnapshot''"
| "checkpoint_consistency_issue_name TransitionRejected = ''TransitionRejected''"
| "checkpoint_consistency_issue_name InvalidCheckpointState = ''InvalidCheckpointState''"
| "checkpoint_consistency_issue_name MissingPendingAction = ''MissingPendingAction''"
| "checkpoint_consistency_issue_name MissingVersionTag = ''MissingVersionTag''"
| "checkpoint_consistency_issue_name UnsupportedSchemaVersion = ''UnsupportedSchemaVersion''"
| "checkpoint_consistency_issue_name UnsupportedFsmStateVersion = ''UnsupportedFsmStateVersion''"
| "checkpoint_consistency_issue_name UnsupportedBudgetSchemaVersion = ''UnsupportedBudgetSchemaVersion''"

fun checkpoint_consistency_error_code :: "CheckpointConsistencyIssue \<Rightarrow> RuntimeErrorCode option" where
  "checkpoint_consistency_error_code Issue_None = None"
| "checkpoint_consistency_error_code MissingCheckpointId = Some RT_E_202_STATE_INCONSISTENT"
| "checkpoint_consistency_error_code MissingStepId = Some RT_E_202_STATE_INCONSISTENT"
| "checkpoint_consistency_error_code MissingWorkingMemorySnapshot = Some RT_E_202_STATE_INCONSISTENT"
| "checkpoint_consistency_error_code TransitionRejected = Some RT_E_202_STATE_INCONSISTENT"
| "checkpoint_consistency_error_code InvalidCheckpointState = Some RT_E_202_STATE_INCONSISTENT"
| "checkpoint_consistency_error_code MissingPendingAction = Some RT_E_202_STATE_INCONSISTENT"
| "checkpoint_consistency_error_code MissingVersionTag = Some RT_E_202_STATE_INCONSISTENT"
| "checkpoint_consistency_error_code UnsupportedSchemaVersion = Some RT_E_412_RESUME_REJECTED"
| "checkpoint_consistency_error_code UnsupportedFsmStateVersion = Some RT_E_412_RESUME_REJECTED"
| "checkpoint_consistency_error_code UnsupportedBudgetSchemaVersion = Some RT_E_412_RESUME_REJECTED"

record CheckpointBuildRequest =
  transition_outcome :: StateTransitionOutcome
  cb_checkpoint_id :: string
  cb_step_id :: string
  cb_working_memory_snapshot :: string
  cb_pending_action :: "string option"
  cb_request_id :: "string option"
  cb_goal_id :: "string option"
  cb_belief_state_ref :: "string option"
  cb_retry_count :: "u32 option"
  cb_created_at_ms :: "int option"
  cb_runtime_budget_snapshot :: "BudgetSnapshot option"
  cb_tags :: "string list"

record CheckpointConsistencyReport =
  consistent :: bool
  issue :: CheckpointConsistencyIssue
  report_error_code :: "RuntimeErrorCode option"
  report_detail :: string

record CheckpointBuildResult =
  built_checkpoint :: "Checkpoint option"
  build_report :: CheckpointConsistencyReport
  build_runtime_budget_snapshot :: "BudgetSnapshot option"

definition built :: "CheckpointBuildResult \<Rightarrow> bool" where
  "built r \<longleftrightarrow> built_checkpoint r \<noteq> None \<and> consistent (build_report r)"

record CheckpointPersistResult =
  persisted :: bool
  persisted_ref :: "string option"
  persist_error_code :: "RuntimeErrorCode option"
  persist_detail :: string

record CheckpointLoadResult =
  loaded_checkpoint :: "Checkpoint option"
  load_report :: CheckpointConsistencyReport
  load_error_code :: "RuntimeErrorCode option"
  load_detail :: string
  load_runtime_budget_snapshot :: "BudgetSnapshot option"

definition loaded :: "CheckpointLoadResult \<Rightarrow> bool" where
  "loaded r \<longleftrightarrow>
     loaded_checkpoint r \<noteq> None \<and> consistent (load_report r) \<and> load_error_code r = None"

definition make_checkpoint_consistent_report :: "string \<Rightarrow> CheckpointConsistencyReport"
where [outcome_simps]:
  "make_checkpoint_consistent_report detail =
     \<lparr>consistent = True, issue = Issue_None, report_error_code = None, report_detail = detail\<rparr>"

definition make_checkpoint_rejected_report ::
  "CheckpointConsistencyIssue \<Rightarrow> string \<Rightarrow> CheckpointConsistencyReport"
where [outcome_simps]:
  "make_checkpoint_rejected_report i detail =
     \<lparr>consistent = False, issue = i, report_error_code = checkpoint_consistency_error_code i,
      report_detail = detail\<rparr>"

section \<open>Version tags\<close>

definition make_checkpoint_tag :: "string \<Rightarrow> string \<Rightarrow> string" where
  "make_checkpoint_tag k v = k @ ''='' @ v"

fun find_checkpoint_tag_value :: "string list \<Rightarrow> string \<Rightarrow> string option" where
  "find_checkpoint_tag_value [] k = None"
| "find_checkpoint_tag_value (candidate # cs) k =
     (if take (length k + 1) candidate = k @ ''='' then Some (drop (length k + 1) candidate)
      else find_checkpoint_tag_value cs k)"

definition kRuntimeCheckpointSchemaVersionTag :: string where
  "kRuntimeCheckpointSchemaVersionTag = ''rt.schema_version''"

definition kRuntimeCheckpointFsmStateEnumVersionTag :: string where
  "kRuntimeCheckpointFsmStateEnumVersionTag = ''rt.fsm_state_enum_version''"

definition kRuntimeCheckpointBudgetSchemaVersionTag :: string where
  "kRuntimeCheckpointBudgetSchemaVersionTag = ''rt.budget_schema_version''"

definition kRuntimeCheckpointSchemaVersion :: string where
  "kRuntimeCheckpointSchemaVersion = ''1''"

definition kRuntimeCheckpointFsmStateEnumVersion :: string where
  "kRuntimeCheckpointFsmStateEnumVersion = ''1''"

definition kRuntimeCheckpointBudgetSchemaVersion :: string where
  "kRuntimeCheckpointBudgetSchemaVersion = ''1''"

definition append_checkpoint_tag_if_missing :: "string list \<Rightarrow> string \<Rightarrow> string \<Rightarrow> string list" where
  "append_checkpoint_tag_if_missing tags k v =
     (if find_checkpoint_tag_value tags k = None then tags @ [make_checkpoint_tag k v] else tags)"

definition with_runtime_checkpoint_version_tags :: "string list \<Rightarrow> string list" where
  "with_runtime_checkpoint_version_tags tags =
     (let merged = append_checkpoint_tag_if_missing tags
                     kRuntimeCheckpointSchemaVersionTag kRuntimeCheckpointSchemaVersion;
          merged = append_checkpoint_tag_if_missing merged
                     kRuntimeCheckpointFsmStateEnumVersionTag kRuntimeCheckpointFsmStateEnumVersion;
          merged = append_checkpoint_tag_if_missing merged
                     kRuntimeCheckpointBudgetSchemaVersionTag kRuntimeCheckpointBudgetSchemaVersion
      in merged)"

definition runtime_checkpoint_version_tags :: "string list" where
  "runtime_checkpoint_version_tags =
     [make_checkpoint_tag kRuntimeCheckpointSchemaVersionTag kRuntimeCheckpointSchemaVersion,
      make_checkpoint_tag kRuntimeCheckpointFsmStateEnumVersionTag
        kRuntimeCheckpointFsmStateEnumVersion,
      make_checkpoint_tag kRuntimeCheckpointBudgetSchemaVersionTag
        kRuntimeCheckpointBudgetSchemaVersion]"

section \<open>Resume plans\<close>

datatype ResumePlanViolation =
    Violation_NoResume | Violation_CheckpointInvalid | Violation_MissingCheckpointReference
  | Violation_UnsupportedCheckpointState | Violation_MissingPendingAction

fun resume_plan_violation_name :: "ResumePlanViolation \<Rightarrow> string" where
  "resume_plan_violation_name Violation_NoResume = ''None''"
| "resume_plan_violation_name Violation_CheckpointInvalid = ''CheckpointInvalid''"
| "resume_plan_violation_name Violation_MissingCheckpointReference = ''MissingCheckpointReference''"
| "resume_plan_violation_name Violation_UnsupportedCheckpointState = ''UnsupportedCheckpointState''"
| "resume_plan_violation_name Violation_MissingPendingAction = ''MissingPendingAction''"

fun resume_plan_violation_error_code :: "ResumePlanViolation \<Rightarrow> RuntimeErrorCode option" where
  "resume_plan_violation_error_code Violation_NoResume = None"
| "resume_plan_violation_error_code Violation_CheckpointInvalid = Some RT_E_202_STATE_INCONSISTENT"
| "resume_plan_violation_error_code Violation_MissingCheckpointReference =
     Some RT_E_202_STATE_INCONSISTENT"
| "resume_plan_violation_error_code Violation_MissingPendingAction =
     Some RT_E_202_STATE_INCONSISTENT"
| "resume_plan_violation_error_code Violation_UnsupportedCheckpointState =
     Some RT_E_412_RESUME_REJECTED"

fun resume_target_state :: "CheckpointState \<Rightarrow> RuntimeState option" where
  "resume_target_state CS_Running = Some Reasoning"
| "resume_target_state CS_Paused = Some WaitingClarify"
| "resume_target_state CS_WaitingConfirm = Some WaitingConfirm"
| "resume_target_state CS_WaitingTool = Some WaitingExternal"
| "resume_target_state CS_Failed = None"
| "resume_target_state CS_Succeeded = None"
| "resume_target_state CS_Unspecified = None"
| "resume_target_state (CS_Raw i) = None"

record ResumePlan =
  plan_checkpoint_ref :: string
  target_state :: RuntimeState
  plan_checkpoint_state :: CheckpointState
  resume_token :: string
  resume_reason :: string
  plan_pending_action :: "string option"
  policy_snapshot_ref :: "string option"
  requires_operator_intervention :: bool

record ResumePlanDecision =
  resumable :: bool
  plan :: "ResumePlan option"
  violation :: ResumePlanViolation
  plan_error_code :: "RuntimeErrorCode option"
  plan_detail :: string

definition make_resume_plan_decision :: "ResumePlan \<Rightarrow> string \<Rightarrow> ResumePlanDecision"
where [outcome_simps]:
  "make_resume_plan_decision p detail =
     \<lparr>resumable = True, plan = Some p, violation = Violation_NoResume, plan_error_code = None,
      plan_detail = detail\<rparr>"

definition make_rejected_resume_plan ::
  "ResumePlanViolation \<Rightarrow> string \<Rightarrow> RuntimeErrorCode option \<Rightarrow> ResumePlanDecision"
where [outcome_simps]:
  "make_rejected_resume_plan v detail code =
     \<lparr>resumable = False, plan = None, violation = v,
      plan_error_code = (if code \<noteq> None then code else resume_plan_violation_error_code v),
      plan_detail = detail\<rparr>"

section \<open>The state mapper\<close>

fun to_checkpoint_state :: "RuntimeState \<Rightarrow> CheckpointState option" where
  "to_checkpoint_state Idle = Some CS_Unspecified"
| "to_checkpoint_state Receiving = Some CS_Running"
| "to_checkpoint_state Planning = Some CS_Running"
| "to_checkpoint_state Reasoning = Some CS_Running"
| "to_checkpoint_state ToolCalling = Some CS_Running"
| "to_checkpoint_state Reflecting = Some CS_Running"
| "to_checkpoint_state Responding = Some CS_Running"
| "to_checkpoint_state Auditing = Some CS_Running"
| "to_checkpoint_state Persisting = Some CS_Running"
| "to_checkpoint_state WaitingClarify = Some CS_Paused"
| "to_checkpoint_state WaitingConfirm = Some CS_WaitingConfirm"
| "to_checkpoint_state WaitingExternal = Some CS_WaitingTool"
| "to_checkpoint_state Completed = Some CS_Succeeded"
| "to_checkpoint_state Failed = Some CS_Failed"
| "to_checkpoint_state FailedSafe = Some CS_Failed"
| "to_checkpoint_state Degraded = Some CS_Failed"
| "to_checkpoint_state SafeMode = Some CS_Failed"
| "to_checkpoint_state (RuntimeState_Raw w) = None"

fun can_resume_from :: "CheckpointState \<Rightarrow> bool" where
  "can_resume_from CS_Running = True"
| "can_resume_from CS_Paused = True"
| "can_resume_from CS_WaitingConfirm = True"
| "can_resume_from CS_WaitingTool = True"
| "can_resume_from CS_Failed = False"
| "can_resume_from CS_Succeeded = False"
| "can_resume_from CS_Unspecified = False"
| "can_resume_from (CS_Raw i) = False"

definition resolve_checkpoint_state :: "StateTransitionOutcome \<Rightarrow> CheckpointState option" where
  "resolve_checkpoint_state outcome =
     (let mapped_state = to_checkpoint_state (resolved_state outcome)
      in if mapped_state = None \<or> mapped_state = Some CS_Unspecified then None
         else if checkpoint_state (checkpoint_hint outcome) \<noteq> None \<and>
                 checkpoint_state (checkpoint_hint outcome) \<noteq> mapped_state then None
         else mapped_state)"

section \<open>Consistency\<close>

definition validate_version_tag ::
  "Checkpoint \<Rightarrow> string \<Rightarrow> string \<Rightarrow> CheckpointConsistencyIssue \<Rightarrow> CheckpointConsistencyReport"
where
  "validate_version_tag cp k expected unsupported_issue =
     (case (case cp_tags cp of None \<Rightarrow> None | Some tags \<Rightarrow> find_checkpoint_tag_value tags k) of
        None \<Rightarrow> make_checkpoint_rejected_report MissingVersionTag (''checkpoint is missing '' @ k)
      | Some v \<Rightarrow>
          if v \<noteq> expected then
            make_checkpoint_rejected_report unsupported_issue
              (''checkpoint '' @ k @ '' is not compatible with runtime'')
          else make_checkpoint_consistent_report [])"

definition evaluate_checkpoint_consistency :: "Checkpoint \<Rightarrow> CheckpointConsistencyReport" where
  "evaluate_checkpoint_consistency cp =
     (if \<not> has_non_empty_value (checkpoint_id cp) then
        make_checkpoint_rejected_report MissingCheckpointId ''checkpoint_id must be populated''
      else if \<not> has_non_empty_value (step_id cp) then
        make_checkpoint_rejected_report MissingStepId ''step_id must be populated''
      else if \<not> has_non_empty_value (working_memory_snapshot cp) then
        make_checkpoint_rejected_report MissingWorkingMemorySnapshot
          ''working_memory_snapshot must be populated''
      else if cp_state cp = None \<or> cp_state cp = Some CS_Unspecified then
        make_checkpoint_rejected_report InvalidCheckpointState ''checkpoint state must be concrete''
      else if pending_action cp = None then
        make_checkpoint_rejected_report MissingPendingAction
          ''pending_action must be present (use empty string for none)''
      else if present_but_empty (cp_request_id cp) then
        make_checkpoint_rejected_report InvalidCheckpointState
          ''request_id must be non-empty when present''
      else if present_but_empty (cp_goal_id cp) then
        make_checkpoint_rejected_report InvalidCheckpointState
          ''goal_id must be non-empty when present''
      else if present_but_empty (belief_state_ref cp) then
        make_checkpoint_rejected_report InvalidCheckpointState
          ''belief_state_ref must be non-empty when present''
      else if cp_created_at cp \<noteq> None \<and> the (cp_created_at cp) \<le> 0 then
        make_checkpoint_rejected_report InvalidCheckpointState
          ''created_at must be a positive timestamp when present''
      else if cp_tags cp = Some [] then
        make_checkpoint_rejected_report InvalidCheckpointState
          ''tags must contain at least one item when present''
      else if (\<exists>t\<in>set (value_or (cp_tags cp) []). empty_string t) then
        make_checkpoint_rejected_report InvalidCheckpointState ''tags must not contain empty strings''
      else if is_waiting_checkpoint_state (the (cp_state cp)) \<and> pending_action cp = Some [] then
        make_checkpoint_rejected_report MissingPendingAction
          ''waiting checkpoints must persist non-empty pending_action''
      else
        (let r1 = validate_version_tag cp kRuntimeCheckpointSchemaVersionTag
                    kRuntimeCheckpointSchemaVersion UnsupportedSchemaVersion;
             r2 = validate_version_tag cp kRuntimeCheckpointFsmStateEnumVersionTag
                    kRuntimeCheckpointFsmStateEnumVersion UnsupportedFsmStateVersion;
             r3 = validate_version_tag cp kRuntimeCheckpointBudgetSchemaVersionTag
                    kRuntimeCheckpointBudgetSchemaVersion UnsupportedBudgetSchemaVersion
         in if \<not> consistent r1 then r1
            else if \<not> consistent r2 then r2
            else if \<not> consistent r3 then r3
            else make_checkpoint_consistent_report ''checkpoint is structurally resumable''))"

definition synthesize_resume_plan :: "Checkpoint \<Rightarrow> ResumePlanDecision" where
  "synthesize_resume_plan cp =
     (let report = evaluate_checkpoint_consistency cp
      in if \<not> consistent report then
           make_rejected_resume_plan Violation_CheckpointInvalid (report_detail report)
             (report_error_code report)
         else if \<not> has_non_empty_value (checkpoint_id cp) then
           make_rejected_resume_plan Violation_MissingCheckpointReference
             ''checkpoint_id is required to build a resume plan'' None
         else
           (case resume_target_state (the (cp_state cp)) of
              None \<Rightarrow>
                make_rejected_resume_plan Violation_UnsupportedCheckpointState
                  ''terminal or unspecified checkpoints cannot be resumed'' None
            | Some target \<Rightarrow>
                if is_waiting_checkpoint_state (the (cp_state cp)) \<and>
                   \<not> has_non_empty_value (pending_action cp) then
                  make_rejected_resume_plan Violation_MissingPendingAction
                    ''resume plan requires pending_action for waiting checkpoints'' None
                else
                  make_resume_plan_decision
                    \<lparr>plan_checkpoint_ref = the (checkpoint_id cp), target_state = target,
                     plan_checkpoint_state = the (cp_state cp), resume_token = [],
                     resume_reason = ''resume plan synthesized from checkpoint'',
                     plan_pending_action = pending_action cp, policy_snapshot_ref = None,
                     requires_operator_intervention = (cp_state cp = Some CS_WaitingConfirm)\<rparr>
                    ''checkpoint is resumable''))"

definition checkpoint_log_level :: "bool \<Rightarrow> RuntimeErrorCode option \<Rightarrow> LogLevel" where
  "checkpoint_log_level success code =
     (if success then Level_Info
      else if code = Some RT_E_410_CHECKPOINT_CORRUPT \<or> code = Some RT_E_411_CHECKPOINT_SAVE_FAILED
      then Level_Error else Level_Warn)"

fun checkpoint_state_name :: "CheckpointState \<Rightarrow> string" where
  "checkpoint_state_name CS_Unspecified = ''Unspecified''"
| "checkpoint_state_name CS_Running = ''Running''"
| "checkpoint_state_name CS_Paused = ''Paused''"
| "checkpoint_state_name CS_WaitingConfirm = ''WaitingConfirm''"
| "checkpoint_state_name CS_WaitingTool = ''WaitingTool''"
| "checkpoint_state_name CS_Failed = ''Failed''"
| "checkpoint_state_name CS_Succeeded = ''Succeeded''"
| "checkpoint_state_name (CS_Raw i) = ''Unknown''"

section \<open>The manager\<close>

record StoredCheckpointRecord =
  stored_checkpoint :: Checkpoint
  stored_runtime_budget_snapshot :: "BudgetSnapshot option"

record CheckpointManager =
  pending_runtime_budget_snapshots :: "string \<rightharpoonup> BudgetSnapshot option"
  stored_checkpoints :: "string \<rightharpoonup> StoredCheckpointRecord"
  durable_state_root :: "string option"
  cm_logger :: logger
  cm_runtime_instance_id :: "string option"

definition new_checkpoint_manager :: CheckpointManager where
  "new_checkpoint_manager =
     \<lparr>pending_runtime_budget_snapshots = Map.empty, stored_checkpoints = Map.empty,
      durable_state_root = None, cm_logger = None, cm_runtime_instance_id = None\<rparr>"

definition checkpoint_set_logger ::
  "CheckpointManager \<Rightarrow> logger \<Rightarrow> string option \<Rightarrow> CheckpointManager"
where
  "checkpoint_set_logger m lg i = m\<lparr>cm_logger := lg, cm_runtime_instance_id := i\<rparr>"

definition set_durable_state_root :: "CheckpointManager \<Rightarrow> string option \<Rightarrow> CheckpointManager" where
  "set_durable_state_root m state_root =
     m\<lparr>durable_state_root := (if state_root \<noteq> None \<and> state_root \<noteq> Some [] then state_root else None)\<rparr>"

definition checkpoint_log ::
  "CheckpointManager \<Rightarrow> bool \<Rightarrow> RuntimeErrorCode option \<Rightarrow> string \<Rightarrow>
   (attribute_map \<Rightarrow> attribute_map) list \<Rightarrow> int \<Rightarrow> CheckpointManager"
where
  "checkpoint_log m success code event_name fs now_ms =
     m\<lparr>cm_logger := emit_runtime_log (cm_logger m) (checkpoint_log_level success code) event_name
                      ''checkpoint_manager'' (cm_runtime_instance_id m)
                      (build_attrs fs Map.empty) now_ms\<rparr>"

definition checkpoint_state_attrs :: "CheckpointState option \<Rightarrow> (attribute_map \<Rightarrow> attribute_map) list" where
  "checkpoint_state_attrs s =
     (case s of None \<Rightarrow> []
      | Some v \<Rightarrow> [add_string_attr ''checkpoint_state'' (checkpoint_state_name v)])"

subsection \<open>Building\<close>

definition build_checkpoint_core ::
  "CheckpointManager \<Rightarrow> CheckpointBuildRequest \<Rightarrow> CheckpointManager \<times> CheckpointBuildResult"
where
  "build_checkpoint_core m request =
     (if \<not> accepted (transition_outcome request) then
        (m, \<lparr>built_checkpoint = None,
             build_report = make_checkpoint_rejected_report TransitionRejected
               ''checkpoint build requires an accepted transition outcome'',
             build_runtime_budget_snapshot = None\<rparr>)
      else
        (case resolve_checkpoint_state (transition_outcome request) of
           None \<Rightarrow>
             (m, \<lparr>built_checkpoint = None,
                  build_report = make_checkpoint_rejected_report InvalidCheckpointState
                    ''resolved runtime state cannot be folded into a compatible checkpoint state'',
                  build_runtime_budget_snapshot = None\<rparr>)
         | Some state \<Rightarrow>
             (let cp = \<lparr>checkpoint_id = Some (cb_checkpoint_id request), cp_state = Some state,
                        step_id = Some (cb_step_id request),
                        working_memory_snapshot = Some (cb_working_memory_snapshot request),
                        pending_action = (if cb_pending_action request \<noteq> None
                                          then cb_pending_action request else Some []),
                        cp_request_id = cb_request_id request, cp_goal_id = cb_goal_id request,
                        belief_state_ref = cb_belief_state_ref request,
                        cp_retry_count = cb_retry_count request,
                        cp_created_at = cb_created_at_ms request,
                        cp_tags = Some (with_runtime_checkpoint_version_tags (cb_tags request))\<rparr>;
                  report = evaluate_checkpoint_consistency cp;
                  m' = (if consistent report \<and> checkpoint_id cp \<noteq> None
                        then m\<lparr>pending_runtime_budget_snapshots :=
                                 (pending_runtime_budget_snapshots m)
                                   (the (checkpoint_id cp) \<mapsto> cb_runtime_budget_snapshot request)\<rparr>
                        else m)
              in (m', \<lparr>built_checkpoint = (if consistent report then Some cp else None),
                       build_report = report,
                       build_runtime_budget_snapshot = cb_runtime_budget_snapshot request\<rparr>))))"

definition build_checkpoint_attrs ::
  "CheckpointBuildRequest \<Rightarrow> CheckpointBuildResult \<Rightarrow> (attribute_map \<Rightarrow> attribute_map) list"
where
  "build_checkpoint_attrs request r =
     [add_string_attr ''operation'' ''build_checkpoint'',
      add_string_attr ''checkpoint_id'' (cb_checkpoint_id request),
      add_string_attr ''step_id'' (cb_step_id request),
      add_string_attr ''resolved_runtime_state''
        (runtime_state_name (resolved_state (transition_outcome request))),
      add_bool_attr ''transition_accepted'' (accepted (transition_outcome request)),
      add_bool_attr ''built'' (built r),
      add_bool_attr ''runtime_budget_snapshot_present'' (cb_runtime_budget_snapshot request \<noteq> None),
      add_string_attr ''consistency_issue''
        (checkpoint_consistency_issue_name (issue (build_report r)))] @
     (case built_checkpoint r of None \<Rightarrow> [] | Some cp \<Rightarrow> checkpoint_state_attrs (cp_state cp)) @
     error_code_attrs (report_error_code (build_report r)) @
     [add_string_attr ''detail'' (report_detail (build_report r))]"

definition build_checkpoint ::
  "CheckpointManager \<Rightarrow> CheckpointBuildRequest \<Rightarrow> int \<Rightarrow> CheckpointManager \<times> CheckpointBuildResult"
where
  "build_checkpoint m request now_ms =
     (let (m', r) = build_checkpoint_core m request
      in (checkpoint_log m' (built r) (report_error_code (build_report r)) ''runtime.checkpoint.build''
            (build_checkpoint_attrs request r) now_ms, r))"

subsection \<open>Saving\<close>

definition save_checkpoint_core ::
  "CheckpointManager \<Rightarrow> FileSystem \<Rightarrow> Io \<Rightarrow> Checkpoint \<Rightarrow> BudgetSnapshot option \<Rightarrow>
   CheckpointManager \<times> FileSystem \<times> CheckpointPersistResult"
where
  "save_checkpoint_core m fs io cp snapshot =
     (let report = evaluate_checkpoint_consistency cp
      in if \<not> consistent report then
           (m, fs, \<lparr>persisted = False, persisted_ref = None,
                    persist_error_code = Some RT_E_411_CHECKPOINT_SAVE_FAILED,
                    persist_detail = report_detail report\<rparr>)
         else
           (let i = the (checkpoint_id cp);
                m' = m\<lparr>stored_checkpoints := (stored_checkpoints m)
                          (i \<mapsto> \<lparr>stored_checkpoint = cp, stored_runtime_budget_snapshot = snapshot\<rparr>),
                       pending_runtime_budget_snapshots :=
                         (pending_runtime_budget_snapshots m)(i := None)\<rparr>;
                (fs', stored, detail) =
                  (case durable_state_root m of
                     None \<Rightarrow> (fs, True, ''checkpoint persisted in memory store'')
                   | Some state_root \<Rightarrow> write_durable_checkpoint_record fs io state_root cp snapshot)
            in (m', fs',
                if \<not> stored then
                  \<lparr>persisted = False, persisted_ref = None,
                   persist_error_code = Some RT_E_411_CHECKPOINT_SAVE_FAILED,
                   persist_detail = detail\<rparr>
                else
                  \<lparr>persisted = True, persisted_ref = checkpoint_id cp, persist_error_code = None,
                   persist_detail = detail\<rparr>)))"

definition save_checkpoint_attrs ::
  "Checkpoint \<Rightarrow> BudgetSnapshot option \<Rightarrow> CheckpointPersistResult \<Rightarrow>
   (attribute_map \<Rightarrow> attribute_map) list"
where
  "save_checkpoint_attrs cp snapshot r =
     [add_string_attr ''operation'' ''save_checkpoint'',
      add_optional_string_attr ''checkpoint_ref'' (checkpoint_id cp)] @
     checkpoint_state_attrs (cp_state cp) @
     [add_bool_attr ''persisted'' (persisted r),
      add_bool_attr ''runtime_budget_snapshot_present'' (snapshot \<noteq> None)] @
     error_code_attrs (persist_error_code r) @
     [add_string_attr ''detail'' (persist_detail r)]"

definition save_with_snapshot ::
  "CheckpointManager \<Rightarrow> FileSystem \<Rightarrow> Io \<Rightarrow> Checkpoint \<Rightarrow> BudgetSnapshot option \<Rightarrow> int \<Rightarrow>
   CheckpointManager \<times> FileSystem \<times> CheckpointPersistResult"
where
  "save_with_snapshot m fs io cp snapshot now_ms =
     (let (m', fs', r) = save_checkpoint_core m fs io cp snapshot
      in (checkpoint_log m' (persisted r) (persist_error_code r) ''runtime.checkpoint.save''
            (save_checkpoint_attrs cp snapshot r) now_ms, fs', r))"

definition take_pending_snapshot ::
  "CheckpointManager \<Rightarrow> Checkpoint \<Rightarrow> CheckpointManager \<times> BudgetSnapshot option"
where
  "take_pending_snapshot m cp =
     (case checkpoint_id cp of
        None \<Rightarrow> (m, None)
      | Some i \<Rightarrow>
          (case pending_runtime_budget_snapshots m i of
             None \<Rightarrow> (m, None)
           | Some snapshot \<Rightarrow>
               (m\<lparr>pending_runtime_budget_snapshots :=
                    (pending_runtime_budget_snapshots m)(i := None)\<rparr>, snapshot)))"

definition save_checkpoint ::
  "CheckpointManager \<Rightarrow> FileSystem \<Rightarrow> Io \<Rightarrow> Checkpoint \<Rightarrow> int \<Rightarrow>
   CheckpointManager \<times> FileSystem \<times> CheckpointPersistResult"
where
  "save_checkpoint m fs io cp now_ms =
     (let (m', snapshot) = take_pending_snapshot m cp
      in save_with_snapshot m' fs io cp snapshot now_ms)"

subsection \<open>Loading\<close>

definition failed_load :: "CheckpointConsistencyIssue \<Rightarrow> string \<Rightarrow> CheckpointLoadResult" where
  "failed_load i detail =
     \<lparr>loaded_checkpoint = None, load_report = make_checkpoint_rejected_report i detail,
      load_error_code = Some RT_E_410_CHECKPOINT_CORRUPT, load_detail = detail,
      load_runtime_budget_snapshot = None\<rparr>"

definition checked_load ::
  "Checkpoint \<Rightarrow> BudgetSnapshot option \<Rightarrow> string \<Rightarrow> CheckpointLoadResult"
where
  "checked_load cp snapshot detail =
     (let report = evaluate_checkpoint_consistency cp
      in \<lparr>loaded_checkpoint = (if consistent report then Some cp else None), load_report = report,
          load_error_code = (if consistent report then None else report_error_code report),
          load_detail = (if consistent report then detail else report_detail report),
          load_runtime_budget_snapshot = (if consistent report then snapshot else None)\<rparr>)"

definition load_checkpoint_core ::
  "CheckpointManager \<Rightarrow> FileSystem \<Rightarrow> Io \<Rightarrow> string \<Rightarrow> CheckpointManager \<times> CheckpointLoadResult"
where
  "load_checkpoint_core m fs io checkpoint_ref =
     (case stored_checkpoints m checkpoint_ref of
        Some r \<Rightarrow>
          (m, checked_load (stored_checkpoint r) (stored_runtime_budget_snapshot r)
                ''checkpoint loaded from memory store'')
      | None \<Rightarrow>
          (case durable_state_root m of
             None \<Rightarrow> (m, failed_load MissingCheckpointId ''checkpoint not found in memory store'')
           | Some state_root \<Rightarrow>
               (case read_durable_checkpoint_record fs io state_root checkpoint_ref of
                  Read_NotFound detail \<Rightarrow> (m, failed_load MissingCheckpointId detail)
                | Read_Corrupt detail \<Rightarrow> (m, failed_load InvalidCheckpointState detail)
                | Read_Loaded rec detail \<Rightarrow>
                    (m\<lparr>stored_checkpoints := (stored_checkpoints m)
                         (checkpoint_ref \<mapsto>
                            \<lparr>stored_checkpoint = rec_checkpoint rec,
                             stored_runtime_budget_snapshot = rec_runtime_budget_snapshot rec\<rparr>)\<rparr>,
                     checked_load (rec_checkpoint rec) (rec_runtime_budget_snapshot rec) detail))))"

definition load_checkpoint_attrs ::
  "string \<Rightarrow> CheckpointLoadResult \<Rightarrow> (attribute_map \<Rightarrow> attribute_map) list"
where
  "load_checkpoint_attrs checkpoint_ref r =
     [add_string_attr ''operation'' ''load_checkpoint'',
      add_string_attr ''checkpoint_ref'' checkpoint_ref,
      add_bool_attr ''loaded'' (loaded r),
      add_bool_attr ''runtime_budget_snapshot_present'' (load_runtime_budget_snapshot r \<noteq> None),
      add_string_attr ''consistency_issue''
        (checkpoint_consistency_issue_name (issue (load_report r)))] @
     (case loaded_checkpoint r of None \<Rightarrow> [] | Some cp \<Rightarrow> checkpoint_state_attrs (cp_state cp)) @
     error_code_attrs (load_error_code r) @
     [add_string_attr ''detail'' (load_detail r)]"

definition load_checkpoint ::
  "CheckpointManager \<Rightarrow> FileSystem \<Rightarrow> Io \<Rightarrow> string \<Rightarrow> int \<Rightarrow>
   CheckpointManager \<times> CheckpointLoadResult"
where
  "load_checkpoint m fs io checkpoint_ref now_ms =
     (let (m', r) = load_checkpoint_core m fs io checkpoint_ref
      in (checkpoint_log m' (loaded r) (load_error_code r) ''runtime.checkpoint.load''
            (load_checkpoint_attrs checkpoint_ref r) now_ms, r))"

subsection \<open>Validation and resume plans\<close>

definition validate_checkpoint_attrs ::
  "Checkpoint \<Rightarrow> CheckpointConsistencyReport \<Rightarrow> (attribute_map \<Rightarrow> attribute_map) list"
where
  "validate_checkpoint_attrs cp report =
     [add_string_attr ''operation'' ''validate_checkpoint'',
      add_optional_string_attr ''checkpoint_ref'' (checkpoint_id cp)] @
     checkpoint_state_attrs (cp_state cp) @
     [add_bool_attr ''consistent'' (consistent report),
      add_string_attr ''consistency_issue'' (checkpoint_consistency_issue_name (issue report))] @
     error_code_attrs (report_error_code report) @
     [add_string_attr ''detail'' (report_detail report)]"

definition validate_checkpoint ::
  "CheckpointManager \<Rightarrow> Checkpoint \<Rightarrow> int \<Rightarrow> CheckpointManager \<times> CheckpointConsistencyReport"
where
  "validate_checkpoint m cp now_ms =
     (let report = evaluate_checkpoint_consistency cp
      in (checkpoint_log m (consistent report) (report_error_code report)
            ''runtime.checkpoint.validate'' (validate_checkpoint_attrs cp report) now_ms, report))"

definition resume_plan_attrs ::
  "Checkpoint \<Rightarrow> (attribute_map \<Rightarrow> attribute_map) list \<Rightarrow> ResumePlanDecision \<Rightarrow>
   (attribute_map \<Rightarrow> attribute_map) list"
where
  "resume_plan_attrs cp seed_attrs r =
     [add_string_attr ''operation'' ''make_resume_plan'',
      add_optional_string_attr ''checkpoint_ref'' (checkpoint_id cp)] @
     checkpoint_state_attrs (cp_state cp) @ seed_attrs @
     [add_bool_attr ''resumable'' (resumable r),
      add_string_attr ''resume_plan_violation'' (resume_plan_violation_name (violation r))] @
     (case plan r of None \<Rightarrow> []
      | Some p \<Rightarrow>
          [add_string_attr ''target_state'' (runtime_state_name (target_state p)),
           add_bool_attr ''requires_operator_intervention'' (requires_operator_intervention p)]) @
     error_code_attrs (plan_error_code r) @
     [add_string_attr ''detail'' (plan_detail r)]"

definition make_resume_plan ::
  "CheckpointManager \<Rightarrow> Checkpoint \<Rightarrow> int \<Rightarrow> CheckpointManager \<times> ResumePlanDecision"
where
  "make_resume_plan m cp now_ms =
     (let r = synthesize_resume_plan cp
      in (checkpoint_log m (resumable r) (plan_error_code r) ''runtime.checkpoint.make_resume_plan''
            (resume_plan_attrs cp [add_bool_attr ''resume_seed_present'' False] r) now_ms, r))"

definition seeded_resume_plan :: "Checkpoint \<Rightarrow> ResumeSeed \<Rightarrow> ResumePlanDecision" where
  "seeded_resume_plan cp seed =
     (if \<not> seed_has_minimum_requirements seed then
        make_rejected_resume_plan Violation_CheckpointInvalid
          ''resume seed must include checkpoint_ref, resume_token and resume_reason'' None
      else
        (let base_decision = synthesize_resume_plan cp
         in if \<not> resumable base_decision \<or> plan base_decision = None then base_decision
            else if plan_checkpoint_ref (the (plan base_decision)) \<noteq> seed_checkpoint_ref seed then
              make_rejected_resume_plan Violation_CheckpointInvalid
                ''resume seed checkpoint_ref does not match checkpoint anchor'' None
            else if cp_request_id cp \<noteq> None \<and> cp_request_id cp \<noteq> Some (seed_request_id seed) then
              make_rejected_resume_plan Violation_CheckpointInvalid
                ''resume seed request_id does not match checkpoint request_id'' None
            else
              make_resume_plan_decision
                ((the (plan base_decision))
                   \<lparr>resume_token := seed_resume_token seed,
                    resume_reason := seed_resume_reason seed,
                    policy_snapshot_ref := seed_policy_snapshot_ref seed\<rparr>)
                ''checkpoint is resumable with session resume seed''))"

definition make_resume_plan_with_seed ::
  "CheckpointManager \<Rightarrow> Checkpoint \<Rightarrow> ResumeSeed \<Rightarrow> int \<Rightarrow> CheckpointManager \<times> ResumePlanDecision"
where
  "make_resume_plan_with_seed m cp seed now_ms =
     (let r = seeded_resume_plan cp seed
      in (checkpoint_log m (resumable r) (plan_error_code r) ''runtime.checkpoint.make_resume_plan''
            (resume_plan_attrs cp
               [add_bool_attr ''resume_seed_present'' True,
                add_string_attr ''resume_seed_request_id'' (seed_request_id seed)] r) now_ms, r))"

definition seed_checkpoint_for_test ::
  "CheckpointManager \<Rightarrow> FileSystem \<Rightarrow> Io \<Rightarrow> Checkpoint \<Rightarrow> BudgetSnapshot option \<Rightarrow>
   CheckpointManager \<times> FileSystem"
where
  "seed_checkpoint_for_test m fs io cp snapshot =
     (if checkpoint_id cp = None \<or> checkpoint_id cp = Some [] then (m, fs)
      else
        (m\<lparr>stored_checkpoints := (stored_checkpoints m)
             (the (checkpoint_id cp) \<mapsto>
                \<lparr>stored_checkpoint = cp, stored_runtime_budget_snapshot = snapshot\<rparr>)\<rparr>,
         (case durable_state_root m of
            None \<Rightarrow> fs
          | Some state_root \<Rightarrow> fst (write_durable_checkpoint_record fs io state_root cp snapshot))))"

section \<open>Consistency and resume plans\<close>

lemma version_tag_report:
  "consistent (validate_version_tag cp k expected u) \<longleftrightarrow>
     (\<exists>tags. cp_tags cp = Some tags \<and> find_checkpoint_tag_value tags k = Some expected)"
  by (auto simp: validate_version_tag_def outcome_simps split: option.splits)

lemma version_tag_rejected:
  "\<not> consistent (validate_version_tag cp k expected u) \<Longrightarrow>
     report_error_code (validate_version_tag cp k expected u) \<in>
       {checkpoint_consistency_error_code MissingVersionTag, checkpoint_consistency_error_code u}"
  by (auto simp: validate_version_tag_def outcome_simps split: option.splits if_splits)

definition version_tags_match :: "Checkpoint \<Rightarrow> bool" where
  "version_tags_match cp \<longleftrightarrow>
     (\<exists>tags. cp_tags cp = Some tags \<and>
        find_checkpoint_tag_value tags kRuntimeCheckpointSchemaVersionTag =
          Some kRuntimeCheckpointSchemaVersion \<and>
        find_checkpoint_tag_value tags kRuntimeCheckpointFsmStateEnumVersionTag =
          Some kRuntimeCheckpointFsmStateEnumVersion \<and>
        find_checkpoint_tag_value tags kRuntimeCheckpointBudgetSchemaVersionTag =
          Some kRuntimeCheckpointBudgetSchemaVersion)"

lemma checkpoint_consistent_iff:
  "consistent (evaluate_checkpoint_consistency cp) \<longleftrightarrow>
     has_non_empty_value (checkpoint_id cp) \<and> has_non_empty_value (step_id cp) \<and>
     has_non_empty_value (working_memory_snapshot cp) \<and>
     cp_state cp \<noteq> None \<and> cp_state cp \<noteq> Some CS_Unspecified \<and> pending_action cp \<noteq> None \<and>
     \<not> present_but_empty (cp_request_id cp) \<and> \<not> present_but_empty (cp_goal_id cp) \<and>
     \<not> present_but_empty (belief_state_ref cp) \<and>
     (\<forall>t. cp_created_at cp = Some t \<longrightarrow> 0 < t) \<and> cp_tags cp \<noteq> Some [] \<and>
     (\<forall>t\<in>set (value_or (cp_tags cp) []). t \<noteq> []) \<and>
     (is_waiting_checkpoint_state (the (cp_state cp)) \<longrightarrow> pending_action cp \<noteq> Some []) \<and>
     version_tags_match cp"
  (is "?L \<longleftrightarrow> ?R")
proof
  assume ?L
  then show ?R
    unfolding evaluate_checkpoint_consistency_def version_tags_match_def Let_def
    by (auto simp: version_tag_report make_checkpoint_rejected_report_def split: if_splits)
next
  assume ?R
  then show ?L
    unfolding evaluate_checkpoint_consistency_def version_tags_match_def Let_def
    by (auto simp: version_tag_report make_checkpoint_rejected_report_def
        make_checkpoint_consistent_report_def)
qed

lemma has_non_empty_iff: "has_non_empty_value v \<longleftrightarrow> v \<noteq> None \<and> v \<noteq> Some []"
  by (auto simp: has_non_empty_value_def split: option.split)

lemma consistent_report_code:
  "report_error_code (evaluate_checkpoint_consistency cp) = None \<longleftrightarrow>
     consistent (evaluate_checkpoint_consistency cp)"
proof -
  have v: "report_error_code (validate_version_tag cp k e u) = None \<longleftrightarrow>
      consistent (validate_version_tag cp k e u)" if "checkpoint_consistency_error_code u \<noteq> None"
    for k e u
    using that by (auto simp: validate_version_tag_def outcome_simps split: option.splits)
  show ?thesis
    unfolding evaluate_checkpoint_consistency_def Let_def
    by (auto simp: v make_checkpoint_rejected_report_def make_checkpoint_consistent_report_def)
qed

text \<open>The version tags a build appends.\<close>

lemma find_tag_append:
  "find_checkpoint_tag_value (tags @ tags') k =
     (case find_checkpoint_tag_value tags k of
        Some v \<Rightarrow> Some v | None \<Rightarrow> find_checkpoint_tag_value tags' k)"
  by (induction tags) auto

lemmas version_tag_names =
  kRuntimeCheckpointSchemaVersionTag_def kRuntimeCheckpointFsmStateEnumVersionTag_def
  kRuntimeCheckpointBudgetSchemaVersionTag_def kRuntimeCheckpointSchemaVersion_def
  kRuntimeCheckpointFsmStateEnumVersion_def kRuntimeCheckpointBudgetSchemaVersion_def

lemma find_made_tag [simp]:
  "find_checkpoint_tag_value [make_checkpoint_tag k v] k = Some v"
  by (simp add: make_checkpoint_tag_def)

lemma appended_tags_extend:
  "\<exists>extra. with_runtime_checkpoint_version_tags tags = tags @ extra \<and>
     length (with_runtime_checkpoint_version_tags tags) \<le> length tags + 3 \<and>
     (\<forall>t\<in>set extra. t \<noteq> [])"
  by (auto simp: with_runtime_checkpoint_version_tags_def append_checkpoint_tag_if_missing_def
      make_checkpoint_tag_def Let_def)

text \<open>A build with plain tags carries the versions of this runtime.\<close>

lemma built_tags_match:
  assumes "find_checkpoint_tag_value tags kRuntimeCheckpointSchemaVersionTag = None"
    and "find_checkpoint_tag_value tags kRuntimeCheckpointFsmStateEnumVersionTag = None"
    and "find_checkpoint_tag_value tags kRuntimeCheckpointBudgetSchemaVersionTag = None"
    and "cp_tags cp = Some (with_runtime_checkpoint_version_tags tags)"
  shows "version_tags_match cp"
  using assms
  by (auto simp: version_tags_match_def with_runtime_checkpoint_version_tags_def
      append_checkpoint_tag_if_missing_def find_tag_append make_checkpoint_tag_def Let_def
      version_tag_names)

lemma resume_target_iff: "resume_target_state s \<noteq> None \<longleftrightarrow> can_resume_from s"
  by (cases s) auto

text \<open>The plan of a consistent checkpoint.\<close>

lemma resume_plan_resumable:
  "resumable (synthesize_resume_plan cp) \<longleftrightarrow>
     consistent (evaluate_checkpoint_consistency cp) \<and> can_resume_from (the (cp_state cp))"
  using resume_target_iff [of "the (cp_state cp)"]
  by (auto simp: synthesize_resume_plan_def checkpoint_consistent_iff has_non_empty_iff Let_def
      outcome_simps split: option.split)

lemma resume_plan_fields:
  assumes "resumable (synthesize_resume_plan cp)"
  shows "\<exists>p. plan (synthesize_resume_plan cp) = Some p \<and>
     Some (plan_checkpoint_ref p) = checkpoint_id cp \<and>
     Some (target_state p) = resume_target_state (the (cp_state cp)) \<and>
     Some (plan_checkpoint_state p) = cp_state cp \<and>
     plan_pending_action p = pending_action cp \<and>
     requires_operator_intervention p = (cp_state cp = Some CS_WaitingConfirm) \<and>
     policy_snapshot_ref p = None \<and> plan_error_code (synthesize_resume_plan cp) = None"
  using assms
  by (auto simp: synthesize_resume_plan_def checkpoint_consistent_iff has_non_empty_iff Let_def
      outcome_simps split: option.splits if_splits)

lemma rejected_plan_empty:
  "\<not> resumable (synthesize_resume_plan cp) \<Longrightarrow>
     plan (synthesize_resume_plan cp) = None \<and> plan_error_code (synthesize_resume_plan cp) \<noteq> None"
  using consistent_report_code [of cp]
  by (auto simp: synthesize_resume_plan_def Let_def outcome_simps split: option.splits if_splits)

section \<open>Building, saving and loading\<close>

lemma log_frame [simp]:
  "pending_runtime_budget_snapshots (checkpoint_log m b c e fs t) = pending_runtime_budget_snapshots m"
  "stored_checkpoints (checkpoint_log m b c e fs t) = stored_checkpoints m"
  "durable_state_root (checkpoint_log m b c e fs t) = durable_state_root m"
  by (simp_all add: checkpoint_log_def)

lemma resolve_checkpoint_state_Some:
  "resolve_checkpoint_state outcome = Some s \<Longrightarrow>
     to_checkpoint_state (resolved_state outcome) = Some s \<and> s \<noteq> CS_Unspecified"
  by (auto simp: resolve_checkpoint_state_def Let_def split: if_splits)

lemma build_checkpoint_Some:
  assumes "build_checkpoint m request t = (m', b)" and "built_checkpoint b = Some cp"
  shows "accepted (transition_outcome request)"
    and "resolve_checkpoint_state (transition_outcome request) = cp_state cp"
    and "cp_state cp \<noteq> None"
    and "checkpoint_id cp = Some (cb_checkpoint_id request)"
    and "consistent (evaluate_checkpoint_consistency cp)"
    and "pending_action cp = Some (value_or (cb_pending_action request) [])"
    and "cp_created_at cp = cb_created_at_ms request"
    and "cp_tags cp = Some (with_runtime_checkpoint_version_tags (cb_tags request))"
    and "cp_request_id cp = cb_request_id request"
    and "pending_runtime_budget_snapshots m' =
           (pending_runtime_budget_snapshots m)
             (cb_checkpoint_id request \<mapsto> cb_runtime_budget_snapshot request)"
    and "stored_checkpoints m' = stored_checkpoints m"
    and "durable_state_root m' = durable_state_root m"
  using assms
  by (auto simp: build_checkpoint_def build_checkpoint_core_def Let_def
      split: if_splits option.splits prod.splits)

lemma build_checkpoint_None:
  assumes "build_checkpoint m request t = (m', b)" and "built_checkpoint b = None"
  shows "stored_checkpoints m' = stored_checkpoints m"
    "pending_runtime_budget_snapshots m' = pending_runtime_budget_snapshots m"
  using assms
  by (auto simp: build_checkpoint_def build_checkpoint_core_def Let_def
      split: if_splits option.splits prod.splits)

lemma to_checkpoint_state_range:
  assumes "to_checkpoint_state r = Some s"
  shows "checkpoint_state_wf s" "- (2 ^ 31) \<le> checkpoint_state_value s"
    "checkpoint_state_value s < 2 ^ 31"
  using assms by (cases r; auto)+

lemma consistent_complete:
  "consistent (evaluate_checkpoint_consistency cp) \<Longrightarrow> checkpoint_complete cp"
  by (auto simp: checkpoint_consistent_iff checkpoint_complete_def has_non_empty_iff)

lemma consistent_id:
  "consistent (evaluate_checkpoint_consistency cp) \<Longrightarrow> \<exists>i. checkpoint_id cp = Some i \<and> i \<noteq> []"
  by (auto simp: checkpoint_consistent_iff has_non_empty_iff)

lemma built_fits:
  assumes "build_checkpoint m request t = (m', b)" and "built_checkpoint b = Some cp"
    and "\<forall>c. cb_created_at_ms request = Some c \<longrightarrow> is_i64 c"
    and "length (cb_tags request) + 3 < 2 ^ 32"
  shows "checkpoint_fits cp"
proof -
  note b = build_checkpoint_Some [OF assms(1,2)]
  from b(2,3) obtain s where s: "cp_state cp = Some s" by auto
  with b(2) have "to_checkpoint_state (resolved_state (transition_outcome request)) = Some s"
    using resolve_checkpoint_state_Some by metis
  from to_checkpoint_state_range [OF this] s b(7,8) assms(3,4)
    appended_tags_extend [of "cb_tags request"]
  show ?thesis by (auto simp: checkpoint_fits_def)
qed

lemma checkpoint_path_key:
  assumes "checkpoint_record_path base k = checkpoint_record_path base' k'"
  shows "k = k'"
proof (rule record_path_key)
  show "record_path ''checkpoints'' base k = record_path ''checkpoints'' base' k'"
    using assms by (simp only: checkpoint_record_path_def)
qed simp_all

lemma checkpoint_path_not_tmp [simp]:
  "checkpoint_record_path base k \<noteq> checkpoint_record_path base' k' @ ''.tmp''"
  by (simp add: checkpoint_record_path_def)

text \<open>
  What a write to a device that does not run out of room does to the records, whichever of
  its steps fail: the record of that path is the new one or unchanged, the others are
  unchanged.
\<close>

lemma checkpoint_write_effect:
  assumes "write_durable_checkpoint_record fs io base cp snapshot = (fs', stored, detail)"
    and "checkpoint_id cp = Some i" and "i \<noteq> []" and "io_room io = None"
  shows "fs_files fs' (checkpoint_record_path b k) =
           (if stored \<and> checkpoint_record_path b k = checkpoint_record_path base i
            then Some (write_fields (checkpoint_fields cp snapshot))
            else fs_files fs (checkpoint_record_path b k))"
  using assms
  by (auto simp: write_durable_checkpoint_record_def publish_record_def written_def Let_def
      split: if_splits)

lemma read_of_content:
  assumes "fs_files fs (checkpoint_record_path b i) =
             Some (write_fields (checkpoint_fields cp snapshot))"
    and "checkpoint_id cp = Some i" and "checkpoint_complete cp" and "checkpoint_fits cp"
    and "\<forall>s. snapshot = Some s \<longrightarrow> snapshot_fits s" and "\<not> io_open_read_fails io"
  shows "read_durable_checkpoint_record fs io b i =
           Read_Loaded \<lparr>rec_checkpoint = cp, rec_runtime_budget_snapshot = snapshot\<rparr>
             ''checkpoint loaded from durable store''"
  using assms record_written [OF assms(3,4,5)]
  by (simp add: read_durable_checkpoint_record_def parse_checkpoint_fields)

lemma write_good_stores:
  "checkpoint_id cp = Some i \<Longrightarrow> i \<noteq> [] \<Longrightarrow>
     write_durable_checkpoint_record fs io_good base cp snapshot = (fs', stored, detail) \<Longrightarrow> stored"
  by (auto simp: write_durable_checkpoint_record_def publish_record_def io_good_def Let_def)

lemma saved_core:
  assumes "consistent (evaluate_checkpoint_consistency cp)" and "checkpoint_id cp = Some i"
  shows "stored_checkpoints (fst (save_checkpoint_core m fs io cp snapshot)) =
           (stored_checkpoints m)
             (i \<mapsto> \<lparr>stored_checkpoint = cp, stored_runtime_budget_snapshot = snapshot\<rparr>)"
  using assms by (simp add: save_checkpoint_core_def Let_def split: prod.split)

lemma checked_load_consistent:
  "consistent (evaluate_checkpoint_consistency cp) \<Longrightarrow>
     checked_load cp snapshot detail =
       \<lparr>loaded_checkpoint = Some cp, load_report = evaluate_checkpoint_consistency cp,
        load_error_code = None, load_detail = detail, load_runtime_budget_snapshot = snapshot\<rparr>"
  by (simp add: checked_load_def Let_def)

lemma load_from_memory:
  "stored_checkpoints m i = Some r \<Longrightarrow>
     snd (load_checkpoint m fs io i t) =
       checked_load (stored_checkpoint r) (stored_runtime_budget_snapshot r)
         ''checkpoint loaded from memory store''"
  by (simp add: load_checkpoint_def load_checkpoint_core_def)

lemma load_from_disk:
  "read_durable_checkpoint_record fs io base i = Read_Loaded rec detail \<Longrightarrow> base \<noteq> [] \<Longrightarrow>
     snd (load_checkpoint (set_durable_state_root new_checkpoint_manager (Some base)) fs io i t) =
       checked_load (rec_checkpoint rec) (rec_runtime_budget_snapshot rec) detail"
  by (simp add: load_checkpoint_def load_checkpoint_core_def set_durable_state_root_def
      new_checkpoint_manager_def)

lemma build_report_of_built:
  assumes "build_checkpoint m request t = (m', b)" and "built_checkpoint b = Some cp"
  shows "build_report b = evaluate_checkpoint_consistency cp"
  using assms
  by (auto simp: build_checkpoint_def build_checkpoint_core_def Let_def
      split: if_splits option.splits prod.splits)

lemma take_pending_of_built:
  assumes "pending_runtime_budget_snapshots m = p(i \<mapsto> snapshot)" and "checkpoint_id cp = Some i"
  shows "take_pending_snapshot m cp =
           (m\<lparr>pending_runtime_budget_snapshots := p(i := None)\<rparr>, snapshot)"
  using assms by (simp add: take_pending_snapshot_def)

text \<open>A consistent checkpoint saved on a good device is stored in memory and on disk.\<close>

lemma save_good:
  assumes "consistent (evaluate_checkpoint_consistency cp)" and "checkpoint_id cp = Some i"
    and "durable_state_root m = Some base" and "checkpoint_fits cp"
    and "\<forall>s. snapshot = Some s \<longrightarrow> snapshot_fits s"
    and "save_with_snapshot m fs io_good cp snapshot t = (m2, fs2, r)"
  shows "persisted r"
    and "stored_checkpoints m2 i =
           Some \<lparr>stored_checkpoint = cp, stored_runtime_budget_snapshot = snapshot\<rparr>"
    and "read_durable_checkpoint_record fs2 io_good base i =
           Read_Loaded \<lparr>rec_checkpoint = cp, rec_runtime_budget_snapshot = snapshot\<rparr>
             ''checkpoint loaded from durable store''"
proof -
  have i: "i \<noteq> []" using consistent_id [OF assms(1)] assms(2) by simp
  obtain fs' st d where w: "write_durable_checkpoint_record fs io_good base cp snapshot = (fs', st, d)"
    by (metis prod_cases3)
  have st: st using write_good_stores [OF assms(2) i w] .
  have files: "fs_files fs' (checkpoint_record_path base i) =
      Some (write_fields (checkpoint_fields cp snapshot))"
    using checkpoint_write_effect [OF w assms(2) i] st by (simp add: io_good_def)
  from assms(6) w st assms(1,2,3) show "persisted r"
    by (auto simp: save_with_snapshot_def save_checkpoint_core_def Let_def)
  from assms(6) w assms(1,2,3) show "stored_checkpoints m2 i =
      Some \<lparr>stored_checkpoint = cp, stored_runtime_budget_snapshot = snapshot\<rparr>"
    by (auto simp: save_with_snapshot_def save_checkpoint_core_def Let_def)
  have "fs2 = fs'" using assms(6) w assms(1,2,3)
    by (auto simp: save_with_snapshot_def save_checkpoint_core_def Let_def)
  then show "read_durable_checkpoint_record fs2 io_good base i =
      Read_Loaded \<lparr>rec_checkpoint = cp, rec_runtime_budget_snapshot = snapshot\<rparr>
        ''checkpoint loaded from durable store''"
    using read_of_content [OF files assms(2) consistent_complete [OF assms(1)] assms(4,5)]
    by (simp add: io_good_def)
qed

text \<open>
  C23. A checkpoint that is built and saved is found again, with the budget snapshot the build
  was given: by the manager that saved it, from memory, and by a manager of a later process,
  from the files alone.
\<close>

theorem checkpoint_survives_restart:
  assumes "build_checkpoint m request tbuild = (m1, b)" and "built_checkpoint b = Some cp"
    and "durable_state_root m = Some base" and "base \<noteq> []"
    and "\<forall>c. cb_created_at_ms request = Some c \<longrightarrow> is_i64 c"
    and "length (cb_tags request) + 3 < 2 ^ 32"
    and "\<forall>s. cb_runtime_budget_snapshot request = Some s \<longrightarrow> snapshot_fits s"
  shows "case save_checkpoint m1 fs io_good cp tsave of (m2, fs2, r) \<Rightarrow>
     persisted r \<and>
     snd (load_checkpoint m2 fs2 io_good (cb_checkpoint_id request) tmem) =
       \<lparr>loaded_checkpoint = Some cp, load_report = build_report b, load_error_code = None,
        load_detail = ''checkpoint loaded from memory store'',
        load_runtime_budget_snapshot = cb_runtime_budget_snapshot request\<rparr> \<and>
     snd (load_checkpoint (set_durable_state_root new_checkpoint_manager (Some base)) fs2 io_good
            (cb_checkpoint_id request) tdisk) =
       \<lparr>loaded_checkpoint = Some cp, load_report = build_report b, load_error_code = None,
        load_detail = ''checkpoint loaded from durable store'',
        load_runtime_budget_snapshot = cb_runtime_budget_snapshot request\<rparr>"
proof -
  note b = build_checkpoint_Some [OF assms(1,2)]
  let ?i = "cb_checkpoint_id request" and ?s = "cb_runtime_budget_snapshot request"
  let ?m = "m1\<lparr>pending_runtime_budget_snapshots := (pending_runtime_budget_snapshots m)(?i := None)\<rparr>"
  obtain m2 fs2 r where sv: "save_with_snapshot ?m fs io_good cp ?s tsave = (m2, fs2, r)"
    by (metis prod_cases3)
  have save: "save_checkpoint m1 fs io_good cp tsave = (m2, fs2, r)"
    using sv by (simp add: save_checkpoint_def take_pending_of_built [OF b(10,4)])
  have root: "durable_state_root ?m = Some base" using assms(3) b(12) by simp
  note g = save_good [OF b(5,4) root built_fits [OF assms(1,2,5,6)] assms(7) sv]
  show ?thesis
    using g load_from_memory [OF g(2), of fs2 io_good tmem]
      load_from_disk [OF g(3) assms(4), of tdisk] build_report_of_built [OF assms(1,2)]
    by (simp add: save checked_load_consistent [OF b(5)])
qed

definition sample_build_request :: CheckpointBuildRequest where
  "sample_build_request =
     \<lparr>transition_outcome =
        \<lparr>accepted = True, previous_state = Reasoning, resolved_state = WaitingConfirm,
         out_transition_reason = ''confirm'',
         checkpoint_hint = \<lparr>mutation = Mutation_Write, checkpoint_state = Some CS_WaitingConfirm,
                            pending_action_required = True\<rparr>,
         rejection_reason = None\<rparr>,
      cb_checkpoint_id = ''cp'', cb_step_id = ''s'', cb_working_memory_snapshot = ''w'',
      cb_pending_action = Some ''ask'', cb_request_id = Some ''r'', cb_goal_id = None,
      cb_belief_state_ref = None, cb_retry_count = Some 1, cb_created_at_ms = Some 5,
      cb_runtime_budget_snapshot = Some sample_snapshot, cb_tags = [''t'']\<rparr>"

definition sample_build :: "CheckpointManager \<times> CheckpointBuildResult" where
  "sample_build = build_checkpoint (set_durable_state_root new_checkpoint_manager (Some ''/var''))
                    sample_build_request 1"

lemma sample_build_built:
  "built_checkpoint (snd sample_build) =
     Some \<lparr>checkpoint_id = Some ''cp'', cp_state = Some CS_WaitingConfirm, step_id = Some ''s'',
           working_memory_snapshot = Some ''w'', pending_action = Some ''ask'',
           cp_request_id = Some ''r'', cp_goal_id = None, belief_state_ref = None,
           cp_retry_count = Some 1, cp_created_at = Some 5,
           cp_tags = Some (''t'' # runtime_checkpoint_version_tags)\<rparr>" (is "_ = Some ?cp")
proof -
  have tags: "with_runtime_checkpoint_version_tags [''t''] = ''t'' # runtime_checkpoint_version_tags"
    by (simp add: with_runtime_checkpoint_version_tags_def append_checkpoint_tag_if_missing_def
        runtime_checkpoint_version_tags_def make_checkpoint_tag_def version_tag_names)
  have "version_tags_match ?cp"
    by (rule built_tags_match [of "[''t'']"]) (simp_all add: tags version_tag_names)
  then have "consistent (evaluate_checkpoint_consistency ?cp)"
    by (simp add: checkpoint_consistent_iff has_non_empty_iff present_but_empty_def
        runtime_checkpoint_version_tags_def make_checkpoint_tag_def)
  then show ?thesis
    by (simp add: sample_build_def build_checkpoint_def build_checkpoint_core_def Let_def
        sample_build_request_def resolve_checkpoint_state_def tags)
qed

theorem checkpoint_survives_restart_witness:
  "\<exists>cp. built_checkpoint (snd sample_build) = Some cp \<and>
     loaded_checkpoint (snd (load_checkpoint
        (set_durable_state_root new_checkpoint_manager (Some ''/var''))
        (fst (snd (save_checkpoint (fst sample_build) \<lparr>fs_files = Map.empty\<rparr> io_good cp 2)))
        io_good ''cp'' 4)) = Some cp"
proof -
  obtain m1 b where s: "sample_build = (m1, b)" by fastforce
  have "built_checkpoint b \<noteq> None" using sample_build_built by (simp add: s)
  then obtain cp where cp: "built_checkpoint b = Some cp" by blast
  have fits: "snapshot_fits sample_snapshot"
    by (simp add: snapshot_fits_def sample_snapshot_def is_i64_def)
  have "durable_state_root (set_durable_state_root new_checkpoint_manager (Some ''/var'')) = Some ''/var''"
    by (simp add: set_durable_state_root_def)
  from checkpoint_survives_restart [OF s [unfolded sample_build_def] cp this, where tsave = 2
      and tmem = 3 and tdisk = 4 and fs = "\<lparr>fs_files = Map.empty\<rparr>"] fits
  have "loaded_checkpoint (snd (load_checkpoint
        (set_durable_state_root new_checkpoint_manager (Some ''/var''))
        (fst (snd (save_checkpoint m1 \<lparr>fs_files = Map.empty\<rparr> io_good cp 2)))
        io_good ''cp'' 4)) = Some cp"
    by (auto simp: sample_build_request_def is_i64_def split: prod.splits)
  with cp show ?thesis by (simp add: s)
qed

section \<open>Where a checkpoint resumes\<close>

definition resume_entry :: "RuntimeState \<Rightarrow> RuntimeState option" where
  "resume_entry s =
     (if s \<in> {WaitingClarify, WaitingConfirm, WaitingExternal} then Some s
      else if s \<in> {Receiving, Planning, Reasoning, ToolCalling, Reflecting, Responding, Auditing,
                   Persisting} then Some Reasoning
      else None)"

lemma resume_entry_target:
  "to_checkpoint_state r = Some s \<Longrightarrow> resume_target_state s = resume_entry r"
  by (cases r) (auto simp: resume_entry_def)

lemma waiting_entry:
  "to_checkpoint_state r = Some s \<Longrightarrow>
     is_waiting_checkpoint_state s \<longleftrightarrow> r \<in> {WaitingClarify, WaitingConfirm, WaitingExternal}"
  by (cases r) (auto simp: is_waiting_checkpoint_state_def)

lemma confirm_entry:
  "to_checkpoint_state r = Some s \<Longrightarrow> s = CS_WaitingConfirm \<longleftrightarrow> r = WaitingConfirm"
  by (cases r) auto

text \<open>
  C25. The resume plan of a built checkpoint leads back to the step that was interrupted: a
  waiting state is entered again with its pending action, any other live state is resumed in
  Reasoning, and a run that had ended has no plan. The operator is asked exactly when the
  checkpoint was waiting for a confirmation.
\<close>

theorem resume_returns_to_interrupted_state:
  assumes "build_checkpoint m request t1 = (m1, b)" and "built_checkpoint b = Some cp"
  shows "case plan (snd (make_resume_plan m2 cp t2)) of
           None \<Rightarrow> resume_entry (resolved_state (transition_outcome request)) = None
         | Some p \<Rightarrow>
             resume_entry (resolved_state (transition_outcome request)) = Some (target_state p) \<and>
             plan_checkpoint_ref p = cb_checkpoint_id request \<and>
             plan_pending_action p = Some (value_or (cb_pending_action request) []) \<and>
             (target_state p \<noteq> Reasoning \<longrightarrow> plan_pending_action p \<noteq> Some []) \<and>
             requires_operator_intervention p =
               (resolved_state (transition_outcome request) = WaitingConfirm)"
proof -
  note b = build_checkpoint_Some [OF assms]
  let ?r = "resolved_state (transition_outcome request)"
  obtain s where s: "cp_state cp = Some s" using b(3) by blast
  with b(2) have ts: "to_checkpoint_state ?r = Some s"
    using resolve_checkpoint_state_Some by metis
  have plan_eq: "plan (snd (make_resume_plan m2 cp t2)) = plan (synthesize_resume_plan cp)"
    by (simp add: make_resume_plan_def Let_def)
  have pend: "is_waiting_checkpoint_state s \<Longrightarrow> pending_action cp \<noteq> Some []"
    using b(5) s by (simp add: checkpoint_consistent_iff)
  show ?thesis
  proof (cases "resumable (synthesize_resume_plan cp)")
    case True
    from resume_plan_fields [OF True] obtain p where p: "plan (synthesize_resume_plan cp) = Some p"
      "Some (plan_checkpoint_ref p) = checkpoint_id cp" "Some (target_state p) = resume_target_state s"
      "plan_pending_action p = pending_action cp"
      "requires_operator_intervention p = (cp_state cp = Some CS_WaitingConfirm)" using s by auto
    have entry: "resume_entry ?r = Some (target_state p)" using p(3) resume_entry_target [OF ts] by simp
    then have "target_state p \<noteq> Reasoning \<Longrightarrow> is_waiting_checkpoint_state s"
      by (auto simp: waiting_entry [OF ts] resume_entry_def split: if_splits)
    with pend have "target_state p \<noteq> Reasoning \<longrightarrow> plan_pending_action p \<noteq> Some []"
      using p(4) by auto
    with p entry b(4,6) show ?thesis
      by (simp add: plan_eq s confirm_entry [OF ts])
  next
    case False
    then have "\<not> can_resume_from s" using b(5) s resume_plan_resumable [of cp] by simp
    then have "resume_entry ?r = None"
      using resume_target_iff [of s] resume_entry_target [OF ts] by (simp del: not_None_eq)
    with rejected_plan_empty [OF False] show ?thesis by (simp add: plan_eq)
  qed
qed

theorem resume_returns_to_interrupted_state_witness:
  "\<exists>cp p. built_checkpoint (snd sample_build) = Some cp \<and>
     plan (snd (make_resume_plan new_checkpoint_manager cp 2)) = Some p \<and>
     target_state p = WaitingConfirm"
proof -
  obtain m1 b where s: "sample_build = (m1, b)" by fastforce
  have "built_checkpoint b \<noteq> None" using sample_build_built by (simp add: s)
  then obtain cp where cp: "built_checkpoint b = Some cp" by blast
  from resume_returns_to_interrupted_state [OF s [unfolded sample_build_def] cp,
      of new_checkpoint_manager 2]
  have "\<exists>p. plan (snd (make_resume_plan new_checkpoint_manager cp 2)) = Some p \<and>
      target_state p = WaitingConfirm"
    by (auto simp: sample_build_request_def resume_entry_def split: option.splits)
  with cp show ?thesis by (simp add: s)
qed

section \<open>Resume seeds\<close>

definition seed_fits :: "Checkpoint \<Rightarrow> ResumeSeed \<Rightarrow> bool" where
  "seed_fits cp seed \<longleftrightarrow>
     seed_has_minimum_requirements seed \<and> checkpoint_id cp = Some (seed_checkpoint_ref seed) \<and>
     cp_request_id cp \<in> {None, Some (seed_request_id seed)}"

text \<open>
  A seeded resume is granted exactly when the checkpoint is consistent and resumable and
  the seed names that checkpoint and its request, and the plan then carries the token, the
  reason and the policy of the seed with the target and pending action of the checkpoint.
\<close>

theorem seeded_resume_plan_correct:
  "plan (snd (make_resume_plan_with_seed m cp seed t)) =
     (if consistent (evaluate_checkpoint_consistency cp) \<and> can_resume_from (the (cp_state cp)) \<and>
         seed_fits cp seed
      then Some \<lparr>plan_checkpoint_ref = seed_checkpoint_ref seed,
                 target_state = the (resume_target_state (the (cp_state cp))),
                 plan_checkpoint_state = the (cp_state cp),
                 resume_token = seed_resume_token seed, resume_reason = seed_resume_reason seed,
                 plan_pending_action = pending_action cp,
                 policy_snapshot_ref = seed_policy_snapshot_ref seed,
                 requires_operator_intervention = (cp_state cp = Some CS_WaitingConfirm)\<rparr>
      else None) \<and>
   resumable (snd (make_resume_plan_with_seed m cp seed t)) =
     (plan (snd (make_resume_plan_with_seed m cp seed t)) \<noteq> None)"
proof (cases "resumable (synthesize_resume_plan cp)")
  case True
  from resume_plan_fields [OF True] obtain p where p: "plan (synthesize_resume_plan cp) = Some p"
    "Some (plan_checkpoint_ref p) = checkpoint_id cp"
    "Some (target_state p) = resume_target_state (the (cp_state cp))"
    "Some (plan_checkpoint_state p) = cp_state cp" "plan_pending_action p = pending_action cp"
    "requires_operator_intervention p = (cp_state cp = Some CS_WaitingConfirm)" by blast
  have c: "consistent (evaluate_checkpoint_consistency cp) \<and> can_resume_from (the (cp_state cp))"
    using True by (simp add: resume_plan_resumable)
  have "checkpoint_id cp = Some (seed_checkpoint_ref seed) \<longleftrightarrow>
      plan_checkpoint_ref p = seed_checkpoint_ref seed"
    using p(2) by auto
  moreover have "target_state p = the (resume_target_state (the (cp_state cp)))"
    "plan_checkpoint_state p = the (cp_state cp)"
    using p(3,4) by (metis option.sel)+
  ultimately show ?thesis
    using True c p(1,5,6)
    by (cases p) (auto simp: make_resume_plan_with_seed_def seeded_resume_plan_def seed_fits_def
        Let_def outcome_simps)
next
  case False
  with rejected_plan_empty [OF False] show ?thesis
    by (auto simp: make_resume_plan_with_seed_def seeded_resume_plan_def Let_def outcome_simps
        resume_plan_resumable [symmetric])
      (simp_all add: resume_plan_resumable)
qed

section \<open>Runs of the manager\<close>

text \<open>
  A process and its successors: the calls of the manager and restarts, which forget the
  memory and keep the files. \<^verbatim>\<open>seed_for_test\<close> stores a checkpoint without looking at it and
  is left out.
\<close>

datatype CheckpointCall =
    Call_Build CheckpointBuildRequest int
  | Call_Save Checkpoint Io int
  | Call_SaveWith Checkpoint "BudgetSnapshot option" Io int
  | Call_Load string Io int
  | Call_Validate Checkpoint int
  | Call_Plan Checkpoint int
  | Call_SeededPlan Checkpoint ResumeSeed int
  | Call_SetRoot "string option"
  | Call_SetLogger logger "string option"
  | Call_Restart

fun checkpoint_step :: "CheckpointManager \<times> FileSystem \<Rightarrow> CheckpointCall \<Rightarrow>
    (CheckpointManager \<times> FileSystem) option" where
  "checkpoint_step (m, fs) (Call_Build request t) = Some (fst (build_checkpoint m request t), fs)"
| "checkpoint_step (m, fs) (Call_Save cp io t) =
     (case save_checkpoint m fs io cp t of (m', fs', r) \<Rightarrow> Some (m', fs'))"
| "checkpoint_step (m, fs) (Call_SaveWith cp snapshot io t) =
     (case save_with_snapshot m fs io cp snapshot t of (m', fs', r) \<Rightarrow> Some (m', fs'))"
| "checkpoint_step (m, fs) (Call_Load i io t) = Some (fst (load_checkpoint m fs io i t), fs)"
| "checkpoint_step (m, fs) (Call_Validate cp t) = Some (fst (validate_checkpoint m cp t), fs)"
| "checkpoint_step (m, fs) (Call_Plan cp t) = Some (fst (make_resume_plan m cp t), fs)"
| "checkpoint_step (m, fs) (Call_SeededPlan cp seed t) =
     Some (fst (make_resume_plan_with_seed m cp seed t), fs)"
| "checkpoint_step (m, fs) (Call_SetRoot state_root) = Some (set_durable_state_root m state_root, fs)"
| "checkpoint_step (m, fs) (Call_SetLogger lg i) = Some (checkpoint_set_logger m lg i, fs)"
| "checkpoint_step (m, fs) Call_Restart = Some (new_checkpoint_manager, fs)"

text \<open>The calls covered: values in the ranges of their C++ types, on a device with room.\<close>

fun checkpoint_call_ok :: "CheckpointCall \<Rightarrow> bool" where
  "checkpoint_call_ok (Call_Build request t) =
     (\<forall>s. cb_runtime_budget_snapshot request = Some s \<longrightarrow> snapshot_fits s)"
| "checkpoint_call_ok (Call_Save cp io t) = (checkpoint_fits cp \<and> io_room io = None)"
| "checkpoint_call_ok (Call_SaveWith cp snapshot io t) =
     (checkpoint_fits cp \<and> io_room io = None \<and> (\<forall>s. snapshot = Some s \<longrightarrow> snapshot_fits s))"
| "checkpoint_call_ok _ = True"

definition memory_ok :: "CheckpointManager \<Rightarrow> bool" where
  "memory_ok m \<longleftrightarrow>
     (\<forall>i r. stored_checkpoints m i = Some r \<longrightarrow>
        checkpoint_id (stored_checkpoint r) = Some i \<and>
        consistent (evaluate_checkpoint_consistency (stored_checkpoint r))) \<and>
     (\<forall>i s. pending_runtime_budget_snapshots m i = Some (Some s) \<longrightarrow> snapshot_fits s)"

definition disk_ok :: "FileSystem \<Rightarrow> bool" where
  "disk_ok fs \<longleftrightarrow>
     (\<forall>base i content. fs_files fs (checkpoint_record_path base i) = Some content \<longrightarrow>
        (\<exists>cp snapshot. content = write_fields (checkpoint_fields cp snapshot) \<and>
           checkpoint_id cp = Some i \<and> consistent (evaluate_checkpoint_consistency cp) \<and>
           checkpoint_fits cp \<and> (\<forall>s. snapshot = Some s \<longrightarrow> snapshot_fits s)))"

abbreviation store_ok :: "CheckpointManager \<times> FileSystem \<Rightarrow> bool" where
  "store_ok s \<equiv> memory_ok (fst s) \<and> disk_ok (snd s)"

lemma memory_ok_log [simp]: "memory_ok (checkpoint_log m b c e fs t) = memory_ok m"
  by (simp add: memory_ok_def)

lemma memory_ok_new [simp]: "memory_ok new_checkpoint_manager"
  by (simp add: memory_ok_def new_checkpoint_manager_def)

lemma disk_ok_empty [simp]: "disk_ok \<lparr>fs_files = Map.empty\<rparr>"
  by (simp add: disk_ok_def)

text \<open>What a sound disk reads as.\<close>

lemma disk_ok_read:
  assumes "disk_ok fs"
  shows "case read_durable_checkpoint_record fs io base i of
           Read_NotFound d \<Rightarrow> True
         | Read_Corrupt d \<Rightarrow> io_open_read_fails io
         | Read_Loaded rec d \<Rightarrow>
             checkpoint_id (rec_checkpoint rec) = Some i \<and>
             consistent (evaluate_checkpoint_consistency (rec_checkpoint rec))"
proof (cases "fs_files fs (checkpoint_record_path base i)")
  case None
  then show ?thesis by (simp add: read_durable_checkpoint_record_def)
next
  case (Some content)
  with assms obtain cp snapshot where c: "content = write_fields (checkpoint_fields cp snapshot)"
    "checkpoint_id cp = Some i" "consistent (evaluate_checkpoint_consistency cp)"
    "checkpoint_fits cp" "\<forall>s. snapshot = Some s \<longrightarrow> snapshot_fits s"
    unfolding disk_ok_def by blast
  show ?thesis
  proof (cases "io_open_read_fails io")
    case True
    with Some show ?thesis by (simp add: read_durable_checkpoint_record_def)
  next
    case False
    from read_of_content [OF Some [unfolded c(1)] c(2) consistent_complete [OF c(3)] c(4,5) False]
    show ?thesis using c(2,3) by simp
  qed
qed

lemma disk_ok_write:
  assumes "disk_ok fs" and "consistent (evaluate_checkpoint_consistency cp)"
    and "checkpoint_fits cp" and "io_room io = None"
    and "\<forall>s. snapshot = Some s \<longrightarrow> snapshot_fits s"
    and "write_durable_checkpoint_record fs io base cp snapshot = (fs', stored, detail)"
  shows "disk_ok fs'"
  unfolding disk_ok_def
proof (intro allI impI)
  fix b k content
  assume k: "fs_files fs' (checkpoint_record_path b k) = Some content"
  obtain i where i: "checkpoint_id cp = Some i" "i \<noteq> []" using consistent_id [OF assms(2)] by blast
  show "\<exists>cp snapshot. content = write_fields (checkpoint_fields cp snapshot) \<and>
      checkpoint_id cp = Some k \<and> consistent (evaluate_checkpoint_consistency cp) \<and>
      checkpoint_fits cp \<and> (\<forall>s. snapshot = Some s \<longrightarrow> snapshot_fits s)"
  proof (cases "stored \<and> checkpoint_record_path b k = checkpoint_record_path base i")
    case True
    with k checkpoint_write_effect [OF assms(6) i assms(4), of b k] checkpoint_path_key
    have "content = write_fields (checkpoint_fields cp snapshot)" "k = i" by auto
    with assms(2,3,5) i(1) show ?thesis by blast
  next
    case False
    with k checkpoint_write_effect [OF assms(6) i assms(4), of b k]
    have "fs_files fs (checkpoint_record_path b k) = Some content" by auto
    with assms(1) show ?thesis unfolding disk_ok_def by blast
  qed
qed

lemma save_with_snapshot_ok:
  assumes "memory_ok m" and "disk_ok fs" and "checkpoint_fits cp" and "io_room io = None"
    and "\<forall>s. snapshot = Some s \<longrightarrow> snapshot_fits s"
    and "save_with_snapshot m fs io cp snapshot t = (m', fs', r)"
  shows "memory_ok m' \<and> disk_ok fs'"
proof (cases "consistent (evaluate_checkpoint_consistency cp)")
  case False
  with assms show ?thesis by (auto simp: save_with_snapshot_def save_checkpoint_core_def Let_def)
next
  case True
  then obtain i where i: "checkpoint_id cp = Some i" using consistent_id by blast
  let ?m = "m\<lparr>stored_checkpoints := (stored_checkpoints m)
                 (i \<mapsto> \<lparr>stored_checkpoint = cp, stored_runtime_budget_snapshot = snapshot\<rparr>),
              pending_runtime_budget_snapshots := (pending_runtime_budget_snapshots m)(i := None)\<rparr>"
  have mem: "memory_ok ?m" using assms(1) True i by (auto simp: memory_ok_def)
  show ?thesis
  proof (cases "durable_state_root m")
    case None
    with assms(2,6) True i mem show ?thesis
      by (auto simp: save_with_snapshot_def save_checkpoint_core_def Let_def)
  next
    case (Some base)
    obtain fs'' st d where w: "write_durable_checkpoint_record fs io base cp snapshot = (fs'', st, d)"
      by (metis prod_cases3)
    from disk_ok_write [OF assms(2) True assms(3,4,5) w] have "disk_ok fs''" .
    with Some w assms(6) True i mem show ?thesis
      by (auto simp: save_with_snapshot_def save_checkpoint_core_def Let_def)
  qed
qed

lemma load_checkpoint_ok:
  assumes "memory_ok m" and "disk_ok fs"
  shows "memory_ok (fst (load_checkpoint m fs io i t))"
proof (cases "stored_checkpoints m i = None \<and> durable_state_root m \<noteq> None")
  case False
  with assms(1) show ?thesis
    by (auto simp: load_checkpoint_def load_checkpoint_core_def case_prod_unfold split: option.split)
next
  case True
  then obtain base where "durable_state_root m = Some base" by blast
  with True assms(1) disk_ok_read [OF assms(2), where io = io and base = base and i = i] show ?thesis
    by (auto simp: load_checkpoint_def load_checkpoint_core_def case_prod_unfold memory_ok_def
        split: DurableCheckpointReadResult.split)
qed

lemma build_checkpoint_ok:
  assumes "memory_ok m" and "\<forall>s. cb_runtime_budget_snapshot request = Some s \<longrightarrow> snapshot_fits s"
  shows "memory_ok (fst (build_checkpoint m request t))"
proof -
  obtain m' b where b: "build_checkpoint m request t = (m', b)" by fastforce
  show ?thesis
  proof (cases "built_checkpoint b")
    case None
    with assms(1) build_checkpoint_None [OF b None] b show ?thesis by (simp add: memory_ok_def)
  next
    case (Some cp)
    with assms build_checkpoint_Some(10,11) [OF b Some] b show ?thesis by (simp add: memory_ok_def)
  qed
qed

lemma take_pending_ok:
  assumes "memory_ok m" and "take_pending_snapshot m cp = (m', snapshot)"
  shows "memory_ok m' \<and> (\<forall>s. snapshot = Some s \<longrightarrow> snapshot_fits s)"
  using assms
  by (auto simp: take_pending_snapshot_def memory_ok_def split: option.splits if_splits)

lemma checkpoint_step_ok:
  assumes "store_ok s" and "checkpoint_call_ok c"
  shows "\<exists>s'. checkpoint_step s c = Some s' \<and> store_ok s'"
proof (cases s)
  case (Pair m fs)
  with assms(1) have ok: "memory_ok m" "disk_ok fs" by simp_all
  show ?thesis
  proof (cases c)
    case (Call_Save cp io t)
    obtain m1 snapshot where tk: "take_pending_snapshot m cp = (m1, snapshot)" by fastforce
    obtain m' fs' r where sv: "save_with_snapshot m1 fs io cp snapshot t = (m', fs', r)"
      by (metis prod_cases3)
    from take_pending_ok [OF ok(1) tk] save_with_snapshot_ok [OF _ ok(2) _ _ _ sv] assms(2) Call_Save
    have "memory_ok m' \<and> disk_ok fs'" by simp
    with Pair Call_Save tk sv show ?thesis by (simp add: save_checkpoint_def)
  next
    case (Call_SaveWith cp snapshot io t)
    obtain m' fs' r where sv: "save_with_snapshot m fs io cp snapshot t = (m', fs', r)"
      by (metis prod_cases3)
    from save_with_snapshot_ok [OF ok _ _ _ sv] assms(2) Call_SaveWith
    have "memory_ok m' \<and> disk_ok fs'" by simp
    with Pair Call_SaveWith sv show ?thesis by simp
  next
    case (Call_SetRoot x)
    with Pair ok show ?thesis by (simp add: set_durable_state_root_def memory_ok_def)
  next
    case (Call_SetLogger x y)
    with Pair ok show ?thesis by (simp add: checkpoint_set_logger_def memory_ok_def)
  qed (use Pair ok assms(2) in \<open>simp_all add: build_checkpoint_ok load_checkpoint_ok
        validate_checkpoint_def make_resume_plan_def make_resume_plan_with_seed_def Let_def\<close>)
qed

interpretation manager: machine checkpoint_step store_ok checkpoint_call_ok
proof unfold_locales
  fix s c
  assume "store_ok s" and "checkpoint_call_ok c"
  then show "\<exists>s'. checkpoint_step s c = Some s'" using checkpoint_step_ok by blast
next
  fix s c s'
  assume "store_ok s" and "checkpoint_call_ok c" and "checkpoint_step s c = Some s'"
  then show "store_ok s'" using checkpoint_step_ok [of s c] by auto
qed

lemma load_of_ok:
  assumes "memory_ok m" and "disk_ok fs"
  shows "case snd (load_checkpoint m fs io i t) of r \<Rightarrow>
     (case loaded_checkpoint r of
        Some cp \<Rightarrow> checkpoint_id cp = Some i \<and> consistent (evaluate_checkpoint_consistency cp) \<and>
                  loaded r
      | None \<Rightarrow> load_error_code r = Some RT_E_410_CHECKPOINT_CORRUPT \<and>
                (issue (load_report r) = MissingCheckpointId \<or> io_open_read_fails io))"
proof (cases "stored_checkpoints m i")
  case (Some r)
  with assms(1) have "checkpoint_id (stored_checkpoint r) = Some i"
    "consistent (evaluate_checkpoint_consistency (stored_checkpoint r))"
    by (simp_all add: memory_ok_def)
  with load_from_memory [OF Some, of fs io t] show ?thesis
    by (simp add: checked_load_consistent loaded_def)
next
  case None
  show ?thesis
  proof (cases "durable_state_root m")
    case None': None
    with None show ?thesis
      by (simp add: load_checkpoint_def load_checkpoint_core_def failed_load_def outcome_simps)
  next
    case (Some base)
    with None disk_ok_read [OF assms(2), where io = io and base = base and i = i] show ?thesis
      by (auto simp: load_checkpoint_def load_checkpoint_core_def failed_load_def outcome_simps
          checked_load_consistent loaded_def split: DurableCheckpointReadResult.split)
  qed
qed

text \<open>
  C24. Whatever calls and restarts come before, over any number of state roots and with any
  failure to create, open or rename a file, a load returns the consistent checkpoint filed
  under that reference or fails with RT_E_410; it meets no record that it finds corrupt, unless
  the record cannot be opened.
\<close>

theorem checkpoint_store_stays_sound:
  assumes "\<forall>c\<in>set calls. checkpoint_call_ok c"
  shows "\<exists>m fs. run_machine checkpoint_step (new_checkpoint_manager, \<lparr>fs_files = Map.empty\<rparr>) calls =
             Some (m, fs) \<and>
     (case snd (load_checkpoint m fs io i t) of r \<Rightarrow>
        (case loaded_checkpoint r of
           Some cp \<Rightarrow> checkpoint_id cp = Some i \<and> consistent (evaluate_checkpoint_consistency cp) \<and>
                     loaded r
         | None \<Rightarrow> load_error_code r = Some RT_E_410_CHECKPOINT_CORRUPT \<and>
                   (issue (load_report r) = MissingCheckpointId \<or> io_open_read_fails io)))"
proof -
  have "store_ok (new_checkpoint_manager, \<lparr>fs_files = Map.empty\<rparr>)" by simp
  from manager.run_defined [OF this assms] obtain s
    where s: "run_machine checkpoint_step (new_checkpoint_manager, \<lparr>fs_files = Map.empty\<rparr>) calls =
      Some s" "store_ok s" by blast
  obtain m fs where "s = (m, fs)" by (cases s)
  with s load_of_ok [of m fs io i t] show ?thesis by auto
qed

theorem checkpoint_store_stays_sound_witness:
  "\<exists>m fs. run_machine checkpoint_step (new_checkpoint_manager, \<lparr>fs_files = Map.empty\<rparr>)
             [Call_SetRoot (Some ''/var''), Call_Build sample_build_request 1,
              Call_Save sample_checkpoint io_good 2, Call_Restart] = Some (m, fs)"
proof -
  have "snapshot_fits sample_snapshot" "checkpoint_fits sample_checkpoint"
    by (simp_all add: snapshot_fits_def sample_snapshot_def checkpoint_fits_def sample_checkpoint_def
        is_i64_def)
  then have "\<forall>c\<in>set [Call_SetRoot (Some ''/var''), Call_Build sample_build_request 1,
      Call_Save sample_checkpoint io_good 2, Call_Restart]. checkpoint_call_ok c"
    by (simp add: sample_build_request_def io_good_def)
  from checkpoint_store_stays_sound [OF this, of io_good "''cp''" 3] show ?thesis by blast
qed

section \<open>Failures of the device\<close>

text \<open>
  The memory table is written before the file: a save that is reported as failed leaves the
  checkpoint where a load of the same process finds it.
\<close>

lemma failed_durable_save_is_loadable:
  assumes "consistent (evaluate_checkpoint_consistency cp)" and "checkpoint_id cp = Some i"
    and "durable_state_root m = Some base" and "io_create_fails io"
  shows "case save_with_snapshot m fs io cp snapshot t of (m', fs', r) \<Rightarrow>
           \<not> persisted r \<and> persist_error_code r = Some RT_E_411_CHECKPOINT_SAVE_FAILED \<and> fs' = fs \<and>
           loaded_checkpoint (snd (load_checkpoint m' fs' io i t')) = Some cp"
proof -
  have "i \<noteq> []" using consistent_id [OF assms(1)] assms(2) by simp
  with assms show ?thesis
    by (auto simp: save_with_snapshot_def save_checkpoint_core_def write_durable_checkpoint_record_def
        publish_record_def load_checkpoint_def load_checkpoint_core_def checked_load_consistent Let_def)
qed

text \<open>
  The state of the output stream is not looked at before the rename: with no room on the
  device an empty record is published and the save is reported as persisted.
\<close>

lemma short_write_is_reported_persisted:
  assumes "consistent (evaluate_checkpoint_consistency cp)" and "checkpoint_id cp = Some i"
    and "durable_state_root m = Some base" and "io = io_good\<lparr>io_room := Some 0\<rparr>"
  shows "case save_with_snapshot m fs io cp snapshot t of (m', fs', r) \<Rightarrow>
           persisted r \<and> fs_files fs' (checkpoint_record_path base i) = Some []"
proof -
  have "i \<noteq> []" using consistent_id [OF assms(1)] assms(2) by simp
  with assms show ?thesis
    by (auto simp: save_with_snapshot_def save_checkpoint_core_def write_durable_checkpoint_record_def
        publish_record_def written_def io_good_def Let_def)
qed

text \<open>An inconsistent checkpoint reaches neither table nor file.\<close>

lemma inconsistent_save_changes_nothing:
  assumes "\<not> consistent (evaluate_checkpoint_consistency cp)"
  shows "case save_with_snapshot m fs io cp snapshot t of (m', fs', r) \<Rightarrow>
           \<not> persisted r \<and> fs' = fs \<and> stored_checkpoints m' = stored_checkpoints m \<and>
           pending_runtime_budget_snapshots m' = pending_runtime_budget_snapshots m"
  using assms by (simp add: save_with_snapshot_def save_checkpoint_core_def Let_def)

end
