(* ===== verification/Recovery_Manager.thy ===== *)
theory Recovery_Manager
  imports Checkpoint_Manager
begin

text \<open>
  The recovery manager (\<^verbatim>\<open>runtime/include/recovery/IRecoveryManager.h\<close>,
  \<^verbatim>\<open>runtime/src/recovery/RecoveryManager.cpp\<close>): admission of a recovery request, execution
  of the plan into an outcome, and application of the outcome. The manager owns a checkpoint
  manager that logs to the same logger object, so the events of a call are threaded through
  both.
\<close>

section \<open>Plans and results\<close>

datatype RecoveryAdmission = Admission_Admit | Admission_Reject | Admission_Escalate

fun recovery_admission_name :: "RecoveryAdmission \<Rightarrow> string" where
  "recovery_admission_name Admission_Admit = ''Admit''"
| "recovery_admission_name Admission_Reject = ''Reject''"
| "recovery_admission_name Admission_Escalate = ''Escalate''"

record SafeFailureHint =
  enter_safe_mode :: bool
  enter_degraded_mode :: bool
  sf_reason :: string

record RecoveryExecutionPlan =
  admission :: RecoveryAdmission
  planned_action :: string
  rx_resume_plan :: "ResumePlan option"
  safe_failure_hint :: "SafeFailureHint option"
  rx_error_code :: "RuntimeErrorCode option"
  rx_detail :: string

definition plan_executable :: "RecoveryExecutionPlan \<Rightarrow> bool" where
  "plan_executable p \<longleftrightarrow> admission p = Admission_Admit"

definition plan_escalated :: "RecoveryExecutionPlan \<Rightarrow> bool" where
  "plan_escalated p \<longleftrightarrow> admission p = Admission_Escalate"

record RecoveryApplyResult =
  applied :: bool
  ra_error_code :: "RuntimeErrorCode option"
  ra_detail :: string

definition make_recovery_execution_plan ::
  "string \<Rightarrow> string \<Rightarrow> ResumePlan option \<Rightarrow> RecoveryExecutionPlan"
where [outcome_simps]:
  "make_recovery_execution_plan action detail rp =
     \<lparr>admission = Admission_Admit, planned_action = action, rx_resume_plan = rp,
      safe_failure_hint = None, rx_error_code = None, rx_detail = detail\<rparr>"

definition make_recovery_rejection_plan ::
  "string \<Rightarrow> RuntimeErrorCode option \<Rightarrow> RecoveryExecutionPlan"
where [outcome_simps]:
  "make_recovery_rejection_plan detail code =
     \<lparr>admission = Admission_Reject, planned_action = ''reject'', rx_resume_plan = None,
      safe_failure_hint = None, rx_error_code = code, rx_detail = detail\<rparr>"

definition make_recovery_escalation_plan :: "string \<Rightarrow> SafeFailureHint \<Rightarrow> RecoveryExecutionPlan"
where [outcome_simps]:
  "make_recovery_escalation_plan detail hint =
     \<lparr>admission = Admission_Escalate, planned_action = ''escalate'', rx_resume_plan = None,
      safe_failure_hint = Some hint, rx_error_code = Some RT_E_501_RECOVERY_ESCALATED,
      rx_detail = detail\<rparr>"

section \<open>Budget evidence\<close>

definition find_budget_entry :: "BudgetSnapshot \<Rightarrow> BudgetType \<Rightarrow> BudgetSnapshotEntry option" where
  "find_budget_entry snapshot t = List.find (\<lambda>entry. budget_type entry = t) (entries snapshot)"

definition snapshot_is_exhausted :: "BudgetSnapshot \<Rightarrow> bool" where
  "snapshot_is_exhausted snapshot \<longleftrightarrow>
     (overall_reject_reason snapshot \<noteq> None \<and> overall_reject_reason snapshot \<noteq> Some []) \<or>
     (\<exists>entry\<in>set (entries snapshot). current entry > max_limit entry \<or> reject_reason entry \<noteq> None)"

definition replan_budget_available :: "BudgetSnapshot \<Rightarrow> bool" where
  "replan_budget_available snapshot =
     (case find_budget_entry snapshot Replan of
        None \<Rightarrow> True
      | Some entry \<Rightarrow> current entry \<le> max_limit entry \<and> reject_reason entry = None)"

section \<open>Texts\<close>

definition kRecoveryTokenMarker :: string where
  "kRecoveryTokenMarker = ''retry_idempotency_token=''"

definition runtime_error_code_label :: "RuntimeErrorCode \<Rightarrow> string" where
  "runtime_error_code_label code =
     (case code of
        RT_E_304_REPLAN_OVERRUN \<Rightarrow> ''RT_E_304_REPLAN_OVERRUN''
      | RT_E_412_RESUME_REJECTED \<Rightarrow> ''RT_E_412_RESUME_REJECTED''
      | RT_E_500_RECOVERY_REJECTED \<Rightarrow> ''RT_E_500_RECOVERY_REJECTED''
      | RT_E_510_SAFE_MODE_ENTERED \<Rightarrow> ''RT_E_510_SAFE_MODE_ENTERED''
      | RT_E_511_DEGRADE_ENTERED \<Rightarrow> ''RT_E_511_DEGRADE_ENTERED''
      | _ \<Rightarrow> ''RT_E_000_UNSPECIFIED'')"

definition make_detail :: "RuntimeErrorCode \<Rightarrow> string \<Rightarrow> string" where
  "make_detail code detail = runtime_error_code_label code @ '': '' @ detail"

definition make_degrade_plan :: "string \<Rightarrow> RecoveryExecutionPlan" where
  "make_degrade_plan detail =
     make_recovery_escalation_plan detail
       \<lparr>enter_safe_mode = False, enter_degraded_mode = True, sf_reason = detail\<rparr>"

text \<open>The retry count of a request; \<open>Suc\<close> of it wraps at 32 bits as in the code.\<close>

definition request_retry_count :: "RecoveryRequest \<Rightarrow> u32" where
  "request_retry_count request =
     value_or (rq_retry_count request) (value_or (cp_retry_count (the (rq_checkpoint request))) 0)"

definition make_replan_token :: "RecoveryRequest \<Rightarrow> string" where
  "make_replan_token request =
     ''replan:'' @ value_or (checkpoint_id (the (rq_checkpoint request))) ''unknown'' @ '':'' @
     to_string_nat (unat (request_retry_count request + 1))"

definition reflection_decision_kind_name :: "ReflectionDecisionKind option \<Rightarrow> string" where
  "reflection_decision_kind_name k =
     (case k of
        None \<Rightarrow> ''Unknown''
      | Some Kind_Unspecified \<Rightarrow> ''Unspecified''
      | Some Kind_Continue \<Rightarrow> ''Continue''
      | Some RetryStep \<Rightarrow> ''RetryStep''
      | Some Kind_Replan \<Rightarrow> ''Replan''
      | Some AbortSafe \<Rightarrow> ''AbortSafe''
      | Some (Kind_Raw i) \<Rightarrow> ''Unknown'')"

definition recovery_request_id :: "RecoveryRequest \<Rightarrow> string option" where
  "recovery_request_id request =
     (if reflection_decision request \<noteq> None \<and>
         has_non_empty_value (rd_request_id (the (reflection_decision request))) then
        rd_request_id (the (reflection_decision request))
      else if latest_observation request \<noteq> None \<and>
              has_non_empty_value (obs_request_id (the (latest_observation request))) then
        obs_request_id (the (latest_observation request))
      else if rq_checkpoint request \<noteq> None \<and>
              has_non_empty_value (cp_request_id (the (rq_checkpoint request))) then
        cp_request_id (the (rq_checkpoint request))
      else None)"

definition request_checkpoint_ref :: "RecoveryRequest \<Rightarrow> string option" where
  "request_checkpoint_ref request =
     (if rq_checkpoint request \<noteq> None \<and>
         has_non_empty_value (checkpoint_id (the (rq_checkpoint request))) then
        checkpoint_id (the (rq_checkpoint request))
      else None)"

definition is_detail_delimiter :: "char \<Rightarrow> bool" where
  "is_detail_delimiter c \<longleftrightarrow>
     c \<in> {CHR '' '', CHR 0x09, CHR 0x0A, CHR 0x0D, CHR '','', CHR '';'', CHR '')'', CHR ''('', CHR '']'',
          CHR ''['', CHR ''}'', CHR ''{''}"

text \<open>\<^verbatim>\<open>std::string::find\<close>: the first position a pattern occurs at.\<close>

fun find_substring :: "string \<Rightarrow> string \<Rightarrow> nat option" where
  "find_substring p [] = (if p = [] then Some 0 else None)"
| "find_substring p (c # cs) =
     (if take (length p) (c # cs) = p then Some 0 else map_option Suc (find_substring p cs))"

lemma find_substring_Some:
  "find_substring p s = Some n \<Longrightarrow>
     take (length p) (drop n s) = p \<and> n + length p \<le> length s \<and>
     (\<forall>q<n. take (length p) (drop q s) \<noteq> p)"
proof (induction s arbitrary: n)
  case Nil
  then show ?case by (simp split: if_splits)
next
  case (Cons c cs)
  show ?case
  proof (cases "take (length p) (c # cs) = p")
    case True
    then have "length p \<le> length (c # cs)" by (metis length_take min.cobounded1)
    with True Cons.prems show ?thesis by auto
  next
    case False
    with Cons.prems obtain k where k: "n = Suc k" "find_substring p cs = Some k" by auto
    from Cons.IH [OF k(2)] k(1) False show ?thesis by (auto simp: less_Suc_eq_0_disj)
  qed
qed

lemma find_substring_None:
  "find_substring p s = None \<Longrightarrow> p \<noteq> [] \<Longrightarrow> take (length p) (drop q s) \<noteq> p"
proof (induction s arbitrary: q)
  case Nil
  then show ?case by auto
next
  case (Cons c cs)
  then show ?case by (cases q) (auto split: if_splits)
qed

text \<open>
  The loop replaces each value in place and goes on after it; the text before the position
  is not looked at again, so the model recurses on the rest.
\<close>

function sanitize_recovery_detail :: "string \<Rightarrow> string" where
  "sanitize_recovery_detail detail =
     (case find_substring kRecoveryTokenMarker detail of
        None \<Rightarrow> detail
      | Some marker_pos \<Rightarrow>
          (let value_start = marker_pos + length kRecoveryTokenMarker
           in take value_start detail @ ''<redacted>'' @
              sanitize_recovery_detail
                (dropWhile (\<lambda>c. \<not> is_detail_delimiter c) (drop value_start detail))))"
  by auto
termination
proof (relation "measure length", simp)
  fix detail marker_pos x
  assume f: "find_substring kRecoveryTokenMarker detail = Some marker_pos"
    and x: "x = marker_pos + length kRecoveryTokenMarker"
  have "length kRecoveryTokenMarker > 0" by (simp add: kRecoveryTokenMarker_def)
  with find_substring_Some [OF f] x have "length (drop x detail) < length detail"
    unfolding length_drop by linarith
  moreover have "length (dropWhile (\<lambda>c. \<not> is_detail_delimiter c) (drop x detail)) \<le> length (drop x detail)"
    by (rule length_dropWhile_le)
  ultimately show "(dropWhile (\<lambda>c. \<not> is_detail_delimiter c) (drop x detail), detail) \<in> measure length"
    by simp
qed

declare sanitize_recovery_detail.simps [simp del]

section \<open>The manager\<close>

record RecoveryManager =
  last_evaluated_retry_count :: "u32 option"
  rm_checkpoint_manager :: CheckpointManager
  last_outcome :: "RecoveryOutcome option"
  rm_logger :: logger
  rm_runtime_instance_id :: "string option"

definition new_recovery_manager :: RecoveryManager where
  "new_recovery_manager =
     \<lparr>last_evaluated_retry_count = None, rm_checkpoint_manager = new_checkpoint_manager,
      last_outcome = None, rm_logger = None, rm_runtime_instance_id = None\<rparr>"

definition recovery_set_logger :: "RecoveryManager \<Rightarrow> logger \<Rightarrow> string option \<Rightarrow> RecoveryManager" where
  "recovery_set_logger m lg i =
     m\<lparr>rm_logger := lg, rm_runtime_instance_id := i,
       rm_checkpoint_manager := checkpoint_set_logger (rm_checkpoint_manager m) lg i\<rparr>"

definition recovery_log ::
  "RecoveryManager \<Rightarrow> LogLevel \<Rightarrow> string \<Rightarrow> (attribute_map \<Rightarrow> attribute_map) list \<Rightarrow> int \<Rightarrow>
   RecoveryManager"
where
  "recovery_log m lvl event_name fs now_ms =
     m\<lparr>rm_logger := emit_runtime_log (rm_logger m) lvl event_name ''recovery_manager''
                      (rm_runtime_instance_id m) (build_attrs fs Map.empty) now_ms\<rparr>"

definition recovery_plan_log_level :: "RecoveryExecutionPlan \<Rightarrow> LogLevel" where
  "recovery_plan_log_level p =
     (if plan_executable p then Level_Info else if plan_escalated p then Level_Warn else Level_Warn)"

definition recovery_outcome_log_level :: "RecoveryOutcome \<Rightarrow> LogLevel" where
  "recovery_outcome_log_level outcome =
     (if executed_action outcome = Some ''rejected'' then Level_Warn
      else if executed_action outcome = Some ''abort_safe'' \<or>
              executed_action outcome = Some ''degrade'' then Level_Warn
      else Level_Info)"

definition recovery_apply_log_level :: "RecoveryApplyResult \<Rightarrow> LogLevel" where
  "recovery_apply_log_level r =
     (if \<not> applied r then Level_Error else if ra_error_code r \<noteq> None then Level_Warn else Level_Info)"

definition report_flag ::
  "(IdempotencyAndSideEffectReport \<Rightarrow> bool option) \<Rightarrow> RecoveryRequest \<Rightarrow> bool"
where
  "report_flag f request =
     (case idempotency_and_side_effect_report request of
        None \<Rightarrow> False | Some report \<Rightarrow> value_or (f report) False)"

definition recovery_plan_attrs ::
  "RecoveryRequest \<Rightarrow> RecoveryExecutionPlan \<Rightarrow> (attribute_map \<Rightarrow> attribute_map) list"
where
  "recovery_plan_attrs request p =
     [add_optional_string_attr ''request_id'' (recovery_request_id request),
      add_optional_string_attr ''checkpoint_ref'' (request_checkpoint_ref request),
      add_string_attr ''reflection_decision_kind''
        (reflection_decision_kind_name
           (case reflection_decision request of None \<Rightarrow> None | Some d \<Rightarrow> decision_kind d)),
      add_u32_attr ''retry_count''
        (value_or (rq_retry_count request)
           (case rq_checkpoint request of None \<Rightarrow> 0 | Some cp \<Rightarrow> value_or (cp_retry_count cp) 0)),
      add_bool_attr ''has_runtime_budget_snapshot'' (runtime_budget_snapshot request \<noteq> None),
      add_bool_attr ''replay_safe'' (report_flag replay_safe request),
      add_bool_attr ''side_effects_present'' (report_flag side_effects_present request),
      add_string_attr ''admission'' (recovery_admission_name (admission p)),
      add_string_attr ''planned_action'' (planned_action p),
      add_bool_attr ''executable'' (plan_executable p),
      add_bool_attr ''escalated'' (plan_escalated p),
      add_bool_attr ''resume_plan_present'' (rx_resume_plan p \<noteq> None)] @
     (case safe_failure_hint p of None \<Rightarrow> []
      | Some hint \<Rightarrow>
          [add_bool_attr ''enter_safe_mode'' (enter_safe_mode hint),
           add_bool_attr ''enter_degraded_mode'' (enter_degraded_mode hint)]) @
     error_code_attrs (rx_error_code p) @
     [add_string_attr ''detail'' (sanitize_recovery_detail (rx_detail p))]"

definition recovery_outcome_attrs ::
  "RecoveryOutcome \<Rightarrow> (attribute_map \<Rightarrow> attribute_map) list"
where
  "recovery_outcome_attrs outcome =
     [add_optional_string_attr ''checkpoint_ref'' (ro_checkpoint_ref outcome),
      add_optional_string_attr ''executed_action'' (executed_action outcome),
      add_optional_string_attr ''final_runtime_state'' (final_runtime_state outcome),
      add_u32_attr ''updated_retry_count'' (value_or (updated_retry_count outcome) 0),
      add_bool_attr ''rejected'' (ro_rejection_reason outcome \<noteq> None),
      add_bool_attr ''escalated'' (escalation_reason outcome \<noteq> None)] @
     (case ro_rejection_reason outcome of
        Some text \<Rightarrow> [add_string_attr ''detail'' (sanitize_recovery_detail text)]
      | None \<Rightarrow>
          (case escalation_reason outcome of
             Some text \<Rightarrow> [add_string_attr ''detail'' (sanitize_recovery_detail text)]
           | None \<Rightarrow> []))"

definition recovery_apply_attrs ::
  "RecoveryOutcome \<Rightarrow> RecoveryApplyResult \<Rightarrow> (attribute_map \<Rightarrow> attribute_map) list"
where
  "recovery_apply_attrs outcome r =
     [add_optional_string_attr ''checkpoint_ref'' (ro_checkpoint_ref outcome),
      add_optional_string_attr ''executed_action'' (executed_action outcome),
      add_optional_string_attr ''final_runtime_state'' (final_runtime_state outcome),
      add_bool_attr ''applied'' (applied r),
      add_u32_attr ''updated_retry_count'' (value_or (updated_retry_count outcome) 0)] @
     error_code_attrs (ra_error_code r) @
     [add_string_attr ''detail'' (sanitize_recovery_detail (ra_detail r))]"

section \<open>Admission\<close>

text \<open>The owned checkpoint manager logs to the same logger.\<close>

definition resume_with_own_manager ::
  "RecoveryManager \<Rightarrow> Checkpoint \<Rightarrow> int \<Rightarrow> RecoveryManager \<times> ResumePlanDecision"
where
  "resume_with_own_manager m cp now_ms =
     (let (cm, d) = make_resume_plan ((rm_checkpoint_manager m)\<lparr>cm_logger := rm_logger m\<rparr>) cp now_ms
      in (m\<lparr>rm_checkpoint_manager := cm, rm_logger := cm_logger cm\<rparr>, d))"

definition rejected_with :: "RuntimeErrorCode \<Rightarrow> string \<Rightarrow> RecoveryExecutionPlan" where
  "rejected_with code text = make_recovery_rejection_plan (make_detail code text) (Some code)"

definition evaluate_replay ::
  "RecoveryManager \<Rightarrow> RecoveryRequest \<Rightarrow> string \<Rightarrow> int \<Rightarrow> RecoveryManager \<times> RecoveryExecutionPlan"
where
  "evaluate_replay m request action now_ms =
     (let report = the (idempotency_and_side_effect_report request)
      in if \<not> the (replay_safe report) then
           (m, rejected_with RT_E_500_RECOVERY_REJECTED
                 (value_or (non_replayable_reason report)
                    ''replay rejected because side effects are not replay-safe''))
         else if idempotency_key report = None \<or> idempotency_key report = Some [] then
           (m, rejected_with RT_E_500_RECOVERY_REJECTED
                 ''retry_step requires retry_idempotency_token reuse evidence'')
         else
           (let (m', d) = resume_with_own_manager m (the (rq_checkpoint request)) now_ms
            in if \<not> resumable d then
                 (m', rejected_with (value_or (plan_error_code d) RT_E_412_RESUME_REJECTED)
                        (plan_detail d))
               else
                 (m', make_recovery_execution_plan action
                        (action @ '' admitted; reuse retry_idempotency_token='' @
                         the (idempotency_key report))
                        (plan d))))"

definition evaluate_recovery_core ::
  "RecoveryManager \<Rightarrow> RecoveryRequest \<Rightarrow> int \<Rightarrow> RecoveryManager \<times> RecoveryExecutionPlan"
where
  "evaluate_recovery_core m request now_ms =
     (let request_guard = validate_recovery_request_field_rules request;
          snapshot = runtime_budget_snapshot request
      in if \<not> ok request_guard then
           (m, rejected_with RT_E_500_RECOVERY_REJECTED (reason request_guard))
         else if snapshot \<noteq> None \<and> snapshot_is_exhausted (the snapshot) then
           (m, make_degrade_plan
                 (value_or (overall_reject_reason (the snapshot))
                    ''runtime budget exhausted during recovery admission''))
         else
           (let m' = m\<lparr>last_evaluated_retry_count := Some (request_retry_count request + 1)\<rparr>
            in (case the (decision_kind (the (reflection_decision request))) of
                  AbortSafe \<Rightarrow>
                    (m', make_recovery_escalation_plan ''reflection requested abort_safe escalation''
                           \<lparr>enter_safe_mode = True, enter_degraded_mode = False,
                            sf_reason = ''abort_safe should enter a supervised recovery path''\<rparr>)
                | Kind_Replan \<Rightarrow>
                    if snapshot \<noteq> None \<and> \<not> replan_budget_available (the snapshot) then
                      (m', rejected_with RT_E_304_REPLAN_OVERRUN ''replan budget exhausted'')
                    else
                      (m', make_recovery_execution_plan ''replan''
                             (''replan admitted; new retry_idempotency_token='' @
                              make_replan_token request)
                             None)
                | Kind_Continue \<Rightarrow> evaluate_replay m' request ''continue'' now_ms
                | RetryStep \<Rightarrow> evaluate_replay m' request ''retry_step'' now_ms
                | Kind_Unspecified \<Rightarrow>
                    (m', rejected_with RT_E_500_RECOVERY_REJECTED
                           ''reflection decision must be concrete'')
                | Kind_Raw i \<Rightarrow>
                    (m', rejected_with RT_E_500_RECOVERY_REJECTED
                           ''recovery decision is not supported''))))"

text \<open>
  A kind outside the enumeration leaves the result untouched by the switch; its empty
  \<^verbatim>\<open>planned_action\<close> then selects the last rejection, which is the \<open>Kind_Raw\<close> branch.
\<close>

definition evaluate_recovery ::
  "RecoveryManager \<Rightarrow> RecoveryRequest \<Rightarrow> int \<Rightarrow> RecoveryManager \<times> RecoveryExecutionPlan"
where
  "evaluate_recovery m request now_ms =
     (let (m', p) = evaluate_recovery_core m request now_ms
      in (recovery_log m' (recovery_plan_log_level p) ''runtime.recovery.evaluate''
            (recovery_plan_attrs request p) now_ms, p))"

section \<open>Execution and application\<close>

definition execute_plan_core :: "RecoveryExecutionPlan \<Rightarrow> u32 option \<Rightarrow> RecoveryOutcome" where
  "execute_plan_core p retry_count =
     (if \<not> plan_executable p then
        if plan_escalated p then
          (let degraded = (case safe_failure_hint p of
                             None \<Rightarrow> False | Some hint \<Rightarrow> enter_degraded_mode hint)
           in \<lparr>executed_action = Some (if degraded then ''degrade'' else ''abort_safe''),
               final_runtime_state = Some (if degraded then ''Degraded'' else ''FailedSafe''),
               updated_retry_count = retry_count, ro_checkpoint_ref = None,
               compensation_result_ref = None, ro_rejection_reason = None,
               escalation_reason = Some (rx_detail p)\<rparr>)
        else
          \<lparr>executed_action = Some ''rejected'', final_runtime_state = Some ''FailedSafe'',
           updated_retry_count = retry_count, ro_checkpoint_ref = None,
           compensation_result_ref = None, ro_rejection_reason = Some (rx_detail p),
           escalation_reason = None\<rparr>
      else
        \<lparr>executed_action = Some (planned_action p),
         final_runtime_state = Some
           (if planned_action p = ''replan'' then ''Planning''
            else (case rx_resume_plan p of
                    Some rp \<Rightarrow> runtime_state_name (target_state rp) | None \<Rightarrow> ''Reasoning'')),
         updated_retry_count = retry_count,
         ro_checkpoint_ref = map_option plan_checkpoint_ref (rx_resume_plan p),
         compensation_result_ref = None, ro_rejection_reason = None, escalation_reason = None\<rparr>)"

definition execute_recovery ::
  "RecoveryManager \<Rightarrow> RecoveryExecutionPlan \<Rightarrow> int \<Rightarrow> RecoveryManager \<times> RecoveryOutcome"
where
  "execute_recovery m p now_ms =
     (let outcome = execute_plan_core p (last_evaluated_retry_count m)
      in (recovery_log m (recovery_outcome_log_level outcome) ''runtime.recovery.execute''
            (recovery_outcome_attrs outcome) now_ms, outcome))"

definition apply_outcome_core ::
  "RecoveryManager \<Rightarrow> RecoveryOutcome \<Rightarrow> RecoveryManager \<times> RecoveryApplyResult"
where
  "apply_outcome_core m outcome =
     (let guard = validate_recovery_outcome_field_rules outcome
      in if \<not> ok guard then
           (m, \<lparr>applied = False, ra_error_code = Some RT_E_500_RECOVERY_REJECTED,
                ra_detail = reason guard\<rparr>)
         else
           (m\<lparr>last_outcome := Some outcome\<rparr>,
            (if executed_action outcome = Some ''rejected'' then
               \<lparr>applied = False, ra_error_code = Some RT_E_500_RECOVERY_REJECTED,
                ra_detail = value_or (ro_rejection_reason outcome)
                  (make_detail RT_E_500_RECOVERY_REJECTED ''rejected outcomes are not applied'')\<rparr>
             else if executed_action outcome = Some ''abort_safe'' then
               \<lparr>applied = True, ra_error_code = Some RT_E_510_SAFE_MODE_ENTERED,
                ra_detail = make_detail RT_E_510_SAFE_MODE_ENTERED ''abort_safe outcome applied''\<rparr>
             else if executed_action outcome = Some ''degrade'' then
               \<lparr>applied = True, ra_error_code = Some RT_E_511_DEGRADE_ENTERED,
                ra_detail = make_detail RT_E_511_DEGRADE_ENTERED ''degraded recovery outcome applied''\<rparr>
             else
               \<lparr>applied = True, ra_error_code = None, ra_detail = ''recovery outcome applied''\<rparr>)))"

definition apply_recovery ::
  "RecoveryManager \<Rightarrow> RecoveryOutcome \<Rightarrow> int \<Rightarrow> RecoveryManager \<times> RecoveryApplyResult"
where
  "apply_recovery m outcome now_ms =
     (let (m', r) = apply_outcome_core m outcome
      in (recovery_log m' (recovery_apply_log_level r) ''runtime.recovery.apply''
            (recovery_apply_attrs outcome r) now_ms, r))"

section \<open>Texts in the log\<close>

lemma marker_facts [simp]:
  "length kRecoveryTokenMarker = 24" "kRecoveryTokenMarker \<noteq> []"
  by (simp_all add: kRecoveryTokenMarker_def)

lemma take_drop_full: "length (take n (drop q w)) = n \<Longrightarrow> 0 < n \<Longrightarrow> q + n \<le> length w"
  by (simp add: min_def split: if_splits)

text \<open>
  A pattern that avoids the first and the last character of an infix and is longer than it
  occurs before it or after it.
\<close>

lemma occurrence_split:
  assumes "take (length k) (drop q (a @ r @ b)) = k" and "r \<noteq> []"
    and "hd r \<notin> set k" and "last r \<notin> set k" and "length r < length k"
  shows "q + length k \<le> length a \<or> length a + length r \<le> q"
proof (rule ccontr)
  assume "\<not> ?thesis"
  then have n: "length a < q + length k" "q < length a + length r" by simp_all
  let ?w = "a @ r @ b"
  have "length (take (length k) (drop q ?w)) = length k" using assms(1) by simp
  moreover have "0 < length k" using assms(5) by linarith
  ultimately have len: "q + length k \<le> length ?w" by (rule take_drop_full)
  have char_at: "k ! i = ?w ! (q + i)" if "i < length k" for i
  proof -
    have "k ! i = take (length k) (drop q ?w) ! i" using assms(1) by simp
    also have "\<dots> = drop q ?w ! i" using that by (rule nth_take)
    also have "\<dots> = ?w ! (q + i)" using len by (intro nth_drop) simp
    finally show ?thesis .
  qed
  show False
  proof (cases "q \<le> length a")
    case True
    with n have i: "length a - q < length k" by linarith
    have "?w ! length a = hd r" using assms(2) by (simp add: nth_append hd_conv_nth)
    with char_at [OF i] True have "k ! (length a - q) = hd r" by simp
    with i assms(3) show False using nth_mem by metis
  next
    case False
    let ?j = "length a + (length r - 1)"
    from False n assms(5) have i: "?j - q < length k" and j: "q + (?j - q) = ?j" by linarith+
    have "?w ! ?j = last r" using assms(2) by (simp add: nth_append last_conv_nth)
    with char_at [OF i] j have "k ! (?j - q) = last r" by simp
    with i assms(4) show False using nth_mem by metis
  qed
qed

lemma drop_past: "length u \<le> q \<Longrightarrow> drop (q + m) (u @ b) = drop (q - length u + m) b"
  by (simp add: drop_append)

lemma dropWhile_stops: "dropWhile P xs = [] \<or> \<not> P (hd (dropWhile P xs))"
  by (induction xs) auto

lemma sanitize_head:
  "sanitize_recovery_detail s = [] \<and> s = [] \<or>
   (\<exists>c cs ds. s = c # cs \<and> sanitize_recovery_detail s = c # ds)"
proof (cases "find_substring kRecoveryTokenMarker s")
  case None
  then show ?thesis by (cases s) (simp_all add: sanitize_recovery_detail.simps)
next
  case (Some n)
  let ?v = "n + length kRecoveryTokenMarker"
  have eq: "\<exists>rest. sanitize_recovery_detail s = take ?v s @ rest"
    using Some by (simp add: sanitize_recovery_detail.simps [of s] Let_def)
  have "?v \<le> length s" "0 < ?v" using find_substring_Some [OF Some] by simp_all
  then obtain c cs where s: "s = c # cs" by (cases s) auto
  with eq \<open>0 < ?v\<close> show ?thesis by (auto simp: take_Cons')
qed

lemma sanitize_hd:
  "sanitize_recovery_detail s = [] \<or> (s \<noteq> [] \<and> hd (sanitize_recovery_detail s) = hd s)"
  using sanitize_head [of s] by auto

text \<open>After the last step every marker is followed by the redaction and a delimiter.\<close>

definition redacted_at :: "string \<Rightarrow> nat \<Rightarrow> bool" where
  "redacted_at s q \<longleftrightarrow>
     (\<exists>rest. drop (q + length kRecoveryTokenMarker) s = ''<redacted>'' @ rest \<and>
             (rest = [] \<or> is_detail_delimiter (hd rest)))"

lemma sanitize_redacts:
  "take (length kRecoveryTokenMarker) (drop q (sanitize_recovery_detail s)) = kRecoveryTokenMarker \<Longrightarrow>
     redacted_at (sanitize_recovery_detail s) q"
proof (induction s arbitrary: q rule: sanitize_recovery_detail.induct)
  case (1 s)
  show ?case
  proof (cases "find_substring kRecoveryTokenMarker s")
    case None
    with "1.prems" find_substring_None [OF None, of q] show ?thesis
      by (simp add: sanitize_recovery_detail.simps [of s])
  next
    case (Some n)
    let ?v = "n + length kRecoveryTokenMarker"
    let ?a = "take ?v s" and ?rest = "dropWhile (\<lambda>c. \<not> is_detail_delimiter c) (drop ?v s)"
    let ?b = "sanitize_recovery_detail ?rest"
    have eq: "sanitize_recovery_detail s = ?a @ ''<redacted>'' @ ?b"
      using Some by (simp add: sanitize_recovery_detail.simps [of s] Let_def)
    note f = find_substring_Some [OF Some]
    have la: "length ?a = ?v" using f by simp
    have stop: "?b = [] \<or> is_detail_delimiter (hd ?b)"
      using sanitize_hd [of ?rest]
        dropWhile_stops [of "\<lambda>c. \<not> is_detail_delimiter c" "drop ?v s"] by metis
    have "q + length kRecoveryTokenMarker \<le> length ?a \<or> length ?a + length ''<redacted>'' \<le> q"
      by (rule occurrence_split [OF "1.prems" [unfolded eq]]) (simp_all add: kRecoveryTokenMarker_def)
    then show ?thesis
    proof
      assume before: "q + length kRecoveryTokenMarker \<le> length ?a"
      have "take (length kRecoveryTokenMarker) (drop q (?a @ ''<redacted>'' @ ?b)) =
          take (length kRecoveryTokenMarker) (drop q s)"
        using before la by (simp add: take_drop min_def)
      with "1.prems" eq have "take (length kRecoveryTokenMarker) (drop q s) = kRecoveryTokenMarker"
        by simp
      with f before la have "q = n" by (metis add_le_cancel_right linorder_neqE_nat not_le)
      with la stop show ?thesis by (auto simp: redacted_at_def eq)
    next
      assume after: "length ?a + length ''<redacted>'' \<le> q"
      let ?q = "q - length (?a @ ''<redacted>'')"
      have shift: "drop (q + m) (?a @ ''<redacted>'' @ ?b) = drop (?q + m) ?b" for m
        using drop_past [of "?a @ ''<redacted>''" q m ?b] after by (simp only: append_assoc length_append)
      have "take (length kRecoveryTokenMarker) (drop ?q ?b) = kRecoveryTokenMarker"
        using "1.prems" shift [of 0] unfolding eq by (simp only: add_0_right)
      from "1.IH" [OF Some refl this] show ?thesis
        using shift [of "length kRecoveryTokenMarker"] by (simp only: redacted_at_def eq)
    qed
  qed
qed

section \<open>Admission follows the table\<close>

definition replay_admissible :: "RecoveryRequest \<Rightarrow> bool" where
  "replay_admissible request \<longleftrightarrow>
     (case (idempotency_and_side_effect_report request, rq_checkpoint request) of
        (Some report, Some cp) \<Rightarrow>
          replay_safe report = Some True \<and> has_non_empty_value (idempotency_key report) \<and>
          consistent (evaluate_checkpoint_consistency cp) \<and> can_resume_from (the (cp_state cp))
      | _ \<Rightarrow> False)"

definition budget_exhausted :: "RecoveryRequest \<Rightarrow> bool" where
  "budget_exhausted request \<longleftrightarrow>
     (case runtime_budget_snapshot request of None \<Rightarrow> False | Some s \<Rightarrow> snapshot_is_exhausted s)"

definition request_kind :: "RecoveryRequest \<Rightarrow> ReflectionDecisionKind" where
  "request_kind request = the (decision_kind (the (reflection_decision request)))"

definition recovery_table :: "RecoveryRequest \<Rightarrow> RecoveryAdmission \<times> string" where
  "recovery_table request =
     (if \<not> ok (validate_recovery_request_field_rules request) then (Admission_Reject, ''reject'')
      else if budget_exhausted request then (Admission_Escalate, ''escalate'')
      else (case request_kind request of
              AbortSafe \<Rightarrow> (Admission_Escalate, ''escalate'')
            | Kind_Replan \<Rightarrow> (Admission_Admit, ''replan'')
            | Kind_Continue \<Rightarrow>
                if replay_admissible request then (Admission_Admit, ''continue'')
                else (Admission_Reject, ''reject'')
            | RetryStep \<Rightarrow>
                if replay_admissible request then (Admission_Admit, ''retry_step'')
                else (Admission_Reject, ''reject'')
            | _ \<Rightarrow> (Admission_Reject, ''reject'')))"

text \<open>
  A snapshot without a replan budget is an exhausted one, so the code's own branch for it,
  with RT_E_304, is never taken.
\<close>

lemma replan_overrun_unreachable:
  assumes "\<not> snapshot_is_exhausted s"
  shows "replan_budget_available s"
proof (cases "find_budget_entry s Replan")
  case None
  then show ?thesis by (simp add: replan_budget_available_def)
next
  case (Some e)
  then have "e \<in> set (entries s)" unfolding find_budget_entry_def by (rule find_Some_first [THEN conjunct1])
  with assms have "\<not> max_limit e < current e \<and> reject_reason e = None"
    unfolding snapshot_is_exhausted_def by blast
  with Some show ?thesis by (simp add: replan_budget_available_def not_less)
qed

lemma exhausted_iff:
  "(runtime_budget_snapshot r \<noteq> None \<and> snapshot_is_exhausted (the (runtime_budget_snapshot r))) =
     budget_exhausted r"
  by (cases "runtime_budget_snapshot r") (simp_all add: budget_exhausted_def)

lemmas evaluation_core = evaluate_recovery_core_def [unfolded Let_def exhausted_iff]

lemma replan_branch:
  "\<not> budget_exhausted r \<Longrightarrow> runtime_budget_snapshot r = Some y \<Longrightarrow> replan_budget_available y"
  using replan_overrun_unreachable by (simp add: budget_exhausted_def)

lemma resume_with_own_manager_decision:
  "snd (resume_with_own_manager m cp t) = synthesize_resume_plan cp"
  by (simp add: resume_with_own_manager_def make_resume_plan_def case_prod_unfold Let_def)

lemma resume_with_own_manager_frame [simp]:
  "last_evaluated_retry_count (fst (resume_with_own_manager m cp t)) = last_evaluated_retry_count m"
  "last_outcome (fst (resume_with_own_manager m cp t)) = last_outcome m"
  by (simp_all add: resume_with_own_manager_def case_prod_unfold Let_def)

lemma rejected_with_sel [simp]:
  "admission (rejected_with c d) = Admission_Reject" "planned_action (rejected_with c d) = ''reject''"
  "rx_detail (rejected_with c d) = make_detail c d"
  by (simp_all add: rejected_with_def outcome_simps)

lemma evaluate_replay_plan:
  assumes "idempotency_and_side_effect_report request = Some report" and "replay_safe report \<noteq> None"
    and "rq_checkpoint request = Some cp"
  shows "if replay_admissible request
         then snd (evaluate_replay m request action t) =
                make_recovery_execution_plan action
                  (action @ '' admitted; reuse retry_idempotency_token='' @ the (idempotency_key report))
                  (plan (synthesize_resume_plan cp))
         else \<exists>c d. snd (evaluate_replay m request action t) = rejected_with c d"
    and "last_evaluated_retry_count (fst (evaluate_replay m request action t)) =
           last_evaluated_retry_count m"
  using assms resume_with_own_manager_decision [of m cp t]
  by (auto simp: evaluate_replay_def replay_admissible_def has_non_empty_iff resume_plan_resumable
      case_prod_unfold Let_def)

text \<open>Every evaluation is one of five.\<close>

lemma evaluation_cases:
  obtains
    (rejected) c d where "snd (evaluate_recovery_core m r t) = rejected_with c d"
      and "recovery_table r = (Admission_Reject, ''reject'')"
  | (degrade) s where "runtime_budget_snapshot r = Some s" and "snapshot_is_exhausted s"
      and "snd (evaluate_recovery_core m r t) = make_degrade_plan
             (value_or (overall_reject_reason s) ''runtime budget exhausted during recovery admission'')"
      and "recovery_table r = (Admission_Escalate, ''escalate'')"
  | (abort) h where "snd (evaluate_recovery_core m r t) =
        make_recovery_escalation_plan ''reflection requested abort_safe escalation'' h"
      and "\<not> enter_degraded_mode h" and "\<not> budget_exhausted r"
      and "recovery_table r = (Admission_Escalate, ''escalate'')"
  | (replan) d where "snd (evaluate_recovery_core m r t) = make_recovery_execution_plan ''replan'' d None"
      and "request_kind r = Kind_Replan" and "recovery_table r = (Admission_Admit, ''replan'')"
      and "last_evaluated_retry_count (fst (evaluate_recovery_core m r t)) =
             Some (request_retry_count r + 1)"
  | (replay) action d cp p where "action = ''continue'' \<or> action = ''retry_step''"
      and "snd (evaluate_recovery_core m r t) = make_recovery_execution_plan action d (Some p)"
      and "request_kind r \<noteq> Kind_Replan" and "rq_checkpoint r = Some cp"
      and "plan (synthesize_resume_plan cp) = Some p" and "resumable (synthesize_resume_plan cp)"
      and "recovery_table r = (Admission_Admit, action)"
      and "last_evaluated_retry_count (fst (evaluate_recovery_core m r t)) =
             Some (request_retry_count r + 1)"
proof (cases "ok (validate_recovery_request_field_rules r)")
  case False
  then show thesis
    by (intro rejected) (auto simp: evaluation_core recovery_table_def)
next
  case guard: True
  show thesis
  proof (cases "budget_exhausted r")
    case True
    then obtain s where s: "runtime_budget_snapshot r = Some s" "snapshot_is_exhausted s"
      by (auto simp: budget_exhausted_def split: option.splits)
    with guard True show thesis
      by (intro degrade [OF s]) (simp_all add: evaluation_core recovery_table_def)
  next
    case fresh: False
    from recovery_request_evidence [OF guard] obtain dec cp rep
      where ev: "reflection_decision r = Some dec" "rq_checkpoint r = Some cp"
        "idempotency_and_side_effect_report r = Some rep" "ok (validate_report_required_fields rep)"
      by metis
    from ev(4) have safe: "replay_safe rep \<noteq> None"
      by (auto simp: validate_report_required_fields_def split: if_splits)
    let ?m = "m\<lparr>last_evaluated_retry_count := Some (request_retry_count r + 1)\<rparr>"
    have replay_case: thesis
      if k: "action = ''continue'' \<or> action = ''retry_step''"
        and core: "evaluate_recovery_core m r t = evaluate_replay ?m r action t"
        and kind: "request_kind r \<noteq> Kind_Replan"
        and tab: "recovery_table r = (if replay_admissible r then (Admission_Admit, action)
                                      else (Admission_Reject, ''reject''))" for action
    proof (cases "replay_admissible r")
      case True
      then have res: "resumable (synthesize_resume_plan cp)"
        using ev(2,3) by (simp add: replay_admissible_def resume_plan_resumable)
      then obtain p where "plan (synthesize_resume_plan cp) = Some p"
        using resume_plan_fields by blast
      with True evaluate_replay_plan [OF ev(3) safe ev(2), of ?m action t] res core tab k ev(2) kind
      show thesis by (intro replay [of action]) auto
    next
      case False
      with evaluate_replay_plan(1) [OF ev(3) safe ev(2), of ?m action t] core tab
      show thesis using rejected by auto
    qed
    show thesis
    proof (cases "request_kind r")
      case Kind_Continue
      then show thesis using guard fresh
        by (intro replay_case [of "''continue''"])
          (simp_all add: evaluation_core recovery_table_def request_kind_def)
    next
      case RetryStep
      then show thesis using guard fresh
        by (intro replay_case [of "''retry_step''"])
          (simp_all add: evaluation_core recovery_table_def request_kind_def)
    next
      case Kind_Replan
      from Kind_Replan guard fresh show thesis
        by (intro replan [of "''replan admitted; new retry_idempotency_token='' @ make_replan_token r"])
          (auto simp: evaluation_core recovery_table_def request_kind_def dest: replan_branch)
    next
      case AbortSafe
      with guard fresh show thesis
        by (intro abort [of "\<lparr>enter_safe_mode = True, enter_degraded_mode = False,
              sf_reason = ''abort_safe should enter a supervised recovery path''\<rparr>"])
          (auto simp: evaluation_core recovery_table_def request_kind_def dest: replan_branch)
    next
      case Kind_Unspecified
      with guard fresh show thesis
        by (intro rejected)
          (auto simp: evaluation_core recovery_table_def request_kind_def dest: replan_branch)
    next
      case (Kind_Raw i)
      with guard fresh show thesis
        by (intro rejected)
          (auto simp: evaluation_core recovery_table_def request_kind_def dest: replan_branch)
    qed
  qed
qed

lemma evaluate_recovery_plan:
  "snd (evaluate_recovery m r t) = snd (evaluate_recovery_core m r t)"
  "last_evaluated_retry_count (fst (evaluate_recovery m r t)) =
     last_evaluated_retry_count (fst (evaluate_recovery_core m r t))"
  by (simp_all add: evaluate_recovery_def recovery_log_def case_prod_unfold Let_def)

lemma make_degrade_plan_sel [simp]:
  "admission (make_degrade_plan d) = Admission_Escalate" "planned_action (make_degrade_plan d) = ''escalate''"
  "rx_detail (make_degrade_plan d) = d"
  by (simp_all add: make_degrade_plan_def outcome_simps)


section \<open>From a request to an applied outcome\<close>

lemma nonblank_cons:
  "\<not> isspace c \<Longrightarrow> recovery_outcome_string_has_non_whitespace_content (c # cs)"
  by simp

lemma isspace_letters [simp]:
  "\<not> isspace (CHR ''R'')" "\<not> isspace (CHR ''r'')" "\<not> isspace (CHR ''a'')" "\<not> isspace (CHR ''d'')"
  "\<not> isspace (CHR ''c'')" "\<not> isspace (CHR ''D'')" "\<not> isspace (CHR ''F'')" "\<not> isspace (CHR ''P'')"
  "\<not> isspace (CHR ''W'')"
  by (simp_all add: isspace_def)

lemma nonblank_nonempty:
  "recovery_outcome_string_has_non_whitespace_content s \<Longrightarrow> s \<noteq> []"
  by auto

lemma make_detail_nonblank [simp]:
  "recovery_outcome_string_has_non_whitespace_content (make_detail c d)"
  by (cases c) (simp_all add: make_detail_def runtime_error_code_label_def)

lemma resume_target_name:
  "resume_target_state s = Some q \<Longrightarrow>
     recovery_outcome_string_has_non_whitespace_content (runtime_state_name q)"
  by (cases s) auto

lemma outcome_guard_ok:
  assumes "recovery_outcome_string_has_non_whitespace_content a"
    and "recovery_outcome_string_has_non_whitespace_content f"
    and "\<forall>i. cp_ref = Some i \<longrightarrow> recovery_outcome_string_has_non_whitespace_content i"
    and "\<forall>i. rej = Some i \<longrightarrow> recovery_outcome_string_has_non_whitespace_content i"
    and "\<forall>i. esc = Some i \<longrightarrow> recovery_outcome_string_has_non_whitespace_content i"
    and "rej = None \<or> esc = None"
  shows "ok (validate_recovery_outcome_field_rules
     \<lparr>executed_action = Some a, final_runtime_state = Some f, updated_retry_count = n,
      ro_checkpoint_ref = cp_ref, compensation_result_ref = None, ro_rejection_reason = rej,
      escalation_reason = esc\<rparr>)"
  using assms nonblank_nonempty
  by (auto simp: validate_recovery_outcome_field_rules_def validate_recovery_outcome_boundary_def
      validate_recovery_outcome_required_fields_def recovery_outcome_optional_string_is_valid_def
      recovery_outcome_optional_string_has_non_whitespace_content_def has_non_empty_value_def
      pass_def Let_def)

text \<open>
  The texts of a request that end up in its outcome are not blank. The guards of the request
  ask for less: they only ask for a checkpoint id that is not empty, and do not look at the
  overall reject reason.
\<close>

definition texts_not_blank :: "RecoveryRequest \<Rightarrow> bool" where
  "texts_not_blank r \<longleftrightarrow>
     (\<forall>cp i. rq_checkpoint r = Some cp \<longrightarrow> checkpoint_id cp = Some i \<longrightarrow>
        recovery_outcome_string_has_non_whitespace_content i) \<and>
     (\<forall>s x. runtime_budget_snapshot r = Some s \<longrightarrow> overall_reject_reason s = Some x \<longrightarrow>
        recovery_outcome_string_has_non_whitespace_content x)"

definition recovered_state :: "RecoveryRequest \<Rightarrow> string" where
  "recovered_state r =
     (if request_kind r = Kind_Replan then ''Planning''
      else runtime_state_name (the (resume_target_state (the (cp_state (the (rq_checkpoint r)))))))"

lemma execute_recovery_eq:
  "snd (execute_recovery m p t) = execute_plan_core p (last_evaluated_retry_count m)"
  by (simp add: execute_recovery_def Let_def)

lemma apply_recovery_eq:
  "snd (apply_recovery m outcome t) = snd (apply_outcome_core m outcome)"
  "last_outcome (fst (apply_recovery m outcome t)) = last_outcome (fst (apply_outcome_core m outcome))"
  by (simp_all add: apply_recovery_def recovery_log_def case_prod_unfold Let_def)

definition run_recovery ::
  "RecoveryManager \<Rightarrow> RecoveryRequest \<Rightarrow> int \<Rightarrow> RecoveryManager \<times> RecoveryOutcome \<times> RecoveryApplyResult"
where
  "run_recovery m r t =
     (let (m1, p) = evaluate_recovery m r t;
          (m2, outcome) = execute_recovery m1 p t;
          (m3, result) = apply_recovery m2 outcome t
      in (m3, outcome, result))"

lemma run_recovery_eq:
  "run_recovery m r t =
     (let m1 = fst (evaluate_recovery m r t);
          outcome = execute_plan_core (snd (evaluate_recovery_core m r t))
                      (last_evaluated_retry_count (fst (evaluate_recovery_core m r t)));
          m2 = fst (execute_recovery m1 (snd (evaluate_recovery_core m r t)) t)
      in (fst (apply_recovery m2 outcome t), outcome, snd (apply_recovery m2 outcome t)))"
  using evaluate_recovery_plan [of m r t]
  by (simp add: run_recovery_def case_prod_unfold Let_def execute_recovery_eq)

lemma apply_outcome_accepted:
  assumes "ok (validate_recovery_outcome_field_rules outcome)"
  shows "last_outcome (fst (apply_outcome_core m outcome)) = Some outcome"
    and "ra_error_code (snd (apply_outcome_core m outcome)) =
           (if executed_action outcome = Some ''rejected'' then Some RT_E_500_RECOVERY_REJECTED
            else if executed_action outcome = Some ''abort_safe'' then Some RT_E_510_SAFE_MODE_ENTERED
            else if executed_action outcome = Some ''degrade'' then Some RT_E_511_DEGRADE_ENTERED
            else None)"
    and "applied (snd (apply_outcome_core m outcome)) \<longleftrightarrow> executed_action outcome \<noteq> Some ''rejected''"
  using assms by (simp_all add: apply_outcome_core_def Let_def)

text \<open>The outcome of each shape of plan passes the guard.\<close>

lemma executed_outcome_ok [simp]:
  "ok (validate_recovery_outcome_field_rules (execute_plan_core (rejected_with c d) n))"
  "recovery_outcome_string_has_non_whitespace_content d \<Longrightarrow>
     ok (validate_recovery_outcome_field_rules (execute_plan_core (make_degrade_plan d) n))"
  "\<not> enter_degraded_mode h \<Longrightarrow> ok (validate_recovery_outcome_field_rules (execute_plan_core
     (make_recovery_escalation_plan ''reflection requested abort_safe escalation'' h) n))"
  "ok (validate_recovery_outcome_field_rules
     (execute_plan_core (make_recovery_execution_plan ''replan'' d None) n))"
  "recovery_outcome_string_has_non_whitespace_content action \<Longrightarrow> action \<noteq> ''replan'' \<Longrightarrow>
     recovery_outcome_string_has_non_whitespace_content (plan_checkpoint_ref p) \<Longrightarrow>
     recovery_outcome_string_has_non_whitespace_content (runtime_state_name (target_state p)) \<Longrightarrow>
     ok (validate_recovery_outcome_field_rules
       (execute_plan_core (make_recovery_execution_plan action d (Some p)) n))"
  by (simp_all add: execute_plan_core_def plan_executable_def plan_escalated_def make_degrade_plan_def
      make_recovery_escalation_plan_def make_recovery_execution_plan_def outcome_guard_ok)

lemmas run_simps = run_recovery_eq Let_def apply_recovery_eq apply_outcome_accepted

lemmas exec_simps = execute_plan_core_def plan_executable_def plan_escalated_def
  make_degrade_plan_def make_recovery_escalation_plan_def make_recovery_execution_plan_def Let_def


definition sample_error :: ErrorInfo where
  "sample_error =
     \<lparr>failure_type = Some Category_Tool, retryable = Some True, safe_to_replan = Some True,
      err_details = \<lparr>err_code = Some 1, err_message = ''m'', err_stage = ''s''\<rparr>,
      source_ref = \<lparr>ref_type = ''tool_call'', ref_id = ''t''\<rparr>\<rparr>"

definition sample_recovery :: RecoveryRequest where
  "sample_recovery =
     \<lparr>reflection_decision = Some
        \<lparr>rd_request_id = Some ''r'', decision_kind = Some RetryStep, rationale = Some ''why'',
         rd_goal_id = None, confidence = None, relevant_observation_refs = None, hint_ref = None,
         rd_created_at = None, rd_tags = None\<rparr>,
      error_info = Some sample_error,
      latest_observation = Some
        \<lparr>observation_id = Some ''o'', obs_source = Some ToolExecution, obs_success = Some False,
         obs_payload = Some ''p'', obs_created_at = Some 1, obs_error = Some sample_error,
         obs_side_effects = None, tool_call_id = Some ''t'', worker_task_id = None,
         obs_request_id = None, obs_goal_id = None, obs_duration_ms = None, obs_tags = None\<rparr>,
      rq_checkpoint = Some
        \<lparr>checkpoint_id = Some ''cp'', cp_state = Some CS_WaitingTool, step_id = Some ''s'',
         working_memory_snapshot = Some ''w'', pending_action = Some ''a'', cp_request_id = Some ''r'',
         cp_goal_id = None, belief_state_ref = None, cp_retry_count = Some 2, cp_created_at = None,
         cp_tags = Some runtime_checkpoint_version_tags\<rparr>,
      idempotency_and_side_effect_report = Some
        \<lparr>replay_safe = Some True, idempotency_key = Some ''k'', side_effects_present = Some True,
         non_replayable_reason = None\<rparr>,
      rq_retry_count = None, runtime_budget_snapshot = None\<rparr>"

lemma sample_recovery_table: "recovery_table sample_recovery = (Admission_Admit, ''retry_step'')"
proof -
  have "is_supported_error_source_ref_type ''tool_call''"
    by (simp add: is_supported_error_source_ref_type_def)
  then have "ok (validate_recovery_request_field_rules sample_recovery)"
    by (simp add: validate_recovery_request_field_rules_def validate_recovery_request_boundary_def
        validate_recovery_request_required_fields_def sample_recovery_def sample_error_def guard_defs
        ids_match_def recovery_request_optional_string_values_match_def pass_def
        recovery_request_error_info_matches_def error_source_correlation_def
        runtime_checkpoint_version_tags_def make_checkpoint_tag_def)
  moreover have "version_tags_match (the (rq_checkpoint sample_recovery))"
    by (simp add: version_tags_match_def sample_recovery_def runtime_checkpoint_version_tags_def
        make_checkpoint_tag_def version_tag_names)
  then have "replay_admissible sample_recovery"
    by (simp add: replay_admissible_def sample_recovery_def checkpoint_consistent_iff
        has_non_empty_iff present_but_empty_def runtime_checkpoint_version_tags_def
        make_checkpoint_tag_def)
  ultimately show ?thesis
    by (simp add: recovery_table_def budget_exhausted_def request_kind_def sample_recovery_def)
qed


section \<open>Idempotency keys stay out of the log\<close>

text \<open>
  C30. In every detail text the manager logs, each marker of an idempotency token is followed
  by the redaction and then by a delimiter or the end, wherever the marker came from.
\<close>

theorem logged_details_are_redacted:
  assumes "take (length kRecoveryTokenMarker) (drop q (sanitize_recovery_detail s)) =
             kRecoveryTokenMarker"
  shows "\<exists>rest. drop (q + length kRecoveryTokenMarker) (sanitize_recovery_detail s) =
           ''<redacted>'' @ rest \<and> (rest = [] \<or> is_detail_delimiter (hd rest))"
  using sanitize_redacts [OF assms] unfolding redacted_at_def .

theorem logged_details_are_redacted_witness:
  "sanitize_recovery_detail ''a retry_idempotency_token=kx b'' =
     ''a retry_idempotency_token=<redacted> b'' \<and>
   (\<exists>rest. drop 26 (sanitize_recovery_detail ''a retry_idempotency_token=kx b'') = ''<redacted>'' @ rest)"
proof -
  have f: "find_substring kRecoveryTokenMarker ''a retry_idempotency_token=kx b'' = Some 2"
    "find_substring kRecoveryTokenMarker '' b'' = None"
    by (simp_all add: kRecoveryTokenMarker_def)
  have e: "sanitize_recovery_detail '' b'' = '' b''"
    by (simp only: sanitize_recovery_detail.simps [of "'' b''"] f option.case)
  have s: "sanitize_recovery_detail ''a retry_idempotency_token=kx b'' =
      ''a retry_idempotency_token=<redacted> b''"
    unfolding sanitize_recovery_detail.simps [of "''a retry_idempotency_token=kx b''"] f
    by (simp add: is_detail_delimiter_def e)
  have "take (length kRecoveryTokenMarker)
      (drop 2 (sanitize_recovery_detail ''a retry_idempotency_token=kx b'')) = kRecoveryTokenMarker"
    unfolding s by (simp add: kRecoveryTokenMarker_def)
  from logged_details_are_redacted [OF this] s show ?thesis by auto
qed

definition with_key :: "string \<Rightarrow> RecoveryRequest \<Rightarrow> RecoveryRequest" where
  "with_key k r =
     r\<lparr>idempotency_and_side_effect_report :=
         map_option (\<lambda>report. report\<lparr>idempotency_key := Some k\<rparr>)
           (idempotency_and_side_effect_report r)\<rparr>"

definition key_text :: "string \<Rightarrow> bool" where
  "key_text k \<longleftrightarrow> k \<noteq> [] \<and> (\<forall>c\<in>set k. \<not> is_detail_delimiter c)"

lemma sanitize_replay_detail:
  assumes "key_text k" and "action = ''continue'' \<or> action = ''retry_step''"
  shows "sanitize_recovery_detail (action @ '' admitted; reuse retry_idempotency_token='' @ k) =
           action @ '' admitted; reuse retry_idempotency_token=<redacted>''"
proof -
  let ?d = "action @ '' admitted; reuse retry_idempotency_token='' @ k"
  have f: "find_substring kRecoveryTokenMarker ?d = Some (length action + 17)"
    using assms(2) by (auto simp: kRecoveryTokenMarker_def)
  have e: "sanitize_recovery_detail [] = []"
    by (simp add: sanitize_recovery_detail.simps [of "[]"])
  have "drop (length action + 17 + length kRecoveryTokenMarker) ?d = k" by simp
  moreover have "take (length action + 17 + length kRecoveryTokenMarker) ?d =
      action @ '' admitted; reuse retry_idempotency_token=''" by simp
  moreover have "dropWhile (\<lambda>c. \<not> is_detail_delimiter c) k = []"
    using assms(1) by (simp add: key_text_def)
  ultimately have "sanitize_recovery_detail ?d =
      (action @ '' admitted; reuse retry_idempotency_token='') @ ''<redacted>'' @ []"
    by (simp only: sanitize_recovery_detail.simps [of ?d] f option.case Let_def e)
  then show ?thesis by simp
qed

lemma with_key_report [simp]:
  "idempotency_and_side_effect_report (with_key k r) =
     map_option (\<lambda>report. report\<lparr>idempotency_key := Some k\<rparr>)
       (idempotency_and_side_effect_report r)"
  by (simp add: with_key_def)

lemma with_key_sel [simp]:
  "reflection_decision (with_key k r) = reflection_decision r"
  "error_info (with_key k r) = error_info r"
  "latest_observation (with_key k r) = latest_observation r"
  "rq_checkpoint (with_key k r) = rq_checkpoint r"
  "rq_retry_count (with_key k r) = rq_retry_count r"
  "runtime_budget_snapshot (with_key k r) = runtime_budget_snapshot r"
  "request_retry_count (with_key k r) = request_retry_count r"
  "make_replan_token (with_key k r) = make_replan_token r"
  "budget_exhausted (with_key k r) = budget_exhausted r"
  by (simp_all add: with_key_def request_retry_count_def make_replan_token_def budget_exhausted_def)

lemma report_with_key:
  assumes "k \<noteq> []" and "k' \<noteq> []"
  shows "validate_report_required_fields (report\<lparr>idempotency_key := Some k\<rparr>) =
           validate_report_required_fields (report\<lparr>idempotency_key := Some k'\<rparr>)"
    and "validate_report_field_rules (report\<lparr>idempotency_key := Some k\<rparr>) =
           validate_report_field_rules (report\<lparr>idempotency_key := Some k'\<rparr>)"
  using assms
  by (simp_all add: validate_report_required_fields_def validate_report_field_rules_def
      present_but_empty_def has_non_empty_value_def)

lemma with_key_guard:
  assumes "k \<noteq> []" and "k' \<noteq> []"
  shows "validate_recovery_request_field_rules (with_key k r) =
         validate_recovery_request_field_rules (with_key k' r)"
proof (cases "idempotency_and_side_effect_report r")
  case None
  then have "with_key k r = with_key k' r" by (simp add: with_key_def)
  then show ?thesis by simp
next
  case (Some report)
  note same = report_with_key [OF assms, of report]
  have req: "validate_recovery_request_required_fields (with_key k r) =
      validate_recovery_request_required_fields (with_key k' r)"
    unfolding validate_recovery_request_required_fields_def with_key_sel with_key_report Some
      option.map option.sel same by simp
  have bound: "validate_recovery_request_boundary (with_key k r) =
      validate_recovery_request_boundary (with_key k' r)"
    unfolding validate_recovery_request_boundary_def with_key_sel req by (rule refl)
  show ?thesis
    unfolding validate_recovery_request_field_rules_def with_key_sel with_key_report Some
      option.map option.sel same bound by (rule refl)
qed

definition plan_alike :: "RecoveryExecutionPlan \<Rightarrow> RecoveryExecutionPlan \<Rightarrow> bool" where
  "plan_alike p p' \<longleftrightarrow>
     p\<lparr>rx_detail := []\<rparr> = p'\<lparr>rx_detail := []\<rparr> \<and>
     sanitize_recovery_detail (rx_detail p) = sanitize_recovery_detail (rx_detail p')"

lemma plan_alike_refl [simp]: "plan_alike p p"
  by (simp add: plan_alike_def)

lemma replay_alike:
  assumes "key_text k" and "key_text k'" and "action = ''continue'' \<or> action = ''retry_step''"
    and "idempotency_and_side_effect_report r \<noteq> None"
  shows "fst (evaluate_replay m (with_key k r) action t) = fst (evaluate_replay m (with_key k' r) action t) \<and>
         plan_alike (snd (evaluate_replay m (with_key k r) action t))
           (snd (evaluate_replay m (with_key k' r) action t))"
proof -
  obtain report where rep: "idempotency_and_side_effect_report r = Some report" using assms(4) by blast
  have k: "k \<noteq> []" "k' \<noteq> []" using assms(1,2) by (simp_all add: key_text_def)
  have "plan_alike
      (make_recovery_execution_plan action (action @ '' admitted; reuse retry_idempotency_token='' @ k) p)
      (make_recovery_execution_plan action (action @ '' admitted; reuse retry_idempotency_token='' @ k') p)" for p
    using sanitize_replay_detail [OF assms(1,3)] sanitize_replay_detail [OF assms(2,3)]
    by (simp add: plan_alike_def make_recovery_execution_plan_def)
  with k rep show ?thesis
    by (simp add: evaluate_replay_def with_key_def Let_def case_prod_unfold)
qed

lemma evaluation_alike:
  assumes "key_text k" and "key_text k'"
  shows "fst (evaluate_recovery_core m (with_key k r) t) = fst (evaluate_recovery_core m (with_key k' r) t) \<and>
         plan_alike (snd (evaluate_recovery_core m (with_key k r) t))
           (snd (evaluate_recovery_core m (with_key k' r) t))"
proof (cases "ok (validate_recovery_request_field_rules (with_key k r))")
  case False
  with assms with_key_guard [of k k' r] show ?thesis
    by (simp add: evaluation_core key_text_def)
next
  case True
  have "idempotency_and_side_effect_report (with_key k r) \<noteq> None"
    using recovery_request_evidence [OF True] by (metis option.distinct(1))
  then have "idempotency_and_side_effect_report r \<noteq> None" by (auto simp: with_key_def)
  note alike = replay_alike [OF assms _ this]
  have "validate_recovery_request_field_rules (with_key k' r) =
      validate_recovery_request_field_rules (with_key k r)"
    using assms with_key_guard [of k' k r] by (simp add: key_text_def)
  with alike True show ?thesis
    by (cases "the (decision_kind (the (reflection_decision r)))") (simp_all add: evaluation_core)
qed

lemma alike_attrs:
  assumes "plan_alike p p'"
  shows "recovery_plan_attrs (with_key k r) p = recovery_plan_attrs (with_key k' r) p'"
    and "recovery_plan_log_level p = recovery_plan_log_level p'"
proof -
  have flags: "report_flag replay_safe (with_key k r) = report_flag replay_safe (with_key k' r)"
    "report_flag side_effects_present (with_key k r) = report_flag side_effects_present (with_key k' r)"
    by (simp_all add: report_flag_def with_key_def split: option.split)
  have ids: "recovery_request_id (with_key k r) = recovery_request_id (with_key k' r)"
    "request_checkpoint_ref (with_key k r) = request_checkpoint_ref (with_key k' r)"
    by (simp_all add: recovery_request_id_def request_checkpoint_ref_def)
  have "admission p = admission p'" "planned_action p = planned_action p'"
    "rx_resume_plan p = rx_resume_plan p'" "safe_failure_hint p = safe_failure_hint p'"
    "rx_error_code p = rx_error_code p'"
    "sanitize_recovery_detail (rx_detail p) = sanitize_recovery_detail (rx_detail p')"
    using assms by (cases p; cases p'; simp add: plan_alike_def)+
  with flags ids show "recovery_plan_attrs (with_key k r) p = recovery_plan_attrs (with_key k' r) p'"
    "recovery_plan_log_level p = recovery_plan_log_level p'"
    by (simp_all add: recovery_plan_attrs_def recovery_plan_log_level_def plan_executable_def
        plan_escalated_def)
qed

text \<open>
  The log does not depend on the idempotency key: two requests that differ in the key
  only, both keys free of delimiters, leave exactly the same state and the same log.
\<close>

theorem idempotency_key_not_logged:
  assumes "key_text k" and "key_text k'"
  shows "fst (evaluate_recovery m (with_key k r) t) = fst (evaluate_recovery m (with_key k' r) t)"
proof -
  note e = evaluation_alike [OF assms, of m r t]
  note a = alike_attrs(1) [OF e [THEN conjunct2], of k r k'] alike_attrs(2) [OF e [THEN conjunct2]]
  show ?thesis
    unfolding evaluate_recovery_def case_prod_unfold Let_def fst_conv using e a by simp
qed

theorem idempotency_key_not_logged_witness:
  "rm_logger (fst (evaluate_recovery (recovery_set_logger new_recovery_manager (Some []) None)
       (with_key ''kx'' sample_recovery) 1)) =
   rm_logger (fst (evaluate_recovery (recovery_set_logger new_recovery_manager (Some []) None)
       (with_key ''secret'' sample_recovery) 1))"
proof -
  have "key_text ''kx''" "key_text ''secret''"
    by (simp_all add: key_text_def is_detail_delimiter_def)
  from idempotency_key_not_logged [OF this] show ?thesis by simp
qed

section \<open>Where the code falls short\<close>

text \<open>A key with a delimiter in it is redacted only up to the delimiter.\<close>

lemma key_with_delimiter_leaks:
  "sanitize_recovery_detail ''retry_step admitted; reuse retry_idempotency_token=a secret'' =
     ''retry_step admitted; reuse retry_idempotency_token=<redacted> secret''"
proof -
  have f: "find_substring kRecoveryTokenMarker
      ''retry_step admitted; reuse retry_idempotency_token=a secret'' = Some 27"
    "find_substring kRecoveryTokenMarker '' secret'' = None"
    by (simp_all add: kRecoveryTokenMarker_def)
  have "sanitize_recovery_detail '' secret'' = '' secret''"
    by (simp only: sanitize_recovery_detail.simps [of "'' secret''"] f option.case)
  then show ?thesis
    unfolding sanitize_recovery_detail.simps
      [of "''retry_step admitted; reuse retry_idempotency_token=a secret''"] f
    by (simp add: is_detail_delimiter_def)
qed

text \<open>
  A rejected or exhausted request leaves the retry count of the last request that got further,
  and executing its plan reports that other request's count.
\<close>

lemma stale_retry_count:
  assumes "\<not> ok (validate_recovery_request_field_rules r)" and "last_evaluated_retry_count m = Some n"
  shows "case run_recovery m r t of (m3, outcome, result) \<Rightarrow> updated_retry_count outcome = Some n"
  using assms
  by (simp add: run_recovery_eq evaluation_core execute_plan_core_def plan_executable_def
      plan_escalated_def Let_def)

text \<open>The retry count is raised modulo \<open>2 ^ 32\<close>.\<close>

lemma retry_count_wraps:
  "request_retry_count r = - 1 \<Longrightarrow> request_retry_count r + 1 = 0"
  by simp

text \<open>
  An exhausted budget whose overall reason is the empty text, which the snapshot guard allows,
  is escalated but its outcome is then refused, so the degradation is not applied.
\<close>

lemma empty_reason_is_not_applied:
  assumes "ok (validate_recovery_request_field_rules r)" and "runtime_budget_snapshot r = Some s"
    and "snapshot_is_exhausted s" and "overall_reject_reason s = Some []"
  shows "recovery_table r = (Admission_Escalate, ''escalate'')"
    and "case run_recovery m r t of (m3, outcome, result) \<Rightarrow>
           \<not> applied result \<and> ra_error_code result = Some RT_E_500_RECOVERY_REJECTED"
proof -
  have ex: "budget_exhausted r" using assms by (simp add: budget_exhausted_def)
  with assms show "recovery_table r = (Admission_Escalate, ''escalate'')"
    by (simp add: recovery_table_def)
  have "\<not> ok (validate_recovery_outcome_field_rules (execute_plan_core (make_degrade_plan []) n))" for n
    by (simp add: exec_simps validate_recovery_outcome_field_rules_def
        validate_recovery_outcome_boundary_def validate_recovery_outcome_required_fields_def
        recovery_outcome_optional_string_is_valid_def has_non_empty_value_def pass_def fail_def)
  with assms ex show "case run_recovery m r t of (m3, outcome, result) \<Rightarrow>
      \<not> applied result \<and> ra_error_code result = Some RT_E_500_RECOVERY_REJECTED"
    by (simp add: run_recovery_eq apply_recovery_eq evaluation_core apply_outcome_core_def Let_def)
qed

end
