(* ===== verification/Sha256.thy ===== *)
theory Sha256
  imports Decimal
begin

text \<open>
  The SHA-256 digest the chunker computes for its chunk identifiers
  (\<^verbatim>\<open>knowledge/src/ingest/Chunker.cpp\<close>), on 32-bit words. The padding makes the message a
  whole number of 64-byte blocks, so the block loop reads inside the buffer only; the digest
  is 64 hexadecimal digits.
\<close>

unbundle bit_operations_syntax

text \<open>The round constants, by the lines of the source table.\<close>

definition kSha256RoundConstants :: "u32 list" where
  "kSha256RoundConstants =
     concat
       [[0x428a2f98, 0x71374491, 0xb5c0fbcf, 0xe9b5dba5, 0x3956c25b, 0x59f111f1],
        [0x923f82a4, 0xab1c5ed5, 0xd807aa98, 0x12835b01, 0x243185be, 0x550c7dc3],
        [0x72be5d74, 0x80deb1fe, 0x9bdc06a7, 0xc19bf174, 0xe49b69c1, 0xefbe4786],
        [0x0fc19dc6, 0x240ca1cc, 0x2de92c6f, 0x4a7484aa, 0x5cb0a9dc, 0x76f988da],
        [0x983e5152, 0xa831c66d, 0xb00327c8, 0xbf597fc7, 0xc6e00bf3, 0xd5a79147],
        [0x06ca6351, 0x14292967, 0x27b70a85, 0x2e1b2138, 0x4d2c6dfc, 0x53380d13],
        [0x650a7354, 0x766a0abb, 0x81c2c92e, 0x92722c85, 0xa2bfe8a1, 0xa81a664b],
        [0xc24b8b70, 0xc76c51a3, 0xd192e819, 0xd6990624, 0xf40e3585, 0x106aa070],
        [0x19a4c116, 0x1e376c08, 0x2748774c, 0x34b0bcb5, 0x391c0cb3, 0x4ed8aa4a],
        [0x5b9cca4f, 0x682e6ff3, 0x748f82ee, 0x78a5636f, 0x84c87814, 0x8cc70208],
        [0x90befffa, 0xa4506ceb, 0xbef9a3f7, 0xc67178f2]]"

definition rotate_right :: "u32 \<Rightarrow> nat \<Rightarrow> u32" where
  "rotate_right value shift = (drop_bit shift value) OR (push_bit (32 - shift) value)"

definition sha256_choose :: "u32 \<Rightarrow> u32 \<Rightarrow> u32 \<Rightarrow> u32" where
  "sha256_choose x y z = (x AND y) XOR (NOT x AND z)"

definition sha256_majority :: "u32 \<Rightarrow> u32 \<Rightarrow> u32 \<Rightarrow> u32" where
  "sha256_majority x y z = (x AND y) XOR (x AND z) XOR (y AND z)"

definition sha256_big_sigma0 :: "u32 \<Rightarrow> u32" where
  "sha256_big_sigma0 value =
     (rotate_right value 2) XOR (rotate_right value 13) XOR (rotate_right value 22)"

definition sha256_big_sigma1 :: "u32 \<Rightarrow> u32" where
  "sha256_big_sigma1 value =
     (rotate_right value 6) XOR (rotate_right value 11) XOR (rotate_right value 25)"

definition sha256_small_sigma0 :: "u32 \<Rightarrow> u32" where
  "sha256_small_sigma0 value =
     (rotate_right value 7) XOR (rotate_right value 18) XOR (drop_bit 3 value)"

definition sha256_small_sigma1 :: "u32 \<Rightarrow> u32" where
  "sha256_small_sigma1 value =
     (rotate_right value 17) XOR (rotate_right value 19) XOR (drop_bit 10 value)"

definition hex_digit :: "u8 \<Rightarrow> char" where
  "hex_digit value =
     (if value < 10 then char_of (48 + unat value) else char_of (97 + unat (value - 10)))"

section \<open>Padding\<close>

lemma pad_measure:
  "m mod 64 \<noteq> 56 \<Longrightarrow> (120 - Suc m mod 64) mod 64 < (120 - m mod 64) mod (64 :: nat)"
proof -
  let ?P = "\<lambda>r. r \<noteq> 56 \<longrightarrow> (120 - (if Suc r = 64 then 0 else Suc r)) mod 64 < (120 - r) mod (64 :: nat)"
  assume "m mod 64 \<noteq> 56"
  moreover have "list_all ?P [0..<64]" by code_simp
  then have "?P (m mod 64)" by (simp only: list_all_iff) (simp del: upt_rec_numeral)
  ultimately show ?thesis by (simp add: mod_Suc)
qed

function pad_zeros :: "u8 list \<Rightarrow> u8 list" where
  "pad_zeros bytes = (if length bytes mod 64 \<noteq> 56 then pad_zeros (bytes @ [0]) else bytes)"
  by auto
termination
  by (relation "measure (\<lambda>bytes. (120 - length bytes mod 64) mod 64)") (auto intro: pad_measure)

declare pad_zeros.simps [simp del]

definition pad_message :: "u8 list \<Rightarrow> u8 list" where
  "pad_message bytes =
     (let bit_length = of_nat (length bytes) * 8 :: u64
      in pad_zeros (bytes @ [0x80]) @
         map (\<lambda>shift. ucast ((drop_bit shift bit_length) AND 0xff)) [56, 48, 40, 32, 24, 16, 8, 0])"

section \<open>Compression\<close>

type_synonym sha256_state = "u32 \<times> u32 \<times> u32 \<times> u32 \<times> u32 \<times> u32 \<times> u32 \<times> u32"

definition sha256_initial_state :: sha256_state where
  "sha256_initial_state =
     (0x6a09e667, 0xbb67ae85, 0x3c6ef372, 0xa54ff53a, 0x510e527f, 0x9b05688c, 0x1f83d9ab, 0x5be0cd19)"

definition block_word :: "u8 list \<Rightarrow> nat \<Rightarrow> u32" where
  "block_word block word_index =
     (let base_index = word_index * 4
      in (push_bit 24 (ucast (block ! base_index))) OR
         (push_bit 16 (ucast (block ! (base_index + 1)))) OR
         (push_bit 8 (ucast (block ! (base_index + 2)))) OR
         (ucast (block ! (base_index + 3))))"

definition message_schedule :: "u8 list \<Rightarrow> u32 list" where
  "message_schedule block =
     foldl (\<lambda>w word_index.
              w @ [sha256_small_sigma1 (w ! (word_index - 2)) + w ! (word_index - 7) +
                   sha256_small_sigma0 (w ! (word_index - 15)) + w ! (word_index - 16)])
       (map (block_word block) [0..<16]) [16..<64]"

fun sha256_round :: "sha256_state \<Rightarrow> u32 \<times> u32 \<Rightarrow> sha256_state" where
  "sha256_round (a, b, c, d, e, f, g, h) (k, w) =
     (let temp1 = h + sha256_big_sigma1 e + sha256_choose e f g + k + w;
          temp2 = sha256_big_sigma0 a + sha256_majority a b c
      in (temp1 + temp2, a, b, c, d + temp1, e, f, g))"

fun add_state :: "sha256_state \<Rightarrow> sha256_state \<Rightarrow> sha256_state" where
  "add_state (a, b, c, d, e, f, g, h) (a', b', c', d', e', f', g', h') =
     (a + a', b + b', c + c', d + d', e + e', f + f', g + g', h + h')"

definition compress_block :: "sha256_state \<Rightarrow> u8 list \<Rightarrow> sha256_state" where
  "compress_block state block =
     add_state state
       (foldl sha256_round state (zip kSha256RoundConstants (message_schedule block)))"

function compress_blocks :: "sha256_state \<Rightarrow> u8 list \<Rightarrow> sha256_state" where
  "compress_blocks state bytes =
     (if bytes = [] then state
      else compress_blocks (compress_block state (take 64 bytes)) (drop 64 bytes))"
  by auto
termination by (relation "measure (\<lambda>(state, bytes). length bytes)") auto

declare compress_blocks.simps [simp del]

definition word_hex :: "u32 \<Rightarrow> string" where
  "word_hex word =
     map (\<lambda>shift. hex_digit (ucast ((drop_bit shift word) AND 0x0f))) [28, 24, 20, 16, 12, 8, 4, 0]"

definition sha256_hex :: "string \<Rightarrow> string" where
  "sha256_hex input =
     (case compress_blocks sha256_initial_state (pad_message (map of_char input)) of
        (a, b, c, d, e, f, g, h) \<Rightarrow> concat (map word_hex [a, b, c, d, e, f, g, h]))"

text \<open>\<^verbatim>\<open>std::isxdigit\<close> and the shape of a digest.\<close>

definition isxdigit :: "char \<Rightarrow> bool" where
  "isxdigit c \<longleftrightarrow>
     (let n = of_char c :: nat in (48 \<le> n \<and> n \<le> 57) \<or> (65 \<le> n \<and> n \<le> 70) \<or> (97 \<le> n \<and> n \<le> 102))"

definition is_sha256_hex :: "string \<Rightarrow> bool" where
  "is_sha256_hex value \<longleftrightarrow> length value = 64 \<and> list_all isxdigit value"

section \<open>The digest is well formed\<close>

lemma length_pad_zeros: "length (pad_zeros bytes) mod 64 = 56"
proof (induction bytes rule: pad_zeros.induct)
  case (1 bytes)
  then show ?case by (subst pad_zeros.simps) simp
qed

text \<open>
  A padded message is a positive whole number of blocks: every index the schedule reads is
  inside the buffer.
\<close>

lemma length_pad_message: "length (pad_message bytes) mod 64 = 0"
proof -
  have "(length (pad_zeros (bytes @ [0x80])) + 8) mod 64 = 0"
    using length_pad_zeros [of "bytes @ [0x80]"] by presburger
  then show ?thesis by (simp add: pad_message_def Let_def add.commute)
qed

lemma length_growing_fold:
  "length (foldl (\<lambda>w i. w @ [f w i]) ws js) = length ws + length js"
  by (induction js arbitrary: ws) simp_all

lemma message_schedule_length: "length (message_schedule block) = 64"
proof -
  have "length (message_schedule block) = 16 + (64 - 16)"
    unfolding message_schedule_def length_growing_fold length_map length_upt by simp
  then show ?thesis by simp
qed

lemma hex_digit_isxdigit: "value \<le> 15 \<Longrightarrow> isxdigit (hex_digit value)"
proof -
  assume le: "value \<le> 15"
  show ?thesis
  proof (cases "value < 10")
    case True
    then have "unat value < 10" by (simp add: word_less_nat_alt)
    with True show ?thesis by (simp add: hex_digit_def isxdigit_def Let_def)
  next
    case False
    with le have "unat (value - 10) \<le> 5" by (simp add: word_le_nat_alt word_less_nat_alt unat_sub)
    with False show ?thesis by (simp add: hex_digit_def isxdigit_def Let_def)
  qed
qed

lemma word_hex_digits: "length (word_hex word) = 8" "list_all isxdigit (word_hex word)"
proof -
  have "isxdigit (hex_digit (ucast (x AND (0x0f :: u32))))" for x :: u32
  proof (rule hex_digit_isxdigit)
    have "x AND 0x0f \<le> 0x0f" by (rule word_and_le1)
    then have "unat (x AND 0x0f) \<le> 15" by (simp add: word_le_nat_alt)
    then show "(ucast (x AND 0x0f) :: u8) \<le> 15"
      by (simp add: word_le_nat_alt unsigned_ucast_eq take_bit_nat_eq_self)
  qed
  then show "list_all isxdigit (word_hex word)" by (simp add: word_hex_def)
qed (simp add: word_hex_def)

lemma sha256_hex_is_hex: "is_sha256_hex (sha256_hex input)"
  by (simp add: sha256_hex_def is_sha256_hex_def word_hex_digits split: prod.split)

end
