(* ===== verification/Utf8.thy ===== *)
theory Utf8
  imports Prelude
begin

text \<open>
  The UTF-8 check of the daemon protocol
  (\<^verbatim>\<open>is_valid_utf8\<close> in \<^verbatim>\<open>access/src/daemon/DaemonFrameCodec.cpp\<close>) and its reference: a text is
  accepted exactly when it is the encoding of a sequence of Unicode scalar values. Closure
  under concatenation, which the frame encoder needs, follows from the reference.
\<close>

unbundle bit_operations_syntax

section \<open>The validator\<close>

text \<open>Width and leading bits of a lead byte that is not ASCII.\<close>

definition utf8_lead :: "u8 \<Rightarrow> (nat \<times> u32) option" where
  "utf8_lead lead =
     (if lead AND 0xE0 = 0xC0 then
        (if (ucast (lead AND 0x1F) :: u32) = 0 then None else Some (2, ucast (lead AND 0x1F)))
      else if lead AND 0xF0 = 0xE0 then Some (3, ucast (lead AND 0x0F))
      else if lead AND 0xF8 = 0xF0 then Some (4, ucast (lead AND 0x07))
      else None)"

fun utf8_continuation :: "u32 \<Rightarrow> string \<Rightarrow> u32 option" where
  "utf8_continuation code_point [] = Some code_point"
| "utf8_continuation code_point (c # cs) =
     (let byte = of_char c :: u8
      in if byte AND 0xC0 \<noteq> 0x80 then None
         else utf8_continuation ((push_bit 6 code_point) OR (ucast (byte AND 0x3F))) cs)"

definition utf8_rejected :: "nat \<Rightarrow> u32 \<Rightarrow> bool" where
  "utf8_rejected width code_point \<longleftrightarrow>
     width = 2 \<and> code_point < 0x80 \<or> width = 3 \<and> code_point < 0x800 \<or>
     width = 4 \<and> code_point < 0x10000 \<or> code_point > 0x10FFFF \<or>
     0xD800 \<le> code_point \<and> code_point \<le> 0xDFFF"

fun is_valid_utf8 :: "string \<Rightarrow> bool" where
  "is_valid_utf8 [] = True"
| "is_valid_utf8 (c # cs) =
     (let lead = of_char c :: u8
      in if lead \<le> 0x7F then is_valid_utf8 cs
         else
           (case utf8_lead lead of
              None \<Rightarrow> False
            | Some (width, bits) \<Rightarrow>
                if width > Suc (length cs) then False
                else
                  (case utf8_continuation bits (take (width - 1) cs) of
                     None \<Rightarrow> False
                   | Some code_point \<Rightarrow>
                       if utf8_rejected width code_point then False
                       else is_valid_utf8 (drop (width - 1) cs))))"

section \<open>The reference encoding\<close>

definition scalar_value :: "nat \<Rightarrow> bool" where
  "scalar_value cp \<longleftrightarrow> cp \<le> 0x10FFFF \<and> \<not> (0xD800 \<le> cp \<and> cp \<le> 0xDFFF)"

definition utf8_encode :: "nat \<Rightarrow> string" where
  "utf8_encode cp =
     (if cp < 0x80 then [char_of cp]
      else if cp < 0x800 then [char_of (0xC0 + cp div 64), char_of (0x80 + cp mod 64)]
      else if cp < 0x10000 then
        [char_of (0xE0 + cp div 4096), char_of (0x80 + cp div 64 mod 64), char_of (0x80 + cp mod 64)]
      else
        [char_of (0xF0 + cp div 262144), char_of (0x80 + cp div 4096 mod 64),
         char_of (0x80 + cp div 64 mod 64), char_of (0x80 + cp mod 64)])"

definition utf8_text :: "nat list \<Rightarrow> string" where
  "utf8_text cps = concat (map utf8_encode cps)"

section \<open>Bytes as numbers\<close>

text \<open>The bit tests of the validator as ranges of the byte.\<close>

lemma high_bits:
  fixes b :: u8
  shows "b AND 0xC0 = push_bit 6 (drop_bit 6 b)" and "b AND 0xE0 = push_bit 5 (drop_bit 5 b)"
    and "b AND 0xF0 = push_bit 4 (drop_bit 4 b)" and "b AND 0xF8 = push_bit 3 (drop_bit 3 b)"
proof -
  have masks: "(0xC0 :: u8) = push_bit 6 (mask 2)" "(0xE0 :: u8) = push_bit 5 (mask 3)"
    "(0xF0 :: u8) = push_bit 4 (mask 4)" "(0xF8 :: u8) = push_bit 3 (mask 5)"
    by (simp_all add: mask_eq_exp_minus_1 push_bit_eq_mult)
  show "b AND 0xC0 = push_bit 6 (drop_bit 6 b)" "b AND 0xE0 = push_bit 5 (drop_bit 5 b)"
    "b AND 0xF0 = push_bit 4 (drop_bit 4 b)" "b AND 0xF8 = push_bit 3 (drop_bit 3 b)"
    unfolding masks by (auto intro!: bit_word_eqI simp: bit_simps)
qed

lemma unat_u8_less: "unat (b :: u8) < 256"
  by (rule order_less_le_trans [OF unsigned_less]) simp

lemma unat_high_bits:
  fixes b :: u8
  assumes "k < 8"
  shows "unat (push_bit k (drop_bit k b)) = unat b div 2 ^ k * 2 ^ k"
proof -
  have "unat b div 2 ^ k * 2 ^ k \<le> unat b" by (rule div_times_less_eq_dividend)
  also have "\<dots> < 256" by (rule unat_u8_less)
  finally have "unat b div 2 ^ k * 2 ^ k < 256" .
  moreover have "(2 :: nat) ^ k < 2 ^ 8" using assms by (intro power_strict_increasing) simp_all
  then have "unat (of_nat (2 ^ k) :: u8) = 2 ^ k"
    by (simp only: unat_of_nat) (simp add: take_bit_nat_eq_self)
  then have "unat ((2 :: u8) ^ k) = 2 ^ k" by simp
  moreover have "unat b div 2 ^ k < 256"
    by (rule order_le_less_trans [OF div_le_dividend unat_u8_less])
  ultimately show ?thesis
    by (simp add: push_bit_eq_mult unat_word_ariths unat_drop_bit_eq drop_bit_eq_div)
qed

lemma low_bits:
  fixes b :: u8
  shows "unat (ucast (b AND 0x1F) :: u32) = unat b mod 32" and "unat (ucast (b AND 0x0F) :: u32) = unat b mod 16"
    and "unat (ucast (b AND 0x07) :: u32) = unat b mod 8" and "unat (ucast (b AND 0x3F) :: u32) = unat b mod 64"
proof -
  have m: "(0x1F :: u8) = mask 5" "(0x0F :: u8) = mask 4" "(0x07 :: u8) = mask 3" "(0x3F :: u8) = mask 6"
    by (simp_all add: mask_eq_exp_minus_1)
  show "unat (ucast (b AND 0x1F) :: u32) = unat b mod 32" "unat (ucast (b AND 0x0F) :: u32) = unat b mod 16"
    "unat (ucast (b AND 0x07) :: u32) = unat b mod 8" "unat (ucast (b AND 0x3F) :: u32) = unat b mod 64"
    unfolding m take_bit_eq_mask [symmetric]
    using unat_u8_less [of b] by (simp_all add: unsigned_ucast_eq unsigned_take_bit_eq take_bit_nat_def)
qed

lemma unat_of_char: "unat (of_char c :: u8) = of_char c"
proof -
  have "(of_char c :: u8) = of_nat (of_char c)" by (cases c) (simp add: horner_sum_simps)
  moreover have "(of_char c :: nat) < 256" by simp
  ultimately show ?thesis by (simp add: unat_of_nat take_bit_nat_eq_self)
qed

lemma byte_tests:
  fixes c :: char
  defines "n \<equiv> of_char c :: nat" and "b \<equiv> of_char c :: u8"
  shows "b AND 0xE0 = 0xC0 \<longleftrightarrow> 192 \<le> n \<and> n < 224"
    and "b AND 0xF0 = 0xE0 \<longleftrightarrow> 224 \<le> n \<and> n < 240"
    and "b AND 0xF8 = 0xF0 \<longleftrightarrow> 240 \<le> n \<and> n < 248"
    and "b AND 0xC0 = 0x80 \<longleftrightarrow> 128 \<le> n \<and> n < 192"
    and "b \<le> 0x7F \<longleftrightarrow> n < 128"
    and "unat (ucast (b AND 0x1F) :: u32) = n mod 32"
    and "unat (ucast (b AND 0x0F) :: u32) = n mod 16"
    and "unat (ucast (b AND 0x07) :: u32) = n mod 8"
    and "unat (ucast (b AND 0x3F) :: u32) = n mod 64"
proof -
  have n: "unat b = n" unfolding n_def b_def by (rule unat_of_char)
  have "(x = y) = (unat x = unat y)" for x y :: u8 by (simp add: word_unat_eq_iff)
  note as_nat = this [of _ "0xC0"] this [of _ "0xE0"] this [of _ "0xF0"] this [of _ "0x80"]
  show "b AND 0xE0 = 0xC0 \<longleftrightarrow> 192 \<le> n \<and> n < 224"
    "b AND 0xF0 = 0xE0 \<longleftrightarrow> 224 \<le> n \<and> n < 240"
    "b AND 0xF8 = 0xF0 \<longleftrightarrow> 240 \<le> n \<and> n < 248"
    "b AND 0xC0 = 0x80 \<longleftrightarrow> 128 \<le> n \<and> n < 192"
    unfolding high_bits as_nat by (auto simp: unat_high_bits n div_nat_eqI)
  show "b \<le> 0x7F \<longleftrightarrow> n < 128" by (auto simp: word_le_nat_alt n)
  show "unat (ucast (b AND 0x1F) :: u32) = n mod 32" "unat (ucast (b AND 0x0F) :: u32) = n mod 16"
    "unat (ucast (b AND 0x07) :: u32) = n mod 8" "unat (ucast (b AND 0x3F) :: u32) = n mod 64"
    unfolding low_bits n by (rule refl)+
qed

lemma push_or_value:
  fixes cp :: u32 and y :: u32
  assumes "unat cp < 2 ^ 26" and "unat y < 64"
  shows "unat ((push_bit 6 cp) OR y) = unat cp * 64 + unat y"
proof -
  have y: "take_bit 6 y = y"
    using assms(2) by (simp add: take_bit_eq_mod word_arith_nat_mod)
  have low: "bit y k \<Longrightarrow> k < 6" for k
    by (subst (asm) y [symmetric]) (simp add: bit_simps)
  have "(push_bit 6 cp) AND y = 0"
    by (intro bit_word_eqI) (auto simp: bit_simps dest: low)
  then have "(push_bit 6 cp) OR y = push_bit 6 cp + y" by (simp add: disjunctive_add_eq_or)
  moreover have "unat (push_bit 6 cp) = unat cp * 64"
    using assms(1) by (simp add: push_bit_eq_mult unat_word_ariths)
  ultimately show ?thesis
    using assms by (simp add: unat_word_ariths)
qed

definition continuation_byte :: "char \<Rightarrow> bool" where
  "continuation_byte c \<longleftrightarrow> 128 \<le> (of_char c :: nat) \<and> (of_char c :: nat) < 192"

definition continue_value :: "nat \<Rightarrow> string \<Rightarrow> nat" where
  "continue_value v cs = foldl (\<lambda>a c. a * 64 + of_char c mod 64) v cs"

lemma utf8_continuation_value:
  assumes "(unat bits + 1) * 64 ^ length cs \<le> 2 ^ 32"
  shows "utf8_continuation bits cs =
           (if list_all continuation_byte cs then Some (of_nat (continue_value (unat bits) cs)) else None)"
  using assms
proof (induction cs arbitrary: bits)
  case Nil
  then show ?case by (simp add: continue_value_def)
next
  case (Cons c cs)
  let ?y = "ucast ((of_char c :: u8) AND 0x3F) :: u32"
  have pos: "1 \<le> (64 :: nat) ^ length cs" by simp
  have prem: "(unat bits + 1) * 64 * 64 ^ length cs \<le> 2 ^ 32" using Cons.prems by (simp add: algebra_simps)
  have "(unat bits + 1) * 64 * 1 \<le> (unat bits + 1) * 64 * 64 ^ length cs"
    by (rule mult_le_mono2 [OF pos])
  from order_trans [OF this prem] have "(unat bits + 1) * 64 \<le> 2 ^ 32" by simp
  then have small: "unat bits < 2 ^ 26" by simp
  have y: "unat ?y = of_char c mod 64" by (rule byte_tests(9))
  then have val_eq: "unat ((push_bit 6 bits) OR ?y) = unat bits * 64 + of_char c mod 64"
    using push_or_value [OF small, of ?y] by simp
  have "(unat bits * 64 + of_char c mod 64 + 1) * 64 ^ length cs \<le> (unat bits + 1) * 64 * 64 ^ length cs"
    by (rule mult_le_mono1) (simp add: Suc_leI)
  with prem val_eq have "(unat ((push_bit 6 bits) OR ?y) + 1) * 64 ^ length cs \<le> 2 ^ 32" by simp
  from Cons.IH [OF this] val_eq show ?case
    by (simp add: Let_def byte_tests(4) continuation_byte_def continue_value_def)
qed

section \<open>One scalar value\<close>

text \<open>
  The bytes one step of the validator consumes are the encoding of one scalar value, and
  every encoding is consumed in one step.
\<close>

definition utf8_step :: "char \<Rightarrow> string \<Rightarrow> nat option" where
  "utf8_step c cs =
     (if (of_char c :: u8) \<le> 0x7F then Some 1
      else (case utf8_lead (of_char c) of
              None \<Rightarrow> None
            | Some (width, bits) \<Rightarrow>
                if width > Suc (length cs) then None
                else (case utf8_continuation bits (take (width - 1) cs) of
                        None \<Rightarrow> None
                      | Some code_point \<Rightarrow> if utf8_rejected width code_point then None else Some width)))"

lemma is_valid_utf8_step:
  "is_valid_utf8 (c # cs) =
     (case utf8_step c cs of None \<Rightarrow> False | Some width \<Rightarrow> is_valid_utf8 (drop (width - 1) cs))"
  by (simp add: utf8_step_def Let_def split: option.split)

lemma utf8_rejected_value:
  assumes "v < 2 ^ 32"
  shows "utf8_rejected width (of_nat v) \<longleftrightarrow>
           width = 2 \<and> v < 0x80 \<or> width = 3 \<and> v < 0x800 \<or> width = 4 \<and> v < 0x10000 \<or>
           \<not> scalar_value v"
  using assms
  by (auto simp: utf8_rejected_def scalar_value_def word_less_nat_alt word_le_nat_alt
      unat_of_nat take_bit_nat_eq_self)

lemma continue_value_less: "continue_value v cs < (v + 1) * 64 ^ length cs"
proof (induction cs arbitrary: v)
  case Nil
  then show ?case by (simp add: continue_value_def)
next
  case (Cons c cs)
  have "continue_value v (c # cs) = continue_value (v * 64 + of_char c mod 64) cs"
    by (simp add: continue_value_def)
  also have "\<dots> < (v * 64 + of_char c mod 64 + 1) * 64 ^ length cs" by (rule Cons.IH)
  also have "\<dots> \<le> (v + 1) * 64 * 64 ^ length cs"
    by (rule mult_le_mono1) (simp add: Suc_leI)
  finally show ?case by (simp add: algebra_simps)
qed

definition byte_lead :: "nat \<Rightarrow> (nat \<times> nat) option" where
  "byte_lead n =
     (if 192 < n \<and> n < 224 then Some (2, n mod 32)
      else if 224 \<le> n \<and> n < 240 then Some (3, n mod 16)
      else if 240 \<le> n \<and> n < 248 then Some (4, n mod 8) else None)"

definition byte_step :: "char \<Rightarrow> string \<Rightarrow> nat option" where
  "byte_step c cs =
     (if (of_char c :: nat) < 128 then Some 1
      else (case byte_lead (of_char c) of
              None \<Rightarrow> None
            | Some (width, bits) \<Rightarrow>
                (let tail = take (width - 1) cs; v = continue_value bits tail
                 in if width \<le> Suc (length cs) \<and> list_all continuation_byte tail \<and> scalar_value v \<and>
                       (width = 2 \<longrightarrow> 0x80 \<le> v) \<and> (width = 3 \<longrightarrow> 0x800 \<le> v) \<and>
                       (width = 4 \<longrightarrow> 0x10000 \<le> v)
                    then Some width else None)))"

lemma utf8_lead_value:
  "utf8_lead (of_char c) = map_option (\<lambda>(width, bits). (width, of_nat bits)) (byte_lead (of_char c))"
proof -
  have bits: "(ucast ((of_char c :: u8) AND 0x1F) :: u32) = of_nat (of_char c mod 32)"
    "(ucast ((of_char c :: u8) AND 0x0F) :: u32) = of_nat (of_char c mod 16)"
    "(ucast ((of_char c :: u8) AND 0x07) :: u32) = of_nat (of_char c mod 8)"
    unfolding byte_tests(6-8) [symmetric] by simp_all
  have z: "(ucast ((of_char c :: u8) AND 0x1F) :: u32) = 0 \<longleftrightarrow> of_char c mod 32 = (0 :: nat)"
    using byte_tests(6) [of c] by (metis unat_eq_zero)
  have "192 \<le> (of_char c :: nat) \<Longrightarrow> of_char c < (224 :: nat) \<Longrightarrow>
      of_char c mod 32 = (0 :: nat) \<longleftrightarrow> of_char c = (192 :: nat)"
    by presburger
  then show ?thesis
    unfolding utf8_lead_def byte_lead_def byte_tests(1-3) z unfolding bits by auto
qed

lemma byte_lead_width:
  "byte_lead n = Some (width, bits) \<Longrightarrow> (bits + 1) * 64 ^ (width - 1) \<le> 2 ^ 31 \<and> 2 \<le> width"
proof -
  assume "byte_lead n = Some (width, bits)"
  moreover have "n mod 32 < 32" "n mod 16 < 16" "n mod 8 < 8" by simp_all
  ultimately show ?thesis by (auto simp: byte_lead_def split: if_splits)
qed

lemma utf8_step_byte_step: "utf8_step c cs = byte_step c cs"
proof (cases "byte_lead (of_char c)")
  case None
  then show ?thesis
    by (simp add: utf8_step_def byte_step_def byte_tests(5) utf8_lead_value)
next
  case (Some p)
  obtain width bits where p: "p = (width, bits)" by (cases p)
  note bound = byte_lead_width [OF Some [unfolded p]]
  define tail where "tail = take (width - 1) cs"
  show ?thesis
  proof (cases "width \<le> Suc (length cs)")
    case False
    with Some p show ?thesis
      by (simp add: utf8_step_def byte_step_def byte_tests(5) utf8_lead_value Let_def)
  next
    case True
    then have len: "length tail = width - 1" by (simp add: tail_def)
    have "(1 :: nat) \<le> 64 ^ (width - 1)" by simp
    then have "(bits + 1) * 1 \<le> (bits + 1) * 64 ^ (width - 1)" by (rule mult_le_mono2)
    with bound have bits: "unat (of_nat bits :: u32) = bits"
      by (simp add: unat_of_nat take_bit_nat_eq_self)
    have small: "continue_value bits tail < 2 ^ 32"
      using continue_value_less [of bits tail] bound len by simp
    have cont: "utf8_continuation (of_nat bits) tail =
        (if list_all continuation_byte tail then Some (of_nat (continue_value bits tail)) else None)"
      using utf8_continuation_value [of "of_nat bits" tail] bound bits len by simp
    have lead: "utf8_lead (of_char c) = Some (width, of_nat bits)"
      using Some p by (simp add: utf8_lead_value)
    note rejected = utf8_rejected_value [OF small, of width]
    show ?thesis
      unfolding utf8_step_def byte_step_def byte_tests(5) lead Some p option.case prod.case Let_def
        tail_def [symmetric] cont
      using True by (cases "list_all continuation_byte tail") (auto simp: rejected not_less)
  qed
qed

section \<open>The validator is the reference\<close>

lemma base64_digits:
  assumes "b < 64" and "d < (64 :: nat)"
  shows "(a * 64 + b) div 64 = a" and "(a * 64 + b) mod 64 = b"
    and "((a * 64 + b) * 64 + d) div 4096 = a" and "((a * 64 + b) * 64 + d) div 64 mod 64 = b"
    and "((a * 64 + b) * 64 + d) mod 64 = d"
    and "(((a * 64 + b) * 64 + d) * 64 + e mod 64) div 262144 = a"
    and "(((a * 64 + b) * 64 + d) * 64 + e mod 64) div 4096 mod 64 = b"
    and "(((a * 64 + b) * 64 + d) * 64 + e mod 64) div 64 mod 64 = d"
    and "(((a * 64 + b) * 64 + d) * 64 + e mod 64) mod 64 = e mod 64"
proof -
  have s: "(p * 64 + r) div 64 = p" "(p * 64 + r) mod 64 = r" if "r < 64" for p r :: nat
    using that by simp_all
  have big: "x div 4096 = x div 64 div 64" "x div 262144 = x div 64 div 64 div 64" for x :: nat
    by (simp_all add: div_mult2_eq [symmetric])
  have e: "e mod 64 < 64" by simp
  note steps = s [OF assms(1)] s [OF assms(2)] s [OF e]
  show "(a * 64 + b) div 64 = a" "(a * 64 + b) mod 64 = b"
    "((a * 64 + b) * 64 + d) div 4096 = a" "((a * 64 + b) * 64 + d) div 64 mod 64 = b"
    "((a * 64 + b) * 64 + d) mod 64 = d"
    "(((a * 64 + b) * 64 + d) * 64 + e mod 64) div 262144 = a"
    "(((a * 64 + b) * 64 + d) * 64 + e mod 64) div 4096 mod 64 = b"
    "(((a * 64 + b) * 64 + d) * 64 + e mod 64) div 64 mod 64 = d"
    "(((a * 64 + b) * 64 + d) * 64 + e mod 64) mod 64 = e mod 64"
    unfolding big steps by (rule refl)+
qed

lemma offset_mod:
  assumes "k dvd m" and "m \<le> n" and "n < m + (k :: nat)"
  shows "m + n mod k = n"
proof -
  obtain j where "n = m + j" using assms(2) le_Suc_ex by blast
  with assms show ?thesis by (auto elim!: dvdE)
qed

lemma continuation_value: "continuation_byte c \<Longrightarrow> 128 + of_char c mod 64 = (of_char c :: nat)"
  unfolding continuation_byte_def by (rule offset_mod) simp_all

lemma lead_values:
  "byte_lead n = Some (2, bits) \<Longrightarrow> 192 + bits = n \<and> bits < 32"
  "byte_lead n = Some (3, bits) \<Longrightarrow> 224 + bits = n \<and> bits < 16"
  "byte_lead n = Some (4, bits) \<Longrightarrow> 240 + bits = n \<and> bits < 8"
  using offset_mod [of 32 192 n] offset_mod [of 16 224 n] offset_mod [of 8 240 n]
  by (auto simp: byte_lead_def split: if_splits)

lemma encode_two:
  assumes "bits < 32" and "continuation_byte x" and "0x80 \<le> bits * 64 + of_char x mod 64"
  shows "utf8_encode (bits * 64 + of_char x mod 64) = [char_of (192 + bits), x]"
proof -
  have "of_char x mod 64 < (64 :: nat)" by simp
  with assms show ?thesis by (simp add: utf8_encode_def base64_digits continuation_value)
qed

lemma encode_three:
  assumes "bits < 16" and "continuation_byte x" and "continuation_byte y"
    and "0x800 \<le> (bits * 64 + of_char x mod 64) * 64 + of_char y mod 64"
  shows "utf8_encode ((bits * 64 + of_char x mod 64) * 64 + of_char y mod 64) =
           [char_of (224 + bits), x, y]"
proof -
  define b d where bd: "b = (of_char x mod 64 :: nat)" "d = (of_char y mod 64 :: nat)"
  have "b < 64" "d < 64" by (simp_all add: bd)
  note digits = base64_digits(3-5) [OF this]
  have "(bits * 64 + b) * 64 + d < 0x10000" using assms(1) \<open>b < 64\<close> \<open>d < 64\<close> by simp
  with assms(4) have "utf8_encode ((bits * 64 + b) * 64 + d) =
      [char_of (224 + bits), char_of (128 + b), char_of (128 + d)]"
    unfolding utf8_encode_def bd [symmetric] digits by simp
  then show ?thesis
    unfolding bd continuation_value [OF assms(2)] continuation_value [OF assms(3)] by simp
qed

lemma encode_four:
  assumes "bits < 8" and "continuation_byte x" and "continuation_byte y" and "continuation_byte z"
    and "0x10000 \<le> ((bits * 64 + of_char x mod 64) * 64 + of_char y mod 64) * 64 + of_char z mod 64"
  shows "utf8_encode (((bits * 64 + of_char x mod 64) * 64 + of_char y mod 64) * 64 + of_char z mod 64) =
           [char_of (240 + bits), x, y, z]"
proof -
  define b d e where bd: "b = (of_char x mod 64 :: nat)" "d = (of_char y mod 64 :: nat)"
    "e = (of_char z :: nat)"
  have "b < 64" "d < 64" by (simp_all add: bd)
  note digits = base64_digits(6-9) [OF this]
  from assms(5) have "utf8_encode (((bits * 64 + b) * 64 + d) * 64 + e mod 64) =
      [char_of (240 + bits), char_of (128 + b), char_of (128 + d), char_of (128 + e mod 64)]"
    unfolding utf8_encode_def bd [symmetric] digits by simp
  then show ?thesis
    unfolding bd continuation_value [OF assms(2)] continuation_value [OF assms(3)]
      continuation_value [OF assms(4)] by simp
qed

lemma encoding_of_step:
  assumes "byte_lead (of_char c) = Some (width, bits)" and "length tail = width - 1"
    and "list_all continuation_byte tail"
    and "width = 2 \<longrightarrow> 0x80 \<le> continue_value bits tail"
    and "width = 3 \<longrightarrow> 0x800 \<le> continue_value bits tail"
    and "width = 4 \<longrightarrow> 0x10000 \<le> continue_value bits tail"
  shows "c # tail = utf8_encode (continue_value bits tail)"
proof -
  consider "width = 2" | "width = 3" | "width = 4"
    using assms(1) by (auto simp: byte_lead_def split: if_splits)
  then show ?thesis
  proof cases
    case 1
    then obtain x where tail: "tail = [x]" using assms(2) by (auto simp: length_Suc_conv)
    from lead_values(1) [of "of_char c" bits] 1 assms tail encode_two [of bits x] show ?thesis
      by (simp add: continue_value_def)
  next
    case 2
    then obtain x y where tail: "tail = [x, y]"
      using assms(2) by (auto simp: length_Suc_conv numeral_eq_Suc)
    from lead_values(2) [of "of_char c" bits] 2 assms tail encode_three [of bits x y] show ?thesis
      by (simp add: continue_value_def)
  next
    case 3
    then obtain x y z where tail: "tail = [x, y, z]"
      using assms(2) by (auto simp: length_Suc_conv numeral_eq_Suc)
    from lead_values(3) [of "of_char c" bits] 3 assms tail encode_four [of bits x y z] show ?thesis
      by (simp add: continue_value_def)
  qed
qed

lemma step_consumes_encoding:
  assumes "byte_step c cs = Some width"
  shows "\<exists>v. scalar_value v \<and> c # take (width - 1) cs = utf8_encode v \<and> 1 \<le> width"
proof -
  let ?n = "of_char c :: nat"
  consider "?n < 128" "width = 1"
    | bits where "\<not> ?n < 128" "byte_lead ?n = Some (width, bits)" "width \<le> Suc (length cs)"
        "list_all continuation_byte (take (width - 1) cs)"
        "scalar_value (continue_value bits (take (width - 1) cs))"
        "width = 2 \<longrightarrow> 0x80 \<le> continue_value bits (take (width - 1) cs)"
        "width = 3 \<longrightarrow> 0x800 \<le> continue_value bits (take (width - 1) cs)"
        "width = 4 \<longrightarrow> 0x10000 \<le> continue_value bits (take (width - 1) cs)"
    using assms by (auto simp: byte_step_def Let_def split: if_splits option.splits)
  then show ?thesis
  proof cases
    case 1
    then have "scalar_value ?n \<and> c # take (width - 1) cs = utf8_encode ?n \<and> 1 \<le> width"
      by (simp add: scalar_value_def utf8_encode_def)
    then show ?thesis by blast
  next
    case (2 bits)
    have "c # take (width - 1) cs = utf8_encode (continue_value bits (take (width - 1) cs))"
      by (rule encoding_of_step [OF 2(2)]) (use 2 in simp_all)
    moreover have "1 \<le> width" using byte_lead_width [OF 2(2)] by simp
    ultimately show ?thesis using 2(5) by blast
  qed
qed

lemma offset_digits:
  "b < 64 \<Longrightarrow> (128 + b) mod 64 = (b :: nat)"
  "a < 32 \<Longrightarrow> (192 + a) mod 32 = (a :: nat)"
  "a < 16 \<Longrightarrow> (224 + a) mod 16 = (a :: nat)"
  "a < 8 \<Longrightarrow> (240 + a) mod 8 = (a :: nat)"
  using offset_mod [of 64 128 "128 + b"] offset_mod [of 32 192 "192 + a"]
    offset_mod [of 16 224 "224 + a"] offset_mod [of 8 240 "240 + a"]
  by simp_all

lemma byte_step_two:
  fixes a b :: nat
  assumes "a < 32" and "b < 64" and "0x80 \<le> a * 64 + b"
  shows "byte_step (char_of (192 + a)) (char_of (128 + b) # rest) = Some 2"
proof -
  have "2 \<le> a" using assms by simp
  with assms show ?thesis
    by (simp add: byte_step_def byte_lead_def continuation_byte_def continue_value_def Let_def
        offset_digits scalar_value_def)
qed

lemma byte_step_three:
  assumes "a < 16" and "b < 64" and "d < 64" and "0x800 \<le> (a * 64 + b) * 64 + d"
    and "scalar_value ((a * 64 + b) * 64 + d)"
  shows "byte_step (char_of (224 + a)) (char_of (128 + b) # char_of (128 + d) # rest) = Some 3"
proof -
  have "take 2 (char_of (128 + b) # char_of (128 + d) # rest) = [char_of (128 + b), char_of (128 + d)]"
    by (simp add: numeral_2_eq_2)
  with assms show ?thesis
    by (simp add: byte_step_def byte_lead_def continuation_byte_def continue_value_def Let_def
        offset_digits)
qed

lemma byte_step_four:
  assumes "a < 8" and "b < 64" and "d < 64" and "e < 64"
    and "0x10000 \<le> ((a * 64 + b) * 64 + d) * 64 + e"
    and "scalar_value (((a * 64 + b) * 64 + d) * 64 + e)"
  shows "byte_step (char_of (240 + a))
           (char_of (128 + b) # char_of (128 + d) # char_of (128 + e) # rest) = Some 4"
proof -
  have "take 3 (char_of (128 + b) # char_of (128 + d) # char_of (128 + e) # rest) =
      [char_of (128 + b), char_of (128 + d), char_of (128 + e)]"
    by (simp add: numeral_3_eq_3)
  with assms show ?thesis
    by (simp add: byte_step_def byte_lead_def continuation_byte_def continue_value_def Let_def
        offset_digits)
qed

text \<open>Base-64 digits of a number put together again.\<close>

lemma join_base64:
  "v div 64 * 64 + v mod 64 = (v :: nat)"
  "(v div 4096 * 64 + v div 64 mod 64) * 64 + v mod 64 = v"
  "((v div 262144 * 64 + v div 4096 mod 64) * 64 + v div 64 mod 64) * 64 + v mod 64 = v"
proof -
  have join: "w div 64 * 64 + w mod 64 = w" for w :: nat by (simp add: div_mult_mod_eq)
  have big: "v div 4096 = v div 64 div 64" "v div 262144 = v div 64 div 64 div 64"
    by (simp_all add: div_mult2_eq [symmetric])
  show "v div 64 * 64 + v mod 64 = v" by (rule join)
  show "(v div 4096 * 64 + v div 64 mod 64) * 64 + v mod 64 = v"
    unfolding big join by (rule refl)
  show "((v div 262144 * 64 + v div 4096 mod 64) * 64 + v div 64 mod 64) * 64 + v mod 64 = v"
    unfolding big join by (rule refl)
qed

lemma encoding_is_one_step:
  assumes "scalar_value v"
  shows "\<exists>c tail. utf8_encode v = c # tail \<and> byte_step c (tail @ rest) = Some (Suc (length tail))"
proof -
  consider "v < 0x80" | "0x80 \<le> v" "v < 0x800" | "0x800 \<le> v" "v < 0x10000"
    | "0x10000 \<le> v" "v \<le> 0x10FFFF"
    using assms by (fastforce simp: scalar_value_def)
  then show ?thesis
  proof cases
    case 1
    then show ?thesis by (simp add: utf8_encode_def byte_step_def)
  next
    case 2
    then have "byte_step (char_of (192 + v div 64)) (char_of (128 + v mod 64) # rest) = Some 2"
      by (intro byte_step_two) (simp_all add: join_base64 less_mult_imp_div_less)
    with 2 show ?thesis by (simp add: utf8_encode_def numeral_2_eq_2)
  next
    case 3
    then have "byte_step (char_of (224 + v div 4096))
        (char_of (128 + v div 64 mod 64) # char_of (128 + v mod 64) # rest) = Some 3"
      using assms by (intro byte_step_three; (subst join_base64)?) (simp_all add: less_mult_imp_div_less)
    with 3 show ?thesis by (simp add: utf8_encode_def numeral_3_eq_3)
  next
    case 4
    note v = join_base64(3) [of v]
    have "byte_step (char_of (240 + v div 262144))
        (char_of (128 + v div 4096 mod 64) # char_of (128 + v div 64 mod 64) # char_of (128 + v mod 64) # rest)
        = Some 4"
    proof (rule byte_step_four)
      show "v div 262144 < 8" by (rule less_mult_imp_div_less) (use 4 in simp)
    qed (use 4(1) assms in \<open>simp_all only: v mod_less_divisor zero_less_numeral\<close>)
    moreover have "utf8_encode v = char_of (240 + v div 262144) #
        [char_of (128 + v div 4096 mod 64), char_of (128 + v div 64 mod 64), char_of (128 + v mod 64)]"
      using 4 by (simp add: utf8_encode_def)
    moreover have "Suc (length [x, y, z]) = 4" for x y z :: char by simp
    ultimately show ?thesis by (metis append_Cons append_Nil)
  qed
qed

lemma is_valid_utf8_encode:
  assumes "scalar_value v"
  shows "is_valid_utf8 (utf8_encode v @ rest) = is_valid_utf8 rest"
proof -
  obtain c tail where "utf8_encode v = c # tail" "byte_step c (tail @ rest) = Some (Suc (length tail))"
    using encoding_is_one_step [OF assms] by blast
  then show ?thesis
    by (simp only: append_Cons is_valid_utf8_step utf8_step_byte_step option.case) simp
qed

lemma utf8_text_valid: "list_all scalar_value cps \<Longrightarrow> is_valid_utf8 (utf8_text cps @ rest) = is_valid_utf8 rest"
  by (induction cps) (simp_all add: utf8_text_def is_valid_utf8_encode)

lemma valid_is_text: "is_valid_utf8 s \<Longrightarrow> \<exists>cps. list_all scalar_value cps \<and> s = utf8_text cps"
proof (induction s rule: length_induct)
  case (1 s)
  show ?case
  proof (cases s)
    case Nil
    then have "list_all scalar_value [] \<and> s = utf8_text []" by (simp add: utf8_text_def)
    then show ?thesis by blast
  next
    case (Cons c cs)
    with 1(2) obtain width where w: "byte_step c cs = Some width" "is_valid_utf8 (drop (width - 1) cs)"
      by (simp only: is_valid_utf8_step utf8_step_byte_step) (auto split: option.splits)
    obtain v where v: "scalar_value v" "c # take (width - 1) cs = utf8_encode v"
      using step_consumes_encoding [OF w(1)] by blast
    have "length (drop (width - 1) cs) < length s" using Cons by simp
    with 1(1) w(2) obtain cps where "list_all scalar_value cps" "drop (width - 1) cs = utf8_text cps"
      by blast
    moreover have "s = (c # take (width - 1) cs) @ drop (width - 1) cs" using Cons by simp
    ultimately have "list_all scalar_value (v # cps) \<and> s = utf8_text (v # cps)"
      using v by (simp add: utf8_text_def)
    then show ?thesis by blast
  qed
qed

text \<open>
  C37. The validator is the definition of UTF-8: it accepts a byte sequence exactly when the
  sequence is the encoding of some sequence of Unicode scalar values, so no overlong form,
  surrogate, truncated sequence or value beyond the last code point passes.
\<close>

theorem utf8_validator_correct:
  "is_valid_utf8 s \<longleftrightarrow> (\<exists>cps. list_all scalar_value cps \<and> s = utf8_text cps)"
proof
  show "is_valid_utf8 s \<Longrightarrow> \<exists>cps. list_all scalar_value cps \<and> s = utf8_text cps"
    by (rule valid_is_text)
  show "\<exists>cps. list_all scalar_value cps \<and> s = utf8_text cps \<Longrightarrow> is_valid_utf8 s"
    using utf8_text_valid [of _ "[]"] by auto
qed

lemma valid_utf8_append:
  assumes "is_valid_utf8 s"
  shows "is_valid_utf8 (s @ t) = is_valid_utf8 t"
  using valid_is_text [OF assms] utf8_text_valid by blast

lemma valid_utf8_ascii [simp]: "(of_char c :: nat) < 128 \<Longrightarrow> is_valid_utf8 (c # cs) = is_valid_utf8 cs"
  by (simp add: byte_tests(5))

declare is_valid_utf8.simps(2) [simp del]

lemma utf8_encode_high:
  assumes "\<not> v < 0x80" and "scalar_value v"
  shows "list_all (\<lambda>c. 128 \<le> (of_char c :: nat)) (utf8_encode v)"
proof -
  have low: "(of_char (char_of (128 + y) :: char) :: nat) = 128 + y" if "y < 64" for y :: nat
    using that by simp
  have cont: "128 \<le> (of_char (char_of (128 + n mod 64) :: char) :: nat)" for n :: nat
    by (subst low) simp_all
  have lead: "128 \<le> (of_char (char_of n :: char) :: nat)" if "128 \<le> n" "n < 256" for n :: nat
    using that by simp
  have top: "v div 262144 < 8"
    by (rule less_mult_imp_div_less) (use assms(2) in \<open>simp add: scalar_value_def\<close>)
  show ?thesis
    using assms top
    by (auto simp del: of_char_of char_of_mod_256 simp: utf8_encode_def less_mult_imp_div_less
        intro!: cont lead)
qed

end
