(* ===== verification/Chunker.thy ===== *)
theory Chunker
  imports Sha256 Utf8 "HOL-Library.List_Lexorder" "HOL-Library.Char_ord"
begin

text \<open>
  The chunker of the knowledge subsystem (\<^verbatim>\<open>knowledge/src/ingest/Chunker.cpp\<close>): splitting a
  canonical document into overlapping spans at headings, blank lines or white space, and the
  chunk records made of them. Offsets are byte offsets. The splitting loop is an option-valued
  partial function, because a policy the constructor would refuse makes it run forever; that
  it returns for every accepted policy is proved. Exceptions are the left side of a sum.
\<close>

section \<open>Policies, documents and records\<close>

datatype ChunkStrategy = FixedSize | Semantic | DocumentAware

fun chunk_strategy_value :: "ChunkStrategy \<Rightarrow> nat" where
  "chunk_strategy_value FixedSize = 0"
| "chunk_strategy_value Semantic = 1"
| "chunk_strategy_value DocumentAware = 2"

record ChunkPolicy =
  strategy :: ChunkStrategy
  target_chunk_chars :: nat
  max_chunk_chars :: nat
  overlap_chars :: nat
  min_chunk_chars :: nat

definition default_chunk_policy :: ChunkPolicy where
  "default_chunk_policy =
     \<lparr>strategy = FixedSize, target_chunk_chars = 512, max_chunk_chars = 768, overlap_chars = 96,
      min_chunk_chars = 128\<rparr>"

definition chunk_policy_consistent :: "ChunkPolicy \<Rightarrow> bool" where
  "chunk_policy_consistent p \<longleftrightarrow>
     strategy p \<in> {FixedSize, Semantic, DocumentAware} \<and> target_chunk_chars p > 0 \<and>
     max_chunk_chars p \<ge> target_chunk_chars p \<and> overlap_chars p < max_chunk_chars p \<and>
     min_chunk_chars p > 0 \<and> min_chunk_chars p \<le> target_chunk_chars p"

record TextSpan =
  span_from :: nat
  span_to :: nat

definition text_span_consistent :: "TextSpan \<Rightarrow> bool" where
  "text_span_consistent s \<longleftrightarrow> span_to s > span_from s"

datatype SourceFormat = Markdown | Yaml | Plain_Text

datatype AuthorityLevel = Normative | Reference | Advisory

record CanonicalDocument =
  doc_document_id :: string
  doc_corpus_id :: string
  doc_source_id :: string
  doc_source_uri :: string
  doc_title :: string
  canonical_text :: string
  source_hash :: string
  doc_version :: string
  doc_updated_at_ms :: int
  doc_source_format :: SourceFormat
  doc_authority_level :: AuthorityLevel
  doc_language :: string
  doc_tags :: "string list"
  doc_metadata :: "string \<rightharpoonup> string"

record ChunkRecord =
  chunk_id :: string
  ch_document_id :: string
  ch_corpus_id :: string
  ch_source_id :: string
  ch_source_uri :: string
  chunk_text :: string
  ch_version :: string
  ch_updated_at_ms :: int
  ch_source_format :: SourceFormat
  ch_authority_level :: AuthorityLevel
  ch_language :: string
  token_estimate :: nat
  span_begin :: nat
  span_end :: nat
  citation_ref :: string
  ch_tags :: "string list"
  adjacent_chunk_refs :: "string list"
  ch_metadata :: "string \<rightharpoonup> string"

text \<open>\<^verbatim>\<open>std::sort\<close> and \<^verbatim>\<open>std::adjacent_find\<close> on a copy of the values.\<close>

fun adjacent_equal :: "string list \<Rightarrow> bool" where
  "adjacent_equal (x # y # zs) \<longleftrightarrow> x = y \<or> adjacent_equal (y # zs)"
| "adjacent_equal _ \<longleftrightarrow> False"

definition has_unique_values :: "string list \<Rightarrow> bool" where
  "has_unique_values values \<longleftrightarrow> \<not> adjacent_equal (sort values)"

definition kChunkIdPrefix :: string where
  "kChunkIdPrefix = ''chunk:''"

definition chunk_record_consistent :: "ChunkRecord \<Rightarrow> bool" where
  "chunk_record_consistent r \<longleftrightarrow>
     \<not> (take (length kChunkIdPrefix) (chunk_id r) \<noteq> kChunkIdPrefix \<or>
        \<not> is_sha256_hex (drop 6 (chunk_id r)) \<or> ch_document_id r = [] \<or> ch_corpus_id r = [] \<or>
        ch_source_id r = [] \<or> ch_source_uri r = [] \<or> chunk_text r = [] \<or> ch_version r = [] \<or>
        ch_updated_at_ms r < 0 \<or> ch_language r = [] \<or> token_estimate r = 0 \<or>
        span_end r \<le> span_begin r \<or> length (chunk_text r) \<noteq> span_end r - span_begin r \<or>
        citation_ref r = [] \<or> \<not> has_unique_values (ch_tags r) \<or>
        \<not> has_unique_values (adjacent_chunk_refs r)) \<and>
     ch_metadata r ''document_class'' \<noteq> None \<and> ch_metadata r ''section_path'' \<noteq> None \<and>
     list_all (\<lambda>ref. ref \<noteq> [] \<and> ref \<noteq> chunk_id r) (adjacent_chunk_refs r)"

section \<open>Lines and breakpoints\<close>

definition is_heading_line :: "string \<Rightarrow> bool" where
  "is_heading_line value \<longleftrightarrow>
     (let hashes = length (takeWhile (\<lambda>c. c = CHR ''#'') value)
      in hashes > 0 \<and> hashes \<le> 6 \<and>
         (hashes = length value \<or> value ! hashes = CHR '' '' \<or> value ! hashes = CHR 0x09))"

definition is_blank_char :: "char \<Rightarrow> bool" where
  "is_blank_char c \<longleftrightarrow> c \<in> {CHR '' '', CHR 0x09, CHR 0x0A, CHR 0x0D}"

definition trim_copy :: "string \<Rightarrow> string" where
  "trim_copy value = rev (dropWhile is_blank_char (rev (dropWhile is_blank_char value)))"

text \<open>\<^verbatim>\<open>text.find('\n', pos)\<close> and the line that starts at a position.\<close>

definition find_newline :: "string \<Rightarrow> nat \<Rightarrow> nat option" where
  "find_newline text pos =
     (let k = pos + length (takeWhile (\<lambda>c. c \<noteq> CHR 0x0A) (drop pos text))
      in if k < length text then Some k else None)"

definition line_limit :: "string \<Rightarrow> nat \<Rightarrow> nat" where
  "line_limit text pos = (case find_newline text pos of None \<Rightarrow> length text | Some e \<Rightarrow> e)"

definition next_line :: "string \<Rightarrow> nat \<Rightarrow> nat" where
  "next_line text pos = (case find_newline text pos of None \<Rightarrow> length text | Some e \<Rightarrow> e + 1)"

definition line_at :: "string \<Rightarrow> nat \<Rightarrow> string" where
  "line_at text pos = take (line_limit text pos - pos) (drop pos text)"

lemma next_line_grows: "pos < length text \<Longrightarrow> pos < next_line text pos"
  by (auto simp: next_line_def find_newline_def Let_def split: option.splits if_splits)

lemma next_line_bound: "pos \<le> length text \<Longrightarrow> next_line text pos \<le> length text"
  by (auto simp: next_line_def find_newline_def Let_def split: option.splits if_splits)

function skip_blank_lines :: "string \<Rightarrow> nat \<Rightarrow> nat" where
  "skip_blank_lines text cursor =
     (if cursor < length text then
        (if trim_copy (line_at text cursor) \<noteq> [] then cursor
         else skip_blank_lines text (next_line text cursor))
      else cursor)"
  by auto
termination
  by (relation "measure (\<lambda>(text, cursor). length text - cursor)")
    (auto dest: next_line_grows intro: diff_less_mono2)

function line_breakpoints :: "string \<Rightarrow> nat \<Rightarrow> nat list" where
  "line_breakpoints text line_start =
     (if line_start < length text then
        (let trimmed = trim_copy (line_at text line_start)
         in (if trimmed \<noteq> [] \<and> is_heading_line trimmed \<and> line_start \<noteq> 0 then [line_start] else []) @
            (if trimmed = [] then [skip_blank_lines text (next_line text line_start)] else []) @
            line_breakpoints text (next_line text line_start))
      else [])"
  by auto
termination
  by (relation "measure (\<lambda>(text, line_start). length text - line_start)")
    (auto dest: next_line_grows intro: diff_less_mono2)

declare skip_blank_lines.simps [simp del] line_breakpoints.simps [simp del]

definition collect_breakpoints :: "string \<Rightarrow> nat list" where
  "collect_breakpoints text = remdups_adj (sort (length text # line_breakpoints text 0))"

text \<open>\<^verbatim>\<open>std::upper_bound\<close> on the sorted breakpoints and the scan down from it.\<close>

definition choose_breakpoint :: "nat list \<Rightarrow> nat \<Rightarrow> nat \<Rightarrow> nat option" where
  "choose_breakpoint breakpoints min_end limit =
     List.find (\<lambda>b. b > min_end) (rev (takeWhile (\<lambda>b. b \<le> limit) breakpoints))"

definition choose_soft_break :: "string \<Rightarrow> nat \<Rightarrow> nat \<Rightarrow> nat option" where
  "choose_soft_break text min_end limit =
     (if limit \<le> min_end \<or> limit > length text then None
      else List.find (\<lambda>position. isspace (text ! (position - 1))) (rev [Suc min_end..<Suc limit]))"

definition adjust_overlap_start :: "string \<Rightarrow> nat \<Rightarrow> nat \<Rightarrow> nat" where
  "adjust_overlap_start text candidate end_pos =
     (if candidate = 0 \<or> candidate \<ge> end_pos \<or> end_pos > length text then candidate
      else
        (let word_end = candidate +
               length (takeWhile (\<lambda>c. \<not> isspace c) (take (end_pos - candidate) (drop candidate text)));
             cursor = word_end +
               length (takeWhile isspace (take (end_pos - word_end) (drop word_end text)))
         in if cursor < end_pos then cursor else candidate))"

section \<open>Splitting\<close>

definition chunk_end :: "ChunkPolicy \<Rightarrow> string \<Rightarrow> nat list \<Rightarrow> nat \<Rightarrow> nat" where
  "chunk_end p text breakpoints start =
     (let min_end = min (length text) (start + min_chunk_chars p);
          target_end = min (length text) (start + target_chunk_chars p);
          max_end = min (length text) (start + max_chunk_chars p);
          e = (case choose_breakpoint breakpoints min_end target_end of
                 Some b \<Rightarrow> b
               | None \<Rightarrow>
                   (case choose_breakpoint breakpoints min_end max_end of
                      Some b \<Rightarrow> b
                    | None \<Rightarrow>
                        (case choose_soft_break text min_end max_end of
                           Some b \<Rightarrow> b | None \<Rightarrow> max_end)))
      in if e \<le> start then max_end else e)"

definition next_chunk_start :: "ChunkPolicy \<Rightarrow> string \<Rightarrow> nat \<Rightarrow> nat \<Rightarrow> nat" where
  "next_chunk_start p text start e =
     (let overlap_start = adjust_overlap_start text (e - overlap_chars p) e;
          next_start = (if overlap_chars p > 0 \<and> e > overlap_chars p \<and> overlap_start > start \<and>
                           overlap_start < e then overlap_start else e)
      in if next_start \<le> start then e else next_start)"

partial_function (option) split_from ::
  "ChunkPolicy \<Rightarrow> string \<Rightarrow> nat list \<Rightarrow> nat \<Rightarrow> TextSpan list option"
where
  "split_from p text breakpoints start =
     (if start < length text then
        (if length text - start \<le> max_chunk_chars p then
           Some [\<lparr>span_from = start, span_to = length text\<rparr>]
         else
           (let e = chunk_end p text breakpoints start
            in if e \<ge> length text then Some [\<lparr>span_from = start, span_to = e\<rparr>]
               else Option.bind (split_from p text breakpoints (next_chunk_start p text start e))
                      (\<lambda>spans. Some (\<lparr>span_from = start, span_to = e\<rparr> # spans))))
      else Some [])"

definition split_into_spans :: "ChunkPolicy \<Rightarrow> CanonicalDocument \<Rightarrow> TextSpan list option" where
  "split_into_spans p document =
     (if canonical_text document = [] then Some []
      else split_from p (canonical_text document) (collect_breakpoints (canonical_text document)) 0)"

section \<open>Records\<close>

definition estimate_tokens :: "string \<Rightarrow> nat" where
  "estimate_tokens text =
     max 1 (fst (foldl (\<lambda>(token_count, in_token) c.
                          if isspace c then (token_count, False)
                          else if \<not> in_token then (token_count + 1, True)
                          else (token_count, in_token))
                  (0, False) text))"

definition has_chunkable_document_fields :: "CanonicalDocument \<Rightarrow> bool" where
  "has_chunkable_document_fields d \<longleftrightarrow>
     \<not> (take 4 (doc_document_id d) \<noteq> ''doc:'' \<or> \<not> is_sha256_hex (drop 4 (doc_document_id d)) \<or>
        doc_corpus_id d = [] \<or> doc_source_id d = [] \<or> doc_source_uri d = [] \<or> doc_title d = [] \<or>
        \<not> is_sha256_hex (source_hash d) \<or> doc_version d = [] \<or> doc_updated_at_ms d < 0 \<or>
        doc_language d = []) \<and>
     doc_metadata d ''document_class'' \<noteq> None \<and> doc_metadata d ''section_path'' \<noteq> None \<and>
     has_unique_values (doc_tags d)"

definition make_citation_ref :: "CanonicalDocument \<Rightarrow> TextSpan \<Rightarrow> string" where
  "make_citation_ref d s =
     doc_source_uri d @ ''#char='' @ to_string_nat (span_from s) @ ''-'' @ to_string_nat (span_to s)"

definition span_text :: "CanonicalDocument \<Rightarrow> TextSpan \<Rightarrow> string" where
  "span_text d s = take (span_to s - span_from s) (drop (span_from s) (canonical_text d))"

definition chunk_seed :: "ChunkPolicy \<Rightarrow> CanonicalDocument \<Rightarrow> TextSpan \<Rightarrow> string" where
  "chunk_seed p d s =
     doc_document_id d @ [CHR 0x0A] @ doc_version d @ [CHR 0x0A] @
     to_string_nat (chunk_strategy_value (strategy p)) @ [CHR 0x0A] @
     to_string_nat (target_chunk_chars p) @ [CHR 0x0A] @
     to_string_nat (max_chunk_chars p) @ [CHR 0x0A] @
     to_string_nat (overlap_chars p) @ [CHR 0x0A] @
     to_string_nat (span_from s) @ [CHR 0x0A] @ to_string_nat (span_to s) @ [CHR 0x0A] @
     span_text d s"

definition build_chunk_id :: "ChunkPolicy \<Rightarrow> CanonicalDocument \<Rightarrow> TextSpan \<Rightarrow> string" where
  "build_chunk_id p d s = kChunkIdPrefix @ sha256_hex (chunk_seed p d s)"

definition make_chunk_record :: "ChunkPolicy \<Rightarrow> CanonicalDocument \<Rightarrow> TextSpan \<Rightarrow> ChunkRecord" where
  "make_chunk_record p d s =
     \<lparr>chunk_id = build_chunk_id p d s, ch_document_id = doc_document_id d,
      ch_corpus_id = doc_corpus_id d, ch_source_id = doc_source_id d,
      ch_source_uri = doc_source_uri d, chunk_text = span_text d s, ch_version = doc_version d,
      ch_updated_at_ms = doc_updated_at_ms d, ch_source_format = doc_source_format d,
      ch_authority_level = doc_authority_level d, ch_language = doc_language d,
      token_estimate = estimate_tokens (span_text d s), span_begin = span_from s,
      span_end = span_to s, citation_ref = make_citation_ref d s, ch_tags = doc_tags d,
      adjacent_chunk_refs = [], ch_metadata = doc_metadata d\<rparr>"

definition link_adjacent :: "ChunkRecord list \<Rightarrow> ChunkRecord list" where
  "link_adjacent records =
     map (\<lambda>index.
            (records ! index)\<lparr>adjacent_chunk_refs :=
               adjacent_chunk_refs (records ! index) @
               (if index > 0 then [chunk_id (records ! (index - 1))] else []) @
               (if index + 1 < length records then [chunk_id (records ! (index + 1))] else [])\<rparr>)
       [0..<length records]"

definition make_chunker :: "ChunkPolicy \<Rightarrow> string + ChunkPolicy" where
  "make_chunker p =
     (if \<not> chunk_policy_consistent p then Inl ''chunk_policy_invalid'' else Inr p)"

definition chunk :: "ChunkPolicy \<Rightarrow> CanonicalDocument \<Rightarrow> (string + ChunkRecord list) option" where
  "chunk p d =
     (if \<not> has_chunkable_document_fields d then Some (Inl ''canonical_document_inconsistent'')
      else if canonical_text d = [] then Some (Inr [])
      else
        Option.bind (split_into_spans p d)
          (\<lambda>spans. if list_ex (\<lambda>s. \<not> text_span_consistent s) spans
                   then Some (Inl ''chunk_span_invalid'')
                   else Some (Inr (link_adjacent (map (make_chunk_record p d) spans)))))"

section \<open>Splitting terminates and covers the text\<close>

lemma choose_breakpoint_bounds:
  "choose_breakpoint bs min_end limit = Some b \<Longrightarrow> min_end < b \<and> b \<le> limit"
  unfolding choose_breakpoint_def by (drule find_Some_first) (auto dest: set_takeWhileD)

lemma choose_soft_break_bounds:
  "choose_soft_break text min_end limit = Some b \<Longrightarrow> min_end < b \<and> b \<le> limit"
  unfolding choose_soft_break_def by (auto split: if_splits dest!: find_Some_first)

text \<open>
  Below the last chunk \<open>start + max_chunk_chars\<close> is inside the text, so no addition of the
  code wraps around.
\<close>

lemma chunk_end_bounds:
  assumes "chunk_policy_consistent p" and "length text - start > max_chunk_chars p"
  shows "start + min_chunk_chars p \<le> chunk_end p text bs start \<and>
         chunk_end p text bs start \<le> start + max_chunk_chars p"
proof -
  have p: "0 < min_chunk_chars p" "min_chunk_chars p \<le> target_chunk_chars p"
    "target_chunk_chars p \<le> max_chunk_chars p"
    using assms(1) by (simp_all add: chunk_policy_consistent_def)
  have fits: "min (length text) (start + min_chunk_chars p) = start + min_chunk_chars p"
    "min (length text) (start + target_chunk_chars p) = start + target_chunk_chars p"
    "min (length text) (start + max_chunk_chars p) = start + max_chunk_chars p"
    using assms(2) p by simp_all
  show ?thesis
    unfolding chunk_end_def fits Let_def
    using p
    by (auto split: option.split dest!: choose_breakpoint_bounds choose_soft_break_bounds)
qed

lemma adjust_overlap_start_bounds:
  "candidate \<le> adjust_overlap_start text candidate e"
  by (simp add: adjust_overlap_start_def Let_def)

lemma next_chunk_start_bounds:
  assumes "start < e"
  shows "start < next_chunk_start p text start e \<and> next_chunk_start p text start e \<le> e \<and>
         e \<le> next_chunk_start p text start e + overlap_chars p"
  using assms adjust_overlap_start_bounds [of "e - overlap_chars p" "text" e]
  by (auto simp: next_chunk_start_def Let_def)

definition spans_linked :: "ChunkPolicy \<Rightarrow> TextSpan \<Rightarrow> TextSpan \<Rightarrow> bool" where
  "spans_linked p s t \<longleftrightarrow>
     span_from s < span_from t \<and> span_from t \<le> span_to s \<and>
     span_to s \<le> span_from t + overlap_chars p \<and> span_from s + min_chunk_chars p \<le> span_to s"

definition spans_cover :: "ChunkPolicy \<Rightarrow> nat \<Rightarrow> nat \<Rightarrow> TextSpan list \<Rightarrow> bool" where
  "spans_cover p start len spans \<longleftrightarrow>
     spans \<noteq> [] \<and> span_from (hd spans) = start \<and> span_to (last spans) = len \<and>
     list_all (\<lambda>s. span_from s < span_to s \<and> span_to s \<le> len \<and>
                   span_to s \<le> span_from s + max_chunk_chars p) spans \<and>
     successively (spans_linked p) spans \<and> length spans \<le> len - start"

lemma split_from_covers:
  assumes "chunk_policy_consistent p" and "start < length text"
  shows "\<exists>spans. split_from p text bs start = Some spans \<and> spans_cover p start (length text) spans"
  using assms(2)
proof (induction "length text - start" arbitrary: start rule: less_induct)
  case less
  let ?e = "chunk_end p text bs start"
  show ?case
  proof (cases "length text - start \<le> max_chunk_chars p")
    case True
    with less.prems have
      "split_from p text bs start = Some [\<lparr>span_from = start, span_to = length text\<rparr>]"
      by (simp add: split_from.simps)
    moreover from True less.prems
    have "spans_cover p start (length text) [\<lparr>span_from = start, span_to = length text\<rparr>]"
      by (auto simp: spans_cover_def)
    ultimately show ?thesis by blast
  next
    case False
    with chunk_end_bounds [OF assms(1), of "text" start bs] assms(1)
    have e: "start < ?e" "start + min_chunk_chars p \<le> ?e" "?e \<le> start + max_chunk_chars p"
      "?e < length text"
      by (auto simp: chunk_policy_consistent_def)
    let ?n = "next_chunk_start p text start ?e"
    note n = next_chunk_start_bounds [OF e(1), of p "text"]
    have "?n < length text" "length text - ?n < length text - start"
      using n e(4) less.prems by linarith+
    from less.hyps [OF this(2,1)] obtain spans
      where spans: "split_from p text bs ?n = Some spans" "spans_cover p ?n (length text) spans"
      by blast
    let ?s = "\<lparr>span_from = start, span_to = ?e\<rparr>"
    have "split_from p text bs start = Some (?s # spans)"
      using False less.prems e(4) spans(1)
      by (subst split_from.simps) (simp add: Let_def)
    moreover have "spans_cover p start (length text) (?s # spans)"
      using spans(2) n e
      by (cases spans) (auto simp: spans_cover_def spans_linked_def successively_Cons)
    ultimately show ?thesis by blast
  qed
qed

text \<open>
  C33. For every policy the constructor accepts, splitting a non-empty text returns, after at
  most one step per byte, and loses nothing: the first span starts at the first byte and the
  last one ends at the last, each span is non-empty and no longer than the maximum, each but
  the last has at least the minimum length, and each next span starts after its predecessor's
  start, no later than its end and at most the overlap before its end.
\<close>

theorem splitting_covers_text:
  assumes "chunk_policy_consistent p" and "canonical_text d \<noteq> []"
  shows "\<exists>spans. split_into_spans p d = Some spans \<and>
           spans_cover p 0 (length (canonical_text d)) spans"
  using split_from_covers [OF assms(1), of 0] assms(2) by (simp add: split_into_spans_def)

section \<open>Records are consistent and keep the text\<close>

lemma adjacent_equal_sorted: "sorted xs \<Longrightarrow> adjacent_equal xs \<longleftrightarrow> \<not> distinct xs"
proof (induction xs rule: adjacent_equal.induct)
  case (1 x y zs)
  then have "x \<in> set (y # zs) \<longleftrightarrow> x = y" by (auto intro: antisym)
  with 1 show ?case by auto
qed simp_all

lemma has_unique_values_distinct: "has_unique_values values \<longleftrightarrow> distinct values"
  by (simp add: has_unique_values_def adjacent_equal_sorted)

text \<open>The chunks put together again: of each chunk the part before the next one begins.\<close>

fun reassemble :: "(nat \<times> string) list \<Rightarrow> string" where
  "reassemble [] = []"
| "reassemble [(b, t)] = t"
| "reassemble ((b, t) # (b', t') # rest) = take (b' - b) t @ reassemble ((b', t') # rest)"

definition chunk_pieces :: "ChunkRecord list \<Rightarrow> (nat \<times> string) list" where
  "chunk_pieces records = map (\<lambda>r. (span_begin r, chunk_text r)) records"

lemma slice_append:
  assumes "b \<le> b'" and "b' \<le> e" and "e \<le> len"
  shows "take (b' - b) (take (e - b) (drop b xs)) @ drop b' (take len xs) = drop b (take len xs)"
proof -
  have "take (b' - b) (take (e - b) (drop b xs)) = take (b' - b) (drop b (take len xs))"
    using assms by (simp add: min_def drop_take)
  moreover have "drop b' (take len xs) = drop (b' - b) (drop b (take len xs))"
    using assms by simp
  ultimately show ?thesis by (simp only: append_take_drop_id)
qed

lemma reassemble_spans:
  assumes "successively (spans_linked p) spans" and "spans \<noteq> []"
    and "list_all (\<lambda>s. span_to s \<le> span_to (last spans)) spans"
  shows "reassemble (map (\<lambda>s. (span_from s, span_text d s)) spans) =
           drop (span_from (hd spans)) (take (span_to (last spans)) (canonical_text d))"
  using assms
proof (induction spans rule: induct_list012)
  case 1
  then show ?case by simp
next
  case (2 s)
  then show ?case by (simp add: span_text_def drop_take)
next
  case (3 s t rest)
  have linked: "spans_linked p s t" "successively (spans_linked p) (t # rest)"
    using 3(3) by simp_all
  have "list_all (\<lambda>s. span_to s \<le> span_to (last (t # rest))) (t # rest)" using 3(5) by simp
  with 3(2) linked(2)
  have "reassemble (map (\<lambda>s. (span_from s, span_text d s)) (t # rest)) =
      drop (span_from t) (take (span_to (last (t # rest))) (canonical_text d))" by simp
  then have "reassemble (map (\<lambda>s. (span_from s, span_text d s)) (s # t # rest)) =
      take (span_from t - span_from s) (span_text d s) @
      drop (span_from t) (take (span_to (last (t # rest))) (canonical_text d))" by simp
  also have "\<dots> = drop (span_from s) (take (span_to (last (t # rest))) (canonical_text d))"
    unfolding span_text_def
    by (rule slice_append) (use linked(1) 3(5) in \<open>simp_all add: spans_linked_def\<close>)
  finally show ?case by simp
qed

lemma link_adjacent_nth:
  assumes "i < length records"
  shows "link_adjacent records ! i =
           (records ! i)\<lparr>adjacent_chunk_refs :=
               adjacent_chunk_refs (records ! i) @
               (if i > 0 then [chunk_id (records ! (i - 1))] else []) @
               (if i + 1 < length records then [chunk_id (records ! (i + 1))] else [])\<rparr>"
  using assms by (simp add: link_adjacent_def)

lemma length_link_adjacent [simp]: "length (link_adjacent records) = length records"
  by (simp add: link_adjacent_def)

lemma chunk_pieces_link: "chunk_pieces (link_adjacent records) = chunk_pieces records"
  by (rule nth_equalityI) (simp_all add: chunk_pieces_def link_adjacent_nth)

lemma digit_value_newline: "digit_value (CHR 0x0A) = None"
  by (simp add: digit_value_def)

lemma to_string_terminated:
  assumes "to_string_nat m @ CHR 0x0A # xs = to_string_nat n @ CHR 0x0A # ys"
  shows "m = n"
proof -
  have stop: "takeWhile (\<lambda>c. digit_value c \<noteq> None) (to_string_nat k @ CHR 0x0A # zs) = to_string_nat k"
    for k zs
    by (subst takeWhile_append2) (simp_all add: to_string_nat_digits digit_value_newline del: not_None_eq)
  from assms stop [of m xs] stop [of n ys] have "to_string_nat m = to_string_nat n" by simp
  then show ?thesis by simp
qed

lemma chunk_seed_start:
  assumes "chunk_seed p d s = chunk_seed p d t"
  shows "span_from s = span_from t"
proof (rule to_string_terminated)
  show "to_string_nat (span_from s) @ CHR 0x0A # to_string_nat (span_to s) @ CHR 0x0A # span_text d s =
        to_string_nat (span_from t) @ CHR 0x0A # to_string_nat (span_to t) @ CHR 0x0A # span_text d t"
    using assms
    by (simp only: chunk_seed_def same_append_eq append_Cons append_Nil list.inject simp_thms)
qed

lemma spans_start_distinct:
  assumes "successively (spans_linked p) spans"
  shows "distinct (map span_from spans)"
proof -
  have "successively (\<lambda>s t. span_from s < span_from t) spans"
    by (rule successively_mono [OF assms]) (simp add: spans_linked_def)
  then have "successively (<) (map span_from spans)" by (simp add: successively_map)
  then have "sorted_wrt (<) (map span_from spans)" by (simp add: successively_conv_sorted_wrt)
  then show ?thesis by (simp add: strict_sorted_iff)
qed

lemma chunk_ids_distinct:
  assumes "successively (spans_linked p) spans"
    and "inj_on sha256_hex (chunk_seed p d ` set spans)"
  shows "distinct (map (build_chunk_id p d) spans)"
proof -
  have d: "distinct spans" and inj: "inj_on span_from (set spans)"
    using spans_start_distinct [OF assms(1)] by (auto simp: distinct_map)
  have "inj_on (build_chunk_id p d) (set spans)"
  proof (rule inj_onI)
    fix s t
    assume st: "s \<in> set spans" "t \<in> set spans" "build_chunk_id p d s = build_chunk_id p d t"
    then have "chunk_seed p d s = chunk_seed p d t"
      using assms(2) by (auto simp: build_chunk_id_def inj_on_def)
    then have "span_from s = span_from t" by (rule chunk_seed_start)
    with inj st show "s = t" by (simp add: inj_on_def)
  qed
  with d show ?thesis by (simp add: distinct_map)
qed

lemma linked_record_consistent:
  assumes "has_chunkable_document_fields d" and "i < length spans"
    and "span_from (spans ! i) < span_to (spans ! i)"
    and "span_to (spans ! i) \<le> length (canonical_text d)"
    and "distinct (map (build_chunk_id p d) spans)"
  shows "chunk_record_consistent (link_adjacent (map (make_chunk_record p d) spans) ! i)"
proof -
  let ?ids = "map (build_chunk_id p d) spans"
  have id: "j < length spans \<Longrightarrow> chunk_id (make_chunk_record p d (spans ! j)) = ?ids ! j" for j
    by (simp add: make_chunk_record_def)
  define refs where "refs = (if i > 0 then [?ids ! (i - 1)] else []) @
      (if i + 1 < length spans then [?ids ! (i + 1)] else [])"
  have rec: "link_adjacent (map (make_chunk_record p d) spans) ! i =
      (make_chunk_record p d (spans ! i))\<lparr>adjacent_chunk_refs := refs\<rparr>"
    using assms(2)
    by (simp add: link_adjacent_nth refs_def make_chunk_record_def)
  have ne: "a < length spans \<Longrightarrow> b < length spans \<Longrightarrow> a \<noteq> b \<Longrightarrow> ?ids ! a \<noteq> ?ids ! b" for a b
    using nth_eq_iff_index_eq [OF assms(5)] by simp
  have full: "j < length spans \<Longrightarrow> ?ids ! j \<noteq> []" for j
    by (simp add: build_chunk_id_def kChunkIdPrefix_def)
  have "distinct refs \<and> ?ids ! i \<notin> set refs \<and> [] \<notin> set refs"
  proof (cases i)
    case 0
    have "1 < length spans \<Longrightarrow> ?ids ! 1 \<noteq> ?ids ! 0" by (rule ne) linarith+
    with 0 full [of 1] show ?thesis by (auto simp: refs_def simp del: nth_map)
  next
    case (Suc j)
    with ne [of j "i + 1"] ne [of j i] ne [of "i + 1" i] full [of j] full [of "i + 1"] assms(2)
    show ?thesis by (auto simp: refs_def simp del: nth_map)
  qed
  then have refs: "has_unique_values refs" "list_all (\<lambda>ref. ref \<noteq> [] \<and> ref \<noteq> ?ids ! i) refs"
    by (auto simp: has_unique_values_distinct list_all_iff)
  have "length (span_text d (spans ! i)) = span_to (spans ! i) - span_from (spans ! i)"
    using assms(4) by (simp add: span_text_def)
  with assms(3) have len: "length (span_text d (spans ! i)) = span_to (spans ! i) - span_from (spans ! i)"
    "span_text d (spans ! i) \<noteq> []" by auto
  have "doc_document_id d \<noteq> []"
    using assms(1) by (auto simp: has_chunkable_document_fields_def)
  then show ?thesis
    unfolding rec chunk_record_consistent_def
    using assms(1,2,3) len refs
    by (simp add: make_chunk_record_def has_chunkable_document_fields_def kChunkIdPrefix_def
        sha256_hex_is_hex make_citation_ref_def estimate_tokens_def build_chunk_id_def)
qed


definition sample_document :: CanonicalDocument where
  "sample_document =
     \<lparr>doc_document_id = ''doc:'' @ replicate 64 (CHR ''a''), doc_corpus_id = ''c'', doc_source_id = ''s'',
      doc_source_uri = ''u'', doc_title = ''t'', canonical_text = ''hello'',
      source_hash = replicate 64 (CHR ''b''), doc_version = ''v'', doc_updated_at_ms = 0,
      doc_source_format = Markdown, doc_authority_level = Reference, doc_language = ''en'',
      doc_tags = [''x'', ''y''],
      doc_metadata = [''document_class'' \<mapsto> ''a'', ''section_path'' \<mapsto> ''b'']\<rparr>"

lemma sample_document_chunkable:
  "has_chunkable_document_fields sample_document" "canonical_text sample_document = ''hello''"
  "chunk_policy_consistent default_chunk_policy"
  by (simp_all add: has_chunkable_document_fields_def sample_document_def is_sha256_hex_def
      isxdigit_def has_unique_values_distinct default_chunk_policy_def chunk_policy_consistent_def
      list_all_iff)

theorem splitting_covers_text_witness:
  "\<exists>spans. split_into_spans default_chunk_policy sample_document = Some spans \<and>
     spans_cover default_chunk_policy 0 5 spans"
proof -
  have "length (canonical_text sample_document) = 5" by (simp add: sample_document_chunkable)
  with splitting_covers_text [of default_chunk_policy sample_document] show ?thesis
    by (simp only: sample_document_chunkable) simp
qed


section \<open>Where the code falls short\<close>

text \<open>A forced split counts bytes, so it cuts multi-byte characters apart.\<close>

definition multi_byte_document :: CanonicalDocument where
  "multi_byte_document = sample_document\<lparr>canonical_text := utf8_text [0x4E2D]\<rparr>"

definition two_byte_policy :: ChunkPolicy where
  "two_byte_policy =
     \<lparr>strategy = Semantic, target_chunk_chars = 2, max_chunk_chars = 2, overlap_chars = 0,
      min_chunk_chars = 1\<rparr>"

lemma chunk_splits_character:
  shows "is_valid_utf8 (canonical_text multi_byte_document)"
    and "chunk_policy_consistent two_byte_policy"
    and "split_into_spans two_byte_policy multi_byte_document =
           Some [\<lparr>span_from = 0, span_to = 2\<rparr>, \<lparr>span_from = 2, span_to = 3\<rparr>]"
    and "\<not> is_valid_utf8 (span_text multi_byte_document \<lparr>span_from = 0, span_to = 2\<rparr>)"
proof -
  let ?t = "[CHR 0xE4, CHR 0xB8, CHR 0xAD]"
  have t: "canonical_text multi_byte_document = ?t"
    by (simp add: multi_byte_document_def utf8_text_def utf8_encode_def char_of_def bit_0)
  have "list_all scalar_value [0x4E2D]" by (simp add: scalar_value_def)
  then show "is_valid_utf8 (canonical_text multi_byte_document)"
    using utf8_text_valid [of "[0x4E2D]" "[]"] by (simp add: multi_byte_document_def)
  show "chunk_policy_consistent two_byte_policy"
    by (simp add: chunk_policy_consistent_def two_byte_policy_def)
  have n: "find_newline ?t 0 = None" by (simp add: find_newline_def)
  have stop: "line_breakpoints ?t (Suc (Suc (Suc 0))) = []" by (subst line_breakpoints.simps) simp
  have "line_breakpoints ?t 0 = []"
    by (subst line_breakpoints.simps)
      (simp add: line_at_def line_limit_def next_line_def n trim_copy_def is_blank_char_def
        is_heading_line_def stop)
  then have b: "collect_breakpoints ?t = [3]" by (simp add: collect_breakpoints_def)
  show "split_into_spans two_byte_policy multi_byte_document =
      Some [\<lparr>span_from = 0, span_to = 2\<rparr>, \<lparr>span_from = 2, span_to = 3\<rparr>]"
    by (simp add: split_into_spans_def t b split_from.simps two_byte_policy_def chunk_end_def
        next_chunk_start_def choose_breakpoint_def choose_soft_break_def isspace_def)
  have "span_text multi_byte_document \<lparr>span_from = 0, span_to = 2\<rparr> = [CHR 0xE4, CHR 0xB8]"
    by (simp add: span_text_def t)
  moreover have "byte_step (CHR 0xE4) [CHR 0xB8] = None"
    by (simp add: byte_step_def byte_lead_def)
  ultimately show "\<not> is_valid_utf8 (span_text multi_byte_document \<lparr>span_from = 0, span_to = 2\<rparr>)"
    by (simp only: is_valid_utf8_step utf8_step_byte_step option.case) simp
qed

end
