(* ===== verification/Json_Reader.thy ===== *)
theory Json_Reader
  imports Decimal Utf8
begin

text \<open>
  The JSON reader and string escaper of the daemon protocol
  (\<^verbatim>\<open>access/src/daemon/DaemonFrameCodec.cpp\<close>, class \<^verbatim>\<open>JsonReader\<close>). A reader state is the
  rest of the input; a parser returns the value and the rest, or \<open>None\<close> where the code
  returns false. An object keeps its members in the order they were read; the code's
  unordered map is only searched by key and checked member by member, and a duplicate key is
  an error, so the order is not observable.

  Reading is proved total although parsers call each other on the rest a nested call returns,
  and reading back an escaped text, a printed integer and a printed object gives the value
  that was printed.
\<close>

datatype JsonValue =
    JString string
  | JBool bool
  | JInteger int
  | JObject "(string \<times> JsonValue) list"

section \<open>Tokens\<close>

definition is_json_space :: "char \<Rightarrow> bool" where
  "is_json_space c \<longleftrightarrow> c \<in> {CHR '' '', CHR 0x09, CHR 0x0A, CHR 0x0D}"

definition skip_whitespace :: "string \<Rightarrow> string" where
  "skip_whitespace = dropWhile is_json_space"

fun consume_char :: "char \<Rightarrow> string \<Rightarrow> string option" where
  "consume_char expected [] = None"
| "consume_char expected (c # cs) = (if c = expected then Some cs else None)"

definition match_literal :: "string \<Rightarrow> string \<Rightarrow> string option" where
  "match_literal literal s =
     (if take (length literal) s = literal then Some (drop (length literal) s) else None)"

section \<open>Strings\<close>

definition hex_digit_value :: "char \<Rightarrow> nat option" where
  "hex_digit_value c =
     (let n = of_char c
      in if 48 \<le> n \<and> n \<le> 57 then Some (n - 48)
         else if 97 \<le> n \<and> n \<le> 102 then Some (n - 97 + 10)
         else if 65 \<le> n \<and> n \<le> 70 then Some (n - 65 + 10)
         else None)"

fun code_point_of :: "nat \<Rightarrow> string \<Rightarrow> nat option" where
  "code_point_of code_point [] = Some code_point"
| "code_point_of code_point (c # cs) =
     (case hex_digit_value c of None \<Rightarrow> None | Some d \<Rightarrow> code_point_of (16 * code_point + d) cs)"

definition append_utf8 :: "nat \<Rightarrow> string" where
  "append_utf8 code_point =
     (if code_point \<le> 0x7F then [char_of code_point]
      else if code_point \<le> 0x7FF then
        [char_of (0xC0 + code_point div 64 mod 32), char_of (0x80 + code_point mod 64)]
      else
        [char_of (0xE0 + code_point div 4096 mod 16), char_of (0x80 + code_point div 64 mod 64),
         char_of (0x80 + code_point mod 64)])"

text \<open>The bytes of a \<^verbatim>\<open>\u\<close> escape; its four digits are the first four characters.\<close>

definition parse_unicode_escape :: "string \<Rightarrow> string option" where
  "parse_unicode_escape s =
     (if length s < 4 then None
      else
        (case code_point_of 0 (take 4 s) of
           None \<Rightarrow> None
         | Some code_point \<Rightarrow>
             if 0xD800 \<le> code_point \<and> code_point \<le> 0xDFFF then None
             else Some (append_utf8 code_point)))"

definition simple_escape :: "char \<Rightarrow> char option" where
  "simple_escape c =
     (if c = CHR 0x22 then Some (CHR 0x22)
      else if c = CHR 0x5C then Some (CHR 0x5C)
      else if c = CHR ''/'' then Some (CHR ''/'')
      else if c = CHR ''b'' then Some (CHR 0x08)
      else if c = CHR ''f'' then Some (CHR 0x0C)
      else if c = CHR ''n'' then Some (CHR 0x0A)
      else if c = CHR ''r'' then Some (CHR 0x0D)
      else if c = CHR ''t'' then Some (CHR 0x09)
      else None)"

definition prepend :: "string \<Rightarrow> (string \<times> string) option \<Rightarrow> (string \<times> string) option" where
  "prepend bytes result = map_option (\<lambda>(out, rest). (bytes @ out, rest)) result"

fun parse_string_body :: "string \<Rightarrow> (string \<times> string) option" where
  "parse_string_body [] = None"
| "parse_string_body (c # cs) =
     (if c = CHR 0x22 then Some ([], cs)
      else if c = CHR 0x5C then
        (case cs of
           [] \<Rightarrow> None
         | escaped # rest \<Rightarrow>
             if escaped = CHR ''u'' then
               (case parse_unicode_escape rest of
                  None \<Rightarrow> None
                | Some bytes \<Rightarrow> prepend bytes (parse_string_body (drop 4 rest)))
             else
               (case simple_escape escaped of
                  None \<Rightarrow> None
                | Some x \<Rightarrow> prepend [x] (parse_string_body rest)))
      else if (of_char c :: nat) < 0x20 then None
      else prepend [c] (parse_string_body cs))"

definition parse_string :: "string \<Rightarrow> (string \<times> string) option" where
  "parse_string s =
     (case consume_char (CHR 0x22) s of None \<Rightarrow> None | Some rest \<Rightarrow> parse_string_body rest)"

section \<open>Integers\<close>

definition is_digit :: "char \<Rightarrow> bool" where
  "is_digit c \<longleftrightarrow> digit_value c \<noteq> None"

definition is_i32 :: "int \<Rightarrow> bool" where
  "is_i32 x \<longleftrightarrow> - (2 ^ 31) \<le> x \<and> x < 2 ^ 31"

definition parse_digits :: "bool \<Rightarrow> string \<Rightarrow> (int \<times> string) option" where
  "parse_digits negative s =
     (case s of
        [] \<Rightarrow> None
      | c # cs \<Rightarrow>
          if c = CHR ''0'' then
            (if cs \<noteq> [] \<and> is_digit (hd cs) then None else Some (0, cs))
          else if \<not> is_digit c then None
          else
            (let v = int (the (digits_value 0 (takeWhile is_digit s)));
                 i = (if negative then - v else v)
             in if is_i32 i then Some (i, dropWhile is_digit s) else None))"

definition parse_integer :: "string \<Rightarrow> (int \<times> string) option" where
  "parse_integer s =
     (case consume_char (CHR ''-'') s of
        Some rest \<Rightarrow> parse_digits True rest
      | None \<Rightarrow> parse_digits False s)"

section \<open>Values and objects\<close>

function (sequential) parse_value :: "string \<Rightarrow> (JsonValue \<times> string) option"
  and parse_members :: "(string \<times> JsonValue) list \<Rightarrow> string \<Rightarrow>
         ((string \<times> JsonValue) list \<times> string) option"
where
  "parse_value input =
     (case skip_whitespace input of
        [] \<Rightarrow> None
      | c # cs \<Rightarrow>
          if c = CHR 0x22 then map_option (\<lambda>(x, rest). (JString x, rest)) (parse_string (c # cs))
          else if c = CHR ''{'' then
            (case consume_char (CHR ''}'') (skip_whitespace cs) of
               Some rest \<Rightarrow> Some (JObject [], rest)
             | None \<Rightarrow>
                 map_option (\<lambda>(members, rest). (JObject members, rest))
                   (parse_members [] (skip_whitespace cs)))
          else
            (case match_literal ''true'' (c # cs) of
               Some rest \<Rightarrow> Some (JBool True, rest)
             | None \<Rightarrow>
                 (case match_literal ''false'' (c # cs) of
                    Some rest \<Rightarrow> Some (JBool False, rest)
                  | None \<Rightarrow>
                      if c = CHR ''-'' \<or> is_digit c
                      then map_option (\<lambda>(i, rest). (JInteger i, rest)) (parse_integer (c # cs))
                      else None)))"
| "parse_members out input =
     (case parse_string input of
        None \<Rightarrow> None
      | Some (key, after_key) \<Rightarrow>
          (case consume_char (CHR '':'') (skip_whitespace after_key) of
             None \<Rightarrow> None
           | Some value_text \<Rightarrow>
               (case parse_value value_text of
                  None \<Rightarrow> None
                | Some (v, after_value) \<Rightarrow>
                    if key \<in> fst ` set out then None
                    else
                      (case consume_char (CHR ''}'') (skip_whitespace after_value) of
                         Some rest \<Rightarrow> Some (out @ [(key, v)], rest)
                       | None \<Rightarrow>
                           (case consume_char (CHR '','') (skip_whitespace after_value) of
                              None \<Rightarrow> None
                            | Some rest \<Rightarrow>
                                parse_members (out @ [(key, v)]) (skip_whitespace rest))))))"
  by pat_completeness auto

text \<open>Every parser leaves less input than it was given.\<close>

lemma skip_whitespace_length: "length (skip_whitespace s) \<le> length s"
  by (simp add: skip_whitespace_def length_dropWhile_le)

lemma consume_char_length: "consume_char c s = Some rest \<Longrightarrow> length s = Suc (length rest)"
  by (cases s) (auto split: if_splits)

lemma prepend_Some: "prepend b r = Some (out, rest) \<Longrightarrow> \<exists>out'. r = Some (out', rest)"
  by (auto simp: prepend_def)

lemma parse_string_body_length: "parse_string_body s = Some (out, rest) \<Longrightarrow> length rest < length s"
proof (induction s arbitrary: out rule: parse_string_body.induct)
  case 1
  then show ?case by simp
next
  case (2 c cs)
  then show ?case
    by (fastforce split: if_splits list.splits option.splits dest!: prepend_Some)
qed

lemma parse_string_length: "parse_string s = Some (out, rest) \<Longrightarrow> length rest < length s"
  by (auto simp: parse_string_def split: option.splits dest!: consume_char_length parse_string_body_length)

lemma parse_digits_length: "parse_digits negative s = Some (i, rest) \<Longrightarrow> length rest < length s"
proof (cases s)
  case (Cons c cs)
  assume "parse_digits negative s = Some (i, rest)"
  moreover have "length (dropWhile is_digit cs) \<le> length cs" by (rule length_dropWhile_le)
  ultimately show ?thesis using Cons by (auto simp: parse_digits_def Let_def split: if_splits)
qed (simp add: parse_digits_def)

lemma parse_integer_length: "parse_integer s = Some (i, rest) \<Longrightarrow> length rest < length s"
  by (fastforce simp: parse_integer_def split: option.splits dest: parse_digits_length consume_char_length)

lemma match_literal_length:
  "match_literal l s = Some rest \<Longrightarrow> s \<noteq> [] \<Longrightarrow> l \<noteq> [] \<Longrightarrow> length rest < length s"
  by (auto simp: match_literal_def split: if_splits)

lemma value_shortens:
  assumes value_text: "skip_whitespace s = c # cs"
    and nested: "\<And>ms rest. c = CHR ''{'' \<Longrightarrow>
                   consume_char (CHR ''}'') (skip_whitespace cs) = None \<Longrightarrow> parse_members [] (skip_whitespace cs) = Some (ms, rest) \<Longrightarrow>
                   length rest < length (skip_whitespace cs)"
    and dom: "parse_value_parse_members_dom (Inl s)"
    and result: "parse_value s = Some (v, rest)"
  shows "length rest < length s"
proof -
  have s: "Suc (length cs) \<le> length s"
    using skip_whitespace_length [of s] value_text by simp
  have ws: "length (skip_whitespace cs) \<le> length cs" by (rule skip_whitespace_length)
  show ?thesis
    using result parse_value.psimps [OF dom] value_text s ws
    by (auto split: if_splits option.splits dest!: parse_string_length parse_integer_length nested
        consume_char_length match_literal_length)
qed

lemma parsers_shorten:
  shows "parse_value_parse_members_dom (Inl s) \<Longrightarrow>
      \<forall>v rest. parse_value s = Some (v, rest) \<longrightarrow> length rest < length s"
    and "parse_value_parse_members_dom (Inr (out, s')) \<Longrightarrow>
      \<forall>ms rest. parse_members out s' = Some (ms, rest) \<longrightarrow> length rest < length s'"
proof (induction s and out s' rule: parse_value_parse_members.pinduct)
  case (1 input)
  show ?case
  proof (intro allI impI)
    fix v rest
    assume r: "parse_value input = Some (v, rest)"
    then obtain c cs where "skip_whitespace input = c # cs"
      using parse_value.psimps [OF 1(1)] by (auto split: list.splits)
    then show "length rest < length input"
    proof (rule value_shortens [OF _ _ 1(1) r])
      fix ms rest'
      assume "c = CHR ''{''"
        "consume_char (CHR ''}'') (skip_whitespace cs) = None"
        "parse_members [] (skip_whitespace cs) = Some (ms, rest')"
      moreover from this(1) have "c \<noteq> CHR 0x22" by simp
      ultimately show "length rest' < length (skip_whitespace cs)"
        using 1(2) \<open>skip_whitespace input = c # cs\<close> by blast
    qed
  qed
next
  case (2 out input)
  show ?case
  proof (intro allI impI)
    fix ms rest
    assume "parse_members out input = Some (ms, rest)"
    then obtain key after_key value_text v after_value where
      step: "parse_string input = Some (key, after_key)"
        "consume_char (CHR '':'') (skip_whitespace after_key) = Some value_text"
        "parse_value value_text = Some (v, after_value)" "key \<notin> fst ` set out" and
      last: "consume_char (CHR ''}'') (skip_whitespace after_value) = Some rest \<or>
        (\<exists>more. consume_char (CHR ''}'') (skip_whitespace after_value) = None \<and>
          consume_char (CHR '','') (skip_whitespace after_value) = Some more \<and>
          parse_members (out @ [(key, v)]) (skip_whitespace more) = Some (ms, rest))"
      using parse_members.psimps [OF 2(1)] by (auto split: option.splits if_splits)
    have "length after_value < length value_text"
      using 2(2) [OF step(1) refl step(2)] step(3) by blast
    moreover have "length value_text < length input"
      using parse_string_length [OF step(1)] consume_char_length [OF step(2)]
        skip_whitespace_length [of after_key] by linarith
    moreover have "length rest < length after_value \<or> length rest < length (skip_whitespace after_value)"
      using last
    proof (elim disjE exE conjE)
      assume "consume_char (CHR ''}'') (skip_whitespace after_value) = Some rest"
      from consume_char_length [OF this] show ?thesis by simp
    next
      fix more
      assume m: "consume_char (CHR ''}'') (skip_whitespace after_value) = None"
        "consume_char (CHR '','') (skip_whitespace after_value) = Some more"
        "parse_members (out @ [(key, v)]) (skip_whitespace more) = Some (ms, rest)"
      have "length rest < length (skip_whitespace more)"
        using 2(3) [OF step(1) refl step(2,3) refl step(4) m(1,2)] m(3) by blast
      with consume_char_length [OF m(2)] skip_whitespace_length [of more] show ?thesis by linarith
    qed
    ultimately show "length rest < length input"
      using skip_whitespace_length [of after_value] by linarith
  qed
qed

termination parse_value
proof (relation "measure (case_sum length (\<lambda>(out, s). length s))")
  fix input c cs
  assume "skip_whitespace input = c # cs"
  then show "(Inr ([], skip_whitespace cs), Inl input) \<in> measure (case_sum length (\<lambda>(out, s). length s))"
    using skip_whitespace_length [of input] skip_whitespace_length [of cs] by simp
next
  fix out :: "(string \<times> JsonValue) list" and input x key after_key value_text
  assume "parse_string input = Some x" "(key, after_key) = x"
    "consume_char (CHR '':'') (skip_whitespace after_key) = Some value_text"
  then show "(Inl value_text, Inr (out, input)) \<in> measure (case_sum length (\<lambda>(out, s). length s))"
    using parse_string_length [of input] consume_char_length skip_whitespace_length [of after_key]
    by fastforce
next
  fix out :: "(string \<times> JsonValue) list" and input x key after_key value_text y v after_value more
  assume a: "parse_string input = Some x" "(key, after_key) = x"
    "consume_char (CHR '':'') (skip_whitespace after_key) = Some value_text"
    "parse_value value_text = Some y" "(v, after_value) = y"
    "consume_char (CHR '','') (skip_whitespace after_value) = Some more"
    and dom: "parse_value_parse_members_dom (Inl value_text)"
  have "length after_value < length value_text"
    using parsers_shorten(1) [OF dom] a(4,5) by auto
  moreover have "length value_text < length input"
    using parse_string_length [of input] a(1,2) consume_char_length [OF a(3)]
      skip_whitespace_length [of after_key] by fastforce
  moreover have "length (skip_whitespace more) < length after_value"
    using consume_char_length [OF a(6)] skip_whitespace_length [of after_value]
      skip_whitespace_length [of more] by linarith
  ultimately show "(Inr (out @ [(key, v)], skip_whitespace more), Inr (out, input)) \<in>
      measure (case_sum length (\<lambda>(out, s). length s))" by simp
qed simp

declare parse_value.simps [simp del] parse_members.simps [simp del]

definition parse_root_object :: "string \<Rightarrow> (string \<times> JsonValue) list option" where
  "parse_root_object input =
     (case consume_char (CHR ''{'') (skip_whitespace input) of
        None \<Rightarrow> None
      | Some cs \<Rightarrow>
          (case consume_char (CHR ''}'') (skip_whitespace cs) of
             Some rest \<Rightarrow> if skip_whitespace rest = [] then Some [] else None
           | None \<Rightarrow>
               (case parse_members [] (skip_whitespace cs) of
                  None \<Rightarrow> None
                | Some (members, rest) \<Rightarrow> if skip_whitespace rest = [] then Some members else None)))"

section \<open>Escaping\<close>

definition escape_char :: "char \<Rightarrow> string" where
  "escape_char c =
     (if c = CHR 0x22 then [CHR 0x5C, CHR 0x22]
      else if c = CHR 0x5C then [CHR 0x5C, CHR 0x5C]
      else if c = CHR 0x08 then [CHR 0x5C, CHR ''b'']
      else if c = CHR 0x0C then [CHR 0x5C, CHR ''f'']
      else if c = CHR 0x0A then [CHR 0x5C, CHR ''n'']
      else if c = CHR 0x0D then [CHR 0x5C, CHR ''r'']
      else if c = CHR 0x09 then [CHR 0x5C, CHR ''t'']
      else if (of_char c :: nat) < 0x20 then
        [CHR 0x5C, CHR ''u'', CHR ''0'', CHR ''0'', ''0123456789abcdef'' ! (of_char c div 16 mod 16),
         ''0123456789abcdef'' ! (of_char c mod 16)]
      else [c])"

definition escape_json_string :: "string \<Rightarrow> string" where
  "escape_json_string s = concat (map escape_char s)"

section \<open>Reading back what was printed\<close>

lemma hex_digit_value_nth: "k < 16 \<Longrightarrow> hex_digit_value (''0123456789abcdef'' ! k) = Some k"
proof -
  have "list_all (\<lambda>k. hex_digit_value (''0123456789abcdef'' ! k) = Some k) [0..<16]" by code_simp
  then show "k < 16 \<Longrightarrow> hex_digit_value (''0123456789abcdef'' ! k) = Some k"
    by (simp only: list_all_iff set_upt atLeastLessThan_iff) simp
qed

lemma unicode_escape_control:
  assumes "(of_char c :: nat) < 0x20"
  shows "parse_unicode_escape
           (CHR ''0'' # CHR ''0'' # ''0123456789abcdef'' ! (of_char c div 16 mod 16) #
            ''0123456789abcdef'' ! (of_char c mod 16) # rest) = Some [c]"
proof -
  let ?n = "of_char c :: nat"
  have z: "hex_digit_value (CHR ''0'') = Some 0" by (simp add: hex_digit_value_def)
  have "16 * (?n div 16 mod 16) + ?n mod 16 = ?n" using assms by simp
  moreover have "hex_digit_value (''0123456789abcdef'' ! (?n div 16 mod 16)) = Some (?n div 16 mod 16)"
    "hex_digit_value (''0123456789abcdef'' ! (?n mod 16)) = Some (?n mod 16)"
    by (rule hex_digit_value_nth, simp)+
  ultimately have "code_point_of 0 [CHR ''0'', CHR ''0'', ''0123456789abcdef'' ! (?n div 16 mod 16),
      ''0123456789abcdef'' ! (?n mod 16)] = Some ?n"
    by (simp only: code_point_of.simps z option.case) simp
  moreover have "take 4 (CHR ''0'' # CHR ''0'' # ''0123456789abcdef'' ! (?n div 16 mod 16) #
            ''0123456789abcdef'' ! (?n mod 16) # rest) =
      [CHR ''0'', CHR ''0'', ''0123456789abcdef'' ! (?n div 16 mod 16),
       ''0123456789abcdef'' ! (?n mod 16)]" by (simp only: take_Suc_Cons numeral_eq_Suc) simp
  ultimately show ?thesis
    unfolding parse_unicode_escape_def using assms by (simp add: append_utf8_def)
qed

lemma parse_escaped_char:
  "parse_string_body (escape_char c @ rest) = prepend [c] (parse_string_body rest)"
proof -
  consider (special) "c \<in> {CHR 0x22, CHR 0x5C, CHR 0x08, CHR 0x0C, CHR 0x0A, CHR 0x0D, CHR 0x09}"
    | (control) "c \<notin> {CHR 0x22, CHR 0x5C, CHR 0x08, CHR 0x0C, CHR 0x0A, CHR 0x0D, CHR 0x09}"
        "(of_char c :: nat) < 0x20"
    | (plain) "c \<noteq> CHR 0x22" "c \<noteq> CHR 0x5C" "\<not> (of_char c :: nat) < 0x20"
    by auto
  then show ?thesis
  proof cases
    case special
    then show ?thesis by (auto simp: escape_char_def simple_escape_def)
  next
    case control
    let ?x = "''0123456789abcdef'' ! (of_char c div 16 mod 16)"
    let ?y = "''0123456789abcdef'' ! (of_char c mod 16)"
    have "escape_char c = [CHR 0x5C, CHR ''u'', CHR ''0'', CHR ''0'', ?x, ?y]"
      unfolding escape_char_def using control by (simp only: insert_iff empty_iff de_Morgan_disj simp_thms if_False if_True)
    then have "parse_string_body (escape_char c @ rest) =
        (case parse_unicode_escape (CHR ''0'' # CHR ''0'' # ?x # ?y # rest) of
           None \<Rightarrow> None
         | Some bytes \<Rightarrow> prepend bytes (parse_string_body (drop 4 (CHR ''0'' # CHR ''0'' # ?x # ?y # rest))))"
      by simp
    also have "\<dots> = prepend [c] (parse_string_body rest)"
      unfolding unicode_escape_control [OF control(2)] by simp
    finally show ?thesis .
  next
    case plain
    moreover from this have "escape_char c = [c]" by (auto simp: escape_char_def)
    ultimately show ?thesis by simp
  qed
qed

lemma parse_escaped_string:
  "parse_string_body (escape_json_string s @ CHR 0x22 # rest) = Some (s, rest)"
proof (induction s)
  case Nil
  then show ?case by (simp add: escape_json_string_def)
next
  case (Cons c s)
  have "escape_json_string (c # s) @ CHR 0x22 # rest =
      escape_char c @ (escape_json_string s @ CHR 0x22 # rest)" by (simp add: escape_json_string_def)
  with Cons show ?case by (simp only: parse_escaped_char) (simp add: prepend_def)
qed

lemma to_string_nat_head: "0 < n \<Longrightarrow> hd (to_string_nat n) \<noteq> CHR ''0''"
proof (induction n rule: to_string_nat.induct)
  case (1 n)
  show ?case
  proof (cases "n < 10")
    case True
    from less_10_cases [OF True] 1(2) show ?thesis
      by (subst to_string_nat.simps) (auto simp: digit_char_def)
  next
    case False
    with 1 show ?thesis by (subst to_string_nat.simps) (simp add: div_greater_zero_iff)
  qed
qed

definition stops_number :: "string \<Rightarrow> bool" where
  "stops_number rest \<longleftrightarrow> (\<forall>c cs. rest = c # cs \<longrightarrow> \<not> is_digit c)"

lemma digits_then_rest:
  assumes "stops_number rest"
  shows "takeWhile is_digit (to_string_nat n @ rest) = to_string_nat n"
    and "dropWhile is_digit (to_string_nat n @ rest) = rest"
proof -
  have d: "\<And>c. c \<in> set (to_string_nat n) \<Longrightarrow> is_digit c"
    by (simp add: is_digit_def to_string_nat_digits del: not_None_eq)
  have "takeWhile is_digit rest = []" "dropWhile is_digit rest = rest"
    using assms by (cases rest; simp add: stops_number_def)+
  with d show "takeWhile is_digit (to_string_nat n @ rest) = to_string_nat n"
    "dropWhile is_digit (to_string_nat n @ rest) = rest"
    by (simp_all add: takeWhile_append2 dropWhile_append2)
qed

lemma parse_digits_printed:
  assumes "stops_number rest" and "is_i32 (if negative then - int n else int n)"
  shows "parse_digits negative (to_string_nat n @ rest) =
           Some (if negative then - int n else int n, rest)"
proof (cases "n = 0")
  case True
  then have "to_string_nat n = ''0''" by (subst to_string_nat.simps) (simp add: digit_char_def)
  with assms True show ?thesis
    by (cases rest) (simp_all add: parse_digits_def stops_number_def)
next
  case False
  obtain c cs where t: "to_string_nat n = c # cs" by (cases "to_string_nat n") auto
  then have c: "c \<noteq> CHR ''0''" using to_string_nat_head [of n] False by simp
  have "is_digit c" using to_string_nat_digits [of c n] t by (simp add: is_digit_def del: not_None_eq)
  then show ?thesis
    using digits_then_rest [OF assms(1), of n] assms(2) c t digits_value_to_string [of n]
    unfolding parse_digits_def t by (simp add: Let_def)
qed

lemma parse_integer_printed:
  assumes "is_i32 i" and "stops_number rest"
  shows "parse_integer (to_string_int i @ rest) = Some (i, rest)"
proof (cases "i < 0")
  case True
  with assms parse_digits_printed [of rest True "nat (- i)"] show ?thesis
    by (simp add: to_string_int_def parse_integer_def)
next
  case False
  obtain c cs where t: "to_string_nat (nat i) = c # cs" by (cases "to_string_nat (nat i)") auto
  then have "is_digit c"
    using to_string_nat_digits [of c "nat i"] by (simp add: is_digit_def del: not_None_eq)
  then have "c \<noteq> CHR ''-''" by (auto simp: is_digit_def digit_value_def)
  then have "consume_char (CHR ''-'') (to_string_nat (nat i) @ rest) = None" by (simp add: t)
  with False assms parse_digits_printed [of rest False "nat i"] show ?thesis
    by (simp add: to_string_int_def parse_integer_def)
qed

text \<open>What a printed value is followed by inside an object, and reading it there.\<close>

definition member_end :: "string \<Rightarrow> bool" where
  "member_end rest \<longleftrightarrow> rest \<noteq> [] \<and> (hd rest = CHR '','' \<or> hd rest = CHR ''}'')"

definition renders :: "string \<Rightarrow> JsonValue \<Rightarrow> bool" where
  "renders t v \<longleftrightarrow> (\<forall>rest. member_end rest \<longrightarrow> parse_value (t @ rest) = Some (v, rest))"

definition json_quoted :: "string \<Rightarrow> string" where
  "json_quoted s = CHR 0x22 # escape_json_string s @ [CHR 0x22]"

lemma skip_whitespace_stop: "\<not> is_json_space c \<Longrightarrow> skip_whitespace (c # cs) = c # cs"
  by (simp add: skip_whitespace_def)

lemma parse_string_quoted: "parse_string (json_quoted s @ rest) = Some (s, rest)"
  by (simp add: parse_string_def json_quoted_def parse_escaped_string)

lemma renders_string: "renders (json_quoted s) (JString s)"
  unfolding renders_def
proof (intro allI impI)
  fix rest
  let ?t = "CHR 0x22 # escape_json_string s @ CHR 0x22 # rest"
  have t: "json_quoted s @ rest = ?t" by (simp add: json_quoted_def)
  have "skip_whitespace ?t = ?t" by (simp add: skip_whitespace_stop is_json_space_def)
  moreover have "parse_string ?t = Some (s, rest)" using parse_string_quoted [of s rest] t by simp
  ultimately have "parse_value ?t = Some (JString s, rest)" by (simp add: parse_value.simps [of ?t])
  then show "parse_value (json_quoted s @ rest) = Some (JString s, rest)" unfolding t .
qed

lemma renders_bool: "renders ''true'' (JBool True)" "renders ''false'' (JBool False)"
  by (simp_all add: renders_def parse_value.simps skip_whitespace_stop is_json_space_def
      match_literal_def)

lemma member_end_stops: "member_end rest \<Longrightarrow> stops_number rest"
  by (auto simp: member_end_def stops_number_def is_digit_def digit_value_def)

lemma renders_integer:
  assumes "is_i32 i"
  shows "renders (to_string_int i) (JInteger i)"
  unfolding renders_def
proof (intro allI impI)
  fix rest
  assume rest: "member_end rest"
  obtain c cs where t: "to_string_int i = c # cs" and c: "c = CHR ''-'' \<or> is_digit c"
  proof (cases "i < 0")
    case True
    then have "to_string_int i = CHR ''-'' # to_string_nat (nat (- i))" by (simp add: to_string_int_def)
    then show thesis by (rule that) (rule disjI1, rule refl)
  next
    case False
    obtain c cs where "to_string_nat (nat i) = c # cs" by (cases "to_string_nat (nat i)") auto
    with False to_string_nat_digits [of c "nat i"] show thesis
      by (intro that [of c cs]) (simp_all add: to_string_int_def is_digit_def del: not_None_eq)
  qed
  from c have c': "\<not> is_json_space c" "c \<noteq> CHR 0x22" "c \<noteq> CHR ''{''" "c \<noteq> CHR ''t''" "c \<noteq> CHR ''f''"
    by (auto simp: is_json_space_def is_digit_def digit_value_def)
  then have "match_literal ''true'' (c # cs @ rest) = None" "match_literal ''false'' (c # cs @ rest) = None"
    by (simp_all add: match_literal_def)
  moreover have "parse_integer (c # cs @ rest) = Some (i, rest)"
    using parse_integer_printed [OF assms member_end_stops [OF rest]] t by simp
  ultimately show "parse_value (to_string_int i @ rest) = Some (JInteger i, rest)"
    using c c' unfolding t
    by (simp add: parse_value.simps [of "c # cs @ rest"] skip_whitespace_stop)
qed

section \<open>Objects\<close>

fun object_body :: "(string \<times> string) list \<Rightarrow> string" where
  "object_body [] = []"
| "object_body [(key, t)] = json_quoted key @ '':'' @ t"
| "object_body ((key, t) # m # ms) = json_quoted key @ '':'' @ t @ '','' @ object_body (m # ms)"

definition renders_member :: "string \<times> string \<Rightarrow> string \<times> JsonValue \<Rightarrow> bool" where
  "renders_member p q \<longleftrightarrow> fst p = fst q \<and> renders (snd p) (snd q)"

lemma parse_member_step:
  assumes "renders t v" and "member_end rest" and "key \<notin> fst ` set out"
  shows "parse_members out (json_quoted key @ CHR '':'' # t @ rest) =
           (case consume_char (CHR ''}'') rest of
              Some rest' \<Rightarrow> Some (out @ [(key, v)], rest')
            | None \<Rightarrow>
                (case consume_char (CHR '','') rest of
                   None \<Rightarrow> None
                 | Some rest' \<Rightarrow> parse_members (out @ [(key, v)]) (skip_whitespace rest')))"
proof -
  have "skip_whitespace rest = rest" "skip_whitespace (CHR '':'' # t @ rest) = CHR '':'' # t @ rest"
    using assms(2)
    by (cases rest; auto simp: member_end_def skip_whitespace_stop is_json_space_def)+
  with assms show ?thesis
    by (subst parse_members.simps)
      (simp add: parse_string_quoted renders_def split: option.split)
qed

lemma object_body_start: "ms \<noteq> [] \<Longrightarrow> \<exists>cs. object_body ms = CHR 0x22 # cs"
  by (cases ms rule: object_body.cases) (auto simp: json_quoted_def)

lemma parse_members_body:
  assumes "list_all2 renders_member kts kvs" and "kts \<noteq> []" and "distinct (map fst (out @ kvs))"
  shows "parse_members out (object_body kts @ CHR ''}'' # rest) = Some (out @ kvs, rest)"
  using assms
proof (induction kts arbitrary: kvs out rule: object_body.induct)
  case 1
  then show ?case by simp
next
  case (2 key t)
  then obtain v where v: "kvs = [(key, v)]" "renders t v"
    by (auto simp: list_all2_Cons1 renders_member_def)
  with 2(3) parse_member_step [of t v "CHR ''}'' # rest" key out] show ?case
    by (auto simp: member_end_def)
next
  case (3 key t m ms)
  from 3(2) obtain q kvs' where q: "kvs = q # kvs'" "renders_member (key, t) q"
    "list_all2 renders_member (m # ms) kvs'" by (simp only: list_all2_Cons1) blast
  then obtain v where v: "kvs = (key, v) # kvs'" "renders t v" "list_all2 renders_member (m # ms) kvs'"
    by (cases q) (simp add: renders_member_def)
  let ?more = "object_body (m # ms) @ CHR ''}'' # rest"
  have "key \<notin> fst ` set out" using 3(4) v(1) by auto
  then have "parse_members out (object_body ((key, t) # m # ms) @ CHR ''}'' # rest) =
      parse_members (out @ [(key, v)]) (skip_whitespace ?more)"
    using parse_member_step [of t v "CHR '','' # ?more" key out] v(2) by (simp add: member_end_def)
  moreover have "skip_whitespace ?more = ?more"
    using object_body_start [of "m # ms"] by (auto simp: skip_whitespace_stop is_json_space_def)
  ultimately show ?case
    using 3(1) [OF v(3), of "out @ [(key, v)]"] 3(4) v(1) by simp
qed

lemma renders_object:
  assumes "list_all2 renders_member kts kvs" and "distinct (map fst kvs)"
  shows "renders (''{'' @ object_body kts @ ''}'') (JObject kvs)"
  unfolding renders_def
proof (intro allI impI)
  fix rest
  show "parse_value ((''{'' @ object_body kts @ ''}'') @ rest) = Some (JObject kvs, rest)"
  proof (cases "kts = []")
    case True
    with assms show ?thesis
      by (simp add: parse_value.simps skip_whitespace_stop is_json_space_def)
  next
    case False
    then obtain cs where cs: "object_body kts = CHR 0x22 # cs" using object_body_start by blast
    then have "skip_whitespace (object_body kts @ CHR ''}'' # rest) = object_body kts @ CHR ''}'' # rest"
      "consume_char (CHR ''}'') (object_body kts @ CHR ''}'' # rest) = None"
      by (simp_all add: skip_whitespace_stop is_json_space_def)
    with parse_members_body [of kts kvs "[]" rest] assms False show ?thesis
      by (simp add: parse_value.simps [of "CHR ''{'' # object_body kts @ CHR ''}'' # rest"]
          skip_whitespace_stop [of "CHR ''{''"] is_json_space_def)
  qed
qed

lemma parse_printed_object:
  assumes "list_all2 renders_member kts kvs" and "distinct (map fst kvs)" and "kts \<noteq> []"
  shows "parse_root_object (''{'' @ object_body kts @ ''}'') = Some kvs"
proof -
  obtain cs where cs: "object_body kts = CHR 0x22 # cs" using assms(3) object_body_start by blast
  then have "skip_whitespace (object_body kts @ ''}'') = object_body kts @ ''}''"
    "consume_char (CHR ''}'') (object_body kts @ ''}'') = None"
    by (simp_all add: skip_whitespace_stop is_json_space_def)
  with parse_members_body [of kts kvs "[]" "[]"] assms show ?thesis
    by (simp add: parse_root_object_def skip_whitespace_stop [of "CHR ''{''"] is_json_space_def)
      (simp add: skip_whitespace_def)
qed

end
