(* ===== verification/Access_Types.thy ===== *)
theory Access_Types
  imports Contract_Types
begin

text \<open>
  The data of the access layer (\<^verbatim>\<open>access/include/AccessTypes.h\<close>, with the shared contracts
  \<^verbatim>\<open>AgentRequest\<close> and \<^verbatim>\<open>AgentResult\<close>): subject and packet of a request, the request handed to
  the runtime, the result handed back, receipts and envelopes. A \<^verbatim>\<open>std::map\<close> is a finite map,
  a \<^verbatim>\<open>steady_clock\<close> time point the nanoseconds of that clock, 32-bit signed settings are
  integers.
\<close>

section \<open>Shared contracts\<close>

datatype RequestChannel =
    Channel_Unspecified | Channel_Cli | Channel_Gateway | Channel_Daemon | Channel_Simulator

record AgentRequest =
  aq_request_id :: "string option"
  aq_session_id :: "string option"
  aq_trace_id :: "string option"
  user_input :: "string option"
  request_channel :: "RequestChannel option"
  aq_created_at :: "int option"
  goal_hint :: "string option"
  domain_context :: "string option"
  constraint_set :: "string option"
  approval_policy_hint :: "string option"
  aq_runtime_budget :: "RuntimeBudget option"
  aq_timeout_ms :: "u32 option"
  deadline_at :: "int option"
  aq_priority :: "u32 option"
  aq_idempotency_key :: "string option"
  request_locale :: "string option"
  client_capabilities :: "string option"
  aq_tags :: "string list option"

definition empty_agent_request :: AgentRequest where
  "empty_agent_request =
     \<lparr>aq_request_id = None, aq_session_id = None, aq_trace_id = None, user_input = None,
      request_channel = None, aq_created_at = None, goal_hint = None, domain_context = None,
      constraint_set = None, approval_policy_hint = None, aq_runtime_budget = None,
      aq_timeout_ms = None, deadline_at = None, aq_priority = None, aq_idempotency_key = None,
      request_locale = None, client_capabilities = None, aq_tags = None\<rparr>"

datatype AgentResultStatus =
    Result_Unspecified | Result_Completed | Result_Failed | Result_PartiallyCompleted
  | Result_Cancelled | Result_Timeout

record AgentResult =
  result_id :: "string option"
  ar_status :: "AgentResultStatus option"
  ar_result_code :: "int option"
  response_text :: "string option"
  task_completed :: "bool option"
  ar_created_at :: "int option"
  ar_request_id :: "string option"
  ar_trace_id :: "string option"
  structured_payload :: "string option"
  ar_error_info :: "ErrorInfo option"
  ar_checkpoint_ref :: "string option"
  ar_goal_id :: "string option"
  ar_tags :: "string list option"

definition empty_agent_result :: AgentResult where
  "empty_agent_result =
     \<lparr>result_id = None, ar_status = None, ar_result_code = None, response_text = None,
      task_completed = None, ar_created_at = None, ar_request_id = None, ar_trace_id = None,
      structured_payload = None, ar_error_info = None, ar_checkpoint_ref = None,
      ar_goal_id = None, ar_tags = None\<rparr>"

section \<open>Requests\<close>

record SubjectIdentity =
  actor_ref :: string
  subject_type :: string
  auth_method :: string
  trust_level :: string
  tenant_ref :: string
  auth_metadata :: "string option"

record AccessDecisionProof =
  proof_decision :: string
  policy_decision_ref :: string
  proof_reason_code :: string
  reason_description :: "string option"
  evaluated_at :: "string option"

record InboundPacket =
  packet_id :: string
  entry_type :: string
  ip_protocol_kind :: string
  peer_ref :: string
  ip_payload :: string
  headers :: "string \<rightharpoonup> string"
  ip_trace_id :: "string option"
  ip_session_hint :: "string option"
  ip_deadline_ms :: "int option"
  async_preferred :: bool
  ip_stream_requested :: bool

record RuntimeDispatchRequest =
  dispatch_packet :: InboundPacket
  subject_identity :: SubjectIdentity
  decision_proof :: AccessDecisionProof
  agent_request :: AgentRequest
  client_capability_view :: string
  async_allowed :: bool
  stream_requested :: bool
  request_context :: "string \<rightharpoonup> string"
  access_deadline :: "string option"

section \<open>Results\<close>

datatype AccessDisposition =
    Access_Rejected | Access_Completed | Access_AcceptedAsync | Access_StreamAttached

record AsyncTaskReceipt =
  receipt_id :: string
  rc_request_id :: string
  rc_session_id :: string
  rc_actor_ref :: string
  rc_task_ref :: string
  rc_expires_at :: int
  ownership_token :: string
  rc_initial_status :: "string option"

record PublishEnvelope =
  pe_request_id :: string
  pe_result_id :: string
  pe_session_id :: string
  pe_trace_id :: string
  channel_ref :: string
  protocol_kind :: string
  pe_agent_result :: "AgentResult option"
  protocol_status_hint :: string
  protocol_metadata :: string
  is_final :: bool
  pe_payload :: string
  pe_receipt :: "AsyncTaskReceipt option"

record RuntimeDispatchResult =
  rd_disposition :: AccessDisposition
  publish_envelope :: "PublishEnvelope option"
  rd_receipt_ref :: "string option"
  subscription_ref :: "string option"
  rd_error_ref :: "string option"
  response_context :: "string \<rightharpoonup> string"

record AccessAdmissionResult =
  admitted :: bool
  replay_hit :: bool
  conflict_hit :: bool
  ticket_ref :: "string option"
  replay_receipt_ref :: "string option"
  ad_reject_reason :: "string option"
  challenge_hint :: "string option"

definition empty_admission_result :: AccessAdmissionResult where
  "empty_admission_result =
     \<lparr>admitted = False, replay_hit = False, conflict_hit = False, ticket_ref = None,
      replay_receipt_ref = None, ad_reject_reason = None, challenge_hint = None\<rparr>"

record AccessAdmissionView =
  idempotency_window_ms :: int
  max_inflight_requests :: int
  dispatch_deadline_ms :: int
  default_deny :: bool

section \<open>Sample values\<close>

definition sample_packet :: InboundPacket where
  "sample_packet =
     \<lparr>packet_id = ''p-1'', entry_type = ''daemon'', ip_protocol_kind = ''ipc_uds'', peer_ref = [],
      ip_payload = [], headers = Map.empty, ip_trace_id = None, ip_session_hint = None,
      ip_deadline_ms = None, async_preferred = False, ip_stream_requested = False\<rparr>"

definition sample_dispatch_request :: RuntimeDispatchRequest where
  "sample_dispatch_request =
     \<lparr>dispatch_packet = sample_packet,
      subject_identity =
        \<lparr>actor_ref = ''uds://local/1000'', subject_type = ''user'', auth_method = ''local_trusted'',
         trust_level = ''trusted'', tenant_ref = [], auth_metadata = None\<rparr>,
      decision_proof =
        \<lparr>proof_decision = ''Allow'', policy_decision_ref = [], proof_reason_code = [],
         reason_description = None, evaluated_at = None\<rparr>,
      agent_request = empty_agent_request, client_capability_view = [], async_allowed = True,
      stream_requested = False, request_context = Map.empty, access_deadline = None\<rparr>"

definition sample_dispatch_result :: RuntimeDispatchResult where
  "sample_dispatch_result =
     \<lparr>rd_disposition = Access_AcceptedAsync, publish_envelope = None, rd_receipt_ref = None,
      subscription_ref = None, rd_error_ref = None, response_context = Map.empty\<rparr>"

end
