(* ===== verification/Daemon_Frame.thy ===== *)
theory Daemon_Frame
  imports Json_Reader Access_Types "HOL-Library.List_Lexorder" "HOL-Library.Char_ord"
begin

text \<open>
  The daemon's frame codec (\<^verbatim>\<open>access/include/daemon/DaemonProtocolTypes.h\<close>,
  \<^verbatim>\<open>access/src/daemon/DaemonFrameCodec.cpp\<close>): the request and response frames that cross the
  Unix socket, their encoding as JSON text, and decoding with its error classification. A
  decode result is an error or a frame; the code also returns a partly filled frame beside an
  error, which its callers never read. \<^verbatim>\<open>std::map\<close> arguments are association lists in key order.
\<close>

section \<open>Frames\<close>

definition kDaemonProtocolSchemaVersion :: string where
  "kDaemonProtocolSchemaVersion = ''1''"

datatype DaemonCommandKind =
    Command_Unknown | Ping | Run | Status | Cancel | Readiness | Diagnostics | Knowledge

datatype DaemonAsyncPreference = PreferSync | PreferAsync

datatype DaemonOutputMode = Human | Json

datatype UdsResponseDisposition = Rejected | Completed_Response | AcceptedAsync | NotReady

datatype DaemonFrameDecodeError =
    No_Error | EmptyPayload | MissingSchemaVersion | UnsupportedSchemaVersion | MissingCommand
  | UnknownCommand | PayloadTooLarge | MalformedEnvelope

definition classify_daemon_command :: "string \<Rightarrow> DaemonCommandKind" where
  "classify_daemon_command command =
     (if command = ''ping'' then Ping
      else if command = ''run'' \<or> command = ''submit'' then Run
      else if command = ''status'' then Status
      else if command = ''cancel'' then Cancel
      else if command = ''readiness'' then Readiness
      else if command = ''diag'' \<or> command = ''diagnostics'' then Diagnostics
      else if command = ''knowledge'' then Knowledge
      else Command_Unknown)"

definition is_known_daemon_command :: "DaemonCommandKind \<Rightarrow> bool" where
  "is_known_daemon_command command \<longleftrightarrow> command \<noteq> Command_Unknown"

definition is_read_only_daemon_command :: "DaemonCommandKind \<Rightarrow> bool" where
  "is_read_only_daemon_command command \<longleftrightarrow>
     command = Ping \<or> command = Status \<or> command = Readiness \<or> command = Diagnostics"

definition is_mutating_daemon_command :: "DaemonCommandKind \<Rightarrow> bool" where
  "is_mutating_daemon_command command \<longleftrightarrow> command = Run \<or> command = Cancel"

record UdsRequestFrame =
  uq_schema_version :: string
  uq_request_id :: string
  uq_trace_id :: string
  session_hint :: "string option"
  idempotency_key_hint :: "string option"
  frame_command :: string
  frame_args :: "(string \<times> string) list"
  frame_payload :: string
  async_preference :: DaemonAsyncPreference
  output_mode :: DaemonOutputMode
  frame_deadline_ms :: "int option"

record UdsResponseFrame =
  us_schema_version :: string
  us_request_id :: string
  us_trace_id :: string
  us_session_id :: "string option"
  disposition :: UdsResponseDisposition
  exit_code_hint :: "int option"
  receipt_ref :: "string option"
  frame_agent_result :: "AgentResult option"
  error_ref :: "string option"

section \<open>Fields of a parsed object\<close>

definition string_field :: "(string \<times> JsonValue) list \<Rightarrow> string \<Rightarrow> string option" where
  "string_field object key =
     (case map_of object key of
        None \<Rightarrow> None
      | Some v \<Rightarrow> (case v of JString s \<Rightarrow> Some s | _ \<Rightarrow> None))"

definition bool_field :: "(string \<times> JsonValue) list \<Rightarrow> string \<Rightarrow> bool option" where
  "bool_field object key =
     (case map_of object key of
        None \<Rightarrow> None
      | Some v \<Rightarrow> (case v of JBool b \<Rightarrow> Some b | _ \<Rightarrow> None))"

definition integer_field :: "(string \<times> JsonValue) list \<Rightarrow> string \<Rightarrow> int option" where
  "integer_field object key =
     (case map_of object key of
        None \<Rightarrow> None
      | Some v \<Rightarrow> (case v of JInteger i \<Rightarrow> Some i | _ \<Rightarrow> None))"

definition request_field_names :: "string list" where
  "request_field_names =
     [''schema_version'', ''request_id'', ''trace_id'', ''session_hint'', ''idempotency_key'', ''command'',
      ''args'', ''payload'', ''async_preference'', ''output_mode'', ''deadline_ms'']"

definition has_only_known_request_fields :: "(string \<times> JsonValue) list \<Rightarrow> bool" where
  "has_only_known_request_fields object =
     list_all (\<lambda>(key, _). key \<in> set request_field_names) object"

definition has_only_known_agent_result_fields :: "(string \<times> JsonValue) list \<Rightarrow> bool" where
  "has_only_known_agent_result_fields object =
     list_all (\<lambda>(key, _). key \<in> {''result_id'', ''response_text'', ''request_id'', ''trace_id'',
                                  ''task_completed''}) object"

definition has_only_known_response_fields :: "(string \<times> JsonValue) list \<Rightarrow> bool" where
  "has_only_known_response_fields object =
     list_all
       (\<lambda>(key, v).
          key \<in> {''schema_version'', ''request_id'', ''trace_id'', ''session_id'', ''disposition'',
                 ''exit_code_hint'', ''receipt_ref'', ''error_ref'', ''agent_result''} \<and>
          (key = ''agent_result'' \<longrightarrow>
             (case v of JObject members \<Rightarrow> has_only_known_agent_result_fields members | _ \<Rightarrow> False)))
       object"

text \<open>\<^verbatim>\<open>std::map::emplace\<close>: an existing key keeps its value.\<close>

fun map_emplace :: "string \<Rightarrow> string \<Rightarrow> (string \<times> string) list \<Rightarrow> (string \<times> string) list" where
  "map_emplace key v [] = [(key, v)]"
| "map_emplace key v ((key', v') # m) =
     (if key = key' then (key', v') # m
      else if key < key' then (key, v) # (key', v') # m
      else (key', v') # map_emplace key v m)"

fun collect_args ::
  "(string \<times> JsonValue) list \<Rightarrow> (string \<times> string) list \<Rightarrow> (string \<times> string) list option"
where
  "collect_args [] args_out = Some args_out"
| "collect_args ((key, v) # rest) args_out =
     (case v of JString s \<Rightarrow> collect_args rest (map_emplace key s args_out) | _ \<Rightarrow> None)"

definition parse_args_field :: "(string \<times> JsonValue) list \<Rightarrow> (string \<times> string) list option" where
  "parse_args_field object =
     (case map_of object ''args'' of
        None \<Rightarrow> Some []
      | Some v \<Rightarrow> (case v of JObject members \<Rightarrow> collect_args members [] | _ \<Rightarrow> None))"

section \<open>Names\<close>

fun disposition_name :: "UdsResponseDisposition \<Rightarrow> string" where
  "disposition_name Rejected = ''rejected''"
| "disposition_name Completed_Response = ''completed''"
| "disposition_name AcceptedAsync = ''accepted_async''"
| "disposition_name NotReady = ''not_ready''"

definition disposition_from_name :: "string \<Rightarrow> UdsResponseDisposition option" where
  "disposition_from_name name =
     (if name = ''rejected'' then Some Rejected
      else if name = ''completed'' then Some Completed_Response
      else if name = ''accepted_async'' then Some AcceptedAsync
      else if name = ''not_ready'' then Some NotReady
      else None)"

fun output_mode_name :: "DaemonOutputMode \<Rightarrow> string" where
  "output_mode_name Human = ''human''"
| "output_mode_name Json = ''json''"

definition output_mode_from_name :: "string \<Rightarrow> DaemonOutputMode option" where
  "output_mode_from_name name =
     (if name = ''human'' then Some Human else if name = ''json'' then Some Json else None)"

fun error_name :: "DaemonFrameDecodeError \<Rightarrow> string" where
  "error_name No_Error = ''none''"
| "error_name EmptyPayload = ''empty_payload''"
| "error_name MissingSchemaVersion = ''missing_schema_version''"
| "error_name UnsupportedSchemaVersion = ''unsupported_schema_version''"
| "error_name MissingCommand = ''missing_command''"
| "error_name UnknownCommand = ''unknown_command''"
| "error_name PayloadTooLarge = ''payload_too_large''"
| "error_name MalformedEnvelope = ''malformed_envelope''"

definition protocol_status_for_error :: "DaemonFrameDecodeError \<Rightarrow> nat" where
  "protocol_status_for_error e =
     (case e of PayloadTooLarge \<Rightarrow> 413 | UnsupportedSchemaVersion \<Rightarrow> 426 | No_Error \<Rightarrow> 200 | _ \<Rightarrow> 400)"

section \<open>Decoding\<close>

definition check_payload :: "string \<Rightarrow> nat \<Rightarrow> DaemonFrameDecodeError option" where
  "check_payload payload max_payload_bytes =
     (if payload = [] then Some EmptyPayload
      else if length payload > max_payload_bytes then Some PayloadTooLarge
      else if \<not> is_valid_utf8 payload then Some MalformedEnvelope
      else None)"

definition check_schema_version :: "(string \<times> JsonValue) list \<Rightarrow> DaemonFrameDecodeError option" where
  "check_schema_version root_object =
     (case string_field root_object ''schema_version'' of
        None \<Rightarrow> Some MissingSchemaVersion
      | Some v \<Rightarrow> if v \<noteq> kDaemonProtocolSchemaVersion then Some UnsupportedSchemaVersion else None)"

definition decode_request_root ::
  "(string \<times> JsonValue) list \<Rightarrow> nat \<Rightarrow> DaemonFrameDecodeError + UdsRequestFrame"
where
  "decode_request_root root_object max_payload_bytes =
     (case check_schema_version root_object of
        Some e \<Rightarrow> Inl e
      | None \<Rightarrow>
          (case string_field root_object ''command'' of
             None \<Rightarrow> Inl MissingCommand
           | Some command \<Rightarrow>
               if command = [] then Inl MissingCommand
               else if \<not> is_known_daemon_command (classify_daemon_command command)
               then Inl UnknownCommand
               else
                 (case parse_args_field root_object of
                    None \<Rightarrow> Inl MalformedEnvelope
                  | Some args \<Rightarrow>
                      (let payload = value_or (string_field root_object ''payload'') [];
                           mode = (case string_field root_object ''output_mode'' of
                                     None \<Rightarrow> Some Human | Some name \<Rightarrow> output_mode_from_name name)
                       in if length payload > max_payload_bytes then Inl PayloadTooLarge
                          else
                            (case mode of
                               None \<Rightarrow> Inl MalformedEnvelope
                             | Some m \<Rightarrow>
                                 Inr \<lparr>uq_schema_version = the (string_field root_object ''schema_version''),
                                      uq_request_id = value_or (string_field root_object ''request_id'') [],
                                      uq_trace_id = value_or (string_field root_object ''trace_id'') [],
                                      session_hint = string_field root_object ''session_hint'',
                                      idempotency_key_hint = string_field root_object ''idempotency_key'',
                                      frame_command = command, frame_args = args,
                                      frame_payload = payload,
                                      async_preference =
                                        (if bool_field root_object ''async_preference'' = Some True
                                         then PreferAsync else PreferSync),
                                      output_mode = m,
                                      frame_deadline_ms = integer_field root_object ''deadline_ms''\<rparr>)))))"

definition decode_request_frame :: "string \<Rightarrow> nat \<Rightarrow> DaemonFrameDecodeError + UdsRequestFrame" where
  "decode_request_frame payload max_payload_bytes =
     (case check_payload payload max_payload_bytes of
        Some e \<Rightarrow> Inl e
      | None \<Rightarrow>
          (case parse_root_object payload of
             None \<Rightarrow> Inl MalformedEnvelope
           | Some root_object \<Rightarrow>
               if \<not> has_only_known_request_fields root_object then Inl MalformedEnvelope
               else decode_request_root root_object max_payload_bytes))"

definition decode_agent_result :: "(string \<times> JsonValue) list \<Rightarrow> AgentResult" where
  "decode_agent_result object =
     empty_agent_result
       \<lparr>result_id := string_field object ''result_id'',
        response_text := string_field object ''response_text'',
        ar_request_id := string_field object ''request_id'',
        ar_trace_id := string_field object ''trace_id'',
        task_completed := bool_field object ''task_completed''\<rparr>"

definition decode_response_root ::
  "(string \<times> JsonValue) list \<Rightarrow> DaemonFrameDecodeError + UdsResponseFrame"
where
  "decode_response_root root_object =
     (case check_schema_version root_object of
        Some e \<Rightarrow> Inl e
      | None \<Rightarrow>
          (case string_field root_object ''disposition'' of
             None \<Rightarrow> Inl MalformedEnvelope
           | Some name \<Rightarrow>
               if name = [] then Inl MalformedEnvelope
               else
                 (case disposition_from_name name of
                    None \<Rightarrow> Inl MalformedEnvelope
                  | Some d \<Rightarrow>
                      Inr \<lparr>us_schema_version = the (string_field root_object ''schema_version''),
                           us_request_id = value_or (string_field root_object ''request_id'') [],
                           us_trace_id = value_or (string_field root_object ''trace_id'') [],
                           us_session_id = string_field root_object ''session_id'',
                           disposition = d,
                           exit_code_hint = integer_field root_object ''exit_code_hint'',
                           receipt_ref = string_field root_object ''receipt_ref'',
                           frame_agent_result =
                             (case map_of root_object ''agent_result'' of
                                None \<Rightarrow> None
                              | Some v \<Rightarrow>
                                  Some (decode_agent_result
                                          (case v of JObject members \<Rightarrow> members | _ \<Rightarrow> []))),
                           error_ref = string_field root_object ''error_ref''\<rparr>)))"

definition decode_response_frame :: "string \<Rightarrow> nat \<Rightarrow> DaemonFrameDecodeError + UdsResponseFrame" where
  "decode_response_frame payload max_payload_bytes =
     (case check_payload payload max_payload_bytes of
        Some e \<Rightarrow> Inl e
      | None \<Rightarrow>
          (case parse_root_object payload of
             None \<Rightarrow> Inl MalformedEnvelope
           | Some root_object \<Rightarrow>
               if \<not> has_only_known_response_fields root_object then Inl MalformedEnvelope
               else decode_response_root root_object))"

section \<open>Encoding\<close>

definition optional_text :: "string \<Rightarrow> string option \<Rightarrow> string" where
  "optional_text prefix v =
     (case v of None \<Rightarrow> [] | Some x \<Rightarrow> prefix @ escape_json_string x @ ''\"'')"

definition optional_number :: "string \<Rightarrow> int option \<Rightarrow> string" where
  "optional_number prefix v = (case v of None \<Rightarrow> [] | Some i \<Rightarrow> prefix @ to_string_int i)"

fun encode_args :: "bool \<Rightarrow> (string \<times> string) list \<Rightarrow> string" where
  "encode_args first_arg [] = []"
| "encode_args first_arg ((key, v) # rest) =
     (if \<not> first_arg then '','' else []) @
     ''\"'' @ escape_json_string key @ ''\":\"'' @ escape_json_string v @ ''\"'' @
     encode_args False rest"

definition encode_request_frame :: "UdsRequestFrame \<Rightarrow> string" where
  "encode_request_frame f =
     ''{'' @
     ''\"schema_version\":\"'' @ escape_json_string (uq_schema_version f) @ ''\"'' @
     '',\"request_id\":\"'' @ escape_json_string (uq_request_id f) @ ''\"'' @
     '',\"trace_id\":\"'' @ escape_json_string (uq_trace_id f) @ ''\"'' @
     optional_text '',\"session_hint\":\"'' (session_hint f) @
     optional_text '',\"idempotency_key\":\"'' (idempotency_key_hint f) @
     '',\"command\":\"'' @ escape_json_string (frame_command f) @ ''\"'' @
     '',\"args\":{'' @ encode_args True (frame_args f) @ ''}'' @
     '',\"payload\":\"'' @ escape_json_string (frame_payload f) @ ''\"'' @
     '',\"async_preference\":'' @ (if async_preference f = PreferAsync then ''true'' else ''false'') @
     '',\"output_mode\":\"'' @ output_mode_name (output_mode f) @ ''\"'' @
     optional_number '',\"deadline_ms\":'' (frame_deadline_ms f) @
     ''}''"

text \<open>
  The members of the agent result, each present one preceded by a comma unless it is the
  first.
\<close>

fun join_present :: "bool \<Rightarrow> string option list \<Rightarrow> string" where
  "join_present first_field [] = []"
| "join_present first_field (m # ms) =
     (case m of
        None \<Rightarrow> join_present first_field ms
      | Some t \<Rightarrow> (if \<not> first_field then '','' else []) @ t @ join_present False ms)"

definition text_member :: "string \<Rightarrow> string option \<Rightarrow> string option" where
  "text_member prefix v = map_option (\<lambda>x. prefix @ escape_json_string x @ ''\"'') v"

definition encode_agent_result :: "AgentResult \<Rightarrow> string" where
  "encode_agent_result a =
     '',\"agent_result\":{'' @
     join_present True
       [text_member ''\"result_id\":\"'' (result_id a),
        text_member ''\"response_text\":\"'' (response_text a),
        text_member ''\"request_id\":\"'' (ar_request_id a),
        text_member ''\"trace_id\":\"'' (ar_trace_id a),
        map_option (\<lambda>b. ''\"task_completed\":'' @ (if b then ''true'' else ''false''))
          (task_completed a)] @
     ''}''"

definition encode_response_frame :: "UdsResponseFrame \<Rightarrow> string" where
  "encode_response_frame f =
     ''{'' @
     ''\"schema_version\":\"'' @ escape_json_string (us_schema_version f) @ ''\"'' @
     '',\"request_id\":\"'' @ escape_json_string (us_request_id f) @ ''\"'' @
     '',\"trace_id\":\"'' @ escape_json_string (us_trace_id f) @ ''\"'' @
     '',\"disposition\":\"'' @ disposition_name (disposition f) @ ''\"'' @
     optional_text '',\"session_id\":\"'' (us_session_id f) @
     optional_number '',\"exit_code_hint\":'' (exit_code_hint f) @
     optional_text '',\"receipt_ref\":\"'' (receipt_ref f) @
     optional_text '',\"error_ref\":\"'' (error_ref f) @
     (case frame_agent_result f of None \<Rightarrow> [] | Some a \<Rightarrow> encode_agent_result a) @
     ''}''"

section \<open>Error envelopes\<close>

definition map_frame_error_to_publish_envelope ::
  "DaemonFrameDecodeError \<Rightarrow> string \<Rightarrow> string \<Rightarrow> PublishEnvelope"
where
  "map_frame_error_to_publish_envelope e request_id trace_id =
     \<lparr>pe_request_id = request_id,
      pe_result_id = (if request_id = [] then ''frame-error'' else ''frame-error:'' @ request_id),
      pe_session_id = [], pe_trace_id = trace_id, channel_ref = [], protocol_kind = ''ipc_uds'',
      pe_agent_result = None,
      protocol_status_hint = to_string_nat (protocol_status_for_error e), protocol_metadata = [],
      is_final = True, pe_payload = error_name e, pe_receipt = None\<rparr>"

section \<open>Encoded frames as objects\<close>

text \<open>
  The members of an encoded frame: key, printed text and the value the text denotes. Encoding
  prints the texts as one object; decoding reads the values.
\<close>

type_synonym member = "string \<times> string \<times> JsonValue"

definition string_member :: "string \<Rightarrow> string \<Rightarrow> member" where
  "string_member key x = (key, json_quoted x, JString x)"

definition bool_member :: "string \<Rightarrow> bool \<Rightarrow> member" where
  "bool_member key b = (key, if b then ''true'' else ''false'', JBool b)"

definition opt_string :: "string \<Rightarrow> string option \<Rightarrow> member list" where
  "opt_string key v = (case v of None \<Rightarrow> [] | Some x \<Rightarrow> [string_member key x])"

definition opt_bool :: "string \<Rightarrow> bool option \<Rightarrow> member list" where
  "opt_bool key v = (case v of None \<Rightarrow> [] | Some b \<Rightarrow> [bool_member key b])"

definition opt_int :: "string \<Rightarrow> int option \<Rightarrow> member list" where
  "opt_int key v = (case v of None \<Rightarrow> [] | Some i \<Rightarrow> [(key, to_string_int i, JInteger i)])"

definition member_texts :: "member list \<Rightarrow> (string \<times> string) list" where
  "member_texts = map (\<lambda>(key, t, v). (key, t))"

definition member_values :: "member list \<Rightarrow> (string \<times> JsonValue) list" where
  "member_values = map (\<lambda>(key, t, v). (key, v))"

definition printed_object :: "member list \<Rightarrow> string" where
  "printed_object ms = ''{'' @ object_body (member_texts ms) @ ''}''"

definition object_member :: "string \<Rightarrow> member list \<Rightarrow> member" where
  "object_member key ms = (key, printed_object ms, JObject (member_values ms))"

definition members_render :: "member list \<Rightarrow> bool" where
  "members_render = list_all (\<lambda>(key, t, v). renders t v)"

lemma member_lists [simp]:
  "member_texts [] = []" "member_texts ((k, t, v) # ms) = (k, t) # member_texts ms"
  "member_texts (ms @ ns) = member_texts ms @ member_texts ns"
  "member_values [] = []" "member_values ((k, t, v) # ms) = (k, v) # member_values ms"
  "member_values (ms @ ns) = member_values ms @ member_values ns"
  "members_render [] = True" "members_render ((k, t, v) # ms) = (renders t v \<and> members_render ms)"
  "members_render (ms @ ns) = (members_render ms \<and> members_render ns)"
  by (simp_all add: member_texts_def member_values_def members_render_def)

lemma members_render_rel: "members_render ms \<Longrightarrow> list_all2 renders_member (member_texts ms) (member_values ms)"
  by (induction ms) (auto simp: renders_member_def)

lemma renders_printed_object:
  "members_render ms \<Longrightarrow> distinct (map fst (member_values ms)) \<Longrightarrow>
     renders (printed_object ms) (JObject (member_values ms))"
  unfolding printed_object_def by (rule renders_object [OF members_render_rel])

lemma parse_printed_members:
  assumes "members_render ms" and "distinct (map fst (member_values ms))" and "ms \<noteq> []"
  shows "parse_root_object (printed_object ms) = Some (member_values ms)"
  unfolding printed_object_def
  by (rule parse_printed_object [OF members_render_rel])
    (use assms in \<open>simp_all add: member_texts_def\<close>)

lemma members_render_parts [simp]:
  "members_render (string_member k x # ms) = members_render ms"
  "members_render (bool_member k b # ms) = members_render ms"
  "members_render (opt_string k v)" "members_render (opt_bool k bv)"
  "(\<And>i. iv = Some i \<Longrightarrow> is_i32 i) \<Longrightarrow> members_render (opt_int k iv)"
  by (auto simp: string_member_def bool_member_def opt_string_def opt_bool_def opt_int_def
      renders_string renders_bool renders_integer split: option.split)

text \<open>Looking a key up in a list with optional members.\<close>

lemma member_values_parts [simp]:
  "member_values (string_member k x # ms) = (k, JString x) # member_values ms"
  "member_values (bool_member k b # ms) = (k, JBool b) # member_values ms"
  "member_values (object_member k os # ms) = (k, JObject (member_values os)) # member_values ms"
  by (simp_all add: string_member_def bool_member_def object_member_def)

lemma map_of_opt_member [simp]:
  "map_of (member_values (opt_string k v) @ rest) k' =
     (if k = k' \<and> v \<noteq> None then Some (JString (the v)) else map_of rest k')"
  "map_of (member_values (opt_bool k bv) @ rest) k' =
     (if k = k' \<and> bv \<noteq> None then Some (JBool (the bv)) else map_of rest k')"
  "map_of (member_values (opt_int k iv) @ rest) k' =
     (if k = k' \<and> iv \<noteq> None then Some (JInteger (the iv)) else map_of rest k')"
  by (auto simp: opt_string_def opt_bool_def opt_int_def string_member_def bool_member_def
      split: option.split)

lemma map_of_opt_member_last [simp]:
  "map_of (member_values (opt_string k v)) k' = (if k = k' \<and> v \<noteq> None then Some (JString (the v)) else None)"
  "map_of (member_values (opt_bool k bv)) k' = (if k = k' \<and> bv \<noteq> None then Some (JBool (the bv)) else None)"
  "map_of (member_values (opt_int k iv)) k' = (if k = k' \<and> iv \<noteq> None then Some (JInteger (the iv)) else None)"
  using map_of_opt_member [where rest = "[]"] by simp_all

lemma keys_optional [simp]:
  "map fst (member_values (opt_string k v)) = (if v = None then [] else [k])"
  "map fst (member_values (opt_bool k bv)) = (if bv = None then [] else [k])"
  "map fst (member_values (opt_int k iv)) = (if iv = None then [] else [k])"
  by (auto simp: opt_string_def opt_bool_def opt_int_def string_member_def bool_member_def
      split: option.split)

definition tail_text :: "(string \<times> string) list \<Rightarrow> string" where
  "tail_text ms = concat (map (\<lambda>(key, t). '','' @ json_quoted key @ '':'' @ t) ms)"

lemma tail_text_simps [simp]:
  "tail_text [] = []" "tail_text ((key, t) # ms) = '','' @ json_quoted key @ '':'' @ t @ tail_text ms"
  "tail_text (ms @ ns) = tail_text ms @ tail_text ns"
  by (simp_all add: tail_text_def)

lemma object_body_tail: "object_body ((key, t) # ms) = json_quoted key @ '':'' @ t @ tail_text ms"
proof (induction ms arbitrary: key t)
  case (Cons m ms)
  then show ?case by (cases m) simp
qed simp

definition arg_members :: "(string \<times> string) list \<Rightarrow> member list" where
  "arg_members args = map (\<lambda>(key, v). string_member key v) args"

lemma arg_members_simps [simp]:
  "arg_members [] = []" "arg_members ((key, v) # args) = string_member key v # arg_members args"
  by (simp_all add: arg_members_def)

lemma tail_text_parts [simp]:
  "tail_text (member_texts (string_member k x # ms)) =
     '','' @ json_quoted k @ '':'' @ json_quoted x @ tail_text (member_texts ms)"
  "tail_text (member_texts (bool_member k b # ms)) =
     '','' @ json_quoted k @ '':'' @ (if b then ''true'' else ''false'') @ tail_text (member_texts ms)"
  "tail_text (member_texts (object_member k os # ms)) =
     '','' @ json_quoted k @ '':'' @ printed_object os @ tail_text (member_texts ms)"
  "tail_text (member_texts (opt_string k v)) =
     (case v of None \<Rightarrow> [] | Some x \<Rightarrow> '','' @ json_quoted k @ '':'' @ json_quoted x)"
  "tail_text (member_texts (opt_int k iv)) =
     (case iv of None \<Rightarrow> [] | Some i \<Rightarrow> '','' @ json_quoted k @ '':'' @ to_string_int i)"
  by (auto simp: string_member_def bool_member_def object_member_def opt_string_def opt_int_def
      split: option.split)

lemma encode_args_tail: "encode_args False args = tail_text (member_texts (arg_members args))"
  by (induction args) (auto simp: json_quoted_def)

lemma encode_args_body: "encode_args True args = object_body (member_texts (arg_members args))"
  by (cases args)
    (auto simp: encode_args_tail object_body_tail string_member_def json_quoted_def)

definition request_members :: "UdsRequestFrame \<Rightarrow> member list" where
  "request_members f =
     string_member ''schema_version'' (uq_schema_version f) #
     string_member ''request_id'' (uq_request_id f) #
     string_member ''trace_id'' (uq_trace_id f) #
     opt_string ''session_hint'' (session_hint f) @
     opt_string ''idempotency_key'' (idempotency_key_hint f) @
     string_member ''command'' (frame_command f) #
     object_member ''args'' (arg_members (frame_args f)) #
     string_member ''payload'' (frame_payload f) #
     bool_member ''async_preference'' (async_preference f = PreferAsync) #
     string_member ''output_mode'' (output_mode_name (output_mode f)) #
     opt_int ''deadline_ms'' (frame_deadline_ms f)"

lemma plain_keys:
  "escape_json_string ''schema_version'' = ''schema_version''"
  "escape_json_string ''request_id'' = ''request_id''"
  "escape_json_string ''trace_id'' = ''trace_id''"
  "escape_json_string ''session_hint'' = ''session_hint''"
  "escape_json_string ''idempotency_key'' = ''idempotency_key''"
  "escape_json_string ''command'' = ''command''"
  "escape_json_string ''args'' = ''args''"
  "escape_json_string ''payload'' = ''payload''"
  "escape_json_string ''async_preference'' = ''async_preference''"
  "escape_json_string ''output_mode'' = ''output_mode''"
  "escape_json_string ''deadline_ms'' = ''deadline_ms''"
  "escape_json_string ''disposition'' = ''disposition''"
  "escape_json_string ''session_id'' = ''session_id''"
  "escape_json_string ''exit_code_hint'' = ''exit_code_hint''"
  "escape_json_string ''receipt_ref'' = ''receipt_ref''"
  "escape_json_string ''error_ref'' = ''error_ref''"
  "escape_json_string ''agent_result'' = ''agent_result''"
  "escape_json_string ''result_id'' = ''result_id''"
  "escape_json_string ''response_text'' = ''response_text''"
  "escape_json_string ''task_completed'' = ''task_completed''"
  "escape_json_string ''human'' = ''human''" "escape_json_string ''json'' = ''json''"
  "escape_json_string ''rejected'' = ''rejected''" "escape_json_string ''completed'' = ''completed''"
  "escape_json_string ''accepted_async'' = ''accepted_async''"
  "escape_json_string ''not_ready'' = ''not_ready''"
  by (simp_all add: escape_json_string_def escape_char_def)

lemma plain_names:
  "escape_json_string (output_mode_name m) = output_mode_name m"
  "escape_json_string (disposition_name d) = disposition_name d"
  by (cases m; simp add: plain_keys) (cases d; simp add: plain_keys)

lemma encode_request_printed: "encode_request_frame f = printed_object (request_members f)"
  unfolding encode_request_frame_def request_members_def printed_object_def
  by (subst string_member_def)
    (simp add: object_body_tail encode_args_body printed_object_def json_quoted_def plain_keys
      plain_names optional_text_def optional_number_def split: option.split)

section \<open>Encoded text is UTF-8\<close>

definition is_ascii :: "char \<Rightarrow> bool" where
  "is_ascii c \<longleftrightarrow> (of_char c :: nat) < 128"

lemma valid_utf8_ascii_append: "list_all is_ascii s \<Longrightarrow> is_valid_utf8 (s @ t) = is_valid_utf8 t"
  by (induction s) (simp_all add: is_ascii_def)

lemma escape_char_high:
  assumes "\<not> is_ascii c"
  shows "escape_char c = [c]"
proof -
  have "c \<noteq> CHR 0x22" "c \<noteq> CHR 0x5C" "c \<noteq> CHR 0x08" "c \<noteq> CHR 0x0C" "c \<noteq> CHR 0x0A" "c \<noteq> CHR 0x0D"
    "c \<noteq> CHR 0x09"
    using assms by (auto simp: is_ascii_def)
  moreover have "\<not> (of_char c :: nat) < 0x20" using assms by (simp add: is_ascii_def)
  ultimately show ?thesis by (simp only: escape_char_def if_False)
qed

lemma hex_digits_ascii: "k < 16 \<Longrightarrow> is_ascii (''0123456789abcdef'' ! k)"
proof -
  have "list_all (\<lambda>k. is_ascii (''0123456789abcdef'' ! k)) [0..<16]" by code_simp
  then show "k < 16 \<Longrightarrow> is_ascii (''0123456789abcdef'' ! k)"
    by (simp only: list_all_iff set_upt atLeastLessThan_iff) simp
qed

lemma escape_char_ascii:
  assumes "is_ascii c"
  shows "list_all is_ascii (escape_char c)"
proof -
  have lit: "is_ascii (CHR 0x22)" "is_ascii (CHR 0x5C)" "is_ascii (CHR ''b'')" "is_ascii (CHR ''f'')"
    "is_ascii (CHR ''n'')" "is_ascii (CHR ''r'')" "is_ascii (CHR ''t'')" "is_ascii (CHR ''u'')"
    "is_ascii (CHR ''0'')"
    by (simp_all add: is_ascii_def)
  have "is_ascii (''0123456789abcdef'' ! (of_char c div 16 mod 16))"
    "is_ascii (''0123456789abcdef'' ! (of_char c mod 16))"
    by (rule hex_digits_ascii, simp)+
  with lit assms show ?thesis
    by (simp only: escape_char_def list.pred_inject simp_thms split: if_split)
qed

lemma escape_append: "escape_json_string (s @ t) = escape_json_string s @ escape_json_string t"
  by (simp add: escape_json_string_def)

lemma escape_encoded:
  assumes "scalar_value v"
  shows "is_valid_utf8 (escape_json_string (utf8_encode v) @ t) = is_valid_utf8 t"
proof (cases "v < 0x80")
  case True
  then have "utf8_encode v = [char_of v]" "is_ascii (char_of v)"
    by (simp_all add: utf8_encode_def is_ascii_def)
  then show ?thesis
    using valid_utf8_ascii_append [OF escape_char_ascii] by (simp add: escape_json_string_def)
next
  case False
  have "escape_json_string s = s" if "list_all (\<lambda>c. 128 \<le> (of_char c :: nat)) s" for s
    using that by (induction s) (simp_all add: escape_json_string_def escape_char_high is_ascii_def)
  with utf8_encode_high [OF False assms] is_valid_utf8_encode [OF assms] show ?thesis by simp
qed

lemma escape_valid: "is_valid_utf8 s \<Longrightarrow> is_valid_utf8 (escape_json_string s @ t) = is_valid_utf8 t"
proof -
  assume "is_valid_utf8 s"
  then obtain cps where cps: "list_all scalar_value cps" "s = utf8_text cps" using valid_is_text by blast
  then show ?thesis
    by (induction cps arbitrary: s)
      (simp_all add: utf8_text_def escape_append escape_encoded, simp add: escape_json_string_def)
qed

lemma to_string_nat_ascii: "list_all is_ascii (to_string_nat n)"
proof -
  have "is_ascii c" if "c \<in> set (to_string_nat n)" for c
    using to_string_nat_digits [OF that] by (auto simp: digit_value_def is_ascii_def Let_def split: if_splits)
  then show ?thesis by (simp add: list_all_iff)
qed

lemma to_string_int_ascii: "list_all is_ascii (to_string_int i)"
  using to_string_nat_ascii [of "nat (- i)"] to_string_nat_ascii [of "nat i"]
  by (auto simp: to_string_int_def is_ascii_def)

lemma length_escape: "length s \<le> length (escape_json_string s)"
proof (induction s)
  case (Cons c s)
  have "1 \<le> length (escape_char c)" by (simp add: escape_char_def)
  with Cons show ?case by (simp add: escape_json_string_def)
qed (simp add: escape_json_string_def)

text \<open>A printed object is UTF-8 when its keys and values are.\<close>

definition utf8_closed :: "string \<Rightarrow> bool" where
  "utf8_closed s \<longleftrightarrow> (\<forall>t. is_valid_utf8 (s @ t) = is_valid_utf8 t)"

lemma utf8_closed_append: "utf8_closed s \<Longrightarrow> utf8_closed t \<Longrightarrow> utf8_closed (s @ t)"
  by (simp add: utf8_closed_def)

lemma utf8_closed_ascii: "list_all is_ascii s \<Longrightarrow> utf8_closed s"
  by (simp add: utf8_closed_def valid_utf8_ascii_append)

lemma utf8_closed_quoted: "is_valid_utf8 s \<Longrightarrow> utf8_closed (json_quoted s)"
  by (simp add: utf8_closed_def json_quoted_def escape_valid)

definition member_utf8 :: "member \<Rightarrow> bool" where
  "member_utf8 m = (case m of (key, t, v) \<Rightarrow> is_valid_utf8 key \<and> utf8_closed t)"

lemma object_body_utf8: "list_all member_utf8 ms \<Longrightarrow> utf8_closed (object_body (member_texts ms))"
proof (induction ms)
  case Nil
  then show ?case by (simp add: utf8_closed_def)
next
  case (Cons m ms)
  obtain key t v where m: "m = (key, t, v)" by (cases m)
  have comma: "utf8_closed '':''" "utf8_closed '',''" by (auto intro!: utf8_closed_ascii simp: is_ascii_def)
  with Cons m have head: "utf8_closed (json_quoted key @ '':'' @ t)"
    by (intro utf8_closed_append) (simp_all add: member_utf8_def utf8_closed_quoted)
  show ?case
  proof (cases ms)
    case Nil
    with head m show ?thesis by simp
  next
    case (Cons n ns)
    obtain key' t' v' where n: "n = (key', t', v')" by (cases n)
    have "utf8_closed (object_body (member_texts ms))" using Cons.IH Cons.prems by simp
    then have "utf8_closed ((json_quoted key @ '':'' @ t) @ '','' @ object_body (member_texts ms))"
      by (rule utf8_closed_append [OF head utf8_closed_append [OF comma(2)]])
    with m Cons n show ?thesis by simp
  qed
qed

lemma printed_object_utf8: "list_all member_utf8 ms \<Longrightarrow> utf8_closed (printed_object ms)"
  unfolding printed_object_def
  by (intro utf8_closed_append object_body_utf8) (auto intro!: utf8_closed_ascii simp: is_ascii_def)

lemma member_utf8_parts [simp]:
  "is_valid_utf8 k \<Longrightarrow> member_utf8 (string_member k x) \<longleftrightarrow> utf8_closed (json_quoted x)"
  "is_valid_utf8 k \<Longrightarrow> member_utf8 (bool_member k b)"
  "is_valid_utf8 k \<Longrightarrow> member_utf8 (object_member k os) \<longleftrightarrow> utf8_closed (printed_object os)"
  by (auto simp: member_utf8_def string_member_def bool_member_def object_member_def is_ascii_def
      intro!: utf8_closed_ascii)

lemma optional_members_utf8 [simp]:
  "is_valid_utf8 k \<Longrightarrow> list_all member_utf8 (opt_string k v) \<longleftrightarrow>
     (case v of None \<Rightarrow> True | Some x \<Rightarrow> utf8_closed (json_quoted x))"
  "is_valid_utf8 k \<Longrightarrow> list_all member_utf8 (opt_bool k bv)"
  "is_valid_utf8 k \<Longrightarrow> list_all member_utf8 (opt_int k iv)"
  by (auto simp: opt_string_def opt_bool_def opt_int_def member_utf8_def [of "(k, to_string_int _, _)"]
      intro!: utf8_closed_ascii to_string_int_ascii split: option.split)

lemma ascii_key: "list_all is_ascii k \<Longrightarrow> is_valid_utf8 k"
  using valid_utf8_ascii_append [of k "[]"] by simp

section \<open>Request round trip\<close>

definition optional_utf8 :: "string option \<Rightarrow> bool" where
  "optional_utf8 v = (case v of None \<Rightarrow> True | Some x \<Rightarrow> is_valid_utf8 x)"

definition request_encodable :: "UdsRequestFrame \<Rightarrow> bool" where
  "request_encodable f \<longleftrightarrow>
     uq_schema_version f = kDaemonProtocolSchemaVersion \<and>
     is_known_daemon_command (classify_daemon_command (frame_command f)) \<and>
     is_valid_utf8 (uq_request_id f) \<and> is_valid_utf8 (uq_trace_id f) \<and>
     is_valid_utf8 (frame_payload f) \<and> optional_utf8 (session_hint f) \<and>
     optional_utf8 (idempotency_key_hint f) \<and>
     list_all (\<lambda>(key, v). is_valid_utf8 key \<and> is_valid_utf8 v) (frame_args f) \<and>
     sorted_wrt (<) (map fst (frame_args f)) \<and>
     (case frame_deadline_ms f of None \<Rightarrow> True | Some i \<Rightarrow> is_i32 i)"

lemma known_command_ascii:
  assumes "is_known_daemon_command (classify_daemon_command command)"
  shows "list_all is_ascii command \<and> command \<noteq> []"
proof -
  have "command \<in> {''ping'', ''run'', ''submit'', ''status'', ''cancel'', ''readiness'', ''diag'', ''diagnostics'',
      ''knowledge''}"
  proof (rule ccontr)
    assume "\<not> ?thesis"
    then have "classify_daemon_command command = Command_Unknown"
      unfolding classify_daemon_command_def by (simp only: insert_iff empty_iff de_Morgan_disj simp_thms if_False)
    with assms show False by (simp add: is_known_daemon_command_def)
  qed
  then show ?thesis by (elim insertE emptyE) (simp_all add: is_ascii_def)
qed

lemma map_emplace_last:
  "\<forall>k\<in>set (map fst m). k < key \<Longrightarrow> map_emplace key v m = m @ [(key, v)]"
  by (induction m) (auto simp: order.asym)

lemma collect_sorted_args:
  assumes "sorted_wrt (<) (map fst (acc @ args))"
  shows "collect_args (member_values (arg_members args)) acc = Some (acc @ args)"
  using assms
proof (induction args arbitrary: acc)
  case (Cons a args)
  obtain key v where a: "a = (key, v)" by (cases a)
  with Cons.prems have "map_emplace key v acc = acc @ [(key, v)]"
    by (intro map_emplace_last) (auto simp: sorted_wrt_append)
  with Cons a show ?case by simp
qed simp

lemma arg_keys [simp]: "map fst (member_values (arg_members args)) = map fst args"
  by (induction args) auto

lemma arg_members_render [simp]: "members_render (arg_members args)"
  by (induction args) auto

lemma arg_members_utf8:
  "list_all (\<lambda>(key, v). is_valid_utf8 key \<and> is_valid_utf8 v) args \<Longrightarrow> list_all member_utf8 (arg_members args)"
  by (induction args) (auto simp: utf8_closed_quoted)

lemma request_members_utf8: "request_encodable f \<Longrightarrow> list_all member_utf8 (request_members f)"
proof -
  assume f: "request_encodable f"
  note cmd = known_command_ascii [of "frame_command f"]
  have "is_valid_utf8 (output_mode_name (output_mode f))"
    by (cases "output_mode f") (auto intro!: ascii_key simp: is_ascii_def)
  moreover have "is_valid_utf8 kDaemonProtocolSchemaVersion"
    by (auto intro!: ascii_key simp: is_ascii_def kDaemonProtocolSchemaVersion_def)
  ultimately show ?thesis
    using f cmd
    unfolding request_members_def request_encodable_def
    by (auto intro!: utf8_closed_quoted ascii_key printed_object_utf8 arg_members_utf8
        simp: is_ascii_def optional_utf8_def split: option.splits)
qed

lemma keys_within: "list_all (\<lambda>(key, _). key \<in> S) object \<longleftrightarrow> set (map fst object) \<subseteq> S"
  by (induction object) auto

lemma keys_within_and:
  "list_all (\<lambda>(key, v). key \<in> S \<and> Q key v) object \<longleftrightarrow>
     set (map fst object) \<subseteq> S \<and> list_all (\<lambda>(key, v). Q key v) object"
  by (induction object) auto

lemma known_request_fields: "has_only_known_request_fields (member_values (request_members f))"
  unfolding has_only_known_request_fields_def keys_within
  by (simp add: request_members_def request_field_names_def)

lemma request_keys_distinct: "distinct (map fst (member_values (request_members f)))"
  by (simp add: request_members_def)

lemma request_members_render:
  assumes "case frame_deadline_ms f of None \<Rightarrow> True | Some i \<Rightarrow> is_i32 i"
    and "sorted_wrt (<) (map fst (frame_args f))"
  shows "members_render (request_members f)"
proof -
  have "distinct (map fst (frame_args f))" using assms(2) by (simp add: strict_sorted_iff)
  then have "members_render [object_member ''args'' (arg_members (frame_args f))]"
    by (simp add: object_member_def renders_printed_object)
  then have "members_render (object_member ''args'' (arg_members (frame_args f)) # ms) = members_render ms"
    for ms by (simp add: object_member_def)
  moreover have "members_render (opt_int ''deadline_ms'' (frame_deadline_ms f))"
    by (rule members_render_parts) (use assms(1) in simp)
  ultimately show ?thesis by (simp add: request_members_def)
qed

lemma output_mode_round_trip [simp]: "output_mode_from_name (output_mode_name m) = Some m"
  by (cases m) (simp_all add: output_mode_from_name_def)

lemma decode_request_members:
  assumes "request_encodable f" and "length (frame_payload f) \<le> max_payload_bytes"
  shows "decode_request_root (member_values (request_members f)) max_payload_bytes = Inr f"
proof -
  let ?r = "member_values (request_members f)"
  have fields: "string_field ?r ''schema_version'' = Some (uq_schema_version f)"
    "string_field ?r ''request_id'' = Some (uq_request_id f)"
    "string_field ?r ''trace_id'' = Some (uq_trace_id f)"
    "string_field ?r ''session_hint'' = session_hint f"
    "string_field ?r ''idempotency_key'' = idempotency_key_hint f"
    "string_field ?r ''command'' = Some (frame_command f)"
    "string_field ?r ''payload'' = Some (frame_payload f)"
    "bool_field ?r ''async_preference'' = Some (async_preference f = PreferAsync)"
    "string_field ?r ''output_mode'' = Some (output_mode_name (output_mode f))"
    "integer_field ?r ''deadline_ms'' = frame_deadline_ms f"
    "map_of ?r ''args'' = Some (JObject (member_values (arg_members (frame_args f))))"
    by (auto simp: request_members_def string_field_def bool_field_def integer_field_def
        simp del: map_of_append)
  have "collect_args (member_values (arg_members (frame_args f))) [] = Some (frame_args f)"
    using collect_sorted_args [of "[]" "frame_args f"] assms(1) by (simp add: request_encodable_def)
  then have args: "parse_args_field ?r = Some (frame_args f)" by (simp add: parse_args_field_def fields)
  have pref: "(if (async_preference f = PreferAsync) = True then PreferAsync else PreferSync) = async_preference f"
    by (cases "async_preference f") simp_all
  show ?thesis
    using assms known_command_ascii [of "frame_command f"] pref
    by (simp add: decode_request_root_def check_schema_version_def fields args request_encodable_def)
qed

lemma optional_text_length: "length (frame_payload f) \<le> length (encode_request_frame f)"
  using length_escape [of "frame_payload f"] by (simp add: encode_request_frame_def)

text \<open>
  C35. Request round trip: a request frame with a known command, the current schema version,
  valid UTF-8 texts, arguments in key order and a 32-bit deadline whose encoding fits the
  payload limit is decoded to exactly itself, whatever characters its texts contain.
\<close>

theorem request_frame_round_trip:
  assumes "request_encodable f" and "length (encode_request_frame f) \<le> max_payload_bytes"
  shows "decode_request_frame (encode_request_frame f) max_payload_bytes = Inr f"
proof -
  have "is_valid_utf8 (encode_request_frame f)"
    using printed_object_utf8 [OF request_members_utf8 [OF assms(1)]]
    unfolding encode_request_printed utf8_closed_def by (metis append_Nil2 is_valid_utf8.simps(1))
  moreover have "encode_request_frame f \<noteq> []" by (simp add: encode_request_frame_def)
  ultimately have "check_payload (encode_request_frame f) max_payload_bytes = None"
    using assms(2) by (simp add: check_payload_def)
  moreover have "parse_root_object (encode_request_frame f) = Some (member_values (request_members f))"
    unfolding encode_request_printed
    by (rule parse_printed_members [OF request_members_render request_keys_distinct])
      (use assms(1) in \<open>simp_all add: request_encodable_def request_members_def\<close>)
  ultimately show ?thesis
    using decode_request_members [OF assms(1)] assms(2) optional_text_length [of f]
    by (simp add: decode_request_frame_def known_request_fields)
qed

definition sample_request_frame :: UdsRequestFrame where
  "sample_request_frame =
     \<lparr>uq_schema_version = ''1'', uq_request_id = ''r'', uq_trace_id = [], session_hint = None,
      idempotency_key_hint = Some ''k'', frame_command = ''run'', frame_args = [(''a'', ''x''), (''b'', ''y'')],
      frame_payload = ''say \"hi\"'', async_preference = PreferAsync, output_mode = Json,
      frame_deadline_ms = Some (- 5)\<rparr>"

lemma sample_request_encodable: "request_encodable sample_request_frame"
proof -
  have "is_valid_utf8 ''r''" "is_valid_utf8 []" "is_valid_utf8 ''k''" "is_valid_utf8 ''say \"hi\"''"
    "is_valid_utf8 ''a''" "is_valid_utf8 ''b''" "is_valid_utf8 ''x''" "is_valid_utf8 ''y''"
    by (auto intro!: ascii_key simp: is_ascii_def)
  moreover have "is_known_daemon_command (classify_daemon_command ''run'')"
    by (simp add: is_known_daemon_command_def classify_daemon_command_def)
  moreover have "sorted_wrt (<) [''a'', ''b'']" by (simp add: less_char_def)
  ultimately show ?thesis
    by (simp add: request_encodable_def sample_request_frame_def kDaemonProtocolSchemaVersion_def
        optional_utf8_def is_i32_def)
qed

theorem request_frame_round_trip_witness:
  "decode_request_frame (encode_request_frame sample_request_frame)
     (length (encode_request_frame sample_request_frame)) = Inr sample_request_frame"
  by (rule request_frame_round_trip [OF sample_request_encodable order_refl])

section \<open>Response round trip\<close>

definition result_members :: "AgentResult \<Rightarrow> member list" where
  "result_members a =
     opt_string ''result_id'' (result_id a) @ opt_string ''response_text'' (response_text a) @
     opt_string ''request_id'' (ar_request_id a) @ opt_string ''trace_id'' (ar_trace_id a) @
     opt_bool ''task_completed'' (task_completed a)"

definition opt_object :: "string \<Rightarrow> member list option \<Rightarrow> member list" where
  "opt_object key v = (case v of None \<Rightarrow> [] | Some ms \<Rightarrow> [object_member key ms])"

definition response_members :: "UdsResponseFrame \<Rightarrow> member list" where
  "response_members f =
     string_member ''schema_version'' (us_schema_version f) #
     string_member ''request_id'' (us_request_id f) #
     string_member ''trace_id'' (us_trace_id f) #
     string_member ''disposition'' (disposition_name (disposition f)) #
     opt_string ''session_id'' (us_session_id f) @
     opt_int ''exit_code_hint'' (exit_code_hint f) @
     opt_string ''receipt_ref'' (receipt_ref f) @
     opt_string ''error_ref'' (error_ref f) @
     opt_object ''agent_result'' (map_option result_members (frame_agent_result f))"

lemma opt_object_parts [simp]:
  "map fst (member_values (opt_object k v)) = (if v = None then [] else [k])"
  "map_of (member_values (opt_object k v)) k' =
     (if k = k' \<and> v \<noteq> None then Some (JObject (member_values (the v))) else None)"
  "tail_text (member_texts (opt_object k v)) =
     (case v of None \<Rightarrow> [] | Some ms \<Rightarrow> '','' @ json_quoted k @ '':'' @ printed_object ms)"
  "is_valid_utf8 k \<Longrightarrow> list_all member_utf8 (opt_object k v) \<longleftrightarrow>
     (case v of None \<Rightarrow> True | Some ms \<Rightarrow> utf8_closed (printed_object ms))"
  by (auto simp: opt_object_def split: option.split)

fun member_text :: "member \<Rightarrow> string" where
  "member_text (key, t, v) = json_quoted key @ '':'' @ t"

fun present_members :: "member option list \<Rightarrow> member list" where
  "present_members [] = []"
| "present_members (m # ms) = (case m of None \<Rightarrow> [] | Some x \<Rightarrow> [x]) @ present_members ms"

lemma join_present_tail:
  "join_present False (map (map_option member_text) ms) = tail_text (member_texts (present_members ms))"
  by (induction ms) (auto split: option.split)

lemma join_present_body:
  "join_present True (map (map_option member_text) ms) = object_body (member_texts (present_members ms))"
proof (induction ms)
  case (Cons m ms)
  then show ?case
    by (cases m) (auto simp: join_present_tail object_body_tail)
qed simp

lemma encode_result_printed:
  "encode_agent_result a = '',\"agent_result\":'' @ printed_object (result_members a)"
proof -
  let ?ms = "[map_option (string_member ''result_id'') (result_id a),
      map_option (string_member ''response_text'') (response_text a),
      map_option (string_member ''request_id'') (ar_request_id a),
      map_option (string_member ''trace_id'') (ar_trace_id a),
      map_option (bool_member ''task_completed'') (task_completed a)]"
  have members: "result_members a = present_members ?ms"
    by (auto simp: result_members_def opt_string_def opt_bool_def split: option.split)
  have texts: "[text_member ''\"result_id\":\"'' (result_id a),
        text_member ''\"response_text\":\"'' (response_text a),
        text_member ''\"request_id\":\"'' (ar_request_id a),
        text_member ''\"trace_id\":\"'' (ar_trace_id a),
        map_option (\<lambda>b. ''\"task_completed\":'' @ (if b then ''true'' else ''false''))
          (task_completed a)] = map (map_option member_text) ?ms"
    by (auto simp: text_member_def string_member_def bool_member_def json_quoted_def plain_keys
        option.map_comp comp_def intro!: option.map_cong0)
  show ?thesis
    unfolding encode_agent_result_def printed_object_def texts members join_present_body by simp
qed

lemma encode_response_printed: "encode_response_frame f = printed_object (response_members f)"
  unfolding encode_response_frame_def response_members_def printed_object_def
  by (subst string_member_def)
    (simp add: object_body_tail encode_result_printed json_quoted_def plain_keys
      plain_names optional_text_def optional_number_def split: option.split)

definition result_encodable :: "AgentResult \<Rightarrow> bool" where
  "result_encodable a \<longleftrightarrow>
     optional_utf8 (result_id a) \<and> optional_utf8 (response_text a) \<and>
     optional_utf8 (ar_request_id a) \<and> optional_utf8 (ar_trace_id a)"

definition response_encodable :: "UdsResponseFrame \<Rightarrow> bool" where
  "response_encodable f \<longleftrightarrow>
     us_schema_version f = kDaemonProtocolSchemaVersion \<and>
     is_valid_utf8 (us_request_id f) \<and> is_valid_utf8 (us_trace_id f) \<and>
     optional_utf8 (us_session_id f) \<and> optional_utf8 (receipt_ref f) \<and>
     optional_utf8 (error_ref f) \<and>
     (case exit_code_hint f of None \<Rightarrow> True | Some i \<Rightarrow> is_i32 i) \<and>
     (case frame_agent_result f of None \<Rightarrow> True | Some a \<Rightarrow> result_encodable a)"

text \<open>The five fields of an agent result that a response frame carries.\<close>

definition carried_result :: "AgentResult \<Rightarrow> AgentResult" where
  "carried_result a =
     empty_agent_result
       \<lparr>result_id := result_id a, response_text := response_text a,
        ar_request_id := ar_request_id a, ar_trace_id := ar_trace_id a,
        task_completed := task_completed a\<rparr>"

lemma result_members_good:
  "members_render (result_members a)" "distinct (map fst (member_values (result_members a)))"
  "result_encodable a \<Longrightarrow> list_all member_utf8 (result_members a)"
  "has_only_known_agent_result_fields (member_values (result_members a))"
  "decode_agent_result (member_values (result_members a)) = carried_result a"
proof -
  show "members_render (result_members a)" "distinct (map fst (member_values (result_members a)))"
    by (simp_all add: result_members_def)
  show "result_encodable a \<Longrightarrow> list_all member_utf8 (result_members a)"
    by (auto intro!: utf8_closed_quoted ascii_key
        simp: result_members_def result_encodable_def optional_utf8_def is_ascii_def split: option.splits)
  show "has_only_known_agent_result_fields (member_values (result_members a))"
    unfolding has_only_known_agent_result_fields_def keys_within by (simp add: result_members_def)
  show "decode_agent_result (member_values (result_members a)) = carried_result a"
    by (auto simp: decode_agent_result_def carried_result_def string_field_def bool_field_def
        result_members_def simp del: map_of_append split: option.splits)
qed

lemma response_members_good:
  assumes "response_encodable f"
  shows "members_render (response_members f)" and "distinct (map fst (member_values (response_members f)))"
    and "list_all member_utf8 (response_members f)"
    and "has_only_known_response_fields (member_values (response_members f))"
proof -
  have i: "members_render (opt_int ''exit_code_hint'' (exit_code_hint f))"
    by (rule members_render_parts) (use assms in \<open>simp add: response_encodable_def\<close>)
  have "renders (printed_object (result_members a)) (JObject (member_values (result_members a)))" for a
    by (rule renders_printed_object [OF result_members_good(1,2)])
  then have "members_render (opt_object k (map_option result_members r))" for k r
    by (simp add: opt_object_def object_member_def split: option.split)
  with i show "members_render (response_members f)" by (simp add: response_members_def)
  show "distinct (map fst (member_values (response_members f)))"
    by (simp add: response_members_def)
  have d: "is_valid_utf8 (disposition_name (disposition f))"
    by (cases "disposition f") (auto intro!: ascii_key simp: is_ascii_def)
  have "is_valid_utf8 kDaemonProtocolSchemaVersion"
    by (auto intro!: ascii_key simp: is_ascii_def kDaemonProtocolSchemaVersion_def)
  with d assms show "list_all member_utf8 (response_members f)"
    unfolding response_members_def response_encodable_def
    by (auto intro!: utf8_closed_quoted ascii_key printed_object_utf8 result_members_good(3)
        simp: is_ascii_def optional_utf8_def split: option.splits)
  have known: "has_only_known_response_fields object \<longleftrightarrow>
      set (map fst object) \<subseteq> {''schema_version'', ''request_id'', ''trace_id'', ''session_id'', ''disposition'',
                 ''exit_code_hint'', ''receipt_ref'', ''error_ref'', ''agent_result''} \<and>
      list_all (\<lambda>(key, v). key = ''agent_result'' \<longrightarrow>
        (case v of JObject members \<Rightarrow> has_only_known_agent_result_fields members | _ \<Rightarrow> False)) object" for object
    unfolding has_only_known_response_fields_def by (rule keys_within_and)
  have plain: "list_all (\<lambda>(key, v). key = ''agent_result'' \<longrightarrow>
        (case v of JObject members \<Rightarrow> has_only_known_agent_result_fields members | _ \<Rightarrow> False))
      (member_values ms)" if "''agent_result'' \<notin> set (map fst (member_values ms))" for ms
    using that by (induction ms) auto
  have result: "list_all (\<lambda>(key, v). key = ''agent_result'' \<longrightarrow>
        (case v of JObject members \<Rightarrow> has_only_known_agent_result_fields members | _ \<Rightarrow> False))
      (member_values (opt_object ''agent_result'' (map_option result_members r)))" for r
    by (simp add: opt_object_def result_members_good(4) split: option.split)
  show "has_only_known_response_fields (member_values (response_members f))"
    unfolding known by (simp add: response_members_def result plain)
qed

lemma disposition_round_trip [simp]: "disposition_from_name (disposition_name d) = Some d"
  by (cases d) (simp_all add: disposition_from_name_def)

lemma disposition_name_nonempty [simp]: "disposition_name d \<noteq> []"
  by (cases d) simp_all

lemma decode_response_members:
  assumes "us_schema_version f = kDaemonProtocolSchemaVersion"
  shows "decode_response_root (member_values (response_members f)) =
           Inr (f\<lparr>frame_agent_result := map_option carried_result (frame_agent_result f)\<rparr>)"
proof -
  let ?r = "member_values (response_members f)"
  have fields: "string_field ?r ''schema_version'' = Some (us_schema_version f)"
    "string_field ?r ''request_id'' = Some (us_request_id f)"
    "string_field ?r ''trace_id'' = Some (us_trace_id f)"
    "string_field ?r ''disposition'' = Some (disposition_name (disposition f))"
    "string_field ?r ''session_id'' = us_session_id f"
    "integer_field ?r ''exit_code_hint'' = exit_code_hint f"
    "string_field ?r ''receipt_ref'' = receipt_ref f"
    "string_field ?r ''error_ref'' = error_ref f"
    "map_of ?r ''agent_result'' =
       map_option (\<lambda>a. JObject (member_values (result_members a))) (frame_agent_result f)"
    by (auto simp: response_members_def string_field_def integer_field_def simp del: map_of_append)
  show ?thesis
    using assms
    by (cases "frame_agent_result f")
      (simp_all add: decode_response_root_def check_schema_version_def fields result_members_good(5))
qed

text \<open>
  C36. Response round trip: a response frame whose texts are valid UTF-8 and whose encoding
  fits the limit is decoded to itself, except that its agent result keeps only the five fields
  the frame carries; in particular status, result code and error information do not arrive.
\<close>

theorem response_frame_round_trip:
  assumes "response_encodable f" and "length (encode_response_frame f) \<le> max_payload_bytes"
  shows "decode_response_frame (encode_response_frame f) max_payload_bytes =
           Inr (f\<lparr>frame_agent_result := map_option carried_result (frame_agent_result f)\<rparr>)"
proof -
  note good = response_members_good [OF assms(1)]
  have "is_valid_utf8 (encode_response_frame f)"
    using printed_object_utf8 [OF good(3)]
    unfolding encode_response_printed utf8_closed_def by (metis append_Nil2 is_valid_utf8.simps(1))
  moreover have "encode_response_frame f \<noteq> []" by (simp add: encode_response_frame_def)
  ultimately have "check_payload (encode_response_frame f) max_payload_bytes = None"
    using assms(2) by (simp add: check_payload_def)
  moreover have "parse_root_object (encode_response_frame f) = Some (member_values (response_members f))"
    unfolding encode_response_printed
    by (rule parse_printed_members [OF good(1,2)]) (simp add: response_members_def)
  moreover have "us_schema_version f = kDaemonProtocolSchemaVersion"
    using assms(1) by (simp add: response_encodable_def)
  ultimately show ?thesis
    using decode_response_members good(4) by (simp add: decode_response_frame_def)
qed

definition sample_response_frame :: UdsResponseFrame where
  "sample_response_frame =
     \<lparr>us_schema_version = ''1'', us_request_id = ''r'', us_trace_id = ''t'', us_session_id = Some ''s'',
      disposition = Completed_Response, exit_code_hint = Some 0, receipt_ref = None,
      frame_agent_result = Some (empty_agent_result
        \<lparr>result_id := Some ''a'', task_completed := Some True, ar_status := Some Result_Failed\<rparr>),
      error_ref = None\<rparr>"

theorem response_frame_round_trip_witness:
  "decode_response_frame (encode_response_frame sample_response_frame)
     (length (encode_response_frame sample_response_frame)) =
   Inr (sample_response_frame\<lparr>frame_agent_result := Some (empty_agent_result
          \<lparr>result_id := Some ''a'', task_completed := Some True\<rparr>)\<rparr>)"
proof -
  have "is_valid_utf8 ''r''" "is_valid_utf8 ''t''" "is_valid_utf8 ''s''" "is_valid_utf8 ''a''"
    by (auto intro!: ascii_key simp: is_ascii_def)
  then have "response_encodable sample_response_frame"
    by (simp add: response_encodable_def sample_response_frame_def kDaemonProtocolSchemaVersion_def
        optional_utf8_def is_i32_def result_encodable_def empty_agent_result_def)
  from response_frame_round_trip [OF this order_refl] show ?thesis
    by (simp add: sample_response_frame_def carried_result_def empty_agent_result_def)
qed

end
