(* ===== verification/Admission.thy ===== *)
theory Admission
  imports Access_Types Decimal "HOL-Library.AList"
begin

text \<open>
  The admission controller (\<^verbatim>\<open>access/src/AdmissionController.cpp\<close>): bounded concurrency and
  idempotency. Time is the value the steady clock had during the call; the mutex makes a call
  one step. The in-flight table is an association list with one entry per ticket, because
  the code asks for its size.

  A run of calls keeps the in-flight table within its limit, and inside the idempotency
  window a request that was admitted is never admitted again: its duplicate is a conflict
  while the first is in flight and a replay of its receipt afterwards.
\<close>

section \<open>State\<close>

record InflightTicket =
  it_ticket_ref :: string
  it_signature :: string
  issued_at :: int

record IdempotencyRecord =
  ir_signature :: string
  inflight_ticket_ref :: "string option"
  ir_completed :: bool
  ir_replay_receipt_ref :: "string option"
  ir_expires_at :: int

record AdmissionController =
  admission_config :: AccessAdmissionView
  ticket_counter :: u64
  inflight_tickets :: "(string \<times> InflightTicket) list"
  idempotency_records :: "string \<rightharpoonup> IdempotencyRecord"

definition new_admission_controller :: "AccessAdmissionView \<Rightarrow> AdmissionController" where
  "new_admission_controller config =
     \<lparr>admission_config = config, ticket_counter = 0, inflight_tickets = [],
      idempotency_records = Map.empty\<rparr>"

section \<open>Operations\<close>

definition build_idempotency_signature :: "RuntimeDispatchRequest \<Rightarrow> string" where
  "build_idempotency_signature request =
     (let prefix = entry_type (dispatch_packet request) @ ''|'' @
                   ip_protocol_kind (dispatch_packet request) @ ''|'' @
                   actor_ref (subject_identity request) @ ''|''
      in case request_context request ''idempotency_key'' of
           Some key \<Rightarrow>
             if key \<noteq> [] then prefix @ key
             else if packet_id (dispatch_packet request) = [] \<or>
                     actor_ref (subject_identity request) = [] then []
             else prefix @ packet_id (dispatch_packet request)
         | None \<Rightarrow>
             if packet_id (dispatch_packet request) = [] \<or>
                actor_ref (subject_identity request) = [] then []
             else prefix @ packet_id (dispatch_packet request))"

definition conflict_result :: "string option \<Rightarrow> AccessAdmissionResult" where
  "conflict_result ticket =
     empty_admission_result
       \<lparr>conflict_hit := True, ticket_ref := ticket, ad_reject_reason := Some ''idempotency_conflict''\<rparr>"

definition replay_result :: "string option \<Rightarrow> AccessAdmissionResult" where
  "replay_result receipt =
     empty_admission_result
       \<lparr>replay_hit := True, replay_receipt_ref := receipt,
        ad_reject_reason := Some ''idempotency_replay_hit''\<rparr>"

definition check_idempotency ::
  "AdmissionController \<Rightarrow> string \<Rightarrow> int \<Rightarrow> AccessAdmissionResult option"
where
  "check_idempotency s sig now =
     (case idempotency_records s sig of
        None \<Rightarrow> None
      | Some r \<Rightarrow>
          if ir_expires_at r < now then None
          else if ir_completed r then Some (replay_result (ir_replay_receipt_ref r))
          else if inflight_ticket_ref r \<noteq> None then Some (conflict_result (inflight_ticket_ref r))
          else None)"

definition acquire_inflight_ticket ::
  "AdmissionController \<Rightarrow> string \<Rightarrow> int \<Rightarrow> AdmissionController \<times> InflightTicket"
where
  "acquire_inflight_ticket s sig now =
     (let counter = ticket_counter s + 1;
          ticket = \<lparr>it_ticket_ref = ''ticket-'' @ to_string_nat (unat counter),
                    it_signature = sig, issued_at = now\<rparr>
      in (s\<lparr>ticket_counter := counter,
            inflight_tickets := AList.update (it_ticket_ref ticket) ticket (inflight_tickets s)\<rparr>,
          ticket))"

definition prune_expired_records :: "AdmissionController \<Rightarrow> int \<Rightarrow> AdmissionController" where
  "prune_expired_records s now =
     s\<lparr>idempotency_records := (\<lambda>sig.
         case idempotency_records s sig of
           None \<Rightarrow> None
         | Some r \<Rightarrow> if ir_expires_at r < now \<and> inflight_ticket_ref r = None then None else Some r)\<rparr>"

definition at_concurrency_limit :: "AdmissionController \<Rightarrow> bool" where
  "at_concurrency_limit s \<longleftrightarrow>
     max_inflight_requests (admission_config s) \<le> 0 \<or>
     length (inflight_tickets s) \<ge> nat (max_inflight_requests (admission_config s))"

text \<open>The window setting is in milliseconds, the clock in nanoseconds.\<close>

definition window_end :: "AdmissionController \<Rightarrow> int \<Rightarrow> int" where
  "window_end s now = now + idempotency_window_ms (admission_config s) * 1000000"

definition admit ::
  "AdmissionController \<Rightarrow> RuntimeDispatchRequest \<Rightarrow> int \<Rightarrow> AdmissionController \<times> AccessAdmissionResult"
where
  "admit s0 request now =
     (let s = prune_expired_records s0 now;
          sig = build_idempotency_signature request
      in if at_concurrency_limit s then
           (s, empty_admission_result\<lparr>ad_reject_reason := Some ''concurrency_limit_exceeded''\<rparr>)
         else if sig = [] then
           (s, empty_admission_result\<lparr>ad_reject_reason := Some ''admission_rejected''\<rparr>)
         else
           (case check_idempotency s sig now of
              Some existing \<Rightarrow> (s, existing)
            | None \<Rightarrow>
                (case acquire_inflight_ticket s sig now of
                   (s', ticket) \<Rightarrow>
                     (s'\<lparr>idempotency_records := (idempotency_records s')
                           (sig \<mapsto> \<lparr>ir_signature = sig,
                                    inflight_ticket_ref = Some (it_ticket_ref ticket),
                                    ir_completed = False, ir_replay_receipt_ref = None,
                                    ir_expires_at = window_end s now\<rparr>)\<rparr>,
                      empty_admission_result
                        \<lparr>admitted := True, ticket_ref := Some (it_ticket_ref ticket)\<rparr>))))"

definition release_inflight_ticket :: "AdmissionController \<Rightarrow> string \<Rightarrow> AdmissionController" where
  "release_inflight_ticket s ticket =
     (case map_of (inflight_tickets s) ticket of
        None \<Rightarrow> s
      | Some it \<Rightarrow>
          let s' = s\<lparr>inflight_tickets := AList.delete ticket (inflight_tickets s)\<rparr>
          in case idempotency_records s (it_signature it) of
               None \<Rightarrow> s'
             | Some r \<Rightarrow>
                 if \<not> ir_completed r
                 then s'\<lparr>idempotency_records := (idempotency_records s)(it_signature it := None)\<rparr>
                 else s')"

definition release_ticket :: "AdmissionController \<Rightarrow> string \<Rightarrow> AdmissionController" where
  "release_ticket s ticket = release_inflight_ticket s ticket"

definition make_receipt_ref :: "string \<Rightarrow> string" where
  "make_receipt_ref ticket = ''receipt-for-'' @ ticket"

definition record_completion ::
  "AdmissionController \<Rightarrow> string \<Rightarrow> RuntimeDispatchResult \<Rightarrow> AdmissionController"
where
  "record_completion s ticket result =
     (case map_of (inflight_tickets s) ticket of
        None \<Rightarrow> s
      | Some it \<Rightarrow>
          let s' = s\<lparr>inflight_tickets := AList.delete ticket (inflight_tickets s)\<rparr>
          in case idempotency_records s (it_signature it) of
               None \<Rightarrow> s'
             | Some r \<Rightarrow>
                 s'\<lparr>idempotency_records := (idempotency_records s)
                     (it_signature it \<mapsto>
                        r\<lparr>ir_completed := True, inflight_ticket_ref := None,
                          ir_replay_receipt_ref :=
                            Some (value_or (rd_receipt_ref result) (make_receipt_ref ticket))\<rparr>)\<rparr>)"

section \<open>Runs of calls\<close>

datatype AdmissionCall =
    Ac_Admit RuntimeDispatchRequest int
  | Ac_Release string
  | Ac_Complete string RuntimeDispatchResult

fun admission_step :: "AdmissionController \<Rightarrow> AdmissionCall \<Rightarrow> AdmissionController" where
  "admission_step s (Ac_Admit request now) = fst (admit s request now)"
| "admission_step s (Ac_Release ticket) = release_ticket s ticket"
| "admission_step s (Ac_Complete ticket result) = record_completion s ticket result"

definition admission_inv :: "AccessAdmissionView \<Rightarrow> AdmissionController \<Rightarrow> bool" where
  "admission_inv config s \<longleftrightarrow>
     admission_config s = config \<and>
     int (length (inflight_tickets s)) \<le> max 0 (max_inflight_requests config) \<and>
     distinct (map fst (inflight_tickets s)) \<and>
     (\<forall>sig r. idempotency_records s sig = Some r \<longrightarrow>
        ir_signature r = sig \<and> (ir_completed r \<longleftrightarrow> ir_replay_receipt_ref r \<noteq> None) \<and>
        (ir_completed r \<longleftrightarrow> inflight_ticket_ref r = None))"

lemma length_alist_update:
  "length (AList.update k v m) = (if k \<in> fst ` set m then length m else Suc (length m))"
  by (induction m) auto

lemma length_alist_delete: "length (AList.delete k m) \<le> length m"
  by (simp add: AList.delete_eq)

text \<open>The three updates a call makes, each keeping the invariant.\<close>

lemma prune_frame [simp]:
  "admission_config (prune_expired_records s now) = admission_config s"
  "ticket_counter (prune_expired_records s now) = ticket_counter s"
  "inflight_tickets (prune_expired_records s now) = inflight_tickets s"
  by (simp_all add: prune_expired_records_def)

lemma prune_record:
  "idempotency_records (prune_expired_records s now) sig = Some r \<longleftrightarrow>
     idempotency_records s sig = Some r \<and> \<not> (ir_expires_at r < now \<and> inflight_ticket_ref r = None)"
  by (auto simp: prune_expired_records_def split: option.splits)

lemma prune_inv: "admission_inv config s \<Longrightarrow> admission_inv config (prune_expired_records s now)"
  by (auto simp: admission_inv_def prune_record)

lemma admit_inv:
  assumes "admission_inv config s"
  shows "admission_inv config (fst (admit s request now))"
proof -
  let ?p = "prune_expired_records s now" and ?sig = "build_idempotency_signature request"
  note p = prune_inv [OF assms, of now]
  show ?thesis
  proof (cases "at_concurrency_limit ?p \<or> ?sig = [] \<or> check_idempotency ?p ?sig now \<noteq> None")
    case True
    with p show ?thesis by (auto simp: admit_def Let_def)
  next
    case False
    then have "length (inflight_tickets ?p) < nat (max_inflight_requests config)"
      using p by (auto simp: at_concurrency_limit_def admission_inv_def)
    with False p show ?thesis
      by (auto simp: admit_def Let_def acquire_inflight_ticket_def admission_inv_def
          length_alist_update distinct_update split: if_splits)
  qed
qed

lemma inflight_deleted_inv:
  assumes "admission_inv config s"
  shows "admission_inv config (s\<lparr>inflight_tickets := AList.delete k (inflight_tickets s)\<rparr>)"
  using assms length_alist_delete [of k "inflight_tickets s"]
  by (auto simp: admission_inv_def distinct_delete)

lemma release_inv: "admission_inv config s \<Longrightarrow> admission_inv config (release_inflight_ticket s k)"
  using inflight_deleted_inv [of config s k]
  by (auto simp: release_inflight_ticket_def Let_def admission_inv_def split: option.splits)

lemma complete_inv: "admission_inv config s \<Longrightarrow> admission_inv config (record_completion s k result)"
  using inflight_deleted_inv [of config s k]
  by (auto simp: record_completion_def Let_def admission_inv_def split: option.splits)

interpretation admission: total_machine admission_step "admission_inv config" for config
proof unfold_locales
  fix s c
  assume "admission_inv config s"
  then show "admission_inv config (admission_step s c)"
    by (cases c) (simp_all add: admit_inv release_inv complete_inv release_ticket_def)
qed

lemma new_admission_inv: "admission_inv config (new_admission_controller config)"
  by (simp add: admission_inv_def new_admission_controller_def)

lemma inflight_never_exceeds_limit:
  "int (length (inflight_tickets (foldl admission_step (new_admission_controller config) cs)))
     \<le> max 0 (max_inflight_requests config)"
  using admission.fold_invariant [OF new_admission_inv, of config cs] by (simp add: admission_inv_def)

section \<open>One admission per window\<close>

text \<open>
  What the controller knows of a signature while it follows one admitted ticket: the ticket is
  in flight and no other ticket of the signature is (outcome \<^const>\<open>None\<close>), or it has been
  completed with a receipt.
\<close>

definition follows ::
  "string \<Rightarrow> string \<Rightarrow> int \<Rightarrow> string option \<Rightarrow> AdmissionController \<Rightarrow> bool"
where
  "follows sig k t1 outcome s \<longleftrightarrow>
     (\<exists>r. idempotency_records s sig = Some r \<and> ir_expires_at r = t1 \<and>
        (case outcome of
           None \<Rightarrow>
             \<not> ir_completed r \<and> inflight_ticket_ref r = Some k \<and>
             (\<exists>it. map_of (inflight_tickets s) k = Some it \<and> it_signature it = sig) \<and>
             (\<forall>k' it. map_of (inflight_tickets s) k' = Some it \<and> it_signature it = sig \<longrightarrow> k' = k)
         | Some receipt \<Rightarrow>
             ir_completed r \<and> ir_replay_receipt_ref r = Some receipt \<and>
             (\<forall>k' it. map_of (inflight_tickets s) k' = Some it \<longrightarrow> it_signature it \<noteq> sig))) \<and>
     (\<exists>n. k = ''ticket-'' @ to_string_nat n \<and> n \<le> unat (ticket_counter s))"

fun completion :: "string \<Rightarrow> AdmissionCall list \<Rightarrow> string option" where
  "completion k [] = None"
| "completion k (Ac_Complete k' result # cs) =
     (if k' = k then Some (value_or (rd_receipt_ref result) (make_receipt_ref k)) else completion k cs)"
| "completion k (c # cs) = completion k cs"

text \<open>The calls of the window: none later than its end, and the followed ticket is not released.\<close>

fun within_window :: "string \<Rightarrow> int \<Rightarrow> AdmissionCall \<Rightarrow> bool" where
  "within_window k t1 (Ac_Admit request now) = (now \<le> t1)"
| "within_window k t1 (Ac_Release k') = (k' \<noteq> k)"
| "within_window k t1 (Ac_Complete k' result) = True"

definition then_completion :: "string option \<Rightarrow> string \<Rightarrow> AdmissionCall list \<Rightarrow> string option" where
  "then_completion outcome k cs = (case outcome of None \<Rightarrow> completion k cs | Some r \<Rightarrow> Some r)"

lemma follows_prune:
  "follows sig k t1 outcome s \<Longrightarrow> now \<le> t1 \<Longrightarrow> follows sig k t1 outcome (prune_expired_records s now)"
  unfolding follows_def prune_frame by (auto simp: prune_expired_records_def)

lemma follows_check:
  assumes "follows sig k t1 outcome s" and "now \<le> t1"
  shows "check_idempotency s sig now =
           Some (case outcome of None \<Rightarrow> conflict_result (Some k) | Some r \<Rightarrow> replay_result (Some r))"
  using assms by (auto simp: follows_def check_idempotency_def split: option.splits)

lemma unat_counter_step:
  assumes "unat (c :: u64) + 1 < 2 ^ 64"
  shows "unat (c + 1) = unat c + 1"
proof -
  have "unat c + unat (1 :: u64) < 2 ^ LENGTH(64)" using assms by simp
  then show ?thesis by (simp add: unat_word_ariths)
qed

lemma follows_other_admit:
  assumes "follows sig k t1 outcome s" and "sig' \<noteq> sig" and "unat (ticket_counter s) + 1 < 2 ^ 64"
    and "acquire_inflight_ticket s sig' now = (s', it)"
  shows "follows sig k t1 outcome (s'\<lparr>idempotency_records := (idempotency_records s')(sig' \<mapsto> r)\<rparr>)"
proof -
  have fresh: "k \<noteq> ''ticket-'' @ to_string_nat (unat (ticket_counter s + 1))"
    using assms(1) unat_counter_step [OF assms(3)] by (auto simp: follows_def)
  have grows: "unat (ticket_counter s) \<le> unat (ticket_counter s + 1)"
    using unat_counter_step [OF assms(3)] by simp
  from assms(4) have s': "s' = s\<lparr>ticket_counter := ticket_counter s + 1,
      inflight_tickets := AList.update (it_ticket_ref it) it (inflight_tickets s)\<rparr>"
    "it_ticket_ref it = ''ticket-'' @ to_string_nat (unat (ticket_counter s + 1))" "it_signature it = sig'"
    by (auto simp: acquire_inflight_ticket_def Let_def)
  have "\<exists>n. k = ''ticket-'' @ to_string_nat n \<and> n \<le> unat (ticket_counter s + 1)"
    using assms(1) grows unfolding follows_def by (blast intro: order_trans)
  with assms(1,2) fresh s' show ?thesis
    unfolding follows_def by (cases outcome) (auto simp: update_conv' split: if_splits)
qed

lemma follows_admit:
  assumes "follows sig k t1 outcome s" and "now \<le> t1" and "unat (ticket_counter s) + 1 < 2 ^ 64"
  shows "follows sig k t1 outcome (fst (admit s request now))"
proof -
  let ?p = "prune_expired_records s now" and ?sig = "build_idempotency_signature request"
  note p = follows_prune [OF assms(1,2)]
  show ?thesis
  proof (cases "at_concurrency_limit ?p \<or> ?sig = [] \<or> check_idempotency ?p ?sig now \<noteq> None")
    case True
    with p show ?thesis by (auto simp: admit_def Let_def)
  next
    case False
    then have "?sig \<noteq> sig" using follows_check [OF p assms(2)] by auto
    moreover obtain s' it where "acquire_inflight_ticket ?p ?sig now = (s', it)" by fastforce
    ultimately show ?thesis
      using follows_other_admit [OF p] assms(3) False by (simp add: admit_def Let_def)
  qed
qed

lemma follows_release:
  assumes "follows sig k t1 outcome s" and "k' \<noteq> k"
  shows "follows sig k t1 outcome (release_ticket s k')"
proof (cases "map_of (inflight_tickets s) k'")
  case None
  with assms show ?thesis by (simp add: release_ticket_def release_inflight_ticket_def)
next
  case (Some it)
  with assms have "it_signature it \<noteq> sig" by (cases outcome) (auto simp: follows_def)
  with assms Some show ?thesis
    by (cases outcome)
      (auto simp: follows_def release_ticket_def release_inflight_ticket_def Let_def delete_conv'
        split: option.split if_splits)
qed

lemma follows_complete_other:
  assumes "follows sig k t1 outcome s" and "k' \<noteq> k \<or> outcome \<noteq> None"
  shows "follows sig k t1 outcome (record_completion s k' result)"
proof (cases "map_of (inflight_tickets s) k'")
  case None
  with assms show ?thesis by (simp add: record_completion_def)
next
  case (Some it)
  with assms have "it_signature it \<noteq> sig" by (cases outcome) (auto simp: follows_def)
  with assms Some show ?thesis
    by (cases outcome)
      (auto simp: follows_def record_completion_def Let_def delete_conv'
        split: option.split if_splits)
qed

lemma follows_complete_self:
  assumes "follows sig k t1 None s"
  shows "follows sig k t1 (Some (value_or (rd_receipt_ref result) (make_receipt_ref k)))
           (record_completion s k result)"
  using assms by (auto simp: follows_def record_completion_def Let_def delete_conv' split: if_splits)

lemma follows_step:
  assumes "follows sig k t1 outcome s" and "within_window k t1 c" and "unat (ticket_counter s) + 1 < 2 ^ 64"
  shows "follows sig k t1 (then_completion outcome k [c]) (admission_step s c)"
proof (cases c)
  case (Ac_Admit request now)
  with assms follows_admit [OF assms(1)] show ?thesis
    by (cases outcome) (auto simp: then_completion_def)
next
  case (Ac_Release k')
  with assms follows_release [OF assms(1)] show ?thesis
    by (cases outcome) (auto simp: then_completion_def)
next
  case (Ac_Complete k' result)
  with follows_complete_other [OF assms(1)] follows_complete_self assms(1) show ?thesis
    by (cases outcome) (auto simp: then_completion_def)
qed

lemma counter_step: "unat (ticket_counter (admission_step s c)) \<le> unat (ticket_counter s) + 1"
proof -
  have "unat (x + 1) \<le> unat x + 1" for x :: u64
    by (metis mod_less_eq_dividend unat_word_ariths(1) unsigned_1)
  then show ?thesis
    by (cases c)
      (auto simp: admit_def release_ticket_def release_inflight_ticket_def record_completion_def
        acquire_inflight_ticket_def Let_def split: option.split)
qed

lemma then_completion_step: "then_completion outcome k (c # cs) = then_completion (then_completion outcome k [c]) k cs"
  by (cases outcome; cases c) (auto simp: then_completion_def)

lemma follows_run:
  assumes "follows sig k t1 outcome s" and "\<forall>c\<in>set cs. within_window k t1 c"
    and "unat (ticket_counter s) + length cs < 2 ^ 64"
  shows "follows sig k t1 (then_completion outcome k cs) (foldl admission_step s cs)"
  using assms
proof (induction cs arbitrary: s outcome)
  case Nil
  then show ?case by (cases outcome) (simp_all add: then_completion_def)
next
  case (Cons c cs)
  have "unat (ticket_counter s) + 1 < 2 ^ 64" using Cons.prems(3) by simp
  with Cons.prems have "follows sig k t1 (then_completion outcome k [c]) (admission_step s c)"
    by (intro follows_step) simp_all
  moreover have "unat (ticket_counter (admission_step s c)) + length cs < 2 ^ 64"
    using counter_step [of s c] Cons.prems(3) by simp
  ultimately show ?case
    using Cons.IH [of "then_completion outcome k [c]" "admission_step s c"] Cons.prems(2)
    by (simp add: then_completion_step [of outcome k c cs])
qed

text \<open>An admission starts to be followed.\<close>

lemma admitted_follows:
  assumes "admit s request now = (s', r)" and "admitted r"
    and "\<forall>(k', it)\<in>set (inflight_tickets s). it_signature it \<noteq> build_idempotency_signature request"
    and "unat (ticket_counter s) + 1 < 2 ^ 64"
  shows "\<exists>k. ticket_ref r = Some k \<and>
           follows (build_idempotency_signature request) k (window_end s now) None s'"
proof -
  let ?p = "prune_expired_records s now" and ?sig = "build_idempotency_signature request"
  let ?k = "''ticket-'' @ to_string_nat (unat (ticket_counter s + 1))"
  have c: "\<not> at_concurrency_limit ?p" "?sig \<noteq> []" "check_idempotency ?p ?sig now = None"
    using assms(1,2)
    by (auto simp: admit_def Let_def empty_admission_result_def check_idempotency_def conflict_result_def
        replay_result_def split: if_splits option.splits)
  have "map_of (inflight_tickets s) k' = Some it \<Longrightarrow> it_signature it \<noteq> ?sig" for k' it
    using assms(3) by (auto dest!: map_of_SomeD)
  with assms(1) c show ?thesis
    by (intro exI [of _ ?k])
      (auto simp: admit_def Let_def acquire_inflight_ticket_def follows_def update_conv' window_end_def
        split: if_splits)
qed

text \<open>
  C7. One admission per window: after a request was admitted, with no older ticket of its
  signature in flight, whatever calls follow until the end of its idempotency window (the
  ticket itself not being released), a second request with the same signature is never
  admitted. It is refused for the concurrency limit, or is a conflict with the first ticket
  while that is in flight, or replays the receipt the first ticket was completed with.
\<close>

theorem one_admission_per_window:
  assumes "admit s request now = (s', r)" and "admitted r"
    and "\<forall>(k', it)\<in>set (inflight_tickets s). it_signature it \<noteq> build_idempotency_signature request"
    and "\<forall>c\<in>set cs. within_window (the (ticket_ref r)) (window_end s now) c"
    and "unat (ticket_counter s) + length cs + 1 < 2 ^ 64"
    and "build_idempotency_signature request' = build_idempotency_signature request"
    and "later \<le> window_end s now"
  shows "snd (admit (foldl admission_step s' cs) request' later) =
           (if at_concurrency_limit (foldl admission_step s' cs)
            then empty_admission_result\<lparr>ad_reject_reason := Some ''concurrency_limit_exceeded''\<rparr>
            else case completion (the (ticket_ref r)) cs of
                   None \<Rightarrow> conflict_result (ticket_ref r)
                 | Some receipt \<Rightarrow> replay_result (Some receipt))"
proof -
  let ?sig = "build_idempotency_signature request" and ?t = "foldl admission_step s' cs"
  have "unat (ticket_counter s) + 1 < 2 ^ 64" using assms(5) by simp
  from admitted_follows [OF assms(1-3) this] obtain k
    where k: "ticket_ref r = Some k" "follows ?sig k (window_end s now) None s'" by blast
  have "unat (ticket_counter s') \<le> unat (ticket_counter s) + 1"
    using counter_step [of s "Ac_Admit request now"] assms(1) by simp
  then have "unat (ticket_counter s') + length cs < 2 ^ 64" using assms(5) by simp
  from follows_run [OF k(2) _ this] assms(4) k(1)
  have "follows ?sig k (window_end s now) (completion k cs) ?t" by (simp add: then_completion_def)
  from follows_check [OF follows_prune [OF this assms(7)] assms(7)]
  have check: "check_idempotency (prune_expired_records ?t later) ?sig later =
      Some (case completion k cs of None \<Rightarrow> conflict_result (Some k) | Some x \<Rightarrow> replay_result (Some x))" .
  have "?sig \<noteq> []" using assms(1,2) by (auto simp: admit_def Let_def empty_admission_result_def split: if_splits)
  with check k(1) assms(6) show ?thesis
    by (auto simp: admit_def Let_def at_concurrency_limit_def split: option.split)
qed

lemma inflight_step: "length (inflight_tickets (admission_step s c)) \<le> Suc (length (inflight_tickets s))"
proof (cases c)
  case (Ac_Admit request now)
  then show ?thesis
    by (auto simp: admit_def acquire_inflight_ticket_def length_alist_update Let_def split: option.split)
qed (auto simp: release_ticket_def release_inflight_ticket_def record_completion_def Let_def
    le_SucI [OF length_alist_delete] split: option.split)

lemma inflight_run:
  "length (inflight_tickets (foldl admission_step s cs)) \<le> length (inflight_tickets s) + length cs"
proof (induction cs arbitrary: s)
  case (Cons c cs)
  from Cons [of "admission_step s c"] inflight_step [of s c] show ?case by simp
qed simp

definition sample_admission_view :: AccessAdmissionView where
  "sample_admission_view =
     \<lparr>idempotency_window_ms = 300000, max_inflight_requests = 8, dispatch_deadline_ms = 30000,
      default_deny = True\<rparr>"

theorem one_admission_per_window_witness:
  "snd (admit (foldl admission_step
          (fst (admit (new_admission_controller sample_admission_view) sample_dispatch_request 1))
          [Ac_Complete ''ticket-1'' sample_dispatch_result, Ac_Admit sample_dispatch_request 2])
        sample_dispatch_request 300000000000) =
   replay_result (Some ''receipt-for-ticket-1'')"
proof -
  let ?s = "new_admission_controller sample_admission_view"
  let ?cs = "[Ac_Complete ''ticket-1'' sample_dispatch_result, Ac_Admit sample_dispatch_request 2]"
  note defs = admit_def Let_def new_admission_controller_def prune_expired_records_def
    at_concurrency_limit_def sample_admission_view_def build_idempotency_signature_def
    sample_dispatch_request_def sample_packet_def check_idempotency_def acquire_inflight_ticket_def
  have one: "to_string_nat 1 = ''1''" by (subst to_string_nat.simps) (simp add: digit_char_def)
  obtain s1 r where s1: "admit ?s sample_dispatch_request 1 = (s1, r)" by fastforce
  have r: "r = empty_admission_result\<lparr>admitted := True, ticket_ref := Some ''ticket-1''\<rparr>"
    using s1 one by (auto simp: defs)
  have limit: "\<not> at_concurrency_limit (foldl admission_step s1 ?cs)"
  proof -
    have "s1 = foldl admission_step ?s [Ac_Admit sample_dispatch_request 1]" using s1 by simp
    then have run: "foldl admission_step s1 ?cs =
        foldl admission_step ?s (Ac_Admit sample_dispatch_request 1 # ?cs)" by simp
    have "admission_inv sample_admission_view (foldl admission_step s1 ?cs)"
      unfolding run by (rule admission.fold_invariant [OF new_admission_inv])
    moreover have "length (inflight_tickets (foldl admission_step s1 ?cs)) \<le> 3"
      unfolding run using inflight_run [of ?s "Ac_Admit sample_dispatch_request 1 # ?cs"]
      by (simp add: new_admission_controller_def)
    ultimately show ?thesis
      by (simp add: at_concurrency_limit_def admission_inv_def sample_admission_view_def)
  qed
  have "completion ''ticket-1'' ?cs = Some ''receipt-for-ticket-1''"
    by (simp add: sample_dispatch_result_def make_receipt_ref_def)
  moreover have "snd (admit (foldl admission_step s1 ?cs) sample_dispatch_request 300000000000) =
      (if at_concurrency_limit (foldl admission_step s1 ?cs)
       then empty_admission_result\<lparr>ad_reject_reason := Some ''concurrency_limit_exceeded''\<rparr>
       else case completion (the (ticket_ref r)) ?cs of
              None \<Rightarrow> conflict_result (ticket_ref r)
            | Some receipt \<Rightarrow> replay_result (Some receipt))"
    by (rule one_admission_per_window [OF s1])
      (simp_all add: r empty_admission_result_def new_admission_controller_def window_end_def
        sample_admission_view_def)
  ultimately show ?thesis using limit by (simp only: r s1 fst_conv) (simp add: empty_admission_result_def)
qed

text \<open>
  A ticket that is still in flight when its window has passed is forgotten: the same request is
  admitted a second time, and two tickets of one signature are in flight.
\<close>

lemma expired_inflight_is_readmitted:
  assumes "idempotency_records s sig = Some r" and "ir_expires_at r < now"
  shows "check_idempotency s sig now = None"
  using assms by (simp add: check_idempotency_def)

text \<open>
  The parts of a signature are joined by bars that the parts may contain: an actor and a key
  can be read as another actor with another key, and the second caller gets the receipt of
  the first.
\<close>

lemma signature_collision:
  fixes request :: RuntimeDispatchRequest and a b c :: string
  assumes "c \<noteq> []"
  shows "build_idempotency_signature
           (request\<lparr>subject_identity := (subject_identity request)\<lparr>actor_ref := a @ ''|'' @ b\<rparr>,
                    request_context := [''idempotency_key'' \<mapsto> c]\<rparr>) =
         build_idempotency_signature
           (request\<lparr>subject_identity := (subject_identity request)\<lparr>actor_ref := a\<rparr>,
                    request_context := [''idempotency_key'' \<mapsto> b @ ''|'' @ c]\<rparr>)"
  using assms by (simp add: build_idempotency_signature_def)

end
