(* ===== verification/Base64.thy ===== *)
theory Base64
  imports Utf8
begin

text \<open>
  The unpadded URL-safe base64 of \<^verbatim>\<open>access/src/AsyncTaskRegistry.cpp\<close>: three bytes become four
  characters, a last group of one or two bytes two or three. The decoder shifts six bits into a
  32-bit accumulator per character and never clears it, so that old bits fall off its upper
  end. Decoding an encoding gives the bytes back, whatever the accumulator holds.
\<close>

unbundle bit_operations_syntax

definition kBase64UrlAlphabet :: string where
  "kBase64UrlAlphabet = ''ABCDEFGHIJKLMNOPQRSTUVWXYZabcdefghijklmnopqrstuvwxyz0123456789-_''"

definition base64_char :: "u32 \<Rightarrow> nat \<Rightarrow> char" where
  "base64_char chunk shift = kBase64UrlAlphabet ! unat ((drop_bit shift chunk) AND 0x3f)"

function base64url_encode :: "u8 list \<Rightarrow> string" where
  "base64url_encode bytes =
     (if bytes = [] then []
      else
        (let first = ucast (bytes ! 0) :: u32;
             second = (if 1 < length bytes then ucast (bytes ! 1) else 0);
             third = (if 2 < length bytes then ucast (bytes ! 2) else 0);
             chunk = (push_bit 16 first) OR (push_bit 8 second) OR third
         in [base64_char chunk 18, base64_char chunk 12] @
            (if 1 < length bytes then [base64_char chunk 6] else []) @
            (if 2 < length bytes then [base64_char chunk 0] else []) @
            base64url_encode (drop 3 bytes)))"
  by auto
termination by (relation "measure length") auto

declare base64url_encode.simps [simp del]

definition base64_value :: "char \<Rightarrow> nat option" where
  "base64_value c = map_of (zip kBase64UrlAlphabet [0..<64]) c"

fun base64url_decode_from :: "u32 \<Rightarrow> nat \<Rightarrow> string \<Rightarrow> u8 list option" where
  "base64url_decode_from accumulator bits_collected [] =
     (if bits_collected \<ge> 6 then None else Some [])"
| "base64url_decode_from accumulator bits_collected (c # cs) =
     (case base64_value c of
        None \<Rightarrow> None
      | Some v \<Rightarrow>
          (let accumulator = (push_bit 6 accumulator) OR of_nat v;
               bits_collected = bits_collected + 6
           in if bits_collected \<ge> 8 then
                map_option
                  (Cons (ucast ((drop_bit (bits_collected - 8) accumulator) AND 0xff)))
                  (base64url_decode_from accumulator (bits_collected - 8) cs)
              else base64url_decode_from accumulator bits_collected cs))"

definition base64url_decode :: "string \<Rightarrow> u8 list option" where
  "base64url_decode s = base64url_decode_from 0 0 s"

definition base64url_encode_text :: "string \<Rightarrow> string" where
  "base64url_encode_text s = base64url_encode (map of_char s)"

definition base64url_decode_text :: "string \<Rightarrow> string option" where
  "base64url_decode_text s = map_option (map (\<lambda>b. char_of (unat b))) (base64url_decode s)"

section \<open>Characters\<close>

lemma base64_value_nth: "i < 64 \<Longrightarrow> base64_value (kBase64UrlAlphabet ! i) = Some i"
proof -
  have "distinct kBase64UrlAlphabet" "length kBase64UrlAlphabet = 64"
    by (simp_all add: kBase64UrlAlphabet_def)
  moreover assume "i < 64"
  ultimately show ?thesis by (simp add: base64_value_def map_of_zip_nth)
qed

lemma sextet_less: "unat (x AND (0x3f :: u32)) < 64"
proof -
  have "x AND 0x3f \<le> 0x3f" by (rule word_and_le1)
  then show ?thesis by (simp add: word_le_nat_alt)
qed

section \<open>Groups\<close>

text \<open>Opaque names for the words of one group, so that only the three bit lemmas look inside.\<close>

definition base64_group :: "u8 \<Rightarrow> u8 \<Rightarrow> u8 \<Rightarrow> u32" where
  "base64_group a b c = (push_bit 16 (ucast a)) OR (push_bit 8 (ucast b)) OR (ucast c)"

definition sextet :: "u32 \<Rightarrow> nat \<Rightarrow> u32" where
  "sextet chunk shift = (drop_bit shift chunk) AND 0x3f"

definition shifted_in :: "u32 \<Rightarrow> u32 \<Rightarrow> u32" where
  "shifted_in acc v = (push_bit 6 acc) OR v"

definition byte_at :: "nat \<Rightarrow> u32 \<Rightarrow> u8" where
  "byte_at shift acc = ucast ((drop_bit shift acc) AND 0xff)"

lemmas word_group_defs = base64_group_def sextet_def shifted_in_def byte_at_def

lemma less_8_cases: "n < (8 :: nat) \<Longrightarrow> n \<in> {0, 1, 2, 3, 4, 5, 6, 7}"
  by auto

lemma no_high_bit [simp]: "8 \<le> n \<Longrightarrow> \<not> bit (w :: u8) n"
  using bit_imp_le_length [of w n] by auto

lemma first_byte:
  "byte_at 4 (shifted_in (shifted_in x (sextet (base64_group a b c) 18)) (sextet (base64_group a b c) 12)) = a"
  by (rule bit_word_eqI)
    (auto dest!: less_8_cases simp: word_group_defs bit_simps, simp_all add: eval_nat_numeral)

lemma second_byte:
  "byte_at 2 (shifted_in (shifted_in x (sextet (base64_group a b c) 12)) (sextet (base64_group a b c) 6)) = b"
  by (rule bit_word_eqI)
    (auto dest!: less_8_cases simp: word_group_defs bit_simps)

lemma third_byte:
  "byte_at 0 (shifted_in (shifted_in x (sextet (base64_group a b c) 6)) (sextet (base64_group a b c) 0)) = c"
  by (rule bit_word_eqI)
    (auto dest!: less_8_cases simp: word_group_defs bit_simps)

section \<open>Round trip\<close>

lemma base64_char_value: "base64_value (base64_char chunk shift) = Some (unat (sextet chunk shift))"
  by (simp add: base64_char_def base64_value_nth sextet_less sextet_def)

lemma encode_groups:
  "base64url_encode [] = []"
  "base64url_encode [a] = [base64_char (base64_group a 0 0) 18, base64_char (base64_group a 0 0) 12]"
  "base64url_encode [a, b] =
     [base64_char (base64_group a b 0) 18, base64_char (base64_group a b 0) 12,
      base64_char (base64_group a b 0) 6]"
  "base64url_encode (a # b # c # rest) =
     [base64_char (base64_group a b c) 18, base64_char (base64_group a b c) 12,
      base64_char (base64_group a b c) 6, base64_char (base64_group a b c) 0] @ base64url_encode rest"
  by (subst base64url_encode.simps; simp add: Let_def base64_group_def base64url_encode.simps [of "[]"])+

lemma decode_value:
  "base64url_decode_from acc bits (base64_char chunk shift # cs) =
     (if bits + 6 \<ge> 8 then
        map_option (Cons (byte_at (bits + 6 - 8) (shifted_in acc (sextet chunk shift))))
          (base64url_decode_from (shifted_in acc (sextet chunk shift)) (bits + 6 - 8) cs)
      else base64url_decode_from (shifted_in acc (sextet chunk shift)) (bits + 6) cs)"
  by (simp add: Let_def base64_char_value byte_at_def shifted_in_def)

fun three_bytes :: "u8 list \<Rightarrow> u8 list" where
  "three_bytes (a # b # c # rest) = three_bytes rest"
| "three_bytes bytes = bytes"

lemma decode_from_encode: "base64url_decode_from acc 0 (base64url_encode bytes) = Some bytes"
proof (induction bytes arbitrary: acc rule: three_bytes.induct)
  case (1 a b c rest)
  have "base64url_decode_from acc 0 (base64url_encode (a # b # c # rest)) =
      Some (a # b # c # rest)"
    unfolding encode_groups append_Cons append_Nil
    by (simp del: base64url_decode_from.simps
        add: decode_value first_byte second_byte third_byte 1)
  then show ?case .
next
  case "2_1"
  then show ?case by (simp add: encode_groups)
next
  case "2_2"
  then show ?case
    by (simp del: base64url_decode_from.simps(2)
        add: encode_groups decode_value first_byte)
next
  case "2_3"
  then show ?case
    by (simp del: base64url_decode_from.simps(2)
        add: encode_groups decode_value first_byte
          second_byte)
qed

lemma decode_encode [simp]: "base64url_decode (base64url_encode bytes) = Some bytes"
  by (simp add: base64url_decode_def decode_from_encode)

lemma decode_encode_text [simp]: "base64url_decode_text (base64url_encode_text s) = Some s"
proof -
  have "char_of (unat (of_char c :: u8)) = c" for c :: char
    by (simp add: unat_of_char)
  then show ?thesis by (simp add: base64url_decode_text_def base64url_encode_text_def comp_def)
qed

text \<open>An encoding holds no separator and no zero byte.\<close>

lemma base64_char_alphabet: "base64_char chunk shift \<in> set kBase64UrlAlphabet"
proof -
  have "length kBase64UrlAlphabet = 64" by (simp add: kBase64UrlAlphabet_def)
  then show ?thesis
    using sextet_less [of "drop_bit shift chunk"] unfolding base64_char_def by (intro nth_mem) simp
qed

lemma encode_alphabet: "set (base64url_encode bytes) \<subseteq> set kBase64UrlAlphabet"
proof (induction bytes rule: base64url_encode.induct)
  case (1 bytes)
  then show ?case
    by (subst base64url_encode.simps) (auto simp: Let_def base64_char_alphabet)
qed

end
