(* ===== verification/Async_Tasks.thy ===== *)
theory Async_Tasks
  imports Access_Types Base64 Sha256 "HOL-Library.AList"
begin

text \<open>
  The registry of asynchronous tasks (\<^verbatim>\<open>access/src/AsyncTaskRegistry.cpp\<close>) and the daemon's
  task queries on it (\<^verbatim>\<open>access/src/daemon/DaemonTaskQueryHandler.cpp\<close>): receipts with a time to
  live, and ownership tokens signed with HMAC-SHA-256 under rotating keys. The SHA-256 of this
  file is the one of \<^verbatim>\<open>Chunker.cpp\<close> line for line, so its block functions are those of
  \<open>Sha256\<close>.

  A call reads the steady clock once or twice and the system clock at most once; the readings
  are the argument \<open>Clocks\<close>. The receipt table is an association list, because the code
  asks for its size. Sums of times stay in the 64-bit range.

  A token is accepted only for the stored receipt it was issued for, its actor, while receipt
  and token live and while its key is known, and only if it is the issued text up to appended
  zero bytes; whoever does not hold it cannot cancel a task or learn its request.
\<close>

unbundle bit_operations_syntax

section \<open>HMAC\<close>

definition word_bytes :: "u32 \<Rightarrow> u8 list" where
  "word_bytes w = map (\<lambda>shift. ucast ((drop_bit shift w) AND 0xff)) [24, 16, 8, 0]"

definition sha256_digest :: "u8 list \<Rightarrow> u8 list" where
  "sha256_digest input =
     (case compress_blocks sha256_initial_state (pad_message input) of
        (a, b, c, d, e, f, g, h) \<Rightarrow> concat (map word_bytes [a, b, c, d, e, f, g, h]))"

definition to_bytes :: "string \<Rightarrow> u8 list" where
  "to_bytes s = map of_char s"

definition normalized_key :: "string \<Rightarrow> u8 list" where
  "normalized_key key =
     (let key_bytes = to_bytes key;
          k = (if length key_bytes > 64 then sha256_digest key_bytes else key_bytes)
      in k @ replicate (64 - length k) 0)"

definition hmac_sha256_base64url :: "string \<Rightarrow> string \<Rightarrow> string" where
  "hmac_sha256_base64url key message =
     (let inner = map (\<lambda>b. b XOR 0x36) (normalized_key key) @ to_bytes message;
          outer = map (\<lambda>b. b XOR 0x5c) (normalized_key key) @ sha256_digest inner
      in base64url_encode (sha256_digest outer))"

section \<open>Tokens\<close>

text \<open>\<^verbatim>\<open>std::from_chars\<close> over the whole text: an optional minus sign and digits, in range.\<close>

definition parse_int64 :: "string \<Rightarrow> int option" where
  "parse_int64 s =
     (let negative = (s \<noteq> [] \<and> hd s = CHR ''-'');
          ds = (if negative then tl s else s)
      in if ds = [] then None
         else
           (case digits_value 0 ds of
              None \<Rightarrow> None
            | Some n \<Rightarrow>
                (let v = (if negative then - int n else int n)
                 in if is_i64 v then Some v else None)))"

record ParsedOwnershipToken =
  po_version :: string
  po_key_id :: string
  issued_at_unix_ms :: int
  expires_at_unix_ms :: int
  po_receipt_id :: string
  po_actor_ref :: string
  po_request_id :: string
  po_signature :: string
  signed_payload :: string

fun split_dots :: "string \<Rightarrow> string list" where
  "split_dots [] = [[]]"
| "split_dots (c # cs) =
     (if c = CHR ''.'' then [] # split_dots cs
      else (case split_dots cs of [] \<Rightarrow> [[c]] | part # parts \<Rightarrow> (c # part) # parts))"

definition before_last_dot :: "string \<Rightarrow> string" where
  "before_last_dot s =
     (if CHR ''.'' \<in> set s then rev (tl (dropWhile (\<lambda>c. c \<noteq> CHR ''.'') (rev s))) else s)"

definition parse_ownership_token :: "string \<Rightarrow> ParsedOwnershipToken option" where
  "parse_ownership_token token =
     (case split_dots token of
        [version, key_part, issued_part, expires_part, receipt_part, actor_part, request_part, sig] \<Rightarrow>
          (case (base64url_decode_text key_part, base64url_decode_text receipt_part,
                 base64url_decode_text actor_part, base64url_decode_text request_part,
                 parse_int64 issued_part, parse_int64 expires_part) of
             (Some kid, Some rid, Some actor, Some request_id, Some issued, Some expires) \<Rightarrow>
               Some \<lparr>po_version = version, po_key_id = kid, issued_at_unix_ms = issued,
                     expires_at_unix_ms = expires, po_receipt_id = rid,
                     po_actor_ref = actor, po_request_id = request_id, po_signature = sig,
                     signed_payload = before_last_dot token\<rparr>
           | _ \<Rightarrow> None)
      | _ \<Rightarrow> None)"

definition build_token_payload ::
  "string \<Rightarrow> int \<Rightarrow> int \<Rightarrow> string \<Rightarrow> string \<Rightarrow> string \<Rightarrow> string"
where
  "build_token_payload kid issued expires rid actor request_id =
     ''v1.'' @ base64url_encode_text kid @ ''.'' @ to_string_int issued @ ''.'' @
     to_string_int expires @ ''.'' @ base64url_encode_text rid @ ''.'' @
     base64url_encode_text actor @ ''.'' @ base64url_encode_text request_id"

text \<open>Byte \<open>i\<close> of a text, zero behind its end.\<close>

definition byte_or_zero :: "string \<Rightarrow> nat \<Rightarrow> u8" where
  "byte_or_zero s i = (if i < length s then of_char (s ! i) else 0)"

text \<open>The lengths are compared after truncation to one byte, as in the code.\<close>

definition constant_time_equals :: "string \<Rightarrow> string \<Rightarrow> bool" where
  "constant_time_equals lhs rhs =
     (let sizes = ucast ((of_nat (length lhs) :: u64) XOR of_nat (length rhs)) :: u8
      in foldl (\<lambda>diff i. diff OR (byte_or_zero lhs i XOR byte_or_zero rhs i)) sizes
           [0..<max (length lhs) (length rhs)] = 0)"

section \<open>The registry\<close>

record OwnershipTokenKey =
  key_id :: string
  key_secret :: string

definition key_valid :: "OwnershipTokenKey \<Rightarrow> bool" where
  "key_valid k \<longleftrightarrow> key_id k \<noteq> [] \<and> key_secret k \<noteq> []"

definition no_key :: OwnershipTokenKey where
  "no_key = \<lparr>key_id = [], key_secret = []\<rparr>"

record StoredReceipt =
  stored_receipt :: AsyncTaskReceipt
  task_status :: string

datatype QueryStatus = Query_Found | Query_NotFound | Query_Expired

record QueryResult =
  query_status :: QueryStatus
  query_receipt_value :: "AsyncTaskReceipt option"

record AsyncTaskRegistry =
  receipt_ttl :: int
  receipts :: "(string \<times> StoredReceipt) list"
  current_key :: OwnershipTokenKey
  previous_key :: "OwnershipTokenKey option"

record Clocks =
  steady_first :: int
  steady_second :: int
  unix_ms :: int

definition valid_or_empty :: "OwnershipTokenKey \<Rightarrow> OwnershipTokenKey" where
  "valid_or_empty k = (if key_valid k then k else no_key)"

definition valid_or_none :: "OwnershipTokenKey option \<Rightarrow> OwnershipTokenKey option" where
  "valid_or_none k = (case k of None \<Rightarrow> None | Some x \<Rightarrow> if key_valid x then Some x else None)"

text \<open>A time to live that is not positive is replaced by ten minutes.\<close>

definition new_async_registry ::
  "OwnershipTokenKey \<Rightarrow> OwnershipTokenKey option \<Rightarrow> int \<Rightarrow> AsyncTaskRegistry"
where
  "new_async_registry cur prev ttl =
     \<lparr>receipt_ttl = (if ttl \<le> 0 then 600000 else ttl), receipts = [],
      current_key = valid_or_empty cur, previous_key = valid_or_none prev\<rparr>"

definition legacy_async_registry :: "string \<Rightarrow> int \<Rightarrow> AsyncTaskRegistry" where
  "legacy_async_registry secret ttl =
     new_async_registry \<lparr>key_id = ''legacy-v1'', key_secret = secret\<rparr> None ttl"

definition context_or_default :: "RuntimeDispatchRequest \<Rightarrow> string \<Rightarrow> string \<Rightarrow> string" where
  "context_or_default request key fallback =
     (case request_context request key of
        None \<Rightarrow> fallback | Some v \<Rightarrow> if v = [] then fallback else v)"

definition build_receipt_id :: "RuntimeDispatchRequest \<Rightarrow> RuntimeDispatchResult \<Rightarrow> string" where
  "build_receipt_id request result =
     (let derived = ''receipt:'' @
            context_or_default request ''request_id'' (packet_id (dispatch_packet request))
      in case rd_receipt_ref result of
           Some r \<Rightarrow> if r \<noteq> [] then r else derived
         | None \<Rightarrow> derived)"

definition build_ownership_token ::
  "AsyncTaskRegistry \<Rightarrow> string \<Rightarrow> string \<Rightarrow> string \<Rightarrow> int \<Rightarrow> int \<Rightarrow> string"
where
  "build_ownership_token r rid actor request_id issued expires =
     (if \<not> key_valid (current_key r) then []
      else
        (let payload = build_token_payload (key_id (current_key r)) issued expires rid actor request_id
         in payload @ ''.'' @ hmac_sha256_base64url (key_secret (current_key r)) payload))"

definition register_async_accept ::
  "AsyncTaskRegistry \<Rightarrow> RuntimeDispatchRequest \<Rightarrow> RuntimeDispatchResult \<Rightarrow> Clocks \<Rightarrow>
   AsyncTaskRegistry \<times> AsyncTaskReceipt option"
where
  "register_async_accept r request result c =
     (if rd_disposition result \<noteq> Access_AcceptedAsync then (r, None)
      else if \<not> key_valid (current_key r) then (r, None)
      else
        (let rid = build_receipt_id request result;
             request_id = context_or_default request ''request_id'' (packet_id (dispatch_packet request));
             issued = unix_ms c;
             expires = issued + receipt_ttl r;
             actor = actor_ref (subject_identity request);
             receipt =
               \<lparr>receipt_id = rid, rc_request_id = request_id,
                rc_session_id = context_or_default request ''session_id'' (''session:'' @ request_id),
                rc_actor_ref = actor,
                rc_task_ref = value_or (rd_receipt_ref result) (''task:'' @ request_id),
                rc_expires_at = steady_first c + receipt_ttl r * 1000000,
                ownership_token = build_ownership_token r rid actor request_id issued expires,
                rc_initial_status = Some ''pending''\<rparr>
         in (r\<lparr>receipts := AList.update rid \<lparr>stored_receipt = receipt, task_status = ''pending''\<rparr>
                             (receipts r)\<rparr>,
             Some receipt)))"

definition live_at :: "int \<Rightarrow> StoredReceipt \<Rightarrow> bool" where
  "live_at now s \<longleftrightarrow> now < rc_expires_at (stored_receipt s)"

definition erase_expired_locked :: "AsyncTaskRegistry \<Rightarrow> string \<Rightarrow> AsyncTaskRegistry" where
  "erase_expired_locked r rid = r\<lparr>receipts := AList.delete rid (receipts r)\<rparr>"

definition prune_expired_locked :: "AsyncTaskRegistry \<Rightarrow> int \<Rightarrow> AsyncTaskRegistry \<times> nat" where
  "prune_expired_locked r now =
     (let kept = filter (\<lambda>(k, s). live_at now s) (receipts r)
      in (r\<lparr>receipts := kept\<rparr>, length (receipts r) - length kept))"

definition query_receipt :: "AsyncTaskRegistry \<Rightarrow> string \<Rightarrow> Clocks \<Rightarrow> AsyncTaskRegistry \<times> QueryResult" where
  "query_receipt r rid c =
     (case map_of (receipts r) rid of
        None \<Rightarrow> (r, \<lparr>query_status = Query_NotFound, query_receipt_value = None\<rparr>)
      | Some s \<Rightarrow>
          if \<not> live_at (steady_first c) s
          then (erase_expired_locked r rid, \<lparr>query_status = Query_Expired, query_receipt_value = None\<rparr>)
          else (r, \<lparr>query_status = Query_Found, query_receipt_value = Some (stored_receipt s)\<rparr>))"

definition signing_key :: "AsyncTaskRegistry \<Rightarrow> string \<Rightarrow> OwnershipTokenKey option" where
  "signing_key r kid =
     (if kid = key_id (current_key r) then Some (current_key r)
      else
        (case previous_key r of
           None \<Rightarrow> None
         | Some p \<Rightarrow> if kid = key_id p then Some p else None))"

definition token_fits :: "AsyncTaskReceipt \<Rightarrow> Clocks \<Rightarrow> ParsedOwnershipToken \<Rightarrow> bool" where
  "token_fits receipt c t \<longleftrightarrow>
     \<not> (po_version t \<noteq> ''v1'' \<or> po_receipt_id t \<noteq> receipt_id receipt \<or>
        po_actor_ref t \<noteq> rc_actor_ref receipt \<or> po_request_id t \<noteq> rc_request_id receipt \<or>
        issued_at_unix_ms t \<le> 0 \<or> expires_at_unix_ms t < issued_at_unix_ms t \<or>
        unix_ms c > expires_at_unix_ms t)"

definition validate_ownership ::
  "AsyncTaskRegistry \<Rightarrow> string \<Rightarrow> string \<Rightarrow> string \<Rightarrow> Clocks \<Rightarrow> AsyncTaskRegistry \<times> bool"
where
  "validate_ownership r0 rid actor token c =
     (if \<not> key_valid (current_key r0) then (r0, False)
      else
        (let r = fst (prune_expired_locked r0 (steady_first c))
         in case map_of (receipts r) rid of
              None \<Rightarrow> (r, False)
            | Some s \<Rightarrow>
                if \<not> live_at (steady_second c) s then (erase_expired_locked r rid, False)
                else if rc_actor_ref (stored_receipt s) \<noteq> actor then (r, False)
                else
                  (case parse_ownership_token token of
                     None \<Rightarrow> (r, False)
                   | Some t \<Rightarrow>
                       if \<not> token_fits (stored_receipt s) c t then (r, False)
                       else
                         (case signing_key r (po_key_id t) of
                            None \<Rightarrow> (r, False)
                          | Some key \<Rightarrow>
                              if \<not> key_valid key then (r, False)
                              else
                                (r, constant_time_equals
                                      (hmac_sha256_base64url (key_secret key) (signed_payload t))
                                      (po_signature t) \<and>
                                    constant_time_equals (ownership_token (stored_receipt s)) token)))))"

definition mark_completed ::
  "AsyncTaskRegistry \<Rightarrow> string \<Rightarrow> string \<Rightarrow> Clocks \<Rightarrow> AsyncTaskRegistry \<times> bool"
where
  "mark_completed r0 rid status c =
     (let r = fst (prune_expired_locked r0 (steady_first c))
      in case map_of (receipts r) rid of
           None \<Rightarrow> (r, False)
         | Some s \<Rightarrow>
             if \<not> live_at (steady_second c) s then (erase_expired_locked r rid, False)
             else
               (r\<lparr>receipts := AList.update rid
                   \<lparr>stored_receipt = (stored_receipt s)\<lparr>rc_initial_status := Some status\<rparr>,
                    task_status = status\<rparr> (receipts r)\<rparr>, True))"

definition prune_expired :: "AsyncTaskRegistry \<Rightarrow> Clocks \<Rightarrow> AsyncTaskRegistry \<times> nat" where
  "prune_expired r c = prune_expired_locked r (steady_first c)"

definition registry_size :: "AsyncTaskRegistry \<Rightarrow> Clocks \<Rightarrow> AsyncTaskRegistry \<times> nat" where
  "registry_size r c =
     (let r' = fst (prune_expired_locked r (steady_first c)) in (r', length (receipts r')))"

definition registry_enabled :: "AsyncTaskRegistry \<Rightarrow> bool" where
  "registry_enabled r = key_valid (current_key r)"

definition rotate_ownership_keys ::
  "AsyncTaskRegistry \<Rightarrow> OwnershipTokenKey \<Rightarrow> OwnershipTokenKey option \<Rightarrow> AsyncTaskRegistry"
where
  "rotate_ownership_keys r cur prev =
     r\<lparr>current_key := valid_or_empty cur, previous_key := valid_or_none prev\<rparr>"

section \<open>The comparison\<close>

lemma or_fold_zero:
  "foldl (\<lambda>diff i. diff OR f i) d is = (0 :: u8) \<longleftrightarrow> d = 0 \<and> (\<forall>i\<in>set is. f i = 0)"
  by (induction "is" arbitrary: d) (auto simp: or_eq_0_iff)

lemma xor_zero: "x XOR y = (0 :: 'a :: len word) \<longleftrightarrow> x = y"
  by (metis xor.assoc xor.right_neutral xor_self_eq)

lemma ucast_xor_byte: "(ucast (x XOR y :: u64) :: u8) = ucast x XOR ucast y"
  by (rule bit_word_eqI) (simp add: bit_simps)

lemma truncated_sizes:
  "(ucast ((of_nat m :: u64) XOR of_nat n) :: u8) = 0 \<longleftrightarrow> m mod 256 = n mod 256"
proof -
  have "(ucast (of_nat k :: u64) :: u8) = of_nat k" for k
    by (rule bit_word_eqI) (simp add: bit_simps)
  then show ?thesis by (simp add: ucast_xor_byte xor_zero word_of_nat_eq_iff take_bit_nat_def)
qed

lemma constant_time_equals_iff:
  "constant_time_equals l r \<longleftrightarrow>
     length l mod 256 = length r mod 256 \<and>
     (\<forall>i < max (length l) (length r). byte_or_zero l i = byte_or_zero r i)"
  unfolding constant_time_equals_def Let_def or_fold_zero truncated_sizes xor_zero by auto

lemma byte_char: "(of_char c :: u8) = of_char d \<longleftrightarrow> c = d"
proof
  assume "(of_char c :: u8) = of_char d"
  then have "unat (of_char c :: u8) = unat (of_char d :: u8)" by simp
  then show "c = d" by (simp add: unat_of_char)
qed simp

lemma byte_zero: "(of_char c :: u8) = 0 \<longleftrightarrow> c = CHR 0x00"
  using byte_char [of c "CHR 0x00"] by simp

text \<open>
  Texts that do not end in a zero byte are equal to themselves with zero bytes appended, in
  multiples of 256, and to nothing else.
\<close>

definition zeros :: "nat \<Rightarrow> string" where
  "zeros n = replicate (256 * n) (CHR 0x00)"

lemma constant_time_equals_zeros:
  assumes "l = [] \<or> last l \<noteq> CHR 0x00"
  shows "constant_time_equals l r \<longleftrightarrow> (\<exists>n. r = l @ zeros n)"
proof
  assume eq: "constant_time_equals l r"
  have le: "length l \<le> length r"
  proof (rule ccontr)
    assume "\<not> length l \<le> length r"
    then have k: "length r \<le> length l - 1" "length l - 1 < length l" "l \<noteq> []" by auto
    then have "byte_or_zero l (length l - 1) = byte_or_zero r (length l - 1)"
      using eq by (auto simp: constant_time_equals_iff)
    with k have "of_char (last l) = (0 :: u8)" by (simp add: byte_or_zero_def last_conv_nth)
    with assms k(3) show False by (simp add: byte_zero)
  qed
  from eq le obtain n where n: "length r = length l + 256 * n"
    by (metis constant_time_equals_iff mod_eq_dvd_iff_nat dvd_def le_add_diff_inverse)
  have "r = l @ zeros n"
  proof (rule nth_equalityI)
    show "length r = length (l @ zeros n)" using n by (simp add: zeros_def)
    fix i
    assume i: "i < length r"
    with eq le have b: "byte_or_zero l i = byte_or_zero r i" by (simp add: constant_time_equals_iff)
    show "r ! i = (l @ zeros n) ! i"
    proof (cases "i < length l")
      case True
      with b i show ?thesis by (simp add: byte_or_zero_def byte_char nth_append)
    next
      case False
      with b i n show ?thesis by (auto simp: byte_or_zero_def nth_append zeros_def byte_zero dest: sym)
    qed
  qed
  then show "\<exists>n. r = l @ zeros n" ..
next
  assume "\<exists>n. r = l @ zeros n"
  then obtain n where r: "r = l @ zeros n" ..
  have "byte_or_zero l i = byte_or_zero r i" for i
    by (auto simp: r byte_or_zero_def nth_append zeros_def byte_zero)
  then show "constant_time_equals l r" by (simp add: constant_time_equals_iff r zeros_def)
qed

section \<open>Printed tokens\<close>

lemma split_dots_plain: "CHR ''.'' \<notin> set p \<Longrightarrow> split_dots p = [p]"
  by (induction p) auto

lemma split_dots_step: "CHR ''.'' \<notin> set p \<Longrightarrow> split_dots (p @ ''.'' @ s) = p # split_dots s"
  by (induction p) auto

lemma before_last_dot_payload: "CHR ''.'' \<notin> set sig \<Longrightarrow> before_last_dot (p @ ''.'' @ sig) = p"
proof -
  assume "CHR ''.'' \<notin> set sig"
  then have "dropWhile (\<lambda>c. c \<noteq> CHR ''.'') (rev sig) = []" by (auto simp: dropWhile_eq_Nil_conv)
  then show ?thesis by (simp add: before_last_dot_def dropWhile_append)
qed

lemma parse_printed_int64: "is_i64 i \<Longrightarrow> parse_int64 (to_string_int i) = Some i"
proof -
  assume i: "is_i64 i"
  have "hd (to_string_nat n) \<noteq> CHR ''-''" for n
  proof
    assume "hd (to_string_nat n) = CHR ''-''"
    then have "CHR ''-'' \<in> set (to_string_nat n)" using hd_in_set [of "to_string_nat n"] by simp
    from to_string_nat_digits [OF this] show False by (simp add: digit_value_def)
  qed
  with i show ?thesis by (simp add: parse_int64_def to_string_int_def Let_def)
qed

lemma no_dot:
  "CHR ''.'' \<notin> set (base64url_encode bytes)" "CHR ''.'' \<notin> set (to_string_int i)"
  "CHR ''.'' \<notin> set ''v1''" "CHR ''.'' \<notin> set (zeros n)"
proof -
  have "CHR ''.'' \<notin> set kBase64UrlAlphabet" by (simp add: kBase64UrlAlphabet_def)
  then show "CHR ''.'' \<notin> set (base64url_encode bytes)" using encode_alphabet by blast
  have "CHR ''.'' \<notin> set (to_string_nat n)" for n
    using to_string_nat_digits [of "CHR ''.''" n] by (auto simp: digit_value_def)
  then show "CHR ''.'' \<notin> set (to_string_int i)" by (simp add: to_string_int_def)
qed (simp_all add: zeros_def)

lemma parse_built_token:
  assumes "is_i64 issued" and "is_i64 expires" and "CHR ''.'' \<notin> set sig"
  shows "parse_ownership_token (build_token_payload kid issued expires rid actor request_id @ ''.'' @ sig) =
           Some \<lparr>po_version = ''v1'', po_key_id = kid, issued_at_unix_ms = issued,
                 expires_at_unix_ms = expires, po_receipt_id = rid, po_actor_ref = actor,
                 po_request_id = request_id, po_signature = sig,
                 signed_payload = build_token_payload kid issued expires rid actor request_id\<rparr>"
proof -
  let ?p = "build_token_payload kid issued expires rid actor request_id"
  have text_eq: "?p @ ''.'' @ sig = ''v1'' @ ''.'' @ base64url_encode_text kid @ ''.'' @ to_string_int issued @
      ''.'' @ to_string_int expires @ ''.'' @ base64url_encode_text rid @ ''.'' @
      base64url_encode_text actor @ ''.'' @ base64url_encode_text request_id @ ''.'' @ sig"
    by (simp add: build_token_payload_def)
  have "split_dots (?p @ ''.'' @ sig) =
      [''v1'', base64url_encode_text kid, to_string_int issued, to_string_int expires,
       base64url_encode_text rid, base64url_encode_text actor, base64url_encode_text request_id, sig]"
    unfolding text_eq
    by (simp only: split_dots_step split_dots_plain no_dot assms(3) base64url_encode_text_def
        not_False_eq_True)
  moreover have "before_last_dot (?p @ ''.'' @ sig) = ?p" by (rule before_last_dot_payload [OF assms(3)])
  ultimately show ?thesis
    using assms(1,2) by (simp add: parse_ownership_token_def parse_printed_int64)
qed

section \<open>Issued receipts\<close>

definition receipt_payload :: "AsyncTaskReceipt \<Rightarrow> OwnershipTokenKey \<Rightarrow> int \<Rightarrow> int \<Rightarrow> string" where
  "receipt_payload rc key issued expires =
     build_token_payload (key_id key) issued expires (receipt_id rc) (rc_actor_ref rc) (rc_request_id rc)"

definition issued_with :: "AsyncTaskReceipt \<Rightarrow> OwnershipTokenKey \<Rightarrow> int \<Rightarrow> int \<Rightarrow> bool" where
  "issued_with rc key issued expires \<longleftrightarrow>
     is_i64 issued \<and> is_i64 expires \<and> key_valid key \<and>
     ownership_token rc =
       receipt_payload rc key issued expires @ ''.'' @
       hmac_sha256_base64url (key_secret key) (receipt_payload rc key issued expires)"

definition registry_ok :: "AsyncTaskRegistry \<Rightarrow> bool" where
  "registry_ok r \<longleftrightarrow>
     distinct (map fst (receipts r)) \<and>
     (\<forall>rid s. map_of (receipts r) rid = Some s \<longrightarrow>
        receipt_id (stored_receipt s) = rid \<and>
        (\<exists>key issued expires. issued_with (stored_receipt s) key issued expires))"

lemma map_of_filter_snd:
  "distinct (map fst m) \<Longrightarrow>
     map_of (filter (\<lambda>(k, v). P v) m) k =
       (case map_of m k of None \<Rightarrow> None | Some v \<Rightarrow> if P v then Some v else None)"
proof (induction m)
  case (Cons a m)
  obtain k' v where a: "a = (k', v)" by (cases a)
  have "map_of m k = None" if "k \<notin> fst ` set m" using that by (simp add: map_of_eq_None_iff)
  with Cons a show ?case by (auto simp: map_of_eq_None_iff)
qed simp

lemma pruned_receipt:
  assumes "registry_ok r"
  shows "map_of (receipts (fst (prune_expired_locked r now))) rid =
           (case map_of (receipts r) rid of
              None \<Rightarrow> None | Some s \<Rightarrow> if live_at now s then Some s else None)"
  using assms map_of_filter_snd [of "receipts r" "live_at now" rid]
  by (simp add: prune_expired_locked_def registry_ok_def Let_def)

lemma prune_keys [simp]:
  "current_key (fst (prune_expired_locked r now)) = current_key r"
  "previous_key (fst (prune_expired_locked r now)) = previous_key r"
  "signing_key (fst (prune_expired_locked r now)) = signing_key r"
  by (simp_all add: prune_expired_locked_def Let_def signing_key_def fun_eq_iff)

lemma hmac_text:
  "CHR ''.'' \<notin> set (hmac_sha256_base64url key m)"
  "hmac_sha256_base64url key m = [] \<or> last (hmac_sha256_base64url key m) \<noteq> CHR 0x00"
proof -
  show "CHR ''.'' \<notin> set (hmac_sha256_base64url key m)"
    by (simp add: hmac_sha256_base64url_def Let_def no_dot)
  have "CHR 0x00 \<notin> set kBase64UrlAlphabet" by (simp add: kBase64UrlAlphabet_def)
  then have "CHR 0x00 \<notin> set (hmac_sha256_base64url key m)"
    using encode_alphabet by (auto simp: hmac_sha256_base64url_def Let_def)
  then show "hmac_sha256_base64url key m = [] \<or> last (hmac_sha256_base64url key m) \<noteq> CHR 0x00"
    using last_in_set by metis
qed

lemma append_zeros_same:
  assumes "l = [] \<or> last l \<noteq> CHR 0x00" and "l' = [] \<or> last l' \<noteq> CHR 0x00"
    and "l @ zeros m = l' @ zeros n"
  shows "l = l'"
proof -
  have strip: "rev (dropWhile (\<lambda>c. c = CHR 0x00) (rev (l @ zeros m))) = l"
    if "l = [] \<or> last l \<noteq> CHR 0x00" for l m
  proof -
    have "dropWhile (\<lambda>c. c = CHR 0x00) (rev (l @ zeros m)) = dropWhile (\<lambda>c. c = CHR 0x00) (rev l)"
      unfolding zeros_def rev_append rev_replicate by (rule dropWhile_append2) simp
    also have "\<dots> = rev l" using that by (cases l rule: rev_cases) auto
    finally show ?thesis by simp
  qed
  show ?thesis using strip [OF assms(1), of m] strip [OF assms(2), of n] assms(3) by simp
qed

lemma validation_exact_aux:
  assumes "registry_ok r" and "map_of (receipts r) rid = Some s"
    and "issued_with (stored_receipt s) key issued expires"
  shows "snd (validate_ownership r rid actor token c) \<longleftrightarrow>
           key_valid (current_key r) \<and> live_at (steady_first c) s \<and> live_at (steady_second c) s \<and>
           actor = rc_actor_ref (stored_receipt s) \<and>
           0 < issued \<and> issued \<le> expires \<and> unix_ms c \<le> expires \<and>
           (\<exists>k. signing_key r (key_id key) = Some k \<and> key_valid k \<and>
              hmac_sha256_base64url (key_secret k) (receipt_payload (stored_receipt s) key issued expires) =
              hmac_sha256_base64url (key_secret key) (receipt_payload (stored_receipt s) key issued expires)) \<and>
           (\<exists>n. token = ownership_token (stored_receipt s) @ zeros n)"
proof (cases "\<exists>n. token = ownership_token (stored_receipt s) @ zeros n")
  case False
  let ?p = "receipt_payload (stored_receipt s) key issued expires"
  have "ownership_token (stored_receipt s) = [] \<or> last (ownership_token (stored_receipt s)) \<noteq> CHR 0x00"
    using assms(3) hmac_text(2) [of "key_secret key" ?p] by (auto simp: issued_with_def last_append)
  with False have "\<not> constant_time_equals (ownership_token (stored_receipt s)) token"
    by (simp add: constant_time_equals_zeros)
  then have "\<not> snd (validate_ownership r rid actor token c)"
    using assms(2)
    by (auto simp: validate_ownership_def Let_def pruned_receipt [OF assms(1)] split: option.split)
  with False show ?thesis by blast
next
  case True
  let ?p = "receipt_payload (stored_receipt s) key issued expires"
  let ?sig = "hmac_sha256_base64url (key_secret key) ?p"
  from True obtain n where n: "token = ?p @ ''.'' @ ?sig @ zeros n"
    using assms(3) by (auto simp: issued_with_def)
  have id: "receipt_id (stored_receipt s) = rid" using assms(1,2) by (simp add: registry_ok_def)
  have i64: "is_i64 issued" "is_i64 expires" "key_valid key"
    using assms(3) by (simp_all add: issued_with_def)
  have "CHR ''.'' \<notin> set (?sig @ zeros n)" by (simp add: hmac_text no_dot)
  from parse_built_token [OF i64(1,2) this, of "key_id key" rid "rc_actor_ref (stored_receipt s)"
      "rc_request_id (stored_receipt s)"]
  have parsed: "parse_ownership_token token =
      Some \<lparr>po_version = ''v1'', po_key_id = key_id key, issued_at_unix_ms = issued,
            expires_at_unix_ms = expires, po_receipt_id = rid, po_actor_ref = rc_actor_ref (stored_receipt s),
            po_request_id = rc_request_id (stored_receipt s), po_signature = ?sig @ zeros n,
            signed_payload = ?p\<rparr>"
    by (simp add: n receipt_payload_def id)
  have token_eq: "constant_time_equals (ownership_token (stored_receipt s)) token"
  proof -
    have "ownership_token (stored_receipt s) = [] \<or> last (ownership_token (stored_receipt s)) \<noteq> CHR 0x00"
      using assms(3) hmac_text(2) [of "key_secret key" ?p] by (auto simp: issued_with_def last_append)
    then show ?thesis using True by (simp add: constant_time_equals_zeros)
  qed
  have sig_eq: "constant_time_equals (hmac_sha256_base64url (key_secret k) ?p) (?sig @ zeros n) \<longleftrightarrow>
      hmac_sha256_base64url (key_secret k) ?p = ?sig" for k :: OwnershipTokenKey
    using append_zeros_same [OF hmac_text(2) hmac_text(2), of "key_secret key" ?p n "key_secret k" ?p]
    by (auto simp: constant_time_equals_zeros [OF hmac_text(2)])
  show ?thesis
    using True assms(2)
    by (auto simp: validate_ownership_def Let_def pruned_receipt [OF assms(1)] parsed token_fits_def id
        sig_eq token_eq split: option.splits)
qed

section \<open>Runs of the registry\<close>

datatype RegistryCall =
    Rc_Register RuntimeDispatchRequest RuntimeDispatchResult Clocks
  | Rc_Query string Clocks
  | Rc_Validate string string string Clocks
  | Rc_Mark string string Clocks
  | Rc_Prune Clocks
  | Rc_Size Clocks
  | Rc_Rotate OwnershipTokenKey "OwnershipTokenKey option"

fun registry_step :: "AsyncTaskRegistry \<Rightarrow> RegistryCall \<Rightarrow> AsyncTaskRegistry" where
  "registry_step r (Rc_Register request result c) = fst (register_async_accept r request result c)"
| "registry_step r (Rc_Query rid c) = fst (query_receipt r rid c)"
| "registry_step r (Rc_Validate rid actor token c) = fst (validate_ownership r rid actor token c)"
| "registry_step r (Rc_Mark rid status c) = fst (mark_completed r rid status c)"
| "registry_step r (Rc_Prune c) = fst (prune_expired r c)"
| "registry_step r (Rc_Size c) = fst (registry_size r c)"
| "registry_step r (Rc_Rotate cur prev) = rotate_ownership_keys r cur prev"

text \<open>The times a registration writes into its token are in range.\<close>

fun registry_call_ok :: "int \<Rightarrow> RegistryCall \<Rightarrow> bool" where
  "registry_call_ok ttl (Rc_Register request result c) = (is_i64 (unix_ms c) \<and> is_i64 (unix_ms c + ttl))"
| "registry_call_ok ttl _ = True"

definition registry_inv :: "int \<Rightarrow> AsyncTaskRegistry \<Rightarrow> bool" where
  "registry_inv ttl r \<longleftrightarrow> registry_ok r \<and> receipt_ttl r = ttl"

lemma receipts_only:
  assumes "receipts r' = receipts r"
  shows "registry_ok r' = registry_ok r"
  using assms by (simp add: registry_ok_def)

lemma pruned_ok: "registry_ok r \<Longrightarrow> registry_ok (fst (prune_expired_locked r now))"
proof -
  assume ok: "registry_ok r"
  then have "distinct (map fst (receipts (fst (prune_expired_locked r now))))"
    by (simp add: registry_ok_def prune_expired_locked_def Let_def distinct_map_filter)
  with ok pruned_receipt [OF ok, of now] show ?thesis
    by (auto simp: registry_ok_def split: option.splits if_splits)
qed

lemma erased_ok: "registry_ok r \<Longrightarrow> registry_ok (erase_expired_locked r rid)"
  by (auto simp: registry_ok_def erase_expired_locked_def delete_conv' distinct_delete)

lemma updated_ok:
  assumes "registry_ok r" and "receipt_id (stored_receipt s) = rid"
    and "\<exists>key issued expires. issued_with (stored_receipt s) key issued expires"
  shows "registry_ok (r\<lparr>receipts := AList.update rid s (receipts r)\<rparr>)"
  using assms by (auto simp: registry_ok_def update_conv' distinct_update)

lemma status_keeps_issue:
  "issued_with (rc\<lparr>rc_initial_status := v\<rparr>) key issued expires = issued_with rc key issued expires"
  by (simp add: issued_with_def receipt_payload_def)

lemma registered_ok:
  assumes "registry_inv ttl r" and "registry_call_ok ttl (Rc_Register request result c)"
  shows "registry_inv ttl (fst (register_async_accept r request result c))"
proof -
  have "\<exists>key issued expires. issued_with
      \<lparr>receipt_id = rid, rc_request_id = rq, rc_session_id = ss, rc_actor_ref = actor, rc_task_ref = tr,
       rc_expires_at = e,
       ownership_token = build_ownership_token r rid actor rq (unix_ms c) (unix_ms c + receipt_ttl r),
       rc_initial_status = st\<rparr> key issued expires"
    if "key_valid (current_key r)" for rid rq ss actor tr e st
    using that assms
    by (intro exI [of _ "current_key r"] exI [of _ "unix_ms c"] exI [of _ "unix_ms c + receipt_ttl r"])
      (simp add: issued_with_def receipt_payload_def build_ownership_token_def registry_inv_def Let_def)
  with assms(1) show ?thesis
    by (auto simp: register_async_accept_def registry_inv_def Let_def intro!: updated_ok)
qed

lemma prune_ttl [simp]: "receipt_ttl (fst (prune_expired_locked r now)) = receipt_ttl r"
  by (simp add: prune_expired_locked_def Let_def)

lemma erase_ttl [simp]: "receipt_ttl (erase_expired_locked r rid) = receipt_ttl r"
  by (simp add: erase_expired_locked_def)

lemma marked_ok: "registry_ok r \<Longrightarrow> registry_ok (fst (mark_completed r rid status c))"
proof -
  assume ok: "registry_ok r"
  let ?p = "fst (prune_expired_locked r (steady_first c))"
  note p = pruned_ok [OF ok, of "steady_first c"]
  show ?thesis
  proof (cases "map_of (receipts ?p) rid")
    case None
    with p show ?thesis by (simp add: mark_completed_def Let_def)
  next
    case (Some s)
    with p have "receipt_id (stored_receipt s) = rid"
      "\<exists>key issued expires. issued_with (stored_receipt s) key issued expires"
      by (simp_all add: registry_ok_def)
    with Some p erased_ok [OF p] show ?thesis
      by (auto simp: mark_completed_def Let_def status_keeps_issue intro!: updated_ok) blast
  qed
qed

lemma validated_ok: "registry_ok r \<Longrightarrow> registry_ok (fst (validate_ownership r rid actor token c))"
  using pruned_ok [of r "steady_first c"] erased_ok [OF pruned_ok]
  by (auto simp: validate_ownership_def Let_def split: option.split)

lemma registry_step_ok:
  assumes "registry_inv ttl r" and "registry_call_ok ttl call"
  shows "registry_inv ttl (registry_step r call)"
proof (cases call)
  case (Rc_Register request result c)
  with registered_ok [OF assms(1)] assms(2) show ?thesis by simp
next
  case (Rc_Rotate cur prev)
  with assms receipts_only [of "rotate_ownership_keys r cur prev" r] show ?thesis
    by (simp add: registry_inv_def rotate_ownership_keys_def)
qed (use assms in \<open>auto simp: registry_inv_def query_receipt_def prune_expired_def registry_size_def
      Let_def validate_ownership_def mark_completed_def validated_ok [unfolded validate_ownership_def Let_def]
      marked_ok [unfolded mark_completed_def Let_def] pruned_ok erased_ok split: option.split\<close>)

interpretation registry: machine "\<lambda>r c. Some (registry_step r c)" "registry_inv ttl" "registry_call_ok ttl" for ttl
  by unfold_locales (auto intro: registry_step_ok)

lemma new_registry_ok: "registry_inv (receipt_ttl (new_async_registry cur prev ttl)) (new_async_registry cur prev ttl)"
  by (simp add: registry_inv_def registry_ok_def new_async_registry_def)

section \<open>Task queries of the daemon\<close>

record DaemonTaskOwner =
  owner_actor_ref :: string
  owner_token :: string

datatype DaemonTaskQueryStatus =
    Task_Active | Task_Completed | Task_Cancelled | Task_Missing | Task_Expired
  | Task_OwnerMismatch | Task_CancelForwardFailed

record DaemonTaskQueryResult =
  dq_status :: DaemonTaskQueryStatus
  dq_task_status :: string
  dq_receipt_ref :: string
  dq_request_id :: string

text \<open>
  Each registry call has its own clock readings. The cancel backend is an optional function of
  the request and the actor; the calls it received are part of the result.
\<close>

definition handle_status ::
  "AsyncTaskRegistry \<Rightarrow> string \<Rightarrow> DaemonTaskOwner \<Rightarrow> Clocks \<Rightarrow> Clocks \<Rightarrow>
   AsyncTaskRegistry \<times> DaemonTaskQueryResult"
where
  "handle_status r rid owner c1 c2 =
     (case query_receipt r rid c1 of
        (r1, q) \<Rightarrow>
          (case query_status q of
             Query_NotFound \<Rightarrow>
               (r1, \<lparr>dq_status = Task_Missing, dq_task_status = ''missing'', dq_receipt_ref = rid,
                     dq_request_id = []\<rparr>)
           | Query_Expired \<Rightarrow>
               (r1, \<lparr>dq_status = Task_Expired, dq_task_status = ''expired'', dq_receipt_ref = rid,
                     dq_request_id = []\<rparr>)
           | Query_Found \<Rightarrow>
               (case validate_ownership r1 rid (owner_actor_ref owner) (owner_token owner) c2 of
                  (r2, valid) \<Rightarrow>
                    if \<not> valid then
                      (r2, \<lparr>dq_status = Task_OwnerMismatch, dq_task_status = ''mismatch'',
                            dq_receipt_ref = rid, dq_request_id = []\<rparr>)
                    else
                      (let receipt = the (query_receipt_value q);
                           registry_status = value_or (rc_initial_status receipt) ''pending''
                       in if registry_status = ''completed'' then
                            (r2, \<lparr>dq_status = Task_Completed, dq_task_status = ''completed'',
                                  dq_receipt_ref = rid, dq_request_id = rc_request_id receipt\<rparr>)
                          else if registry_status = ''cancelled'' then
                            (r2, \<lparr>dq_status = Task_Cancelled, dq_task_status = ''cancelled'',
                                  dq_receipt_ref = rid, dq_request_id = rc_request_id receipt\<rparr>)
                          else
                            (r2, \<lparr>dq_status = Task_Active, dq_task_status = ''active'',
                                  dq_receipt_ref = rid, dq_request_id = rc_request_id receipt\<rparr>)))))"

definition cancel_failed :: "string \<Rightarrow> string \<Rightarrow> DaemonTaskQueryResult" where
  "cancel_failed rid request_id =
     \<lparr>dq_status = Task_CancelForwardFailed, dq_task_status = ''cancel_forward_failed'',
      dq_receipt_ref = rid, dq_request_id = request_id\<rparr>"

definition handle_cancel ::
  "AsyncTaskRegistry \<Rightarrow> string \<Rightarrow> DaemonTaskOwner \<Rightarrow> (string \<Rightarrow> string \<Rightarrow> bool) option \<Rightarrow>
   Clocks \<Rightarrow> Clocks \<Rightarrow> Clocks \<Rightarrow>
   AsyncTaskRegistry \<times> (string \<times> string) list \<times> DaemonTaskQueryResult"
where
  "handle_cancel r rid owner backend c1 c2 c3 =
     (case handle_status r rid owner c1 c2 of
        (r1, status) \<Rightarrow>
          if dq_status status \<in> {Task_Missing, Task_Expired, Task_OwnerMismatch, Task_Cancelled}
          then (r1, [], status)
          else
            (case backend of
               None \<Rightarrow> (r1, [], cancel_failed rid (dq_request_id status))
             | Some cancel \<Rightarrow>
                 if dq_request_id status = [] then (r1, [], cancel_failed rid (dq_request_id status))
                 else
                   (let call = (dq_request_id status, owner_actor_ref owner)
                    in if \<not> cancel (fst call) (snd call)
                       then (r1, [call], cancel_failed rid (dq_request_id status))
                       else
                         (case mark_completed r1 rid ''cancelled'' c3 of
                            (r2, marked) \<Rightarrow>
                              if \<not> marked then
                                (r2, [call],
                                 \<lparr>dq_status = Task_Expired, dq_task_status = ''expired'',
                                  dq_receipt_ref = rid, dq_request_id = dq_request_id status\<rparr>)
                              else
                                (r2, [call],
                                 \<lparr>dq_status = Task_Cancelled, dq_task_status = ''cancelled'',
                                  dq_receipt_ref = rid, dq_request_id = dq_request_id status\<rparr>)))))"

definition register_and_build_receipt ::
  "AsyncTaskRegistry option \<Rightarrow> RuntimeDispatchRequest \<Rightarrow> RuntimeDispatchResult \<Rightarrow> Clocks \<Rightarrow>
   AsyncTaskRegistry option \<times> AsyncTaskReceipt option"
where
  "register_and_build_receipt reg request result c =
     (case reg of
        None \<Rightarrow> (reg, None)
      | Some r \<Rightarrow>
          if rd_disposition result \<noteq> Access_AcceptedAsync then (reg, None)
          else (case register_async_accept r request result c of (r', receipt) \<Rightarrow> (Some r', receipt)))"

section \<open>Only the owner\<close>

definition holds_token :: "AsyncTaskRegistry \<Rightarrow> string \<Rightarrow> DaemonTaskOwner \<Rightarrow> bool" where
  "holds_token r rid owner \<longleftrightarrow>
     (\<exists>s n. map_of (receipts r) rid = Some s \<and>
        owner_actor_ref owner = rc_actor_ref (stored_receipt s) \<and>
        owner_token owner = ownership_token (stored_receipt s) @ zeros n)"

text \<open>The status a receipt shows, or none when there is no receipt.\<close>

definition shown_status :: "AsyncTaskRegistry \<Rightarrow> string \<Rightarrow> string option" where
  "shown_status r rid = map_option task_status (map_of (receipts r) rid)"

lemma validated_holds:
  assumes "registry_ok r" and "snd (validate_ownership r rid (owner_actor_ref owner) (owner_token owner) c)"
  shows "holds_token r rid owner"
proof -
  obtain s where s: "map_of (receipts r) rid = Some s"
    using assms(2) by (cases "map_of (receipts r) rid")
      (auto simp: validate_ownership_def Let_def pruned_receipt [OF assms(1)] split: if_splits)
  obtain key issued expires where k: "issued_with (stored_receipt s) key issued expires"
    using assms(1) s unfolding registry_ok_def by blast
  from assms(2) show ?thesis
    unfolding validation_exact_aux [OF assms(1) s k] holds_token_def using s by auto
qed

text \<open>
  C14. Ownership: for a stored receipt, a token is accepted exactly when the registry signs at
  all, the receipt is live, the caller is its actor, the token's own times are in order and not
  past, a current or previous key of the token's key id still yields its signature, and the
  token is the one issued for the receipt, up to zero bytes appended in multiples of 256.
\<close>

theorem ownership_validation_exact:
  assumes "registry_ok r" and "map_of (receipts r) rid = Some s"
    and "issued_with (stored_receipt s) key issued expires"
  shows "snd (validate_ownership r rid actor token c) \<longleftrightarrow>
           key_valid (current_key r) \<and> live_at (steady_first c) s \<and> live_at (steady_second c) s \<and>
           actor = rc_actor_ref (stored_receipt s) \<and>
           0 < issued \<and> issued \<le> expires \<and> unix_ms c \<le> expires \<and>
           (\<exists>k. signing_key r (key_id key) = Some k \<and> key_valid k \<and>
              hmac_sha256_base64url (key_secret k) (receipt_payload (stored_receipt s) key issued expires) =
              hmac_sha256_base64url (key_secret key) (receipt_payload (stored_receipt s) key issued expires)) \<and>
           (\<exists>n. token = ownership_token (stored_receipt s) @ zeros n)"
  by (rule validation_exact_aux [OF assms])

lemma status_unknown:
  assumes "registry_ok r" and "\<not> holds_token r rid owner"
  shows "dq_request_id (snd (handle_status r rid owner c1 c2)) = [] \<and>
         dq_status (snd (handle_status r rid owner c1 c2)) \<in> {Task_Missing, Task_Expired, Task_OwnerMismatch}"
proof (cases "query_status (snd (query_receipt r rid c1))")
  case Query_Found
  then have same: "fst (query_receipt r rid c1) = r"
    by (auto simp: query_receipt_def split: option.splits if_splits)
  have "\<not> snd (validate_ownership r rid (owner_actor_ref owner) (owner_token owner) c2)"
    using validated_holds assms by blast
  with Query_Found same show ?thesis
    by (auto simp: handle_status_def split: prod.split)
qed (auto simp: handle_status_def split: prod.split)

lemma pruned_status: "registry_ok r \<Longrightarrow>
  shown_status (fst (prune_expired_locked r now)) rid \<in> {None, shown_status r rid}"
  by (auto simp: shown_status_def pruned_receipt split: option.split)

lemma erased_status: "shown_status (erase_expired_locked r rid') rid \<in> {None, shown_status r rid}"
  by (auto simp: shown_status_def erase_expired_locked_def delete_conv')

lemma status_keeps:
  assumes "registry_ok r"
  shows "shown_status (fst (handle_status r rid owner c1 c2)) rid' \<in> {None, shown_status r rid'}"
proof -
  let ?q = "fst (query_receipt r rid c1)"
  have q: "registry_ok ?q" "shown_status ?q rid' \<in> {None, shown_status r rid'}"
    using assms erased_status [of r rid rid'] erased_ok [OF assms]
    by (auto simp: query_receipt_def split: option.split)
  have "shown_status (fst (validate_ownership ?q rid a t c2)) rid' \<in> {None, shown_status ?q rid'}" for a t
    using pruned_status [OF q(1), of "steady_first c2" rid'] erased_status
    by (auto simp: validate_ownership_def Let_def split: option.split) (metis insertE singletonD)+
  moreover have "fst (handle_status r rid owner c1 c2) \<in>
      {?q, fst (validate_ownership ?q rid (owner_actor_ref owner) (owner_token owner) c2)}"
    by (auto simp: handle_status_def Let_def split: prod.split QueryStatus.split)
  ultimately show ?thesis using q(2) by (metis insertE insertI1 insertI2 singletonD)
qed


section \<open>Examples\<close>

definition sample_registry :: AsyncTaskRegistry where
  "sample_registry = new_async_registry \<lparr>key_id = ''k1'', key_secret = ''s''\<rparr> None 1000"

definition sample_clocks :: "int \<Rightarrow> Clocks" where
  "sample_clocks t = \<lparr>steady_first = t, steady_second = t, unix_ms = t\<rparr>"

definition registered_sample :: "AsyncTaskRegistry \<times> AsyncTaskReceipt option" where
  "registered_sample =
     register_async_accept sample_registry sample_dispatch_request sample_dispatch_result (sample_clocks 1)"

lemma registered_sample_ok: "registry_ok (fst registered_sample)"
proof -
  have "registry_inv 1000 sample_registry"
    using new_registry_ok [of "\<lparr>key_id = ''k1'', key_secret = ''s''\<rparr>" None 1000]
    by (simp add: sample_registry_def new_async_registry_def)
  moreover have "registry_call_ok 1000
      (Rc_Register sample_dispatch_request sample_dispatch_result (sample_clocks 1))"
    by (simp add: sample_clocks_def is_i64_def)
  ultimately have "registry_inv 1000 (fst registered_sample)"
    unfolding registered_sample_def by (rule registered_ok)
  then show ?thesis by (simp add: registry_inv_def)
qed

lemma registered_sample_entry:
  "\<exists>s. map_of (receipts (fst registered_sample)) ''receipt:p-1'' = Some s \<and>
       snd registered_sample = Some (stored_receipt s) \<and>
       rc_actor_ref (stored_receipt s) = ''uds://local/1000'' \<and> live_at 5 s \<and>
       issued_with (stored_receipt s) \<lparr>key_id = ''k1'', key_secret = ''s''\<rparr> 1 1001 \<and>
       current_key (fst registered_sample) = \<lparr>key_id = ''k1'', key_secret = ''s''\<rparr>"
  by (simp add: registered_sample_def register_async_accept_def sample_registry_def new_async_registry_def
      sample_dispatch_request_def sample_dispatch_result_def sample_packet_def sample_clocks_def Let_def
      build_receipt_id_def context_or_default_def valid_or_empty_def key_valid_def live_at_def
      issued_with_def receipt_payload_def build_ownership_token_def is_i64_def)

theorem ownership_validation_exact_witness:
  "snd (validate_ownership (fst registered_sample) ''receipt:p-1'' ''uds://local/1000''
          (ownership_token (the (snd registered_sample))) (sample_clocks 5))"
proof -
  from registered_sample_entry obtain s where s:
    "map_of (receipts (fst registered_sample)) ''receipt:p-1'' = Some s"
    "snd registered_sample = Some (stored_receipt s)"
    "rc_actor_ref (stored_receipt s) = ''uds://local/1000''" "live_at 5 s"
    "issued_with (stored_receipt s) \<lparr>key_id = ''k1'', key_secret = ''s''\<rparr> 1 1001"
    "current_key (fst registered_sample) = \<lparr>key_id = ''k1'', key_secret = ''s''\<rparr>" by blast
  have "\<exists>n. ownership_token (stored_receipt s) = ownership_token (stored_receipt s) @ zeros n"
    by (rule exI [of _ 0]) (simp add: zeros_def)
  then show ?thesis
    unfolding s(2) option.sel ownership_validation_exact [OF registered_sample_ok s(1,5)]
    using s(3,4,6) by (simp add: key_valid_def sample_clocks_def signing_key_def)
qed


text \<open>
  A token with 256 zero bytes appended is accepted like the token: the comparison sees only the
  low byte of the difference of the lengths.
\<close>

lemma zero_suffix_accepted:
  assumes "l = [] \<or> last l \<noteq> CHR 0x00"
  shows "constant_time_equals l (l @ replicate 256 (CHR 0x00))"
proof -
  have "l @ replicate 256 (CHR 0x00) = l @ zeros 1" by (simp add: zeros_def)
  then show ?thesis using constant_time_equals_zeros [OF assms] by blast
qed

text \<open>
  A registration replaces a receipt of the same identifier, whoever owned it: identifiers are
  taken from the request, so another actor's request can take a task away from its owner.
\<close>

lemma receipt_is_taken_over:
  assumes "register_async_accept r request result c = (r', Some receipt)"
    and "map_of (receipts r) (receipt_id receipt) = Some s"
    and "rc_actor_ref (stored_receipt s) \<noteq> actor_ref (subject_identity request)"
    and "owner_actor_ref owner = rc_actor_ref (stored_receipt s)"
  shows "\<not> holds_token r' (receipt_id receipt) owner"
  using assms
  by (auto simp: register_async_accept_def Let_def holds_token_def update_conv' split: if_splits)

text \<open>A completed task can still be cancelled: it then shows the status cancelled.\<close>

lemma completed_task_is_cancelled:
  assumes "handle_status r rid owner c1 c2 = (r1, st)" and "dq_status st = Task_Completed"
    and "dq_request_id st \<noteq> []" and "mark_completed r1 rid ''cancelled'' c3 = (r2, True)"
  shows "dq_status (snd (snd (handle_cancel r rid owner (Some (\<lambda>_ _. True)) c1 c2 c3))) = Task_Cancelled"
  using assms by (simp add: handle_cancel_def Let_def)

end
