(* ===== verification/Replay_Cache.thy ===== *)
theory Replay_Cache
  imports Access_Types "HOL-Library.AList"
begin

text \<open>
  The result replay cache (\<^verbatim>\<open>access/src/ResultReplayCache.cpp\<close>): envelopes under a key, with a
  time to live and least-recently-used eviction. An entry of the code holds an iterator to its
  node in the list of keys; the list has each key once, so the iterator is the position of the
  key. \<open>back()\<close> of an empty list is undefined and is the value \<^const>\<open>None\<close>; the eviction never
  meets it.

  The cache is a recency list: one list of entries, the last used first, cut to the capacity.
\<close>

section \<open>The cache\<close>

record CacheEntry =
  ce_envelope :: PublishEnvelope
  ce_expires_at :: int

record ResultReplayCache =
  cache_capacity :: nat
  cache_ttl :: int
  lru_keys :: "string list"
  cache_entries :: "(string \<times> CacheEntry) list"

text \<open>Capacity zero becomes one, and a time to live that is not positive ten minutes.\<close>

definition new_replay_cache :: "nat \<Rightarrow> int \<Rightarrow> ResultReplayCache" where
  "new_replay_cache capacity ttl =
     \<lparr>cache_capacity = (if capacity = 0 then 1 else capacity),
      cache_ttl = (if ttl \<le> 0 then 600000 else ttl), lru_keys = [], cache_entries = []\<rparr>"

definition is_expired_locked :: "CacheEntry \<Rightarrow> int \<Rightarrow> bool" where
  "is_expired_locked e now \<longleftrightarrow> now \<ge> ce_expires_at e"

definition touch_lru_locked :: "ResultReplayCache \<Rightarrow> string \<Rightarrow> ResultReplayCache" where
  "touch_lru_locked c key = c\<lparr>lru_keys := key # remove1 key (lru_keys c)\<rparr>"

function evict_if_needed_locked :: "ResultReplayCache \<Rightarrow> ResultReplayCache option" where
  "evict_if_needed_locked c =
     (if length (cache_entries c) > cache_capacity c then
        (if lru_keys c = [] then None
         else
           evict_if_needed_locked
             (c\<lparr>cache_entries := AList.delete (last (lru_keys c)) (cache_entries c),
                lru_keys := butlast (lru_keys c)\<rparr>))
      else Some c)"
  by auto
termination by (relation "measure (\<lambda>c. length (lru_keys c))") auto

declare evict_if_needed_locked.simps [simp del]

definition drop_entry :: "ResultReplayCache \<Rightarrow> string \<Rightarrow> ResultReplayCache" where
  "drop_entry c key =
     c\<lparr>lru_keys := remove1 key (lru_keys c), cache_entries := AList.delete key (cache_entries c)\<rparr>"

definition cache_put ::
  "ResultReplayCache \<Rightarrow> string \<Rightarrow> PublishEnvelope \<Rightarrow> int \<Rightarrow> ResultReplayCache option"
where
  "cache_put c key envelope now =
     (let c1 = (if map_of (cache_entries c) key \<noteq> None then drop_entry c key else c);
          e = \<lparr>ce_envelope = envelope, ce_expires_at = now + cache_ttl c * 1000000\<rparr>
      in evict_if_needed_locked
           (c1\<lparr>lru_keys := key # lru_keys c1, cache_entries := (key, e) # cache_entries c1\<rparr>))"

definition cache_lookup ::
  "ResultReplayCache \<Rightarrow> string \<Rightarrow> int \<Rightarrow> ResultReplayCache \<times> PublishEnvelope option"
where
  "cache_lookup c key now =
     (case map_of (cache_entries c) key of
        None \<Rightarrow> (c, None)
      | Some e \<Rightarrow>
          if is_expired_locked e now then (drop_entry c key, None)
          else (touch_lru_locked c key, Some (ce_envelope e)))"

definition cache_erase :: "ResultReplayCache \<Rightarrow> string \<Rightarrow> ResultReplayCache \<times> bool" where
  "cache_erase c key =
     (if map_of (cache_entries c) key = None then (c, False) else (drop_entry c key, True))"

text \<open>One pass over the entries, which have pairwise different keys; one clock reading per entry.\<close>

fun evict_expired_from ::
  "(string \<times> CacheEntry \<times> int) list \<Rightarrow> ResultReplayCache \<Rightarrow> ResultReplayCache \<times> nat"
where
  "evict_expired_from [] c = (c, 0)"
| "evict_expired_from ((key, e, now) # es) c =
     (if is_expired_locked e now then
        (case evict_expired_from es (drop_entry c key) of (c', n) \<Rightarrow> (c', Suc n))
      else evict_expired_from es c)"

definition cache_evict_expired :: "ResultReplayCache \<Rightarrow> int \<Rightarrow> ResultReplayCache \<times> nat" where
  "cache_evict_expired c now =
     evict_expired_from (map (\<lambda>(k, e). (k, e, now)) (cache_entries c)) c"

definition cache_size :: "ResultReplayCache \<Rightarrow> nat" where
  "cache_size c = length (cache_entries c)"

section \<open>The recency list\<close>

type_synonym recency = "(string \<times> CacheEntry) list"

definition recency_of :: "ResultReplayCache \<Rightarrow> recency" where
  "recency_of c = map (\<lambda>k. (k, the (map_of (cache_entries c) k))) (lru_keys c)"

definition keys_ok :: "ResultReplayCache \<Rightarrow> bool" where
  "keys_ok c \<longleftrightarrow>
     distinct (lru_keys c) \<and> distinct (map fst (cache_entries c)) \<and>
     set (lru_keys c) = fst ` set (cache_entries c)"

definition cache_inv :: "ResultReplayCache \<Rightarrow> bool" where
  "cache_inv c \<longleftrightarrow>
     keys_ok c \<and> length (cache_entries c) \<le> cache_capacity c \<and> 0 < cache_capacity c"

definition without :: "string \<Rightarrow> recency \<Rightarrow> recency" where
  "without key l = filter (\<lambda>(k, e). k \<noteq> key) l"

datatype CacheCall =
    Cc_Put string PublishEnvelope int
  | Cc_Lookup string int
  | Cc_Erase string
  | Cc_Evict int

datatype CacheAnswer =
    Ca_Done | Ca_Found "PublishEnvelope option" | Ca_Erased bool | Ca_Evicted nat

fun cache_step :: "ResultReplayCache \<Rightarrow> CacheCall \<Rightarrow> (ResultReplayCache \<times> CacheAnswer) option" where
  "cache_step c (Cc_Put key envelope now) = map_option (\<lambda>c'. (c', Ca_Done)) (cache_put c key envelope now)"
| "cache_step c (Cc_Lookup key now) = (case cache_lookup c key now of (c', v) \<Rightarrow> Some (c', Ca_Found v))"
| "cache_step c (Cc_Erase key) = (case cache_erase c key of (c', b) \<Rightarrow> Some (c', Ca_Erased b))"
| "cache_step c (Cc_Evict now) = (case cache_evict_expired c now of (c', n) \<Rightarrow> Some (c', Ca_Evicted n))"

fun recency_step :: "nat \<Rightarrow> int \<Rightarrow> recency \<Rightarrow> CacheCall \<Rightarrow> recency \<times> CacheAnswer" where
  "recency_step capacity ttl l (Cc_Put key envelope now) =
     (take capacity
        ((key, \<lparr>ce_envelope = envelope, ce_expires_at = now + ttl * 1000000\<rparr>) # without key l),
      Ca_Done)"
| "recency_step capacity ttl l (Cc_Lookup key now) =
     (case map_of l key of
        None \<Rightarrow> (l, Ca_Found None)
      | Some e \<Rightarrow>
          if now \<ge> ce_expires_at e then (without key l, Ca_Found None)
          else ((key, e) # without key l, Ca_Found (Some (ce_envelope e))))"
| "recency_step capacity ttl l (Cc_Erase key) = (without key l, Ca_Erased (map_of l key \<noteq> None))"
| "recency_step capacity ttl l (Cc_Evict now) =
     (filter (\<lambda>(k, e). now < ce_expires_at e) l,
      Ca_Evicted (length (filter (\<lambda>(k, e). now \<ge> ce_expires_at e) l)))"

section \<open>Refinement\<close>

lemma fst_set_delete: "fst ` set (AList.delete k m) = fst ` set m - {k}"
  by (metis delete_keys list.set_map set_removeAll)

lemma distinct_delete_keys: "distinct (map fst m) \<Longrightarrow> distinct (map fst (AList.delete k m))"
  by (rule distinct_delete)

lemma length_cache:
  assumes "keys_ok c"
  shows "length (lru_keys c) = length (cache_entries c)"
proof -
  have keys: "set (lru_keys c) = set (map fst (cache_entries c))" using assms by (simp add: keys_ok_def)
  have "length (lru_keys c) = card (set (lru_keys c))"
    using assms unfolding keys_ok_def by (metis distinct_card)
  also have "\<dots> = card (set (map fst (cache_entries c)))" by (simp only: keys)
  also have "\<dots> = length (map fst (cache_entries c))"
    using assms by (intro distinct_card) (simp add: keys_ok_def)
  finally show ?thesis by simp
qed

lemma recency_keys [simp]: "map fst (recency_of c) = lru_keys c" "length (recency_of c) = length (lru_keys c)"
  by (simp_all add: recency_of_def comp_def)

lemma recency_key_set [simp]: "fst ` set (recency_of c) = set (lru_keys c)"
  by (metis recency_keys(1) list.set_map)

lemma map_of_keyed: "map_of (map (\<lambda>k. (k, f k)) ks) key = (if key \<in> set ks then Some (f key) else None)"
  by (induction ks) auto

lemma map_of_recency:
  assumes "keys_ok c"
  shows "map_of (recency_of c) key = map_of (cache_entries c) key"
proof (cases "map_of (cache_entries c) key")
  case None
  then have "key \<notin> set (lru_keys c)" using assms by (simp add: map_of_eq_None_iff keys_ok_def)
  with None show ?thesis by (simp add: recency_of_def map_of_keyed)
next
  case (Some e)
  then have "key \<in> set (lru_keys c)" using assms by (force simp: keys_ok_def dest: map_of_SomeD)
  with Some show ?thesis by (simp add: recency_of_def map_of_keyed)
qed

lemma remove1_distinct: "distinct ks \<Longrightarrow> remove1 k ks = filter (\<lambda>x. x \<noteq> k) ks"
  by (simp add: distinct_remove1_removeAll removeAll_filter_not_eq) (metis (mono_tags, lifting))

lemma drop_entry_recency:
  assumes "keys_ok c"
  shows "recency_of (drop_entry c key) = without key (recency_of c)"
  using assms
  by (auto simp: keys_ok_def recency_of_def drop_entry_def without_def remove1_distinct filter_map comp_def
      delete_conv')

lemma drop_entry_frame [simp]:
  "cache_capacity (drop_entry c key) = cache_capacity c" "cache_ttl (drop_entry c key) = cache_ttl c"
  by (simp_all add: drop_entry_def)

lemma drop_entry_keys: "keys_ok c \<Longrightarrow> keys_ok (drop_entry c key)"
  by (auto simp: keys_ok_def drop_entry_def distinct_delete_keys fst_set_delete remove1_distinct)

lemma drop_entry_inv: "cache_inv c \<Longrightarrow> cache_inv (drop_entry c key)"
  using length_delete_le [of key "cache_entries c"] drop_entry_keys [of c key]
  by (auto simp: cache_inv_def drop_entry_def)

lemma evict_takes:
  assumes "keys_ok c"
  shows "\<exists>c'. evict_if_needed_locked c = Some c' \<and> keys_ok c' \<and>
           recency_of c' = take (cache_capacity c) (recency_of c) \<and>
           cache_capacity c' = cache_capacity c \<and> cache_ttl c' = cache_ttl c \<and>
           length (cache_entries c') \<le> cache_capacity c"
  using assms
proof (induction c rule: evict_if_needed_locked.induct)
  case (1 c)
  show ?case
  proof (cases "length (cache_entries c) > cache_capacity c")
    case False
    with 1(2) length_cache [OF 1(2)] show ?thesis
      by (subst evict_if_needed_locked.simps) simp
  next
    case True
    then have ne: "lru_keys c \<noteq> []" using length_cache [OF 1(2)] by auto
    let ?k = "last (lru_keys c)"
    let ?c = "c\<lparr>cache_entries := AList.delete ?k (cache_entries c), lru_keys := butlast (lru_keys c)\<rparr>"
    have keys: "lru_keys c = butlast (lru_keys c) @ [?k]" using ne by simp
    then have k: "?k \<notin> set (butlast (lru_keys c))"
      using 1(2) unfolding keys_ok_def by (metis distinct_append not_distinct_conv_prefix)
    have "set (butlast (lru_keys c)) = set (lru_keys c) - {?k}"
      using k by (subst (2) keys) auto
    then have ok: "keys_ok ?c"
      using 1(2) by (simp add: keys_ok_def distinct_butlast distinct_delete_keys fst_set_delete)
    have "recency_of ?c = butlast (recency_of c)"
      using k by (auto simp: recency_of_def map_butlast [symmetric] delete_conv')
    moreover have "take (cache_capacity c) (butlast (recency_of c)) = take (cache_capacity c) (recency_of c)"
      using True length_cache [OF 1(2)] by (simp add: take_butlast)
    ultimately show ?thesis
      using 1(1) [OF True ne ok] True ne by (subst evict_if_needed_locked.simps) simp
  qed
qed

lemma keys_ok_front:
  "keys_ok c \<Longrightarrow> key \<notin> set (lru_keys c) \<Longrightarrow>
     keys_ok (c\<lparr>lru_keys := key # lru_keys c, cache_entries := (key, e) # cache_entries c\<rparr>)"
  by (auto simp: keys_ok_def)

lemma recency_front:
  "key \<notin> set (lru_keys c) \<Longrightarrow>
     recency_of (c\<lparr>lru_keys := key # lru_keys c, cache_entries := (key, e) # cache_entries c\<rparr>) =
       (key, e) # recency_of c"
  by (auto simp: recency_of_def)

lemma without_absent: "key \<notin> fst ` set l \<Longrightarrow> without key l = l"
  unfolding without_def by (rule filter_True) force

lemma put_refines:
  assumes "cache_inv c"
  shows "\<exists>c'. cache_put c key envelope now = Some c' \<and> cache_inv c' \<and>
           cache_capacity c' = cache_capacity c \<and> cache_ttl c' = cache_ttl c \<and>
           recency_of c' = fst (recency_step (cache_capacity c) (cache_ttl c) (recency_of c) (Cc_Put key envelope now))"
proof -
  let ?e = "\<lparr>ce_envelope = envelope, ce_expires_at = now + cache_ttl c * 1000000\<rparr>"
  let ?c = "if map_of (cache_entries c) key \<noteq> None then drop_entry c key else c"
  have ok: "keys_ok c" using assms by (simp add: cache_inv_def)
  have absent: "key \<notin> set (lru_keys ?c)"
    using ok by (auto simp: keys_ok_def drop_entry_def map_of_eq_None_iff remove1_distinct)
  have keys: "keys_ok ?c" using ok drop_entry_keys by simp
  have rec: "recency_of ?c = without key (recency_of c)"
  proof (cases "map_of (cache_entries c) key")
    case None
    then have "key \<notin> fst ` set (recency_of c)"
      using ok by (simp add: map_of_eq_None_iff keys_ok_def)
    with None show ?thesis by (simp add: without_absent)
  qed (simp add: drop_entry_recency [OF ok])
  have frame: "cache_capacity ?c = cache_capacity c" "cache_ttl ?c = cache_ttl c" by simp_all
  from evict_takes [OF keys_ok_front [OF keys absent, of ?e]] assms show ?thesis
    unfolding cache_put_def Let_def recency_front [OF absent] rec
    by (auto simp: cache_inv_def frame)
qed

lemma touch_refines:
  assumes "cache_inv c" and "map_of (cache_entries c) key = Some e"
  shows "cache_inv (touch_lru_locked c key) \<and>
         recency_of (touch_lru_locked c key) = (key, e) # without key (recency_of c)"
proof -
  have ok: "keys_ok c" using assms by (simp add: cache_inv_def)
  have "key \<in> set (lru_keys c)" using ok assms(2) by (force simp: keys_ok_def dest: map_of_SomeD)
  with assms ok show ?thesis
    by (auto simp: cache_inv_def keys_ok_def touch_lru_locked_def recency_of_def without_def
        remove1_distinct filter_map comp_def)
qed

lemma evict_from_refines:
  assumes "cache_inv c" and "distinct (map fst es)"
    and "\<forall>(k, e, t)\<in>set es. t = now \<and> map_of (cache_entries c) k = Some e"
    and "evict_expired_from es c = (c', n)"
  shows "cache_inv c' \<and> cache_capacity c' = cache_capacity c \<and> cache_ttl c' = cache_ttl c \<and>
         recency_of c' = filter (\<lambda>(k, e). k \<notin> fst ` set es \<or> now < ce_expires_at e) (recency_of c) \<and>
         n = length (filter (\<lambda>(k, e, t). now \<ge> ce_expires_at e) es)"
  using assms
proof (induction es arbitrary: c c' n)
  case Nil
  then show ?case by (simp add: split_def)
next
  case (Cons x es)
  obtain key e t where x: "x = (key, e, t)" by (cases x)
  have t: "t = now" and e: "map_of (cache_entries c) key = Some e" using Cons.prems(3) x by auto
  have ok: "keys_ok c" using Cons.prems(1) by (simp add: cache_inv_def)
  have val: "v = e" if "(key, v) \<in> set (recency_of c)" for v
    using that e map_of_recency [OF ok, of key] ok
    by (auto simp: recency_of_def)
  have rest: "filter (\<lambda>(k, v). k \<notin> fst ` set es \<or> now < ce_expires_at v) (recency_of (if now \<ge> ce_expires_at e
        then drop_entry c key else c)) =
      filter (\<lambda>(k, v). k \<notin> fst ` set (x # es) \<or> now < ce_expires_at v) (recency_of c)"
  proof (cases "now \<ge> ce_expires_at e")
    case True
    have "filter (\<lambda>y. (case y of (k, v) \<Rightarrow> k \<notin> fst ` set es \<or> now < ce_expires_at v) \<and>
          (case y of (k, v) \<Rightarrow> k \<noteq> key)) (recency_of c) =
        filter (\<lambda>(k, v). k \<notin> fst ` set (x # es) \<or> now < ce_expires_at v) (recency_of c)"
    proof (rule filter_cong [OF refl])
      fix y
      assume "y \<in> set (recency_of c)"
      with val True x show "((case y of (k, v) \<Rightarrow> k \<notin> fst ` set es \<or> now < ce_expires_at v) \<and>
          (case y of (k, v) \<Rightarrow> k \<noteq> key)) =
          (case y of (k, v) \<Rightarrow> k \<notin> fst ` set (x # es) \<or> now < ce_expires_at v)"
        by (cases y; cases "fst y = key") auto
    qed
    with True show ?thesis by (simp add: drop_entry_recency [OF ok] without_def filter_filter conj_commute)
  next
    case False
    have "filter (\<lambda>(k, v). k \<notin> fst ` set es \<or> now < ce_expires_at v) (recency_of c) =
        filter (\<lambda>(k, v). k \<notin> fst ` set (x # es) \<or> now < ce_expires_at v) (recency_of c)"
    proof (rule filter_cong [OF refl])
      fix y
      assume "y \<in> set (recency_of c)"
      with val False x show "(case y of (k, v) \<Rightarrow> k \<notin> fst ` set es \<or> now < ce_expires_at v) =
          (case y of (k, v) \<Rightarrow> k \<notin> fst ` set (x # es) \<or> now < ce_expires_at v)"
        by (cases y; cases "fst y = key") auto
    qed
    with False show ?thesis by simp
  qed
  show ?case
  proof (cases "now \<ge> ce_expires_at e")
    case True
    obtain m where m: "evict_expired_from es (drop_entry c key) = (c', m)" "n = Suc m"
      using Cons.prems(4) True x t by (auto simp: is_expired_locked_def split: prod.splits)
    have "\<forall>(k, e, t)\<in>set es. t = now \<and> map_of (cache_entries (drop_entry c key)) k = Some e"
    proof (intro ballI, clarify)
      fix k e' t'
      assume y: "(k, e', t') \<in> set es"
      then have "k \<noteq> key" using Cons.prems(2) x by force
      moreover have "t' = now" "map_of (cache_entries c) k = Some e'" using Cons.prems(3) y by auto
      ultimately show "t' = now \<and> map_of (cache_entries (drop_entry c key)) k = Some e'"
        by (simp add: drop_entry_def delete_conv')
    qed
    note ih = Cons.IH [OF drop_entry_inv [OF Cons.prems(1)] _ this m(1)]
    have "recency_of c' = filter (\<lambda>(k, v). k \<notin> fst ` set (x # es) \<or> now < ce_expires_at v) (recency_of c)"
      using ih Cons.prems(2) unfolding rest [symmetric] if_P [OF True] by simp
    moreover have "n = length (filter (\<lambda>(k, e, t). now \<ge> ce_expires_at e) (x # es))"
      using ih Cons.prems(2) m(2) True x by simp
    ultimately show ?thesis using ih Cons.prems(2) by (simp only: drop_entry_frame) simp
  next
    case False
    have "evict_expired_from es c = (c', n)"
      using Cons.prems(4) False x t by (simp add: is_expired_locked_def)
    note ih = Cons.IH [OF Cons.prems(1) _ _ this]
    have "recency_of c' = filter (\<lambda>(k, v). k \<notin> fst ` set (x # es) \<or> now < ce_expires_at v) (recency_of c)"
      using ih Cons.prems(2,3) unfolding rest [symmetric] if_not_P [OF False] by simp
    moreover have "n = length (filter (\<lambda>(k, e, t). now \<ge> ce_expires_at e) (x # es))"
      using ih Cons.prems(2,3) False x by simp
    ultimately show ?thesis using ih Cons.prems(2,3) by (intro conjI) simp_all
  qed
qed

lemma recency_set:
  assumes "keys_ok c"
  shows "set (recency_of c) = set (cache_entries c)"
proof -
  have "x \<in> set (recency_of c) \<longleftrightarrow> x \<in> set (cache_entries c)" for x
    using assms map_of_recency [OF assms, of "fst x"]
      map_of_eq_Some_iff [of "recency_of c" "fst x" "snd x"] map_of_eq_Some_iff [of "cache_entries c" "fst x" "snd x"]
    by (simp add: keys_ok_def)
  then show ?thesis by blast
qed

lemma recency_count:
  assumes "keys_ok c"
  shows "length (filter P (cache_entries c)) = length (filter P (recency_of c))"
proof -
  have "distinct (recency_of c)" "distinct (cache_entries c)"
    using assms recency_keys(1) [of c] by (metis distinct_map keys_ok_def)+
  then have "length (filter P (cache_entries c)) = card {x \<in> set (cache_entries c). P x}"
    "length (filter P (recency_of c)) = card {x \<in> set (recency_of c). P x}"
    by (metis distinct_card distinct_filter set_filter)+
  then show ?thesis using recency_set [OF assms] by simp
qed

lemma evict_refines:
  assumes "cache_inv c" and "cache_evict_expired c now = (c', n)"
  shows "cache_inv c' \<and> cache_capacity c' = cache_capacity c \<and> cache_ttl c' = cache_ttl c \<and>
         recency_of c' = filter (\<lambda>(k, e). now < ce_expires_at e) (recency_of c) \<and>
         n = length (filter (\<lambda>(k, e). now \<ge> ce_expires_at e) (recency_of c))"
proof -
  let ?es = "map (\<lambda>(k, e). (k, e, now)) (cache_entries c)"
  have ok: "keys_ok c" using assms(1) by (simp add: cache_inv_def)
  have keys: "map fst ?es = map fst (cache_entries c)" by (simp add: comp_def split_def)
  have "\<forall>(k, e, t)\<in>set ?es. t = now \<and> map_of (cache_entries c) k = Some e"
    using ok by (auto simp: keys_ok_def)
  moreover have "distinct (map fst ?es)" using ok unfolding keys keys_ok_def by simp
  ultimately have r: "cache_inv c' \<and> cache_capacity c' = cache_capacity c \<and> cache_ttl c' = cache_ttl c \<and>
      recency_of c' = filter (\<lambda>(k, e). k \<notin> fst ` set ?es \<or> now < ce_expires_at e) (recency_of c) \<and>
      n = length (filter (\<lambda>(k, e, t). now \<ge> ce_expires_at e) ?es)"
    using evict_from_refines [OF assms(1)] assms(2) unfolding cache_evict_expired_def by blast
  have "fst ` set ?es = fst ` set (recency_of c)"
    using ok keys by (metis keys_ok_def list.set_map recency_key_set)
  then have "filter (\<lambda>(k, e). k \<notin> fst ` set ?es \<or> now < ce_expires_at e) (recency_of c) =
      filter (\<lambda>(k, e). now < ce_expires_at e) (recency_of c)"
    by (intro filter_cong [OF refl]) (force simp del: recency_key_set)
  moreover have "length (filter (\<lambda>(k, e, t). now \<ge> ce_expires_at e) ?es) =
      length (filter (\<lambda>(k, e). now \<ge> ce_expires_at e) (cache_entries c))"
    by (simp add: filter_map comp_def split_def)
  ultimately show ?thesis using r recency_count [OF ok] by simp
qed

lemma refines_step:
  assumes "cache_inv c"
  shows "\<exists>c' answer. cache_step c call = Some (c', answer) \<and> cache_inv c' \<and>
           cache_size c' \<le> cache_capacity c \<and> cache_capacity c' = cache_capacity c \<and> cache_ttl c' = cache_ttl c \<and>
           recency_step (cache_capacity c) (cache_ttl c) (recency_of c) call = (recency_of c', answer)"
proof -
  have ok: "keys_ok c" using assms by (simp add: cache_inv_def)
  have size: "cache_size d \<le> cache_capacity c" if "cache_inv d" "cache_capacity d = cache_capacity c" for d
    using that by (simp add: cache_inv_def cache_size_def)
  show ?thesis
  proof (cases call)
    case (Cc_Put key envelope now)
    with put_refines [OF assms, of key envelope now] size show ?thesis by auto
  next
    case (Cc_Lookup key now)
    show ?thesis
    proof (cases "map_of (cache_entries c) key")
      case None
      with Cc_Lookup assms size [OF assms] show ?thesis
        by (simp add: cache_lookup_def map_of_recency [OF ok])
    next
      case (Some e)
      note touch = touch_refines [OF assms Some]
      have "cache_capacity (touch_lru_locked c key) = cache_capacity c" "cache_ttl (touch_lru_locked c key) = cache_ttl c"
        by (simp_all add: touch_lru_locked_def)
      with Cc_Lookup Some touch drop_entry_inv [OF assms] drop_entry_recency [OF ok] size show ?thesis
        by (simp add: cache_lookup_def map_of_recency [OF ok] is_expired_locked_def)
    qed
  next
    case (Cc_Erase key)
    have "without key (recency_of c) = recency_of c" if "map_of (cache_entries c) key = None"
      using that ok by (intro without_absent) (simp add: map_of_eq_None_iff keys_ok_def)
    with Cc_Erase assms drop_entry_inv [OF assms] drop_entry_recency [OF ok] size show ?thesis
      by (auto simp: cache_erase_def map_of_recency [OF ok])
  next
    case (Cc_Evict now)
    obtain c' n where e: "cache_evict_expired c now = (c', n)" by fastforce
    from evict_refines [OF assms e] Cc_Evict e size show ?thesis by auto
  qed
qed

text \<open>
  C31. The cache is a recency list: every call is defined, answers as the recency list does and
  changes it the same way - a put moves its key to the front and drops the least recently used
  entries beyond the capacity, a hit moves its key to the front, an expired entry is dropped -
  and the number of entries stays within the capacity.
\<close>

theorem replay_cache_refines_recency:
  assumes "cache_inv c"
  shows "\<exists>c' answer. cache_step c call = Some (c', answer) \<and> cache_inv c' \<and>
           cache_size c' \<le> cache_capacity c \<and> cache_capacity c' = cache_capacity c \<and> cache_ttl c' = cache_ttl c \<and>
           recency_step (cache_capacity c) (cache_ttl c) (recency_of c) call = (recency_of c', answer)"
  by (rule refines_step [OF assms])

interpretation replay_cache: machine "\<lambda>c call. map_option fst (cache_step c call)" cache_inv "\<lambda>_. True"
proof unfold_locales
  fix c call
  assume "cache_inv c"
  obtain c' a where "cache_step c call = Some (c', a)" "cache_inv c'"
    using refines_step [OF \<open>cache_inv c\<close>] by blast
  then show "\<exists>t. map_option fst (cache_step c call) = Some t" by simp
next
  fix c call d
  assume "cache_inv c" and "map_option fst (cache_step c call) = Some d"
  moreover obtain c' a where "cache_step c call = Some (c', a)" "cache_inv c'"
    using refines_step [OF \<open>cache_inv c\<close>] by blast
  ultimately show "cache_inv d" by simp
qed

lemma new_cache_inv: "cache_inv (new_replay_cache capacity ttl)" "recency_of (new_replay_cache capacity ttl) = []"
  by (simp_all add: cache_inv_def keys_ok_def new_replay_cache_def recency_of_def)

definition sample_envelope :: "string \<Rightarrow> PublishEnvelope" where
  "sample_envelope payload =
     \<lparr>pe_request_id = [], pe_result_id = [], pe_session_id = [], pe_trace_id = [], channel_ref = [],
      protocol_kind = ''ipc_uds'', pe_agent_result = None, protocol_status_hint = ''200'',
      protocol_metadata = [], is_final = True, pe_payload = payload, pe_receipt = None\<rparr>"

theorem replay_cache_refines_recency_witness:
  "\<exists>c' answer. cache_step (new_replay_cache 1 1) (Cc_Put ''k'' (sample_envelope ''x'') 0) = Some (c', answer) \<and>
     recency_of c' = [(''k'', \<lparr>ce_envelope = sample_envelope ''x'', ce_expires_at = 1000000\<rparr>)]"
proof -
  have "cache_capacity (new_replay_cache 1 1) = 1" "cache_ttl (new_replay_cache 1 1) = 1"
    by (simp_all add: new_replay_cache_def)
  with replay_cache_refines_recency [OF new_cache_inv(1) [of 1 1], of "Cc_Put ''k'' (sample_envelope ''x'') 0"]
  show ?thesis by (auto simp: new_cache_inv(2) without_def)
qed

end
