(* ===== verification/Memory_Types.thy ===== *)
theory Memory_Types
  imports Contract_Guards
begin

text \<open>
  The data of the memory layer: the session, turn, summary, fact and experience contracts of
  \<^verbatim>\<open>contracts/include/memory\<close>, the context packet with its request and result
  (\<^verbatim>\<open>contracts/include/context\<close>), working memory slots, vector hits, the candidate set the
  context is assembled from, and the projections of the summary. One record per struct.
\<close>

section \<open>Stored memory objects\<close>

record Session =
  sess_session_id :: "string option"
  sess_turn_ids :: "string list option"
  sess_user_id :: "string option"
  sess_latest_summary_memory_ref :: "string option"
  sess_metadata_digest :: "string option"
  sess_created_at :: "int option"
  sess_last_active_at :: "int option"
  sess_tags :: "string list option"

record Turn =
  turn_turn_id :: "string option"
  turn_session_id :: "string option"
  turn_user_input :: "string option"
  turn_agent_response :: "string option"
  turn_tool_call_refs :: "string list option"
  turn_observation_refs :: "string list option"
  turn_summary_memory_ref :: "string option"
  turn_created_at :: "int option"
  turn_tags :: "string list option"

record SummaryMemory =
  sum_summary_id :: "string option"
  sum_session_id :: "string option"
  sum_summary_text :: "string option"
  sum_source_turn_ids :: "string list option"
  sum_decisions_made :: "string list option"
  sum_confirmed_facts :: "string list option"
  sum_tool_outcomes :: "string list option"
  sum_created_at :: "int option"
  sum_tags :: "string list option"

record MemoryFact =
  fact_fact_id :: "string option"
  fact_session_id :: "string option"
  fact_fact_text :: "string option"
  fact_source_turn_ids :: "string list option"
  fact_confidence_score :: "u32 option"
  fact_created_at :: "int option"
  fact_fact_type :: "string option"
  fact_source_observation_refs :: "string list option"
  fact_valid_until :: "int option"
  fact_superseded_by_fact_id :: "string option"
  fact_evidence_digest :: "string option"
  fact_tags :: "string list option"

record ExperienceMemory =
  exp_experience_id :: "string option"
  exp_session_id :: "string option"
  exp_lesson_summary :: "string option"
  exp_trigger_condition :: "string option"
  exp_recommended_action :: "string option"
  exp_created_at :: "int option"
  exp_source_fact_ids :: "string list option"
  exp_source_turn_ids :: "string list option"
  exp_effectiveness_score :: "u32 option"
  exp_applicable_domains :: "string list option"
  exp_risk_notes :: "string option"
  exp_expires_at :: "int option"
  exp_superseded_by_experience_id :: "string option"
  exp_tags :: "string list option"

section \<open>Working memory, vector hits and candidates\<close>

record WorkingMemorySlot =
  slot_key :: string
  slot_value :: string
  slot_updated_at :: int
  slot_ttl_ms :: int
  slot_source :: string

record WorkingMemorySnapshot =
  snap_session_id :: string
  snap_slots :: "WorkingMemorySlot list"
  snap_open_questions :: "string list"
  snap_ephemeral_facts :: "string list"
  snap_at :: int

text \<open>The score of a hit is a \<^verbatim>\<open>float\<close>; it is finite, since a NaN breaks the sort of the code.\<close>

record VectorHit =
  hit_doc_id :: string
  hit_doc_type :: string
  hit_score :: rat
  hit_text_snippet :: string

record SessionLoadBundle =
  bundle_session :: Session
  bundle_recent_turns :: "Turn list"
  bundle_total_turn_count :: int

record CandidateSet =
  cand_working_snapshot :: WorkingMemorySnapshot
  cand_session_bundle :: SessionLoadBundle
  cand_latest_summary :: "SummaryMemory option"
  cand_relevant_facts :: "MemoryFact list"
  cand_relevant_experiences :: "ExperienceMemory list"
  cand_external_evidence :: "string list"
  cand_vector_hits :: "VectorHit list"
  cand_warnings :: "string list"
  cand_estimated_total_tokens :: int

section \<open>Context packets\<close>

record InputSafetySignal =
  injection_detected :: bool
  pii_detected :: bool
  reason_codes :: "string list"

definition signal_has_consistent_values :: "InputSafetySignal \<Rightarrow> bool" where [guard_defs]:
  "signal_has_consistent_values signal \<longleftrightarrow> list_all (\<lambda>c. \<not> empty_string c) (reason_codes signal)"

record RetrievalEvidenceRef =
  evidence_ref :: string
  evidence_source_ref :: string
  evidence_source_kind :: string
  evidence_summary_text :: string
  evidence_trust_level :: string
  evidence_freshness :: string
  evidence_anchor_locator :: "string option"

definition ref_has_consistent_values :: "RetrievalEvidenceRef \<Rightarrow> bool" where
  "ref_has_consistent_values r \<longleftrightarrow>
     \<not> (empty_string (evidence_ref r) \<or> empty_string (evidence_source_ref r) \<or>
        empty_string (evidence_source_kind r) \<or> empty_string (evidence_summary_text r) \<or>
        empty_string (evidence_trust_level r) \<or> empty_string (evidence_freshness r)) \<and>
     \<not> present_but_empty (evidence_anchor_locator r)"

record ContextPacket =
  pkt_request_id :: "string option"
  pkt_user_turn :: "string option"
  pkt_current_goal_summary :: "string option"
  pkt_recent_history :: "string list option"
  pkt_summary_memory :: "string option"
  pkt_retrieval_evidence :: "string list option"
  pkt_retrieval_evidence_refs :: "RetrievalEvidenceRef list option"
  pkt_latest_observation_digest_summary :: "string option"
  pkt_active_tools :: "string list option"
  pkt_policy_digest :: "string option"
  pkt_input_safety_signal :: "InputSafetySignal option"
  pkt_token_budget_report :: "string option"
  pkt_belief_state_summary :: "string option"
  pkt_created_at :: "int option"
  pkt_tags :: "string list option"

definition empty_packet :: ContextPacket where
  "empty_packet = \<lparr>pkt_request_id = None, pkt_user_turn = None, pkt_current_goal_summary = None,
     pkt_recent_history = None, pkt_summary_memory = None, pkt_retrieval_evidence = None,
     pkt_retrieval_evidence_refs = None, pkt_latest_observation_digest_summary = None,
     pkt_active_tools = None, pkt_policy_digest = None, pkt_input_safety_signal = None,
     pkt_token_budget_report = None, pkt_belief_state_summary = None, pkt_created_at = None,
     pkt_tags = None\<rparr>"

record ContextAssembleRequest =
  req_request_id :: string
  req_session_id :: string
  req_trace_id :: string
  req_stage :: string
  req_user_turn :: string
  req_goal_summary :: string
  req_constraints_summary :: string
  req_latest_observation_digest_summary :: string
  req_visible_tools :: "string list"
  req_token_budget_hint :: int
  req_latency_budget_ms :: int
  req_external_evidence :: "string list"
  req_retrieval_evidence_refs :: "RetrievalEvidenceRef list"

text \<open>The result code of an assembly is never set by the code and is left out.\<close>

record ContextAssembleResult =
  res_context_packet :: ContextPacket
  res_dropped_sections :: "string list"
  res_compression_notes :: "string list"
  res_warnings :: "string list"
  res_degraded :: bool

section \<open>Summary projections\<close>

record SummaryProjection =
  proj_summary_text :: string
  proj_decisions_made :: "string list"
  proj_confirmed_facts :: "string list"
  proj_tool_outcomes :: "string list"
  proj_source_turn_ids :: "string list"
  proj_estimated_tokens :: int

definition empty_projection :: SummaryProjection where
  "empty_projection = \<lparr>proj_summary_text = [], proj_decisions_made = [], proj_confirmed_facts = [],
     proj_tool_outcomes = [], proj_source_turn_ids = [], proj_estimated_tokens = 0\<rparr>"

record CompressionInput =
  ci_session_id :: string
  ci_source_turns :: "Turn list"
  ci_existing_summary :: "SummaryMemory option"
  ci_target_token_budget :: int
  ci_materialize_latest_summary :: bool
  ci_strategy_hint :: string

record CompressionOutput =
  co_summary :: SummaryMemory
  co_projection :: SummaryProjection
  co_compression_notes :: "string list"
  co_compression_applied :: bool

record SummaryGenerationRequest =
  sg_session_id :: string
  sg_source_turns :: "Turn list"
  sg_existing_summary :: "SummaryMemory option"
  sg_target_token_budget :: int
  sg_strategy_hint :: string

record SummaryGenerationResult =
  sg_projection :: SummaryProjection
  sg_warnings :: "string list"
  sg_fallback_used :: bool
  sg_degraded :: bool

definition empty_summary :: SummaryMemory where
  "empty_summary = \<lparr>sum_summary_id = None, sum_session_id = None, sum_summary_text = None,
     sum_source_turn_ids = None, sum_decisions_made = None, sum_confirmed_facts = None,
     sum_tool_outcomes = None, sum_created_at = None, sum_tags = None\<rparr>"

definition empty_turn :: Turn where
  "empty_turn = \<lparr>turn_turn_id = None, turn_session_id = None, turn_user_input = None,
     turn_agent_response = None, turn_tool_call_refs = None, turn_observation_refs = None,
     turn_summary_memory_ref = None, turn_created_at = None, turn_tags = None\<rparr>"

definition empty_session :: Session where
  "empty_session = \<lparr>sess_session_id = None, sess_turn_ids = None, sess_user_id = None,
     sess_latest_summary_memory_ref = None, sess_metadata_digest = None, sess_created_at = None,
     sess_last_active_at = None, sess_tags = None\<rparr>"

section \<open>Token counts\<close>

text \<open>
  A token estimator is the interface \<^verbatim>\<open>ITokenEstimator\<close>: a function from a text to its number
  of tokens. The heuristic estimator of \<^verbatim>\<open>util/TokenEstimator.cpp\<close> counts four ASCII bytes as
  a token and every other character, by its lead byte, as two. Token counts are sums over
  texts that are in memory; they are unbounded integers in the model.
\<close>

type_synonym estimator = "string \<Rightarrow> int"

definition is_ascii_byte :: "char \<Rightarrow> bool" where
  "is_ascii_byte c \<longleftrightarrow> (of_char c :: u8) < 0x80"

definition starts_character :: "char \<Rightarrow> bool" where
  "starts_character c \<longleftrightarrow> and (of_char c :: u8) 0xC0 \<noteq> 0x80"

definition heuristic_estimate_text_tokens :: estimator where
  "heuristic_estimate_text_tokens s =
     (if empty_string s then 0
      else
        let ascii_bytes = int (length (filter is_ascii_byte s));
            multibyte_characters =
              int (length (filter (\<lambda>c. \<not> is_ascii_byte c \<and> starts_character c) s))
        in max 1 ((ascii_bytes + 3) div 4 + multibyte_characters * 2))"

definition optional_string_tokens :: "estimator \<Rightarrow> string option \<Rightarrow> int" where
  "optional_string_tokens est v = (case v of None \<Rightarrow> 0 | Some s \<Rightarrow> est s)"

definition string_vector_tokens :: "estimator \<Rightarrow> string list \<Rightarrow> int" where
  "string_vector_tokens est vs = sum_list (map est vs)"

definition optional_string_vector_tokens :: "estimator \<Rightarrow> string list option \<Rightarrow> int" where
  "optional_string_vector_tokens est v = (case v of None \<Rightarrow> 0 | Some vs \<Rightarrow> string_vector_tokens est vs)"

text \<open>An estimator never counts below zero; the heuristic one counts something for every text.\<close>

definition counts_tokens :: "estimator \<Rightarrow> bool" where
  "counts_tokens est \<longleftrightarrow> (\<forall>s. 0 \<le> est s)"

lemma heuristic_counts [simp]: "counts_tokens heuristic_estimate_text_tokens"
  by (auto simp: counts_tokens_def heuristic_estimate_text_tokens_def Let_def)

lemma string_vector_tokens_nonneg: "counts_tokens est \<Longrightarrow> 0 \<le> string_vector_tokens est vs"
  by (induction vs) (auto simp: counts_tokens_def string_vector_tokens_def)

lemma optional_tokens_nonneg:
  "counts_tokens est \<Longrightarrow> 0 \<le> optional_string_tokens est v"
  "counts_tokens est \<Longrightarrow> 0 \<le> optional_string_vector_tokens est w"
  by (auto simp: optional_string_tokens_def optional_string_vector_tokens_def counts_tokens_def
      string_vector_tokens_nonneg [unfolded counts_tokens_def] split: option.split)

section \<open>Lists of distinct strings\<close>

definition append_unique :: "'a list \<Rightarrow> 'a \<Rightarrow> 'a list" where
  "append_unique destination v = (if v \<in> set destination then destination else destination @ [v])"

definition append_all_unique :: "'a list \<Rightarrow> 'a list \<Rightarrow> 'a list" where
  "append_all_unique destination source = foldl append_unique destination source"

definition join_strings :: "string list \<Rightarrow> string \<Rightarrow> string" where
  "join_strings vs separator = concat (case vs of [] \<Rightarrow> [] | v # ws \<Rightarrow> v # map (\<lambda>w. separator @ w) ws)"

lemma set_append_unique [simp]: "set (append_unique xs v) = insert v (set xs)"
  by (auto simp: append_unique_def)

lemma distinct_append_unique [simp]: "distinct (append_unique xs v) = distinct xs"
  by (auto simp: append_unique_def)

lemma append_all_unique_simps [simp]:
  "append_all_unique xs [] = xs"
  "append_all_unique xs (v # vs) = append_all_unique (append_unique xs v) vs"
  by (simp_all add: append_all_unique_def)

lemma set_append_all_unique [simp]: "set (append_all_unique xs vs) = set xs \<union> set vs"
  by (induction vs arbitrary: xs) auto

lemma distinct_append_all_unique [simp]: "distinct (append_all_unique xs vs) = distinct xs"
  by (induction vs arbitrary: xs) auto

lemma append_all_unique_extends: "\<exists>ys. append_all_unique xs vs = xs @ ys"
proof (induction vs arbitrary: xs)
  case (Cons v vs)
  then obtain ys where "append_all_unique (append_unique xs v) vs = append_unique xs v @ ys"
    by blast
  then show ?case by (auto simp: append_unique_def)
qed simp

end
