(* ===== verification/Working_Memory.thy ===== *)
theory Working_Memory
  imports Memory_Types "HOL-Library.List_Lexorder" "HOL-Library.Product_Lexorder" "HOL-Library.Char_ord"
begin

text \<open>
  The working memory board, \<^verbatim>\<open>memory/src/working/WorkingMemoryBoard.cpp\<close>: per session a list of
  keyed slots with a time to live, bounded in number, with snapshots that can be restored. The
  board's mutex makes a method one step; the clock readings of a method are its arguments.
\<close>

section \<open>State\<close>

record SessionWorkingMemoryState =
  wm_slots :: "WorkingMemorySlot list"
  wm_open_questions :: "string list"
  wm_ephemeral_facts :: "string list"

definition empty_session_state :: SessionWorkingMemoryState where
  "empty_session_state = \<lparr>wm_slots = [], wm_open_questions = [], wm_ephemeral_facts = []\<rparr>"

record WorkingMemoryBoard =
  max_slots_per_session :: nat
  wm_sessions :: "string \<Rightarrow> SessionWorkingMemoryState option"

definition create_working_memory_board :: "nat \<Rightarrow> WorkingMemoryBoard" where
  "create_working_memory_board max_slots =
     \<lparr>max_slots_per_session = max 1 max_slots, wm_sessions = Map.empty\<rparr>"

section \<open>Expiry and eviction\<close>

definition is_expired :: "WorkingMemorySlot \<Rightarrow> int \<Rightarrow> bool" where
  "is_expired slot now_ms \<longleftrightarrow>
     \<not> (slot_ttl_ms slot \<le> 0 \<or> slot_updated_at slot \<le> 0) \<and>
     now_ms - slot_updated_at slot \<ge> slot_ttl_ms slot"

definition evict_expired_locked :: "int \<Rightarrow> SessionWorkingMemoryState \<Rightarrow> SessionWorkingMemoryState" where
  "evict_expired_locked now_ms state =
     state\<lparr>wm_slots := filter (\<lambda>slot. \<not> is_expired slot now_ms) (wm_slots state)\<rparr>"

text \<open>The comparator of the eviction: slots with a time to live first, then the older, then the key.\<close>

definition evicted_before :: "WorkingMemorySlot \<Rightarrow> WorkingMemorySlot \<Rightarrow> bool" where
  "evicted_before left right =
     (let left_has_ttl = slot_ttl_ms left > 0; right_has_ttl = slot_ttl_ms right > 0
      in if left_has_ttl \<noteq> right_has_ttl then left_has_ttl
         else if slot_updated_at left \<noteq> slot_updated_at right then
           slot_updated_at left < slot_updated_at right
         else slot_key left < slot_key right)"

text \<open>\<^verbatim>\<open>std::min_element\<close>: the first element that no other precedes.\<close>

fun min_slot :: "WorkingMemorySlot \<Rightarrow> WorkingMemorySlot list \<Rightarrow> WorkingMemorySlot" where
  "min_slot smallest [] = smallest"
| "min_slot smallest (s # slots) = min_slot (if evicted_before s smallest then s else smallest) slots"

definition eviction_candidate :: "WorkingMemorySlot list \<Rightarrow> WorkingMemorySlot" where
  "eviction_candidate slots = min_slot (hd slots) (tl slots)"

lemma min_slot_in: "min_slot s slots \<in> insert s (set slots)"
proof (induction slots arbitrary: s)
  case (Cons u slots)
  show ?case using Cons [of s] Cons [of u] by auto
qed simp

lemma eviction_candidate_in: "slots \<noteq> [] \<Longrightarrow> eviction_candidate slots \<in> set slots"
  using min_slot_in [of "hd slots" "tl slots"] by (cases slots) (simp_all add: eviction_candidate_def)

function trim_slots_to :: "nat \<Rightarrow> WorkingMemorySlot list \<Rightarrow> WorkingMemorySlot list" where
  "trim_slots_to max_slots slots =
     (if max_slots < length slots then trim_slots_to max_slots (remove1 (eviction_candidate slots) slots)
      else slots)"
  by pat_completeness auto
termination trim_slots_to
  by (relation "measure (\<lambda>(max_slots, slots). length slots)")
    (auto simp: length_remove1 intro: eviction_candidate_in)

declare trim_slots_to.simps [simp del]

definition trim_slots_locked :: "nat \<Rightarrow> SessionWorkingMemoryState \<Rightarrow> SessionWorkingMemoryState" where
  "trim_slots_locked max_slots state = state\<lparr>wm_slots := trim_slots_to max_slots (wm_slots state)\<rparr>"

section \<open>Operations\<close>

definition same_key :: "string \<Rightarrow> WorkingMemorySlot \<Rightarrow> bool" where
  "same_key key slot \<longleftrightarrow> slot_key slot = key"

text \<open>Assignment through the iterator to the slot of the key, or an append.\<close>

fun upsert_slot :: "WorkingMemorySlot \<Rightarrow> WorkingMemorySlot list \<Rightarrow> WorkingMemorySlot list" where
  "upsert_slot slot [] = [slot]"
| "upsert_slot slot (s # slots) =
     (if same_key (slot_key slot) s then slot # slots else s # upsert_slot slot slots)"

definition stamped :: "int \<Rightarrow> WorkingMemorySlot \<Rightarrow> WorkingMemorySlot" where
  "stamped now_ms slot =
     (if slot_updated_at slot \<le> 0 then slot\<lparr>slot_updated_at := now_ms\<rparr> else slot)"

definition session_state :: "WorkingMemoryBoard \<Rightarrow> string \<Rightarrow> SessionWorkingMemoryState" where
  "session_state board session_id = value_or (wm_sessions board session_id) empty_session_state"

definition put_session ::
    "WorkingMemoryBoard \<Rightarrow> string \<Rightarrow> SessionWorkingMemoryState \<Rightarrow> WorkingMemoryBoard" where
  "put_session board session_id state =
     board\<lparr>wm_sessions := (wm_sessions board)(session_id \<mapsto> state)\<rparr>"

definition drop_session :: "WorkingMemoryBoard \<Rightarrow> string \<Rightarrow> WorkingMemoryBoard" where
  "drop_session board session_id = board\<lparr>wm_sessions := (wm_sessions board)(session_id := None)\<rparr>"

definition erase_session_if_empty_locked ::
    "WorkingMemoryBoard \<Rightarrow> string \<Rightarrow> SessionWorkingMemoryState \<Rightarrow> WorkingMemoryBoard" where
  "erase_session_if_empty_locked board session_id state =
     (if wm_slots state \<noteq> [] \<or> wm_open_questions state \<noteq> [] \<or> wm_ephemeral_facts state \<noteq> []
      then put_session board session_id state
      else drop_session board session_id)"

text \<open>
  \<open>stamp_ms\<close> is the clock when the slot is normalised, \<open>now_ms\<close> when expired slots are evicted.
\<close>

definition set_slot ::
    "WorkingMemoryBoard \<Rightarrow> string \<Rightarrow> WorkingMemorySlot \<Rightarrow> int \<Rightarrow> int \<Rightarrow> WorkingMemoryBoard" where
  "set_slot board session_id slot stamp_ms now_ms =
     (if empty_string session_id \<or> empty_string (slot_key slot) then board
      else
        let state = session_state board session_id;
            state = state\<lparr>wm_slots := upsert_slot (stamped stamp_ms slot) (wm_slots state)\<rparr>;
            state = evict_expired_locked now_ms state;
            state = trim_slots_locked (max_slots_per_session board) state
        in put_session board session_id state)"

definition get_slot ::
    "WorkingMemoryBoard \<Rightarrow> string \<Rightarrow> string \<Rightarrow> int \<Rightarrow> WorkingMemorySlot option" where
  "get_slot board session_id key now_ms =
     (case wm_sessions board session_id of
        None \<Rightarrow> None
      | Some state \<Rightarrow>
          case List.find (same_key key) (wm_slots state) of
            None \<Rightarrow> None
          | Some slot \<Rightarrow> if is_expired slot now_ms then None else Some slot)"

definition remove_slot :: "WorkingMemoryBoard \<Rightarrow> string \<Rightarrow> string \<Rightarrow> WorkingMemoryBoard" where
  "remove_slot board session_id key =
     (case wm_sessions board session_id of
        None \<Rightarrow> board
      | Some state \<Rightarrow>
          erase_session_if_empty_locked board session_id
            (state\<lparr>wm_slots := filter (\<lambda>slot. \<not> same_key key slot) (wm_slots state)\<rparr>))"

definition clear_session :: "WorkingMemoryBoard \<Rightarrow> string \<Rightarrow> WorkingMemoryBoard" where
  "clear_session board session_id = drop_session board session_id"

definition export_snapshot ::
    "WorkingMemoryBoard \<Rightarrow> string \<Rightarrow> int \<Rightarrow> WorkingMemoryBoard \<times> WorkingMemorySnapshot" where
  "export_snapshot board session_id now_ms =
     (case wm_sessions board session_id of
        None \<Rightarrow>
          (board, \<lparr>snap_session_id = session_id, snap_slots = [], snap_open_questions = [],
             snap_ephemeral_facts = [], snap_at = now_ms\<rparr>)
      | Some state \<Rightarrow>
          let state = evict_expired_locked now_ms state
          in (put_session board session_id state,
              \<lparr>snap_session_id = session_id, snap_slots = wm_slots state,
               snap_open_questions = wm_open_questions state,
               snap_ephemeral_facts = wm_ephemeral_facts state, snap_at = now_ms\<rparr>))"

definition restored_slots :: "int \<Rightarrow> WorkingMemorySlot list \<Rightarrow> WorkingMemorySlot list" where
  "restored_slots now_ms slots =
     foldl (\<lambda>restored slot. if empty_string (slot_key slot) then restored
                            else upsert_slot (stamped now_ms slot) restored) [] slots"

definition restore_snapshot ::
    "WorkingMemoryBoard \<Rightarrow> WorkingMemorySnapshot \<Rightarrow> int \<Rightarrow> WorkingMemoryBoard" where
  "restore_snapshot board snapshot now_ms =
     (if empty_string (snap_session_id snapshot) then board
      else
        let state = \<lparr>wm_slots = restored_slots now_ms (snap_slots snapshot),
                     wm_open_questions = snap_open_questions snapshot,
                     wm_ephemeral_facts = snap_ephemeral_facts snapshot\<rparr>;
            state = trim_slots_locked (max_slots_per_session board) (evict_expired_locked now_ms state)
        in erase_session_if_empty_locked board (snap_session_id snapshot) state)"

definition evict_expired :: "WorkingMemoryBoard \<Rightarrow> string \<Rightarrow> int \<Rightarrow> WorkingMemoryBoard" where
  "evict_expired board session_id now_ms =
     (case wm_sessions board session_id of
        None \<Rightarrow> board
      | Some state \<Rightarrow>
          erase_session_if_empty_locked board session_id (evict_expired_locked now_ms state))"

section \<open>Trimming keeps the slots last in the eviction order\<close>

text \<open>The eviction order as a linear order of ranks.\<close>

definition eviction_rank :: "WorkingMemorySlot \<Rightarrow> nat \<times> int \<times> string" where
  "eviction_rank s = (if slot_ttl_ms s > 0 then 0 else 1, slot_updated_at s, slot_key s)"

lemma evicted_before_rank: "evicted_before a b \<longleftrightarrow> eviction_rank a < eviction_rank b"
  by (auto simp: evicted_before_def eviction_rank_def Let_def)

lemma min_slot_least: "t \<in> insert s (set slots) \<Longrightarrow> eviction_rank (min_slot s slots) \<le> eviction_rank t"
proof (induction slots arbitrary: s t)
  case (Cons u slots)
  let ?m = "if evicted_before u s then u else s"
  have m: "eviction_rank ?m \<le> eviction_rank s" "eviction_rank ?m \<le> eviction_rank u"
    by (auto simp: evicted_before_rank)
  have "eviction_rank (min_slot ?m slots) \<le> eviction_rank ?m" by (rule Cons.IH) simp
  then have "eviction_rank (min_slot ?m slots) \<le> eviction_rank t" if "t = s \<or> t = u"
    using m that by (metis order_trans)
  moreover have "eviction_rank (min_slot ?m slots) \<le> eviction_rank t" if "t \<in> set slots"
    using that by (intro Cons.IH) simp
  ultimately show ?case using Cons.prems by auto
qed simp

lemma eviction_candidate_least:
  "t \<in> set slots \<Longrightarrow> eviction_rank (eviction_candidate slots) \<le> eviction_rank t"
  by (cases slots) (auto simp: eviction_candidate_def intro: min_slot_least)

definition distinct_keys :: "WorkingMemorySlot list \<Rightarrow> bool" where
  "distinct_keys slots \<longleftrightarrow> distinct (map slot_key slots)"

lemma distinct_keys_filter: "distinct_keys slots \<Longrightarrow> distinct_keys (filter P slots)"
  by (induction slots) (auto simp: distinct_keys_def)

lemma distinct_keys_remove1: "distinct_keys slots \<Longrightarrow> distinct_keys (remove1 s slots)"
  by (induction slots) (auto simp: distinct_keys_def dest: set_remove1_subset [THEN subsetD])

lemma distinct_keys_distinct: "distinct_keys slots \<Longrightarrow> distinct slots"
  by (simp add: distinct_keys_def distinct_map)

lemma distinct_keys_rank:
  "distinct_keys slots \<Longrightarrow> s \<in> set slots \<Longrightarrow> t \<in> set slots \<Longrightarrow> s \<noteq> t \<Longrightarrow>
     eviction_rank s \<noteq> eviction_rank t"
  by (auto simp: distinct_keys_def eviction_rank_def distinct_map inj_on_def)

text \<open>
  The contract of the trim: a sublist of at most the given length, shortened no more than
  needed, in which every slot outranks every slot that was dropped.
\<close>

definition trims_to :: "nat \<Rightarrow> WorkingMemorySlot list \<Rightarrow> WorkingMemorySlot list \<Rightarrow> bool" where
  "trims_to n before after \<longleftrightarrow>
     set after \<subseteq> set before \<and> length after = min n (length before) \<and> distinct_keys after \<and>
     (\<forall>kept\<in>set after. \<forall>dropped\<in>set before - set after. evicted_before dropped kept)"

lemma trim_slots_trims: "distinct_keys slots \<Longrightarrow> trims_to n slots (trim_slots_to n slots)"
proof (induction n slots rule: trim_slots_to.induct)
  case (1 n slots)
  show ?case
  proof (cases "n < length slots")
    case False
    then show ?thesis using 1(2) by (subst trim_slots_to.simps) (simp add: trims_to_def)
  next
    case True
    define c where "c = eviction_candidate slots"
    have c: "c \<in> set slots" using True unfolding c_def by (intro eviction_candidate_in) auto
    have d: "distinct slots" by (rule distinct_keys_distinct [OF 1(2)])
    have rest: "set (remove1 c slots) = set slots - {c}" using d by simp
    have len: "length (remove1 c slots) = length slots - 1" using c by (simp add: length_remove1)
    have IH: "trims_to n (remove1 c slots) (trim_slots_to n (remove1 c slots))"
      unfolding c_def using True by (intro 1 distinct_keys_remove1)
    have step: "trim_slots_to n slots = trim_slots_to n (remove1 c slots)"
      using True by (subst trim_slots_to.simps) (simp add: c_def)
    have "evicted_before c k" if "k \<in> set slots" "k \<noteq> c" for k
      using eviction_candidate_least [OF that(1)] distinct_keys_rank [OF 1(2) c that(1)] that(2)
      by (simp add: evicted_before_rank c_def less_le)
    moreover have "k \<in> set slots \<and> k \<noteq> c" if "k \<in> set (trim_slots_to n (remove1 c slots))" for k
      using IH that rest by (auto simp: trims_to_def)
    ultimately have "\<forall>kept\<in>set (trim_slots_to n slots). \<forall>dropped\<in>set slots - set (trim_slots_to n slots).
        evicted_before dropped kept"
      using IH rest unfolding step trims_to_def by (metis Diff_iff singletonD)
    then show ?thesis using IH rest len True unfolding step trims_to_def by auto
  qed
qed

section \<open>The board's invariant\<close>

definition slot_ok :: "WorkingMemorySlot \<Rightarrow> bool" where
  "slot_ok slot \<longleftrightarrow> \<not> empty_string (slot_key slot) \<and> 0 < slot_updated_at slot"

definition slots_ok :: "nat \<Rightarrow> WorkingMemorySlot list \<Rightarrow> bool" where
  "slots_ok n slots \<longleftrightarrow> distinct_keys slots \<and> length slots \<le> n \<and> (\<forall>s\<in>set slots. slot_ok s)"

definition board_inv :: "WorkingMemoryBoard \<Rightarrow> bool" where
  "board_inv board \<longleftrightarrow>
     1 \<le> max_slots_per_session board \<and>
     (\<forall>session_id state. wm_sessions board session_id = Some state \<longrightarrow>
        slots_ok (max_slots_per_session board) (wm_slots state))"

definition slots_of :: "WorkingMemoryBoard \<Rightarrow> string \<Rightarrow> WorkingMemorySlot list" where
  "slots_of board session_id = wm_slots (session_state board session_id)"

lemma upsert_set:
  "distinct_keys slots \<Longrightarrow>
     set (upsert_slot slot slots) = insert slot {s \<in> set slots. slot_key s \<noteq> slot_key slot}"
  by (induction slots) (auto simp: same_key_def distinct_keys_def image_iff)

lemma upsert_keys: "slot_key ` set (upsert_slot slot slots) = insert (slot_key slot) (slot_key ` set slots)"
  by (induction slots) (auto simp: same_key_def)

lemma upsert_distinct: "distinct_keys slots \<Longrightarrow> distinct_keys (upsert_slot slot slots)"
proof (induction slots)
  case (Cons s slots)
  then show ?case using upsert_keys [of slot slots] by (auto simp: distinct_keys_def same_key_def)
qed (simp add: distinct_keys_def)

lemma trims_to_ok:
  "trims_to n before after \<Longrightarrow> \<forall>s\<in>set before. slot_ok s \<Longrightarrow> slots_ok n after"
  by (auto simp: trims_to_def slots_ok_def)

lemma put_session_inv:
  "board_inv board \<Longrightarrow> slots_ok (max_slots_per_session board) (wm_slots state) \<Longrightarrow>
     board_inv (put_session board session_id state)"
  by (auto simp: board_inv_def put_session_def)

lemma drop_session_inv: "board_inv board \<Longrightarrow> board_inv (drop_session board session_id)"
  by (auto simp: board_inv_def drop_session_def split: if_splits)

lemma erase_session_inv:
  "board_inv board \<Longrightarrow> slots_ok (max_slots_per_session board) (wm_slots state) \<Longrightarrow>
     board_inv (erase_session_if_empty_locked board session_id state)"
  by (simp add: erase_session_if_empty_locked_def put_session_inv drop_session_inv)

lemma slots_ok_filter: "slots_ok n slots \<Longrightarrow> slots_ok n (filter P slots)"
  by (auto simp: slots_ok_def distinct_keys_filter intro: order_trans [OF length_filter_le])

lemma board_inv_slots: "board_inv board \<Longrightarrow> slots_ok (max_slots_per_session board) (slots_of board sid)"
  by (cases "wm_sessions board sid")
    (auto simp: board_inv_def slots_of_def session_state_def empty_session_state_def slots_ok_def
      distinct_keys_def)

lemma stamped_ok: "0 < stamp_ms \<Longrightarrow> \<not> empty_string (slot_key slot) \<Longrightarrow> slot_ok (stamped stamp_ms slot)"
  by (simp add: slot_ok_def stamped_def)

lemma stamped_key [simp]: "slot_key (stamped stamp_ms slot) = slot_key slot"
  by (simp add: stamped_def)

text \<open>The slots of a session after the upsert of \<open>set_slot\<close>, without the expired ones.\<close>

definition live_after :: "WorkingMemoryBoard \<Rightarrow> string \<Rightarrow> WorkingMemorySlot \<Rightarrow> int \<Rightarrow> WorkingMemorySlot list" where
  "live_after board sid slot now_ms =
     filter (\<lambda>s. \<not> is_expired s now_ms) (upsert_slot slot (slots_of board sid))"

lemma set_slot_slots:
  assumes "board_inv board" "\<not> empty_string sid" "\<not> empty_string (slot_key slot)"
  shows "slots_of (set_slot board sid slot stamp_ms now_ms) sid =
      trim_slots_to (max_slots_per_session board) (live_after board sid (stamped stamp_ms slot) now_ms)"
    and "wm_sessions (set_slot board sid slot stamp_ms now_ms) sid \<noteq> None"
    and "other \<noteq> sid \<Longrightarrow> wm_sessions (set_slot board sid slot stamp_ms now_ms) other = wm_sessions board other"
    and "max_slots_per_session (set_slot board sid slot stamp_ms now_ms) = max_slots_per_session board"
  using assms
  by (simp_all add: set_slot_def slots_of_def session_state_def put_session_def trim_slots_locked_def
      evict_expired_locked_def live_after_def Let_def)

lemma live_after_ok:
  assumes "board_inv board" "slot_ok slot"
  shows "distinct_keys (live_after board sid slot now_ms)"
    and "\<forall>s\<in>set (live_after board sid slot now_ms). slot_ok s"
  using board_inv_slots [OF assms(1), of sid] assms(2)
  by (auto simp: live_after_def slots_ok_def upsert_set distinct_keys_filter upsert_distinct)

lemma set_slot_trims:
  assumes "board_inv board" "\<not> empty_string sid" "\<not> empty_string (slot_key slot)" "0 < stamp_ms"
  shows "trims_to (max_slots_per_session board) (live_after board sid (stamped stamp_ms slot) now_ms)
    (slots_of (set_slot board sid slot stamp_ms now_ms) sid)"
  unfolding set_slot_slots(1) [OF assms(1-3)]
  by (rule trim_slots_trims) (rule live_after_ok [OF assms(1) stamped_ok [OF assms(4,3)]])

lemma set_slot_inv:
  assumes inv: "board_inv board" and t: "0 < stamp_ms"
  shows "board_inv (set_slot board sid slot stamp_ms now_ms)"
proof (cases "empty_string sid \<or> empty_string (slot_key slot)")
  case True
  then show ?thesis using inv by (auto simp: set_slot_def)
next
  case False
  then have ok: "\<not> empty_string sid" "\<not> empty_string (slot_key slot)" by simp_all
  let ?b = "set_slot board sid slot stamp_ms now_ms"
  have "slots_ok (max_slots_per_session board) (slots_of ?b sid)"
    by (rule trims_to_ok [OF set_slot_trims [OF inv ok t]])
      (rule live_after_ok [OF inv stamped_ok [OF t ok(2)]])
  moreover have "wm_sessions ?b session_id = Some state \<Longrightarrow> session_id \<noteq> sid \<Longrightarrow>
      slots_ok (max_slots_per_session board) (wm_slots state)" for session_id state
    using inv set_slot_slots(3) [OF inv ok] by (auto simp: board_inv_def)
  ultimately show ?thesis
    using inv set_slot_slots(4) [OF inv ok] unfolding board_inv_def
    by (metis (mono_tags, lifting) option.sel session_state_def slots_of_def value_or_simps(2))
qed

lemma restored_slots_ok:
  assumes "0 < now_ms"
  shows "distinct_keys (restored_slots now_ms slots) \<and> (\<forall>s\<in>set (restored_slots now_ms slots). slot_ok s)"
  using assms by (induction slots rule: rev_induct)
    (auto simp: restored_slots_def distinct_keys_def [of "[]"] upsert_distinct upsert_set stamped_ok)

datatype BoardCall =
    Set_slot string WorkingMemorySlot int int
  | Get_slot string string int
  | Remove_slot string string
  | Clear_session string
  | Export_snapshot string int
  | Restore_snapshot WorkingMemorySnapshot int
  | Evict_expired string int

fun board_step :: "WorkingMemoryBoard \<Rightarrow> BoardCall \<Rightarrow> WorkingMemoryBoard" where
  "board_step b (Set_slot sid slot stamp_ms now_ms) = set_slot b sid slot stamp_ms now_ms"
| "board_step b (Get_slot sid key now_ms) = b"
| "board_step b (Remove_slot sid key) = remove_slot b sid key"
| "board_step b (Clear_session sid) = clear_session b sid"
| "board_step b (Export_snapshot sid now_ms) = fst (export_snapshot b sid now_ms)"
| "board_step b (Restore_snapshot snapshot now_ms) = restore_snapshot b snapshot now_ms"
| "board_step b (Evict_expired sid now_ms) = evict_expired b sid now_ms"

text \<open>The clock is past the epoch.\<close>

fun board_call_ok :: "BoardCall \<Rightarrow> bool" where
  "board_call_ok (Set_slot sid slot stamp_ms now_ms) = (0 < stamp_ms)"
| "board_call_ok (Restore_snapshot snapshot now_ms) = (0 < now_ms)"
| "board_call_ok _ = True"

lemma restore_snapshot_inv:
  assumes "board_inv board" "0 < now_ms"
  shows "board_inv (restore_snapshot board snapshot now_ms)"
proof -
  let ?live = "filter (\<lambda>s. \<not> is_expired s now_ms) (restored_slots now_ms (snap_slots snapshot))"
  note r = restored_slots_ok [OF assms(2), of "snap_slots snapshot"]
  have "slots_ok (max_slots_per_session board) (trim_slots_to (max_slots_per_session board) ?live)"
    by (rule trims_to_ok [OF trim_slots_trims]) (use r distinct_keys_filter in auto)
  then show ?thesis using assms
    by (simp add: restore_snapshot_def Let_def erase_session_inv trim_slots_locked_def
        evict_expired_locked_def)
qed

lemma board_inv_state:
  "board_inv b \<Longrightarrow> wm_sessions b sid = Some state \<Longrightarrow>
     slots_ok (max_slots_per_session b) (wm_slots state)"
  by (simp add: board_inv_def)

lemma board_step_inv: "board_inv b \<Longrightarrow> board_call_ok c \<Longrightarrow> board_inv (board_step b c)"
  by (cases c)
    (auto simp: set_slot_inv restore_snapshot_inv remove_slot_def clear_session_def
      export_snapshot_def evict_expired_def evict_expired_locked_def slots_ok_filter
      board_inv_state intro!: erase_session_inv put_session_inv drop_session_inv split: option.split)

lemma erase_session_max [simp]:
  "max_slots_per_session (erase_session_if_empty_locked b sid state) = max_slots_per_session b"
  by (simp add: erase_session_if_empty_locked_def put_session_def drop_session_def)

lemma board_step_max: "max_slots_per_session (board_step b c) = max_slots_per_session b"
  by (cases c) (auto simp: set_slot_def put_session_def remove_slot_def clear_session_def
      drop_session_def export_snapshot_def restore_snapshot_def evict_expired_def Let_def split: option.split)

definition bounded_board :: "nat \<Rightarrow> WorkingMemoryBoard \<Rightarrow> bool" where
  "bounded_board n board \<longleftrightarrow> board_inv board \<and> max_slots_per_session board = max 1 n"

lemma new_board_inv: "bounded_board n (create_working_memory_board n)"
  by (simp add: bounded_board_def board_inv_def create_working_memory_board_def)

interpretation board: machine "\<lambda>b c. Some (board_step b c)" "bounded_board n" board_call_ok for n
  by unfold_locales (auto simp: bounded_board_def board_step_max intro: board_step_inv)

abbreviation board_run :: "nat \<Rightarrow> BoardCall list \<Rightarrow> WorkingMemoryBoard option" where
  "board_run n calls \<equiv> run_machine (\<lambda>b c. Some (board_step b c)) (create_working_memory_board n) calls"

lemmas board_run_bounded = board.run_invariant [OF new_board_inv]

section \<open>Reads and snapshots\<close>

lemma find_same_key:
  "distinct_keys slots \<Longrightarrow>
     List.find (same_key key) slots = Some s \<longleftrightarrow> s \<in> set slots \<and> slot_key s = key"
  by (induction slots) (auto simp: same_key_def distinct_keys_def image_iff)

lemma get_slot_iff:
  assumes "distinct_keys (slots_of board sid)"
  shows "get_slot board sid key now_ms = Some s \<longleftrightarrow>
    s \<in> set (slots_of board sid) \<and> slot_key s = key \<and> \<not> is_expired s now_ms"
proof -
  have "get_slot board sid key now_ms = Some s \<longleftrightarrow>
      List.find (same_key key) (slots_of board sid) = Some s \<and> \<not> is_expired s now_ms"
    by (auto simp: get_slot_def slots_of_def session_state_def empty_session_state_def split: option.split)
  then show ?thesis by (simp add: find_same_key [OF assms])
qed

lemma board_inv_distinct: "board_inv board \<Longrightarrow> distinct_keys (slots_of board sid)"
  using board_inv_slots [of board sid] by (simp add: slots_ok_def)

lemma is_expired_later: "is_expired s now_ms \<Longrightarrow> now_ms \<le> later_ms \<Longrightarrow> is_expired s later_ms"
  by (auto simp: is_expired_def)

lemma upsert_fresh: "slot_key s \<notin> slot_key ` set slots \<Longrightarrow> upsert_slot s slots = slots @ [s]"
  by (induction slots) (auto simp: same_key_def)

lemma restored_slots_same:
  "distinct_keys slots \<Longrightarrow> \<forall>s\<in>set slots. slot_ok s \<Longrightarrow> restored_slots now_ms slots = slots"
proof (induction slots rule: rev_induct)
  case (snoc s slots)
  then have "stamped now_ms s = s" by (simp add: stamped_def slot_ok_def)
  with snoc show ?case
    by (simp add: restored_slots_def distinct_keys_def slot_ok_def upsert_fresh)
qed (simp add: restored_slots_def)

lemma exported_slots:
  "snap_slots (snd (export_snapshot board sid now_ms)) =
     filter (\<lambda>s. \<not> is_expired s now_ms) (slots_of board sid)"
  "snap_session_id (snd (export_snapshot board sid now_ms)) = sid"
  "snap_open_questions (snd (export_snapshot board sid now_ms)) =
     wm_open_questions (session_state board sid)"
  "snap_ephemeral_facts (snd (export_snapshot board sid now_ms)) =
     wm_ephemeral_facts (session_state board sid)"
  by (auto simp: export_snapshot_def slots_of_def session_state_def empty_session_state_def
      evict_expired_locked_def Let_def split: option.split)

lemma restored_state:
  assumes "\<not> empty_string (snap_session_id snapshot)"
    and "distinct_keys (snap_slots snapshot)" "\<forall>s\<in>set (snap_slots snapshot). slot_ok s"
    and "length (snap_slots snapshot) \<le> max_slots_per_session board"
  shows "session_state (restore_snapshot board snapshot now_ms) (snap_session_id snapshot) =
    \<lparr>wm_slots = filter (\<lambda>s. \<not> is_expired s now_ms) (snap_slots snapshot),
     wm_open_questions = snap_open_questions snapshot,
     wm_ephemeral_facts = snap_ephemeral_facts snapshot\<rparr>"
proof -
  let ?live = "filter (\<lambda>s. \<not> is_expired s now_ms) (snap_slots snapshot)"
  have "length ?live \<le> max_slots_per_session board"
    using assms(4) length_filter_le order_trans by blast
  then have "trim_slots_to (max_slots_per_session board) ?live = ?live"
    by (subst trim_slots_to.simps) simp
  then show ?thesis using assms(1)
    by (simp add: restore_snapshot_def restored_slots_same [OF assms(2,3)] Let_def session_state_def
        trim_slots_locked_def evict_expired_locked_def erase_session_if_empty_locked_def
        put_session_def drop_session_def empty_session_state_def)
qed

lemma restore_other:
  "other \<noteq> snap_session_id snapshot \<Longrightarrow>
     wm_sessions (restore_snapshot board snapshot now_ms) other = wm_sessions board other"
  by (simp add: restore_snapshot_def erase_session_if_empty_locked_def put_session_def
      drop_session_def Let_def)

text \<open>
  C21. On a board that any run of calls has left, \<open>set_slot\<close> leaves in its session the slots of
  the session with the new one in place of its key, without the expired ones, cut to the limit
  such that every dropped slot precedes every kept one in the eviction order; the other
  sessions are untouched, and reads return exactly the unexpired slots left.
\<close>

theorem set_slot_keeps_the_best:
  assumes "board_run n calls = Some board" and "\<forall>c\<in>set calls. board_call_ok c"
    and "\<not> empty_string sid" "\<not> empty_string (slot_key slot)" "0 < stamp_ms"
  shows "let after = set_slot board sid slot stamp_ms now_ms;
             live = live_after board sid (stamped stamp_ms slot) now_ms
    in trims_to (max 1 n) live (slots_of after sid) \<and>
       set live = {s. (s = stamped stamp_ms slot \<or>
           s \<in> set (slots_of board sid) \<and> slot_key s \<noteq> slot_key slot) \<and> \<not> is_expired s now_ms} \<and>
       (\<forall>other. other \<noteq> sid \<longrightarrow> wm_sessions after other = wm_sessions board other) \<and>
       (\<forall>key t s. get_slot after sid key t = Some s \<longleftrightarrow>
           s \<in> set (slots_of after sid) \<and> slot_key s = key \<and> \<not> is_expired s t)"
proof -
  have inv: "board_inv board" and n: "max_slots_per_session board = max 1 n"
    using board_run_bounded [OF assms(2,1)] by (simp_all add: bounded_board_def)
  have "set (live_after board sid (stamped stamp_ms slot) now_ms) =
      {s. (s = stamped stamp_ms slot \<or> s \<in> set (slots_of board sid) \<and> slot_key s \<noteq> slot_key slot) \<and>
        \<not> is_expired s now_ms}"
    by (auto simp: live_after_def upsert_set [OF board_inv_distinct [OF inv]])
  then show ?thesis
    using set_slot_trims [OF inv assms(3-5), of now_ms] set_slot_slots(3) [OF inv assms(3,4)]
      get_slot_iff [OF board_inv_distinct [OF set_slot_inv [OF inv assms(5)]]]
    by (simp add: Let_def n)
qed

text \<open>
  C28. A snapshot exported from a board and restored into any other board with room for it
  answers every read as the exported board would have at that time, keeps the open questions
  and facts, and leaves the other sessions of the board alone.
\<close>

theorem snapshot_round_trip:
  assumes "board_run n calls = Some board" and "\<forall>c\<in>set calls. board_call_ok c"
    and "board_run m calls' = Some target" and "\<forall>c\<in>set calls'. board_call_ok c" and "n \<le> m"
    and "\<not> empty_string sid" and "exported_ms \<le> restored_ms" and "restored_ms \<le> read_ms"
  shows "let snapshot = snd (export_snapshot board sid exported_ms);
             restored = restore_snapshot target snapshot restored_ms
    in (\<forall>key. get_slot restored sid key read_ms = get_slot board sid key read_ms) \<and>
       wm_open_questions (session_state restored sid) = wm_open_questions (session_state board sid) \<and>
       wm_ephemeral_facts (session_state restored sid) = wm_ephemeral_facts (session_state board sid) \<and>
       (\<forall>other. other \<noteq> sid \<longrightarrow> wm_sessions restored other = wm_sessions target other)"
proof -
  let ?snapshot = "snd (export_snapshot board sid exported_ms)"
  let ?restored = "restore_snapshot target ?snapshot restored_ms"
  have inv: "board_inv board" and n: "max_slots_per_session board = max 1 n"
    and m: "max_slots_per_session target = max 1 m"
    using board_run_bounded [OF assms(2,1)] board_run_bounded [OF assms(4,3)]
    by (simp_all add: bounded_board_def)
  have ok: "slots_ok (max 1 n) (snap_slots ?snapshot)"
    using board_inv_slots [OF inv, of sid] by (simp add: exported_slots slots_ok_filter n)
  have state: "session_state ?restored sid = \<lparr>
      wm_slots = filter (\<lambda>s. \<not> is_expired s restored_ms) (snap_slots ?snapshot),
      wm_open_questions = wm_open_questions (session_state board sid),
      wm_ephemeral_facts = wm_ephemeral_facts (session_state board sid)\<rparr>"
    using restored_state [of ?snapshot target restored_ms] ok assms(5,6)
    by (auto simp: slots_ok_def exported_slots m)
  then have slots: "slots_of ?restored sid = filter (\<lambda>s. \<not> is_expired s restored_ms \<and>
      \<not> is_expired s exported_ms) (slots_of board sid)"
    by (simp add: slots_of_def [of ?restored] exported_slots conj_commute)
  have d: "distinct_keys (slots_of board sid)" by (rule board_inv_distinct [OF inv])
  have d': "distinct_keys (slots_of ?restored sid)" unfolding slots by (rule distinct_keys_filter [OF d])
  have "get_slot ?restored sid key read_ms = Some s \<longleftrightarrow> get_slot board sid key read_ms = Some s" for key s
    using is_expired_later [of s restored_ms read_ms] is_expired_later [of s exported_ms read_ms] assms(7,8)
    by (auto simp: get_slot_iff [OF d] get_slot_iff [OF d'] slots)
  then have "get_slot ?restored sid key read_ms = get_slot board sid key read_ms" for key
    by (metis not_Some_eq)
  then show ?thesis
    by (simp add: Let_def state restore_other exported_slots)
qed

section \<open>Concrete runs\<close>

definition sample_slot :: "string \<Rightarrow> int \<Rightarrow> int \<Rightarrow> WorkingMemorySlot" where
  "sample_slot key updated_ms ttl = \<lparr>slot_key = key, slot_value = ''v'', slot_updated_at = updated_ms,
     slot_ttl_ms = ttl, slot_source = ''test''\<rparr>"

definition sample_board_calls :: "BoardCall list" where
  "sample_board_calls =
     [Set_slot ''s'' (sample_slot ''goal'' 0 0) 10 10,
      Set_slot ''s'' (sample_slot ''draft'' 0 1000) 20 20,
      Set_slot ''t'' (sample_slot ''goal'' 15 5) 20 19]"

lemma sample_board_run: "\<exists>board. board_run 2 sample_board_calls = Some board \<and>
   slots_of board ''s'' = [sample_slot ''goal'' 10 0, sample_slot ''draft'' 20 1000]"
  by (simp add: sample_board_calls_def sample_slot_def create_working_memory_board_def set_slot_def
      session_state_def empty_session_state_def stamped_def same_key_def evict_expired_locked_def
      is_expired_def trim_slots_locked_def trim_slots_to.simps put_session_def slots_of_def Let_def)

lemma sample_calls_ok: "\<forall>c\<in>set sample_board_calls. board_call_ok c"
  by (simp add: sample_board_calls_def)

theorem set_slot_keeps_the_best_witness:
  "\<exists>board. board_run 2 sample_board_calls = Some board \<and>
     trims_to 2 (live_after board ''s'' (stamped 30 (sample_slot ''note'' 0 0)) 30)
       (slots_of (set_slot board ''s'' (sample_slot ''note'' 0 0) 30 30) ''s'')"
proof -
  from sample_board_run obtain board where b: "board_run 2 sample_board_calls = Some board" by blast
  have "\<not> empty_string ''s''" "\<not> empty_string (slot_key (sample_slot ''note'' 0 0))" "(0::int) < 30"
    by (simp_all add: sample_slot_def)
  from set_slot_keeps_the_best [OF b sample_calls_ok this, of 30] b show ?thesis
    by (auto simp: Let_def numeral_2_eq_2)
qed

theorem snapshot_round_trip_witness:
  "\<exists>board. board_run 2 sample_board_calls = Some board \<and>
     get_slot (restore_snapshot (create_working_memory_board 2)
         (snd (export_snapshot board ''s'' 100)) 200) ''s'' ''draft'' 300 =
       Some (sample_slot ''draft'' 20 1000)"
proof -
  from sample_board_run obtain board where b: "board_run 2 sample_board_calls = Some board"
    and s: "slots_of board ''s'' = [sample_slot ''goal'' 10 0, sample_slot ''draft'' 20 1000]" by blast
  have fresh: "board_run 2 [] = Some (create_working_memory_board 2)" by simp
  have "get_slot board ''s'' ''draft'' 300 = Some (sample_slot ''draft'' 20 1000)"
    by (subst get_slot_iff) (simp_all add: s distinct_keys_def sample_slot_def is_expired_def)
  with snapshot_round_trip [OF b sample_calls_ok fresh, of "''s''" 100 200 300] b show ?thesis
    by (simp add: Let_def)
qed

section \<open>Deviations\<close>

text \<open>
  On a board full of permanent slots a slot with a time to live is the first one evicted: the
  call that sets it drops it at once, without a report.
\<close>

lemma new_slot_is_dropped:
  "\<exists>board. board_run 1 [Set_slot ''s'' (sample_slot ''goal'' 0 0) 10 10,
       Set_slot ''s'' (sample_slot ''draft'' 0 1000) 20 20] = Some board \<and>
     get_slot board ''s'' ''draft'' 20 = None"
  by (simp add: sample_slot_def create_working_memory_board_def set_slot_def get_slot_def
      session_state_def empty_session_state_def stamped_def same_key_def evict_expired_locked_def
      is_expired_def trim_slots_locked_def trim_slots_to.simps put_session_def Let_def
      eviction_candidate_def evicted_before_def)

text \<open>A slot that is stale when it is set leaves an empty session in the table.\<close>

lemma stale_slot_leaves_empty_session:
  "\<exists>board. board_run 1 [Set_slot ''s'' (sample_slot ''draft'' 5 10) 20 20] = Some board \<and>
     wm_sessions board ''s'' = Some empty_session_state"
  by (simp add: sample_slot_def create_working_memory_board_def set_slot_def session_state_def
      empty_session_state_def stamped_def evict_expired_locked_def is_expired_def
      trim_slots_locked_def trim_slots_to.simps put_session_def Let_def)

end
