(* ===== verification/Memory_Guards.thy ===== *)
theory Memory_Guards
  imports Memory_Types
begin

text \<open>
  The validation functions of the memory contracts: \<^verbatim>\<open>Session.h\<close>, \<^verbatim>\<open>Turn.h\<close>,
  \<^verbatim>\<open>SummaryMemory.h\<close>, \<^verbatim>\<open>MemoryFact.h\<close>, \<^verbatim>\<open>ExperienceMemory.h\<close> and
  \<^verbatim>\<open>ContextPacketGuards.h\<close>. Every guard returns the reason of the first violated rule. The
  tests of a list of strings, which every header repeats, are \<open>validate_items\<close>. What an
  accepted summary and an accepted packet satisfy is stated at the end.
\<close>

section \<open>Lists of strings\<close>

text \<open>
  The nested loops over an index and a later probe: at each item first the test for the empty
  string, then the search for a later copy.
\<close>

fun validate_items :: "string \<Rightarrow> string \<Rightarrow> string list \<Rightarrow> GuardResult" where
  "validate_items empty_reason duplicate_reason [] = pass ''vector validation passed''"
| "validate_items empty_reason duplicate_reason (v # vs) =
     (if empty_string v then fail empty_reason
      else if v \<in> set vs then fail duplicate_reason
      else validate_items empty_reason duplicate_reason vs)"

definition validate_vector ::
    "string option \<Rightarrow> string \<Rightarrow> string \<Rightarrow> string \<Rightarrow> string list option \<Rightarrow> GuardResult" where
  "validate_vector absent_reason none_reason empty_reason duplicate_reason v =
     (case v of
        None \<Rightarrow>
          (case absent_reason of
             None \<Rightarrow> pass ''optional vector absent'' | Some r \<Rightarrow> fail r)
      | Some vs \<Rightarrow>
          if vs = [] then fail none_reason
          else validate_items empty_reason duplicate_reason vs)"

definition string_set :: "string list \<Rightarrow> bool" where
  "string_set vs \<longleftrightarrow> distinct vs \<and> [] \<notin> set vs"

definition optional_string_set :: "string list option \<Rightarrow> bool" where
  "optional_string_set v \<longleftrightarrow> (case v of None \<Rightarrow> True | Some vs \<Rightarrow> vs \<noteq> [] \<and> string_set vs)"

lemma validate_items_ok [simp]: "ok (validate_items r d vs) \<longleftrightarrow> string_set vs"
  by (induction vs) (auto simp: string_set_def)

lemma validate_vector_ok [simp]:
  "ok (validate_vector None n r d v) \<longleftrightarrow> optional_string_set v"
  "ok (validate_vector (Some a) n r d v) \<longleftrightarrow> v \<noteq> None \<and> optional_string_set v"
  by (auto simp: validate_vector_def optional_string_set_def split: option.split)

lemma string_set_append_unique:
  "string_set xs \<Longrightarrow> v \<noteq> [] \<Longrightarrow> string_set (append_unique xs v)"
  by (auto simp: string_set_def)

lemma string_set_append_all:
  "string_set xs \<Longrightarrow> [] \<notin> set vs \<Longrightarrow> string_set (append_all_unique xs vs)"
  by (auto simp: string_set_def)

lemma optional_string_set_of_list:
  "string_set vs \<Longrightarrow> optional_string_set (if vs = [] then None else Some vs)"
  by (auto simp: optional_string_set_def)

text \<open>
  A guard tries its rules in turn and returns the first failure. A rule that is a test of the
  value fails with its reason.
\<close>

fun first_failure :: "GuardResult list \<Rightarrow> string \<Rightarrow> GuardResult" where
  "first_failure [] passed = pass passed"
| "first_failure (g # gs) passed = (if ok g then first_failure gs passed else g)"

definition reject_if :: "bool \<Rightarrow> string \<Rightarrow> GuardResult" where
  "reject_if violated r = (if violated then fail r else pass ''rule holds'')"

lemma first_failure_ok [simp]: "ok (first_failure gs p) \<longleftrightarrow> (\<forall>g\<in>set gs. ok g)"
  by (induction gs) auto

lemma reject_if_ok [simp]: "ok (reject_if c r) \<longleftrightarrow> \<not> c"
  by (simp add: reject_if_def)

section \<open>Forbidden fields\<close>

record 'd FieldBoundary =
  field_allowed :: bool
  field_decision :: 'd
  field_reason :: string

definition rejected_field :: "'d \<Rightarrow> string \<Rightarrow> 'd FieldBoundary" where
  "rejected_field d r = \<lparr>field_allowed = False, field_decision = d, field_reason = r\<rparr>"

definition allowed_field :: "'d \<Rightarrow> string \<Rightarrow> 'd FieldBoundary" where
  "allowed_field d r = \<lparr>field_allowed = True, field_decision = d, field_reason = r\<rparr>"

definition forbidden_field_guard :: "'d FieldBoundary \<Rightarrow> GuardResult" where
  "forbidden_field_guard r = \<lparr>ok = field_allowed r, reason = field_reason r\<rparr>"

lemma field_boundary_sel [simp]:
  "field_allowed (rejected_field d r) = False" "field_allowed (allowed_field d r) = True"
  "field_decision (rejected_field d r) = d" "field_decision (allowed_field d r) = d"
  by (simp_all add: rejected_field_def allowed_field_def)

section \<open>Sessions\<close>

datatype SessionBoundaryDecision =
    Session_AllowField
  | Session_RejectSessionContextField
  | Session_RejectRuntimeControlField
  | Session_RejectCheckpointField

definition kSessionSessionContextForbiddenFields :: "string list" where
  "kSessionSessionContextForbiddenFields =
     [''active_goal'', ''skill_profile'', ''planner_state'', ''visible_tools'',
      ''policy_digest'']"

definition kSessionRuntimeControlForbiddenFields :: "string list" where
  "kSessionRuntimeControlForbiddenFields =
     [''fsm_state'', ''retry_after_ms'', ''scheduler_slot'', ''recovery_action'']"

definition kSessionCheckpointForbiddenFields :: "string list" where
  "kSessionCheckpointForbiddenFields =
     [''checkpoint_id'', ''pending_action'', ''working_memory_snapshot'', ''retry_count'']"

definition evaluate_session_field_boundary ::
    "string \<Rightarrow> SessionBoundaryDecision FieldBoundary" where
  "evaluate_session_field_boundary field_name =
     (if field_name \<in> set kSessionSessionContextForbiddenFields then
        rejected_field Session_RejectSessionContextField
          ''session must not contain SessionContext-owned fields''
      else if field_name \<in> set kSessionRuntimeControlForbiddenFields then
        rejected_field Session_RejectRuntimeControlField
          ''session must not contain runtime control or FSM fields''
      else if field_name \<in> set kSessionCheckpointForbiddenFields then
        rejected_field Session_RejectCheckpointField
          ''session must not contain checkpoint or recovery fields''
      else allowed_field Session_AllowField ''session field is allowed by WP05-T006'')"

definition validate_session_forbidden_field :: "string \<Rightarrow> GuardResult" where
  "validate_session_forbidden_field field_name =
     forbidden_field_guard (evaluate_session_field_boundary field_name)"

definition validate_session_required_fields :: "Session \<Rightarrow> GuardResult" where
  "validate_session_required_fields x =
     first_failure
      [reject_if (\<not> has_non_empty_value (sess_session_id x))
         ''session_id is required and must be non-empty'',
       reject_if (sess_turn_ids x = None)
         ''turn_ids is required (use an empty vector for a new session)'',
       reject_if (case sess_created_at x of None \<Rightarrow> True | Some t \<Rightarrow> t \<le> 0)
         ''created_at is required and must be a positive timestamp'']
      ''all required session fields present''"

definition validate_session_boundary :: "Session \<Rightarrow> GuardResult" where
  "validate_session_boundary x =
     first_failure
      [validate_session_required_fields x,
       reject_if (case sess_last_active_at x of None \<Rightarrow> False | Some t \<Rightarrow> t < the (sess_created_at x))
         ''last_active_at must not be earlier than created_at'',
       reject_if (present_but_empty (sess_latest_summary_memory_ref x))
         ''latest_summary_memory_ref must be non-empty when present'']
      ''session boundary validation passed''"

definition validate_session_field_rules :: "Session \<Rightarrow> GuardResult" where
  "validate_session_field_rules x =
     first_failure
      [validate_session_boundary x,
       reject_if ([] \<in> set (the (sess_turn_ids x)))
         ''turn_ids must not contain empty strings'',
       reject_if (\<not> distinct (the (sess_turn_ids x)))
         ''turn_ids must not contain duplicate items'',
       reject_if (present_but_empty (sess_user_id x))
         ''user_id must be non-empty when present'',
       reject_if (present_but_empty (sess_metadata_digest x))
         ''metadata_digest must be non-empty when present'',
       validate_vector None ''tags must contain at least one item when present''
         ''tags must not contain empty strings''
         ''tags must not contain duplicate items'' (sess_tags x)]
      ''session field rules validation passed''"

section \<open>Turns\<close>

datatype TurnBoundaryDecision =
    Turn_AllowField
  | Turn_RejectCheckpointField
  | Turn_RejectSessionContextField
  | Turn_RejectExecutionRecordField

definition kTurnCheckpointForbiddenFields :: "string list" where
  "kTurnCheckpointForbiddenFields =
     [''checkpoint_id'', ''state'', ''pending_action'', ''working_memory_snapshot'',
      ''retry_count'']"

definition kTurnSessionContextForbiddenFields :: "string list" where
  "kTurnSessionContextForbiddenFields =
     [''current_goal_summary'', ''recent_history'', ''policy_digest'',
      ''token_budget_report'', ''belief_state_summary'']"

definition kTurnExecutionRecordForbiddenFields :: "string list" where
  "kTurnExecutionRecordForbiddenFields =
     [''payload'', ''error'', ''side_effects'', ''provider_payload'']"

definition evaluate_turn_field_boundary ::
    "string \<Rightarrow> TurnBoundaryDecision FieldBoundary" where
  "evaluate_turn_field_boundary field_name =
     (if field_name \<in> set kTurnCheckpointForbiddenFields then
        rejected_field Turn_RejectCheckpointField
          ''turn must not contain checkpoint or recovery fields''
      else if field_name \<in> set kTurnSessionContextForbiddenFields then
        rejected_field Turn_RejectSessionContextField
          ''turn must not contain session-context or context-packet assembly fields''
      else if field_name \<in> set kTurnExecutionRecordForbiddenFields then
        rejected_field Turn_RejectExecutionRecordField
          ''turn must not contain raw execution payload fields''
      else allowed_field Turn_AllowField ''turn field is allowed by WP05-T006'')"

definition validate_turn_forbidden_field :: "string \<Rightarrow> GuardResult" where
  "validate_turn_forbidden_field field_name =
     forbidden_field_guard (evaluate_turn_field_boundary field_name)"

definition validate_turn_required_fields :: "Turn \<Rightarrow> GuardResult" where
  "validate_turn_required_fields x =
     first_failure
      [reject_if (\<not> has_non_empty_value (turn_turn_id x))
         ''turn_id is required and must be non-empty'',
       reject_if (\<not> has_non_empty_value (turn_session_id x))
         ''session_id is required and must be non-empty'',
       reject_if (\<not> has_non_empty_value (turn_user_input x))
         ''user_input is required and must be non-empty'',
       reject_if (case turn_created_at x of None \<Rightarrow> True | Some t \<Rightarrow> t \<le> 0)
         ''created_at is required and must be a positive timestamp'']
      ''all required turn fields present''"

definition validate_turn_boundary :: "Turn \<Rightarrow> GuardResult" where
  "validate_turn_boundary x =
     first_failure
      [validate_turn_required_fields x,
       reject_if (present_but_empty (turn_summary_memory_ref x))
         ''summary_memory_ref must be non-empty when present'']
      ''turn boundary validation passed''"

definition validate_turn_field_rules :: "Turn \<Rightarrow> GuardResult" where
  "validate_turn_field_rules x =
     first_failure
      [validate_turn_boundary x,
       reject_if (present_but_empty (turn_agent_response x))
         ''agent_response must be non-empty when present'',
       validate_vector None ''tool_call_refs must contain at least one item when present''
         ''tool_call_refs must not contain empty strings''
         ''tool_call_refs must not contain duplicate items'' (turn_tool_call_refs x),
       validate_vector None ''observation_refs must contain at least one item when present''
         ''observation_refs must not contain empty strings''
         ''observation_refs must not contain duplicate items'' (turn_observation_refs x),
       validate_vector None ''tags must contain at least one item when present''
         ''tags must not contain empty strings''
         ''tags must not contain duplicate items'' (turn_tags x)]
      ''turn field rules validation passed''"

section \<open>Summaries\<close>

datatype SummaryMemoryBoundaryDecision =
    Summary_AllowField
  | Summary_RejectSessionContextField
  | Summary_RejectCheckpointField
  | Summary_RejectExecutionRecordField

definition kSummaryMemorySessionContextForbiddenFields :: "string list" where
  "kSummaryMemorySessionContextForbiddenFields =
     [''current_goal_summary'', ''recent_history'', ''policy_digest'',
      ''token_budget_report'', ''belief_state_summary'']"

definition kSummaryMemoryCheckpointForbiddenFields :: "string list" where
  "kSummaryMemoryCheckpointForbiddenFields =
     [''checkpoint_id'', ''state'', ''pending_action'', ''working_memory_snapshot'',
      ''retry_count'']"

definition kSummaryMemoryExecutionRecordForbiddenFields :: "string list" where
  "kSummaryMemoryExecutionRecordForbiddenFields =
     [''payload'', ''error'', ''side_effects'', ''provider_payload'']"

definition evaluate_summary_memory_field_boundary ::
    "string \<Rightarrow> SummaryMemoryBoundaryDecision FieldBoundary" where
  "evaluate_summary_memory_field_boundary field_name =
     (if field_name \<in> set kSummaryMemorySessionContextForbiddenFields then
        rejected_field Summary_RejectSessionContextField
          ''summary memory must not contain session-context or context-packet assembly fields''
      else if field_name \<in> set kSummaryMemoryCheckpointForbiddenFields then
        rejected_field Summary_RejectCheckpointField
          ''summary memory must not contain checkpoint or recovery fields''
      else if field_name \<in> set kSummaryMemoryExecutionRecordForbiddenFields then
        rejected_field Summary_RejectExecutionRecordField
          ''summary memory must not contain raw execution payload fields''
      else allowed_field Summary_AllowField ''summary memory field is allowed by WP05-T006'')"

definition validate_summary_memory_forbidden_field :: "string \<Rightarrow> GuardResult" where
  "validate_summary_memory_forbidden_field field_name =
     forbidden_field_guard (evaluate_summary_memory_field_boundary field_name)"

definition validate_summary_memory_required_fields :: "SummaryMemory \<Rightarrow> GuardResult" where
  "validate_summary_memory_required_fields x =
     first_failure
      [reject_if (\<not> has_non_empty_value (sum_summary_id x))
         ''summary_id is required and must be non-empty'',
       reject_if (\<not> has_non_empty_value (sum_session_id x))
         ''session_id is required and must be non-empty'',
       reject_if (\<not> has_non_empty_value (sum_summary_text x))
         ''summary_text is required and must be non-empty'',
       reject_if (case sum_created_at x of None \<Rightarrow> True | Some t \<Rightarrow> t \<le> 0)
         ''created_at is required and must be a positive timestamp'']
      ''all required summary memory fields present''"

definition validate_summary_memory_boundary :: "SummaryMemory \<Rightarrow> GuardResult" where
  "validate_summary_memory_boundary x =
     first_failure
      [validate_summary_memory_required_fields x]
      ''summary memory boundary validation passed''"

definition validate_summary_memory_field_rules :: "SummaryMemory \<Rightarrow> GuardResult" where
  "validate_summary_memory_field_rules x =
     first_failure
      [validate_summary_memory_boundary x,
       validate_vector None ''source_turn_ids must contain at least one item when present''
         ''summary memory vectors must not contain empty strings''
         ''source_turn_ids must not contain duplicate items'' (sum_source_turn_ids x),
       validate_vector None ''decisions_made must contain at least one item when present''
         ''summary memory vectors must not contain empty strings''
         ''decisions_made must not contain duplicate items'' (sum_decisions_made x),
       validate_vector None ''confirmed_facts must contain at least one item when present''
         ''summary memory vectors must not contain empty strings''
         ''confirmed_facts must not contain duplicate items'' (sum_confirmed_facts x),
       validate_vector None ''tool_outcomes must contain at least one item when present''
         ''summary memory vectors must not contain empty strings''
         ''tool_outcomes must not contain duplicate items'' (sum_tool_outcomes x),
       validate_vector None ''tags must contain at least one item when present''
         ''summary memory vectors must not contain empty strings''
         ''tags must not contain duplicate items'' (sum_tags x)]
      ''summary memory field rules validation passed''"

section \<open>Facts\<close>

datatype MemoryFactBoundaryDecision =
    Fact_AllowField
  | Fact_RejectSessionContextField
  | Fact_RejectRuntimeControlField
  | Fact_RejectProviderPayloadField

definition kMemoryFactSessionContextForbiddenFields :: "string list" where
  "kMemoryFactSessionContextForbiddenFields =
     [''recent_history'', ''current_goal_summary'', ''policy_digest'',
      ''belief_state_summary'']"

definition kMemoryFactRuntimeControlForbiddenFields :: "string list" where
  "kMemoryFactRuntimeControlForbiddenFields =
     [''fsm_state'', ''retry_count'', ''pending_action'', ''scheduler_slot'']"

definition kMemoryFactProviderPayloadForbiddenFields :: "string list" where
  "kMemoryFactProviderPayloadForbiddenFields =
     [''provider_payload'', ''rendered_prompt'', ''raw_embedding'', ''token_logprobs'']"

definition evaluate_memory_fact_field_boundary ::
    "string \<Rightarrow> MemoryFactBoundaryDecision FieldBoundary" where
  "evaluate_memory_fact_field_boundary field_name =
     (if field_name \<in> set kMemoryFactSessionContextForbiddenFields then
        rejected_field Fact_RejectSessionContextField
          ''memory fact must not contain SessionContext/ContextPacket fields''
      else if field_name \<in> set kMemoryFactRuntimeControlForbiddenFields then
        rejected_field Fact_RejectRuntimeControlField
          ''memory fact must not contain runtime control fields''
      else if field_name \<in> set kMemoryFactProviderPayloadForbiddenFields then
        rejected_field Fact_RejectProviderPayloadField
          ''memory fact must not contain provider payload fields''
      else allowed_field Fact_AllowField ''memory fact field is allowed by WP05-T007'')"

definition validate_memory_fact_required_fields :: "MemoryFact \<Rightarrow> GuardResult" where
  "validate_memory_fact_required_fields x =
     first_failure
      [reject_if (\<not> has_non_empty_value (fact_fact_id x))
         ''fact_id is required and must be non-empty'',
       reject_if (\<not> has_non_empty_value (fact_session_id x))
         ''session_id is required and must be non-empty'',
       reject_if (\<not> has_non_empty_value (fact_fact_text x))
         ''fact_text is required and must be non-empty'',
       reject_if (fact_source_turn_ids x = None \<or> fact_source_turn_ids x = Some [])
         ''source_turn_ids is required and must contain at least one item'',
       reject_if (case fact_confidence_score x of None \<Rightarrow> True | Some c \<Rightarrow> 100 < c)
         ''confidence_score is required and must be in [0, 100]'',
       reject_if (case fact_created_at x of None \<Rightarrow> True | Some t \<Rightarrow> t \<le> 0)
         ''created_at is required and must be a positive timestamp'']
      ''all required memory fact fields present''"

definition validate_memory_fact_boundary :: "MemoryFact \<Rightarrow> GuardResult" where
  "validate_memory_fact_boundary x =
     first_failure
      [validate_memory_fact_required_fields x,
       reject_if (case fact_valid_until x of None \<Rightarrow> False | Some t \<Rightarrow> t \<le> the (fact_created_at x))
         ''valid_until must be later than created_at when present'',
       reject_if (present_but_empty (fact_superseded_by_fact_id x))
         ''superseded_by_fact_id must be non-empty when present'']
      ''memory fact boundary validation passed''"

definition validate_memory_fact_field_rules :: "MemoryFact \<Rightarrow> GuardResult" where
  "validate_memory_fact_field_rules x =
     first_failure
      [validate_memory_fact_boundary x,
       validate_vector (Some ''source_turn_ids is required and must contain at least one item'')
         ''source_turn_ids is required and must contain at least one item''
         ''memory fact vectors must not contain empty strings''
         ''source_turn_ids must not contain duplicate items'' (fact_source_turn_ids x),
       validate_vector None ''source_observation_refs must contain at least one item when present''
         ''memory fact vectors must not contain empty strings''
         ''source_observation_refs must not contain duplicate items'' (fact_source_observation_refs x),
       validate_vector None ''tags must contain at least one item when present''
         ''memory fact vectors must not contain empty strings''
         ''tags must not contain duplicate items'' (fact_tags x),
       reject_if (present_but_empty (fact_fact_type x))
         ''fact_type must be non-empty when present'',
       reject_if (present_but_empty (fact_evidence_digest x))
         ''evidence_digest must be non-empty when present'']
      ''memory fact field rules validation passed''"

section \<open>Experiences\<close>

datatype ExperienceMemoryBoundaryDecision =
    Experience_AllowField
  | Experience_RejectRuntimeControlField
  | Experience_RejectPromptProviderField
  | Experience_RejectCheckpointField

definition kExperienceMemoryRuntimeControlForbiddenFields :: "string list" where
  "kExperienceMemoryRuntimeControlForbiddenFields =
     [''fsm_state'', ''retry_after_ms'', ''recovery_action'', ''scheduler_slot'']"

definition kExperienceMemoryPromptProviderForbiddenFields :: "string list" where
  "kExperienceMemoryPromptProviderForbiddenFields =
     [''rendered_prompt'', ''provider_payload'', ''model_route'', ''temperature'']"

definition kExperienceMemoryCheckpointForbiddenFields :: "string list" where
  "kExperienceMemoryCheckpointForbiddenFields =
     [''checkpoint_id'', ''pending_action'', ''working_memory_snapshot'', ''retry_count'']"

definition evaluate_experience_memory_field_boundary ::
    "string \<Rightarrow> ExperienceMemoryBoundaryDecision FieldBoundary" where
  "evaluate_experience_memory_field_boundary field_name =
     (if field_name \<in> set kExperienceMemoryRuntimeControlForbiddenFields then
        rejected_field Experience_RejectRuntimeControlField
          ''experience memory must not contain runtime control fields''
      else if field_name \<in> set kExperienceMemoryPromptProviderForbiddenFields then
        rejected_field Experience_RejectPromptProviderField
          ''experience memory must not contain prompt/provider fields''
      else if field_name \<in> set kExperienceMemoryCheckpointForbiddenFields then
        rejected_field Experience_RejectCheckpointField
          ''experience memory must not contain checkpoint fields''
      else allowed_field Experience_AllowField ''experience memory field is allowed by WP05-T007'')"

definition validate_experience_memory_required_fields :: "ExperienceMemory \<Rightarrow> GuardResult" where
  "validate_experience_memory_required_fields x =
     first_failure
      [reject_if (\<not> has_non_empty_value (exp_experience_id x))
         ''experience_id is required and must be non-empty'',
       reject_if (\<not> has_non_empty_value (exp_session_id x))
         ''session_id is required and must be non-empty'',
       reject_if (\<not> has_non_empty_value (exp_lesson_summary x))
         ''lesson_summary is required and must be non-empty'',
       reject_if (\<not> has_non_empty_value (exp_trigger_condition x))
         ''trigger_condition is required and must be non-empty'',
       reject_if (\<not> has_non_empty_value (exp_recommended_action x))
         ''recommended_action is required and must be non-empty'',
       reject_if (case exp_created_at x of None \<Rightarrow> True | Some t \<Rightarrow> t \<le> 0)
         ''created_at is required and must be a positive timestamp'']
      ''all required experience memory fields present''"

definition validate_experience_memory_boundary :: "ExperienceMemory \<Rightarrow> GuardResult" where
  "validate_experience_memory_boundary x =
     first_failure
      [validate_experience_memory_required_fields x,
       reject_if (case exp_expires_at x of None \<Rightarrow> False | Some t \<Rightarrow> t \<le> the (exp_created_at x))
         ''expires_at must be later than created_at when present'',
       reject_if (case exp_effectiveness_score x of None \<Rightarrow> False | Some c \<Rightarrow> 100 < c)
         ''effectiveness_score must be in [0, 100] when present'',
       reject_if (present_but_empty (exp_superseded_by_experience_id x))
         ''superseded_by_experience_id must be non-empty when present'']
      ''experience memory boundary validation passed''"

definition validate_experience_memory_field_rules :: "ExperienceMemory \<Rightarrow> GuardResult" where
  "validate_experience_memory_field_rules x =
     first_failure
      [validate_experience_memory_boundary x,
       validate_vector None ''source_fact_ids must contain at least one item when present''
         ''experience memory vectors must not contain empty strings''
         ''source_fact_ids must not contain duplicate items'' (exp_source_fact_ids x),
       validate_vector None ''source_turn_ids must contain at least one item when present''
         ''experience memory vectors must not contain empty strings''
         ''source_turn_ids must not contain duplicate items'' (exp_source_turn_ids x),
       validate_vector None ''applicable_domains must contain at least one item when present''
         ''experience memory vectors must not contain empty strings''
         ''applicable_domains must not contain duplicate items'' (exp_applicable_domains x),
       validate_vector None ''tags must contain at least one item when present''
         ''experience memory vectors must not contain empty strings''
         ''tags must not contain duplicate items'' (exp_tags x),
       reject_if (present_but_empty (exp_risk_notes x))
         ''risk_notes must be non-empty when present'']
      ''experience memory field rules validation passed''"

section \<open>Context packets\<close>

text \<open>A list of a packet must have items when present and none of them empty; copies are allowed.\<close>

definition packet_vector :: "string \<Rightarrow> string \<Rightarrow> string list option \<Rightarrow> GuardResult" where
  "packet_vector none_reason empty_reason v =
     (case v of
        None \<Rightarrow> pass ''optional vector absent''
      | Some vs \<Rightarrow>
          if vs = [] then fail none_reason
          else if [] \<in> set vs then fail empty_reason
          else pass ''vector validation passed'')"

definition validate_context_packet_required_fields :: "ContextPacket \<Rightarrow> GuardResult" where
  "validate_context_packet_required_fields x =
     first_failure
      [reject_if (\<not> has_non_empty_value (pkt_request_id x))
         ''request_id is required and must be non-empty'',
       reject_if (\<not> has_non_empty_value (pkt_user_turn x))
         ''user_turn is required and must be non-empty'',
       reject_if (\<not> has_non_empty_value (pkt_current_goal_summary x))
         ''current_goal_summary is required and must be non-empty'',
       reject_if (pkt_recent_history x = None)
         ''recent_history is required (use empty vector for first turn)'']
      ''all required fields present''"

definition validate_context_packet_boundary :: "ContextPacket \<Rightarrow> GuardResult" where
  "validate_context_packet_boundary x =
     first_failure
      [validate_context_packet_required_fields x,
       reject_if (case pkt_created_at x of None \<Rightarrow> False | Some t \<Rightarrow> t \<le> 0)
         ''created_at must be a positive timestamp when present'']
      ''context packet boundary validation passed''"

definition evidence_refs_rule :: "RetrievalEvidenceRef list option \<Rightarrow> GuardResult" where
  "evidence_refs_rule v =
     (case v of
        None \<Rightarrow> pass ''optional vector absent''
      | Some refs \<Rightarrow>
          if refs = [] then
            fail ''retrieval_evidence_refs must contain at least one item when present''
          else if \<not> list_all ref_has_consistent_values refs then
            fail ''retrieval_evidence_refs must contain only consistent evidence refs''
          else pass ''vector validation passed'')"

definition validate_context_packet_field_rules :: "ContextPacket \<Rightarrow> GuardResult" where
  "validate_context_packet_field_rules x =
     first_failure
      [validate_context_packet_boundary x,
       reject_if (present_but_empty (pkt_summary_memory x))
         ''summary_memory must be non-empty when present'',
       packet_vector ''retrieval_evidence must contain at least one item when present''
         ''retrieval_evidence must not contain empty strings'' (pkt_retrieval_evidence x),
       evidence_refs_rule (pkt_retrieval_evidence_refs x),
       reject_if (present_but_empty (pkt_latest_observation_digest_summary x))
         ''latest_observation_digest_summary must be non-empty when present'',
       packet_vector ''active_tools must contain at least one item when present''
         ''active_tools must not contain empty strings'' (pkt_active_tools x),
       reject_if (present_but_empty (pkt_policy_digest x))
         ''policy_digest must be non-empty when present'',
       reject_if
         (case pkt_input_safety_signal x of
            None \<Rightarrow> False | Some signal \<Rightarrow> \<not> signal_has_consistent_values signal)
         ''input_safety_signal reason_codes must not contain empty strings'',
       reject_if (present_but_empty (pkt_token_budget_report x))
         ''token_budget_report must be non-empty when present'',
       reject_if (present_but_empty (pkt_belief_state_summary x))
         ''belief_state_summary must be non-empty when present'',
       packet_vector ''tags must contain at least one item when present''
         ''tags must not contain empty strings'' (pkt_tags x)]
      ''context packet field rules validation passed''"

section \<open>What the guards accept\<close>

definition filled_list :: "string list option \<Rightarrow> bool" where
  "filled_list v \<longleftrightarrow> (case v of None \<Rightarrow> True | Some vs \<Rightarrow> vs \<noteq> [] \<and> [] \<notin> set vs)"

lemma packet_vector_ok [simp]: "ok (packet_vector n r v) \<longleftrightarrow> filled_list v"
  by (auto simp: packet_vector_def filled_list_def split: option.split)

lemma evidence_refs_rule_ok [simp]:
  "ok (evidence_refs_rule v) \<longleftrightarrow>
     (case v of None \<Rightarrow> True | Some refs \<Rightarrow> refs \<noteq> [] \<and> list_all ref_has_consistent_values refs)"
  by (auto simp: evidence_refs_rule_def split: option.split)

lemma has_non_empty_Some [simp]: "has_non_empty_value (Some s) \<longleftrightarrow> s \<noteq> []"
  "\<not> has_non_empty_value None"
  by (simp_all add: has_non_empty_value_def)

lemma summary_rules_ok:
  "ok (validate_summary_memory_field_rules x) \<longleftrightarrow>
     has_non_empty_value (sum_summary_id x) \<and> has_non_empty_value (sum_session_id x) \<and>
     has_non_empty_value (sum_summary_text x) \<and>
     (\<exists>t. sum_created_at x = Some t \<and> 0 < t) \<and>
     optional_string_set (sum_source_turn_ids x) \<and> optional_string_set (sum_decisions_made x) \<and>
     optional_string_set (sum_confirmed_facts x) \<and> optional_string_set (sum_tool_outcomes x) \<and>
     optional_string_set (sum_tags x)"
  by (auto simp: validate_summary_memory_field_rules_def validate_summary_memory_boundary_def
      validate_summary_memory_required_fields_def split: option.splits)

lemma packet_rules_ok:
  "ok (validate_context_packet_field_rules x) \<longleftrightarrow>
     has_non_empty_value (pkt_request_id x) \<and> has_non_empty_value (pkt_user_turn x) \<and>
     has_non_empty_value (pkt_current_goal_summary x) \<and> pkt_recent_history x \<noteq> None \<and>
     (\<forall>t. pkt_created_at x = Some t \<longrightarrow> 0 < t) \<and>
     \<not> present_but_empty (pkt_summary_memory x) \<and> filled_list (pkt_retrieval_evidence x) \<and>
     (\<forall>refs. pkt_retrieval_evidence_refs x = Some refs \<longrightarrow>
        refs \<noteq> [] \<and> list_all ref_has_consistent_values refs) \<and>
     \<not> present_but_empty (pkt_latest_observation_digest_summary x) \<and>
     filled_list (pkt_active_tools x) \<and> \<not> present_but_empty (pkt_policy_digest x) \<and>
     (\<forall>signal. pkt_input_safety_signal x = Some signal \<longrightarrow> signal_has_consistent_values signal) \<and>
     \<not> present_but_empty (pkt_token_budget_report x) \<and>
     \<not> present_but_empty (pkt_belief_state_summary x) \<and> filled_list (pkt_tags x)"
  by (simp add: validate_context_packet_field_rules_def validate_context_packet_boundary_def
      validate_context_packet_required_fields_def split: option.splits)

end
