(* ===== verification/Compression.thy ===== *)
theory Compression
  imports Memory_Guards Decimal
begin

text \<open>
  Compression of a conversation into a summary,
  \<^verbatim>\<open>memory/src/writeback/CompressionCoordinator.cpp\<close>: a summary from a summarizer or from a
  template, merged with the existing summary. The summarizer is an argument, \<open>None\<close> when no
  summarizer is configured; it throws when it returns \<open>None\<close>. The clock and the store's answer
  to the upsert are arguments.
\<close>

section \<open>Keywords\<close>

text \<open>UTF-8 literals of the source, as bytes.\<close>

definition bytes :: "nat list \<Rightarrow> string" where
  "bytes ns = map char_of ns"

fun contains_text :: "string \<Rightarrow> string \<Rightarrow> bool" where
  "contains_text pat [] \<longleftrightarrow> pat = []"
| "contains_text pat (c # cs) \<longleftrightarrow> take (length pat) (c # cs) = pat \<or> contains_text pat cs"

definition contains_any_keyword :: "string \<Rightarrow> string list \<Rightarrow> bool" where
  "contains_any_keyword txt keywords \<longleftrightarrow>
     list_ex (\<lambda>keyword. \<not> empty_string keyword \<and> contains_text keyword txt) keywords"

definition optional_contains :: "string option \<Rightarrow> string list \<Rightarrow> bool" where
  "optional_contains v keywords \<longleftrightarrow> (case v of None \<Rightarrow> False | Some s \<Rightarrow> contains_any_keyword s keywords)"

definition decision_response_keywords :: "string list" where
  "decision_response_keywords =
     [bytes [229, 134, 179, 229, 174, 154], bytes [232, 174, 161, 229, 136, 146],
      bytes [228, 184, 139, 228, 184, 128, 230, 173, 165], ''decide'', ''plan'']"

definition decision_input_keywords :: "string list" where
  "decision_input_keywords =
     [bytes [228, 184, 139, 228, 184, 128, 230, 173, 165], bytes [232, 174, 161, 229, 136, 146],
      bytes [233, 156, 128, 232, 166, 129]]"

definition fact_input_keywords :: "string list" where
  "fact_input_keywords =
     [bytes [231, 161, 174, 232, 174, 164], bytes [229, 191, 133, 233, 161, 187],
      bytes [233, 156, 128, 232, 166, 129], ''confirmed'', ''must'']"

definition fact_response_keywords :: "string list" where
  "fact_response_keywords =
     [bytes [229, 183, 178, 229, 174, 140, 230, 136, 144], bytes [231, 161, 174, 232, 174, 164],
      bytes [229, 174, 140, 230, 136, 144], ''confirmed'', ''completed'']"

definition outcome_response_keywords :: "string list" where
  "outcome_response_keywords =
     [bytes [230, 136, 144, 229, 138, 159], bytes [229, 164, 177, 232, 180, 165],
      bytes [229, 174, 140, 230, 136, 144], ''success'', ''failed'']"

section \<open>The template\<close>

definition append_unique_if :: "bool \<Rightarrow> string option \<Rightarrow> string list \<Rightarrow> string list" where
  "append_unique_if c v destination = (if c then append_unique destination (the v) else destination)"

definition extract_decisions :: "Turn list \<Rightarrow> string list" where
  "extract_decisions turns =
     foldl (\<lambda>decisions turn.
        append_unique_if (optional_contains (turn_user_input turn) decision_input_keywords)
            (turn_user_input turn)
          (append_unique_if (optional_contains (turn_agent_response turn) decision_response_keywords)
              (turn_agent_response turn) decisions)) [] turns"

definition extract_confirmed_facts :: "Turn list \<Rightarrow> string list" where
  "extract_confirmed_facts turns =
     foldl (\<lambda>facts turn.
        append_unique_if (optional_contains (turn_agent_response turn) fact_response_keywords)
            (turn_agent_response turn)
          (append_unique_if (optional_contains (turn_user_input turn) fact_input_keywords)
              (turn_user_input turn) facts)) [] turns"

definition present_refs :: "string list option \<Rightarrow> bool" where
  "present_refs v \<longleftrightarrow> v \<noteq> None \<and> v \<noteq> Some []"

definition extract_tool_outcomes :: "Turn list \<Rightarrow> string list" where
  "extract_tool_outcomes turns =
     foldl (\<lambda>outcomes turn.
        append_unique_if (optional_contains (turn_agent_response turn) outcome_response_keywords)
            (turn_agent_response turn)
          (append_unique_if (present_refs (turn_observation_refs turn))
              (Some (''observations: '' @ join_strings (the (turn_observation_refs turn)) '', ''))
            (append_unique_if (present_refs (turn_tool_call_refs turn))
                (Some (''tool_calls: '' @ join_strings (the (turn_tool_call_refs turn)) '', ''))
              outcomes))) [] turns"

definition collected_turn_ids :: "Turn list \<Rightarrow> string list" where
  "collected_turn_ids turns =
     foldl (\<lambda>ids turn. append_unique_if (has_non_empty_value (turn_turn_id turn)) (turn_turn_id turn) ids)
       [] turns"

definition optional_part :: "bool \<Rightarrow> string \<Rightarrow> string list" where
  "optional_part c part = (if c then [part] else [])"

definition build_summary_text :: "CompressionInput \<Rightarrow> SummaryProjection \<Rightarrow> string" where
  "build_summary_text input projection =
     (let first_part = ''Session '' @ ci_session_id input @ '' compressed '' @
            to_string_nat (length (ci_source_turns input)) @ '' turns.'';
          latest_parts =
            (if ci_source_turns input = [] then []
             else
               let latest_turn = last (ci_source_turns input)
               in optional_part (has_non_empty_value (turn_user_input latest_turn))
                    (''Latest user input: '' @ the (turn_user_input latest_turn)) @
                  optional_part (has_non_empty_value (turn_agent_response latest_turn))
                    (''Latest response: '' @ the (turn_agent_response latest_turn)))
      in join_strings
           (first_part # latest_parts @
            optional_part (proj_decisions_made projection \<noteq> [])
              (''Decisions: '' @ join_strings (proj_decisions_made projection) '' | '') @
            optional_part (proj_confirmed_facts projection \<noteq> [])
              (''Confirmed facts: '' @ join_strings (proj_confirmed_facts projection) '' | '') @
            optional_part (proj_tool_outcomes projection \<noteq> [])
              (''Tool outcomes: '' @ join_strings (proj_tool_outcomes projection) '' | ''))
           '' '')"

definition estimate_projection_tokens :: "estimator \<Rightarrow> SummaryProjection \<Rightarrow> int" where
  "estimate_projection_tokens est projection =
     (let counted = est (proj_summary_text projection) +
            string_vector_tokens est (proj_decisions_made projection) +
            string_vector_tokens est (proj_confirmed_facts projection) +
            string_vector_tokens est (proj_tool_outcomes projection) +
            string_vector_tokens est (proj_source_turn_ids projection)
      in if counted \<le> 0 then 0 else counted + max 1 ((counted + 9) div 10))"

definition with_estimate :: "estimator \<Rightarrow> SummaryProjection \<Rightarrow> SummaryProjection" where
  "with_estimate est projection =
     projection\<lparr>proj_estimated_tokens := estimate_projection_tokens est projection\<rparr>"

definition extract_structured_summary :: "estimator \<Rightarrow> CompressionInput \<Rightarrow> SummaryProjection" where
  "extract_structured_summary est input =
     (let turns = ci_source_turns input;
          projection = empty_projection\<lparr>proj_decisions_made := extract_decisions turns,
            proj_confirmed_facts := extract_confirmed_facts turns,
            proj_tool_outcomes := extract_tool_outcomes turns,
            proj_source_turn_ids := collected_turn_ids turns\<rparr>
      in with_estimate est (projection\<lparr>proj_summary_text := build_summary_text input projection\<rparr>))"

section \<open>Merging\<close>

definition merged_text :: "string option \<Rightarrow> string \<Rightarrow> string" where
  "merged_text existing projected =
     (if has_non_empty_value existing then
        (if empty_string projected then the existing
         else if projected \<noteq> the existing then the existing @ [CHR 0x0A] @ ''Update: '' @ projected
         else projected)
      else projected)"

definition merge_with_existing ::
    "estimator \<Rightarrow> SummaryMemory option \<Rightarrow> SummaryProjection \<Rightarrow> SummaryProjection" where
  "merge_with_existing est existing_summary projection =
     (case existing_summary of
        None \<Rightarrow> projection
      | Some existing \<Rightarrow>
          with_estimate est
            (projection\<lparr>
               proj_summary_text :=
                 merged_text (sum_summary_text existing) (proj_summary_text projection),
               proj_source_turn_ids :=
                 append_all_unique (proj_source_turn_ids projection)
                   (value_or (sum_source_turn_ids existing) []),
               proj_decisions_made :=
                 append_all_unique (proj_decisions_made projection)
                   (value_or (sum_decisions_made existing) []),
               proj_confirmed_facts :=
                 append_all_unique (proj_confirmed_facts projection)
                   (value_or (sum_confirmed_facts existing) []),
               proj_tool_outcomes :=
                 append_all_unique (proj_tool_outcomes projection)
                   (value_or (sum_tool_outcomes existing) [])\<rparr>))"

definition build_summary_id :: "CompressionInput \<Rightarrow> string" where
  "build_summary_id input =
     (let existing_id =
            (case ci_existing_summary input of None \<Rightarrow> None | Some existing \<Rightarrow> sum_summary_id existing)
      in if has_non_empty_value existing_id then the existing_id
         else if ci_source_turns input \<noteq> [] \<and>
                 has_non_empty_value (turn_turn_id (last (ci_source_turns input))) then
           ci_session_id input @ ''-summary-'' @ the (turn_turn_id (last (ci_source_turns input)))
         else ci_session_id input @ ''-summary'')"

definition non_empty_list :: "string list \<Rightarrow> string list option" where
  "non_empty_list vs = (if vs = [] then None else Some vs)"

definition materialize_summary :: "CompressionInput \<Rightarrow> SummaryProjection \<Rightarrow> int \<Rightarrow> SummaryMemory" where
  "materialize_summary input projection now_ms =
     \<lparr>sum_summary_id = Some (build_summary_id input), sum_session_id = Some (ci_session_id input),
      sum_summary_text = Some (proj_summary_text projection),
      sum_source_turn_ids = non_empty_list (proj_source_turn_ids projection),
      sum_decisions_made = non_empty_list (proj_decisions_made projection),
      sum_confirmed_facts = non_empty_list (proj_confirmed_facts projection),
      sum_tool_outcomes = non_empty_list (proj_tool_outcomes projection),
      sum_created_at = Some now_ms, sum_tags = Some [''compression'']\<rparr>"

section \<open>Compression\<close>

type_synonym summarizer = "SummaryGenerationRequest \<Rightarrow> SummaryGenerationResult option"

definition empty_compression :: CompressionOutput where
  "empty_compression = \<lparr>co_summary = empty_summary, co_projection = empty_projection,
     co_compression_notes = [], co_compression_applied = False\<rparr>"

definition generation_request :: "CompressionInput \<Rightarrow> SummaryGenerationRequest" where
  "generation_request input =
     \<lparr>sg_session_id = ci_session_id input, sg_source_turns = ci_source_turns input,
      sg_existing_summary = ci_existing_summary input,
      sg_target_token_budget = ci_target_token_budget input,
      sg_strategy_hint = ci_strategy_hint input\<rparr>"

text \<open>The projection of the summarizer, the notes, and whether the template has to be used.\<close>

definition run_summarizer ::
    "summarizer option \<Rightarrow> CompressionInput \<Rightarrow> SummaryProjection \<times> string list \<times> bool" where
  "run_summarizer summarizer_opt input =
     (case summarizer_opt of
        None \<Rightarrow> (empty_projection, [], True)
      | Some summarize \<Rightarrow>
          case summarize (generation_request input) of
            None \<Rightarrow> (empty_projection, [''summarizer_fallback''], True)
          | Some generated \<Rightarrow>
              (sg_projection generated, append_all_unique [] (sg_warnings generated),
               sg_fallback_used generated \<or> sg_degraded generated \<or>
               empty_string (proj_summary_text (sg_projection generated))))"

definition compress ::
    "estimator \<Rightarrow> summarizer option \<Rightarrow> (SummaryMemory \<Rightarrow> bool) \<Rightarrow> int \<Rightarrow> CompressionInput \<Rightarrow>
     CompressionOutput" where
  "compress est summarizer_opt upsert_ok now_ms input =
     (if ci_source_turns input = [] then empty_compression
      else
        let (generated, notes, use_template) = run_summarizer summarizer_opt input;
            notes = (if use_template \<and> summarizer_opt \<noteq> None
                     then append_unique notes ''summarizer_fallback'' else notes);
            projection = (if use_template then extract_structured_summary est input else generated);
            projection = merge_with_existing est (ci_existing_summary input) projection;
            projection =
              (if empty_string (proj_summary_text projection)
               then projection\<lparr>proj_summary_text := build_summary_text input projection\<rparr>
               else projection);
            projection = with_estimate est projection;
            summary = materialize_summary input projection now_ms;
            applied = \<not> empty_string (proj_summary_text projection);
            notes = append_unique notes
              (''strategy:'' @ (if use_template then ''template'' else ''summarizer''));
            notes =
              (if ci_materialize_latest_summary input \<and> applied then
                 append_unique notes
                   (if upsert_ok summary then ''summary_materialized''
                    else ''summary_materialization_failed'')
               else notes)
        in \<lparr>co_summary = summary, co_projection = projection, co_compression_notes = notes,
            co_compression_applied = applied\<rparr>)"

section \<open>Projections stay sets of strings\<close>

definition projection_sets :: "SummaryProjection \<Rightarrow> bool" where
  "projection_sets p \<longleftrightarrow>
     string_set (proj_source_turn_ids p) \<and> string_set (proj_decisions_made p) \<and>
     string_set (proj_confirmed_facts p) \<and> string_set (proj_tool_outcomes p)"

lemma string_set_Nil [simp]: "string_set []"
  by (simp add: string_set_def)

lemma append_unique_if_set:
  "string_set destination \<Longrightarrow> (c \<Longrightarrow> the v \<noteq> []) \<Longrightarrow> string_set (append_unique_if c v destination)"
  by (simp add: append_unique_if_def string_set_append_unique)

lemma has_non_empty_the: "has_non_empty_value v \<Longrightarrow> the v \<noteq> []"
  by (cases v) simp_all

lemma contains_text_nonempty: "contains_text pat txt \<Longrightarrow> pat \<noteq> [] \<Longrightarrow> txt \<noteq> []"
  by auto

lemma optional_contains_nonempty: "optional_contains v keywords \<Longrightarrow> the v \<noteq> []"
  by (cases v) (auto simp: optional_contains_def contains_any_keyword_def list_ex_iff)

lemma foldl_string_set:
  "(\<And>acc x. string_set acc \<Longrightarrow> string_set (f acc x)) \<Longrightarrow> string_set acc \<Longrightarrow> string_set (foldl f acc xs)"
  by (induction xs arbitrary: acc) auto

lemma template_sets: "projection_sets (extract_structured_summary est input)"
proof -
  show ?thesis
    unfolding projection_sets_def extract_structured_summary_def Let_def with_estimate_def
    by (auto simp: extract_decisions_def extract_confirmed_facts_def extract_tool_outcomes_def
        collected_turn_ids_def has_non_empty_the intro!: foldl_string_set append_unique_if_set
        dest: optional_contains_nonempty)
qed

lemma string_set_value_or: "optional_string_set v \<Longrightarrow> string_set (value_or v [])"
  by (cases v) (auto simp: optional_string_set_def)

lemma string_set_not_empty: "string_set vs \<Longrightarrow> [] \<notin> set vs"
  by (simp add: string_set_def)

lemma non_empty_list_set [simp]: "string_set vs \<Longrightarrow> optional_string_set (non_empty_list vs)"
  by (auto simp: non_empty_list_def optional_string_set_def)

lemma merged_sets:
  assumes "projection_sets p"
    and "\<And>e. existing_summary = Some e \<Longrightarrow> ok (validate_summary_memory_field_rules e)"
  shows "projection_sets (merge_with_existing est existing_summary p)"
proof (cases existing_summary)
  case (Some e)
  have "string_set (append_all_unique xs (value_or v []))"
    if "string_set xs" "optional_string_set v" for xs v
    using that by (intro string_set_append_all string_set_not_empty string_set_value_or)
  moreover have "ok (validate_summary_memory_field_rules e)" using assms(2) Some by simp
  ultimately show ?thesis
    using assms(1) Some
    by (simp add: merge_with_existing_def projection_sets_def with_estimate_def summary_rules_ok)
qed (use assms in \<open>simp add: merge_with_existing_def\<close>)

section \<open>Nothing is lost\<close>

text \<open>What a summary says that a later one has to say as well.\<close>

definition carries :: "SummaryMemory \<Rightarrow> SummaryMemory \<Rightarrow> bool" where
  "carries later earlier \<longleftrightarrow>
     (\<exists>rest. value_or (sum_summary_text later) [] = value_or (sum_summary_text earlier) [] @ rest) \<and>
     set (value_or (sum_source_turn_ids earlier) []) \<subseteq> set (value_or (sum_source_turn_ids later) []) \<and>
     set (value_or (sum_decisions_made earlier) []) \<subseteq> set (value_or (sum_decisions_made later) []) \<and>
     set (value_or (sum_confirmed_facts earlier) []) \<subseteq> set (value_or (sum_confirmed_facts later) []) \<and>
     set (value_or (sum_tool_outcomes earlier) []) \<subseteq> set (value_or (sum_tool_outcomes later) [])"

lemma join_strings_head: "\<exists>rest. join_strings (v # vs) sep = v @ rest"
  by (simp add: join_strings_def)

lemma build_summary_text_nonempty: "build_summary_text input p \<noteq> []"
  by (simp add: build_summary_text_def join_strings_def Let_def)

lemma merged_text_extends:
  "has_non_empty_value existing \<Longrightarrow> \<exists>rest. merged_text existing projected = value_or existing [] @ rest"
  by (cases existing) (auto simp: merged_text_def)

lemma non_empty_list_value [simp]: "value_or (non_empty_list vs) [] = vs"
  by (simp add: non_empty_list_def)

lemma with_estimate_sel [simp]:
  "proj_summary_text (with_estimate est p) = proj_summary_text p"
  "proj_source_turn_ids (with_estimate est p) = proj_source_turn_ids p"
  "proj_decisions_made (with_estimate est p) = proj_decisions_made p"
  "proj_confirmed_facts (with_estimate est p) = proj_confirmed_facts p"
  "proj_tool_outcomes (with_estimate est p) = proj_tool_outcomes p"
  by (simp_all add: with_estimate_def)

definition chosen_projection :: "estimator \<Rightarrow> summarizer option \<Rightarrow> CompressionInput \<Rightarrow> SummaryProjection" where
  "chosen_projection est summarizer_opt input =
     (let (generated, notes, use_template) = run_summarizer summarizer_opt input
      in if use_template then extract_structured_summary est input else generated)"

text \<open>A summarizer whose projections list each item once and no empty item.\<close>

definition summarizer_sane :: "summarizer option \<Rightarrow> bool" where
  "summarizer_sane summarizer_opt \<longleftrightarrow>
     (\<forall>summarize request generated. summarizer_opt = Some summarize \<longrightarrow>
        summarize request = Some generated \<longrightarrow> projection_sets (sg_projection generated))"

lemma chosen_sets: "summarizer_sane summarizer_opt \<Longrightarrow> projection_sets (chosen_projection est summarizer_opt input)"
  by (auto simp: chosen_projection_def run_summarizer_def summarizer_sane_def template_sets
      split: option.split)

lemma chosen_text: "proj_summary_text (chosen_projection est summarizer_opt input) \<noteq> []"
  by (auto simp: chosen_projection_def run_summarizer_def extract_structured_summary_def
      build_summary_text_nonempty Let_def split: option.split)

lemma merged_nonempty:
  "proj_summary_text p \<noteq> [] \<Longrightarrow> proj_summary_text (merge_with_existing est e p) \<noteq> []"
  by (auto simp: merge_with_existing_def merged_text_def split: option.split)

definition merged_projection :: "estimator \<Rightarrow> summarizer option \<Rightarrow> CompressionInput \<Rightarrow> SummaryProjection" where
  "merged_projection est summarizer_opt input =
     merge_with_existing est (ci_existing_summary input) (chosen_projection est summarizer_opt input)"

lemma compress_result:
  assumes "ci_source_turns input \<noteq> []"
  shows "co_summary (compress est summarizer_opt upsert_ok now_ms input) =
      materialize_summary input (with_estimate est (merged_projection est summarizer_opt input)) now_ms"
    and "co_compression_applied (compress est summarizer_opt upsert_ok now_ms input)"
proof -
  have filled: "proj_summary_text (merged_projection est summarizer_opt input) \<noteq> []"
    unfolding merged_projection_def by (intro merged_nonempty chosen_text)
  obtain generated ws use_template
    where r: "run_summarizer summarizer_opt input = (generated, ws, use_template)"
    using prod_cases3 by blast
  have p: "merge_with_existing est (ci_existing_summary input)
      (if use_template then extract_structured_summary est input else generated) =
      merged_projection est summarizer_opt input"
    by (simp add: merged_projection_def chosen_projection_def r)
  show "co_summary (compress est summarizer_opt upsert_ok now_ms input) =
      materialize_summary input (with_estimate est (merged_projection est summarizer_opt input)) now_ms"
    "co_compression_applied (compress est summarizer_opt upsert_ok now_ms input)"
    using assms(1) filled by (simp_all add: compress_def r p Let_def)
qed

lemma merged_carries:
  assumes "ci_existing_summary input = Some e" "ok (validate_summary_memory_field_rules e)"
  shows "sum_summary_id (materialize_summary input (with_estimate est (merged_projection est s input)) now_ms) =
      sum_summary_id e"
    and "carries (materialize_summary input (with_estimate est (merged_projection est s input)) now_ms) e"
proof -
  have filled: "has_non_empty_value (sum_summary_id e)" "has_non_empty_value (sum_summary_text e)"
    using assms(2) by (simp_all add: summary_rules_ok)
  then show "sum_summary_id (materialize_summary input (with_estimate est (merged_projection est s input)) now_ms) =
      sum_summary_id e"
    by (cases "sum_summary_id e") (simp_all add: materialize_summary_def build_summary_id_def assms(1))
  show "carries (materialize_summary input (with_estimate est (merged_projection est s input)) now_ms) e"
    using merged_text_extends [OF filled(2)]
    by (simp add: carries_def materialize_summary_def merged_projection_def merge_with_existing_def assms(1))
qed

lemma compression_valid_aux:
  assumes "ci_source_turns input \<noteq> []" and "\<not> empty_string (ci_session_id input)" and "0 < now_ms"
    and "summarizer_sane summarizer_opt"
    and "\<And>e. ci_existing_summary input = Some e \<Longrightarrow> ok (validate_summary_memory_field_rules e)"
  shows "ok (validate_summary_memory_field_rules
    (co_summary (compress est summarizer_opt upsert_ok now_ms input)))"
proof -
  let ?p = "merged_projection est summarizer_opt input"
  have sets: "projection_sets ?p"
    unfolding merged_projection_def using assms(5) by (intro merged_sets chosen_sets assms(4))
  have "proj_summary_text ?p \<noteq> []"
    unfolding merged_projection_def by (intro merged_nonempty chosen_text)
  moreover have "build_summary_id input \<noteq> []"
    by (auto simp: build_summary_id_def Let_def has_non_empty_the split: option.split)
  moreover have "optional_string_set (Some [''compression''])"
    by (simp add: optional_string_set_def string_set_def)
  ultimately show ?thesis unfolding compress_result(1) [OF assms(1)]
    using sets assms(2,3) by (simp add: summary_rules_ok materialize_summary_def projection_sets_def)
qed


definition sample_summary :: SummaryMemory where
  "sample_summary = empty_summary\<lparr>sum_summary_id := Some ''s-summary'', sum_session_id := Some ''s'',
     sum_summary_text := Some ''before'', sum_confirmed_facts := Some [''ports must be open''],
     sum_created_at := Some 5\<rparr>"

definition sample_compression_input :: CompressionInput where
  "sample_compression_input = \<lparr>ci_session_id = ''s'',
     ci_source_turns =
       [empty_turn\<lparr>turn_turn_id := Some ''t1'', turn_user_input := Some ''it must be fast'',
          turn_agent_response := Some ''I plan to measure'', turn_tool_call_refs := Some [''c1'', ''c2'']\<rparr>],
     ci_existing_summary = Some sample_summary, ci_target_token_budget = 256,
     ci_materialize_latest_summary = False, ci_strategy_hint = ''auto''\<rparr>"

lemma sample_summary_ok: "ok (validate_summary_memory_field_rules sample_summary)"
  by (simp add: summary_rules_ok sample_summary_def empty_summary_def optional_string_set_def
      string_set_def)


section \<open>Deviations\<close>

text \<open>
  Without a summarizer the target budget has no influence, and over a valid existing summary the
  text only grows: the old text, a separator, and a new template.
\<close>

lemma template_ignores_target_budget:
  "compress est None upsert_ok now_ms (input\<lparr>ci_target_token_budget := b\<rparr>) =
     compress est None upsert_ok now_ms input"
proof -
  let ?input = "input\<lparr>ci_target_token_budget := b\<rparr>"
  have same_text: "build_summary_text ?input = build_summary_text input"
    by (rule ext) (simp add: build_summary_text_def)
  have "extract_structured_summary est ?input = extract_structured_summary est input"
    by (simp add: extract_structured_summary_def same_text)
  moreover have "materialize_summary ?input = materialize_summary input"
    by (intro ext) (simp add: materialize_summary_def build_summary_id_def Let_def)
  ultimately show ?thesis by (simp add: compress_def run_summarizer_def same_text
        cong del: let_weak_cong if_weak_cong)
qed

lemma compressed_text_never_shrinks:
  assumes "ci_source_turns input \<noteq> []" "ci_existing_summary input = Some e"
    "ok (validate_summary_memory_field_rules e)"
  shows "length (the (sum_summary_text e)) \<le>
    length (the (sum_summary_text (co_summary (compress est s upsert_ok now_ms input))))"
proof -
  from assms(3) obtain t where "sum_summary_text e = Some t"
    by (auto simp: summary_rules_ok has_non_empty_value_def split: option.splits)
  moreover have "carries (co_summary (compress est s upsert_ok now_ms input)) e"
    using compress_result(1) [OF assms(1)] merged_carries(2) [OF assms(2,3)] by simp
  ultimately show ?thesis
    using compress_result(1) [OF assms(1), of est s upsert_ok now_ms]
    by (auto simp: carries_def materialize_summary_def)
qed

end
