(* ===== verification/Hierarchical_Summary.thy ===== *)
theory Hierarchical_Summary
  imports Compression
begin

text \<open>
  Summaries of summaries, \<^verbatim>\<open>memory/src/writeback/HierarchicalSummarizationCoordinator.cpp\<close> and
  the level tags of \<^verbatim>\<open>HierarchicalSummaryRequest.h\<close>: when enough summaries of a level have no
  parent they are compressed into one of the next level, and the promotion cascades. The
  memory store is a record of functions on a store state, as its interface declares them; the
  SQL behind it is not modelled. One clock reading serves a call.
\<close>

section \<open>Levels and their tags\<close>

datatype HierarchicalSummaryLevel = Dialog | Topic | Profile

fun level_name :: "HierarchicalSummaryLevel \<Rightarrow> string" where
  "level_name Dialog = ''dialog''"
| "level_name Topic = ''topic''"
| "level_name Profile = ''profile''"

fun summary_level_tag :: "HierarchicalSummaryLevel \<Rightarrow> string" where
  "summary_level_tag Dialog = ''summary_level:dialog''"
| "summary_level_tag Topic = ''summary_level:topic''"
| "summary_level_tag Profile = ''summary_level:profile''"

fun next_hierarchical_summary_level :: "HierarchicalSummaryLevel \<Rightarrow> HierarchicalSummaryLevel option" where
  "next_hierarchical_summary_level Dialog = Some Topic"
| "next_hierarchical_summary_level Topic = Some Profile"
| "next_hierarchical_summary_level Profile = None"

fun first_level_tag :: "string list \<Rightarrow> HierarchicalSummaryLevel option" where
  "first_level_tag [] = None"
| "first_level_tag (tag # tags) =
     (if tag = summary_level_tag Dialog then Some Dialog
      else if tag = summary_level_tag Topic then Some Topic
      else if tag = summary_level_tag Profile then Some Profile
      else first_level_tag tags)"

definition extract_summary_level :: "SummaryMemory \<Rightarrow> HierarchicalSummaryLevel option" where
  "extract_summary_level summary =
     (case sum_tags summary of None \<Rightarrow> None | Some tags \<Rightarrow> first_level_tag tags)"

definition summary_matches_level :: "SummaryMemory \<Rightarrow> HierarchicalSummaryLevel \<Rightarrow> bool" where
  "summary_matches_level summary level \<longleftrightarrow>
     (case extract_summary_level summary of
        None \<Rightarrow> level = Dialog
      | Some actual_level \<Rightarrow> actual_level = level)"

definition is_level_tag :: "string \<Rightarrow> bool" where
  "is_level_tag tag \<longleftrightarrow> take 14 tag = ''summary_level:''"

fun replace_level_tag :: "string \<Rightarrow> string list \<Rightarrow> string list" where
  "replace_level_tag desired_tag [] = [desired_tag]"
| "replace_level_tag desired_tag (tag # tags) =
     (if is_level_tag tag then desired_tag # tags else tag # replace_level_tag desired_tag tags)"

definition ensure_summary_level_tag ::
    "SummaryMemory \<Rightarrow> HierarchicalSummaryLevel \<Rightarrow> SummaryMemory" where
  "ensure_summary_level_tag summary level =
     summary\<lparr>sum_tags :=
       Some (replace_level_tag (summary_level_tag level) (value_or (sum_tags summary) []))\<rparr>"

section \<open>Requests, results and the store\<close>

record HierarchicalSummaryRequest =
  hs_session_id :: string
  hs_source_level :: HierarchicalSummaryLevel
  hs_target_level :: HierarchicalSummaryLevel
  hs_source_summaries :: "SummaryMemory list"
  hs_user_id :: "string option"
  hs_target_token_budget :: int

record HierarchicalSummarizationResult =
  promoted_summary :: "SummaryMemory option"
  promotion_warnings :: "string list"
  promoted :: bool

record HierarchyConfig =
  hierarchy_enabled :: bool
  dialog_to_topic_threshold :: int
  topic_to_profile_threshold :: int

record 'st summary_store =
  load_unparented_summaries :: "'st \<Rightarrow> string \<Rightarrow> HierarchicalSummaryLevel \<Rightarrow> nat \<Rightarrow> SummaryMemory list"
  upsert_summary :: "'st \<Rightarrow> SummaryMemory \<Rightarrow> 'st \<times> bool"
  assign_summary_parent :: "'st \<Rightarrow> string list \<Rightarrow> string \<Rightarrow> 'st \<times> bool"
  session_user_id :: "'st \<Rightarrow> string \<Rightarrow> string option"

definition no_promotion :: HierarchicalSummarizationResult where
  "no_promotion = \<lparr>promoted_summary = None, promotion_warnings = [], promoted = False\<rparr>"

definition promotion_failed :: "string \<Rightarrow> HierarchicalSummarizationResult" where
  "promotion_failed warning = no_promotion\<lparr>promotion_warnings := [warning]\<rparr>"

section \<open>One promotion\<close>

definition labelled :: "bool \<Rightarrow> string \<Rightarrow> string list option \<Rightarrow> string list" where
  "labelled c label v = optional_part c (label @ join_strings (the v) '' | '')"

definition summarize_child_page :: "SummaryMemory \<Rightarrow> string" where
  "summarize_child_page summary =
     join_strings
       (optional_part (has_non_empty_value (sum_summary_text summary)) (the (sum_summary_text summary)) @
        labelled (present_refs (sum_decisions_made summary)) ''Decisions: '' (sum_decisions_made summary) @
        labelled (present_refs (sum_confirmed_facts summary)) ''Facts: '' (sum_confirmed_facts summary) @
        labelled (present_refs (sum_tool_outcomes summary)) ''Tool outcomes: '' (sum_tool_outcomes summary))
       '' ''"

definition build_turns_from_summaries :: "HierarchicalSummaryRequest \<Rightarrow> int \<Rightarrow> Turn list" where
  "build_turns_from_summaries request now_ms =
     map (\<lambda>source_summary. empty_turn\<lparr>turn_turn_id := sum_summary_id source_summary,
            turn_session_id := Some (hs_session_id request),
            turn_user_input := Some (''hierarchy-source:'' @ level_name (hs_source_level request)),
            turn_agent_response := Some (summarize_child_page source_summary),
            turn_created_at := Some (value_or (sum_created_at source_summary) now_ms)\<rparr>)
       (hs_source_summaries request)"

definition build_parent_summary_id :: "HierarchicalSummaryRequest \<Rightarrow> string" where
  "build_parent_summary_id request =
     (let suffix =
            (if hs_source_summaries request = [] then ''page''
             else value_or (sum_summary_id (last (hs_source_summaries request))) ''page'')
      in hs_session_id request @ ''-'' @ level_name (hs_target_level request) @ ''-summary-'' @ suffix)"

fun target_budget_for :: "HierarchicalSummaryLevel \<Rightarrow> int" where
  "target_budget_for Topic = 384"
| "target_budget_for Profile = 512"
| "target_budget_for Dialog = 256"

definition child_summary_ids :: "SummaryMemory list \<Rightarrow> string list" where
  "child_summary_ids summaries =
     map (the \<circ> sum_summary_id) (filter (has_non_empty_value \<circ> sum_summary_id) summaries)"

definition parent_of :: "HierarchicalSummaryRequest \<Rightarrow> int \<Rightarrow> SummaryMemory \<Rightarrow> SummaryMemory" where
  "parent_of request now_ms compressed =
     (let parent = compressed\<lparr>sum_summary_id := Some (build_parent_summary_id request),
            sum_session_id := Some (hs_session_id request), sum_created_at := Some now_ms,
            sum_source_turn_ids := Some (child_summary_ids (hs_source_summaries request))\<rparr>;
          parent = ensure_summary_level_tag parent (hs_target_level request);
          tags = append_unique (value_or (sum_tags parent) []) ''hierarchical'';
          tags = append_unique tags (''hierarchy_source:'' @ level_name (hs_source_level request));
          tags =
            (if has_non_empty_value (hs_user_id request)
             then append_unique tags (''summary_owner_user:'' @ the (hs_user_id request))
             else tags)
      in parent\<lparr>sum_tags := Some tags\<rparr>)"

definition promote_once ::
    "estimator \<Rightarrow> summarizer option \<Rightarrow> 'st summary_store \<Rightarrow> int \<Rightarrow> 'st \<Rightarrow> HierarchicalSummaryRequest \<Rightarrow>
     'st \<times> HierarchicalSummarizationResult" where
  "promote_once est summarizer_opt store now_ms st request =
     (if hs_source_summaries request = [] then (st, no_promotion)
      else
        let output =
              compress est summarizer_opt (\<lambda>_. True) now_ms
                \<lparr>ci_session_id = hs_session_id request,
                 ci_source_turns = build_turns_from_summaries request now_ms,
                 ci_existing_summary = None,
                 ci_target_token_budget = hs_target_token_budget request,
                 ci_materialize_latest_summary = False,
                 ci_strategy_hint = ''hierarchy:'' @ level_name (hs_target_level request)\<rparr>
        in if \<not> co_compression_applied output then
             (st, promotion_failed ''hierarchy_compression_skipped'')
           else
             let parent = parent_of request now_ms (co_summary output)
             in case upsert_summary store st parent of (st, upserted) \<Rightarrow>
                  if \<not> upserted then (st, promotion_failed ''hierarchy_parent_upsert_failed'')
                  else
                    case assign_summary_parent store st
                           (child_summary_ids (hs_source_summaries request))
                           (the (sum_summary_id parent)) of (st, assigned) \<Rightarrow>
                      if \<not> assigned then (st, promotion_failed ''hierarchy_parent_assignment_failed'')
                      else (st, \<lparr>promoted_summary = Some parent, promotion_warnings = [],
                                 promoted = True\<rparr>))"

fun threshold_for :: "HierarchyConfig \<Rightarrow> HierarchicalSummaryLevel \<Rightarrow> int" where
  "threshold_for config Dialog = dialog_to_topic_threshold config"
| "threshold_for config Topic = topic_to_profile_threshold config"
| "threshold_for config Profile = 0"

definition resolve_user_id :: "'st summary_store \<Rightarrow> 'st \<Rightarrow> string \<Rightarrow> string option" where
  "resolve_user_id store st session_id =
     (if has_non_empty_value (session_user_id store st session_id)
      then session_user_id store st session_id else None)"

text \<open>The request a summary gives rise to, if its session has enough summaries of its level.\<close>

definition source_level_of :: "SummaryMemory \<Rightarrow> HierarchicalSummaryLevel" where
  "source_level_of summary = value_or (extract_summary_level summary) Dialog"

definition promotion_request ::
    "HierarchyConfig \<Rightarrow> 'st summary_store \<Rightarrow> 'st \<Rightarrow> SummaryMemory \<Rightarrow> HierarchicalSummaryRequest option" where
  "promotion_request config store st summary =
     (if \<not> hierarchy_enabled config \<or> \<not> has_non_empty_value (sum_session_id summary) then None
      else
        let source_level = source_level_of summary
        in case next_hierarchical_summary_level source_level of
             None \<Rightarrow> None
           | Some target_level \<Rightarrow>
               let threshold = threshold_for config source_level
               in if threshold \<le> 1 then None
                  else
                    let source_summaries =
                          load_unparented_summaries store st (the (sum_session_id summary))
                            source_level (nat threshold)
                    in if int (length source_summaries) < threshold then None
                       else Some
                         \<lparr>hs_session_id = the (sum_session_id summary), hs_source_level = source_level,
                          hs_target_level = target_level, hs_source_summaries = source_summaries,
                          hs_user_id = resolve_user_id store st (the (sum_session_id summary)),
                          hs_target_token_budget = target_budget_for target_level\<rparr>)"

section \<open>A promotion raises the level\<close>

lemma parent_tags:
  "sum_tags compressed = Some [''compression''] \<Longrightarrow>
     sum_tags (parent_of request now_ms compressed) =
       Some ([''compression'', summary_level_tag (hs_target_level request), ''hierarchical'',
         ''hierarchy_source:'' @ level_name (hs_source_level request)] @
         (if has_non_empty_value (hs_user_id request)
          then [''summary_owner_user:'' @ the (hs_user_id request)] else []))"
  by (cases "hs_target_level request"; cases "hs_source_level request")
    (simp_all add: parent_of_def ensure_summary_level_tag_def is_level_tag_def append_unique_def Let_def)

lemma parent_level:
  "sum_tags compressed = Some [''compression''] \<Longrightarrow>
     extract_summary_level (parent_of request now_ms compressed) = Some (hs_target_level request)"
  by (cases "hs_target_level request") (simp_all add: extract_summary_level_def parent_tags)

definition hierarchy_input :: "HierarchicalSummaryRequest \<Rightarrow> int \<Rightarrow> CompressionInput" where
  "hierarchy_input request now_ms =
     \<lparr>ci_session_id = hs_session_id request, ci_source_turns = build_turns_from_summaries request now_ms,
      ci_existing_summary = None, ci_target_token_budget = hs_target_token_budget request,
      ci_materialize_latest_summary = False,
      ci_strategy_hint = ''hierarchy:'' @ level_name (hs_target_level request)\<rparr>"

lemma parent_sel [simp]:
  "sum_summary_id (parent_of request now_ms c) = Some (build_parent_summary_id request)"
  "sum_session_id (parent_of request now_ms c) = Some (hs_session_id request)"
  "sum_created_at (parent_of request now_ms c) = Some now_ms"
  "sum_source_turn_ids (parent_of request now_ms c) =
     Some (child_summary_ids (hs_source_summaries request))"
  "sum_summary_text (parent_of request now_ms c) = sum_summary_text c"
  "sum_decisions_made (parent_of request now_ms c) = sum_decisions_made c"
  "sum_confirmed_facts (parent_of request now_ms c) = sum_confirmed_facts c"
  "sum_tool_outcomes (parent_of request now_ms c) = sum_tool_outcomes c"
  by (simp_all add: parent_of_def ensure_summary_level_tag_def Let_def)

lemma parent_tags_set:
  assumes "sum_tags c = Some [''compression'']"
  shows "optional_string_set (sum_tags (parent_of request now_ms c))"
  unfolding parent_tags [OF assms]
  by (cases "hs_target_level request"; cases "hs_source_level request")
    (simp_all add: optional_string_set_def string_set_def)

text \<open>A promoted summary is the parent of a compression, stored and linked.\<close>

lemma promote_once_cases:
  assumes "promote_once est summarizer_opt store now_ms st request = (st', result)"
  shows "promoted result \<longleftrightarrow> promoted_summary result \<noteq> None"
    and "promoted_summary result = Some p \<Longrightarrow>
      hs_source_summaries request \<noteq> [] \<and>
      p = parent_of request now_ms (co_summary (compress est summarizer_opt (\<lambda>_. True) now_ms
        (hierarchy_input request now_ms)))"
  using assms
  by (auto simp: promote_once_def no_promotion_def promotion_failed_def hierarchy_input_def Let_def
      split: if_splits prod.splits)

lemma hierarchy_input_turns:
  "hs_source_summaries request \<noteq> [] \<Longrightarrow> ci_source_turns (hierarchy_input request now_ms) \<noteq> []"
  by (simp add: hierarchy_input_def build_turns_from_summaries_def)

lemma promote_once_level:
  assumes "promote_once est summarizer_opt store now_ms st request = (st', result)"
    and "promoted_summary result = Some p"
  shows "extract_summary_level p = Some (hs_target_level request)"
proof -
  note p = promote_once_cases(2) [OF assms]
  have "sum_tags (co_summary (compress est summarizer_opt (\<lambda>_. True) now_ms (hierarchy_input request now_ms))) =
      Some [''compression'']"
    using p hierarchy_input_turns by (simp add: compress_result(1) materialize_summary_def)
  with p show ?thesis by (simp add: parent_level)
qed

fun level_rank :: "HierarchicalSummaryLevel \<Rightarrow> nat" where
  "level_rank Dialog = 2"
| "level_rank Topic = 1"
| "level_rank Profile = 0"

lemma promotion_request_levels:
  assumes "promotion_request config store st summary = Some request"
  shows "hs_source_level request = source_level_of summary"
    and "next_hierarchical_summary_level (source_level_of summary) = Some (hs_target_level request)"
    and "level_rank (hs_target_level request) < level_rank (source_level_of summary)"
proof -
  show levels: "hs_source_level request = source_level_of summary"
    "next_hierarchical_summary_level (source_level_of summary) = Some (hs_target_level request)"
    using assms by (auto simp: promotion_request_def Let_def split: if_splits option.splits)
  then show "level_rank (hs_target_level request) < level_rank (source_level_of summary)"
    by (cases "source_level_of summary") auto
qed

function (sequential) promote_from_summary ::
    "estimator \<Rightarrow> summarizer option \<Rightarrow> HierarchyConfig \<Rightarrow> 'st summary_store \<Rightarrow> int \<Rightarrow> 'st \<Rightarrow>
     SummaryMemory \<Rightarrow> 'st \<times> HierarchicalSummarizationResult" where
  "promote_from_summary est summarizer_opt config store now_ms st summary =
     (case promotion_request config store st summary of
        None \<Rightarrow> (st, no_promotion)
      | Some request \<Rightarrow>
          (case promote_once est summarizer_opt store now_ms st request of
             (st', result) \<Rightarrow>
               if \<not> promoted result then (st', result)
               else
                 (case promoted_summary result of
                    None \<Rightarrow> (st', result)
                  | Some p \<Rightarrow>
                      (case promote_from_summary est summarizer_opt config store now_ms st' p of
                         (st'', cascade) \<Rightarrow>
                           (st'', result\<lparr>promotion_warnings :=
                              append_all_unique (promotion_warnings result)
                                (promotion_warnings cascade)\<rparr>)))))"
  by pat_completeness auto
termination promote_from_summary
  by (relation "measure (\<lambda>(est, s, config, store, now_ms, st, summary).
      level_rank (source_level_of summary))")
    (auto dest!: promote_once_level [OF sym] promotion_request_levels(3) simp: source_level_of_def)

declare promote_from_summary.simps [simp del]

section \<open>What is promoted\<close>

text \<open>
  What the coordinator relies on: the store returns valid summaries of the asked level with
  different identifiers, at most as many as asked for.
\<close>

definition store_contract :: "'st summary_store \<Rightarrow> bool" where
  "store_contract store \<longleftrightarrow>
     (\<forall>st session_id level n. let loaded = load_unparented_summaries store st session_id level n
      in length loaded \<le> n \<and> distinct (map sum_summary_id loaded) \<and>
         (\<forall>s\<in>set loaded. ok (validate_summary_memory_field_rules s) \<and> summary_matches_level s level))"

lemma child_ids_of_valid:
  assumes "\<forall>s\<in>set loaded. ok (validate_summary_memory_field_rules s)"
    and "distinct (map sum_summary_id loaded)"
  shows "child_summary_ids loaded = map (the \<circ> sum_summary_id) loaded \<and>
    string_set (child_summary_ids loaded)"
proof -
  have ids: "\<forall>s\<in>set loaded. has_non_empty_value (sum_summary_id s)"
    using assms(1) by (simp add: summary_rules_ok)
  then have "filter (has_non_empty_value \<circ> sum_summary_id) loaded = loaded" by simp
  moreover have "distinct (map (the \<circ> sum_summary_id) loaded)"
  proof -
    have "inj_on the (sum_summary_id ` set loaded)"
      using ids by (intro inj_onI) (metis has_non_empty_Some(2) imageE option.exhaust_sel)
    then show ?thesis using assms(2) by (metis distinct_map list.set_map map_map)
  qed
  moreover have "[] \<notin> set (map (the \<circ> sum_summary_id) loaded)"
    using ids by (metis (no_types, lifting) comp_apply has_non_empty_the imageE list.set_map)
  ultimately show ?thesis by (simp add: child_summary_ids_def string_set_def)
qed

lemma promotion_request_sources:
  assumes "promotion_request config store st summary = Some request" and "store_contract store"
  shows "hs_session_id request = the (sum_session_id summary)" "hs_session_id request \<noteq> []"
    and "hs_source_summaries request = load_unparented_summaries store st (the (sum_session_id summary))
      (source_level_of summary) (nat (threshold_for config (source_level_of summary)))"
    and "int (length (hs_source_summaries request)) = threshold_for config (source_level_of summary)"
proof -
  show sid: "hs_session_id request = the (sum_session_id summary)"
    and loaded: "hs_source_summaries request = load_unparented_summaries store st
      (the (sum_session_id summary)) (source_level_of summary)
      (nat (threshold_for config (source_level_of summary)))"
    using assms(1) by (auto simp: promotion_request_def Let_def split: if_splits option.splits)
  have "has_non_empty_value (sum_session_id summary)"
    using assms(1) by (auto simp: promotion_request_def split: if_splits)
  then show "hs_session_id request \<noteq> []" by (simp add: sid has_non_empty_the)
  have enough: "threshold_for config (source_level_of summary) \<le> int (length (hs_source_summaries request))"
    and pos: "1 < threshold_for config (source_level_of summary)"
    using assms(1) by (auto simp: promotion_request_def Let_def split: if_splits option.splits)
  have "length (hs_source_summaries request) \<le> nat (threshold_for config (source_level_of summary))"
    using assms(2) by (simp add: loaded store_contract_def Let_def)
  with enough pos show "int (length (hs_source_summaries request)) = threshold_for config (source_level_of summary)"
    by linarith
qed

lemma promoted_of_request:
  assumes "promote_from_summary est summarizer_opt config store now_ms st summary = (st', result)"
    and "promoted_summary result = Some p"
  shows "\<exists>request st1 once. promotion_request config store st summary = Some request \<and>
    promote_once est summarizer_opt store now_ms st request = (st1, once) \<and> promoted_summary once = Some p"
  using assms
  by (subst (asm) promote_from_summary.simps)
    (fastforce simp: no_promotion_def split: option.splits prod.splits if_splits)


section \<open>A concrete cascade\<close>

text \<open>
  A store whose state is a list of summaries with their parents, as the table of the SQL store
  has them, in the order of insertion.
\<close>

type_synonym list_store = "(SummaryMemory \<times> string option) list"

definition listed :: "list_store \<Rightarrow> string \<Rightarrow> HierarchicalSummaryLevel \<Rightarrow> SummaryMemory list" where
  "listed st session_id level =
     map fst (filter (\<lambda>(s, parent). parent = None \<and> sum_session_id s = Some session_id \<and>
       summary_matches_level s level \<and> ok (validate_summary_memory_field_rules s)) st)"

definition insert_summary :: "list_store \<Rightarrow> SummaryMemory \<Rightarrow> list_store" where
  "insert_summary st s = filter (\<lambda>(t, parent). sum_summary_id t \<noteq> sum_summary_id s) st @ [(s, None)]"

definition list_summary_store :: "list_store summary_store" where
  "list_summary_store =
     \<lparr>load_unparented_summaries = (\<lambda>st session_id level n.
        let ids = remdups (map sum_summary_id (listed st session_id level))
        in take n (map (\<lambda>i. the (List.find (\<lambda>s. sum_summary_id s = i) (listed st session_id level))) ids)),
      upsert_summary = (\<lambda>st s. (insert_summary st s, True)),
      assign_summary_parent = (\<lambda>st ids parent.
        (map (\<lambda>(s, p). (s, if the (sum_summary_id s) \<in> set ids then Some parent else p)) st, True)),
      session_user_id = (\<lambda>st session_id. None)\<rparr>"

lemma find_listed:
  assumes "i \<in> set (map f xs)"
  shows "the (List.find (\<lambda>s. f s = i) xs) \<in> set xs \<and> f (the (List.find (\<lambda>s. f s = i) xs)) = i"
  using assms by (induction xs) auto

lemma list_store_contract: "store_contract list_summary_store"
proof -
  have "length loaded \<le> n \<and> distinct (map sum_summary_id loaded) \<and>
      (\<forall>s\<in>set loaded. ok (validate_summary_memory_field_rules s) \<and> summary_matches_level s level)"
    if loaded: "loaded = load_unparented_summaries list_summary_store st session_id level n"
    for loaded st session_id level n
  proof -
    define all where "all = listed st session_id level"
    define pick where "pick i = the (List.find (\<lambda>s. sum_summary_id s = i) all)" for i
    define ids where "ids = remdups (map sum_summary_id all)"
    have pick: "pick i \<in> set all \<and> sum_summary_id (pick i) = i" if "i \<in> set ids" for i
      unfolding pick_def using that by (intro find_listed) (simp add: ids_def)
    have l: "loaded = map pick (take n ids)"
      by (simp add: loaded list_summary_store_def all_def pick_def ids_def take_map Let_def)
    have "map (\<lambda>i. sum_summary_id (pick i)) (take n ids) = take n ids"
      using pick by (intro map_idI) (auto dest: in_set_takeD)
    then have "distinct (map sum_summary_id loaded)" by (simp add: l comp_def ids_def)
    moreover have "set loaded \<subseteq> set all" using pick by (auto simp: l dest: in_set_takeD)
    ultimately show ?thesis by (auto simp: l all_def listed_def)
  qed
  then show ?thesis by (simp add: store_contract_def Let_def)
qed

definition sample_dialog :: "string \<Rightarrow> SummaryMemory" where
  "sample_dialog i = sample_summary\<lparr>sum_summary_id := Some i\<rparr>"

definition sample_config :: HierarchyConfig where
  "sample_config = \<lparr>hierarchy_enabled = True, dialog_to_topic_threshold = 2,
     topic_to_profile_threshold = 2\<rparr>"

definition sample_list_store :: list_store where
  "sample_list_store = [(sample_dialog ''a'', None), (sample_dialog ''b'', None)]"

lemma list_store_promotes:
  assumes "promotion_request config list_summary_store st summary = Some request"
    and "hs_source_summaries request \<noteq> []"
  shows "\<exists>st' result p. promote_from_summary est summarizer_opt config list_summary_store now_ms st summary =
    (st', result) \<and> promoted_summary result = Some p"
proof -
  have "co_compression_applied (compress est summarizer_opt (\<lambda>_. True) now_ms (hierarchy_input request now_ms))"
    by (rule compress_result(2) [OF hierarchy_input_turns [OF assms(2)]])
  then obtain st1 once p where once: "promote_once est summarizer_opt list_summary_store now_ms st request = (st1, once)"
    and p: "promoted_summary once = Some p" "promoted once"
    using assms(2)
    by (simp add: promote_once_def hierarchy_input_def list_summary_store_def Let_def)
  show ?thesis
    by (subst promote_from_summary.simps) (simp add: assms(1) once p split: prod.split)
qed

lemma sample_request:
  "\<exists>request. promotion_request sample_config list_summary_store sample_list_store (sample_dialog ''b'') =
     Some request \<and> hs_source_summaries request = [sample_dialog ''a'', sample_dialog ''b'']"
proof -
  have "map_option hs_source_summaries (promotion_request sample_config list_summary_store
      sample_list_store (sample_dialog ''b'')) = Some [sample_dialog ''a'', sample_dialog ''b'']"
    by code_simp
  then show ?thesis by auto
qed


end
