(* ===== verification/Context_Budget.thy ===== *)
theory Context_Budget
  imports Memory_Types "HOL-Library.Multiset" "HOL-Library.List_Lexorder" "HOL-Library.Product_Lexorder"
    "HOL-Library.Char_ord"
begin

text \<open>
  The token budget of a context, \<^verbatim>\<open>memory/src/context/BudgetAllocator.cpp\<close>: the shares of the
  slots per stage, the transfers for risk and latency, and the trim actions that bring the
  estimated tokens down to the budget. Shares are computed on \<^verbatim>\<open>int\<close>; a product that leaves the
  range is undefined in C++ and the value \<open>None\<close> here.
\<close>

section \<open>Plans\<close>

record BudgetPolicy =
  policy_total_token_budget :: int
  policy_stage :: string
  policy_risk_level :: int
  policy_latency_budget_ms :: int

record SlotBudget =
  slot_name :: string
  allocated_tokens :: int
  estimated_tokens :: int
  slot_priority :: int

record TrimAction =
  trim_slot_name :: string
  target_tokens :: int

record BudgetPlan =
  slot_budgets :: "SlotBudget list"
  trim_actions :: "TrimAction list"
  total_token_budget :: int
  estimated_total_tokens :: int
  over_budget :: bool

definition is_i32 :: "int \<Rightarrow> bool" where
  "is_i32 x \<longleftrightarrow> - (2 ^ 31) \<le> x \<and> x < 2 ^ 31"

section \<open>Shares per stage\<close>

definition normalize_stage :: "string \<Rightarrow> string" where
  "normalize_stage stage = map to_lower stage"

text \<open>Name, share and priority of a slot; the field \<^verbatim>\<open>basis_points\<close> holds percents.\<close>

definition stage_templates :: "BudgetPolicy \<Rightarrow> (string \<times> int \<times> int) list" where
  "stage_templates policy =
     (let stage = normalize_stage (policy_stage policy)
      in if stage = ''reflection'' then
           [(''user_turn'', 6, 100), (''current_goal_summary'', 12, 95), (''policy_digest'', 12, 95),
            (''latest_observation_digest_summary'', 18, 100), (''recent_history'', 10, 50),
            (''summary_memory'', 18, 85), (''belief_state_summary'', 14, 80),
            (''retrieval_evidence'', 3, 40), (''active_tools'', 2, 30)]
         else if stage = ''reasoning'' then
           [(''user_turn'', 8, 100), (''current_goal_summary'', 15, 95), (''policy_digest'', 10, 90),
            (''latest_observation_digest_summary'', 17, 100), (''recent_history'', 18, 55),
            (''summary_memory'', 10, 70), (''belief_state_summary'', 10, 75),
            (''retrieval_evidence'', 5, 45), (''active_tools'', 2, 35)]
         else
           [(''user_turn'', 8, 100), (''current_goal_summary'', 18, 95), (''policy_digest'', 12, 95),
            (''latest_observation_digest_summary'', 7, 85), (''recent_history'', 18, 50),
            (''summary_memory'', 12, 70), (''belief_state_summary'', 12, 75),
            (''retrieval_evidence'', 6, 40), (''active_tools'', 2, 30)])"

section \<open>Estimates\<close>

definition estimate_user_turn_tokens :: "estimator \<Rightarrow> CandidateSet \<Rightarrow> int" where
  "estimate_user_turn_tokens est candidates =
     (case bundle_recent_turns (cand_session_bundle candidates) of
        [] \<Rightarrow> 0
      | turn # _ \<Rightarrow> est (value_or (turn_user_input turn) []))"

text \<open>The user input of the newest turn, at index 0, is the user turn and not history.\<close>

definition turn_history_tokens :: "estimator \<Rightarrow> nat \<Rightarrow> Turn \<Rightarrow> int" where
  "turn_history_tokens est index turn =
     (if index \<noteq> 0 then optional_string_tokens est (turn_user_input turn) else 0) +
     optional_string_tokens est (turn_agent_response turn) +
     optional_string_vector_tokens est (turn_tool_call_refs turn) +
     optional_string_vector_tokens est (turn_observation_refs turn)"

definition estimate_recent_history_tokens :: "estimator \<Rightarrow> CandidateSet \<Rightarrow> int" where
  "estimate_recent_history_tokens est candidates =
     (let turns = bundle_recent_turns (cand_session_bundle candidates)
      in sum_list (map (\<lambda>index. turn_history_tokens est index (turns ! index)) [0..<length turns]))"

definition estimate_summary_tokens :: "estimator \<Rightarrow> CandidateSet \<Rightarrow> int" where
  "estimate_summary_tokens est candidates =
     (case cand_latest_summary candidates of
        None \<Rightarrow> 0
      | Some summary \<Rightarrow>
          optional_string_tokens est (sum_summary_text summary) +
          optional_string_vector_tokens est (sum_decisions_made summary) +
          optional_string_vector_tokens est (sum_confirmed_facts summary) +
          optional_string_vector_tokens est (sum_tool_outcomes summary))"

definition estimate_belief_state_tokens :: "estimator \<Rightarrow> CandidateSet \<Rightarrow> int" where
  "estimate_belief_state_tokens est candidates =
     sum_list (map (\<lambda>fact. optional_string_tokens est (fact_fact_text fact) +
                      optional_string_tokens est (fact_fact_type fact))
                (cand_relevant_facts candidates))"

definition estimate_retrieval_evidence_tokens :: "estimator \<Rightarrow> CandidateSet \<Rightarrow> int" where
  "estimate_retrieval_evidence_tokens est candidates =
     string_vector_tokens est (cand_external_evidence candidates) +
     sum_list (map (\<lambda>hit. est (hit_text_snippet hit) + est (hit_doc_type hit))
                (cand_vector_hits candidates))"

definition estimate_slot_tokens :: "estimator \<Rightarrow> CandidateSet \<Rightarrow> string \<Rightarrow> int" where
  "estimate_slot_tokens est candidates name =
     (if name = ''user_turn'' then estimate_user_turn_tokens est candidates
      else if name = ''recent_history'' then estimate_recent_history_tokens est candidates
      else if name = ''summary_memory'' then estimate_summary_tokens est candidates
      else if name = ''belief_state_summary'' then estimate_belief_state_tokens est candidates
      else if name = ''retrieval_evidence'' then estimate_retrieval_evidence_tokens est candidates
      else 0)"

section \<open>Transfers\<close>

definition find_slot_budget :: "SlotBudget list \<Rightarrow> string \<Rightarrow> SlotBudget option" where
  "find_slot_budget slots name = List.find (\<lambda>s. slot_name s = name) slots"

text \<open>An update through the pointer to the first slot of the name.\<close>

fun add_to_slot :: "SlotBudget list \<Rightarrow> string \<Rightarrow> int \<Rightarrow> SlotBudget list" where
  "add_to_slot [] name tokens = []"
| "add_to_slot (s # slots) name tokens =
     (if slot_name s = name then s\<lparr>allocated_tokens := allocated_tokens s + tokens\<rparr> # slots
      else s # add_to_slot slots name tokens)"

definition transfer_budget :: "SlotBudget list \<Rightarrow> string \<Rightarrow> string \<Rightarrow> int \<Rightarrow> SlotBudget list" where
  "transfer_budget slots source destination tokens =
     (if tokens \<le> 0 then slots
      else
        case (find_slot_budget slots source, find_slot_budget slots destination) of
          (Some from_slot, Some to_slot) \<Rightarrow>
            let transferred_tokens = min tokens (allocated_tokens from_slot)
            in add_to_slot (add_to_slot slots source (- transferred_tokens))
                 destination transferred_tokens
        | _ \<Rightarrow> slots)"

definition risk_transfers :: "BudgetPolicy \<Rightarrow> int \<Rightarrow> SlotBudget list \<Rightarrow> SlotBudget list" where
  "risk_transfers policy budget slots =
     (if policy_risk_level policy \<ge> 2 then
        transfer_budget
          (transfer_budget slots ''recent_history'' ''policy_digest'' (max 1 (budget div 20)))
          ''summary_memory'' ''latest_observation_digest_summary'' (max 1 (budget div 33))
      else slots)"

definition latency_transfers :: "BudgetPolicy \<Rightarrow> int \<Rightarrow> SlotBudget list \<Rightarrow> SlotBudget list" where
  "latency_transfers policy budget slots =
     (if policy_latency_budget_ms policy > 0 \<and> policy_latency_budget_ms policy \<le> 200 then
        transfer_budget
          (transfer_budget slots ''retrieval_evidence'' ''current_goal_summary'' (max 1 (budget div 33)))
          ''recent_history'' ''latest_observation_digest_summary'' (max 1 (budget div 50))
      else slots)"

definition template_slot ::
    "estimator \<Rightarrow> CandidateSet \<Rightarrow> int \<Rightarrow> string \<times> int \<times> int \<Rightarrow> SlotBudget" where
  "template_slot est candidates budget t =
     (case t of (name, basis_points, priority) \<Rightarrow>
        \<lparr>slot_name = name, allocated_tokens = (budget * basis_points) div 100,
         estimated_tokens = estimate_slot_tokens est candidates name, slot_priority = priority\<rparr>)"

definition compute_slot_budgets ::
    "estimator \<Rightarrow> CandidateSet \<Rightarrow> BudgetPolicy \<Rightarrow> SlotBudget list option" where
  "compute_slot_budgets est candidates policy =
     (let templates = stage_templates policy;
          budget = max 0 (policy_total_token_budget policy)
      in if list_all (\<lambda>(name, basis_points, priority). is_i32 (budget * basis_points)) templates then
           Some (latency_transfers policy budget
                   (risk_transfers policy budget (map (template_slot est candidates budget) templates)))
         else None)"

section \<open>Trimming\<close>

text \<open>
  The order of the code's comparator: rising priority, then falling estimate, then the name as
  a string of bytes. The names of a plan differ, so the unstable sort of the library has one
  result.
\<close>

definition trim_order :: "SlotBudget \<Rightarrow> int \<times> int \<times> string" where
  "trim_order s = (slot_priority s, - estimated_tokens s, slot_name s)"

definition reducible :: "SlotBudget \<Rightarrow> int" where
  "reducible s = estimated_tokens s - min (allocated_tokens s) (estimated_tokens s)"

fun trim_slots :: "int \<Rightarrow> SlotBudget list \<Rightarrow> TrimAction list" where
  "trim_slots excess [] = []"
| "trim_slots excess (s # slots) =
     (if excess \<le> 0 then []
      else if reducible s \<le> 0 then trim_slots excess slots
      else
        (let trimmed_tokens = min excess (reducible s)
         in \<lparr>trim_slot_name = slot_name s, target_tokens = estimated_tokens s - trimmed_tokens\<rparr> #
              trim_slots (excess - trimmed_tokens) slots))"

definition compute_trim_actions :: "SlotBudget list \<Rightarrow> int \<Rightarrow> int \<Rightarrow> TrimAction list" where
  "compute_trim_actions slots budget total_estimated =
     (let excess = max 0 (total_estimated - budget)
      in if excess = 0 then [] else trim_slots excess (sort_key trim_order slots))"

definition reduced_estimate :: "SlotBudget list \<Rightarrow> int \<Rightarrow> TrimAction list \<Rightarrow> int" where
  "reduced_estimate slots total_estimated actions =
     foldl (\<lambda>reduced action.
        case find_slot_budget slots (trim_slot_name action) of
          None \<Rightarrow> reduced
        | Some s \<Rightarrow> reduced - max 0 (estimated_tokens s - target_tokens action))
       total_estimated actions"

definition allocate :: "estimator \<Rightarrow> CandidateSet \<Rightarrow> BudgetPolicy \<Rightarrow> BudgetPlan option" where
  "allocate est candidates policy =
     (case compute_slot_budgets est candidates policy of
        None \<Rightarrow> None
      | Some slots \<Rightarrow>
          let budget = max 0 (policy_total_token_budget policy);
              total_estimated = sum_list (map estimated_tokens slots);
              actions = compute_trim_actions slots budget total_estimated
          in Some \<lparr>slot_budgets = slots, trim_actions = actions, total_token_budget = budget,
               estimated_total_tokens = total_estimated,
               over_budget = reduced_estimate slots total_estimated actions > budget\<rparr>)"

section \<open>Transfers keep the sum of the shares\<close>

lemma add_to_slot_frame [simp]:
  "map slot_name (add_to_slot slots name tokens) = map slot_name slots"
  "map estimated_tokens (add_to_slot slots name tokens) = map estimated_tokens slots"
  by (induction slots) auto

lemma add_to_slot_sum:
  "name \<in> slot_name ` set slots \<Longrightarrow>
     sum_list (map allocated_tokens (add_to_slot slots name tokens)) =
     sum_list (map allocated_tokens slots) + tokens"
  by (induction slots) auto

lemma add_to_slot_nonneg:
  assumes "\<forall>s\<in>set slots. 0 \<le> allocated_tokens s"
    and "\<And>s. find_slot_budget slots name = Some s \<Longrightarrow> 0 \<le> allocated_tokens s + tokens"
  shows "\<forall>s\<in>set (add_to_slot slots name tokens). 0 \<le> allocated_tokens s"
  using assms by (induction slots) (auto simp: find_slot_budget_def)

lemma find_slot_budget_in:
  "find_slot_budget slots name = Some s \<Longrightarrow> s \<in> set slots \<and> slot_name s = name"
  unfolding find_slot_budget_def by (drule find_Some_first) auto

lemma names_of_map: "map slot_name xs = map slot_name ys \<Longrightarrow> slot_name ` set xs = slot_name ` set ys"
  by (metis list.set_map)

text \<open>What every transfer keeps: names, estimates, the sum of the shares, and their signs.\<close>

definition shares_as :: "SlotBudget list \<Rightarrow> SlotBudget list \<Rightarrow> bool" where
  "shares_as slots slots' \<longleftrightarrow>
     map slot_name slots' = map slot_name slots \<and>
     map estimated_tokens slots' = map estimated_tokens slots \<and>
     sum_list (map allocated_tokens slots') = sum_list (map allocated_tokens slots) \<and>
     ((\<forall>s\<in>set slots. 0 \<le> allocated_tokens s) \<longrightarrow> (\<forall>s\<in>set slots'. 0 \<le> allocated_tokens s))"

lemma shares_as_refl [simp]: "shares_as slots slots"
  by (simp add: shares_as_def)

lemma shares_as_trans: "shares_as a b \<Longrightarrow> shares_as b c \<Longrightarrow> shares_as a c"
  by (simp add: shares_as_def)

lemma transfer_budget_shares: "shares_as slots (transfer_budget slots source destination tokens)"
proof (cases "tokens \<le> 0 \<or> find_slot_budget slots source = None \<or>
    find_slot_budget slots destination = None")
  case True
  then show ?thesis by (auto simp: transfer_budget_def split: option.split)
next
  case False
  then obtain f t where f: "find_slot_budget slots source = Some f"
    and t: "find_slot_budget slots destination = Some t" and pos: "0 < tokens" by auto
  define moved where "moved = min tokens (allocated_tokens f)"
  define taken where "taken = add_to_slot slots source (- moved)"
  have result: "transfer_budget slots source destination tokens = add_to_slot taken destination moved"
    using pos by (simp add: transfer_budget_def f t moved_def taken_def Let_def)
  have names: "source \<in> slot_name ` set slots" "destination \<in> slot_name ` set slots"
    using find_slot_budget_in [OF f] find_slot_budget_in [OF t] by auto
  then have names': "destination \<in> slot_name ` set taken"
    using names_of_map [of taken slots] by (simp add: taken_def)
  have "\<forall>s\<in>set (add_to_slot taken destination moved). 0 \<le> allocated_tokens s"
    if sane: "\<forall>s\<in>set slots. 0 \<le> allocated_tokens s"
  proof -
    have "0 \<le> moved" using sane find_slot_budget_in [OF f] pos by (simp add: moved_def)
    moreover have "\<forall>s\<in>set taken. 0 \<le> allocated_tokens s"
      unfolding taken_def using sane by (rule add_to_slot_nonneg) (simp add: f moved_def)
    ultimately show ?thesis
      by (intro add_to_slot_nonneg) (auto dest!: find_slot_budget_in)
  qed
  with names names' show ?thesis
    by (simp add: shares_as_def result add_to_slot_sum taken_def)
qed

lemma risk_transfers_shares: "shares_as slots (risk_transfers policy budget slots)"
  unfolding risk_transfers_def by (auto intro: shares_as_trans transfer_budget_shares)

lemma latency_transfers_shares: "shares_as slots (latency_transfers policy budget slots)"
  unfolding latency_transfers_def by (auto intro: shares_as_trans transfer_budget_shares)

section \<open>The slots of a plan\<close>

definition slot_names :: "string list" where
  "slot_names = [''user_turn'', ''current_goal_summary'', ''policy_digest'',
     ''latest_observation_digest_summary'', ''recent_history'', ''summary_memory'',
     ''belief_state_summary'', ''retrieval_evidence'', ''active_tools'']"

lemma slot_names_distinct [simp]: "distinct slot_names"
  by (simp add: slot_names_def)

lemma stage_templates_names [simp]: "map fst (stage_templates policy) = slot_names"
  by (simp add: stage_templates_def slot_names_def Let_def)

lemma stage_templates_shares:
  "sum_list (map (\<lambda>(name, share, priority). share) (stage_templates policy)) = 95"
  "\<forall>(name, share, priority)\<in>set (stage_templates policy). 0 \<le> share \<and> share \<le> 18"
  by (simp_all add: stage_templates_def Let_def)

lemma sum_of_parts:
  "100 * sum_list (map (\<lambda>t. (b * f t) div 100) ts) \<le> b * sum_list (map f ts)" for b :: int
  by (induction ts) (auto simp: algebra_simps)

lemma template_slot_sel [simp]:
  "slot_name (template_slot est c b t) = fst t"
  "allocated_tokens (template_slot est c b t) = (b * fst (snd t)) div 100"
  "estimated_tokens (template_slot est c b t) = estimate_slot_tokens est c (fst t)"
  by (simp_all add: template_slot_def split: prod.split)

lemma template_slots:
  assumes "0 \<le> b"
  shows "100 * sum_list (map allocated_tokens (map (template_slot est c b) (stage_templates policy))) \<le> 95 * b"
    and "\<forall>s\<in>set (map (template_slot est c b) (stage_templates policy)). 0 \<le> allocated_tokens s"
proof -
  have "map allocated_tokens (map (template_slot est c b) (stage_templates policy)) =
      map (\<lambda>t. (b * fst (snd t)) div 100) (stage_templates policy)" by simp
  moreover have "sum_list (map (\<lambda>t. fst (snd t)) (stage_templates policy)) = 95"
    using stage_templates_shares(1) [of policy] by (simp add: case_prod_unfold)
  ultimately show "100 * sum_list (map allocated_tokens (map (template_slot est c b) (stage_templates policy))) \<le> 95 * b"
    using sum_of_parts [of b "\<lambda>t. fst (snd t)" "stage_templates policy"] by (simp only: mult.commute)
  show "\<forall>s\<in>set (map (template_slot est c b) (stage_templates policy)). 0 \<le> allocated_tokens s"
    using assms stage_templates_shares(2) [of policy]
    by (fastforce simp: case_prod_unfold intro: pos_imp_zdiv_nonneg_iff [THEN iffD2])
qed

lemma computed_slots:
  assumes "compute_slot_budgets est c policy = Some slots"
  defines "b \<equiv> max 0 (policy_total_token_budget policy)"
  shows "map slot_name slots = slot_names"
    and "map estimated_tokens slots = map (estimate_slot_tokens est c) slot_names"
    and "100 * sum_list (map allocated_tokens slots) \<le> 95 * b"
    and "\<forall>s\<in>set slots. 0 \<le> allocated_tokens s"
proof -
  let ?start = "map (template_slot est c b) (stage_templates policy)"
  have slots: "slots = latency_transfers policy b (risk_transfers policy b ?start)"
    using assms by (auto simp: compute_slot_budgets_def Let_def split: if_splits)
  have s: "shares_as ?start slots"
    unfolding slots by (rule shares_as_trans [OF risk_transfers_shares latency_transfers_shares])
  have b: "0 \<le> b" by (simp add: b_def)
  have names: "map slot_name ?start = slot_names"
    using stage_templates_names [of policy] by (simp add: comp_def)
  have estimates: "map estimated_tokens ?start = map (estimate_slot_tokens est c) slot_names"
    unfolding stage_templates_names [of policy, symmetric] map_map comp_def template_slot_sel ..
  show "map slot_name slots = slot_names" using s names by (simp only: shares_as_def)
  show "map estimated_tokens slots = map (estimate_slot_tokens est c) slot_names"
    using s estimates by (simp only: shares_as_def)
  show "100 * sum_list (map allocated_tokens slots) \<le> 95 * b"
    using s template_slots(1) [OF b, of est c policy] by (simp only: shares_as_def)
  show "\<forall>s\<in>set slots. 0 \<le> allocated_tokens s"
    using s template_slots(2) [OF b, of est c policy] unfolding shares_as_def by blast
qed

section \<open>Trimming reaches the budget\<close>

lemma reducible_nonneg [simp]: "0 \<le> reducible s"
  by (simp add: reducible_def)

lemma reducible_sum_nonneg [simp]: "0 \<le> sum_list (map reducible xs)"
  by (induction xs) (simp_all add: add_nonneg_nonneg)

text \<open>The tokens a slot keeps under a list of trim actions.\<close>

definition kept_tokens :: "TrimAction list \<Rightarrow> SlotBudget \<Rightarrow> int" where
  "kept_tokens actions s =
     (case List.find (\<lambda>a. trim_slot_name a = slot_name s) actions of
        None \<Rightarrow> estimated_tokens s | Some a \<Rightarrow> target_tokens a)"

lemma trim_slots_names: "trim_slot_name ` set (trim_slots excess xs) \<subseteq> slot_name ` set xs"
proof (induction xs arbitrary: excess)
  case (Cons s xs)
  show ?case using Cons [of excess] Cons [of "excess - min excess (reducible s)"]
    by (simp add: Let_def) blast
qed simp

lemma find_unknown: "x \<notin> f ` set as \<Longrightarrow> List.find (\<lambda>a. f a = x) as = None"
  by (induction as) auto

lemma kept_unlisted: "slot_name s \<notin> trim_slot_name ` set as \<Longrightarrow> kept_tokens as s = estimated_tokens s"
  by (simp add: kept_tokens_def find_unknown)

lemma kept_head: "trim_slot_name a = slot_name s \<Longrightarrow> kept_tokens (a # as) s = target_tokens a"
  by (simp add: kept_tokens_def)

lemma kept_tail: "trim_slot_name a \<noteq> slot_name s \<Longrightarrow> kept_tokens (a # as) s = kept_tokens as s"
  by (simp add: kept_tokens_def)

text \<open>
  What trimming by an excess does to the slots in the order of the trim: the tokens taken are
  the excess, or all that is reducible; no slot falls below its floor or grows; and a slot is
  touched only when every slot before it is at its floor.
\<close>

definition trims :: "int \<Rightarrow> SlotBudget list \<Rightarrow> (SlotBudget \<Rightarrow> int) \<Rightarrow> bool" where
  "trims excess xs kept \<longleftrightarrow>
     sum_list (map kept xs) =
       sum_list (map estimated_tokens xs) - min excess (sum_list (map reducible xs)) \<and>
     (\<forall>s\<in>set xs. estimated_tokens s - reducible s \<le> kept s \<and> kept s \<le> estimated_tokens s) \<and>
     sorted_wrt (\<lambda>s t. kept t < estimated_tokens t \<longrightarrow> kept s = estimated_tokens s - reducible s) xs"

lemma trims_cong: "(\<And>s. s \<in> set xs \<Longrightarrow> kept s = kept' s) \<Longrightarrow> trims e xs kept = trims e xs kept'"
  unfolding trims_def
  by (intro conj_cong arg_cong [where f = "\<lambda>l. sum_list l = _"] map_cong ball_cong refl) 
     (auto intro: sorted_wrt_mono_rel [rotated])

lemma trims_nothing: "trims 0 xs estimated_tokens"
  by (auto simp: trims_def min_def intro: sorted_wrt_mono_rel [of _ "\<lambda>_ _. True"]
      simp del: le_zero_eq)

lemma trim_slots_done [simp]: "trim_slots 0 xs = []"
  by (cases xs) simp_all

lemma trim_slots_kept:
  "distinct (map slot_name xs) \<Longrightarrow> 0 \<le> excess \<Longrightarrow>
     trims excess xs (kept_tokens (trim_slots excess xs))"
proof (induction xs arbitrary: excess)
  case Nil
  then show ?case by (simp add: trims_def)
next
  case (Cons s xs)
  have fresh: "slot_name s \<notin> slot_name ` set xs" and d: "distinct (map slot_name xs)"
    using Cons.prems(1) by simp_all
  have keep_s: "kept_tokens (trim_slots e xs) s = estimated_tokens s" for e
    using fresh trim_slots_names [of e xs] by (intro kept_unlisted) blast
  show ?case
  proof (cases "excess = 0 \<or> reducible s = 0")
    case True
    then show ?thesis
    proof
      assume "excess = 0"
      then have "kept_tokens (trim_slots excess (s # xs)) = estimated_tokens"
        by (simp add: kept_tokens_def fun_eq_iff)
      then show ?thesis using \<open>excess = 0\<close> trims_nothing by simp
    next
      assume r: "reducible s = 0"
      with Cons.IH [OF d Cons.prems(2)] Cons.prems(2) keep_s [of excess]
      show ?thesis by (cases "excess = 0") (auto simp: trims_def)
    qed
  next
    case False
    define m where "m = min excess (reducible s)"
    define a where "a = \<lparr>trim_slot_name = slot_name s, target_tokens = estimated_tokens s - m\<rparr>"
    define rest where "rest = trim_slots (excess - m) xs"
    have pos: "0 < excess" "0 < reducible s" "0 < m" "m \<le> excess" "m \<le> reducible s"
      using False Cons.prems(2) by (auto simp: m_def less_le)
    then have actions: "trim_slots excess (s # xs) = a # rest"
      by (simp add: rest_def a_def m_def Let_def)
    have "trims (excess - m) xs (kept_tokens rest)"
      unfolding rest_def using pos by (intro Cons.IH d) simp
    then have tail: "trims (excess - m) xs (kept_tokens (a # rest))"
      using fresh by (subst trims_cong [of xs "kept_tokens (a # rest)" "kept_tokens rest"])
        (auto simp: a_def intro!: kept_tail)
    have head: "kept_tokens (a # rest) s = estimated_tokens s - m"
      by (simp add: kept_head a_def)
    have "kept_tokens (a # rest) s = estimated_tokens s - reducible s"
      if "t \<in> set xs" and touched: "kept_tokens (a # rest) t < estimated_tokens t" for t
    proof (rule ccontr)
      assume "\<not> ?thesis"
      then have "m = excess" using pos(5) by (simp add: head m_def min_def split: if_splits)
      then have "rest = []" by (simp add: rest_def)
      moreover have "slot_name t \<noteq> slot_name s" using fresh that(1) by (metis image_eqI)
      ultimately show False using touched by (simp add: kept_tokens_def a_def)
    qed
    moreover have "m + min (excess - m) (sum_list (map reducible xs)) =
        min excess (reducible s + sum_list (map reducible xs))"
      using reducible_sum_nonneg [of xs] pos unfolding m_def by linarith
    ultimately show ?thesis
      using tail head pos unfolding actions by (auto simp: trims_def)
  qed
qed

text \<open>The second computation of the reduced estimate agrees with the tokens taken.\<close>

lemma find_slot_in:
  "distinct (map slot_name slots) \<Longrightarrow> s \<in> set slots \<Longrightarrow> find_slot_budget slots (slot_name s) = Some s"
  by (induction slots) (auto simp: find_slot_budget_def)

lemma reduced_estimate_trim:
  assumes "distinct (map slot_name slots)"
  shows "set xs \<subseteq> set slots \<Longrightarrow> 0 \<le> excess \<Longrightarrow>
    reduced_estimate slots t (trim_slots excess xs) = t - min excess (sum_list (map reducible xs))"
proof (induction xs arbitrary: excess t)
  case Nil
  then show ?case by (simp add: reduced_estimate_def)
next
  case (Cons s xs)
  have s: "find_slot_budget slots (slot_name s) = Some s"
    using assms Cons.prems(1) by (intro find_slot_in) auto
  have R: "0 \<le> sum_list (map reducible xs)" by simp
  consider "excess = 0" | "0 < excess" "reducible s = 0" | "0 < excess" "0 < reducible s"
    using Cons.prems(2) reducible_nonneg [of s] by (metis less_le)
  then show ?case
  proof cases
    case 1
    then show ?thesis using R by (simp add: reduced_estimate_def del: reducible_sum_nonneg)
  next
    case 2
    then show ?thesis using Cons by simp
  next
    case 3
    define m where "m = min excess (reducible s)"
    have "reduced_estimate slots (t - m) (trim_slots (excess - m) xs) =
        (t - m) - min (excess - m) (sum_list (map reducible xs))"
      using Cons.prems 3 by (intro Cons.IH) (auto simp: m_def)
    moreover have "0 < m" "m \<le> excess" "m \<le> reducible s" "m = excess \<or> m = reducible s"
      using 3 by (auto simp: m_def)
    ultimately show ?thesis using 3 R
      by (auto simp: reduced_estimate_def s Let_def min_def simp del: reducible_sum_nonneg
          simp flip: m_def)
  qed
qed

lemma sum_list_sort_key: "sum_list (map f (sort_key k xs)) = sum_list (map f xs)"
  for f :: "'a \<Rightarrow> int"
  by (metis mset_sort sum_mset_sum_list mset_map)

lemma sorted_before:
  assumes "sorted_wrt P xs" "sorted (map k xs)" "s \<in> set xs" "t \<in> set xs" "k s < k t"
  shows "P s t"
proof -
  obtain i j where ij: "i < length xs" "xs ! i = s" "j < length xs" "xs ! j = t"
    using assms(3,4) by (metis in_set_conv_nth)
  have "i < j"
  proof (rule ccontr)
    assume "\<not> i < j"
    then have "k t \<le> k s" using assms(2) ij sorted_nth_mono [of "map k xs" j i] by auto
    with assms(5) show False by simp
  qed
  then show ?thesis using assms(1) ij sorted_wrt_nth_less by metis
qed

lemma sum_list_le: "(\<And>x. x \<in> set xs \<Longrightarrow> f x \<le> (g x :: int)) \<Longrightarrow> sum_list (map f xs) \<le> sum_list (map g xs)"
  by (induction xs) (auto intro: add_mono)

lemma reducible_covers_excess:
  assumes "100 * sum_list (map allocated_tokens slots) \<le> 95 * b" "0 \<le> b"
  shows "sum_list (map estimated_tokens slots) - b \<le> sum_list (map reducible slots)"
proof -
  have "sum_list (map (\<lambda>s. estimated_tokens s - reducible s) slots) \<le>
      sum_list (map allocated_tokens slots)"
    by (rule sum_list_le) (simp add: reducible_def)
  then have "sum_list (map estimated_tokens slots) - sum_list (map reducible slots) \<le>
      sum_list (map allocated_tokens slots)" by (simp add: sum_list_subtractf)
  with assms show ?thesis by linarith
qed

section \<open>The plan\<close>

text \<open>
  The contract of the allocator: the shares of the nine slots are never negative and together at
  most 95 percent of the budget, whatever transfers happened; the tokens the slots keep add up
  to the smaller of the estimate and the budget, so the plan is never over budget; a slot keeps
  at least the smaller of its share and its estimate, and is trimmed only when every slot that
  precedes it in the trim order is down to that floor.
\<close>

definition plan_ok :: "BudgetPlan \<Rightarrow> bool" where
  "plan_ok plan \<longleftrightarrow>
     (let slots = slot_budgets plan; kept = kept_tokens (trim_actions plan);
          floor_of = (\<lambda>s. min (allocated_tokens s) (estimated_tokens s))
      in map slot_name slots = slot_names \<and>
         list_all (\<lambda>s. 0 \<le> allocated_tokens s) slots \<and>
         100 * sum_list (map allocated_tokens slots) \<le> 95 * total_token_budget plan \<and>
         sum_list (map kept slots) = min (estimated_total_tokens plan) (total_token_budget plan) \<and>
         list_all (\<lambda>s. floor_of s \<le> kept s \<and> kept s \<le> estimated_tokens s) slots \<and>
         list_all (\<lambda>s. list_all (\<lambda>t. trim_order s < trim_order t \<longrightarrow>
           kept t < estimated_tokens t \<longrightarrow> kept s = floor_of s) slots) slots \<and>
         \<not> over_budget plan)"

lemma allocate_plan_ok:
  assumes "allocate est c policy = Some plan"
  shows "plan_ok plan"
proof -
  define b where "b = max 0 (policy_total_token_budget policy)"
  obtain slots where slots: "compute_slot_budgets est c policy = Some slots"
    using assms by (auto simp: allocate_def split: option.splits)
  define total_estimated where "total_estimated = sum_list (map estimated_tokens slots)"
  define actions where "actions = compute_trim_actions slots b total_estimated"
  define sorted_slots where "sorted_slots = sort_key trim_order slots"
  define excess where "excess = max 0 (total_estimated - b)"
  have plan: "plan = \<lparr>slot_budgets = slots, trim_actions = actions, total_token_budget = b,
      estimated_total_tokens = total_estimated,
      over_budget = reduced_estimate slots total_estimated actions > b\<rparr>"
    using assms by (simp add: allocate_def slots actions_def total_estimated_def b_def Let_def)
  note computed = computed_slots [OF slots, folded b_def]
  have b: "0 \<le> b" by (simp add: b_def)
  have d: "distinct (map slot_name slots)" by (simp add: computed(1))
  then have ds: "distinct (map slot_name sorted_slots)"
    by (simp add: sorted_slots_def distinct_map)
  have e: "0 \<le> excess" by (simp add: excess_def)
  have actions: "actions = trim_slots excess sorted_slots"
    by (simp add: actions_def compute_trim_actions_def excess_def sorted_slots_def Let_def)
  have R: "sum_list (map reducible sorted_slots) = sum_list (map reducible slots)"
    by (simp add: sorted_slots_def sum_list_sort_key)
  have cover: "min excess (sum_list (map reducible slots)) = excess"
    using reducible_covers_excess [OF computed(3) b] reducible_sum_nonneg [of slots]
    by (simp add: excess_def total_estimated_def)
  have kept: "trims excess sorted_slots (kept_tokens actions)"
    unfolding actions by (rule trim_slots_kept [OF ds e])
  have floor: "estimated_tokens s - reducible s = min (allocated_tokens s) (estimated_tokens s)" for s
    by (simp add: reducible_def)
  have sum: "sum_list (map (kept_tokens actions) slots) = min total_estimated b"
    using kept cover by (simp add: trims_def R sorted_slots_def sum_list_sort_key
        flip: total_estimated_def) (simp add: excess_def)
  have reduced: "reduced_estimate slots total_estimated actions = total_estimated - excess"
    unfolding actions using reduced_estimate_trim [OF d _ e, of sorted_slots] R cover
    by (simp add: sorted_slots_def)
  have order: "kept_tokens actions s = min (allocated_tokens s) (estimated_tokens s)"
    if "s \<in> set slots" "t \<in> set slots" "trim_order s < trim_order t"
      "kept_tokens actions t < estimated_tokens t" for s t
    using sorted_before [of _ sorted_slots trim_order s t] kept that
    by (fastforce simp: trims_def sorted_slots_def floor)
  show ?thesis
    using computed(1,3,4) sum kept order reduced
    by (auto simp: plan_ok_def plan Let_def list_all_iff trims_def floor sorted_slots_def excess_def)
qed

lemma allocate_defined:
  assumes "18 * policy_total_token_budget policy < 2 ^ 31"
  shows "\<exists>plan. allocate est c policy = Some plan"
proof -
  have "is_i32 (max 0 (policy_total_token_budget policy) * share)"
    if "(name, share, priority) \<in> set (stage_templates policy)" for name share priority
  proof -
    from that stage_templates_shares(2) [of policy] have "0 \<le> share" "share \<le> 18" by auto
    then have "0 \<le> max 0 (policy_total_token_budget policy) * share"
      "max 0 (policy_total_token_budget policy) * share \<le> max 0 (policy_total_token_budget policy) * 18"
      by (auto intro: mult_left_mono)
    with assms show ?thesis by (auto simp: is_i32_def)
  qed
  then have "list_all (\<lambda>(name, share, priority). is_i32 (max 0 (policy_total_token_budget policy) * share))
      (stage_templates policy)"
    by (auto simp: list_all_iff)
  then show ?thesis by (simp add: allocate_def compute_slot_budgets_def Let_def)
qed


definition sample_candidates :: CandidateSet where
  "sample_candidates = \<lparr>
     cand_working_snapshot = \<lparr>snap_session_id = ''s'', snap_slots = [], snap_open_questions = [],
       snap_ephemeral_facts = [], snap_at = 1\<rparr>,
     cand_session_bundle = \<lparr>bundle_session = empty_session,
       bundle_recent_turns =
         [empty_turn\<lparr>turn_user_input := Some ''and now?''\<rparr>,
          empty_turn\<lparr>turn_user_input := Some ''a question of some length'',
            turn_agent_response := Some ''an answer that is longer than the question was''\<rparr>],
       bundle_total_turn_count = 2\<rparr>,
     cand_latest_summary = Some (empty_summary\<lparr>sum_summary_text := Some ''what was said before''\<rparr>),
     cand_relevant_facts = [], cand_relevant_experiences = [],
     cand_external_evidence = [''a page of evidence from outside''],
     cand_vector_hits = [], cand_warnings = [], cand_estimated_total_tokens = 40\<rparr>"

definition sample_policy :: BudgetPolicy where
  "sample_policy = \<lparr>policy_total_token_budget = 20, policy_stage = ''Reasoning'', policy_risk_level = 2,
     policy_latency_budget_ms = 100\<rparr>"

lemma sample_trims:
  "map_option trim_actions (allocate heuristic_estimate_text_tokens sample_candidates sample_policy) =
     Some [\<lparr>trim_slot_name = ''retrieval_evidence'', target_tokens = 0\<rparr>,
       \<lparr>trim_slot_name = ''recent_history'', target_tokens = 13\<rparr>]"
  by code_simp


text \<open>A budget of two hundred million tokens overflows the product with the share.\<close>

lemma large_budget_overflows:
  "allocate est candidates (sample_policy\<lparr>policy_total_token_budget := 200000000\<rparr>) = None"
  by (simp add: allocate_def compute_slot_budgets_def stage_templates_def normalize_stage_def
      sample_policy_def is_i32_def Let_def)

end
