(* ===== verification/Context_Assembly.thy ===== *)
theory Context_Assembly
  imports Context_Text
begin

text \<open>
  The context orchestrator, \<^verbatim>\<open>memory/src/context/ContextOrchestrator.cpp\<close>: from a request and
  the collected candidates to a validated context packet. The collector, the compressor and the
  allocator are arguments: the collector reads the stores, and each of them may be missing or
  throw. Telemetry and the quality probe only read the result and are left out.
\<close>

section \<open>Projection of the candidates\<close>

record SlotProjection =
  sp_current_goal_summary :: string
  sp_recent_history :: "string list"
  sp_summary_memory :: string
  sp_retrieval_evidence :: "string list"
  sp_retrieval_evidence_refs :: "RetrievalEvidenceRef list"
  sp_latest_observation_digest_summary :: string
  sp_active_tools :: "string list"
  sp_policy_digest :: string
  sp_belief_state_summary :: string

text \<open>The first key that has a slot with a value; a key names the first slot that carries it.\<close>

fun find_snapshot_slot :: "WorkingMemorySnapshot \<Rightarrow> string list \<Rightarrow> string option" where
  "find_snapshot_slot snapshot [] = None"
| "find_snapshot_slot snapshot (key # keys) =
     (case List.find (\<lambda>slot. slot_key slot = key) (snap_slots snapshot) of
        None \<Rightarrow> find_snapshot_slot snapshot keys
      | Some slot \<Rightarrow>
          if \<not> empty_string (slot_value slot) then Some (slot_value slot)
          else find_snapshot_slot snapshot keys)"

definition latest_user_turn :: "CandidateSet \<Rightarrow> string option" where
  "latest_user_turn candidates =
     (case bundle_recent_turns (cand_session_bundle candidates) of
        turn # _ \<Rightarrow>
          if has_non_empty_value (turn_user_input turn) then turn_user_input turn
          else find_snapshot_slot (cand_working_snapshot candidates)
                 [''user_turn'', ''latest_user_turn'']
      | [] \<Rightarrow> find_snapshot_slot (cand_working_snapshot candidates)
                [''user_turn'', ''latest_user_turn''])"

definition fallback_user_turn :: "CandidateSet \<Rightarrow> ContextAssembleRequest \<Rightarrow> string" where
  "fallback_user_turn candidates request =
     (if \<not> empty_string (req_user_turn request) then req_user_turn request
      else if has_non_empty_value (latest_user_turn candidates) then the (latest_user_turn candidates)
      else if \<not> empty_string (req_goal_summary request) then req_goal_summary request
      else ''context unavailable'')"

definition fallback_goal_summary :: "CandidateSet \<Rightarrow> ContextAssembleRequest \<Rightarrow> string" where
  "fallback_goal_summary candidates request =
     (if \<not> empty_string (req_goal_summary request) then req_goal_summary request
      else
        case find_snapshot_slot (cand_working_snapshot candidates)
               [''current_goal_summary'', ''goal_summary''] of
          Some v \<Rightarrow> v
        | None \<Rightarrow> ''goal unavailable'')"

definition turn_entries :: "Turn \<Rightarrow> string list" where
  "turn_entries turn =
     optional_part (has_non_empty_value (turn_user_input turn))
       (''[user] '' @ the (turn_user_input turn)) @
     optional_part (has_non_empty_value (turn_agent_response turn))
       (''[assistant] '' @ the (turn_agent_response turn)) @
     optional_part (present_refs (turn_tool_call_refs turn))
       (''[tools] '' @ join_strings (the (turn_tool_call_refs turn)) '', '') @
     optional_part (present_refs (turn_observation_refs turn))
       (''[observations] '' @ join_strings (the (turn_observation_refs turn)) '', '')"

text \<open>Turns are stored newest first and told oldest first.\<close>

definition make_chronological_turns :: "Turn list \<Rightarrow> Turn list" where
  "make_chronological_turns recent_turns = rev recent_turns"

definition serialize_recent_history :: "CandidateSet \<Rightarrow> string list" where
  "serialize_recent_history candidates =
     concat (map turn_entries
       (make_chronological_turns (bundle_recent_turns (cand_session_bundle candidates))))"

definition experience_entry :: "ExperienceMemory \<Rightarrow> string list" where
  "experience_entry experience =
     optional_part (has_non_empty_value (exp_lesson_summary experience))
       (''[experience] '' @ the (exp_lesson_summary experience) @
        concat (optional_part (has_non_empty_value (exp_trigger_condition experience))
          ('' | when: '' @ the (exp_trigger_condition experience))) @
        concat (optional_part (has_non_empty_value (exp_recommended_action experience))
          ('' | do: '' @ the (exp_recommended_action experience))))"

text \<open>
  The sort of the hits by falling score, then by document; hits of equal score and document
  keep their order here, where the library may exchange them.
\<close>

definition sorted_hits :: "VectorHit list \<Rightarrow> VectorHit list" where
  "sorted_hits hits = sort_key (\<lambda>hit. (- hit_score hit, hit_doc_id hit)) hits"

definition vector_entry :: "VectorHit \<Rightarrow> string" where
  "vector_entry hit =
     ''[vector] '' @ hit_doc_id hit @ '' ('' @ hit_doc_type hit @ '') '' @ hit_text_snippet hit"

definition build_retrieval_evidence_entries :: "CandidateSet \<Rightarrow> string list" where
  "build_retrieval_evidence_entries candidates =
     append_all_unique
       (concat (map experience_entry (cand_relevant_experiences candidates)) @
        map vector_entry (sorted_hits (cand_vector_hits candidates)))
       (cand_external_evidence candidates)"

definition belief_parts :: "MemoryFact list \<Rightarrow> string list" where
  "belief_parts facts =
     map (\<lambda>fact. the (fact_fact_text fact) @ '' ('' @
            to_string_nat (unat (value_or (fact_confidence_score fact) 0)) @ ''%)'')
       (filter (has_non_empty_value \<circ> fact_fact_text) facts)"

definition build_belief_state_summary :: "CandidateSet \<Rightarrow> string" where
  "build_belief_state_summary candidates =
     (let parts = belief_parts (cand_relevant_facts candidates)
      in if parts = [] then []
         else bytes [229, 183, 178, 231, 161, 174, 232, 174, 164, 228, 186, 139, 229, 174, 158,
                239, 188, 154] @ join_strings parts (bytes [239, 188, 155]))"

definition project_slots :: "CandidateSet \<Rightarrow> ContextAssembleRequest \<Rightarrow> SlotProjection" where
  "project_slots candidates request =
     \<lparr>sp_current_goal_summary = fallback_goal_summary candidates request,
      sp_recent_history = serialize_recent_history candidates,
      sp_summary_memory =
        (case cand_latest_summary candidates of
           None \<Rightarrow> [] | Some summary \<Rightarrow> value_or (sum_summary_text summary) []),
      sp_retrieval_evidence = build_retrieval_evidence_entries candidates,
      sp_retrieval_evidence_refs = req_retrieval_evidence_refs request,
      sp_latest_observation_digest_summary = req_latest_observation_digest_summary request,
      sp_active_tools = req_visible_tools request,
      sp_policy_digest = req_constraints_summary request,
      sp_belief_state_summary = build_belief_state_summary candidates\<rparr>"

section \<open>Limits of a plan\<close>

definition find_trim_action :: "BudgetPlan \<Rightarrow> string \<Rightarrow> TrimAction option" where
  "find_trim_action plan name = List.find (\<lambda>action. trim_slot_name action = name) (trim_actions plan)"

definition effective_slot_limit :: "BudgetPlan \<Rightarrow> string \<Rightarrow> int" where
  "effective_slot_limit plan name =
     (case find_trim_action plan name of Some action \<Rightarrow> target_tokens action | None \<Rightarrow> 2147483647)"

definition kFallbackSlots :: "string list" where
  "kFallbackSlots =
     [''user_turn'', ''current_goal_summary'', ''policy_digest'',
      ''latest_observation_digest_summary'', ''recent_history'', ''summary_memory'',
      ''belief_state_summary'', ''retrieval_evidence'', ''active_tools'']"

definition make_fallback_budget_plan :: "int \<Rightarrow> BudgetPlan" where
  "make_fallback_budget_plan total_tokens =
     (let budget = max 0 total_tokens;
          per_slot = (if budget > 0 then max 1 (budget div int (length kFallbackSlots)) else 0)
      in \<lparr>slot_budgets =
            map (\<lambda>index. \<lparr>slot_name = kFallbackSlots ! index, allocated_tokens = per_slot,
                   estimated_tokens = 0, slot_priority = 100 - int index\<rparr>)
              [0..<length kFallbackSlots],
          trim_actions = [], total_token_budget = budget, estimated_total_tokens = 0,
          over_budget = False\<rparr>)"

section \<open>Building the packet\<close>

definition optional_text :: "string \<Rightarrow> string option" where
  "optional_text s = (if empty_string s then None else Some s)"

definition optional_list :: "'a list \<Rightarrow> 'a list option" where
  "optional_list vs = (if vs = [] then None else Some vs)"

definition packet_request_id :: "ContextAssembleRequest \<Rightarrow> string" where
  "packet_request_id request =
     (if empty_string (req_request_id request) then ''context-request'' else req_request_id request)"

definition build_packet ::
    "estimator \<Rightarrow> CandidateSet \<Rightarrow> BudgetPlan \<Rightarrow> ContextAssembleRequest \<Rightarrow> ContextPacket" where
  "build_packet est candidates plan request =
     (let projection = project_slots candidates request;
          user_turn = fallback_user_turn candidates request
      in empty_packet\<lparr>
           pkt_request_id := Some (packet_request_id request),
           pkt_user_turn := Some user_turn,
           pkt_current_goal_summary := Some (fallback_goal_summary candidates request),
           pkt_input_safety_signal := make_input_safety_signal user_turn,
           pkt_recent_history :=
             Some (trim_vector_to_token_limit est (sp_recent_history projection)
                     (effective_slot_limit plan ''recent_history'') True),
           pkt_summary_memory :=
             optional_text (trim_text_to_token_limit est (sp_summary_memory projection)
                     (effective_slot_limit plan ''summary_memory'')),
           pkt_retrieval_evidence :=
             optional_list (trim_vector_to_token_limit est (sp_retrieval_evidence projection)
                     (effective_slot_limit plan ''retrieval_evidence'') False),
           pkt_retrieval_evidence_refs := optional_list (sp_retrieval_evidence_refs projection),
           pkt_latest_observation_digest_summary :=
             optional_text (trim_text_to_token_limit est
                     (sp_latest_observation_digest_summary projection)
                     (effective_slot_limit plan ''latest_observation_digest_summary'')),
           pkt_active_tools :=
             optional_list (trim_vector_to_token_limit est (sp_active_tools projection)
                     (effective_slot_limit plan ''active_tools'') False),
           pkt_policy_digest :=
             optional_text (trim_text_to_token_limit est (sp_policy_digest projection)
                     (effective_slot_limit plan ''policy_digest'')),
           pkt_belief_state_summary :=
             optional_text (trim_text_to_token_limit est (sp_belief_state_summary projection)
                     (effective_slot_limit plan ''belief_state_summary''))\<rparr>)"

definition build_minimal_budget_report :: "ContextAssembleRequest \<Rightarrow> string" where
  "build_minimal_budget_report request =
     ''token_budget_hint='' @ to_string_int (req_token_budget_hint request)"

definition make_minimal_packet :: "ContextAssembleRequest \<Rightarrow> int \<Rightarrow> ContextPacket" where
  "make_minimal_packet request now_ms =
     (let user_turn =
            (if \<not> empty_string (req_user_turn request) then req_user_turn request
             else if \<not> empty_string (req_goal_summary request) then req_goal_summary request
             else ''context unavailable'')
      in empty_packet\<lparr>
           pkt_request_id := Some (packet_request_id request),
           pkt_user_turn := Some user_turn,
           pkt_current_goal_summary :=
             Some (if \<not> empty_string (req_goal_summary request) then req_goal_summary request
                   else ''goal unavailable''),
           pkt_recent_history := Some [],
           pkt_latest_observation_digest_summary :=
             optional_text (req_latest_observation_digest_summary request),
           pkt_active_tools := optional_list (req_visible_tools request),
           pkt_retrieval_evidence := optional_list (req_external_evidence request),
           pkt_retrieval_evidence_refs := optional_list (req_retrieval_evidence_refs request),
           pkt_policy_digest := optional_text (req_constraints_summary request),
           pkt_input_safety_signal := make_input_safety_signal user_turn,
           pkt_token_budget_report := Some (build_minimal_budget_report request),
           pkt_created_at := Some now_ms,
           pkt_tags := Some [''memory'', ''context'']\<rparr>)"

section \<open>Report and dropped sections\<close>

definition used_slot_tokens :: "estimator \<Rightarrow> ContextPacket \<Rightarrow> string \<Rightarrow> int" where
  "used_slot_tokens est packet name =
     (if name = ''user_turn'' then est (value_or (pkt_user_turn packet) [])
      else if name = ''current_goal_summary'' then est (value_or (pkt_current_goal_summary packet) [])
      else if name = ''policy_digest'' then est (value_or (pkt_policy_digest packet) [])
      else if name = ''latest_observation_digest_summary'' then
        est (value_or (pkt_latest_observation_digest_summary packet) [])
      else if name = ''recent_history'' then
        optional_string_vector_tokens est (pkt_recent_history packet)
      else if name = ''summary_memory'' then est (value_or (pkt_summary_memory packet) [])
      else if name = ''belief_state_summary'' then
        est (value_or (pkt_belief_state_summary packet) [])
      else if name = ''retrieval_evidence'' then
        optional_string_vector_tokens est (pkt_retrieval_evidence packet)
      else if name = ''active_tools'' then
        optional_string_vector_tokens est (pkt_active_tools packet)
      else 0)"

definition build_budget_report :: "BudgetPlan \<Rightarrow> estimator \<Rightarrow> ContextPacket \<Rightarrow> string" where
  "build_budget_report plan est packet =
     join_strings
       (map (\<lambda>s. slot_name s @ '': '' @ to_string_int (allocated_tokens s) @ ''/'' @
               to_string_int (used_slot_tokens est packet (slot_name s))) (slot_budgets plan) @
        [''estimated_total='' @ to_string_int (estimated_total_tokens plan),
         ''over_budget='' @ (if over_budget plan then ''true'' else ''false'')])
       ''; ''"

text \<open>Lists are compared by their lengths only, texts by their contents.\<close>

definition shorter_list :: "'a list \<Rightarrow> 'a list option \<Rightarrow> bool" where
  "shorter_list projected v \<longleftrightarrow> length projected > length (value_or v [])"

definition changed_text :: "string \<Rightarrow> string option \<Rightarrow> bool" where
  "changed_text projected v \<longleftrightarrow> \<not> empty_string projected \<and> value_or v [] \<noteq> projected"

definition append_unique_when :: "bool \<Rightarrow> string \<Rightarrow> string list \<Rightarrow> string list" where
  "append_unique_when c section_name sections =
     (if c then append_unique sections section_name else sections)"

definition detect_dropped_sections :: "SlotProjection \<Rightarrow> ContextPacket \<Rightarrow> string list" where
  "detect_dropped_sections projection packet =
     append_unique_when (changed_text (sp_belief_state_summary projection) (pkt_belief_state_summary packet))
       ''belief_state_summary''
     (append_unique_when (changed_text (sp_policy_digest projection) (pkt_policy_digest packet))
       ''policy_digest''
     (append_unique_when (shorter_list (sp_active_tools projection) (pkt_active_tools packet))
       ''active_tools''
     (append_unique_when
       (changed_text (sp_latest_observation_digest_summary projection)
          (pkt_latest_observation_digest_summary packet)) ''latest_observation_digest_summary''
     (append_unique_when
       (shorter_list (sp_retrieval_evidence_refs projection) (pkt_retrieval_evidence_refs packet))
       ''retrieval_evidence_refs''
     (append_unique_when
       (shorter_list (sp_retrieval_evidence projection) (pkt_retrieval_evidence packet))
       ''retrieval_evidence''
     (append_unique_when (changed_text (sp_summary_memory projection) (pkt_summary_memory packet))
       ''summary_memory''
     (append_unique_when (shorter_list (sp_recent_history projection) (pkt_recent_history packet))
       ''recent_history'' [])))))))"

section \<open>Assembly\<close>

record ContextConfig =
  compression_trigger_turns :: int
  compression_trigger_ratio :: double

datatype Collection = Collector_missing | Collection_failed | Collected CandidateSet

type_synonym compressor = "CompressionInput \<Rightarrow> CompressionOutput option"
type_synonym allocator = "CandidateSet \<Rightarrow> BudgetPolicy \<Rightarrow> BudgetPlan option"

definition recent_turns_of :: "CandidateSet \<Rightarrow> Turn list" where
  "recent_turns_of candidates = bundle_recent_turns (cand_session_bundle candidates)"

definition needs_compression :: "ContextConfig \<Rightarrow> CandidateSet \<Rightarrow> int \<Rightarrow> bool" where
  "needs_compression config candidates token_budget_hint \<longleftrightarrow>
     (if length (recent_turns_of candidates) \<ge> nat (max 1 (compression_trigger_turns config)) then True
      else if token_budget_hint \<le> 0 then False
      else exceeds_double (cand_estimated_total_tokens candidates)
             (double_times (nat token_budget_hint) (compression_trigger_ratio config)))"

definition trim_recent_turns_after_compression :: "Turn list \<Rightarrow> int \<Rightarrow> Turn list" where
  "trim_recent_turns_after_compression recent_turns trigger_turns =
     take (max 1 (nat (max 1 (trigger_turns div 4)))) recent_turns"

definition compression_input :: "CandidateSet \<Rightarrow> ContextAssembleRequest \<Rightarrow> CompressionInput" where
  "compression_input candidates request =
     \<lparr>ci_session_id = req_session_id request,
      ci_source_turns = make_chronological_turns (recent_turns_of candidates),
      ci_existing_summary = cand_latest_summary candidates,
      ci_target_token_budget = req_token_budget_hint request,
      ci_materialize_latest_summary = False, ci_strategy_hint = ''auto''\<rparr>"

definition with_summary :: "ContextConfig \<Rightarrow> CompressionOutput \<Rightarrow> CandidateSet \<Rightarrow> CandidateSet" where
  "with_summary config output candidates =
     candidates\<lparr>cand_latest_summary := Some (co_summary output),
       cand_session_bundle := (cand_session_bundle candidates)\<lparr>bundle_recent_turns :=
         trim_recent_turns_after_compression (recent_turns_of candidates)
           (max 1 (compression_trigger_turns config))\<rparr>\<rparr>"

text \<open>Candidates, compression notes and warnings after the compression step.\<close>

definition compression_step ::
    "ContextConfig \<Rightarrow> compressor option \<Rightarrow> ContextAssembleRequest \<Rightarrow> CandidateSet \<Rightarrow> string list \<Rightarrow>
     CandidateSet \<times> string list \<times> string list" where
  "compression_step config compressor_opt request candidates warnings =
     (if \<not> needs_compression config candidates (req_token_budget_hint request) then
        (candidates, [], warnings)
      else
        case compressor_opt of
          None \<Rightarrow> (candidates, [], warnings @ [''compression_skipped''])
        | Some run \<Rightarrow>
            case run (compression_input candidates request) of
              None \<Rightarrow> (candidates, [], warnings @ [''compression_skipped''])
            | Some output \<Rightarrow>
                if co_compression_applied output then
                  (with_summary config output candidates,
                   append_all_unique [] (co_compression_notes output), warnings)
                else (candidates, [], warnings))"

definition allocation_policy :: "ContextAssembleRequest \<Rightarrow> BudgetPolicy" where
  "allocation_policy request =
     \<lparr>policy_total_token_budget = max 0 (req_token_budget_hint request),
      policy_stage = req_stage request, policy_risk_level = 0,
      policy_latency_budget_ms = req_latency_budget_ms request\<rparr>"

definition allocation_step ::
    "allocator \<Rightarrow> ContextAssembleRequest \<Rightarrow> CandidateSet \<Rightarrow> string list \<Rightarrow> BudgetPlan \<times> string list" where
  "allocation_step allocator request candidates warnings =
     (case allocator candidates (allocation_policy request) of
        Some plan \<Rightarrow> (plan, warnings)
      | None \<Rightarrow> (make_fallback_budget_plan (req_token_budget_hint request),
                 warnings @ [''budget_allocator_fallback'']))"

definition warning_implies_degraded :: "string \<Rightarrow> bool" where
  "warning_implies_degraded warning \<longleftrightarrow>
     contains_text ''unavailable'' warning \<or> contains_text ''failed'' warning \<or>
     contains_text ''fallback'' warning \<or> contains_text ''skipped'' warning \<or>
     warning = ''candidate_collection_missing''"

definition failed_assembly :: "ContextAssembleRequest \<Rightarrow> int \<Rightarrow> string \<Rightarrow> ContextAssembleResult" where
  "failed_assembly request now_ms warning =
     \<lparr>res_context_packet = make_minimal_packet request now_ms, res_dropped_sections = [],
      res_compression_notes = [], res_warnings = [warning], res_degraded = True\<rparr>"

definition finished_packet ::
    "estimator \<Rightarrow> CandidateSet \<Rightarrow> BudgetPlan \<Rightarrow> ContextAssembleRequest \<Rightarrow> int \<Rightarrow> ContextPacket" where
  "finished_packet est candidates plan request now_ms =
     (let packet = build_packet est candidates plan request
      in packet\<lparr>pkt_token_budget_report := Some (build_budget_report plan est packet),
           pkt_created_at := Some now_ms, pkt_tags := Some [''memory'', ''context'']\<rparr>)"

definition fallback_warnings ::
    "CandidateSet \<Rightarrow> BudgetPlan \<Rightarrow> ContextAssembleRequest \<Rightarrow> ContextPacket \<Rightarrow> string list \<Rightarrow> string list" where
  "fallback_warnings candidates plan request packet warnings =
     append_unique_when (over_budget plan) ''token_budget_still_over_limit''
     (append_unique_when (empty_string (req_goal_summary request) \<and> pkt_current_goal_summary packet \<noteq> None)
        ''goal_summary_fallback_working_memory''
     (append_unique_when (latest_user_turn candidates = None \<and> empty_string (req_user_turn request))
        ''user_turn_fallback_goal_summary'' warnings))"

definition assemble_from ::
    "estimator \<Rightarrow> ContextConfig \<Rightarrow> compressor option \<Rightarrow> allocator \<Rightarrow> int \<Rightarrow> ContextAssembleRequest \<Rightarrow>
     CandidateSet \<Rightarrow> ContextAssembleResult" where
  "assemble_from est config compressor_opt allocator now_ms request collected =
     (case compression_step config compressor_opt request collected
             (append_all_unique [] (cand_warnings collected)) of
        (candidates, compression_notes, warnings) \<Rightarrow>
      case allocation_step allocator request candidates warnings of (plan, warnings) \<Rightarrow>
        let packet = finished_packet est candidates plan request now_ms;
            dropped = detect_dropped_sections (project_slots candidates request) packet;
            warnings = append_all_unique warnings (map (\<lambda>d. d @ ''_trimmed'') dropped);
            warnings = fallback_warnings candidates plan request packet warnings;
            guard_result = validate_context_packet_field_rules packet;
            warnings =
              (if ok guard_result then warnings
               else append_unique warnings (''context_packet_guard_failed:'' @ reason guard_result))
        in \<lparr>res_context_packet =
              (if ok guard_result then packet else make_minimal_packet request now_ms),
            res_dropped_sections = dropped, res_compression_notes = compression_notes,
            res_warnings = warnings,
            res_degraded = over_budget plan \<or> list_ex warning_implies_degraded warnings\<rparr>)"

definition assemble ::
    "estimator \<Rightarrow> ContextConfig \<Rightarrow> Collection \<Rightarrow> compressor option \<Rightarrow> allocator \<Rightarrow> int \<Rightarrow>
     ContextAssembleRequest \<Rightarrow> ContextAssembleResult" where
  "assemble est config collection compressor_opt allocator now_ms request =
     (case collection of
        Collector_missing \<Rightarrow> failed_assembly request now_ms ''candidate_collection_missing''
      | Collection_failed \<Rightarrow> failed_assembly request now_ms ''candidate_collection_failed''
      | Collected candidates \<Rightarrow>
          assemble_from est config compressor_opt allocator now_ms request candidates)"

section \<open>Packets are usable\<close>

lemma to_string_int_nonempty: "to_string_int i \<noteq> []"
  by (auto simp: to_string_int_def to_string_nat_nonempty)

lemma present_optional_text [simp]: "\<not> present_but_empty (optional_text s)"
  by (simp add: present_but_empty_def optional_text_def)

lemma signal_consistent:
  "make_input_safety_signal s = Some signal \<Longrightarrow> signal_has_consistent_values signal"
  by (auto simp: make_input_safety_signal_def signal_has_consistent_values_def append_unique_def Let_def
      split: if_splits)

lemma filled_optional_list: "filled_list (optional_list vs) \<longleftrightarrow> [] \<notin> set vs"
  by (auto simp: filled_list_def optional_list_def)

lemma refs_optional_list:
  "(\<forall>refs. optional_list vs = Some refs \<longrightarrow> refs \<noteq> [] \<and> list_all P refs) \<longleftrightarrow> list_all P vs"
  by (auto simp: optional_list_def)

text \<open>What a well-formed request is: no empty tool, no empty evidence, consistent references.\<close>

definition request_wf :: "ContextAssembleRequest \<Rightarrow> bool" where
  "request_wf request \<longleftrightarrow>
     [] \<notin> set (req_visible_tools request) \<and> [] \<notin> set (req_external_evidence request) \<and>
     list_all ref_has_consistent_values (req_retrieval_evidence_refs request)"

lemma packet_request_id_nonempty: "packet_request_id request \<noteq> []"
  by (simp add: packet_request_id_def)

lemma minimal_packet_required:
  "ok (validate_context_packet_required_fields (make_minimal_packet request now_ms))"
  by (simp add: validate_context_packet_required_fields_def make_minimal_packet_def Let_def
      packet_request_id_nonempty)

lemma minimal_packet_valid:
  "request_wf request \<Longrightarrow> 0 < now_ms \<Longrightarrow>
     ok (validate_context_packet_field_rules (make_minimal_packet request now_ms))"
  by (simp add: packet_rules_ok make_minimal_packet_def Let_def packet_request_id_nonempty empty_packet_def
      filled_optional_list refs_optional_list request_wf_def signal_consistent
      present_but_empty_def [of "Some _"] present_but_empty_def [of None] build_minimal_budget_report_def)
    (simp add: filled_list_def)

lemma contains_text_iff: "contains_text pat s \<longleftrightarrow> (\<exists>a b. s = a @ pat @ b)"
proof (induction s)
  case (Cons c s)
  have "take (length pat) (c # s) = pat \<longleftrightarrow> (\<exists>b. c # s = pat @ b)"
    by (metis append_eq_conv_conj append_take_drop_id)
  moreover have "(\<exists>a b. c # s = a @ pat @ b) \<longleftrightarrow> (\<exists>b. c # s = pat @ b) \<or> (\<exists>a b. s = a @ pat @ b)"
    by (metis (no_types, lifting) append_Cons append_Nil list.sel(3) neq_Nil_conv)
  ultimately show ?case by (simp add: Cons.IH)
qed simp

lemma guard_warning_degrades: "warning_implies_degraded (''context_packet_guard_failed:'' @ r)"
proof -
  have "''context_packet_guard_failed:'' @ r = ''context_packet_guard_'' @ ''failed'' @ ('':'' @ r)"
    by simp
  then have "contains_text ''failed'' (''context_packet_guard_failed:'' @ r)"
    unfolding contains_text_iff by blast
  then show ?thesis by (simp add: warning_implies_degraded_def)
qed

lemma fallback_warning_degrades:
  "warning_implies_degraded ''budget_allocator_fallback''"
  "warning_implies_degraded ''compression_skipped''"
  by (simp_all add: warning_implies_degraded_def)

lemma fallback_warnings_keep: "set warnings \<subseteq> set (fallback_warnings c plan request packet warnings)"
  by (auto simp: fallback_warnings_def append_unique_when_def)

lemma finished_packet_required:
  "ok (validate_context_packet_required_fields (finished_packet est c plan request now_ms))"
proof -
  have "find_snapshot_slot snap keys = Some v \<Longrightarrow> v \<noteq> []" for snap keys v
    by (induction snap keys rule: find_snapshot_slot.induct) (auto split: option.splits if_splits)
  then have "fallback_goal_summary c request \<noteq> []"
    by (auto simp: fallback_goal_summary_def split: option.split)
  moreover have "fallback_user_turn c request \<noteq> []"
    by (auto simp: fallback_user_turn_def has_non_empty_the)
  ultimately show ?thesis
    by (simp add: validate_context_packet_required_fields_def finished_packet_def build_packet_def
        Let_def packet_request_id_nonempty)
qed

lemma assemble_from_result:
  assumes "compression_step config compressor_opt request collected
      (append_all_unique [] (cand_warnings collected)) = (candidates, ns, warnings)"
    and "allocation_step allocator request candidates warnings = (plan, warnings')"
    and "finished_packet est candidates plan request now_ms = packet"
    and "assemble_from est config compressor_opt allocator now_ms request collected = r"
  shows "res_context_packet r =
      (if ok (validate_context_packet_field_rules packet) then packet
       else make_minimal_packet request now_ms)"
    and "\<not> res_degraded r \<Longrightarrow> ok (validate_context_packet_field_rules packet) \<and> \<not> over_budget plan \<and>
      (\<forall>w\<in>set warnings'. \<not> warning_implies_degraded w)"
proof -
  show "res_context_packet r =
      (if ok (validate_context_packet_field_rules packet) then packet
       else make_minimal_packet request now_ms)"
    unfolding assms(4) [symmetric] by (simp add: assemble_from_def assms(1-3) Let_def)
  define final where "final = fallback_warnings candidates plan request packet
    (append_all_unique warnings' (map (\<lambda>d. d @ ''_trimmed'')
      (detect_dropped_sections (project_slots candidates request) packet)))"
  define ws where "ws = (if ok (validate_context_packet_field_rules packet) then final
    else append_unique final (''context_packet_guard_failed:'' @
      reason (validate_context_packet_field_rules packet)))"
  have "res_degraded r \<longleftrightarrow> over_budget plan \<or> list_ex warning_implies_degraded ws"
    unfolding assms(4) [symmetric] by (simp add: assemble_from_def assms(1-3) Let_def ws_def final_def)
  moreover have "set warnings' \<subseteq> set ws"
    using fallback_warnings_keep [of "append_all_unique warnings' (map (\<lambda>d. d @ ''_trimmed'')
        (detect_dropped_sections (project_slots candidates request) packet))" candidates plan request packet]
    by (auto simp: ws_def final_def)
  moreover have "\<not> ok (validate_context_packet_field_rules packet) \<Longrightarrow>
      list_ex warning_implies_degraded ws"
    by (auto simp: ws_def list_ex_iff guard_warning_degrades [simplified])
  ultimately show "\<not> res_degraded r \<Longrightarrow> ok (validate_context_packet_field_rules packet) \<and>
      \<not> over_budget plan \<and> (\<forall>w\<in>set warnings'. \<not> warning_implies_degraded w)"
    by (auto simp: list_ex_iff)
qed

text \<open>
  C15. Whatever the collector, compressor and allocator do, the result carries a packet with
  its required fields, and one that passes the whole validation when the request is well
  formed. A result that is not marked degraded carries the packet built from the collected
  candidates, possibly compressed, under a plan of the allocator that is within its budget.
\<close>

theorem assembled_packet_is_usable:
  assumes "0 < now_ms"
  shows "let r = assemble est config collection compressor_opt allocator now_ms request;
             packet = res_context_packet r
    in ok (validate_context_packet_required_fields packet) \<and>
       (request_wf request \<longrightarrow> ok (validate_context_packet_field_rules packet)) \<and>
       (\<not> res_degraded r \<longrightarrow>
         (\<exists>collected candidates ns warnings plan.
            collection = Collected collected \<and>
            compression_step config compressor_opt request collected
              (append_all_unique [] (cand_warnings collected)) = (candidates, ns, warnings) \<and>
            allocator candidates (allocation_policy request) = Some plan \<and> \<not> over_budget plan \<and>
            packet = finished_packet est candidates plan request now_ms \<and>
            ok (validate_context_packet_field_rules packet)))"
proof (cases collection)
  case (Collected collected)
  obtain candidates ns warnings where c: "compression_step config compressor_opt request collected
      (append_all_unique [] (cand_warnings collected)) = (candidates, ns, warnings)"
    using prod_cases3 by blast
  obtain plan warnings' where a: "allocation_step allocator request candidates warnings = (plan, warnings')"
    using prod.exhaust by blast
  define r where "r = assemble_from est config compressor_opt allocator now_ms request collected"
  note result = assemble_from_result [OF c a refl r_def [symmetric]]
  have "allocator candidates (allocation_policy request) = Some plan" if "\<not> res_degraded r"
  proof -
    have "\<forall>w\<in>set warnings'. \<not> warning_implies_degraded w" using result(2) [OF that] by simp
    then show ?thesis using a fallback_warning_degrades(1)
      by (auto simp: allocation_step_def split: option.splits)
  qed
  then show ?thesis
    using c result finished_packet_required minimal_packet_required minimal_packet_valid [OF _ assms]
    by (auto simp: assemble_def Collected Let_def simp flip: r_def)
qed (use minimal_packet_required minimal_packet_valid [OF _ assms] in
    \<open>simp_all add: assemble_def failed_assembly_def Let_def\<close>)

section \<open>Sections follow the plan\<close>

definition section_trimmed :: "estimator \<Rightarrow> int \<Rightarrow> string list \<Rightarrow> string list \<Rightarrow> bool" where
  "section_trimmed est limit projected r \<longleftrightarrow>
     (if limit \<le> 0 then r = [] else trimmed_prefix est limit projected r)"

definition text_trimmed :: "estimator \<Rightarrow> int \<Rightarrow> string \<Rightarrow> string \<Rightarrow> bool" where
  "text_trimmed est limit projected r \<longleftrightarrow>
     cut_of projected r \<and> (r = [] \<longleftrightarrow> projected = [] \<or> limit \<le> 0) \<and>
     (0 < limit \<and> est projected \<le> limit \<longrightarrow> r = projected)"

lemma trim_text_trimmed: "text_trimmed est limit s (trim_text_to_token_limit est s limit)"
  by (auto simp: text_trimmed_def trim_text_cut trim_text_empty_iff trim_text_within)
    (cases "s = []", simp_all add: trim_text_within trim_text_empty_iff)

lemma trimmed_prefix_empty: "0 < limit \<Longrightarrow> trimmed_prefix est limit [] []"
  by (auto simp: trimmed_prefix_def string_vector_tokens_def)

lemma trim_vector_trimmed:
  "section_trimmed est limit vs (trim_vector_to_token_limit est vs limit False)"
  "section_trimmed est limit (rev vs) (rev (trim_vector_to_token_limit est vs limit True))"
  using trim_items_prefix [of 0 limit est vs] trim_items_prefix [of 0 limit est "rev vs"]
  by (auto simp: section_trimmed_def trim_vector_to_token_limit_def trimmed_prefix_empty)

lemma value_or_optional [simp]:
  "value_or (optional_text s) [] = s" "value_or (optional_list vs) [] = vs"
  by (simp_all add: optional_text_def optional_list_def)


section \<open>A concrete assembly\<close>

definition sample_request :: ContextAssembleRequest where
  "sample_request = \<lparr>req_request_id = ''r1'', req_session_id = ''s'', req_trace_id = ''t'',
     req_stage = ''reasoning'', req_user_turn = ''and now?'', req_goal_summary = ''answer'',
     req_constraints_summary = ''be brief'', req_latest_observation_digest_summary = [],
     req_visible_tools = [''search''], req_token_budget_hint = 20, req_latency_budget_ms = 100,
     req_external_evidence = [''a page''], req_retrieval_evidence_refs = []\<rparr>"

definition sample_context_config :: ContextConfig where
  "sample_context_config = \<lparr>compression_trigger_turns = 12, compression_trigger_ratio = (7, - 3)\<rparr>"

theorem assembled_packet_is_usable_witness:
  "let r = assemble heuristic_estimate_text_tokens sample_context_config (Collected sample_candidates) None
         (allocate heuristic_estimate_text_tokens) 1000 sample_request
   in ok (validate_context_packet_field_rules (res_context_packet r))"
proof -
  have "request_wf sample_request" by (simp add: request_wf_def sample_request_def)
  then show ?thesis
    using assembled_packet_is_usable [of 1000 heuristic_estimate_text_tokens sample_context_config
        "Collected sample_candidates" None "allocate heuristic_estimate_text_tokens" sample_request]
    by (simp add: Let_def)
qed

section \<open>Deviations\<close>

lemmas double_eval = keep_size_for_def to_double_def bit_length.simps scaled_quotient_def
  half_even_def double_times_def truncate_double_def

definition mixed_text :: string where
  "mixed_text = concat (replicate 10 (bytes [228, 184, 128])) @ replicate 100 (CHR ''a'')"

text \<open>
  The kept size is proportional in bytes, not in tokens: a text whose expensive characters come
  first still costs more than the limit after it was trimmed.
\<close>

lemma trimmed_text_exceeds_limit:
  "heuristic_estimate_text_tokens
     (trim_text_to_token_limit heuristic_estimate_text_tokens mixed_text 22) = 29"
proof -
  have "heuristic_estimate_text_tokens mixed_text = 45" "length mixed_text = 130"
    unfolding mixed_text_def by code_simp+
  moreover have "keep_size_for 130 22 45 = 63" by (simp add: double_eval Let_def)
  ultimately have "trim_text_to_token_limit heuristic_estimate_text_tokens mixed_text 22 =
      take 60 mixed_text @ ''...''"
    by (auto simp: trim_text_to_token_limit_def)
  moreover have "heuristic_estimate_text_tokens (take 60 mixed_text @ ''...'') = 29"
    unfolding mixed_text_def by code_simp
  ultimately show ?thesis by simp
qed

text \<open>
  Lists are compared by length: an only item that was cut from 40 characters to 4 is not
  reported as trimmed.
\<close>

lemma cut_item_is_not_reported:
  "trim_vector_to_token_limit heuristic_estimate_text_tokens [replicate 40 (CHR ''a'')] 1 False =
     [''a...''] \<and>
   \<not> shorter_list [replicate 40 (CHR ''a'')] (optional_list [''a...''])"
proof -
  have "heuristic_estimate_text_tokens (replicate 40 (CHR ''a'')) = 10" by code_simp
  moreover have "keep_size_for 40 1 10 = 4" by (simp add: double_eval Let_def)
  ultimately show ?thesis
    by (simp add: trim_vector_to_token_limit_def trim_text_to_token_limit_def shorter_list_def
        optional_list_def numeral_eq_Suc)
qed

text \<open>
  The plan is computed from the candidates alone: the goal, the policy digest, the observation
  and the tools of the request count as no tokens, and the plan is never over budget. The
  warning \<open>token_budget_still_over_limit\<close> cannot occur, however long the goal is.
\<close>

lemma over_budget_is_unreachable:
  assumes "allocate est candidates policy = Some plan" and "s \<in> set (slot_budgets plan)"
    and "slot_name s \<in> {''current_goal_summary'', ''policy_digest'',
      ''latest_observation_digest_summary'', ''active_tools''}"
  shows "\<not> over_budget plan \<and> estimated_tokens s = 0"
proof -
  obtain slots where slots: "compute_slot_budgets est candidates policy = Some slots"
    and plan: "slot_budgets plan = slots"
    using assms(1) by (auto simp: allocate_def Let_def split: option.splits)
  from assms(2) obtain i where i: "i < length slots" "slots ! i = s"
    unfolding plan by (metis in_set_conv_nth)
  note c = computed_slots(1,2) [OF slots]
  have "length slots = length slot_names" using arg_cong [OF c(1), of length] by simp
  moreover have "slot_names ! i = slot_name s" using arg_cong [OF c(1), of "\<lambda>l. l ! i"] i by simp
  ultimately have "estimated_tokens s = estimate_slot_tokens est candidates (slot_name s)"
    using arg_cong [OF c(2), of "\<lambda>l. l ! i"] i by simp
  then show ?thesis
    using assms(3) allocate_plan_ok [OF assms(1)] by (auto simp: estimate_slot_tokens_def plan_ok_def Let_def)
qed

end
