(* ===== verification/Access_Errors.thy ===== *)
theory Access_Errors
  imports Access_Types Contract_Guards Decimal
begin

text \<open>
  The error catalogue of the access layer (\<^verbatim>\<open>access/include/AccessErrors.h\<close>) and its mapping to
  the protocols (\<^verbatim>\<open>access/src/ProtocolErrorMapper.cpp\<close>): numbers, names, domains, retry hints,
  HTTP status, exit code and gRPC status of every code, and of every status of an agent result.
\<close>

section \<open>Codes\<close>

datatype AccessErrorDomain =
    Domain_Unknown | Domain_Validation | Domain_Authentication | Domain_Authorization
  | Domain_Admission | Domain_RuntimeDispatch | Domain_Publish | Domain_Receipt | Domain_Internal

datatype AccessErrorCode =
    AE_ValidationRejected | AE_PayloadTooLarge | AE_UnsupportedProtocol | AE_MalformedInput
  | AE_AuthenticationFailed | AE_AuthenticationChallengeRequired | AE_CredentialExpired
  | AE_AuthorizationDenied | AE_ConfirmationRequired | AE_OverrideSourceInvalid
  | AE_AdmissionRejected | AE_RateLimitExceeded | AE_ConcurrencyLimitExceeded
  | AE_IdempotencyConflict | AE_IdempotencyReplayHit | AE_QueueFull | AE_RuntimeDispatchFailed
  | AE_RuntimeDispatchTimeout | AE_RuntimeBridgeUnavailable | AE_PublishChannelUnavailable
  | AE_PublishTimeout | AE_PublishEncodingFailed | AE_ReceiptNotFound | AE_ReceiptExpired
  | AE_ReceiptOwnerMismatch | AE_CancellationFailed | AE_InternalError | AE_ShuttingDown

fun access_error_value :: "AccessErrorCode \<Rightarrow> int" where
  "access_error_value AE_ValidationRejected = 100"
| "access_error_value AE_PayloadTooLarge = 101"
| "access_error_value AE_UnsupportedProtocol = 102"
| "access_error_value AE_MalformedInput = 103"
| "access_error_value AE_AuthenticationFailed = 200"
| "access_error_value AE_AuthenticationChallengeRequired = 201"
| "access_error_value AE_CredentialExpired = 202"
| "access_error_value AE_AuthorizationDenied = 300"
| "access_error_value AE_ConfirmationRequired = 301"
| "access_error_value AE_OverrideSourceInvalid = 302"
| "access_error_value AE_AdmissionRejected = 400"
| "access_error_value AE_RateLimitExceeded = 401"
| "access_error_value AE_ConcurrencyLimitExceeded = 402"
| "access_error_value AE_IdempotencyConflict = 403"
| "access_error_value AE_IdempotencyReplayHit = 404"
| "access_error_value AE_QueueFull = 405"
| "access_error_value AE_RuntimeDispatchFailed = 500"
| "access_error_value AE_RuntimeDispatchTimeout = 501"
| "access_error_value AE_RuntimeBridgeUnavailable = 502"
| "access_error_value AE_PublishChannelUnavailable = 600"
| "access_error_value AE_PublishTimeout = 601"
| "access_error_value AE_PublishEncodingFailed = 602"
| "access_error_value AE_ReceiptNotFound = 700"
| "access_error_value AE_ReceiptExpired = 701"
| "access_error_value AE_ReceiptOwnerMismatch = 702"
| "access_error_value AE_CancellationFailed = 703"
| "access_error_value AE_InternalError = 900"
| "access_error_value AE_ShuttingDown = 901"

fun access_error_code_name :: "AccessErrorCode \<Rightarrow> string" where
  "access_error_code_name AE_ValidationRejected = ''validation_rejected''"
| "access_error_code_name AE_PayloadTooLarge = ''payload_too_large''"
| "access_error_code_name AE_UnsupportedProtocol = ''unsupported_protocol''"
| "access_error_code_name AE_MalformedInput = ''malformed_input''"
| "access_error_code_name AE_AuthenticationFailed = ''authentication_failed''"
| "access_error_code_name AE_AuthenticationChallengeRequired = ''authentication_challenge_required''"
| "access_error_code_name AE_CredentialExpired = ''credential_expired''"
| "access_error_code_name AE_AuthorizationDenied = ''authorization_denied''"
| "access_error_code_name AE_ConfirmationRequired = ''confirmation_required''"
| "access_error_code_name AE_OverrideSourceInvalid = ''override_source_invalid''"
| "access_error_code_name AE_AdmissionRejected = ''admission_rejected''"
| "access_error_code_name AE_RateLimitExceeded = ''rate_limit_exceeded''"
| "access_error_code_name AE_ConcurrencyLimitExceeded = ''concurrency_limit_exceeded''"
| "access_error_code_name AE_IdempotencyConflict = ''idempotency_conflict''"
| "access_error_code_name AE_IdempotencyReplayHit = ''idempotency_replay_hit''"
| "access_error_code_name AE_QueueFull = ''queue_full''"
| "access_error_code_name AE_RuntimeDispatchFailed = ''runtime_dispatch_failed''"
| "access_error_code_name AE_RuntimeDispatchTimeout = ''runtime_dispatch_timeout''"
| "access_error_code_name AE_RuntimeBridgeUnavailable = ''runtime_bridge_unavailable''"
| "access_error_code_name AE_PublishChannelUnavailable = ''publish_channel_unavailable''"
| "access_error_code_name AE_PublishTimeout = ''publish_timeout''"
| "access_error_code_name AE_PublishEncodingFailed = ''publish_encoding_failed''"
| "access_error_code_name AE_ReceiptNotFound = ''receipt_not_found''"
| "access_error_code_name AE_ReceiptExpired = ''receipt_expired''"
| "access_error_code_name AE_ReceiptOwnerMismatch = ''receipt_owner_mismatch''"
| "access_error_code_name AE_CancellationFailed = ''cancellation_failed''"
| "access_error_code_name AE_InternalError = ''internal_error''"
| "access_error_code_name AE_ShuttingDown = ''shutting_down''"

definition classify_access_error_code_value :: "int \<Rightarrow> AccessErrorDomain" where
  "classify_access_error_code_value raw_code =
     (if 100 \<le> raw_code \<and> raw_code \<le> 199 then Domain_Validation
      else if 200 \<le> raw_code \<and> raw_code \<le> 299 then Domain_Authentication
      else if 300 \<le> raw_code \<and> raw_code \<le> 399 then Domain_Authorization
      else if 400 \<le> raw_code \<and> raw_code \<le> 499 then Domain_Admission
      else if 500 \<le> raw_code \<and> raw_code \<le> 599 then Domain_RuntimeDispatch
      else if 600 \<le> raw_code \<and> raw_code \<le> 699 then Domain_Publish
      else if 700 \<le> raw_code \<and> raw_code \<le> 799 then Domain_Receipt
      else if 900 \<le> raw_code \<and> raw_code \<le> 999 then Domain_Internal
      else Domain_Unknown)"

definition classify_access_error_code :: "AccessErrorCode \<Rightarrow> AccessErrorDomain" where
  "classify_access_error_code code = classify_access_error_code_value (access_error_value code)"

definition is_known_access_error_code :: "int \<Rightarrow> bool" where
  "is_known_access_error_code raw_code \<longleftrightarrow> classify_access_error_code_value raw_code \<noteq> Domain_Unknown"

fun access_error_domain_name :: "AccessErrorDomain \<Rightarrow> string" where
  "access_error_domain_name Domain_Validation = ''validation''"
| "access_error_domain_name Domain_Authentication = ''authentication''"
| "access_error_domain_name Domain_Authorization = ''authorization''"
| "access_error_domain_name Domain_Admission = ''admission''"
| "access_error_domain_name Domain_RuntimeDispatch = ''runtime_dispatch''"
| "access_error_domain_name Domain_Publish = ''publish''"
| "access_error_domain_name Domain_Receipt = ''receipt''"
| "access_error_domain_name Domain_Internal = ''internal''"
| "access_error_domain_name Domain_Unknown = ''unknown''"

record AccessErrorDescriptor =
  ed_domain :: AccessErrorDomain
  ed_retryable :: bool
  ed_default_reason :: string

definition describe_access_error :: "AccessErrorCode \<Rightarrow> AccessErrorDescriptor" where
  "describe_access_error code =
     (let (domain, retry) = (case code of
          AE_ValidationRejected \<Rightarrow> (Domain_Validation, False)
        | AE_PayloadTooLarge \<Rightarrow> (Domain_Validation, False)
        | AE_UnsupportedProtocol \<Rightarrow> (Domain_Validation, False)
        | AE_MalformedInput \<Rightarrow> (Domain_Validation, False)
        | AE_AuthenticationFailed \<Rightarrow> (Domain_Authentication, True)
        | AE_AuthenticationChallengeRequired \<Rightarrow> (Domain_Authentication, True)
        | AE_CredentialExpired \<Rightarrow> (Domain_Authentication, True)
        | AE_AuthorizationDenied \<Rightarrow> (Domain_Authorization, False)
        | AE_ConfirmationRequired \<Rightarrow> (Domain_Authorization, True)
        | AE_OverrideSourceInvalid \<Rightarrow> (Domain_Authorization, False)
        | AE_AdmissionRejected \<Rightarrow> (Domain_Admission, True)
        | AE_RateLimitExceeded \<Rightarrow> (Domain_Admission, True)
        | AE_ConcurrencyLimitExceeded \<Rightarrow> (Domain_Admission, True)
        | AE_IdempotencyConflict \<Rightarrow> (Domain_Admission, True)
        | AE_IdempotencyReplayHit \<Rightarrow> (Domain_Admission, False)
        | AE_QueueFull \<Rightarrow> (Domain_Admission, True)
        | AE_RuntimeDispatchFailed \<Rightarrow> (Domain_RuntimeDispatch, False)
        | AE_RuntimeDispatchTimeout \<Rightarrow> (Domain_RuntimeDispatch, True)
        | AE_RuntimeBridgeUnavailable \<Rightarrow> (Domain_RuntimeDispatch, True)
        | AE_PublishChannelUnavailable \<Rightarrow> (Domain_Publish, True)
        | AE_PublishTimeout \<Rightarrow> (Domain_Publish, True)
        | AE_PublishEncodingFailed \<Rightarrow> (Domain_Publish, False)
        | AE_ReceiptNotFound \<Rightarrow> (Domain_Receipt, False)
        | AE_ReceiptExpired \<Rightarrow> (Domain_Receipt, False)
        | AE_ReceiptOwnerMismatch \<Rightarrow> (Domain_Receipt, False)
        | AE_CancellationFailed \<Rightarrow> (Domain_Receipt, True)
        | AE_InternalError \<Rightarrow> (Domain_Internal, False)
        | AE_ShuttingDown \<Rightarrow> (Domain_Internal, True))
      in \<lparr>ed_domain = domain, ed_retryable = retry,
          ed_default_reason = access_error_code_name code\<rparr>)"

record AccessError =
  ae_code :: AccessErrorCode
  ae_reason :: string
  ae_detail :: string
  ae_retryable :: bool
  ae_upstream_error :: "ErrorInfo option"

definition make_access_error ::
    "AccessErrorCode \<Rightarrow> string \<Rightarrow> ErrorInfo option \<Rightarrow> string \<Rightarrow> AccessError" where
  "make_access_error code detail upstream_error reason_text =
     \<lparr>ae_code = code,
      ae_reason = (if reason_text = [] then ed_default_reason (describe_access_error code) else reason_text),
      ae_detail = detail, ae_retryable = ed_retryable (describe_access_error code),
      ae_upstream_error = upstream_error\<rparr>"

section \<open>Protocols\<close>

record AccessProtocolErrorMapping =
  pm_code :: AccessErrorCode
  http_status :: int
  cli_exit_code :: int
  grpc_status :: string
  http_header_name :: string
  http_header_value :: string
  pm_reason :: string

text \<open>HTTP status, exit code, gRPC status, reason, and the header with its value.\<close>

fun protocol_row :: "AccessErrorCode \<Rightarrow> int \<times> int \<times> string \<times> string \<times> string \<times> string" where
  "protocol_row AE_ValidationRejected =
     (400, 1, ''INVALID_ARGUMENT'',
      ''generic access validation failures stay inside bad-request semantics'', [], [])"
| "protocol_row AE_PayloadTooLarge =
     (413, 1, ''INVALID_ARGUMENT'',
      ''oversized payloads map to payload-too-large semantics'', [], [])"
| "protocol_row AE_UnsupportedProtocol =
     (400, 1, ''INVALID_ARGUMENT'',
      ''unsupported protocol kinds stay inside access validation semantics'', [], [])"
| "protocol_row AE_MalformedInput =
     (400, 1, ''INVALID_ARGUMENT'',
      ''malformed access input stays inside bad-request semantics'', [], [])"
| "protocol_row AE_AuthenticationFailed =
     (401, 77, ''UNAUTHENTICATED'',
      ''authentication failures require an unauthenticated response'', [], [])"
| "protocol_row AE_AuthenticationChallengeRequired =
     (401, 77, ''UNAUTHENTICATED'',
      ''challenge-required responses must carry a WWW-Authenticate hint'', ''WWW-Authenticate'', ''challenge-required'')"
| "protocol_row AE_CredentialExpired =
     (401, 77, ''UNAUTHENTICATED'',
      ''expired credentials stay inside unauthenticated semantics'', [], [])"
| "protocol_row AE_AuthorizationDenied =
     (403, 77, ''PERMISSION_DENIED'',
      ''authorization denials stay inside forbidden semantics'', [], [])"
| "protocol_row AE_ConfirmationRequired =
     (403, 77, ''PERMISSION_DENIED'',
      ''confirmation-required responses must surface an explicit confirmation hint'', ''X-Confirmation-Required'', ''true'')"
| "protocol_row AE_OverrideSourceInvalid =
     (403, 77, ''PERMISSION_DENIED'',
      ''override source violations stay inside forbidden semantics'', [], [])"
| "protocol_row AE_AdmissionRejected =
     (503, 75, ''UNAVAILABLE'',
      ''generic admission rejects are treated as temporary service unavailability'', [], [])"
| "protocol_row AE_RateLimitExceeded =
     (429, 75, ''RESOURCE_EXHAUSTED'',
      ''rate-limit rejects stay inside resource-exhausted semantics'', [], [])"
| "protocol_row AE_ConcurrencyLimitExceeded =
     (429, 75, ''RESOURCE_EXHAUSTED'',
      ''concurrency rejects stay inside resource-exhausted semantics'', [], [])"
| "protocol_row AE_IdempotencyConflict =
     (409, 75, ''ABORTED'',
      ''idempotency conflicts stay inside conflict semantics'', [], [])"
| "protocol_row AE_IdempotencyReplayHit =
     (200, 0, ''OK'',
      ''idempotency replay hits must preserve the prior success semantics'', ''X-Replay-Hit'', ''true'')"
| "protocol_row AE_QueueFull =
     (503, 75, ''UNAVAILABLE'',
      ''queue saturation stays inside temporary unavailability semantics'', [], [])"
| "protocol_row AE_RuntimeDispatchFailed =
     (502, 1, ''INTERNAL'',
      ''runtime dispatch failures stay inside bad-gateway semantics'', [], [])"
| "protocol_row AE_RuntimeDispatchTimeout =
     (504, 75, ''DEADLINE_EXCEEDED'',
      ''runtime dispatch timeouts stay inside deadline-exceeded semantics'', [], [])"
| "protocol_row AE_RuntimeBridgeUnavailable =
     (503, 75, ''UNAVAILABLE'',
      ''runtime bridge unavailability stays inside temporary unavailable semantics'', [], [])"
| "protocol_row AE_PublishChannelUnavailable =
     (502, 1, ''INTERNAL'',
      ''publish channel failures stay inside bad-gateway semantics'', [], [])"
| "protocol_row AE_PublishTimeout =
     (504, 75, ''DEADLINE_EXCEEDED'',
      ''publish timeouts stay inside deadline-exceeded semantics'', [], [])"
| "protocol_row AE_PublishEncodingFailed =
     (500, 1, ''INTERNAL'',
      ''publish encoding failures stay inside internal error semantics'', [], [])"
| "protocol_row AE_ReceiptNotFound =
     (404, 1, ''NOT_FOUND'',
      ''receipt lookups should surface not-found semantics'', [], [])"
| "protocol_row AE_ReceiptExpired =
     (410, 1, ''NOT_FOUND'',
      ''expired receipts should surface gone semantics'', [], [])"
| "protocol_row AE_ReceiptOwnerMismatch =
     (403, 77, ''PERMISSION_DENIED'',
      ''receipt owner mismatches stay inside forbidden semantics'', [], [])"
| "protocol_row AE_CancellationFailed =
     (409, 75, ''ABORTED'',
      ''cancellation failures stay inside conflict/aborted semantics'', [], [])"
| "protocol_row AE_InternalError =
     (500, 1, ''INTERNAL'',
      ''internal access failures stay inside generic internal-error semantics'', [], [])"
| "protocol_row AE_ShuttingDown =
     (503, 75, ''UNAVAILABLE'',
      ''shutdown rejects stay inside temporary unavailable semantics'', [], [])"

definition make_protocol_mapping ::
    "AccessErrorCode \<Rightarrow> int \<times> int \<times> string \<times> string \<times> string \<times> string \<Rightarrow> AccessProtocolErrorMapping" where
  "make_protocol_mapping code row =
     (case row of (http, exit, grpc, reason_text, header_name, header_value) \<Rightarrow>
        \<lparr>pm_code = code, http_status = http, cli_exit_code = exit, grpc_status = grpc,
         http_header_name = header_name, http_header_value = header_value, pm_reason = reason_text\<rparr>)"

definition map_access_error :: "AccessErrorCode \<Rightarrow> AccessProtocolErrorMapping" where
  "map_access_error code = make_protocol_mapping code (protocol_row code)"

definition map_agent_result_to_protocol :: "AgentResult \<Rightarrow> AccessProtocolErrorMapping" where
  "map_agent_result_to_protocol result =
     (case ar_status result of
        None \<Rightarrow> map_access_error AE_InternalError
      | Some Result_Completed \<Rightarrow>
          make_protocol_mapping AE_IdempotencyReplayHit
            (200, 0, ''OK'', ''completed agent result should map to success semantics'', [], [])
      | Some Result_PartiallyCompleted \<Rightarrow>
          make_protocol_mapping AE_PublishTimeout
            (202, 0, ''OK'', ''partially completed result should map to accepted semantics'', [], [])
      | Some Result_Cancelled \<Rightarrow> map_access_error AE_CancellationFailed
      | Some Result_Timeout \<Rightarrow> map_access_error AE_RuntimeDispatchTimeout
      | Some Result_Failed \<Rightarrow> map_access_error AE_RuntimeDispatchFailed
      | Some Result_Unspecified \<Rightarrow> map_access_error AE_InternalError)"

section \<open>The tables agree\<close>

text \<open>
  The number of a code lies in the range of its domain, codes differ in number and name, the
  status is a success exactly for a replay hit, and the class of the status follows the domain.
\<close>

lemma error_domain_agrees: "ed_domain (describe_access_error code) = classify_access_error_code code"
  by (cases code)
    (simp_all add: describe_access_error_def classify_access_error_code_def
      classify_access_error_code_value_def)

lemma error_value_inj: "access_error_value c = access_error_value d \<longleftrightarrow> c = d"
  by (cases c; cases d) simp_all

lemma error_code_known: "is_known_access_error_code (access_error_value code)"
  by (cases code) (simp_all add: is_known_access_error_code_def classify_access_error_code_value_def)

lemma error_status_success:
  "http_status (map_access_error code) < 300 \<longleftrightarrow> code = AE_IdempotencyReplayHit"
  "cli_exit_code (map_access_error code) = 0 \<longleftrightarrow> code = AE_IdempotencyReplayHit"
  by (cases code; simp add: map_access_error_def make_protocol_mapping_def)+

lemma error_status_class:
  "classify_access_error_code code \<in> {Domain_Validation, Domain_Authentication, Domain_Authorization} \<Longrightarrow>
     400 \<le> http_status (map_access_error code) \<and> http_status (map_access_error code) < 500"
  "classify_access_error_code code \<in> {Domain_RuntimeDispatch, Domain_Publish, Domain_Internal} \<Longrightarrow>
     500 \<le> http_status (map_access_error code)"
  by (cases code; simp add: map_access_error_def make_protocol_mapping_def
      classify_access_error_code_def classify_access_error_code_value_def)+

text \<open>A temporary failure to a command line client is a retryable error.\<close>

lemma error_temporary_retryable:
  "cli_exit_code (map_access_error code) = 75 \<Longrightarrow> ed_retryable (describe_access_error code)"
  by (cases code; simp add: map_access_error_def make_protocol_mapping_def describe_access_error_def)

end
