(* ===== verification/Access_Request.thy ===== *)
theory Access_Request
  imports Access_Errors "HOL-Library.List_Lexorder" "HOL-Library.Char_ord"
begin

text \<open>
  From a packet to a request of the runtime and back: the request validator, the normaliser
  with its identifier generator, the guard of the agent request
  (\<^verbatim>\<open>contracts/include/agent/AgentRequestGuards.h\<close>), the runtime bridge and the result publisher
  (\<^verbatim>\<open>access/src/RequestValidator.cpp\<close>, \<^verbatim>\<open>RequestNormalizer.cpp\<close>, \<^verbatim>\<open>AccessIdGenerator.cpp\<close>,
  \<^verbatim>\<open>RuntimeBridge.cpp\<close>, \<^verbatim>\<open>ResultPublisher.cpp\<close>). A \<^verbatim>\<open>std::map\<close> is iterated in the order of its
  keys as byte strings; its model is a map with a finite domain. The dispatch backend is an
  optional function that may throw, which is \<open>None\<close>.
\<close>

section \<open>Guards of the agent request\<close>

definition validate_agent_request_required_fields :: "AgentRequest \<Rightarrow> GuardResult" where
  "validate_agent_request_required_fields r =
     (if \<not> has_non_empty_value (aq_request_id r) then
        fail ''request_id is required and must be non-empty''
      else if \<not> has_non_empty_value (aq_session_id r) then
        fail ''session_id is required and must be non-empty''
      else if \<not> has_non_empty_value (aq_trace_id r) then
        fail ''trace_id is required and must be non-empty''
      else if \<not> has_non_empty_value (user_input r) then
        fail ''user_input is required and must be non-empty''
      else if request_channel r = None \<or> request_channel r = Some Channel_Unspecified then
        fail ''request_channel is required and must not be Unspecified''
      else if (case aq_created_at r of None \<Rightarrow> True | Some t \<Rightarrow> t \<le> 0) then
        fail ''created_at is required and must be a positive timestamp''
      else pass ''all required fields present'')"

text \<open>The range test of the channel has no counterpart: the datatype has no other values.\<close>

definition validate_agent_request_boundary :: "AgentRequest \<Rightarrow> GuardResult" where
  "validate_agent_request_boundary r =
     (let required_result = validate_agent_request_required_fields r
      in if \<not> ok required_result then required_result
         else case deadline_at r of
           None \<Rightarrow> pass ''agent request boundary validation passed''
         | Some d \<Rightarrow>
             if d \<le> 0 then fail ''deadline_at must be a positive timestamp when present''
             else if (case aq_created_at r of None \<Rightarrow> False | Some t \<Rightarrow> d < t) then
               fail ''deadline_at must not be earlier than created_at''
             else pass ''agent request boundary validation passed'')"

definition budget_dimension_problem :: "RuntimeBudget \<Rightarrow> string option" where
  "budget_dimension_problem b =
     (if max_tokens b = Some 0 then Some ''runtime_budget.max_tokens must be positive when present''
      else if max_turns b = Some 0 then Some ''runtime_budget.max_turns must be positive when present''
      else if max_tool_calls b = Some 0 then
        Some ''runtime_budget.max_tool_calls must be positive when present''
      else if max_latency_ms b = Some 0 then
        Some ''runtime_budget.max_latency_ms must be positive when present''
      else if max_replan_count b = Some 0 then
        Some ''runtime_budget.max_replan_count must be positive when present''
      else None)"

definition validate_agent_request_field_rules :: "AgentRequest \<Rightarrow> GuardResult" where
  "validate_agent_request_field_rules r =
     (let boundary_result = validate_agent_request_boundary r
      in if \<not> ok boundary_result then boundary_result
         else if present_but_empty (goal_hint r) then fail ''goal_hint must be non-empty when present''
         else if present_but_empty (domain_context r) then
           fail ''domain_context must be non-empty when present''
         else if present_but_empty (constraint_set r) then
           fail ''constraint_set must be non-empty when present''
         else if present_but_empty (approval_policy_hint r) then
           fail ''approval_policy_hint must be non-empty when present''
         else if present_but_empty (aq_idempotency_key r) then
           fail ''idempotency_key must be non-empty when present''
         else if present_but_empty (request_locale r) then fail ''locale must be non-empty when present''
         else if present_but_empty (client_capabilities r) then
           fail ''client_capabilities must be non-empty when present''
         else if aq_timeout_ms r = Some 0 then fail ''timeout_ms must be positive when present''
         else if aq_priority r = Some 0 then fail ''priority must be positive when present''
         else if aq_tags r = Some [] then fail ''tags must contain at least one item when present''
         else if (case aq_tags r of None \<Rightarrow> False | Some tags \<Rightarrow> [] \<in> set tags) then
           fail ''tags must not contain empty strings''
         else case (case aq_runtime_budget r of None \<Rightarrow> None | Some b \<Rightarrow> budget_dimension_problem b) of
           Some why \<Rightarrow> fail why
         | None \<Rightarrow> pass ''agent request field rules validation passed'')"

section \<open>The validator\<close>

record AccessPublishView =
  result_replay_ttl_ms :: int
  stream_heartbeat_ms :: int
  slow_consumer_max_buffer :: int
  drain_timeout_ms :: int
  max_payload_bytes :: int
  max_user_input_bytes :: int
  cors_allowed_origins :: "string list"

record RequestValidator =
  rvd_publish_view :: AccessPublishView
  allowed_protocols :: "string list"

definition contains_newline_or_cr :: "string \<Rightarrow> bool" where
  "contains_newline_or_cr v \<longleftrightarrow> CHR 0x0A \<in> set v \<or> CHR 0x0D \<in> set v"

definition is_header_key_char :: "char \<Rightarrow> bool" where
  "is_header_key_char c \<longleftrightarrow>
     (let n = (of_char c :: nat)
      in 48 \<le> n \<and> n \<le> 57 \<or> 65 \<le> n \<and> n \<le> 90 \<or> 97 \<le> n \<and> n \<le> 122) \<or>
     c = CHR ''-'' \<or> c = CHR ''_'' \<or> c = CHR ''.''"

definition is_allowed_protocol :: "RequestValidator \<Rightarrow> string \<Rightarrow> bool" where
  "is_allowed_protocol v protocol \<longleftrightarrow>
     protocol \<noteq> [] \<and> (allowed_protocols v = [] \<or> protocol \<in> set (allowed_protocols v))"

text \<open>The error of one entry of the context, and the first one in the order of the keys.\<close>

definition entry_error :: "string \<Rightarrow> string \<Rightarrow> AccessError option" where
  "entry_error key v =
     (if key = [] then
        Some (make_access_error AE_MalformedInput ''request_context key must be non-empty'' None
          ''malformed_request_context_key'')
      else if 128 < length key \<or> 4096 < length v then
        Some (make_access_error AE_MalformedInput ''request_context key/value exceeds max length'' None
          ''request_context_too_large'')
      else if contains_newline_or_cr key \<or> contains_newline_or_cr v then
        Some (make_access_error AE_MalformedInput ''request_context key/value contains CRLF characters'' None
          ''request_context_header_injection_detected'')
      else if \<not> list_all is_header_key_char key then
        Some (make_access_error AE_MalformedInput ''request_context key contains unsupported characters'' None
          ''request_context_key_charset_invalid'')
      else None)"

fun first_entry_error :: "(string \<rightharpoonup> string) \<Rightarrow> string list \<Rightarrow> AccessError option" where
  "first_entry_error context [] = None"
| "first_entry_error context (key # keys) =
     (case entry_error key (the (context key)) of
        Some e \<Rightarrow> Some e
      | None \<Rightarrow> first_entry_error context keys)"

definition context_keys :: "(string \<rightharpoonup> string) \<Rightarrow> string list" where
  "context_keys context = sorted_list_of_set (dom context)"

definition validate_headers :: "RuntimeDispatchRequest \<Rightarrow> AccessError option" where
  "validate_headers request =
     first_entry_error (request_context request) (context_keys (request_context request))"

definition validate_payload_limits :: "RequestValidator \<Rightarrow> RuntimeDispatchRequest \<Rightarrow> AccessError option" where
  "validate_payload_limits v request =
     (let view = rvd_publish_view v
      in if 0 < max_payload_bytes view \<and>
            max_payload_bytes view < int (length (ip_payload (dispatch_packet request))) then
           Some (make_access_error AE_PayloadTooLarge ''payload exceeds max_payload_bytes'' None
             ''payload_size_limit_exceeded'')
         else case request_context request ''user_input'' of
           Some input \<Rightarrow>
             if 0 < max_user_input_bytes view \<and> max_user_input_bytes view < int (length input) then
               Some (make_access_error AE_PayloadTooLarge ''user_input exceeds max_user_input_bytes'' None
                 ''user_input_size_limit_exceeded'')
             else None
         | None \<Rightarrow> None)"

text \<open>The error of a rejected packet, \<open>None\<close> for an accepted one.\<close>

definition validate_packet :: "RequestValidator \<Rightarrow> RuntimeDispatchRequest \<Rightarrow> AccessError option" where
  "validate_packet v request =
     (let packet = dispatch_packet request
      in if packet_id packet = [] \<or> entry_type packet = [] \<or> ip_protocol_kind packet = [] then
           Some (make_access_error AE_ValidationRejected
             ''packet_id/entry_type/protocol_kind must be non-empty'' None ''missing_required_packet_metadata'')
         else if actor_ref (subject_identity request) = [] then
           Some (make_access_error AE_ValidationRejected ''subject actor_ref must be non-empty'' None
             ''missing_subject_actor_ref'')
         else if \<not> is_allowed_protocol v (ip_protocol_kind packet) then
           Some (make_access_error AE_UnsupportedProtocol
             ''protocol_kind is not in access allowed protocol set'' None ''unsupported_protocol_kind'')
         else case validate_payload_limits v request of
           Some e \<Rightarrow> Some e
         | None \<Rightarrow> validate_headers request)"

section \<open>The normaliser\<close>

datatype AccessEntryKind = Entry_Unknown | Entry_Cli | Entry_Gateway | Entry_Daemon | Entry_Simulator

definition parse_access_entry_kind :: "string \<Rightarrow> AccessEntryKind" where
  "parse_access_entry_kind v =
     (if v = ''cli'' then Entry_Cli
      else if v = ''gateway'' then Entry_Gateway
      else if v = ''daemon'' then Entry_Daemon
      else if v = ''simulator'' then Entry_Simulator
      else Entry_Unknown)"

definition map_request_channel :: "string \<Rightarrow> RequestChannel" where
  "map_request_channel entry =
     (case parse_access_entry_kind entry of
        Entry_Cli \<Rightarrow> Channel_Cli
      | Entry_Gateway \<Rightarrow> Channel_Gateway
      | Entry_Daemon \<Rightarrow> Channel_Daemon
      | Entry_Simulator \<Rightarrow> Channel_Simulator
      | Entry_Unknown \<Rightarrow> Channel_Unspecified)"

definition context_value :: "RuntimeDispatchRequest \<Rightarrow> string \<Rightarrow> string option" where
  "context_value request key =
     (case request_context request key of
        None \<Rightarrow> None
      | Some v \<Rightarrow> if v = [] then None else Some v)"

definition generate_id :: "string \<Rightarrow> RuntimeDispatchRequest \<Rightarrow> nat \<Rightarrow> string" where
  "generate_id prefix_text request ordinal =
     prefix_text @ '':'' @ entry_type (dispatch_packet request) @ '':'' @
     packet_id (dispatch_packet request) @ '':'' @ to_string_nat ordinal"

record TraceIdentityBundle =
  ids_request_id :: string
  ids_session_id :: string
  ids_trace_id :: string

definition ensure_trace_ids :: "RuntimeDispatchRequest \<Rightarrow> TraceIdentityBundle" where
  "ensure_trace_ids request =
     \<lparr>ids_request_id = value_or (context_value request ''request_id'') (generate_id ''req'' request 1),
      ids_session_id = value_or (context_value request ''session_id'') (generate_id ''sess'' request 2),
      ids_trace_id = value_or (context_value request ''trace_id'') (generate_id ''trace'' request 3)\<rparr>"

text \<open>
  \<^verbatim>\<open>std::stoll\<close>: white space, a sign and the longest prefix of digits; \<open>None\<close> is a throw.
\<close>

definition stoll :: "string \<Rightarrow> int option" where
  "stoll s =
     (let body = dropWhile isspace s;
          negative = (body \<noteq> [] \<and> hd body = CHR ''-'');
          body = (if body \<noteq> [] \<and> hd body \<in> {CHR ''-'', CHR ''+''} then tl body else body);
          digits = takeWhile (\<lambda>c. digit_value c \<noteq> None) body;
          v = int (the (digits_value 0 digits));
          v = (if negative then - v else v)
      in if digits = [] \<or> \<not> is_i64 v then None else Some v)"

record AccessBootstrapConfig =
  bootstrap_revision :: string
  bc_allowed_protocols :: "string list"
  bc_dispatch_deadline_ms :: int

definition requested_deadline :: "RuntimeDispatchRequest \<Rightarrow> int \<Rightarrow> int option" where
  "requested_deadline request now_ms =
     (let parsed =
            (if has_non_empty_value (access_deadline request)
             then stoll (the (access_deadline request)) else None)
      in case parsed of
           Some d \<Rightarrow> Some d
         | None \<Rightarrow>
             (case ip_deadline_ms (dispatch_packet request) of
                None \<Rightarrow> None
              | Some ms \<Rightarrow> if 0 < ms then Some (now_ms + ms) else None))"

definition project_agent_request ::
    "AccessBootstrapConfig \<Rightarrow> RuntimeDispatchRequest \<Rightarrow> TraceIdentityBundle \<Rightarrow> int \<Rightarrow> AgentRequest" where
  "project_agent_request config request ids now_ms =
     empty_agent_request
       \<lparr>aq_request_id := Some (ids_request_id ids), aq_session_id := Some (ids_session_id ids),
        aq_trace_id := Some (ids_trace_id ids),
        user_input := Some (ip_payload (dispatch_packet request)),
        request_channel := Some (map_request_channel (entry_type (dispatch_packet request))),
        aq_created_at := Some now_ms, goal_hint := context_value request ''goal_hint'',
        domain_context := context_value request ''domain_context'',
        constraint_set := context_value request ''constraint_set'',
        approval_policy_hint := context_value request ''approval_policy_hint'',
        aq_idempotency_key := context_value request ''idempotency_key'',
        request_locale := context_value request ''locale'',
        client_capabilities :=
          (if client_capability_view request = [] then None else Some (client_capability_view request)),
        deadline_at := requested_deadline request now_ms,
        aq_timeout_ms :=
          (if requested_deadline request now_ms = None \<and> 0 < bc_dispatch_deadline_ms config
           then Some (word_of_int (bc_dispatch_deadline_ms config)) else None)\<rparr>"

definition build_publish_context :: "RuntimeDispatchRequest \<Rightarrow> TraceIdentityBundle \<Rightarrow> PublishEnvelope" where
  "build_publish_context request ids =
     \<lparr>pe_request_id = ids_request_id ids, pe_result_id = ''pending-result:'' @ ids_request_id ids,
      pe_session_id = ids_session_id ids, pe_trace_id = ids_trace_id ids,
      channel_ref = entry_type (dispatch_packet request) @ ''://'' @ ip_protocol_kind (dispatch_packet request),
      protocol_kind = ip_protocol_kind (dispatch_packet request), pe_agent_result = None,
      protocol_status_hint = ''202 Accepted'', protocol_metadata = ''normalizer_seed'',
      is_final = False, pe_payload = [], pe_receipt = None\<rparr>"

record RequestNormalizationOutput =
  nz_runtime_request :: RuntimeDispatchRequest
  nz_publish_context :: PublishEnvelope
  nz_agent_request :: AgentRequest

definition normalize ::
    "AccessBootstrapConfig \<Rightarrow> RuntimeDispatchRequest \<Rightarrow> int \<Rightarrow> AccessError + RequestNormalizationOutput" where
  "normalize config request now_ms =
     (let packet = dispatch_packet request
      in if packet_id packet = [] \<or> entry_type packet = [] \<or> ip_protocol_kind packet = [] then
           Inl (make_access_error AE_ValidationRejected
             ''request normalizer requires packet_id/entry_type/protocol_kind'' None
             ''normalizer_missing_packet_metadata'')
         else if actor_ref (subject_identity request) = [] then
           Inl (make_access_error AE_ValidationRejected ''request normalizer requires non-empty actor_ref'' None
             ''normalizer_missing_subject_actor_ref'')
         else
           let ids = ensure_trace_ids request;
               projected = project_agent_request config request ids now_ms;
               context = (request_context request)
                 (''request_id'' \<mapsto> ids_request_id ids, ''session_id'' \<mapsto> ids_session_id ids,
                  ''trace_id'' \<mapsto> ids_trace_id ids);
               context =
                 (case context_value request ''constraint_set'' of
                    None \<Rightarrow> context
                  | Some v \<Rightarrow> context(''constraint_set'' \<mapsto> v));
               context = context(''normalizer_ready'' \<mapsto> ''true'')
           in Inr
             \<lparr>nz_runtime_request = request\<lparr>agent_request := projected, request_context := context\<rparr>,
              nz_publish_context = build_publish_context request ids, nz_agent_request = projected\<rparr>)"

section \<open>The runtime bridge\<close>

definition agent_request_value :: "RuntimeDispatchRequest \<Rightarrow> string \<Rightarrow> string option" where
  "agent_request_value request key =
     (let r = agent_request request
      in if key = ''request_id'' \<and> has_non_empty_value (aq_request_id r) then aq_request_id r
         else if key = ''session_id'' \<and> has_non_empty_value (aq_session_id r) then aq_session_id r
         else if key = ''trace_id'' \<and> has_non_empty_value (aq_trace_id r) then aq_trace_id r
         else if key = ''idempotency_key'' \<and> has_non_empty_value (aq_idempotency_key r) then
           aq_idempotency_key r
         else None)"

definition bridge_context_value :: "RuntimeDispatchRequest \<Rightarrow> string \<Rightarrow> string option" where
  "bridge_context_value request key =
     (case agent_request_value request key of
        Some v \<Rightarrow> Some v
      | None \<Rightarrow> context_value request key)"

definition error_code_entry :: "AccessErrorCode \<Rightarrow> string \<rightharpoonup> string" where
  "error_code_entry code = [''error_code'' \<mapsto> to_string_int (access_error_value code)]"

definition rejected_with :: "string \<Rightarrow> (string \<rightharpoonup> string) \<Rightarrow> RuntimeDispatchResult" where
  "rejected_with why context =
     \<lparr>rd_disposition = Access_Rejected, publish_envelope = None, rd_receipt_ref = None,
      subscription_ref = None, rd_error_ref = Some why, response_context = context\<rparr>"

definition map_runtime_reject :: "AccessErrorCode \<Rightarrow> string \<Rightarrow> string \<Rightarrow> RuntimeDispatchResult" where
  "map_runtime_reject code why detail =
     rejected_with why ((error_code_entry code)(''error_detail'' \<mapsto> detail))"

definition put_when :: "string \<Rightarrow> string option \<Rightarrow> (string \<rightharpoonup> string) \<Rightarrow> string \<rightharpoonup> string" where
  "put_when key v context = (case v of None \<Rightarrow> context | Some x \<Rightarrow> context(key \<mapsto> x))"

definition map_runtime_result ::
    "RuntimeDispatchRequest \<Rightarrow> RuntimeDispatchResult \<Rightarrow> RuntimeDispatchResult" where
  "map_runtime_result request backend_result =
     (let context =
            put_when ''trace_id'' (agent_request_value request ''trace_id'')
             (put_when ''session_id'' (agent_request_value request ''session_id'')
              (put_when ''request_id'' (agent_request_value request ''request_id'')
                (response_context backend_result)));
          mapped = backend_result\<lparr>response_context := context\<rparr>
      in if rd_disposition mapped = Access_AcceptedAsync \<and> rd_receipt_ref mapped = None then
           mapped\<lparr>rd_receipt_ref := Some (''receipt:'' @
             value_or (agent_request_value request ''request_id'') (packet_id (dispatch_packet request)))\<rparr>
         else mapped)"

type_synonym dispatch_backend = "RuntimeDispatchRequest \<Rightarrow> RuntimeDispatchResult option"
type_synonym cancel_backend = "string \<Rightarrow> string \<Rightarrow> bool"

text \<open>The reject before the backend is called, if there is one.\<close>

definition dispatch_reject :: "dispatch_backend option \<Rightarrow> RuntimeDispatchRequest \<Rightarrow> RuntimeDispatchResult option" where
  "dispatch_reject backend_opt request =
     (let guard_result = validate_agent_request_field_rules (agent_request request)
      in if bridge_context_value request ''normalizer_ready'' \<noteq> Some ''true'' then
           Some (map_runtime_reject AE_ValidationRejected ''runtime bridge requires normalizer_ready=true''
             ''normalizer gate is not satisfied'')
         else if proof_decision (decision_proof request) \<noteq> ''Allow'' then
           Some (map_runtime_reject AE_AuthorizationDenied
             ''runtime bridge only dispatches Allow decision requests'' ''decision_proof is not allow'')
         else if \<not> ok guard_result then
           Some (map_runtime_reject AE_ValidationRejected
             ''runtime bridge requires valid public AgentRequest handoff''
             (if reason guard_result = [] then ''agent_request field guard failed'' else reason guard_result))
         else if backend_opt = None then
           Some (map_runtime_reject AE_RuntimeBridgeUnavailable
             ''runtime bridge backend is not configured'' ''dispatch backend is empty'')
         else None)"

text \<open>The result, \<open>None\<close> for a throw of the backend, and the requests the backend received.\<close>

definition dispatch ::
    "dispatch_backend option \<Rightarrow> RuntimeDispatchRequest \<Rightarrow>
     RuntimeDispatchResult option \<times> RuntimeDispatchRequest list" where
  "dispatch backend_opt request =
     (case dispatch_reject backend_opt request of
        Some rejected \<Rightarrow> (Some rejected, [])
      | None \<Rightarrow> (map_option (map_runtime_result request) (the backend_opt request), [request]))"

definition bridge_cancel :: "cancel_backend option \<Rightarrow> cancel_backend" where
  "bridge_cancel backend_opt request_id actor =
     (case backend_opt of
        None \<Rightarrow> False
      | Some cancel \<Rightarrow> request_id \<noteq> [] \<and> actor \<noteq> [] \<and> cancel request_id actor)"

section \<open>The result publisher\<close>

definition build_envelope :: "RuntimeDispatchRequest \<Rightarrow> AgentResult \<Rightarrow> PublishEnvelope" where
  "build_envelope request result =
     (let request_id = value_or (context_value request ''request_id'') (packet_id (dispatch_packet request));
          projection = map_agent_result_to_protocol result
      in \<lparr>pe_request_id = request_id,
          pe_result_id = value_or (result_id result) (''result:'' @ request_id),
          pe_session_id = value_or (context_value request ''session_id'') (''session:'' @ request_id),
          pe_trace_id = value_or (context_value request ''trace_id'') (''trace:'' @ request_id),
          channel_ref =
            entry_type (dispatch_packet request) @ ''://'' @ ip_protocol_kind (dispatch_packet request),
          protocol_kind = ip_protocol_kind (dispatch_packet request), pe_agent_result = Some result,
          protocol_status_hint = to_string_int (http_status projection),
          protocol_metadata = grpc_status projection,
          is_final = (ar_status result = Some Result_Completed \<or> task_completed result = Some True),
          pe_payload = value_or (response_text result) [], pe_receipt = None\<rparr>)"

record PublishAttemptResult =
  published :: bool
  pa_envelope :: PublishEnvelope
  pa_error :: "AccessError option"

definition publish_attempt ::
    "(PublishEnvelope \<Rightarrow> bool) option \<Rightarrow> RuntimeDispatchRequest \<Rightarrow> AgentResult \<Rightarrow> PublishAttemptResult" where
  "publish_attempt emit_opt request result =
     (let envelope = build_envelope request result;
          emitted = (case emit_opt of None \<Rightarrow> False | Some emit \<Rightarrow> emit envelope)
      in \<lparr>published = emitted, pa_envelope = envelope,
          pa_error =
            (if emitted then None
             else Some (make_access_error AE_PublishChannelUnavailable
               ''result publisher failed to emit publish envelope'' None ''publish_channel_unavailable''))\<rparr>)"

section \<open>Normalised requests\<close>

lemma context_value_nonempty: "context_value request key = Some v \<Longrightarrow> v \<noteq> []"
  by (auto simp: context_value_def split: option.splits if_splits)

lemma context_value_present [simp]: "\<not> present_but_empty (context_value request key)"
  using context_value_nonempty by (fastforce simp: present_but_empty_def)

lemma trace_ids_nonempty [simp]:
  "ids_request_id (ensure_trace_ids request) \<noteq> []" "ids_session_id (ensure_trace_ids request) \<noteq> []"
  "ids_trace_id (ensure_trace_ids request) \<noteq> []"
proof -
  have "value_or (context_value request key) (generate_id p request n) \<noteq> []" for key p n
    by (cases "context_value request key") (auto simp: generate_id_def dest: context_value_nonempty)
  then show "ids_request_id (ensure_trace_ids request) \<noteq> []" "ids_session_id (ensure_trace_ids request) \<noteq> []"
    "ids_trace_id (ensure_trace_ids request) \<noteq> []"
    by (simp_all add: ensure_trace_ids_def)
qed

lemma known_channel: "map_request_channel entry \<noteq> Channel_Unspecified \<longleftrightarrow>
    entry \<in> {''cli'', ''gateway'', ''daemon'', ''simulator''}"
  by (simp add: map_request_channel_def parse_access_entry_kind_def)

lemma requested_deadline_unset:
  "access_deadline request = None \<Longrightarrow>
     requested_deadline request now_ms = Some d \<Longrightarrow> now_ms < d"
  by (auto simp: requested_deadline_def has_non_empty_value_def split: option.splits if_splits)

lemma positive_timeout:
  assumes "0 < ms" "ms < 2 ^ 31" shows "(word_of_int ms :: u32) \<noteq> 0"
proof -
  have "\<not> (2 ^ 32 dvd ms)" using assms by (auto dest: zdvd_imp_le)
  then show ?thesis by (simp add: word_of_int_eq_0_iff)
qed

text \<open>
  A normalised request passes the guard of the bridge exactly when its payload is not empty and
  its entry is one of the four known ones; every other rule holds by construction.
\<close>

lemma normalized_guard:
  assumes "normalize config request now_ms = Inr out" and "0 < now_ms"
    and "access_deadline request = None" and "bc_dispatch_deadline_ms config < 2 ^ 31"
  shows "ok (validate_agent_request_field_rules (agent_request (nz_runtime_request out))) \<longleftrightarrow>
    ip_payload (dispatch_packet request) \<noteq> [] \<and>
    entry_type (dispatch_packet request) \<in> {''cli'', ''gateway'', ''daemon'', ''simulator''}"
proof -
  define projected where "projected = project_agent_request config request (ensure_trace_ids request) now_ms"
  have out: "agent_request (nz_runtime_request out) = projected"
    using assms(1) by (auto simp: normalize_def projected_def Let_def split: if_splits option.splits)
  have timeout: "aq_timeout_ms projected \<noteq> Some 0"
    using positive_timeout assms(4) by (auto simp: projected_def project_agent_request_def)
  have deadline: "deadline_at projected = Some d \<Longrightarrow> now_ms < d" for d
    using requested_deadline_unset [OF assms(3)] by (simp add: projected_def project_agent_request_def)
  have required: "ok (validate_agent_request_required_fields projected) \<longleftrightarrow>
      ip_payload (dispatch_packet request) \<noteq> [] \<and>
      entry_type (dispatch_packet request) \<in> {''cli'', ''gateway'', ''daemon'', ''simulator''}"
    using assms(2) known_channel [of "entry_type (dispatch_packet request)"]
    by (auto simp: validate_agent_request_required_fields_def projected_def project_agent_request_def
        has_non_empty_value_def)
  have created: "aq_created_at projected = Some now_ms"
    by (simp add: projected_def project_agent_request_def)
  have boundary: "ok (validate_agent_request_boundary projected) \<longleftrightarrow>
      ok (validate_agent_request_required_fields projected)"
    using deadline assms(2) created
    by (cases "deadline_at projected") (force simp: validate_agent_request_boundary_def Let_def)+
  have rest: "\<not> present_but_empty (goal_hint projected)" "\<not> present_but_empty (domain_context projected)"
    "\<not> present_but_empty (constraint_set projected)" "\<not> present_but_empty (approval_policy_hint projected)"
    "\<not> present_but_empty (aq_idempotency_key projected)" "\<not> present_but_empty (request_locale projected)"
    "\<not> present_but_empty (client_capabilities projected)" "aq_priority projected = None"
    "aq_tags projected = None" "aq_runtime_budget projected = None"
    by (simp_all add: projected_def project_agent_request_def empty_agent_request_def,
        simp_all add: present_but_empty_def)
  show ?thesis unfolding out validate_agent_request_field_rules_def Let_def
    using timeout rest boundary required by simp
qed

end
