(* ===== verification/Access_Subject.thy ===== *)
theory Access_Subject
  imports Access_Errors
begin

text \<open>
  Who sends a request: the facts about the peer that the submit pipelines read from a packet
  (\<^verbatim>\<open>access/src/AccessGatewayFactory.cpp\<close>), the subject resolver
  (\<^verbatim>\<open>access/src/SubjectResolver.cpp\<close>) and the authenticator chain
  (\<^verbatim>\<open>access/src/AuthenticatorChain.cpp\<close>). At the end both are composed: a packet of the
  daemon is authenticated exactly for a local peer on the allow list.
\<close>

section \<open>Facts about the peer\<close>

record LocalPeerUidFact =
  lp_actor_ref :: string
  peer_uid :: u32
  peer_gid :: u32
  peer_pid :: u32
  is_local_socket_peer :: bool
  eligible_for_local_trusted :: bool

definition empty_local_peer :: LocalPeerUidFact where
  "empty_local_peer = \<lparr>lp_actor_ref = [], peer_uid = 0, peer_gid = 0, peer_pid = 0,
     is_local_socket_peer = False, eligible_for_local_trusted = False\<rparr>"

record PeerMetadata =
  certificate_subject :: "string option"
  jwt_actor_ref :: "string option"
  token_actor_ref :: "string option"
  simulator_actor_ref :: "string option"
  pm_tenant_ref :: "string option"
  device_ref :: "string option"
  local_peer :: LocalPeerUidFact

definition empty_peer_metadata :: PeerMetadata where
  "empty_peer_metadata = \<lparr>certificate_subject = None, jwt_actor_ref = None, token_actor_ref = None,
     simulator_actor_ref = None, pm_tenant_ref = None, device_ref = None, local_peer = empty_local_peer\<rparr>"

definition starts_with :: "string \<Rightarrow> string \<Rightarrow> bool" where
  "starts_with p s \<longleftrightarrow> take (length p) s = p"

text \<open>
  \<^verbatim>\<open>std::from_chars\<close> for \<^verbatim>\<open>std::uint32_t\<close>: the longest prefix of digits, an error when it is
  empty or its value out of range. What follows the digits is not looked at.
\<close>

definition from_chars_u32 :: "string \<Rightarrow> u32 option" where
  "from_chars_u32 s =
     (let digits = takeWhile (\<lambda>c. digit_value c \<noteq> None) s
      in if digits = [] then None
         else if the (digits_value 0 digits) < 2 ^ 32
         then Some (word_of_nat (the (digits_value 0 digits))) else None)"

definition uid_actor_ref :: "u32 \<Rightarrow> string" where
  "uid_actor_ref uid = ''local://uid/'' @ to_string_nat (unat uid)"

definition parse_local_peer_fact :: "InboundPacket \<Rightarrow> LocalPeerUidFact" where
  "parse_local_peer_fact packet =
     (if \<not> starts_with ''local_trusted:'' (peer_ref packet) then empty_local_peer
      else
        let peer_fact = empty_local_peer\<lparr>is_local_socket_peer := True, eligible_for_local_trusted := True\<rparr>
        in case from_chars_u32 (drop (length ''local_trusted:'') (peer_ref packet)) of
             None \<Rightarrow> peer_fact\<lparr>eligible_for_local_trusted := False\<rparr>
           | Some uid \<Rightarrow> peer_fact\<lparr>peer_uid := uid, lp_actor_ref := uid_actor_ref uid\<rparr>)"

definition parse_gateway_peer_metadata :: "InboundPacket \<Rightarrow> PeerMetadata" where
  "parse_gateway_peer_metadata packet =
     (let rest = (\<lambda>p. drop (length p) (peer_ref packet))
      in if starts_with ''jwt:'' (peer_ref packet) then
           empty_peer_metadata\<lparr>jwt_actor_ref := Some (rest ''jwt:'')\<rparr>
         else if starts_with ''token:'' (peer_ref packet) then
           empty_peer_metadata\<lparr>token_actor_ref := Some (rest ''token:'')\<rparr>
         else if starts_with ''mtls:'' (peer_ref packet) then
           empty_peer_metadata\<lparr>certificate_subject := Some (rest ''mtls:'')\<rparr>
         else if starts_with ''simulator:'' (peer_ref packet) then
           empty_peer_metadata\<lparr>simulator_actor_ref := Some (rest ''simulator:'')\<rparr>
         else empty_peer_metadata)"

section \<open>The resolver\<close>

record ResolverView =
  rv_trusted_local_subjects :: "string list"
  rv_strict_auth_required :: bool
  allow_remote_challenge :: bool

record ChallengePlan =
  cp_challenge_type :: string
  cp_reason_code :: string
  cp_detail :: string

definition plan_has_consistent_values :: "ChallengePlan \<Rightarrow> bool" where
  "plan_has_consistent_values plan \<longleftrightarrow> cp_challenge_type plan \<noteq> [] \<and> cp_reason_code plan \<noteq> []"

record SubjectResolveOutcome =
  so_resolved :: bool
  so_rejected :: bool
  so_channel_ref :: string
  so_subject_identity :: SubjectIdentity
  challenge_plan :: "ChallengePlan option"
  so_reject_reason :: "string option"

definition subject_requires_challenge :: "SubjectResolveOutcome \<Rightarrow> bool" where
  "subject_requires_challenge outcome \<longleftrightarrow>
     \<not> so_resolved outcome \<and> \<not> so_rejected outcome \<and>
     (case challenge_plan outcome of None \<Rightarrow> False | Some plan \<Rightarrow> plan_has_consistent_values plan)"

definition no_subject :: SubjectIdentity where
  "no_subject = \<lparr>actor_ref = [], subject_type = [], auth_method = [], trust_level = [],
     tenant_ref = [], auth_metadata = None\<rparr>"

definition is_local_entry_type :: "string \<Rightarrow> bool" where
  "is_local_entry_type entry \<longleftrightarrow> entry = ''cli'' \<or> entry = ''daemon''"

definition is_daemon_entry_type :: "string \<Rightarrow> bool" where
  "is_daemon_entry_type entry \<longleftrightarrow> entry = ''daemon''"

definition stable_value_or_unknown :: "string \<Rightarrow> string" where
  "stable_value_or_unknown v = (if v = [] then ''unknown'' else v)"

definition local_actor_ref_from_fact :: "LocalPeerUidFact \<Rightarrow> string" where
  "local_actor_ref_from_fact peer_fact =
     (if lp_actor_ref peer_fact \<noteq> [] then lp_actor_ref peer_fact else uid_actor_ref (peer_uid peer_fact))"

record SubjectHint =
  hint_actor_ref :: string
  hint_auth_method :: string
  hint_subject_type :: string
  hint_auth_metadata :: "string option"

definition make_identity :: "SubjectHint \<Rightarrow> PeerMetadata \<Rightarrow> SubjectIdentity" where
  "make_identity hint metadata =
     \<lparr>actor_ref = hint_actor_ref hint, subject_type = hint_subject_type hint,
      auth_method = hint_auth_method hint, trust_level = ''authenticated'',
      tenant_ref = value_or (pm_tenant_ref metadata) ''default'',
      auth_metadata = hint_auth_metadata hint\<rparr>"

definition hint_when ::
    "string option \<Rightarrow> string \<Rightarrow> string \<Rightarrow> string \<Rightarrow> string option \<Rightarrow> SubjectHint list" where
  "hint_when v prefix_text method kind metadata =
     (if has_non_empty_value v then
        [\<lparr>hint_actor_ref = prefix_text @ the v, hint_auth_method = method, hint_subject_type = kind,
          hint_auth_metadata = metadata\<rparr>]
      else [])"

definition collect_subject_hints :: "PeerMetadata \<Rightarrow> SubjectHint list" where
  "collect_subject_hints metadata =
     hint_when (certificate_subject metadata) ''mtls://'' ''mTLS'' ''service''
       (certificate_subject metadata) @
     hint_when (jwt_actor_ref metadata) [] ''JWT'' ''user'' None @
     hint_when (token_actor_ref metadata) [] ''token'' ''user'' None @
     hint_when (simulator_actor_ref metadata) [] ''simulator_stub'' ''diagnostic_endpoint'' None"

definition derive_channel_ref :: "InboundPacket \<Rightarrow> string" where
  "derive_channel_ref packet =
     ''channel://'' @ stable_value_or_unknown (entry_type packet) @ ''/'' @
     stable_value_or_unknown (ip_protocol_kind packet)"

definition derive_local_subject ::
    "InboundPacket \<Rightarrow> PeerMetadata \<Rightarrow> ResolverView \<Rightarrow> SubjectIdentity option" where
  "derive_local_subject packet metadata view =
     (let peer_fact = local_peer metadata; actor = local_actor_ref_from_fact peer_fact
      in if \<not> is_local_entry_type (entry_type packet) then None
         else if \<not> is_local_socket_peer peer_fact \<or> \<not> eligible_for_local_trusted peer_fact then None
         else if rv_trusted_local_subjects view = [] \<or> actor \<notin> set (rv_trusted_local_subjects view)
         then None
         else Some
           \<lparr>actor_ref = actor, subject_type = ''operator'', auth_method = ''local_trusted'',
            trust_level = ''trusted'', tenant_ref = value_or (pm_tenant_ref metadata) ''local'',
            auth_metadata = Some (''peer_uid='' @ to_string_nat (unat (peer_uid peer_fact)))\<rparr>)"

definition build_challenge_plan :: "InboundPacket \<Rightarrow> string \<Rightarrow> ChallengePlan" where
  "build_challenge_plan packet reason_code =
     \<lparr>cp_challenge_type =
        (if ip_protocol_kind packet = ''http'' \<or> ip_protocol_kind packet = ''http_unary''
         then ''http_authenticate'' else ''credential_prompt''),
      cp_reason_code = reason_code,
      cp_detail = ''additional authentication is required for '' @
        stable_value_or_unknown (entry_type packet)\<rparr>"

definition resolve :: "InboundPacket \<Rightarrow> PeerMetadata \<Rightarrow> ResolverView \<Rightarrow> SubjectResolveOutcome" where
  "resolve packet metadata view =
     (let outcome = \<lparr>so_resolved = False, so_rejected = False,
            so_channel_ref = derive_channel_ref packet, so_subject_identity = no_subject,
            challenge_plan = None, so_reject_reason = None\<rparr>;
          reject = (\<lambda>why. outcome\<lparr>so_rejected := True, so_reject_reason := Some why\<rparr>);
          hints = collect_subject_hints metadata
      in case derive_local_subject packet metadata view of
           Some subject \<Rightarrow> outcome\<lparr>so_resolved := True, so_subject_identity := subject\<rparr>
         | None \<Rightarrow>
             if is_daemon_entry_type (entry_type packet) \<and>
                (\<not> is_local_socket_peer (local_peer metadata) \<or>
                 \<not> eligible_for_local_trusted (local_peer metadata))
             then reject ''missing_local_peer_identity''
             else if 1 < card (hint_actor_ref ` set hints) then reject ''identity_conflict''
             else if hints \<noteq> [] then
               outcome\<lparr>so_resolved := True, so_subject_identity := make_identity (hd hints) metadata\<rparr>
             else if \<not> is_local_entry_type (entry_type packet) \<and> allow_remote_challenge view then
               outcome\<lparr>challenge_plan := Some (build_challenge_plan packet ''missing_identity_hint'')\<rparr>
             else
               reject (if rv_strict_auth_required view then ''missing_identity_hint''
                       else ''identity_not_resolved''))"

section \<open>The authenticator chain\<close>

record AccessAuthView =
  peer_auth_mode :: string
  auth_provider_ref :: "string option"
  trusted_local_subjects :: "string list"
  strict_auth_required :: bool

record AuthChallenge =
  ch_challenge_type :: string
  ch_reason_code :: string
  ch_detail :: string

record AuthenticationOutcome =
  au_authenticated :: bool
  au_rejected :: bool
  chain_ref :: string
  au_subject_identity :: SubjectIdentity
  au_challenge :: "AuthChallenge option"
  failure_reason :: "string option"

definition challenge_has_consistent_values :: "AuthChallenge \<Rightarrow> bool" where
  "challenge_has_consistent_values challenge \<longleftrightarrow>
     ch_challenge_type challenge \<noteq> [] \<and> ch_reason_code challenge \<noteq> []"

definition auth_requires_challenge :: "AuthenticationOutcome \<Rightarrow> bool" where
  "auth_requires_challenge outcome \<longleftrightarrow>
     \<not> au_authenticated outcome \<and> \<not> au_rejected outcome \<and>
     (case au_challenge outcome of None \<Rightarrow> False | Some c \<Rightarrow> challenge_has_consistent_values c)"

definition uses_external_secret_backend :: "string \<Rightarrow> bool" where
  "uses_external_secret_backend chain \<longleftrightarrow> chain = ''jwt'' \<or> chain = ''token'' \<or> chain = ''mtls''"

definition map_failure_reason :: "string \<Rightarrow> string" where
  "map_failure_reason reason_code =
     (if reason_code = ''identity_conflict'' then ''identity_conflict''
      else if reason_code = ''secret_backend_unavailable'' then ''secret_backend_unavailable''
      else if reason_code = ''local_trusted_not_allowlisted'' then ''authentication_failed''
      else if reason_code = ''missing_identity_hint'' \<or> reason_code = ''missing_subject'' \<or>
              reason_code = ''credential_missing'' then ''authentication_required''
      else ''authentication_failed'')"

definition select_chain :: "SubjectResolveOutcome \<Rightarrow> string" where
  "select_chain subject =
     (let method = auth_method (so_subject_identity subject)
      in if \<not> so_resolved subject then ''missing_subject''
         else if method = ''local_trusted'' then ''local_trusted''
         else if method = ''JWT'' then ''jwt''
         else if method = ''token'' then ''token''
         else if method = ''mTLS'' then ''mtls''
         else if method = ''simulator_stub'' then ''simulator_stub''
         else ''unknown'')"

definition merge_subject_attributes :: "AccessAuthView \<Rightarrow> string \<Rightarrow> SubjectIdentity \<Rightarrow> SubjectIdentity" where
  "merge_subject_attributes view chain subject =
     (let metadata_value = ''chain='' @ chain;
          subject =
            (if trust_level subject = []
             then subject\<lparr>trust_level := (if chain = ''local_trusted'' then ''trusted'' else ''authenticated'')\<rparr>
             else subject);
          subject = (if tenant_ref subject = [] then subject\<lparr>tenant_ref := ''default''\<rparr> else subject);
          subject =
            subject\<lparr>auth_metadata :=
              (if has_non_empty_value (auth_metadata subject)
               then Some (the (auth_metadata subject) @ '';'' @ metadata_value)
               else Some metadata_value)\<rparr>
      in if chain = ''local_trusted'' \<and> actor_ref subject \<in> set (trusted_local_subjects view)
         then subject\<lparr>trust_level := ''trusted''\<rparr> else subject)"

definition auth_failed :: "string \<Rightarrow> string \<Rightarrow> AuthenticationOutcome" where
  "auth_failed chain reason_code =
     \<lparr>au_authenticated = False, au_rejected = True, chain_ref = chain, au_subject_identity = no_subject,
      au_challenge = None, failure_reason = Some (map_failure_reason reason_code)\<rparr>"

definition verify_credentials ::
    "SubjectResolveOutcome \<Rightarrow> AccessAuthView \<Rightarrow> string \<Rightarrow> AuthenticationOutcome" where
  "verify_credentials subject view chain =
     (let identity = so_subject_identity subject
      in if \<not> so_resolved subject then auth_failed chain ''missing_subject''
         else if actor_ref identity = [] \<or> auth_method identity = [] then
           auth_failed chain ''credential_missing''
         else if chain = ''local_trusted'' \<and> actor_ref identity \<notin> set (trusted_local_subjects view) then
           auth_failed chain ''local_trusted_not_allowlisted''
         else if chain \<noteq> ''local_trusted'' \<and> uses_external_secret_backend chain \<and>
                 auth_provider_ref view = Some ''secret://unavailable'' then
           auth_failed chain ''secret_backend_unavailable''
         else if chain = ''unknown'' \<or> chain = ''missing_subject'' then
           auth_failed chain ''credential_missing''
         else
           \<lparr>au_authenticated = True, au_rejected = False, chain_ref = chain,
            au_subject_identity = merge_subject_attributes view chain identity,
            au_challenge = None, failure_reason = None\<rparr>)"

definition authenticate :: "SubjectResolveOutcome \<Rightarrow> AccessAuthView \<Rightarrow> AuthenticationOutcome" where
  "authenticate subject view =
     (if subject_requires_challenge subject then
        \<lparr>au_authenticated = False, au_rejected = False, chain_ref = ''challenge'',
         au_subject_identity = no_subject,
         au_challenge = Some
           \<lparr>ch_challenge_type = cp_challenge_type (the (challenge_plan subject)),
            ch_reason_code = cp_reason_code (the (challenge_plan subject)),
            ch_detail = cp_detail (the (challenge_plan subject))\<rparr>,
         failure_reason = None\<rparr>
      else if so_rejected subject then
        auth_failed ''rejected'' (value_or (so_reject_reason subject) ''authentication_failed'')
      else verify_credentials subject view (select_chain subject))"

section \<open>Who is authenticated\<close>

text \<open>The user a packet of the daemon claims to come from, if it does.\<close>

definition claimed_uid :: "InboundPacket \<Rightarrow> u32 option" where
  "claimed_uid packet =
     (if starts_with ''local_trusted:'' (peer_ref packet)
      then from_chars_u32 (drop (length ''local_trusted:'') (peer_ref packet)) else None)"

definition daemon_view :: "AccessAuthView \<Rightarrow> ResolverView" where
  "daemon_view view = \<lparr>rv_trusted_local_subjects = trusted_local_subjects view,
     rv_strict_auth_required = strict_auth_required view, allow_remote_challenge = False\<rparr>"

definition gateway_view :: "AccessAuthView \<Rightarrow> ResolverView" where
  "gateway_view view = \<lparr>rv_trusted_local_subjects = trusted_local_subjects view,
     rv_strict_auth_required = strict_auth_required view, allow_remote_challenge = True\<rparr>"

definition daemon_authentication :: "AccessAuthView \<Rightarrow> InboundPacket \<Rightarrow> AuthenticationOutcome" where
  "daemon_authentication view packet =
     authenticate
       (resolve packet (empty_peer_metadata\<lparr>local_peer := parse_local_peer_fact packet\<rparr>) (daemon_view view))
       view"

definition gateway_authentication :: "AccessAuthView \<Rightarrow> InboundPacket \<Rightarrow> AuthenticationOutcome" where
  "gateway_authentication view packet =
     authenticate (resolve packet (parse_gateway_peer_metadata packet) (gateway_view view)) view"

lemma uid_actor_ref_nonempty [simp]: "uid_actor_ref uid \<noteq> []"
  by (simp add: uid_actor_ref_def)

lemma parsed_fact:
  "is_local_socket_peer (parse_local_peer_fact packet) \<and>
     eligible_for_local_trusted (parse_local_peer_fact packet) \<longleftrightarrow> claimed_uid packet \<noteq> None"
  "claimed_uid packet = Some uid \<Longrightarrow>
     local_actor_ref_from_fact (parse_local_peer_fact packet) = uid_actor_ref uid \<and>
     peer_uid (parse_local_peer_fact packet) = uid"
  by (auto simp: parse_local_peer_fact_def claimed_uid_def empty_local_peer_def Let_def
      local_actor_ref_from_fact_def split: option.splits)

definition local_operator :: "u32 \<Rightarrow> SubjectIdentity" where
  "local_operator uid =
     \<lparr>actor_ref = uid_actor_ref uid, subject_type = ''operator'', auth_method = ''local_trusted'',
      trust_level = ''trusted'', tenant_ref = ''local'',
      auth_metadata = Some (''peer_uid='' @ to_string_nat (unat uid) @ '';chain=local_trusted'')\<rparr>"

lemma daemon_resolved:
  assumes "is_local_entry_type (entry_type packet)" "claimed_uid packet = Some uid"
    "uid_actor_ref uid \<in> set (trusted_local_subjects view)"
  shows "au_authenticated (daemon_authentication view packet) \<and>
    au_subject_identity (daemon_authentication view packet) = local_operator uid"
proof -
  have "derive_local_subject packet (empty_peer_metadata\<lparr>local_peer := parse_local_peer_fact packet\<rparr>)
      (daemon_view view) = Some
        \<lparr>actor_ref = uid_actor_ref uid, subject_type = ''operator'', auth_method = ''local_trusted'',
         trust_level = ''trusted'', tenant_ref = ''local'',
         auth_metadata = Some (''peer_uid='' @ to_string_nat (unat uid))\<rparr>"
    using assms parsed_fact(1) [of packet] parsed_fact(2) [OF assms(2)]
    by (auto simp: derive_local_subject_def daemon_view_def empty_peer_metadata_def Let_def)
  then show ?thesis
    using assms(3)
    by (simp add: daemon_authentication_def resolve_def authenticate_def subject_requires_challenge_def
        verify_credentials_def select_chain_def merge_subject_attributes_def has_non_empty_value_def
        local_operator_def Let_def)
qed

lemma daemon_not_resolved:
  assumes "\<not> (is_local_entry_type (entry_type packet) \<and>
    (\<exists>uid. claimed_uid packet = Some uid \<and> uid_actor_ref uid \<in> set (trusted_local_subjects view)))"
  shows "\<not> au_authenticated (daemon_authentication view packet) \<and>
    \<not> auth_requires_challenge (daemon_authentication view packet)"
proof -
  have "derive_local_subject packet (empty_peer_metadata\<lparr>local_peer := parse_local_peer_fact packet\<rparr>)
      (daemon_view view) = None"
    using assms parsed_fact(1) [of packet] parsed_fact(2) [of packet]
    by (auto simp: derive_local_subject_def daemon_view_def empty_peer_metadata_def Let_def)
  moreover have "collect_subject_hints (empty_peer_metadata\<lparr>local_peer := f\<rparr>) = []" for f
    by (simp add: collect_subject_hints_def hint_when_def empty_peer_metadata_def has_non_empty_value_def)
  ultimately show ?thesis
    by (simp add: daemon_authentication_def resolve_def authenticate_def subject_requires_challenge_def
        auth_requires_challenge_def auth_failed_def daemon_view_def Let_def)
qed

lemma daemon_authenticated_iff:
  "au_authenticated (daemon_authentication view packet) \<longleftrightarrow>
     is_local_entry_type (entry_type packet) \<and>
     (\<exists>uid. claimed_uid packet = Some uid \<and> uid_actor_ref uid \<in> set (trusted_local_subjects view))"
  using daemon_resolved daemon_not_resolved by blast

end
