(* ===== verification/Access_Commands.thy ===== *)
theory Access_Commands
  imports Access_Request Access_Subject Async_Tasks
begin

text \<open>
  What the daemon answers to its own commands (\<^verbatim>\<open>access/src/AccessGatewayFactory.cpp\<close>,
  \<^verbatim>\<open>access/src/daemon/DaemonHealthService.cpp\<close>, \<^verbatim>\<open>DaemonDiagnosticsHandler.cpp\<close>): the payloads of task
  queries and diagnostics, the results of status and cancel, readiness, and the diagnostics
  handler. The diagnostics service is an argument.
\<close>

section \<open>Results\<close>

definition make_rejected_result :: "AccessErrorCode \<Rightarrow> string \<Rightarrow> RuntimeDispatchResult" where
  "make_rejected_result code why = rejected_with why (error_code_entry code)"

definition empty_envelope :: PublishEnvelope where
  "empty_envelope = \<lparr>pe_request_id = [], pe_result_id = [], pe_session_id = [], pe_trace_id = [],
     channel_ref = [], protocol_kind = [], pe_agent_result = None, protocol_status_hint = [],
     protocol_metadata = [], is_final = True, pe_payload = [], pe_receipt = None\<rparr>"

section \<open>Task queries\<close>

record DaemonStatusQueryPayload =
  sq_receipt_ref :: string
  sq_actor_ref :: string
  sq_ownership_token :: string

fun split_items :: "string \<Rightarrow> string list" where
  "split_items [] = [[]]"
| "split_items (c # cs) =
     (if c = CHR '';'' then [] # split_items cs
      else case split_items cs of [] \<Rightarrow> [[c]] | item # items \<Rightarrow> (c # item) # items)"

definition put_item :: "string \<Rightarrow> DaemonStatusQueryPayload \<Rightarrow> DaemonStatusQueryPayload option" where
  "put_item item parsed =
     (let key = takeWhile (\<lambda>c. c \<noteq> CHR ''='') item; rest = dropWhile (\<lambda>c. c \<noteq> CHR ''='') item
      in if item = [] then Some parsed
         else if rest = [] \<or> key = [] then None
         else Some
           (if key = ''receipt_ref'' then parsed\<lparr>sq_receipt_ref := tl rest\<rparr>
            else if key = ''actor_ref'' then parsed\<lparr>sq_actor_ref := tl rest\<rparr>
            else if key = ''ownership_token'' then parsed\<lparr>sq_ownership_token := tl rest\<rparr>
            else parsed))"

fun put_items :: "string list \<Rightarrow> DaemonStatusQueryPayload \<Rightarrow> DaemonStatusQueryPayload option" where
  "put_items [] parsed = Some parsed"
| "put_items (item # items) parsed =
     (case put_item item parsed of None \<Rightarrow> None | Some parsed' \<Rightarrow> put_items items parsed')"

definition parse_status_query_payload :: "string \<Rightarrow> DaemonStatusQueryPayload option" where
  "parse_status_query_payload text_bytes =
     (if text_bytes = [] then None
      else
        case put_items (split_items text_bytes)
               \<lparr>sq_receipt_ref = [], sq_actor_ref = [], sq_ownership_token = []\<rparr> of
          None \<Rightarrow> None
        | Some parsed \<Rightarrow>
            if sq_receipt_ref parsed = [] \<or> sq_ownership_token parsed = [] then None else Some parsed)"

lemma split_items_plain: "CHR '';'' \<notin> set item \<Longrightarrow> split_items item = [item]"
  by (induction item) auto

lemma split_items_step: "CHR '';'' \<notin> set item \<Longrightarrow> split_items (item @ CHR '';'' # rest) = item # split_items rest"
  by (induction item) auto

lemma split_at_equals [simp]:
  assumes "CHR ''='' \<notin> set key"
  shows "takeWhile (\<lambda>c. c \<noteq> CHR ''='') (key @ CHR ''='' # v) = key"
    "dropWhile (\<lambda>c. c \<noteq> CHR ''='') (key @ CHR ''='' # v) = CHR ''='' # v"
  using assms by (induction key) auto

text \<open>A query printed as the payload of a task query is read back.\<close>

lemma parse_status_query:
  assumes "rid \<noteq> []" "token \<noteq> []" "CHR '';'' \<notin> set rid" "CHR '';'' \<notin> set token" "CHR '';'' \<notin> set actor"
  shows "parse_status_query_payload (''receipt_ref='' @ rid @ '';ownership_token='' @ token) =
      Some \<lparr>sq_receipt_ref = rid, sq_actor_ref = [], sq_ownership_token = token\<rparr>"
    "parse_status_query_payload (''receipt_ref='' @ rid @ '';actor_ref='' @ actor @ '';ownership_token='' @ token) =
      Some \<lparr>sq_receipt_ref = rid, sq_actor_ref = actor, sq_ownership_token = token\<rparr>"
proof -
  have items: "split_items (''receipt_ref='' @ rid) = [''receipt_ref='' @ rid]"
    "split_items (''ownership_token='' @ token) = [''ownership_token='' @ token]"
    "split_items (''receipt_ref='' @ rid @ '';'' @ rest) = (''receipt_ref='' @ rid) # split_items rest"
    "split_items (''actor_ref='' @ actor @ '';'' @ rest) = (''actor_ref='' @ actor) # split_items rest" for rest
    using assms split_items_plain [of "''receipt_ref='' @ rid"] split_items_plain [of "''ownership_token='' @ token"]
      split_items_step [of "''receipt_ref='' @ rid" rest] split_items_step [of "''actor_ref='' @ actor" rest]
    by simp_all
  show "parse_status_query_payload (''receipt_ref='' @ rid @ '';ownership_token='' @ token) =
      Some \<lparr>sq_receipt_ref = rid, sq_actor_ref = [], sq_ownership_token = token\<rparr>"
    using items(2) items(3) [of "''ownership_token='' @ token"] assms
    by (simp add: parse_status_query_payload_def put_item_def)
  show "parse_status_query_payload (''receipt_ref='' @ rid @ '';actor_ref='' @ actor @ '';ownership_token='' @ token) =
      Some \<lparr>sq_receipt_ref = rid, sq_actor_ref = actor, sq_ownership_token = token\<rparr>"
    using items(2) items(3) [of "''actor_ref='' @ actor @ '';ownership_token='' @ token"]
      items(4) [of "''ownership_token='' @ token"] assms
    by (simp add: parse_status_query_payload_def put_item_def)
qed

definition parse_diag_payload :: "string \<Rightarrow> string option" where
  "parse_diag_payload text_bytes =
     (if \<not> starts_with ''command_name='' text_bytes then None
      else
        let command_name = drop (length ''command_name='') text_bytes
        in if command_name = [] then None else Some command_name)"

text \<open>The answer of a command over the local socket.\<close>

definition text_result :: "string \<Rightarrow> string \<Rightarrow> bool \<Rightarrow> AgentResult" where
  "text_result request_id body completed =
     empty_agent_result\<lparr>ar_request_id := Some request_id, response_text := Some body,
       task_completed := Some completed\<rparr>"

definition command_result ::
    "AccessDisposition \<Rightarrow> string option \<Rightarrow> PublishEnvelope \<Rightarrow> RuntimeDispatchResult" where
  "command_result disposition why envelope =
     \<lparr>rd_disposition = disposition, publish_envelope = Some envelope, rd_receipt_ref = None,
      subscription_ref = None, rd_error_ref = why, response_context = Map.empty\<rparr>"

definition query_envelope :: "DaemonTaskQueryResult \<Rightarrow> string \<Rightarrow> PublishEnvelope" where
  "query_envelope query request_id =
     empty_envelope\<lparr>pe_request_id := request_id, pe_result_id := dq_receipt_ref query,
       protocol_kind := ''ipc_uds'', pe_payload := dq_task_status query\<rparr>"

definition query_completed :: "DaemonTaskQueryResult \<Rightarrow> string \<Rightarrow> bool \<Rightarrow> RuntimeDispatchResult" where
  "query_completed query request_id completed =
     command_result Access_Completed None
       ((query_envelope query request_id)\<lparr>protocol_status_hint := ''200'',
         pe_agent_result := Some (text_result request_id (dq_task_status query) completed)\<rparr>)"

definition query_rejected :: "DaemonTaskQueryResult \<Rightarrow> string \<Rightarrow> string \<Rightarrow> string \<Rightarrow> RuntimeDispatchResult" where
  "query_rejected query request_id why hint =
     command_result Access_Rejected (Some why)
       ((query_envelope query request_id)\<lparr>pe_payload := why, protocol_status_hint := hint\<rparr>)"

definition make_status_dispatch_result :: "DaemonTaskQueryResult \<Rightarrow> string \<Rightarrow> RuntimeDispatchResult" where
  "make_status_dispatch_result query request_id =
     (case dq_status query of
        Task_Active \<Rightarrow> query_completed query request_id False
      | Task_Completed \<Rightarrow> query_completed query request_id True
      | Task_Cancelled \<Rightarrow> query_completed query request_id True
      | Task_Missing \<Rightarrow> query_rejected query request_id ''status_missing'' ''404''
      | Task_Expired \<Rightarrow> query_rejected query request_id ''status_expired'' ''410''
      | Task_OwnerMismatch \<Rightarrow> query_rejected query request_id ''status_owner_mismatch'' ''403''
      | Task_CancelForwardFailed \<Rightarrow>
          query_rejected query request_id ''status_cancel_forward_failed'' ''503'')"

definition make_cancel_dispatch_result :: "DaemonTaskQueryResult \<Rightarrow> string \<Rightarrow> RuntimeDispatchResult" where
  "make_cancel_dispatch_result query request_id =
     (case dq_status query of
        Task_Cancelled \<Rightarrow> query_completed query request_id True
      | Task_Missing \<Rightarrow> query_rejected query request_id ''cancel_missing'' ''404''
      | Task_Expired \<Rightarrow> query_rejected query request_id ''cancel_expired'' ''410''
      | Task_OwnerMismatch \<Rightarrow> query_rejected query request_id ''cancel_owner_mismatch'' ''403''
      | Task_CancelForwardFailed \<Rightarrow> query_rejected query request_id ''cancel_forward_failed'' ''503''
      | Task_Active \<Rightarrow> query_rejected query request_id ''cancel_unexpected_state'' ''409''
      | Task_Completed \<Rightarrow> query_rejected query request_id ''cancel_unexpected_state'' ''409'')"

section \<open>Health\<close>

datatype DaemonReadinessState = Daemon_NotReady | Daemon_Ready | Daemon_Degraded

fun to_readiness_string :: "DaemonReadinessState \<Rightarrow> string" where
  "to_readiness_string Daemon_Ready = ''READY''"
| "to_readiness_string Daemon_Degraded = ''DEGRADED''"
| "to_readiness_string Daemon_NotReady = ''NOT_READY''"

record DaemonHealthInput =
  lifecycle_ready :: bool
  listener_ready :: bool
  gateway_ready :: bool
  bridge_reachable :: bool
  hi_diagnostics_enabled :: bool
  runtime_readiness_label :: string
  degraded_reasons :: "string list"

definition resolve_readiness_state :: "DaemonHealthInput \<Rightarrow> DaemonReadinessState" where
  "resolve_readiness_state input =
     (if \<not> lifecycle_ready input \<or> \<not> listener_ready input \<or> \<not> gateway_ready input \<or>
         \<not> bridge_reachable input then Daemon_NotReady
      else if degraded_reasons input \<noteq> [] then Daemon_Degraded
      else Daemon_Ready)"

definition quoted_field :: "string \<Rightarrow> string \<Rightarrow> string" where
  "quoted_field name v = CHR 0x22 # name @ CHR 0x22 # '':'' @ CHR 0x22 # v @ [CHR 0x22]"

definition flag_field :: "string \<Rightarrow> bool \<Rightarrow> string" where
  "flag_field name b = CHR 0x22 # name @ CHR 0x22 # '':'' @ (if b then ''true'' else ''false'')"

definition comma_join :: "string list \<Rightarrow> string" where
  "comma_join vs = concat (case vs of [] \<Rightarrow> [] | v # ws \<Rightarrow> v # map (\<lambda>w. '','' @ w) ws)"

definition readiness_body :: "DaemonHealthInput \<Rightarrow> string" where
  "readiness_body input =
     ''{'' @ comma_join
       [quoted_field ''state'' (to_readiness_string (resolve_readiness_state input)),
        flag_field ''lifecycle_ready'' (lifecycle_ready input),
        flag_field ''listener_ready'' (listener_ready input),
        flag_field ''gateway_ready'' (gateway_ready input),
        flag_field ''bridge_reachable'' (bridge_reachable input),
        quoted_field ''runtime_readiness'' (runtime_readiness_label input),
        quoted_field ''degraded_reasons'' (comma_join (degraded_reasons input))] @ ''}''"

definition packet_envelope :: "InboundPacket \<Rightarrow> string \<Rightarrow> string \<Rightarrow> PublishEnvelope" where
  "packet_envelope packet hint body =
     empty_envelope\<lparr>pe_request_id := packet_id packet, pe_result_id := packet_id packet,
       protocol_kind := ip_protocol_kind packet, protocol_status_hint := hint, pe_payload := body,
       pe_agent_result := Some (text_result (packet_id packet) body True)\<rparr>"

section \<open>Diagnostics\<close>

record DiagnosticsCommand =
  dc_command_id :: string
  dc_command_name :: string
  dc_args :: "string list"
  dc_request_scope :: string
  dc_timeout_ms :: u32
  dc_actor_ref :: string

text \<open>Identifier and summary of the snapshot, or none when the command failed.\<close>

type_synonym diagnostics_service = "DiagnosticsCommand \<Rightarrow> (string \<times> string) option"

definition is_read_only_command_whitelisted :: "string \<Rightarrow> bool" where
  "is_read_only_command_whitelisted name \<longleftrightarrow> name \<in> {''health.snapshot'', ''queue.stats'', ''thread.dump''}"

definition make_rejected_diag_result :: "string \<Rightarrow> string \<Rightarrow> string \<Rightarrow> RuntimeDispatchResult" where
  "make_rejected_diag_result request_id why hint =
     command_result Access_Rejected (Some why)
       (empty_envelope\<lparr>pe_request_id := request_id, pe_result_id := request_id,
         protocol_kind := ''ipc_uds'', protocol_status_hint := hint, pe_payload := why\<rparr>)"

definition handle_diag ::
    "bool \<Rightarrow> diagnostics_service option \<Rightarrow> string \<Rightarrow> string \<Rightarrow> string \<Rightarrow> RuntimeDispatchResult" where
  "handle_diag enabled service_opt command_name request_id actor =
     (if \<not> enabled then make_rejected_diag_result request_id ''diag_disabled'' ''403''
      else if \<not> is_read_only_command_whitelisted command_name then
        make_rejected_diag_result request_id ''diag_command_not_allowed'' ''403''
      else
        case service_opt of
          None \<Rightarrow> make_rejected_diag_result request_id ''diag_service_unavailable'' ''503''
        | Some execute \<Rightarrow>
            (case execute \<lparr>dc_command_id = request_id, dc_command_name = command_name, dc_args = [],
                           dc_request_scope = ''runtime'', dc_timeout_ms = 1000, dc_actor_ref = actor\<rparr> of
               None \<Rightarrow> make_rejected_diag_result request_id ''diag_execution_failed'' ''503''
             | Some (snapshot_id, summary) \<Rightarrow>
                 command_result Access_Completed None
                   (empty_envelope\<lparr>pe_request_id := request_id, pe_result_id := snapshot_id,
                     protocol_kind := ''ipc_uds'', protocol_status_hint := ''200'',
                     pe_payload := summary,
                     pe_agent_result := Some (text_result request_id summary True)\<rparr>)))"

end
