(* ===== verification/Access_Knowledge.thy ===== *)
theory Access_Knowledge
  imports Access_Commands Json_Reader
begin

text \<open>
  The knowledge command of the daemon (\<^verbatim>\<open>access/src/AccessGatewayFactory.cpp\<close>): its payload of
  percent-encoded items, the query handed to the knowledge service, and the JSON text of the
  answer. The service (\<^verbatim>\<open>knowledge/include/IKnowledgeService.h\<close>) is an argument; of its result types
  (\<^verbatim>\<open>KnowledgeTypes.h\<close>) the confidence of a slice and the evidence references, which are never
  read here, are left out. \<^verbatim>\<open>escape_json_string\<close> and \<^verbatim>\<open>decode_hex_digit\<close> are the functions of
  \<open>Json_Reader\<close>: the code has a second copy of each.
\<close>

section \<open>Types of the knowledge service\<close>

datatype KnowledgeQueryKind = FactLookup | ProcedureLookup | DiagnosticContext | PolicyEvidence | MultiHop

datatype RetrievalMode = LexicalOnly | DenseOnly | Hybrid

datatype FreshnessState = Fresh | StaleAllowed | StaleRejected | Freshness_Unknown

datatype RefreshStatus = Refresh_Accepted | Refresh_Busy | Refresh_Completed | Refresh_Failed

datatype HealthState = Health_Unknown | Healthy | Health_Degraded | Unhealthy

record KnowledgeQuery =
  kq_request_id :: string
  kq_profile_id :: "string option"
  kq_session_id :: "string option"
  kq_goal_id :: "string option"
  kq_query_text :: string
  kq_preferred_mode :: "RetrievalMode option"
  kq_query_kind :: KnowledgeQueryKind
  kq_domain_tags :: "string list"
  kq_allowed_corpora :: "string list"
  kq_required_tags :: "string list"
  kq_required_language :: "string option"
  kq_latest_observation_digest_summary :: "string option"
  kq_belief_state_summary :: "string option"
  top_k :: nat
  kq_max_context_projection_items :: nat
  allow_stale :: bool
  retrieval_evidence_budget_hint :: nat

definition query_has_consistent_fields :: "KnowledgeQuery \<Rightarrow> bool" where
  "query_has_consistent_fields q \<longleftrightarrow>
     kq_request_id q \<noteq> [] \<and> kq_query_text q \<noteq> [] \<and> 0 < top_k q \<and>
     0 < kq_max_context_projection_items q \<and> distinct (kq_domain_tags q) \<and>
     distinct (kq_allowed_corpora q) \<and> distinct (kq_required_tags q) \<and>
     kq_required_language q \<noteq> Some []"

record EvidenceSlice =
  evidence_id :: string
  snippet :: string
  citation_ref :: string
  slice_freshness :: FreshnessState
  slice_tags :: "string list"

record EvidenceBundle =
  slices :: "EvidenceSlice list"
  context_projection :: "string list"
  omitted_sources :: "string list"
  bundle_degraded :: bool
  evidence_insufficient :: bool
  coverage_notes :: string

record KnowledgeRetrieveResult =
  kr_ok :: bool
  kr_mode :: RetrievalMode
  kr_evidence :: "EvidenceBundle option"
  kr_reason_codes :: "string list"
  warning_count :: nat
  warning_summary :: "string list"
  corpus_summary :: "string list"
  vector_backend_ready :: bool
  sparse_hit_count :: nat
  dense_hit_count :: nat
  kr_error :: "ErrorInfo option"

record CorpusChangeSet =
  added_sources :: "string list"
  updated_sources :: "string list"
  removed_sources :: "string list"

record RefreshResult =
  rf_status :: RefreshStatus
  refresh_id :: string
  rf_error :: "ErrorInfo option"

record KnowledgeHealthSnapshot =
  kh_state :: HealthState
  active_snapshot_id :: string
  freshness_state :: FreshnessState
  vector_backend_available :: bool
  last_known_good_available :: bool
  degraded_return_count :: nat
  refresh_in_flight :: bool
  last_refresh_status :: "RefreshStatus option"
  kh_reason_codes :: "string list"

text \<open>The answers of the service during one command.\<close>

record KnowledgeService =
  health_snapshot :: KnowledgeHealthSnapshot
  request_refresh :: "CorpusChangeSet \<Rightarrow> RefreshResult"
  retrieve :: "KnowledgeQuery \<Rightarrow> KnowledgeRetrieveResult"

section \<open>The payload\<close>

record DaemonKnowledgePayload =
  kp_operation :: string
  kp_query_text :: string
  kp_preferred_mode :: "RetrievalMode option"
  kp_query_kind :: "KnowledgeQueryKind option"
  kp_allowed_corpora :: "string list"
  kp_domain_tags :: "string list"
  kp_required_tags :: "string list"
  kp_required_language :: "string option"
  kp_changed_sources :: "string list"

text \<open>Words in lower case with one underscore between them; none on any other character.\<close>

fun canonical_words :: "string \<Rightarrow> bool \<Rightarrow> string \<Rightarrow> string option" where
  "canonical_words canonical separated [] = Some canonical"
| "canonical_words canonical separated (c # cs) =
     (if isalnum c then canonical_words (canonical @ [to_lower c]) False cs
      else if c = CHR ''-'' \<or> c = CHR ''_'' \<or> isspace c then
        (if canonical \<noteq> [] \<and> \<not> separated then canonical_words (canonical @ ''_'') True cs
         else canonical_words canonical separated cs)
      else None)"

definition canonicalize_keyword_token :: "string \<Rightarrow> string" where
  "canonicalize_keyword_token token =
     (case canonical_words [] False token of
        None \<Rightarrow> []
      | Some canonical \<Rightarrow> rev (dropWhile (\<lambda>c. c = CHR ''_'') (rev canonical)))"

definition parse_retrieval_mode_value :: "string \<Rightarrow> RetrievalMode option" where
  "parse_retrieval_mode_value token =
     (let canonical = canonicalize_keyword_token token
      in if canonical = ''lexical_only'' then Some LexicalOnly
         else if canonical = ''dense_only'' then Some DenseOnly
         else if canonical = ''hybrid'' then Some Hybrid
         else None)"

definition parse_query_kind_value :: "string \<Rightarrow> KnowledgeQueryKind option" where
  "parse_query_kind_value token =
     (let canonical = canonicalize_keyword_token token
      in if canonical = ''fact_lookup'' then Some FactLookup
         else if canonical = ''procedure_lookup'' then Some ProcedureLookup
         else if canonical = ''diagnostic_context'' then Some DiagnosticContext
         else if canonical = ''policy_evidence'' then Some PolicyEvidence
         else if canonical = ''multi_hop'' then Some MultiHop
         else None)"

definition has_retrieve_query_surface :: "DaemonKnowledgePayload \<Rightarrow> bool" where
  "has_retrieve_query_surface p \<longleftrightarrow>
     kp_preferred_mode p \<noteq> None \<or> kp_query_kind p \<noteq> None \<or> kp_required_language p \<noteq> None \<or>
     kp_allowed_corpora p \<noteq> [] \<or> kp_domain_tags p \<noteq> [] \<or> kp_required_tags p \<noteq> []"

fun percent_decode_payload_value :: "string \<Rightarrow> string option" where
  "percent_decode_payload_value [] = Some []"
| "percent_decode_payload_value (c # cs) =
     (if c \<noteq> CHR ''%'' then map_option ((#) c) (percent_decode_payload_value cs)
      else
        case cs of
          high # low # rest \<Rightarrow>
            (case (hex_digit_value high, hex_digit_value low) of
               (Some h, Some l) \<Rightarrow>
                 map_option ((#) (char_of (16 * h + l))) (percent_decode_payload_value rest)
             | _ \<Rightarrow> None)
        | _ \<Rightarrow> None)"

definition put_knowledge_value ::
    "string \<Rightarrow> string \<Rightarrow> DaemonKnowledgePayload \<Rightarrow> DaemonKnowledgePayload option" where
  "put_knowledge_value key v p =
     (if key = ''operation'' then
        (if kp_operation p \<noteq> [] then None else Some (p\<lparr>kp_operation := v\<rparr>))
      else if key = ''query_text'' then
        (if kp_query_text p \<noteq> [] then None else Some (p\<lparr>kp_query_text := v\<rparr>))
      else if key = ''preferred_mode'' then
        (if kp_preferred_mode p \<noteq> None \<or> parse_retrieval_mode_value v = None then None
         else Some (p\<lparr>kp_preferred_mode := parse_retrieval_mode_value v\<rparr>))
      else if key = ''query_kind'' then
        (if kp_query_kind p \<noteq> None \<or> parse_query_kind_value v = None then None
         else Some (p\<lparr>kp_query_kind := parse_query_kind_value v\<rparr>))
      else if key = ''allowed_corpus'' then
        (if v = [] then None else Some (p\<lparr>kp_allowed_corpora := kp_allowed_corpora p @ [v]\<rparr>))
      else if key = ''domain_tag'' then
        (if v = [] then None else Some (p\<lparr>kp_domain_tags := kp_domain_tags p @ [v]\<rparr>))
      else if key = ''required_tag'' then
        (if v = [] then None else Some (p\<lparr>kp_required_tags := kp_required_tags p @ [v]\<rparr>))
      else if key = ''required_language'' then
        (if kp_required_language p \<noteq> None \<or> canonicalize_keyword_token v = [] then None
         else Some (p\<lparr>kp_required_language := Some v\<rparr>))
      else if key = ''changed_source'' then
        (if v = [] then None else Some (p\<lparr>kp_changed_sources := kp_changed_sources p @ [v]\<rparr>))
      else Some p)"

definition put_knowledge_item ::
    "string \<Rightarrow> DaemonKnowledgePayload \<Rightarrow> DaemonKnowledgePayload option" where
  "put_knowledge_item item p =
     (let key = takeWhile (\<lambda>c. c \<noteq> CHR ''='') item; rest = dropWhile (\<lambda>c. c \<noteq> CHR ''='') item
      in if item = [] then Some p
         else if rest = [] \<or> key = [] then None
         else
           case percent_decode_payload_value (tl rest) of
             None \<Rightarrow> None
           | Some v \<Rightarrow> put_knowledge_value key v p)"

fun put_knowledge_items ::
    "string list \<Rightarrow> DaemonKnowledgePayload \<Rightarrow> DaemonKnowledgePayload option" where
  "put_knowledge_items [] p = Some p"
| "put_knowledge_items (item # items) p =
     (case put_knowledge_item item p of None \<Rightarrow> None | Some p' \<Rightarrow> put_knowledge_items items p')"

definition no_payload :: DaemonKnowledgePayload where
  "no_payload = \<lparr>kp_operation = [], kp_query_text = [], kp_preferred_mode = None, kp_query_kind = None,
     kp_allowed_corpora = [], kp_domain_tags = [], kp_required_tags = [], kp_required_language = None,
     kp_changed_sources = []\<rparr>"

definition knowledge_payload_ok :: "DaemonKnowledgePayload \<Rightarrow> bool" where
  "knowledge_payload_ok p \<longleftrightarrow>
     kp_operation p \<in> {''health'', ''retrieve'', ''refresh''} \<and>
     \<not> (kp_operation p = ''retrieve'' \<and> kp_query_text p = []) \<and>
     \<not> (kp_operation p \<noteq> ''retrieve'' \<and> kp_query_text p \<noteq> []) \<and>
     \<not> (kp_operation p \<noteq> ''retrieve'' \<and> has_retrieve_query_surface p) \<and>
     \<not> (kp_operation p \<noteq> ''refresh'' \<and> kp_changed_sources p \<noteq> [])"

definition parse_knowledge_payload :: "string \<Rightarrow> DaemonKnowledgePayload option" where
  "parse_knowledge_payload text_bytes =
     (if text_bytes = [] then None
      else
        case put_knowledge_items (split_items text_bytes) no_payload of
          None \<Rightarrow> None
        | Some p \<Rightarrow> if knowledge_payload_ok p then Some p else None)"

section \<open>The answer\<close>

definition json_array :: "string list \<Rightarrow> string" where
  "json_array vs = ''['' @ comma_join (map json_quoted vs) @ '']''"

definition bool_json :: "bool \<Rightarrow> string" where
  "bool_json b = (if b then ''true'' else ''false'')"

fun health_state_name :: "HealthState \<Rightarrow> string" where
  "health_state_name Health_Unknown = ''unknown''"
| "health_state_name Healthy = ''healthy''"
| "health_state_name Health_Degraded = ''degraded''"
| "health_state_name Unhealthy = ''unhealthy''"

fun freshness_state_name :: "FreshnessState \<Rightarrow> string" where
  "freshness_state_name Fresh = ''fresh''"
| "freshness_state_name StaleAllowed = ''stale_allowed''"
| "freshness_state_name StaleRejected = ''stale_rejected''"
| "freshness_state_name Freshness_Unknown = ''unknown''"

fun refresh_status_name :: "RefreshStatus \<Rightarrow> string" where
  "refresh_status_name Refresh_Accepted = ''accepted''"
| "refresh_status_name Refresh_Busy = ''busy''"
| "refresh_status_name Refresh_Completed = ''completed''"
| "refresh_status_name Refresh_Failed = ''failed''"

fun retrieval_mode_name :: "RetrievalMode \<Rightarrow> string" where
  "retrieval_mode_name LexicalOnly = ''lexical_only''"
| "retrieval_mode_name DenseOnly = ''dense_only''"
| "retrieval_mode_name Hybrid = ''hybrid''"

definition make_knowledge_response :: "InboundPacket \<Rightarrow> string \<Rightarrow> RuntimeDispatchResult" where
  "make_knowledge_response packet body =
     command_result Access_Completed None (packet_envelope packet ''200'' body)"

text \<open>The members of an object, each the name and the text of its value.\<close>

definition json_members :: "(string \<times> string) list \<Rightarrow> string" where
  "json_members ms = ''{'' @ object_body ms @ ''}''"

definition format_knowledge_health_payload :: "KnowledgeHealthSnapshot \<Rightarrow> string" where
  "format_knowledge_health_payload snapshot = json_members
     [(''operation'', json_quoted ''health''),
      (''state'', json_quoted (health_state_name (kh_state snapshot))),
      (''active_snapshot_id'', json_quoted (active_snapshot_id snapshot)),
      (''freshness_state'', json_quoted (freshness_state_name (freshness_state snapshot))),
      (''vector_backend_available'', bool_json (vector_backend_available snapshot)),
      (''last_known_good_available'', bool_json (last_known_good_available snapshot)),
      (''degraded_return_count'', to_string_nat (degraded_return_count snapshot)),
      (''refresh_in_flight'', bool_json (refresh_in_flight snapshot)),
      (''last_refresh_status'',
         (case last_refresh_status snapshot of
            None \<Rightarrow> ''null'' | Some status \<Rightarrow> json_quoted (refresh_status_name status))),
      (''reason_codes'', json_array (kh_reason_codes snapshot))]"

definition error_member :: "ErrorInfo option \<Rightarrow> (string \<times> string) list" where
  "error_member e =
     (case e of None \<Rightarrow> [] | Some info \<Rightarrow> [(''error_ref'', json_quoted (ref_id (source_ref info)))])"

definition format_knowledge_refresh_payload :: "RefreshResult \<Rightarrow> string" where
  "format_knowledge_refresh_payload result = json_members
     ([(''operation'', json_quoted ''refresh''),
       (''status'', json_quoted (refresh_status_name (rf_status result))),
       (''refresh_id'', json_quoted (refresh_id result))] @ error_member (rf_error result))"

definition format_knowledge_retrieve_payload :: "KnowledgeRetrieveResult \<Rightarrow> string" where
  "format_knowledge_retrieve_payload result =
     (let found = (case kr_evidence result of None \<Rightarrow> [] | Some bundle \<Rightarrow> slices bundle);
          degraded = (case kr_evidence result of None \<Rightarrow> False | Some bundle \<Rightarrow> bundle_degraded bundle);
          first_text = (\<lambda>f. if found = [] then [] else f (hd found))
      in json_members
        ([(''operation'', json_quoted ''retrieve''), (''ok'', bool_json (kr_ok result)),
          (''mode'', json_quoted (retrieval_mode_name (kr_mode result))),
          (''degraded'', bool_json degraded),
          (''reason_codes'', json_array (kr_reason_codes result)),
          (''warning_count'', to_string_nat (warning_count result)),
          (''warning_summary'', json_array (warning_summary result)),
          (''corpus_summary'', json_array (corpus_summary result)),
          (''selected_corpora'', json_array (corpus_summary result)),
          (''vector_backend_ready'', bool_json (vector_backend_ready result)),
          (''sparse_hit_count'', to_string_nat (sparse_hit_count result)),
          (''dense_hit_count'', to_string_nat (dense_hit_count result)),
          (''slice_count'', to_string_nat (length found)),
          (''first_citation'', json_quoted (first_text citation_ref)),
          (''first_snippet'', json_quoted (first_text snippet))] @ error_member (kr_error result)))"

definition failure_ref :: "ErrorInfo option \<Rightarrow> string \<Rightarrow> string" where
  "failure_ref e fallback =
     (case e of
        None \<Rightarrow> fallback
      | Some info \<Rightarrow> if ref_id (source_ref info) \<noteq> [] then ref_id (source_ref info) else fallback)"

definition retrieve_query :: "InboundPacket \<Rightarrow> DaemonKnowledgePayload \<Rightarrow> KnowledgeQuery" where
  "retrieve_query packet p =
     \<lparr>kq_request_id = (if packet_id packet = [] then ''knowledge-retrieve'' else packet_id packet),
      kq_profile_id = None, kq_session_id = None, kq_goal_id = None,
      kq_query_text = kp_query_text p, kq_preferred_mode = kp_preferred_mode p,
      kq_query_kind = value_or (kp_query_kind p) FactLookup, kq_domain_tags = kp_domain_tags p,
      kq_allowed_corpora = kp_allowed_corpora p, kq_required_tags = kp_required_tags p,
      kq_required_language = kp_required_language p, kq_latest_observation_digest_summary = None,
      kq_belief_state_summary = None, top_k = 3, kq_max_context_projection_items = 3,
      allow_stale = False, retrieval_evidence_budget_hint = 0\<rparr>"

definition make_knowledge_dispatch_result ::
    "InboundPacket \<Rightarrow> DaemonKnowledgePayload \<Rightarrow> KnowledgeService option \<Rightarrow> RuntimeDispatchResult" where
  "make_knowledge_dispatch_result packet p service_opt =
     (case service_opt of
        None \<Rightarrow> make_rejected_result AE_RuntimeDispatchFailed ''knowledge_unavailable''
      | Some service \<Rightarrow>
          if kp_operation p = ''health'' then
            make_knowledge_response packet (format_knowledge_health_payload (health_snapshot service))
          else if kp_operation p = ''refresh'' then
            (let result = request_refresh service
                   \<lparr>added_sources = [], updated_sources = kp_changed_sources p, removed_sources = []\<rparr>
             in if rf_status result = Refresh_Accepted then
                  make_knowledge_response packet (format_knowledge_refresh_payload result)
                else make_rejected_result AE_RuntimeDispatchFailed
                  (if rf_status result = Refresh_Busy then ''knowledge_refresh_busy''
                   else failure_ref (rf_error result) ''knowledge_refresh_failed''))
          else
            (let result = retrieve service (retrieve_query packet p)
             in if kr_ok result then
                  make_knowledge_response packet (format_knowledge_retrieve_payload result)
                else make_rejected_result AE_RuntimeDispatchFailed
                  (failure_ref (kr_error result) ''knowledge_retrieve_failed'')))"

definition knowledge_command ::
    "KnowledgeService option \<Rightarrow> InboundPacket \<Rightarrow> RuntimeDispatchResult" where
  "knowledge_command service_opt packet =
     (case parse_knowledge_payload (ip_payload packet) of
        None \<Rightarrow> make_rejected_result AE_ValidationRejected ''knowledge_payload_invalid''
      | Some p \<Rightarrow> make_knowledge_dispatch_result packet p service_opt)"

end
