(* ===== verification/Access_Policy.thy ===== *)
theory Access_Policy
  imports Access_Subject
begin

text \<open>
  The policy gate of the access layer (\<^verbatim>\<open>access/src/AccessPolicyGate.cpp\<close>): the query it
  builds for an operation, the evaluator over a snapshot of settings, and the evaluator over the
  security policy manager, whose answer to a query is an argument. No answer allows an
  operation without authentication and an explicit allow of the evaluator.
\<close>

section \<open>Facts and queries\<close>

record OperationTargetView =
  operation :: string
  target_type :: string
  target_ref :: string

definition target_has_consistent_values :: "OperationTargetView \<Rightarrow> bool" where
  "target_has_consistent_values t \<longleftrightarrow> operation t \<noteq> [] \<and> target_type t \<noteq> [] \<and> target_ref t \<noteq> []"

record OverrideSourceFact =
  source_type :: string
  has_config_patch_metadata :: bool
  path_op_summary_complete :: bool
  ttl_valid :: bool
  target_ref_present :: bool

definition override_has_consistent_values :: "OverrideSourceFact \<Rightarrow> bool" where
  "override_has_consistent_values f \<longleftrightarrow>
     source_type f \<noteq> [] \<and> has_config_patch_metadata f \<and> path_op_summary_complete f \<and>
     ttl_valid f \<and> target_ref_present f"

record PolicyBackendSnapshot =
  backend_available :: bool
  allow_submit :: bool
  allow_task_query :: bool
  allow_diagnostics :: bool
  allow_override :: bool
  require_confirmation_for_override :: bool
  pb_decision_ref :: string

definition default_policy_backend :: PolicyBackendSnapshot where
  "default_policy_backend = \<lparr>backend_available = True, allow_submit = True, allow_task_query = True,
     allow_diagnostics = False, allow_override = False, require_confirmation_for_override = False,
     pb_decision_ref = ''policy://access/default''\<rparr>"

record SnapshotVersionFingerprint =
  fp_bootstrap_revision :: string
  effective_profile_id :: string
  runtime_policy_generation :: int

record AccessPolicyEvaluationInput =
  pi_authentication :: AuthenticationOutcome
  pi_packet :: InboundPacket
  pi_snapshot_fingerprint :: "SnapshotVersionFingerprint option"

record AccessPolicyEvaluationResult =
  pr_allowed :: bool
  requires_confirmation :: bool
  pr_decision_proof :: AccessDecisionProof
  pr_reject_reason :: "string option"

definition denied :: "AccessPolicyEvaluationResult \<Rightarrow> bool" where
  "denied result \<longleftrightarrow> \<not> pr_allowed result \<and> \<not> requires_confirmation result"

record AccessPolicyQuery =
  pq_subject_identity :: SubjectIdentity
  operation_target :: OperationTargetView
  pq_entry_type :: string
  pq_protocol_kind :: string
  pq_request_id :: string
  pq_session_id :: string
  pq_trace_id :: string
  pq_snapshot_fingerprint :: "SnapshotVersionFingerprint option"
  sensitive_request :: bool

definition query_has_consistent_values :: "AccessPolicyQuery \<Rightarrow> bool" where
  "query_has_consistent_values q \<longleftrightarrow>
     target_has_consistent_values (operation_target q) \<and> actor_ref (pq_subject_identity q) \<noteq> [] \<and>
     pq_entry_type q \<noteq> [] \<and> pq_protocol_kind q \<noteq> [] \<and> pq_request_id q \<noteq> []"

section \<open>Answers\<close>

definition gate_result ::
    "bool \<Rightarrow> bool \<Rightarrow> string \<Rightarrow> string \<Rightarrow> string \<Rightarrow> string \<Rightarrow> string option \<Rightarrow> AccessPolicyEvaluationResult" where
  "gate_result allow confirm decision decision_ref reason_code description why =
     \<lparr>pr_allowed = allow, requires_confirmation = confirm,
      pr_decision_proof =
        \<lparr>proof_decision = decision, policy_decision_ref = decision_ref, proof_reason_code = reason_code,
         reason_description = Some description, evaluated_at = Some ''policy-eval''\<rparr>,
      pr_reject_reason = why\<rparr>"

definition make_denied_result :: "string \<Rightarrow> string \<Rightarrow> AccessPolicyEvaluationResult" where
  "make_denied_result reason_code decision_ref =
     gate_result False False ''Deny'' decision_ref reason_code ''access policy gate denied request''
       (Some reason_code)"

definition make_confirmation_result :: "string \<Rightarrow> string \<Rightarrow> AccessPolicyEvaluationResult" where
  "make_confirmation_result reason_code decision_ref =
     gate_result False True ''RequireConfirmation'' decision_ref reason_code
       ''sensitive operation requires confirmation'' None"

definition make_allowed_result :: "string \<Rightarrow> AccessPolicyEvaluationResult" where
  "make_allowed_result decision_ref =
     gate_result True False ''Allow'' decision_ref ''allow_proof''
       ''explicit allow proof emitted by access policy gate'' None"

definition access_deny_ref :: string where
  "access_deny_ref = ''policy://access/deny''"

definition kAccessPolicyUnavailableRef :: string where
  "kAccessPolicyUnavailableRef = ''policy://access/backend-unavailable''"

section \<open>Evaluators\<close>

type_synonym policy_evaluator = "AccessPolicyQuery \<Rightarrow> AccessPolicyEvaluationResult"

definition snapshot_allows :: "PolicyBackendSnapshot \<Rightarrow> string \<Rightarrow> bool" where
  "snapshot_allows backend op \<longleftrightarrow>
     op = ''submit'' \<and> allow_submit backend \<or>
     op = ''task_query'' \<and> allow_task_query backend \<or>
     op = ''diagnostics_read'' \<and> allow_diagnostics backend \<or>
     op = ''runtime_override'' \<and> allow_override backend"

definition snapshot_evaluate :: "PolicyBackendSnapshot \<Rightarrow> policy_evaluator" where
  "snapshot_evaluate backend query =
     (if \<not> query_has_consistent_values query then
        make_denied_result ''malformed_policy_context'' access_deny_ref
      else if \<not> backend_available backend then
        make_denied_result ''policy_backend_unavailable'' access_deny_ref
      else if snapshot_allows backend (operation (operation_target query)) then
        make_allowed_result (pb_decision_ref backend)
      else if sensitive_request query \<and> require_confirmation_for_override backend then
        make_confirmation_result ''confirmation_required'' (pb_decision_ref backend)
      else make_denied_result ''authorization_denied'' (pb_decision_ref backend))"

datatype PolicyDecision =
    Policy_Unspecified | Policy_Allow | Policy_Deny | Policy_RequireConfirmation

record PolicyDecisionRef =
  pd_decision :: PolicyDecision
  pd_reason_code :: string
  matched_rule_ids :: "string list"
  pd_snapshot_id :: string
  pd_generation :: u64
  evidence_ref_text :: string

definition decision_is_valid :: "PolicyDecisionRef \<Rightarrow> bool" where
  "decision_is_valid d \<longleftrightarrow>
     pd_decision d \<noteq> Policy_Unspecified \<and> pd_reason_code d \<noteq> [] \<and> matched_rule_ids d \<noteq> [] \<and>
     pd_snapshot_id d \<noteq> [] \<and> pd_generation d > 0 \<and> evidence_ref_text d \<noteq> []"

record PolicyQueryContext =
  qc_module :: string
  qc_operation :: string
  qc_target_type :: string
  qc_target_ref :: string
  qc_actor_ref :: string
  qc_request_id :: string
  qc_session_id :: string
  qc_trace_id :: string
  qc_task_id :: string
  qc_profile_id :: string

type_synonym policy_manager = "PolicyQueryContext \<Rightarrow> PolicyDecisionRef"

definition build_policy_ref_from_decision :: "PolicyDecisionRef \<Rightarrow> string" where
  "build_policy_ref_from_decision d =
     ''policy://snapshots/'' @ pd_snapshot_id d @ ''?generation='' @
     to_string_nat (unat (pd_generation d)) @
     (case matched_rule_ids d of [] \<Rightarrow> [] | rule # _ \<Rightarrow> ''#'' @ rule)"

definition build_policy_module :: "AccessPolicyQuery \<Rightarrow> string" where
  "build_policy_module query = ''access.'' @ pq_entry_type query @ ''.'' @ pq_protocol_kind query"

fun policy_decision_name :: "PolicyDecision \<Rightarrow> string" where
  "policy_decision_name Policy_Allow = ''Allow''"
| "policy_decision_name Policy_Deny = ''Deny''"
| "policy_decision_name Policy_RequireConfirmation = ''RequireConfirmation''"
| "policy_decision_name Policy_Unspecified = []"

definition map_policy_manager_decision :: "PolicyDecisionRef \<Rightarrow> AccessPolicyEvaluationResult" where
  "map_policy_manager_decision d =
     (if \<not> decision_is_valid d then
        make_denied_result ''policy_backend_unavailable'' kAccessPolicyUnavailableRef
      else
        \<lparr>pr_allowed = (pd_decision d = Policy_Allow),
         requires_confirmation = (pd_decision d = Policy_RequireConfirmation),
         pr_decision_proof =
           \<lparr>proof_decision = policy_decision_name (pd_decision d),
            policy_decision_ref = build_policy_ref_from_decision d,
            proof_reason_code = pd_reason_code d, reason_description = Some (evidence_ref_text d),
            evaluated_at = Some ''policy-manager''\<rparr>,
         pr_reject_reason = (if pd_decision d = Policy_Deny then Some (pd_reason_code d) else None)\<rparr>)"

definition manager_query :: "AccessPolicyQuery \<Rightarrow> PolicyQueryContext" where
  "manager_query query =
     \<lparr>qc_module = build_policy_module query, qc_operation = operation (operation_target query),
      qc_target_type = target_type (operation_target query),
      qc_target_ref = target_ref (operation_target query),
      qc_actor_ref = actor_ref (pq_subject_identity query), qc_request_id = pq_request_id query,
      qc_session_id = pq_session_id query, qc_trace_id = pq_trace_id query,
      qc_task_id =
        (if target_type (operation_target query) = ''async_task''
         then target_ref (operation_target query) else ''unknown''),
      qc_profile_id =
        (case pq_snapshot_fingerprint query of
           None \<Rightarrow> ''unknown''
         | Some f \<Rightarrow> if effective_profile_id f = [] then ''unknown'' else effective_profile_id f)\<rparr>"

definition infra_evaluate :: "policy_manager \<Rightarrow> policy_evaluator" where
  "infra_evaluate manager query =
     (if \<not> query_has_consistent_values query then
        make_denied_result ''policy_backend_unavailable'' kAccessPolicyUnavailableRef
      else map_policy_manager_decision (manager (manager_query query)))"

section \<open>The gate\<close>

definition is_override_source_allowlisted :: "string \<Rightarrow> bool" where
  "is_override_source_allowlisted s \<longleftrightarrow> s \<in> {''ops_command'', ''diagnostics'', ''config_center_api''}"

definition is_local_trusted_daemon_subject :: "AccessPolicyEvaluationInput \<Rightarrow> bool" where
  "is_local_trusted_daemon_subject input \<longleftrightarrow>
     (if entry_type (pi_packet input) \<noteq> ''daemon'' then True
      else
        let subject = au_subject_identity (pi_authentication input)
        in auth_method subject = ''local_trusted'' \<and> actor_ref subject \<noteq> [] \<and>
           starts_with ''local://uid/'' (actor_ref subject))"

definition build_query_context ::
    "AccessPolicyEvaluationInput \<Rightarrow> string \<Rightarrow> string \<Rightarrow> string \<Rightarrow> bool \<Rightarrow> AccessPolicyQuery option" where
  "build_query_context input op kind ref sensitive =
     (let packet = pi_packet input; subject = au_subject_identity (pi_authentication input)
      in if op = [] \<or> kind = [] \<or> ref = [] \<or> actor_ref subject = [] \<or> entry_type packet = [] \<or>
            ip_protocol_kind packet = [] then None
         else Some
           \<lparr>pq_subject_identity = subject,
            operation_target = \<lparr>operation = op, target_type = kind, target_ref = ref\<rparr>,
            pq_entry_type = entry_type packet, pq_protocol_kind = ip_protocol_kind packet,
            pq_request_id = (if packet_id packet = [] then ''unknown'' else packet_id packet),
            pq_session_id = value_or (ip_session_hint packet) ''unknown'',
            pq_trace_id = value_or (ip_trace_id packet) ''unknown'',
            pq_snapshot_fingerprint = pi_snapshot_fingerprint input, sensitive_request = sensitive\<rparr>)"

definition evaluate_with_evaluator ::
    "AccessPolicyEvaluationInput \<Rightarrow> string \<Rightarrow> string \<Rightarrow> string \<Rightarrow> bool \<Rightarrow> bool \<Rightarrow>
     OverrideSourceFact option \<Rightarrow> policy_evaluator \<Rightarrow> AccessPolicyEvaluationResult" where
  "evaluate_with_evaluator input op kind ref sensitive require_local_trusted source_fact evaluator =
     (if \<not> au_authenticated (pi_authentication input) then
        make_denied_result ''authentication_required'' access_deny_ref
      else if (case source_fact of None \<Rightarrow> False
               | Some f \<Rightarrow> \<not> override_has_consistent_values f \<or>
                          \<not> is_override_source_allowlisted (source_type f)) then
        make_denied_result ''override_source_invalid'' access_deny_ref
      else if require_local_trusted \<and> \<not> is_local_trusted_daemon_subject input then
        make_denied_result ''daemon_peer_identity_required'' access_deny_ref
      else
        case build_query_context input op kind ref sensitive of
          None \<Rightarrow> make_denied_result ''malformed_policy_context'' access_deny_ref
        | Some query \<Rightarrow> evaluator query)"

definition evaluate_submit :: "policy_evaluator \<Rightarrow> AccessPolicyEvaluationInput \<Rightarrow> AccessPolicyEvaluationResult" where
  "evaluate_submit evaluator input =
     evaluate_with_evaluator input ''submit'' ''entry'' (entry_type (pi_packet input)) False False None evaluator"

definition evaluate_task_query ::
    "policy_evaluator \<Rightarrow> AccessPolicyEvaluationInput \<Rightarrow> string \<Rightarrow> AccessPolicyEvaluationResult" where
  "evaluate_task_query evaluator input task_ref =
     evaluate_with_evaluator input ''task_query'' ''async_task'' task_ref False False None evaluator"

definition evaluate_diagnostics_request ::
    "policy_evaluator \<Rightarrow> AccessPolicyEvaluationInput \<Rightarrow> string \<Rightarrow> AccessPolicyEvaluationResult" where
  "evaluate_diagnostics_request evaluator input command_name =
     evaluate_with_evaluator input ''diagnostics_read'' ''diagnostics_command'' command_name False True None
       evaluator"

definition evaluate_override_request ::
    "policy_evaluator \<Rightarrow> AccessPolicyEvaluationInput \<Rightarrow> OverrideSourceFact \<Rightarrow> AccessPolicyEvaluationResult" where
  "evaluate_override_request evaluator input source_fact =
     evaluate_with_evaluator input ''runtime_override'' ''runtime_policy_patch'' (packet_id (pi_packet input))
       True True (Some source_fact) evaluator"

text \<open>A gate without an evaluator, as the default constructor makes it, denies.\<close>

definition gate_submit ::
    "policy_evaluator option \<Rightarrow> AccessPolicyEvaluationInput \<Rightarrow> AccessPolicyEvaluationResult" where
  "gate_submit evaluator_opt input =
     (case evaluator_opt of
        None \<Rightarrow> make_denied_result ''policy_backend_unavailable'' access_deny_ref
      | Some evaluator \<Rightarrow> evaluate_submit evaluator input)"

section \<open>What an allow means\<close>

text \<open>
  What the gate asks of an evaluator: an allow carries an allow proof and asks for no
  confirmation, and is given for a complete query only.
\<close>

locale policy_backend =
  fixes evaluator :: policy_evaluator
  assumes allow_is_proved: "pr_allowed (evaluator q) \<Longrightarrow>
      proof_decision (pr_decision_proof (evaluator q)) = ''Allow'' \<and>
      \<not> requires_confirmation (evaluator q) \<and> query_has_consistent_values q"
    and answers_exclusive: "pr_reject_reason (evaluator q) \<noteq> None \<Longrightarrow> denied (evaluator q)"
begin

lemma submit_allowed:
  assumes "pr_allowed (evaluate_submit evaluator input)"
  shows "au_authenticated (pi_authentication input) \<and>
    proof_decision (pr_decision_proof (evaluate_submit evaluator input)) = ''Allow'' \<and>
    \<not> requires_confirmation (evaluate_submit evaluator input) \<and>
    (\<exists>q. build_query_context input ''submit'' ''entry'' (entry_type (pi_packet input)) False = Some q \<and>
      evaluate_submit evaluator input = evaluator q)"
  using assms allow_is_proved
  by (auto simp: evaluate_submit_def evaluate_with_evaluator_def make_denied_result_def gate_result_def
      split: option.splits if_splits)

lemma override_allowed:
  assumes "pr_allowed (evaluate_override_request evaluator input source_fact)"
  shows "au_authenticated (pi_authentication input) \<and> override_has_consistent_values source_fact \<and>
    is_override_source_allowlisted (source_type source_fact) \<and> is_local_trusted_daemon_subject input"
  using assms
  by (auto simp: evaluate_override_request_def evaluate_with_evaluator_def make_denied_result_def
      gate_result_def split: option.splits if_splits)

lemma gate_denies_with_reason:
  "pr_reject_reason (evaluate_submit evaluator input) \<noteq> None \<Longrightarrow> denied (evaluate_submit evaluator input)"
  using answers_exclusive
  by (auto simp: evaluate_submit_def evaluate_with_evaluator_def make_denied_result_def gate_result_def
      denied_def split: option.splits if_splits)

end

interpretation snapshot: policy_backend "snapshot_evaluate backend" for backend
  by unfold_locales
    (auto simp: snapshot_evaluate_def make_denied_result_def make_confirmation_result_def
      make_allowed_result_def gate_result_def denied_def split: if_splits)

interpretation infra: policy_backend "infra_evaluate manager" for manager
  by unfold_locales
    (auto simp: infra_evaluate_def map_policy_manager_decision_def make_denied_result_def
      gate_result_def denied_def split: if_splits)

lemma snapshot_allows_iff:
  "pr_allowed (snapshot_evaluate backend q) \<longleftrightarrow>
     query_has_consistent_values q \<and> backend_available backend \<and>
     snapshot_allows backend (operation (operation_target q))"
  by (simp add: snapshot_evaluate_def make_denied_result_def make_confirmation_result_def
      make_allowed_result_def gate_result_def)

lemma infra_allows_iff:
  "pr_allowed (infra_evaluate manager q) \<longleftrightarrow>
     query_has_consistent_values q \<and> decision_is_valid (manager (manager_query q)) \<and>
     pd_decision (manager (manager_query q)) = Policy_Allow"
  by (simp add: infra_evaluate_def map_policy_manager_decision_def make_denied_result_def gate_result_def)

text \<open>Of the snapshot evaluator nothing but the four known operations is allowed.\<close>

lemma snapshot_unknown_operation_denied:
  assumes "op \<notin> {''submit'', ''task_query'', ''diagnostics_read'', ''runtime_override''}"
  shows "\<not> pr_allowed (evaluate_with_evaluator input op kind ref sensitive local source_fact (snapshot_evaluate backend))"
  using assms
  by (auto simp: evaluate_with_evaluator_def snapshot_allows_iff snapshot_allows_def make_denied_result_def
      gate_result_def build_query_context_def Let_def split: option.splits)

end
