(* ===== verification/Access_Pipeline.thy ===== *)
theory Access_Pipeline
  imports Access_Knowledge Access_Policy Admission
begin

text \<open>
  The submit pipelines (\<^verbatim>\<open>access/src/AccessGatewayFactory.cpp\<close>): how resolver, authenticator,
  policy gate, validator, admission, normaliser, bridge, task registry and publisher are put
  together for the daemon and for the gateway, with the commands of the daemon (health, task
  status, cancel, diagnostics). A step takes a packet to the new state, the result, and the
  calls that left the access layer: requests handed to the runtime backend and cancels. The
  result is \<open>None\<close> when the backend throws, which nothing on the way catches. The knowledge
  command is an argument; observability events are left out.
\<close>

section \<open>State and settings\<close>

record PipelineState =
  ps_admission :: AdmissionController
  ps_registry :: AsyncTaskRegistry

record PipelineOptions =
  po_auth_view :: AccessAuthView
  po_validator :: RequestValidator
  po_bootstrap :: AccessBootstrapConfig
  po_fingerprint :: "SnapshotVersionFingerprint option"
  security_policy_manager :: "policy_manager option"
  policy_backend_available :: bool
  po_allow_submit :: bool
  runtime_dispatch_backend :: dispatch_backend
  runtime_cancel_backend :: "cancel_backend option"
  publish_backend :: "(PublishEnvelope \<Rightarrow> bool) option"

text \<open>The clock readings of a call.\<close>

record SubmitTimes =
  admit_ns :: int
  normalize_ms :: int
  receipt_clocks :: Clocks
  query_clocks :: Clocks
  owner_clocks :: Clocks
  cancel_clocks :: Clocks

record PipelineStep =
  step_state :: PipelineState
  step_result :: "RuntimeDispatchResult option"
  step_dispatched :: "RuntimeDispatchRequest list"
  step_cancelled :: "(string \<times> string) list"

definition answer :: "PipelineState \<Rightarrow> RuntimeDispatchResult \<Rightarrow> PipelineStep" where
  "answer s result =
     \<lparr>step_state = s, step_result = Some result, step_dispatched = [], step_cancelled = []\<rparr>"

definition make_replay_result :: "string option \<Rightarrow> RuntimeDispatchResult" where
  "make_replay_result receipt =
     \<lparr>rd_disposition = Access_AcceptedAsync, publish_envelope = None,
      rd_receipt_ref = Some (value_or receipt ''idempotency-replay''), subscription_ref = None,
      rd_error_ref = None, response_context = Map.empty\<rparr>"

section \<open>From an authorised packet to the runtime\<close>

definition project_packet_headers_to_request_context ::
    "InboundPacket \<Rightarrow> (string \<rightharpoonup> string) \<Rightarrow> string \<rightharpoonup> string" where
  "project_packet_headers_to_request_context packet context =
     (\<lambda>key. case headers packet key of
              None \<Rightarrow> context key
            | Some v \<Rightarrow> if key \<noteq> [] \<and> v \<noteq> [] then Some v else context key)"

definition packet_context :: "InboundPacket \<Rightarrow> string \<rightharpoonup> string" where
  "packet_context packet =
     (let context = [''request_id'' \<mapsto> packet_id packet];
          context = (if has_non_empty_value (ip_trace_id packet)
                     then context(''trace_id'' \<mapsto> the (ip_trace_id packet)) else context);
          context = (if has_non_empty_value (ip_session_hint packet)
                     then context(''session_id'' \<mapsto> the (ip_session_hint packet)) else context);
          context = project_packet_headers_to_request_context packet context
      in if context ''idempotency_key'' = None
         then context(''idempotency_key'' \<mapsto> packet_id packet) else context)"

definition build_runtime_request ::
    "InboundPacket \<Rightarrow> AuthenticationOutcome \<Rightarrow> AccessPolicyEvaluationResult \<Rightarrow> RuntimeDispatchRequest" where
  "build_runtime_request packet auth policy_result =
     \<lparr>dispatch_packet = packet, subject_identity = au_subject_identity auth,
      decision_proof = pr_decision_proof policy_result, agent_request = empty_agent_request,
      client_capability_view = [], async_allowed = async_preferred packet,
      stream_requested = ip_stream_requested packet, request_context = packet_context packet,
      access_deadline = None\<rparr>"

definition request_context_or_default :: "RuntimeDispatchRequest \<Rightarrow> string \<Rightarrow> string \<Rightarrow> string" where
  "request_context_or_default request key fallback =
     (let r = agent_request request
      in if key = ''request_id'' \<and> has_non_empty_value (aq_request_id r) then the (aq_request_id r)
         else if key = ''session_id'' \<and> has_non_empty_value (aq_session_id r) then the (aq_session_id r)
         else if key = ''trace_id'' \<and> has_non_empty_value (aq_trace_id r) then the (aq_trace_id r)
         else context_or_default request key fallback)"

definition accepted_envelope ::
    "RuntimeDispatchRequest \<Rightarrow> AsyncTaskReceipt \<Rightarrow> PublishEnvelope option \<Rightarrow> PublishEnvelope" where
  "accepted_envelope request receipt envelope_opt =
     (let request_id =
            request_context_or_default request ''request_id'' (packet_id (dispatch_packet request))
      in (value_or envelope_opt empty_envelope)
           \<lparr>pe_request_id := request_id, pe_result_id := receipt_id receipt,
            pe_session_id := request_context_or_default request ''session_id'' (''session:'' @ request_id),
            pe_trace_id := request_context_or_default request ''trace_id'' (''trace:'' @ request_id),
            channel_ref := entry_type (dispatch_packet request) @ ''://'' @
              ip_protocol_kind (dispatch_packet request),
            protocol_kind := ip_protocol_kind (dispatch_packet request),
            protocol_status_hint := ''202'', pe_payload := ''accepted_async'',
            pe_receipt := Some receipt\<rparr>)"

text \<open>The result with its receipt; \<open>None\<close> stands for the answer false.\<close>

definition attach_async_receipt ::
    "RuntimeDispatchResult \<Rightarrow> RuntimeDispatchRequest \<Rightarrow> AsyncTaskRegistry \<Rightarrow> Clocks \<Rightarrow>
     AsyncTaskRegistry \<times> RuntimeDispatchResult option" where
  "attach_async_receipt result request registry clocks =
     (if rd_disposition result \<noteq> Access_AcceptedAsync then (registry, Some result)
      else if \<not> registry_enabled registry then (registry, None)
      else
        case register_async_accept registry request result clocks of
          (registry', None) \<Rightarrow> (registry', None)
        | (registry', Some receipt) \<Rightarrow>
            (registry',
             Some (result\<lparr>rd_receipt_ref := Some (receipt_id receipt),
               publish_envelope :=
                 Some (accepted_envelope request receipt (publish_envelope result))\<rparr>)))"

definition publish_rejection ::
    "(PublishEnvelope \<Rightarrow> bool) option \<Rightarrow> RuntimeDispatchRequest \<Rightarrow> RuntimeDispatchResult \<Rightarrow>
     RuntimeDispatchResult" where
  "publish_rejection emit_opt request result =
     (case publish_envelope result of
        None \<Rightarrow> result
      | Some envelope \<Rightarrow>
          (case pe_agent_result envelope of
             None \<Rightarrow> result
           | Some agent_result \<Rightarrow>
               if rd_disposition result = Access_Rejected then
                 result\<lparr>publish_envelope :=
                   Some (pa_envelope (publish_attempt emit_opt request agent_result))\<rparr>
               else result))"

text \<open>After the backend has answered: the ticket is completed, a receipt registered.\<close>

definition finish_dispatch ::
    "PipelineOptions \<Rightarrow> SubmitTimes \<Rightarrow> PipelineState \<Rightarrow> string option \<Rightarrow> RuntimeDispatchRequest \<Rightarrow>
     RuntimeDispatchResult \<Rightarrow> PipelineState \<times> RuntimeDispatchResult" where
  "finish_dispatch options readings s ticket request result =
     (let admission =
            (case ticket of
               None \<Rightarrow> ps_admission s
             | Some t \<Rightarrow> record_completion (ps_admission s) t result)
      in case attach_async_receipt result request (ps_registry s) (receipt_clocks readings) of
           (registry, None) \<Rightarrow>
             (\<lparr>ps_admission = admission, ps_registry = registry\<rparr>,
              make_rejected_result AE_InternalError ''ownership_secret_unavailable'')
         | (registry, Some attached) \<Rightarrow>
             (\<lparr>ps_admission = admission, ps_registry = registry\<rparr>,
              publish_rejection (publish_backend options) request attached))"

definition dispatch_admitted ::
    "PipelineOptions \<Rightarrow> SubmitTimes \<Rightarrow> PipelineState \<Rightarrow> RuntimeDispatchRequest \<Rightarrow> string option \<Rightarrow>
     PipelineStep" where
  "dispatch_admitted options readings s request ticket =
     (case normalize (po_bootstrap options) request (normalize_ms readings) of
        Inl e \<Rightarrow>
          answer
            (s\<lparr>ps_admission :=
               (case ticket of None \<Rightarrow> ps_admission s | Some t \<Rightarrow> release_ticket (ps_admission s) t)\<rparr>)
            (make_rejected_result (ae_code e) (ae_reason e))
      | Inr normalized \<Rightarrow>
          (case dispatch (Some (runtime_dispatch_backend options)) (nz_runtime_request normalized) of
             (None, calls) \<Rightarrow>
               \<lparr>step_state = s, step_result = None, step_dispatched = calls, step_cancelled = []\<rparr>
           | (Some result, calls) \<Rightarrow>
               (case finish_dispatch options readings s ticket (nz_runtime_request normalized) result of
                  (s', finished) \<Rightarrow>
                    \<lparr>step_state = s', step_result = Some finished, step_dispatched = calls,
                     step_cancelled = []\<rparr>)))"

definition admission_rejection :: "AccessAdmissionResult \<Rightarrow> RuntimeDispatchResult" where
  "admission_rejection admission =
     (if replay_hit admission then make_replay_result (replay_receipt_ref admission)
      else make_rejected_result
        (if conflict_hit admission then AE_IdempotencyConflict else AE_AdmissionRejected)
        (value_or (ad_reject_reason admission) ''admission_rejected''))"

definition submit_authorised ::
    "PipelineOptions \<Rightarrow> SubmitTimes \<Rightarrow> PipelineState \<Rightarrow> RuntimeDispatchRequest \<Rightarrow> PipelineStep" where
  "submit_authorised options readings s request =
     (case validate_packet (po_validator options) request of
        Some e \<Rightarrow> answer s (make_rejected_result (ae_code e) (ae_reason e))
      | None \<Rightarrow>
          (case admit (ps_admission s) request (admit_ns readings) of
             (admission, verdict) \<Rightarrow>
               if \<not> admitted verdict then
                 answer (s\<lparr>ps_admission := admission\<rparr>) (admission_rejection verdict)
               else
                 dispatch_admitted options readings (s\<lparr>ps_admission := admission\<rparr>) request
                   (ticket_ref verdict)))"

section \<open>Authentication and policy\<close>

definition policy_input ::
    "PipelineOptions \<Rightarrow> InboundPacket \<Rightarrow> AuthenticationOutcome \<Rightarrow> AccessPolicyEvaluationInput" where
  "policy_input options packet auth =
     \<lparr>pi_authentication = auth, pi_packet = packet, pi_snapshot_fingerprint = po_fingerprint options\<rparr>"

definition submit_backend :: "PipelineOptions \<Rightarrow> PolicyBackendSnapshot" where
  "submit_backend options =
     default_policy_backend\<lparr>backend_available := policy_backend_available options,
       allow_submit := po_allow_submit options\<rparr>"

definition submit_evaluator :: "PipelineOptions \<Rightarrow> policy_evaluator" where
  "submit_evaluator options =
     (case security_policy_manager options of
        Some manager \<Rightarrow> infra_evaluate manager
      | None \<Rightarrow> snapshot_evaluate (submit_backend options))"

definition submit_policy ::
    "PipelineOptions \<Rightarrow> InboundPacket \<Rightarrow> AuthenticationOutcome \<Rightarrow> AccessPolicyEvaluationResult" where
  "submit_policy options packet auth =
     evaluate_submit (submit_evaluator options) (policy_input options packet auth)"

definition authentication_rejection :: "AuthenticationOutcome \<Rightarrow> RuntimeDispatchResult" where
  "authentication_rejection auth =
     (if auth_requires_challenge auth then
        make_rejected_result AE_AuthenticationChallengeRequired (ch_reason_code (the (au_challenge auth)))
      else make_rejected_result AE_AuthenticationFailed
        (value_or (failure_reason auth) ''authentication_failed''))"

text \<open>The rejection before the request is built, if there is one.\<close>

definition front_rejection ::
    "PipelineOptions \<Rightarrow> InboundPacket \<Rightarrow> AuthenticationOutcome \<Rightarrow> RuntimeDispatchResult option" where
  "front_rejection options packet auth =
     (if \<not> au_authenticated auth then Some (authentication_rejection auth)
      else
        let policy_result = submit_policy options packet auth
        in if requires_confirmation policy_result then
             Some (make_rejected_result AE_ConfirmationRequired
               (proof_reason_code (pr_decision_proof policy_result)))
           else if \<not> pr_allowed policy_result then
             Some (make_rejected_result AE_AuthorizationDenied
               (value_or (pr_reject_reason policy_result) ''authorization_denied''))
           else None)"

definition gateway_submit ::
    "PipelineOptions \<Rightarrow> SubmitTimes \<Rightarrow> PipelineState \<Rightarrow> InboundPacket \<Rightarrow> PipelineStep" where
  "gateway_submit options readings s packet =
     (let auth = gateway_authentication (po_auth_view options) packet
      in case front_rejection options packet auth of
           Some rejected \<Rightarrow> answer s rejected
         | None \<Rightarrow>
             submit_authorised options readings s
               (build_runtime_request packet auth (submit_policy options packet auth)))"

section \<open>Commands of the daemon\<close>

record DaemonOptions = PipelineOptions +
  daemon_listener_ready :: bool
  daemon_gateway_ready :: bool
  daemon_bridge_reachable :: bool
  daemon_diagnostics_enabled :: bool
  daemon_version :: string
  daemon_profile_id :: string
  daemon_runtime_readiness_label :: string
  daemon_runtime_degraded_reasons :: "string list"

definition health_input :: "DaemonOptions \<Rightarrow> DaemonHealthInput" where
  "health_input options =
     (let label = daemon_runtime_readiness_label options;
          reachable = (daemon_bridge_reachable options \<and> label \<noteq> ''stub-ready'')
      in \<lparr>lifecycle_ready = True, listener_ready = daemon_listener_ready options,
          gateway_ready = daemon_gateway_ready options, bridge_reachable = reachable,
          hi_diagnostics_enabled = daemon_diagnostics_enabled options,
          runtime_readiness_label = label,
          degraded_reasons =
            (if label = ''stub-ready'' then [''runtime_entrypoint_stub_ready'']
             else if label = ''degraded-ready'' then
               ''runtime_entrypoint_degraded_ready'' # daemon_runtime_degraded_reasons options
             else []) @
            (if reachable then [] else [''runtime_bridge_unreachable''])\<rparr>)"

definition ping_body :: "DaemonOptions \<Rightarrow> string \<Rightarrow> string" where
  "ping_body options request_id =
     ''{'' @ comma_join
       [quoted_field ''daemon_version'' (daemon_version options), quoted_field ''schema_version'' ''1'',
        quoted_field ''profile_id'' (daemon_profile_id options), quoted_field ''request_id'' request_id,
        quoted_field ''readiness''
          (to_readiness_string (resolve_readiness_state (health_input options)))] @ ''}''"

definition make_ping_dispatch_result :: "DaemonOptions \<Rightarrow> InboundPacket \<Rightarrow> RuntimeDispatchResult" where
  "make_ping_dispatch_result options packet =
     command_result Access_Completed None (packet_envelope packet ''200'' (ping_body options (packet_id packet)))"

definition make_readiness_dispatch_result :: "DaemonOptions \<Rightarrow> InboundPacket \<Rightarrow> RuntimeDispatchResult" where
  "make_readiness_dispatch_result options packet =
     (let input = health_input options
      in if resolve_readiness_state input = Daemon_NotReady
         then command_result Access_Rejected (Some ''daemon_not_ready'')
                (packet_envelope packet ''503'' (readiness_body input))
         else command_result Access_Completed None (packet_envelope packet ''200'' (readiness_body input)))"

definition diag_policy ::
    "PipelineOptions \<Rightarrow> InboundPacket \<Rightarrow> AuthenticationOutcome \<Rightarrow> string \<Rightarrow> AccessPolicyEvaluationResult" where
  "diag_policy options packet auth command_name =
     evaluate_diagnostics_request
       (case security_policy_manager options of
          Some manager \<Rightarrow> infra_evaluate manager
        | None \<Rightarrow>
            snapshot_evaluate
              ((submit_backend options)\<lparr>allow_submit := False, allow_diagnostics := True\<rparr>))
       (policy_input options packet auth) command_name"

definition diag_command ::
    "DaemonOptions \<Rightarrow> diagnostics_service option \<Rightarrow> InboundPacket \<Rightarrow> AuthenticationOutcome \<Rightarrow>
     RuntimeDispatchResult" where
  "diag_command options service_opt packet auth =
     (case parse_diag_payload (ip_payload packet) of
        None \<Rightarrow> make_rejected_result AE_ValidationRejected ''diag_command_invalid''
      | Some command_name \<Rightarrow>
          let policy_result =
                diag_policy (PipelineOptions.truncate options) packet auth command_name
          in if \<not> pr_allowed policy_result then
               make_rejected_result AE_AuthorizationDenied
                 (value_or (pr_reject_reason policy_result) ''diag_command_denied'')
             else
               handle_diag (daemon_diagnostics_enabled options) service_opt command_name
                 (packet_id packet) (actor_ref (au_subject_identity auth)))"

subsection \<open>The pipeline of the daemon\<close>

definition status_command ::
    "SubmitTimes \<Rightarrow> PipelineState \<Rightarrow> InboundPacket \<Rightarrow> PipelineStep" where
  "status_command readings s packet =
     (case parse_status_query_payload (ip_payload packet) of
        None \<Rightarrow> answer s (make_rejected_result AE_ValidationRejected ''status_query_payload_invalid'')
      | Some query \<Rightarrow>
          (case handle_status (ps_registry s) (sq_receipt_ref query)
                  \<lparr>owner_actor_ref = sq_actor_ref query, owner_token = sq_ownership_token query\<rparr>
                  (query_clocks readings) (owner_clocks readings) of
             (registry, result) \<Rightarrow>
               answer (s\<lparr>ps_registry := registry\<rparr>)
                 (make_status_dispatch_result result (packet_id packet))))"

definition cancel_command ::
    "PipelineOptions \<Rightarrow> SubmitTimes \<Rightarrow> PipelineState \<Rightarrow> InboundPacket \<Rightarrow> AuthenticationOutcome \<Rightarrow>
     PipelineStep" where
  "cancel_command options readings s packet auth =
     (case parse_status_query_payload (ip_payload packet) of
        None \<Rightarrow> answer s (make_rejected_result AE_ValidationRejected ''cancel_query_payload_invalid'')
      | Some query \<Rightarrow>
          (case handle_cancel (ps_registry s) (sq_receipt_ref query)
                  \<lparr>owner_actor_ref = actor_ref (au_subject_identity auth),
                   owner_token = sq_ownership_token query\<rparr>
                  (Some (bridge_cancel (runtime_cancel_backend options)))
                  (query_clocks readings) (owner_clocks readings) (cancel_clocks readings) of
             (registry, calls, result) \<Rightarrow>
               \<lparr>step_state = s\<lparr>ps_registry := registry\<rparr>,
                step_result = Some (make_cancel_dispatch_result result (packet_id packet)),
                step_dispatched = [],
                step_cancelled = (if runtime_cancel_backend options = None then [] else calls)\<rparr>))"

definition daemon_submit ::
    "DaemonOptions \<Rightarrow> diagnostics_service option \<Rightarrow> KnowledgeService option \<Rightarrow>
     SubmitTimes \<Rightarrow> PipelineState \<Rightarrow> InboundPacket \<Rightarrow> PipelineStep" where
  "daemon_submit options service_opt knowledge readings s packet =
     (let command = packet_id packet; base = PipelineOptions.truncate options
      in if command = ''ping'' then answer s (make_ping_dispatch_result options packet)
         else if command = ''readiness'' then answer s (make_readiness_dispatch_result options packet)
         else if command = ''status'' then status_command readings s packet
         else if command = ''unknown'' \<or> command = ''unknown_command'' then
           answer s (make_rejected_result AE_ValidationRejected ''unknown_command'')
         else
           let auth = daemon_authentication (po_auth_view options) packet
           in case front_rejection base packet auth of
                Some rejected \<Rightarrow> answer s rejected
              | None \<Rightarrow>
                  if command = ''knowledge'' then answer s (knowledge_command knowledge packet)
                  else if command = ''diag'' \<or> command = ''diagnostics'' then
                    answer s (diag_command options service_opt packet auth)
                  else if command = ''cancel'' then cancel_command base readings s packet auth
                  else
                    submit_authorised base readings s
                      (build_runtime_request packet auth (submit_policy base packet auth)))"

end
