(* ===== verification/Pipeline_Safety.thy ===== *)
theory Pipeline_Safety
  imports Access_Pipeline
begin

text \<open>
  What the submit pipelines promise: which packets reach the runtime backend, that no request
  reaches it twice within its idempotency window, that a ticket in flight outlives its call only
  when the backend threw, and who can make the daemon call the cancel backend. The two pipelines
  share the locale \<open>submit_pipeline\<close>: a call either answers by itself, admission untouched, or
  submits one authorised request.
\<close>

section \<open>One authorised request\<close>

lemma normalized_request:
  assumes "normalize config request now_ms = Inr out"
  shows "dispatch_packet (nz_runtime_request out) = dispatch_packet request"
    "subject_identity (nz_runtime_request out) = subject_identity request"
    "decision_proof (nz_runtime_request out) = decision_proof request"
    "build_idempotency_signature (nz_runtime_request out) = build_idempotency_signature request"
  using assms
  by (auto simp: normalize_def build_idempotency_signature_def Let_def split: if_splits option.splits)

lemma dispatched_request:
  assumes "r \<in> set (snd (dispatch backend_opt request))"
  shows "r = request \<and> snd (dispatch backend_opt request) = [request] \<and>
    proof_decision (decision_proof request) = ''Allow'' \<and>
    ok (validate_agent_request_field_rules (agent_request request)) \<and> backend_opt \<noteq> None"
  using assms
  by (auto simp: dispatch_def dispatch_reject_def Let_def split: if_splits option.splits)

lemma dispatch_admitted_calls:
  assumes "r \<in> set (step_dispatched (dispatch_admitted options readings s request ticket))"
  shows "step_dispatched (dispatch_admitted options readings s request ticket) = [r] \<and>
    (\<exists>out. normalize (po_bootstrap options) request (normalize_ms readings) = Inr out \<and>
       r = nz_runtime_request out \<and> proof_decision (decision_proof r) = ''Allow'' \<and>
       ok (validate_agent_request_field_rules (agent_request r)))"
proof (cases "normalize (po_bootstrap options) request (normalize_ms readings)")
  case (Inl e)
  with assms show ?thesis by (auto simp: dispatch_admitted_def answer_def)
next
  case (Inr out)
  then have calls: "step_dispatched (dispatch_admitted options readings s request ticket) =
      snd (dispatch (Some (runtime_dispatch_backend options)) (nz_runtime_request out))"
    by (auto simp: dispatch_admitted_def split: prod.split option.split)
  with assms Inr dispatched_request [of r] show ?thesis by auto
qed

text \<open>The calls a submitted request makes on the admission controller.\<close>

inductive admission_calls ::
    "AdmissionController \<Rightarrow> RuntimeDispatchRequest \<Rightarrow> int \<Rightarrow> AdmissionCall list \<Rightarrow> bool"
  for s request now
where
  invalid: "admission_calls s request now []"
| admit_only: "admission_calls s request now [Ac_Admit request now]"
| released: "ticket_ref (snd (admit s request now)) = Some k \<Longrightarrow> admitted (snd (admit s request now)) \<Longrightarrow>
    admission_calls s request now [Ac_Admit request now, Ac_Release k]"
| recorded: "ticket_ref (snd (admit s request now)) = Some k \<Longrightarrow> admitted (snd (admit s request now)) \<Longrightarrow>
    admission_calls s request now [Ac_Admit request now, Ac_Complete k result]"

lemma admitted_ticket:
  assumes "admitted (snd (admit s request now))"
  shows "ticket_ref (snd (admit s request now)) =
    Some (''ticket-'' @ to_string_nat (unat (ticket_counter s + 1)))"
  using assms
  by (auto simp: admit_def Let_def acquire_inflight_ticket_def check_idempotency_def conflict_result_def
      replay_result_def empty_admission_result_def split: if_splits option.splits)

lemma finish_admission:
  "ps_admission (fst (finish_dispatch options readings s (Some k) request result)) =
     record_completion (ps_admission s) k result"
  by (auto simp: finish_dispatch_def Let_def split: prod.split option.split)

text \<open>A call that returns ends with the ticket released or completed.\<close>

lemma dispatch_admitted_admission:
  obtains (released) "ps_admission (step_state (dispatch_admitted options readings s request (Some k))) =
      release_ticket (ps_admission s) k"
    "step_dispatched (dispatch_admitted options readings s request (Some k)) = []"
    "step_result (dispatch_admitted options readings s request (Some k)) \<noteq> None"
  | (recorded) result where
      "ps_admission (step_state (dispatch_admitted options readings s request (Some k))) =
         record_completion (ps_admission s) k result"
      "step_result (dispatch_admitted options readings s request (Some k)) \<noteq> None"
  | (thrown) "step_state (dispatch_admitted options readings s request (Some k)) = s"
      "step_result (dispatch_admitted options readings s request (Some k)) = None"
proof (cases "normalize (po_bootstrap options) request (normalize_ms readings)")
  case (Inl e)
  then show ?thesis by (intro released) (simp_all add: dispatch_admitted_def answer_def)
next
  case (Inr out)
  obtain result calls where d: "dispatch (Some (runtime_dispatch_backend options)) (nz_runtime_request out) =
      (result, calls)" by fastforce
  show ?thesis
  proof (cases result)
    case None
    with Inr d show ?thesis by (intro thrown) (simp_all add: dispatch_admitted_def)
  next
    case (Some r)
    obtain s' finished where f: "finish_dispatch options readings s (Some k) (nz_runtime_request out) r =
        (s', finished)" by fastforce
    with finish_admission [of options readings s k "nz_runtime_request out" r] Inr d Some show ?thesis
      by (intro recorded [of r]) (simp_all add: dispatch_admitted_def)
  qed
qed

lemma submit_admission:
  obtains cs where "admission_calls (ps_admission s) request (admit_ns readings) cs"
    "ps_admission (step_state (submit_authorised options readings s request)) =
       foldl admission_step (ps_admission s) cs"
    "step_dispatched (submit_authorised options readings s request) \<noteq> [] \<Longrightarrow>
       admitted (snd (admit (ps_admission s) request (admit_ns readings)))"
    "step_result (submit_authorised options readings s request) \<noteq> None \<Longrightarrow>
       cs = [Ac_Admit request (admit_ns readings)] \<Longrightarrow>
       \<not> admitted (snd (admit (ps_admission s) request (admit_ns readings)))"
    "\<And>k. step_dispatched (submit_authorised options readings s request) \<noteq> [] \<Longrightarrow>
       cs \<noteq> [Ac_Admit request (admit_ns readings), Ac_Release k]"
    "step_dispatched (submit_authorised options readings s request) \<noteq> [] \<Longrightarrow> cs \<noteq> []"
proof (cases "validate_packet (po_validator options) request")
  case (Some e)
  then show ?thesis
    by (intro that [of "[]"]) (simp_all add: submit_authorised_def answer_def admission_calls.intros)
next
  case None
  obtain a v where a: "admit (ps_admission s) request (admit_ns readings) = (a, v)" by fastforce
  show ?thesis
  proof (cases "admitted v")
    case False
    with None a show ?thesis
      by (intro that [of "[Ac_Admit request (admit_ns readings)]"])
        (simp_all add: submit_authorised_def answer_def admission_calls.intros)
  next
    case True
    then obtain k where k: "ticket_ref v = Some k"
      using admitted_ticket [of "ps_admission s" request "admit_ns readings"] a by simp
    have sub: "submit_authorised options readings s request =
        dispatch_admitted options readings (s\<lparr>ps_admission := a\<rparr>) request (Some k)"
      using None a True k by (simp add: submit_authorised_def)
    show ?thesis
    proof (cases rule: dispatch_admitted_admission [of options readings "s\<lparr>ps_admission := a\<rparr>" request k])
      case released
      with a k True sub show ?thesis
        by (intro that [of "[Ac_Admit request (admit_ns readings), Ac_Release k]"])
          (simp_all add: admission_calls.intros)
    next
      case (recorded result)
      with a k True sub show ?thesis
        by (intro that [of "[Ac_Admit request (admit_ns readings), Ac_Complete k result]"])
          (simp_all add: admission_calls.intros)
    next
      case thrown
      with a k True sub show ?thesis
        by (intro that [of "[Ac_Admit request (admit_ns readings)]"])
          (simp_all add: admission_calls.intros)
    qed
  qed
qed

section \<open>Pipelines\<close>

type_synonym submit = "SubmitTimes \<Rightarrow> PipelineState \<Rightarrow> InboundPacket \<Rightarrow> PipelineStep"

text \<open>The steps of a sequence of calls, and the state they leave.\<close>

fun serve :: "submit \<Rightarrow> PipelineState \<Rightarrow> (SubmitTimes \<times> InboundPacket) list \<Rightarrow> PipelineStep list" where
  "serve submit s [] = []"
| "serve submit s ((readings, packet) # calls) =
     submit readings s packet # serve submit (step_state (submit readings s packet)) calls"

fun served :: "submit \<Rightarrow> PipelineState \<Rightarrow> (SubmitTimes \<times> InboundPacket) list \<Rightarrow> PipelineState" where
  "served submit s [] = s"
| "served submit s ((readings, packet) # calls) =
     served submit (step_state (submit readings s packet)) calls"

lemma admitted_inflight:
  assumes "admitted (snd (admit s request now))" "ticket_ref (snd (admit s request now)) = Some k"
  shows "AList.delete k (inflight_tickets (fst (admit s request now))) = AList.delete k (inflight_tickets s)"
    "map_of (inflight_tickets (fst (admit s request now))) k \<noteq> None"
    "length (inflight_tickets (fst (admit s request now))) \<le> Suc (length (inflight_tickets s))"
  using assms
  by (auto simp: admit_def Let_def acquire_inflight_ticket_def check_idempotency_def conflict_result_def
      replay_result_def empty_admission_result_def update_conv' length_alist_update delete_update_same
      split: if_splits option.splits)

lemma refused_inflight:
  "\<not> admitted (snd (admit s request now)) \<Longrightarrow>
     inflight_tickets (fst (admit s request now)) = inflight_tickets s"
  by (auto simp: admit_def Let_def empty_admission_result_def split: if_splits option.splits prod.splits)

lemma ended_inflight:
  assumes "map_of (inflight_tickets a) k \<noteq> None"
  shows "inflight_tickets (release_ticket a k) = AList.delete k (inflight_tickets a)"
    "inflight_tickets (record_completion a k result) = AList.delete k (inflight_tickets a)"
  using assms
  by (auto simp: release_ticket_def release_inflight_ticket_def record_completion_def Let_def
      split: option.splits)

lemma submitted_inflight:
  "length (inflight_tickets (ps_admission (step_state (submit_authorised options readings s request)))) \<le>
     length (inflight_tickets (ps_admission s)) +
     (if step_result (submit_authorised options readings s request) = None then 1 else 0)"
proof (rule submit_admission [of s request readings options])
  let ?step = "submit_authorised options readings s request"
  let ?admit = "admit (ps_admission s) request (admit_ns readings)"
  fix cs
  assume calls: "admission_calls (ps_admission s) request (admit_ns readings) cs"
    and after: "ps_admission (step_state ?step) = foldl admission_step (ps_admission s) cs"
    and refused: "step_result ?step \<noteq> None \<Longrightarrow> cs = [Ac_Admit request (admit_ns readings)] \<Longrightarrow>
      \<not> admitted (snd ?admit)"
  from calls show ?thesis
  proof cases
    case invalid
    with after show ?thesis by simp
  next
    case admit_only
    with after refused refused_inflight [of "ps_admission s" request "admit_ns readings"]
      inflight_step [of "ps_admission s" "Ac_Admit request (admit_ns readings)"]
    show ?thesis by auto
  next
    case (released k)
    with after admitted_inflight [of "ps_admission s" request "admit_ns readings" k]
    show ?thesis
      using length_alist_delete [of k "inflight_tickets (ps_admission s)"] by (simp add: ended_inflight)
  next
    case (recorded k result)
    with after admitted_inflight [of "ps_admission s" request "admit_ns readings" k]
    show ?thesis
      using length_alist_delete [of k "inflight_tickets (ps_admission s)"] by (simp add: ended_inflight)
  qed
qed

text \<open>A followed signature is not admitted, and stays followed.\<close>

lemma followed_refused:
  assumes "follows (build_idempotency_signature request) k t1 outcome s" and "now \<le> t1"
  shows "\<not> admitted (snd (admit s request now))"
  using follows_check [OF follows_prune [OF assms] assms(2)]
  by (auto simp: admit_def Let_def empty_admission_result_def conflict_result_def replay_result_def
      split: option.splits)

lemma fresh_ticket:
  assumes "follows sig k t1 outcome s" and "unat (ticket_counter s) + 1 < 2 ^ 64"
    and "admitted (snd (admit s request now))" and "ticket_ref (snd (admit s request now)) = Some k'"
  shows "k' \<noteq> k"
  using assms admitted_ticket [OF assms(3)] unat_counter_step [OF assms(2)] by (auto simp: follows_def)

lemma followed_calls:
  assumes "admission_calls s request now cs" and "follows sig k t1 outcome s" and "now \<le> t1"
    and "unat (ticket_counter s) + 1 < 2 ^ 64"
  shows "follows sig k t1 outcome (foldl admission_step s cs)"
  using assms(1)
proof cases
  case (released k')
  with fresh_ticket [OF assms(2,4)] follows_release [OF follows_admit [OF assms(2-4)]]
  show ?thesis by simp
next
  case (recorded k' result)
  with fresh_ticket [OF assms(2,4)] follows_complete_other [OF follows_admit [OF assms(2-4)]]
  show ?thesis by simp
qed (use assms follows_admit [OF assms(2-4)] in simp_all)

lemma counter_calls:
  assumes "admission_calls s request now cs"
  shows "unat (ticket_counter (foldl admission_step s cs)) \<le> unat (ticket_counter s) + 1"
  using assms counter_step [of s "Ac_Admit request now"]
  by cases (auto simp: release_ticket_def release_inflight_ticket_def record_completion_def Let_def
      split: option.split)

text \<open>A dispatched request was admitted, and starts to be followed.\<close>

lemma dispatched_signature:
  assumes "r \<in> set (step_dispatched (submit_authorised options readings s request))"
  shows "build_idempotency_signature r = build_idempotency_signature request"
  using assms dispatch_admitted_calls normalized_request(4)
  by (fastforce simp: submit_authorised_def answer_def split: option.splits prod.splits if_splits)

lemma dispatched_follows:
  assumes "step_dispatched (submit_authorised options readings s request) \<noteq> []"
    and "\<forall>(k', it)\<in>set (inflight_tickets (ps_admission s)).
      it_signature it \<noteq> build_idempotency_signature request"
    and "unat (ticket_counter (ps_admission s)) + 1 < 2 ^ 64"
  shows "\<exists>k outcome. follows (build_idempotency_signature request) k
    (window_end (ps_admission s) (admit_ns readings)) outcome
    (ps_admission (step_state (submit_authorised options readings s request)))"
proof (rule submit_admission [of s request readings options])
  let ?step = "submit_authorised options readings s request"
  let ?admit = "admit (ps_admission s) request (admit_ns readings)"
  let ?t1 = "window_end (ps_admission s) (admit_ns readings)"
  fix cs
  assume calls: "admission_calls (ps_admission s) request (admit_ns readings) cs"
    and after: "ps_admission (step_state ?step) = foldl admission_step (ps_admission s) cs"
    and adm: "step_dispatched ?step \<noteq> [] \<Longrightarrow> admitted (snd ?admit)"
    and unreleased: "\<And>k. step_dispatched ?step \<noteq> [] \<Longrightarrow>
      cs \<noteq> [Ac_Admit request (admit_ns readings), Ac_Release k]"
    and nonempty: "step_dispatched ?step \<noteq> [] \<Longrightarrow> cs \<noteq> []"
  obtain k where k: "ticket_ref (snd ?admit) = Some k"
    "follows (build_idempotency_signature request) k ?t1 None (fst ?admit)"
    using admitted_follows [of "ps_admission s" request "admit_ns readings" "fst ?admit" "snd ?admit"]
      adm assms by auto
  from calls show ?thesis
  proof cases
    case admit_only
    with k after show ?thesis by auto
  next
    case (recorded k' result)
    with k after follows_complete_self [OF k(2)] show ?thesis by auto
  qed (use assms(1) unreleased nonempty in auto)
qed

locale submit_pipeline =
  fixes submit :: submit and options :: PipelineOptions
  assumes answers_or_submits:
    "ps_admission (step_state (submit readings s packet)) = ps_admission s \<and>
     step_dispatched (submit readings s packet) = [] \<and> step_result (submit readings s packet) \<noteq> None \<or>
     (\<exists>request. submit readings s packet = submit_authorised options readings s request)"
begin

lemma inflight_grows:
  "length (inflight_tickets (ps_admission (step_state (submit readings s packet)))) \<le>
     length (inflight_tickets (ps_admission s)) +
     (if step_result (submit readings s packet) = None then 1 else 0)"
  using answers_or_submits [of readings s packet] submitted_inflight by fastforce

lemma inflight_only_by_throws:
  "length (inflight_tickets (ps_admission (served submit s calls))) \<le>
     length (inflight_tickets (ps_admission s)) +
     length (filter (\<lambda>step. step_result step = None) (serve submit s calls))"
proof (induction calls arbitrary: s)
  case (Cons call calls)
  obtain readings packet where call: "call = (readings, packet)" by fastforce
  show ?case
    using Cons [of "step_state (submit readings s packet)"] inflight_grows [of readings s packet] call
    by (auto split: if_splits)
qed simp

lemma counter_grows:
  "unat (ticket_counter (ps_admission (step_state (submit readings s packet)))) \<le>
     unat (ticket_counter (ps_admission s)) + 1"
proof (cases "ps_admission (step_state (submit readings s packet)) = ps_admission s")
  case False
  then obtain request where sub: "submit readings s packet = submit_authorised options readings s request"
    using answers_or_submits [of readings s packet] by blast
  show ?thesis
  proof (rule submit_admission [of s request readings options])
    fix cs
    assume "admission_calls (ps_admission s) request (admit_ns readings) cs"
      and "ps_admission (step_state (submit_authorised options readings s request)) =
        foldl admission_step (ps_admission s) cs"
    then show ?thesis using counter_calls sub by simp
  qed
qed simp

lemma followed_step:
  assumes "follows sig k t1 outcome (ps_admission s)" and "admit_ns readings \<le> t1"
    and "unat (ticket_counter (ps_admission s)) + 1 < 2 ^ 64"
  shows "follows sig k t1 outcome (ps_admission (step_state (submit readings s packet))) \<and>
    (\<forall>r\<in>set (step_dispatched (submit readings s packet)). build_idempotency_signature r \<noteq> sig)"
proof -
  consider (same) "ps_admission (step_state (submit readings s packet)) = ps_admission s"
      "step_dispatched (submit readings s packet) = []"
    | (submits) request where "submit readings s packet = submit_authorised options readings s request"
    using answers_or_submits [of readings s packet] by blast
  then show ?thesis
  proof cases
    case same
    with assms show ?thesis by simp
  next
    case (submits request)
    show ?thesis
    proof (rule submit_admission [of s request readings options])
      fix cs
      assume cs: "admission_calls (ps_admission s) request (admit_ns readings) cs"
        "ps_admission (step_state (submit_authorised options readings s request)) =
           foldl admission_step (ps_admission s) cs"
        and adm: "step_dispatched (submit_authorised options readings s request) \<noteq> [] \<Longrightarrow>
          admitted (snd (admit (ps_admission s) request (admit_ns readings)))"
      have "build_idempotency_signature r \<noteq> sig"
        if "r \<in> set (step_dispatched (submit_authorised options readings s request))" for r
        using dispatched_signature [OF that] adm followed_refused assms(1,2) that
        by (metis empty_iff list.set(1))
      with cs submits followed_calls [OF cs(1) assms] show ?thesis by simp
    qed
  qed
qed

lemma followed_run:
  assumes "follows sig k t1 outcome (ps_admission s)" and "\<forall>(readings, packet)\<in>set calls. admit_ns readings \<le> t1"
    and "unat (ticket_counter (ps_admission s)) + length calls < 2 ^ 64"
    and "step \<in> set (serve submit s calls)" and "r \<in> set (step_dispatched step)"
  shows "build_idempotency_signature r \<noteq> sig"
  using assms
proof (induction calls arbitrary: s)
  case (Cons call calls)
  obtain readings packet where call: "call = (readings, packet)" by fastforce
  have now: "admit_ns readings \<le> t1" using Cons.prems(2) call by auto
  have room: "unat (ticket_counter (ps_admission s)) + 1 < 2 ^ 64" using Cons.prems(3) by simp
  note f = followed_step [OF Cons.prems(1) now room, of packet]
  show ?case
  proof (cases "step = submit readings s packet")
    case True
    with f Cons.prems(5) show ?thesis by blast
  next
    case False
    have "unat (ticket_counter (ps_admission (step_state (submit readings s packet)))) + length calls < 2 ^ 64"
      using counter_grows [of readings s packet] Cons.prems(3) by simp
    moreover have "step \<in> set (serve submit (step_state (submit readings s packet)) calls)"
      using Cons.prems(4) False call by auto
    ultimately show ?thesis
      using Cons.IH [of "step_state (submit readings s packet)"] f Cons.prems(2,5) by auto
  qed
qed simp

lemma dispatched_once:
  assumes "r \<in> set (step_dispatched (submit readings s packet))"
    and "\<forall>(k', it)\<in>set (inflight_tickets (ps_admission s)). it_signature it \<noteq> build_idempotency_signature r"
    and "\<forall>(readings', packet')\<in>set calls.
      admit_ns readings' \<le> window_end (ps_admission s) (admit_ns readings)"
    and "unat (ticket_counter (ps_admission s)) + length calls + 1 < 2 ^ 64"
    and "step \<in> set (serve submit (step_state (submit readings s packet)) calls)"
    and "r' \<in> set (step_dispatched step)"
  shows "build_idempotency_signature r' \<noteq> build_idempotency_signature r"
proof -
  obtain request where sub: "submit readings s packet = submit_authorised options readings s request"
    using answers_or_submits [of readings s packet] assms(1) by auto
  with assms(1) have sig: "build_idempotency_signature r = build_idempotency_signature request"
    by (simp add: dispatched_signature)
  have "step_dispatched (submit_authorised options readings s request) \<noteq> []"
    using assms(1) sub by auto
  from dispatched_follows [OF this] assms(2,4) obtain k outcome
    where "follows (build_idempotency_signature r) k (window_end (ps_admission s) (admit_ns readings)) outcome
      (ps_admission (step_state (submit readings s packet)))"
    by (auto simp: sub sig)
  moreover have "unat (ticket_counter (ps_admission (step_state (submit readings s packet)))) + length calls < 2 ^ 64"
    using counter_grows [of readings s packet] assms(4) by simp
  ultimately show ?thesis using followed_run assms(3,5,6) by blast
qed

end

interpretation gateway: submit_pipeline "gateway_submit options" options for options
  by unfold_locales (auto simp: gateway_submit_def Let_def answer_def split: option.split)

lemma answer_parts [simp]:
  "step_state (answer s result) = s" "step_result (answer s result) = Some result"
  "step_dispatched (answer s result) = []" "step_cancelled (answer s result) = []"
  by (simp_all add: answer_def)

lemma status_command_parts [simp]:
  "ps_admission (step_state (status_command readings s packet)) = ps_admission s"
  "step_result (status_command readings s packet) \<noteq> None"
  "step_dispatched (status_command readings s packet) = []"
  "step_cancelled (status_command readings s packet) = []"
  by (simp_all add: status_command_def split: option.split prod.split)

lemma cancel_command_parts [simp]:
  "ps_admission (step_state (cancel_command options readings s packet auth)) = ps_admission s"
  "step_result (cancel_command options readings s packet auth) \<noteq> None"
  "step_dispatched (cancel_command options readings s packet auth) = []"
  by (simp_all add: cancel_command_def split: option.split prod.split)

text \<open>The four ways a packet is served.\<close>

lemma daemon_submit_cases:
  obtains (answered) result where "daemon_submit options diagnostics knowledge readings s packet = answer s result"
  | (status) "packet_id packet = ''status''"
      "daemon_submit options diagnostics knowledge readings s packet = status_command readings s packet"
  | (cancel) "packet_id packet = ''cancel''"
      "front_rejection (PipelineOptions.truncate options) packet
         (daemon_authentication (po_auth_view options) packet) = None"
      "daemon_submit options diagnostics knowledge readings s packet =
         cancel_command (PipelineOptions.truncate options) readings s packet
           (daemon_authentication (po_auth_view options) packet)"
  | (submits)
      "front_rejection (PipelineOptions.truncate options) packet
         (daemon_authentication (po_auth_view options) packet) = None"
      "daemon_submit options diagnostics knowledge readings s packet =
         submit_authorised (PipelineOptions.truncate options) readings s
           (build_runtime_request packet (daemon_authentication (po_auth_view options) packet)
             (submit_policy (PipelineOptions.truncate options) packet
               (daemon_authentication (po_auth_view options) packet)))"
proof (cases "packet_id packet \<in> {''ping'', ''readiness'', ''status'', ''unknown'', ''unknown_command''}")
  case True
  with answered status show ?thesis by (auto simp: daemon_submit_def Let_def)
next
  case False
  note other = this
  show ?thesis
  proof (cases "front_rejection (PipelineOptions.truncate options) packet
      (daemon_authentication (po_auth_view options) packet)")
    case (Some rejected)
    with other answered show ?thesis by (simp add: daemon_submit_def Let_def)
  next
    case None
    with other answered cancel submits show ?thesis
      by (cases "packet_id packet \<in> {''knowledge'', ''diag'', ''diagnostics''}"; cases "packet_id packet = ''cancel''")
        (auto simp: daemon_submit_def Let_def)
  qed
qed

interpretation daemon: submit_pipeline "daemon_submit options diagnostics knowledge"
  "PipelineOptions.truncate options" for options diagnostics knowledge
proof unfold_locales
  fix readings s packet
  show "ps_admission (step_state (daemon_submit options diagnostics knowledge readings s packet)) = ps_admission s \<and>
      step_dispatched (daemon_submit options diagnostics knowledge readings s packet) = [] \<and>
      step_result (daemon_submit options diagnostics knowledge readings s packet) \<noteq> None \<or>
    (\<exists>request. daemon_submit options diagnostics knowledge readings s packet =
      submit_authorised (PipelineOptions.truncate options) readings s request)"
    by (rule daemon_submit_cases [of options diagnostics knowledge readings s packet])
      (simp_all, blast)
qed

section \<open>Who is served\<close>

text \<open>What the policy backend of the daemon has to say for a submission to go through.\<close>

definition policy_permits :: "PipelineOptions \<Rightarrow> InboundPacket \<Rightarrow> SubjectIdentity \<Rightarrow> bool" where
  "policy_permits options packet subject \<longleftrightarrow>
     (case security_policy_manager options of
        None \<Rightarrow> policy_backend_available options \<and> po_allow_submit options
      | Some manager \<Rightarrow>
          \<exists>query. pq_subject_identity query = subject \<and>
            operation_target query =
              \<lparr>operation = ''submit'', target_type = ''entry'', target_ref = entry_type packet\<rparr> \<and>
            pq_entry_type query = entry_type packet \<and>
            decision_is_valid (manager (manager_query query)) \<and>
            pd_decision (manager (manager_query query)) = Policy_Allow)"

lemma front_passes:
  assumes "front_rejection options packet auth = None"
  shows "au_authenticated auth \<and> pr_allowed (submit_policy options packet auth)"
  using assms by (simp add: front_rejection_def Let_def split: if_splits)

lemma built_query:
  assumes "build_query_context input ''submit'' ''entry'' (entry_type (pi_packet input)) False = Some q"
  shows "pq_subject_identity q = au_subject_identity (pi_authentication input) \<and>
    operation_target q =
      \<lparr>operation = ''submit'', target_type = ''entry'', target_ref = entry_type (pi_packet input)\<rparr> \<and>
    pq_entry_type q = entry_type (pi_packet input)"
  using assms by (auto simp: build_query_context_def Let_def split: if_splits)

lemma submission_permitted:
  assumes "pr_allowed (submit_policy options packet auth)"
  shows "proof_decision (pr_decision_proof (submit_policy options packet auth)) = ''Allow'' \<and>
    policy_permits options packet (au_subject_identity auth)"
proof (cases "security_policy_manager options")
  case None
  then have eq: "submit_policy options packet auth =
      evaluate_submit (snapshot_evaluate (submit_backend options)) (policy_input options packet auth)"
    by (simp add: submit_policy_def submit_evaluator_def)
  obtain q where q: "build_query_context (policy_input options packet auth) ''submit'' ''entry''
      (entry_type packet) False = Some q" "submit_policy options packet auth = snapshot_evaluate (submit_backend options) q"
    using snapshot.submit_allowed assms unfolding eq by (fastforce simp: policy_input_def)
  have "operation (operation_target q) = ''submit''"
    using built_query [of "policy_input options packet auth" q] q(1) by (simp add: policy_input_def)
  moreover have "backend_available (submit_backend options)"
    "snapshot_allows (submit_backend options) (operation (operation_target q))"
    using assms unfolding q(2) snapshot_allows_iff by blast+
  moreover have "proof_decision (pr_decision_proof (submit_policy options packet auth)) = ''Allow''"
    using snapshot.submit_allowed assms unfolding eq by blast
  ultimately show ?thesis
    using None by (simp add: policy_permits_def snapshot_allows_def submit_backend_def)
next
  case (Some manager)
  then have eq: "submit_policy options packet auth =
      evaluate_submit (infra_evaluate manager) (policy_input options packet auth)"
    by (simp add: submit_policy_def submit_evaluator_def)
  obtain q where q: "build_query_context (policy_input options packet auth) ''submit'' ''entry''
      (entry_type packet) False = Some q" "submit_policy options packet auth = infra_evaluate manager q"
    using infra.submit_allowed assms unfolding eq by (fastforce simp: policy_input_def)
  have "decision_is_valid (manager (manager_query q)) \<and> pd_decision (manager (manager_query q)) = Policy_Allow"
    using assms unfolding q(2) infra_allows_iff by blast
  with Some q(1) built_query [of "policy_input options packet auth" q] show ?thesis
    using infra.submit_allowed assms unfolding eq by (auto simp: policy_permits_def policy_input_def)
qed

lemma built_request [simp]:
  "dispatch_packet (build_runtime_request packet auth result) = packet"
  "subject_identity (build_runtime_request packet auth result) = au_subject_identity auth"
  "decision_proof (build_runtime_request packet auth result) = pr_decision_proof result"
  by (simp_all add: build_runtime_request_def)

lemma submitted_calls:
  assumes "r \<in> set (step_dispatched (submit_authorised options readings s request))"
  shows "step_dispatched (submit_authorised options readings s request) = [r] \<and>
    dispatch_packet r = dispatch_packet request \<and> subject_identity r = subject_identity request \<and>
    proof_decision (decision_proof r) = ''Allow'' \<and>
    ok (validate_agent_request_field_rules (agent_request r)) \<and>
    validate_packet (po_validator options) request = None \<and>
    admitted (snd (admit (ps_admission s) request (admit_ns readings)))"
proof -
  have v: "validate_packet (po_validator options) request = None"
    using assms by (auto simp: submit_authorised_def split: option.splits)
  obtain a verdict where a: "admit (ps_admission s) request (admit_ns readings) = (a, verdict)" by fastforce
  with assms v have "admitted verdict" by (auto simp: submit_authorised_def split: if_splits)
  with v a have "submit_authorised options readings s request =
      dispatch_admitted options readings (s\<lparr>ps_admission := a\<rparr>) request (ticket_ref verdict)"
    by (simp add: submit_authorised_def)
  with assms dispatch_admitted_calls [of r options readings "s\<lparr>ps_admission := a\<rparr>" request "ticket_ref verdict"]
    normalized_request v a \<open>admitted verdict\<close>
  show ?thesis by fastforce
qed

lemma submitted_cancels [simp]: "step_cancelled (submit_authorised options readings s request) = []"
  by (simp add: submit_authorised_def dispatch_admitted_def split: option.split prod.split sum.split)

text \<open>
  C3. Only authorised requests reach the runtime: when the daemon hands a request to the runtime
  backend, it is the only one of the call and carries the packet; the packet came over the local
  entry and claims a user on the allow list, who is the subject of the request as a local operator;
  the policy backend permits the submission of this subject, the request bears an Allow decision,
  and its agent request passes the field rules of the contract.
\<close>

theorem only_authorised_requests_dispatched:
  assumes "r \<in> set (step_dispatched (daemon_submit options diagnostics knowledge readings s packet))"
  shows "step_dispatched (daemon_submit options diagnostics knowledge readings s packet) = [r] \<and>
    dispatch_packet r = packet \<and> is_local_entry_type (entry_type packet) \<and>
    (\<exists>uid. claimed_uid packet = Some uid \<and>
       uid_actor_ref uid \<in> set (trusted_local_subjects (po_auth_view options)) \<and>
       subject_identity r = local_operator uid \<and>
       policy_permits (PipelineOptions.truncate options) packet (local_operator uid)) \<and>
    proof_decision (decision_proof r) = ''Allow'' \<and>
    ok (validate_agent_request_field_rules (agent_request r))"
proof (rule daemon_submit_cases [of options diagnostics knowledge readings s packet])
  let ?auth = "daemon_authentication (po_auth_view options) packet"
  assume front: "front_rejection (PipelineOptions.truncate options) packet ?auth = None"
    and sub: "daemon_submit options diagnostics knowledge readings s packet =
      submit_authorised (PipelineOptions.truncate options) readings s
        (build_runtime_request packet ?auth (submit_policy (PipelineOptions.truncate options) packet ?auth))"
  note passes = front_passes [OF front]
  then obtain uid where uid: "is_local_entry_type (entry_type packet)" "claimed_uid packet = Some uid"
    "uid_actor_ref uid \<in> set (trusted_local_subjects (po_auth_view options))"
    using daemon_authenticated_iff by blast
  with daemon_resolved have subject: "au_subject_identity ?auth = local_operator uid" by blast
  have "policy_permits (PipelineOptions.truncate options) packet (local_operator uid)"
    using submission_permitted passes subject by metis
  with uid subject submitted_calls [OF assms [unfolded sub]] show ?thesis unfolding sub by auto
qed (use assms in simp_all)

lemma cancel_calls:
  assumes "(request_id, actor) \<in> set (fst (snd (handle_cancel r rid owner b c1 c2 c3)))"
  shows "fst (snd (handle_cancel r rid owner b c1 c2 c3)) = [(request_id, actor)] \<and>
    actor = owner_actor_ref owner"
  using assms
  by (auto simp: handle_cancel_def Let_def split: prod.splits if_splits option.splits)

lemma cancel_needs_token:
  assumes "registry_ok r" and "(request_id, actor) \<in> set (fst (snd (handle_cancel r rid owner b c1 c2 c3)))"
  shows "holds_token r rid owner"
proof (rule ccontr)
  assume "\<not> holds_token r rid owner"
  from status_unknown [OF assms(1) this, of c1 c2] assms(2) show False
    by (auto simp: handle_cancel_def Let_def split: prod.splits)
qed

text \<open>
  C11. Only the authenticated owner cancels: a call of the daemon that reaches the cancel backend is
  a cancel command, makes that one call, and comes from an allow-listed local user whose own
  actor reference, not one of the payload, is both the actor of the call and the owner of the
  receipt, and who presents the token that was issued for it.
\<close>

theorem only_owner_cancels:
  assumes "registry_ok (ps_registry s)"
    and "(request_id, actor) \<in> set (step_cancelled (daemon_submit options diagnostics knowledge readings s packet))"
  shows "packet_id packet = ''cancel'' \<and> is_local_entry_type (entry_type packet) \<and>
    step_cancelled (daemon_submit options diagnostics knowledge readings s packet) = [(request_id, actor)] \<and>
    (\<exists>uid query. claimed_uid packet = Some uid \<and> actor = uid_actor_ref uid \<and>
       uid_actor_ref uid \<in> set (trusted_local_subjects (po_auth_view options)) \<and>
       parse_status_query_payload (ip_payload packet) = Some query \<and>
       holds_token (ps_registry s) (sq_receipt_ref query)
         \<lparr>owner_actor_ref = uid_actor_ref uid, owner_token = sq_ownership_token query\<rparr>)"
proof (rule daemon_submit_cases [of options diagnostics knowledge readings s packet])
  let ?auth = "daemon_authentication (po_auth_view options) packet"
  assume front: "front_rejection (PipelineOptions.truncate options) packet ?auth = None"
    and kind: "packet_id packet = ''cancel''"
    and sub: "daemon_submit options diagnostics knowledge readings s packet =
      cancel_command (PipelineOptions.truncate options) readings s packet ?auth"
  obtain uid where uid: "is_local_entry_type (entry_type packet)" "claimed_uid packet = Some uid"
    "uid_actor_ref uid \<in> set (trusted_local_subjects (po_auth_view options))"
    using daemon_authenticated_iff front_passes [OF front] by blast
  with daemon_resolved have actor: "actor_ref (au_subject_identity ?auth) = uid_actor_ref uid"
    by (simp add: local_operator_def)
  obtain query where query: "parse_status_query_payload (ip_payload packet) = Some query"
    using assms(2) unfolding sub cancel_command_def by (auto split: option.splits)
  let ?owner = "\<lparr>owner_actor_ref = uid_actor_ref uid, owner_token = sq_ownership_token query\<rparr>"
  define calls where "calls = fst (snd (handle_cancel (ps_registry s) (sq_receipt_ref query) ?owner
    (Some (bridge_cancel (runtime_cancel_backend (PipelineOptions.truncate options))))
    (query_clocks readings) (owner_clocks readings) (cancel_clocks readings)))"
  have "step_cancelled (daemon_submit options diagnostics knowledge readings s packet) =
      (if runtime_cancel_backend (PipelineOptions.truncate options) = None then [] else calls)"
    using actor query unfolding sub cancel_command_def calls_def by (simp split: prod.split)
  with assms(2) have made: "(request_id, actor) \<in> set calls"
    "step_cancelled (daemon_submit options diagnostics knowledge readings s packet) = calls"
    by (auto split: if_splits)
  with cancel_calls cancel_needs_token [OF assms(1)] kind uid query show ?thesis
    unfolding calls_def by fastforce
qed (use assms(2) in simp_all)

text \<open>
  C4. At most one dispatch per window: once the daemon has handed a request to the runtime, with no
  older ticket of its idempotency signature in flight, no later packet makes it hand over another
  request of that signature until the end of the request's idempotency window, whatever the backend
  answered, a throw included.
\<close>

theorem dispatched_once_per_window:
  assumes "r \<in> set (step_dispatched (daemon_submit options diagnostics knowledge readings s packet))"
    and "\<forall>(k', it)\<in>set (inflight_tickets (ps_admission s)). it_signature it \<noteq> build_idempotency_signature r"
    and "\<forall>(readings', packet')\<in>set calls.
      admit_ns readings' \<le> window_end (ps_admission s) (admit_ns readings)"
    and "unat (ticket_counter (ps_admission s)) + length calls + 1 < 2 ^ 64"
  shows "\<forall>step\<in>set (serve (daemon_submit options diagnostics knowledge)
      (step_state (daemon_submit options diagnostics knowledge readings s packet)) calls).
    \<forall>r'\<in>set (step_dispatched step). build_idempotency_signature r' \<noteq> build_idempotency_signature r"
  using daemon.dispatched_once [OF assms] by blast

text \<open>
  C12. No ticket outlives its call: however many packets the daemon serves, the tickets in flight
  grow by no more than the number of calls in which the runtime backend threw; for the gateway it
  is the same.
\<close>

theorem tickets_leak_only_by_throws:
  "length (inflight_tickets (ps_admission (served (daemon_submit options diagnostics knowledge) s calls))) \<le>
     length (inflight_tickets (ps_admission s)) +
     length (filter (\<lambda>step. step_result step = None) (serve (daemon_submit options diagnostics knowledge) s calls)) \<and>
   length (inflight_tickets (ps_admission (served (gateway_submit base) s calls))) \<le>
     length (inflight_tickets (ps_admission s)) +
     length (filter (\<lambda>step. step_result step = None) (serve (gateway_submit base) s calls))"
  using daemon.inflight_only_by_throws gateway.inflight_only_by_throws by blast

section \<open>A daemon at work\<close>

definition sample_result :: RuntimeDispatchResult where
  "sample_result = \<lparr>rd_disposition = Access_Completed, publish_envelope = None, rd_receipt_ref = None,
     subscription_ref = None, rd_error_ref = None, response_context = Map.empty\<rparr>"

definition sample_daemon :: DaemonOptions where
  "sample_daemon =
     \<lparr>po_auth_view = \<lparr>peer_auth_mode = ''local_trusted'', auth_provider_ref = None,
        trusted_local_subjects = [uid_actor_ref 1000], strict_auth_required = True\<rparr>,
      po_validator = \<lparr>rvd_publish_view =
          \<lparr>result_replay_ttl_ms = 0, stream_heartbeat_ms = 0, slow_consumer_max_buffer = 0,
           drain_timeout_ms = 0, max_payload_bytes = 1024, max_user_input_bytes = 1024,
           cors_allowed_origins = []\<rparr>, allowed_protocols = [''ipc_uds'']\<rparr>,
      po_bootstrap = \<lparr>bootstrap_revision = ''r1'', bc_allowed_protocols = [''ipc_uds''],
        bc_dispatch_deadline_ms = 30000\<rparr>,
      po_fingerprint = None, security_policy_manager = None, policy_backend_available = True,
      po_allow_submit = True, runtime_dispatch_backend = (\<lambda>_. Some sample_result),
      runtime_cancel_backend = Some (\<lambda>_ _. True), publish_backend = None,
      daemon_listener_ready = True, daemon_gateway_ready = True, daemon_bridge_reachable = True,
      daemon_diagnostics_enabled = False, daemon_version = ''1'', daemon_profile_id = ''p'',
      daemon_runtime_readiness_label = ''ready'', daemon_runtime_degraded_reasons = []\<rparr>"

definition sample_submission :: InboundPacket where
  "sample_submission = sample_packet\<lparr>peer_ref := ''local_trusted:1000'', ip_payload := ''hello''\<rparr>"

definition sample_times :: "int \<Rightarrow> SubmitTimes" where
  "sample_times t =
     \<lparr>admit_ns = t, normalize_ms = t, receipt_clocks = sample_clocks t, query_clocks = sample_clocks t,
      owner_clocks = sample_clocks t, cancel_clocks = sample_clocks t\<rparr>"

definition sample_state :: PipelineState where
  "sample_state =
     \<lparr>ps_admission = new_admission_controller sample_admission_view, ps_registry = sample_registry\<rparr>"

lemma no_entry_error:
  "(\<forall>key\<in>set keys. entry_error key (the (context key)) = None) \<Longrightarrow> first_entry_error context keys = None"
  by (induction keys) auto

lemma sample_user: "claimed_uid sample_submission = Some 1000"
  by (simp add: claimed_uid_def sample_submission_def sample_packet_def starts_with_def from_chars_u32_def
      digit_value_def Let_def)

lemma sample_authentication:
  "au_authenticated (daemon_authentication (po_auth_view sample_daemon) sample_submission)"
  "au_subject_identity (daemon_authentication (po_auth_view sample_daemon) sample_submission) = local_operator 1000"
proof -
  have local_entry: "is_local_entry_type (entry_type sample_submission)"
    by (simp add: sample_submission_def sample_packet_def is_local_entry_type_def)
  have "uid_actor_ref 1000 \<in> set (trusted_local_subjects (po_auth_view sample_daemon))"
    by (simp add: sample_daemon_def)
  from daemon_resolved [OF local_entry sample_user this]
  show "au_authenticated (daemon_authentication (po_auth_view sample_daemon) sample_submission)"
    "au_subject_identity (daemon_authentication (po_auth_view sample_daemon) sample_submission) = local_operator 1000"
    by blast+
qed


lemma sample_front:
  assumes "au_authenticated auth" "au_subject_identity auth = local_operator 1000"
  shows "front_rejection (PipelineOptions.truncate sample_daemon) sample_submission auth = None"
  using assms
  by (simp add: front_rejection_def submit_policy_def submit_evaluator_def PipelineOptions.truncate_def
      sample_daemon_def evaluate_submit_def evaluate_with_evaluator_def policy_input_def build_query_context_def
      local_operator_def sample_submission_def sample_packet_def snapshot_evaluate_def submit_backend_def
      default_policy_backend_def query_has_consistent_values_def target_has_consistent_values_def make_allowed_result_def gate_result_def
      snapshot_allows_def)

definition sample_request :: RuntimeDispatchRequest where
  "sample_request =
     (let auth = daemon_authentication (po_auth_view sample_daemon) sample_submission
      in build_runtime_request sample_submission auth
           (submit_policy (PipelineOptions.truncate sample_daemon) sample_submission auth))"

lemma sample_request_parts:
  "dispatch_packet sample_request = sample_submission"
  "subject_identity sample_request = local_operator 1000"
  "request_context sample_request = [''request_id'' \<mapsto> ''p-1'', ''idempotency_key'' \<mapsto> ''p-1'']"
  "proof_decision (decision_proof sample_request) = ''Allow''"
  "access_deadline sample_request = None"
proof -
  have "pr_allowed (submit_policy (PipelineOptions.truncate sample_daemon) sample_submission
      (daemon_authentication (po_auth_view sample_daemon) sample_submission))"
    using front_passes [OF sample_front [OF sample_authentication]] by blast
  from submission_permitted [OF this] show "proof_decision (decision_proof sample_request) = ''Allow''"
    by (simp add: sample_request_def Let_def)
  show "request_context sample_request = [''request_id'' \<mapsto> ''p-1'', ''idempotency_key'' \<mapsto> ''p-1'']"
    by (auto simp: sample_request_def build_runtime_request_def packet_context_def sample_submission_def
        sample_packet_def project_packet_headers_to_request_context_def has_non_empty_value_def Let_def fun_eq_iff)
qed (simp_all add: sample_request_def sample_authentication build_runtime_request_def Let_def)

lemma sample_valid: "validate_packet (po_validator sample_daemon) sample_request = None"
proof -
  have "validate_headers sample_request = None"
    unfolding validate_headers_def
    by (rule no_entry_error)
      (auto simp: sample_request_parts context_keys_def entry_error_def contains_newline_or_cr_def
        is_header_key_char_def Let_def)
  then show ?thesis
    by (simp add: validate_packet_def sample_request_parts sample_submission_def sample_packet_def
        validate_payload_limits_def sample_daemon_def is_allowed_protocol_def local_operator_def Let_def)
qed

lemma sample_admitted:
  "admitted (snd (admit (ps_admission sample_state) sample_request t))"
  by (simp add: sample_state_def new_admission_controller_def admit_def Let_def
      build_idempotency_signature_def sample_request_parts sample_submission_def sample_packet_def
      at_concurrency_limit_def sample_admission_view_def check_idempotency_def prune_expired_records_def
      acquire_inflight_ticket_def)

lemma sample_dispatched:
  "\<exists>r. step_dispatched (daemon_submit sample_daemon None None (sample_times 1) sample_state sample_submission) = [r]"
proof -
  have "daemon_submit sample_daemon None None (sample_times 1) sample_state sample_submission =
      submit_authorised (PipelineOptions.truncate sample_daemon) (sample_times 1) sample_state sample_request"
    using sample_front [OF sample_authentication]
    by (simp add: daemon_submit_def sample_request_def sample_submission_def sample_packet_def Let_def)
  moreover obtain a v where a: "admit (ps_admission sample_state) sample_request 1 = (a, v)" by fastforce
  moreover have "admitted v" using sample_admitted [of 1] a by simp
  moreover obtain out where out: "normalize (po_bootstrap sample_daemon) sample_request 1 = Inr out"
    by (auto simp: normalize_def sample_request_parts sample_submission_def sample_packet_def
        local_operator_def Let_def)
  moreover have "dispatch_reject b (nz_runtime_request out) = None" if "b \<noteq> None" for b
  proof -
    have "ok (validate_agent_request_field_rules (agent_request (nz_runtime_request out)))"
      using normalized_guard [OF out]
      by (simp add: sample_request_parts sample_submission_def sample_packet_def sample_daemon_def)
    moreover have "request_context (nz_runtime_request out) ''normalizer_ready'' = Some ''true''"
      using out by (auto simp: normalize_def Let_def split: if_splits)
    ultimately show ?thesis
      using that normalized_request(3) [OF out]
      by (simp add: dispatch_reject_def sample_request_parts bridge_context_value_def agent_request_value_def
          context_value_def)
  qed
  ultimately show ?thesis
    using sample_valid
    by (simp add: submit_authorised_def dispatch_admitted_def dispatch_def sample_times_def
        PipelineOptions.truncate_def sample_daemon_def split: prod.split option.split)
qed

theorem only_authorised_requests_dispatched_witness:
  "\<exists>r. step_dispatched (daemon_submit sample_daemon None None (sample_times 1) sample_state sample_submission) = [r] \<and>
     (\<exists>uid. claimed_uid sample_submission = Some uid \<and> subject_identity r = local_operator uid)"
proof -
  obtain r where r: "step_dispatched (daemon_submit sample_daemon None None (sample_times 1) sample_state
      sample_submission) = [r]" using sample_dispatched by blast
  then have "r \<in> set (step_dispatched (daemon_submit sample_daemon None None (sample_times 1) sample_state
      sample_submission))" by simp
  from only_authorised_requests_dispatched [OF this] r show ?thesis by blast
qed

theorem dispatched_once_per_window_witness:
  "\<exists>r. step_dispatched (daemon_submit sample_daemon None None (sample_times 1) sample_state sample_submission) = [r] \<and>
     (\<forall>step\<in>set (serve (daemon_submit sample_daemon None None)
         (step_state (daemon_submit sample_daemon None None (sample_times 1) sample_state sample_submission))
         [(sample_times 2, sample_submission)]).
       \<forall>r'\<in>set (step_dispatched step). build_idempotency_signature r' \<noteq> build_idempotency_signature r)"
proof -
  obtain r where r: "step_dispatched (daemon_submit sample_daemon None None (sample_times 1) sample_state
      sample_submission) = [r]" using sample_dispatched by blast
  then have "r \<in> set (step_dispatched (daemon_submit sample_daemon None None (sample_times 1) sample_state
      sample_submission))" by simp
  from dispatched_once_per_window [OF this, of "[(sample_times 2, sample_submission)]"] r show ?thesis
    by (simp add: sample_state_def new_admission_controller_def sample_times_def window_end_def
        sample_admission_view_def)
qed

definition owned_task :: "AsyncTaskRegistry \<times> AsyncTaskReceipt option" where
  "owned_task = register_async_accept sample_registry
     (sample_dispatch_request\<lparr>subject_identity := local_operator 1000\<rparr>) sample_dispatch_result (sample_clocks 1)"

definition owned_token :: string where
  "owned_token = ownership_token (the (snd owned_task))"

definition sample_cancel :: InboundPacket where
  "sample_cancel = sample_submission\<lparr>packet_id := ''cancel'',
     ip_payload := ''receipt_ref=receipt:p-1;ownership_token='' @ owned_token\<rparr>"

lemma owned_task_ok: "registry_ok (fst owned_task)"
proof -
  have "registry_inv 1000 sample_registry"
    using new_registry_ok [of "\<lparr>key_id = ''k1'', key_secret = ''s''\<rparr>" None 1000]
    by (simp add: sample_registry_def new_async_registry_def)
  moreover have "registry_call_ok 1000
      (Rc_Register (sample_dispatch_request\<lparr>subject_identity := local_operator 1000\<rparr>)
        sample_dispatch_result (sample_clocks 1))"
    by (simp add: sample_clocks_def is_i64_def)
  ultimately have "registry_inv 1000 (fst owned_task)" unfolding owned_task_def by (rule registered_ok)
  then show ?thesis by (simp add: registry_inv_def)
qed

lemma owned_task_entry:
  "\<exists>s. map_of (receipts (fst owned_task)) ''receipt:p-1'' = Some s \<and>
       owned_token = ownership_token (stored_receipt s) \<and>
       rc_actor_ref (stored_receipt s) = uid_actor_ref 1000 \<and> rc_request_id (stored_receipt s) = ''p-1'' \<and>
       rc_initial_status (stored_receipt s) = Some ''pending'' \<and> live_at 5 s \<and>
       issued_with (stored_receipt s) \<lparr>key_id = ''k1'', key_secret = ''s''\<rparr> 1 1001 \<and>
       current_key (fst owned_task) = \<lparr>key_id = ''k1'', key_secret = ''s''\<rparr>"
  by (simp add: owned_task_def owned_token_def register_async_accept_def sample_registry_def
      new_async_registry_def sample_dispatch_request_def sample_dispatch_result_def sample_packet_def
      sample_clocks_def Let_def build_receipt_id_def context_or_default_def valid_or_empty_def key_valid_def
      live_at_def issued_with_def receipt_payload_def build_ownership_token_def is_i64_def local_operator_def)

lemma no_semicolon: "CHR '';'' \<notin> set owned_token" "owned_token \<noteq> []"
proof -
  have "CHR '';'' \<notin> set kBase64UrlAlphabet" by (simp add: kBase64UrlAlphabet_def)
  then have enc: "CHR '';'' \<notin> set (base64url_encode bytes)" for bytes using encode_alphabet by blast
  have num: "CHR '';'' \<notin> set (to_string_nat n)" for n
    using to_string_nat_digits [of "CHR '';''" n] by (auto simp: digit_value_def)
  have "CHR '';'' \<notin> set (build_token_payload kid i j rid actor req)" for kid i j rid actor req
    by (simp add: build_token_payload_def base64url_encode_text_def to_string_int_def enc num)
  moreover have "CHR '';'' \<notin> set (hmac_sha256_base64url key m)" for key m
    by (simp add: hmac_sha256_base64url_def Let_def enc)
  moreover obtain payload sig where tok: "owned_token = payload @ ''.'' @ sig"
    "\<exists>kid i j rid actor req. payload = build_token_payload kid i j rid actor req"
    "\<exists>key m. sig = hmac_sha256_base64url key m"
    using owned_task_entry unfolding issued_with_def receipt_payload_def by metis
  ultimately show "CHR '';'' \<notin> set owned_token" "owned_token \<noteq> []" unfolding tok by auto
qed

lemma owned_cancel:
  "handle_cancel (fst owned_task) ''receipt:p-1''
     \<lparr>owner_actor_ref = uid_actor_ref 1000, owner_token = owned_token\<rparr> (Some f)
     (sample_clocks 5) (sample_clocks 5) (sample_clocks 5) =
   (r', calls, res) \<Longrightarrow> calls = [(''p-1'', uid_actor_ref 1000)]"
proof -
  assume cancel: "handle_cancel (fst owned_task) ''receipt:p-1''
     \<lparr>owner_actor_ref = uid_actor_ref 1000, owner_token = owned_token\<rparr> (Some f)
     (sample_clocks 5) (sample_clocks 5) (sample_clocks 5) = (r', calls, res)"
  obtain s where s: "map_of (receipts (fst owned_task)) ''receipt:p-1'' = Some s"
    "owned_token = ownership_token (stored_receipt s)" "rc_actor_ref (stored_receipt s) = uid_actor_ref 1000"
    "rc_request_id (stored_receipt s) = ''p-1''" "rc_initial_status (stored_receipt s) = Some ''pending''"
    "live_at 5 s" "issued_with (stored_receipt s) \<lparr>key_id = ''k1'', key_secret = ''s''\<rparr> 1 1001"
    "current_key (fst owned_task) = \<lparr>key_id = ''k1'', key_secret = ''s''\<rparr>"
    using owned_task_entry by blast
  have "\<exists>n. owned_token = ownership_token (stored_receipt s) @ zeros n"
    by (rule exI [of _ 0]) (simp add: zeros_def s(2))
  then have valid: "snd (validate_ownership (fst owned_task) ''receipt:p-1'' (uid_actor_ref 1000) owned_token
      (sample_clocks 5))"
    unfolding validation_exact_aux [OF owned_task_ok s(1,7)]
    using s by (simp add: key_valid_def sample_clocks_def signing_key_def)
  have "query_receipt (fst owned_task) ''receipt:p-1'' (sample_clocks 5) =
      (fst owned_task, \<lparr>query_status = Query_Found, query_receipt_value = Some (stored_receipt s)\<rparr>)"
    using s by (simp add: query_receipt_def sample_clocks_def)
  with valid s have "snd (handle_status (fst owned_task) ''receipt:p-1''
      \<lparr>owner_actor_ref = uid_actor_ref 1000, owner_token = owned_token\<rparr> (sample_clocks 5) (sample_clocks 5)) =
    \<lparr>dq_status = Task_Active, dq_task_status = ''active'', dq_receipt_ref = ''receipt:p-1'',
     dq_request_id = ''p-1''\<rparr>"
    by (auto simp: handle_status_def split: prod.split)
  with cancel show "calls = [(''p-1'', uid_actor_ref 1000)]"
    by (auto simp: handle_cancel_def Let_def split: prod.splits if_splits)
qed

theorem only_owner_cancels_witness:
  "step_cancelled (daemon_submit sample_daemon None None (sample_times 5)
       (sample_state\<lparr>ps_registry := fst owned_task\<rparr>) sample_cancel) = [(''p-1'', uid_actor_ref 1000)] \<and>
   holds_token (fst owned_task) ''receipt:p-1''
     \<lparr>owner_actor_ref = uid_actor_ref 1000, owner_token = owned_token\<rparr>"
proof -
  let ?s = "sample_state\<lparr>ps_registry := fst owned_task\<rparr>"
  let ?auth = "daemon_authentication (po_auth_view sample_daemon) sample_cancel"
  have "peer_ref sample_cancel = peer_ref sample_submission" by (simp add: sample_cancel_def)
  then have user: "claimed_uid sample_cancel = Some 1000" using sample_user unfolding claimed_uid_def by metis
  have local_entry: "is_local_entry_type (entry_type sample_cancel)"
    by (simp add: sample_cancel_def sample_submission_def sample_packet_def is_local_entry_type_def)
  have "uid_actor_ref 1000 \<in> set (trusted_local_subjects (po_auth_view sample_daemon))"
    by (simp add: sample_daemon_def)
  note auth = daemon_resolved [OF local_entry user this]
  then have "front_rejection (PipelineOptions.truncate sample_daemon) sample_cancel ?auth = None"
    by (simp add: front_rejection_def submit_policy_def submit_evaluator_def PipelineOptions.truncate_def
        sample_daemon_def evaluate_submit_def evaluate_with_evaluator_def policy_input_def
        build_query_context_def local_operator_def sample_cancel_def sample_submission_def sample_packet_def
        snapshot_evaluate_def submit_backend_def default_policy_backend_def query_has_consistent_values_def
        target_has_consistent_values_def make_allowed_result_def gate_result_def snapshot_allows_def)
  then have sub: "daemon_submit sample_daemon None None (sample_times 5) ?s sample_cancel =
      cancel_command (PipelineOptions.truncate sample_daemon) (sample_times 5) ?s sample_cancel ?auth"
    by (simp add: daemon_submit_def sample_cancel_def Let_def)
  have query: "parse_status_query_payload (ip_payload sample_cancel) =
      Some \<lparr>sq_receipt_ref = ''receipt:p-1'', sq_actor_ref = [], sq_ownership_token = owned_token\<rparr>"
    using parse_status_query(1) [of "''receipt:p-1''" owned_token "[]"] no_semicolon
    by (simp add: sample_cancel_def)
  have actor: "actor_ref (au_subject_identity ?auth) = uid_actor_ref 1000"
    using auth by (simp add: local_operator_def)
  obtain r' calls res where h: "handle_cancel (fst owned_task) ''receipt:p-1''
      \<lparr>owner_actor_ref = uid_actor_ref 1000, owner_token = owned_token\<rparr>
      (Some (bridge_cancel (Some (\<lambda>_ _. True)))) (sample_clocks 5) (sample_clocks 5) (sample_clocks 5) =
      (r', calls, res)" by (metis prod_cases3)
  have backend: "runtime_cancel_backend (PipelineOptions.truncate sample_daemon) = Some (\<lambda>_ _. True)"
    by (simp add: PipelineOptions.truncate_def sample_daemon_def)
  have made: "step_cancelled (daemon_submit sample_daemon None None (sample_times 5) ?s sample_cancel) =
      [(''p-1'', uid_actor_ref 1000)]"
    unfolding sub using h owned_cancel [OF h] query actor backend
    by (simp add: cancel_command_def sample_times_def sample_state_def)
  have "registry_ok (ps_registry ?s)" by (simp add: owned_task_ok)
  from only_owner_cancels [OF this, of "''p-1''" "uid_actor_ref 1000" sample_daemon None None "sample_times 5"
      sample_cancel] query user
  have "holds_token (fst owned_task) ''receipt:p-1''
      \<lparr>owner_actor_ref = uid_actor_ref 1000, owner_token = owned_token\<rparr>"
    unfolding made by auto
  with made show ?thesis by blast
qed

text \<open>
  A request that was completed in any way, rejected ones and synchronous ones included, is answered
  as accepted for asynchronous processing when it is repeated within its window.
\<close>

lemma repeated_request_answers_accepted:
  assumes "follows (build_idempotency_signature request) k t1 (Some receipt) s" and "now \<le> t1"
    and "\<not> at_concurrency_limit s" and "build_idempotency_signature request \<noteq> []"
  shows "admission_rejection (snd (admit s request now)) = make_replay_result (Some receipt) \<and>
    rd_disposition (make_replay_result (Some receipt)) = Access_AcceptedAsync"
  using follows_check [OF follows_prune [OF assms(1,2)] assms(2)] assms(3,4)
  by (simp add: admit_def Let_def at_concurrency_limit_def admission_rejection_def replay_result_def
      make_replay_result_def)

text \<open>A throw of the runtime backend leaves the admitted ticket in flight: nothing releases it.\<close>

lemma throw_keeps_ticket:
  assumes "step_result (dispatch_admitted options readings s request (Some k)) = None"
  shows "step_state (dispatch_admitted options readings s request (Some k)) = s"
  using assms by (cases rule: dispatch_admitted_admission [of options readings s request k]) auto

end
