(* ===== verification/Spec2Isabelle.thy ===== *)
theory Spec2Isabelle
  imports Agent_Fsm Budget_Controller Scheduler Safe_Mode Event_Bus Session_Manager Recovery_Manager
    Chunker Daemon_Frame Admission Async_Tasks Replay_Cache Working_Memory Hierarchical_Summary
    Context_Assembly Pipeline_Safety
begin

text \<open>
  \<^bold>\<open>Verification library of the DASALL agent runtime.\<close>

  The program is an agent runtime in C++: clients reach a daemon over framed JSON messages
  (\<^verbatim>\<open>access\<close>), the runtime (\<^verbatim>\<open>runtime\<close>) drives a turn through a guarded state machine under a
  budget, a scheduler and safe modes, and makes it resumable by sessions, checkpoints and a
  recovery manager; what a session has said and learned is kept, compressed and put into the
  context packet of a request within a token budget (\<^verbatim>\<open>memory\<close>); documents are cut into
  chunks for retrieval (\<^verbatim>\<open>knowledge\<close>). This library models the parts of the program that keep state or decide something, each as the code has
  it, and proves what makes each part correct.

  \<^bold>\<open>Theories and code\<close> (paths below \<^verbatim>\<open>src/\<close>; a method of a class is a definition of the same
  name on the record of the class's members).

  \<^item> \<open>Prelude\<close>: machine integers, optionals, list lemmas, and the interface locales
    \<open>machine\<close>, \<open>total_machine\<close> and \<open>keyed_store\<close>, each interpreted on the components.
  \<^item> \<open>Decimal\<close>, \<open>Durable_Codec\<close>: printed numbers and the line-and-hex record format of the
    durable stores of
    \<^verbatim>\<open>CheckpointManager.cpp\<close> and \<^verbatim>\<open>SessionManager.cpp\<close>.
  \<^item> \<open>Runtime_Types\<close>, \<open>Contract_Types\<close>, \<open>Contract_Guards\<close>: enumerations, error codes, the
    contract structs of \<^verbatim>\<open>contracts/include\<close> and their validation functions.
  \<^item> \<open>Agent_Fsm\<close> (\<^verbatim>\<open>runtime/src/fsm\<close>), \<open>Budget_Controller\<close> (\<^verbatim>\<open>runtime/src/budget\<close>),
    \<open>Scheduler\<close> (\<^verbatim>\<open>runtime/src/scheduling\<close>), \<open>Safe_Mode\<close> (\<^verbatim>\<open>runtime/src/safety\<close>), \<open>Event_Bus\<close>
    (\<^verbatim>\<open>runtime/src/telemetry/RuntimeEventBus.cpp\<close>): the control of a turn. \<open>Structured_Log\<close> is
    the log attribute builder they share.
  \<^item> \<open>Checkpoint_Record\<close>, \<open>Checkpoint_Manager\<close>, \<open>Session_Types\<close>, \<open>Session_Record\<close>,
    \<open>Session_Manager\<close>, \<open>Recovery_Manager\<close>: what survives a restart and how a turn is resumed.
  \<^item> \<open>Utf8\<close>, \<open>Json_Reader\<close>, \<open>Daemon_Frame\<close> (\<^verbatim>\<open>access/src/daemon/DaemonFrameCodec.cpp\<close>): the
    messages of the daemon.
  \<^item> \<open>Access_Types\<close>, \<open>Admission\<close> (\<^verbatim>\<open>access/src/AdmissionController.cpp\<close>): the data of the
    access layer and its admission control. \<open>Base64\<close>, \<open>Async_Tasks\<close>
    (\<^verbatim>\<open>access/src/AsyncTaskRegistry.cpp\<close>, \<^verbatim>\<open>access/src/daemon/DaemonTaskQueryHandler.cpp\<close> and
    \<^verbatim>\<open>DaemonResponseBuilderWithReceipt.cpp\<close>): receipts and ownership tokens of asynchronous
    tasks. \<open>Replay_Cache\<close> (\<^verbatim>\<open>access/src/ResultReplayCache.cpp\<close>): the bounded cache of results.
  \<^item> \<open>Memory_Types\<close>, \<open>Memory_Guards\<close> (\<^verbatim>\<open>contracts/include/memory\<close>, \<^verbatim>\<open>contracts/include/context\<close>):
    turns, summaries, facts, packets and their validation. \<open>Context_Budget\<close>
    (\<^verbatim>\<open>memory/src/context/BudgetAllocator.cpp\<close>), \<open>Working_Memory\<close>
    (\<^verbatim>\<open>memory/src/working/WorkingMemoryBoard.cpp\<close>), \<open>Compression\<close> and \<open>Hierarchical_Summary\<close>
    (the two coordinators of \<^verbatim>\<open>memory/src/writeback\<close>), \<open>Context_Text\<close> and \<open>Context_Assembly\<close>
    (\<^verbatim>\<open>memory/src/context/ContextOrchestrator.cpp\<close>): how a packet comes about. The token
    estimator, the summarizer and the summary store are arguments; binary64 products are
    computed exactly and rounded to even.
  \<^item> \<open>Sha256\<close>, \<open>Chunker\<close> (\<^verbatim>\<open>knowledge/src/ingest/Chunker.cpp\<close>): chunks and their identifiers.

  \<^bold>\<open>How the code is read.\<close> A class is a record of its members, a method a function from the
  old state and its arguments to the new state and its result; a mutex makes a call one step,
  so that interleavings are sequences of calls. Clocks, file systems and ports are arguments.
  Files are a map from paths to contents with explicit failure of each operation. Unsigned
  integers are words of their width where they can wrap; signed 64-bit values are integers,
  and a signed overflow, which is undefined in C++, is the value \<open>None\<close> of the step. A throw
  or an early return is a branch of the result type.

  \<^bold>\<open>What the lemmas show.\<close> For each component: the functional behaviour of its operations on
  every branch; an invariant that every run of calls keeps (by the \<open>machine\<close> locales); where
  there is a contract, a refinement of an abstract specification (budget arithmetic, pending
  tickets, a table of sessions); for every stored or transmitted format a round trip; for every
  loop without structural recursion its termination. No fuel is used: the loops of the chunker
  and the JSON reader, the trimming of a board and the cascade of summary promotions are proved
  to return. Lemmas that end in a concrete state show
  deviations of the code that the properties have to exclude.

  \<^bold>\<open>Not modelled.\<close> The orchestration loop (\<^verbatim>\<open>runtime/src/AgentOrchestrator.cpp\<close>), whose ports
  are the language model, tools and memory; cognition, providers and transports; the SQL store
  of the memory, its candidate collector and writeback; the logging, metrics, secret, plugin and update services of \<^verbatim>\<open>infra\<close>; the platform layer;
  command line and terminal front ends. They are effects on systems outside the repository or
  composition of ports, and the components above take what they need from them as arguments.
\<close>

end
